(* ===== verification/Prelude.thy ===== *)
theory Prelude
  imports Complex_Main "HOL-Library.Product_Lexorder"
begin

text \<open>
  Shared vocabulary of the development: Python strings and their methods, truthiness, dictionaries
  and de-duplication, integer parsing and printing, rounding, error values, SQL result ordering,
  and the interface of a component whose operations keep an invariant.

  Strings are lists of code points below 256 (the Latin-1 block, where every string constant that
  the code inspects lies), so \<open>length\<close> counts what Python's \<open>len\<close> counts.  Prose that is only ever
  shown to a user is written without its accents.
\<close>

section \<open>Errors as values\<close>

text \<open>Exceptions of the code: \<open>HTTPException\<close> with status code and detail, and Python's own.\<close>

datatype py_error =
    HTTPException int string
  | ValueError string
  | TypeError string
  | RuntimeError string
  | KeyError string
  | OverflowError string
  | Base32Error string
  | IndexError string
  | NameError string
  | AttributeError string
  | IntegrityError string

type_synonym 'a res = "py_error + 'a"

definition http :: "int \<Rightarrow> string \<Rightarrow> 'a res" where
  "http code msg = Inl (HTTPException code msg)"

definition res_bind :: "'a res \<Rightarrow> ('a \<Rightarrow> 'b res) \<Rightarrow> 'b res" where
  "res_bind r f = (case r of Inl e \<Rightarrow> Inl e | Inr x \<Rightarrow> f x)"

lemma res_bind_simps [simp]:
  "res_bind (Inl e) f = Inl e"
  "res_bind (Inr x) f = f x"
  by (simp_all add: res_bind_def)

lemma res_bind_Inr_iff: "res_bind r f = Inr y \<longleftrightarrow> (\<exists>x. r = Inr x \<and> f x = Inr y)"
  by (cases r) auto

text \<open>A list comprehension whose element expression may raise: the first error wins.\<close>

fun res_map :: "('a \<Rightarrow> 'b res) \<Rightarrow> 'a list \<Rightarrow> 'b list res" where
  "res_map f [] = Inr []"
| "res_map f (x # xs) =
     res_bind (f x) (\<lambda>y. res_bind (res_map f xs) (\<lambda>ys. Inr (y # ys)))"

lemma res_map_Inr: "res_map f xs = Inr ys \<Longrightarrow> list_all2 (\<lambda>x y. f x = Inr y) xs ys"
  by (induction xs arbitrary: ys) (auto simp: res_bind_Inr_iff)

lemma res_map_Inr_set:
  "res_map f xs = Inr ys \<Longrightarrow> y \<in> set ys \<Longrightarrow> \<exists>x\<in>set xs. f x = Inr y"
  by (induction xs arbitrary: ys) (auto simp: res_bind_Inr_iff)

lemma res_map_all_Inr: "(\<And>x. x \<in> set xs \<Longrightarrow> f x = Inr (g x)) \<Longrightarrow> res_map f xs = Inr (map g xs)"
  by (induction xs) auto

section \<open>Python strings\<close>

definition py_space :: "char \<Rightarrow> bool" where
  "py_space c = (let n = (of_char c :: nat) in
     9 \<le> n \<and> n \<le> 13 \<or> 28 \<le> n \<and> n \<le> 32 \<or> n = 133 \<or> n = 160)"

definition py_lstrip :: "string \<Rightarrow> string" where
  "py_lstrip s = dropWhile py_space s"

definition py_strip :: "string \<Rightarrow> string" where
  "py_strip s = rev (py_lstrip (rev (py_lstrip s)))"

text \<open>\<open>str.lower\<close> on Latin-1: the capital letters A-Z and U+00C0..U+00DE without the multiplication
  sign move up by 32.\<close>

definition is_upper :: "char \<Rightarrow> bool" where
  "is_upper c = (let n = (of_char c :: nat) in
     65 \<le> n \<and> n \<le> 90 \<or> 192 \<le> n \<and> n \<le> 222 \<and> n \<noteq> 215)"

definition py_lower_char :: "char \<Rightarrow> char" where
  "py_lower_char c = (if is_upper c then char_of ((of_char c :: nat) + 32) else c)"

definition py_lower :: "string \<Rightarrow> string" where
  "py_lower s = map py_lower_char s"

lemma of_char_lower:
  "(of_char (py_lower_char c) :: nat) =
     (if is_upper c then of_char c + 32 else of_char c)"
  by (auto simp: py_lower_char_def is_upper_def Let_def of_char_mod_256)

lemma is_upper_lower [simp]: "\<not> is_upper (py_lower_char c)"
  unfolding is_upper_def Let_def of_char_lower by (auto simp: is_upper_def Let_def)

lemma py_lower_char_idem [simp]: "py_lower_char (py_lower_char c) = py_lower_char c"
  by (simp add: py_lower_char_def [of "py_lower_char c"])

lemma py_lower_idem [simp]: "py_lower (py_lower s) = py_lower s"
  by (simp add: py_lower_def)

lemma py_space_lower [simp]: "py_space (py_lower_char c) = py_space c"
  unfolding py_space_def Let_def of_char_lower by (auto simp: is_upper_def Let_def)

lemma dropWhile_map_lower:
  "dropWhile py_space (map py_lower_char s) = map py_lower_char (dropWhile py_space s)"
  by (induction s) auto

lemma py_strip_lower: "py_strip (py_lower s) = py_lower (py_strip s)"
  by (simp add: py_strip_def py_lower_def py_lstrip_def dropWhile_map_lower rev_map)

lemma dropWhile_rev_idem:
  "dropWhile P (rev (dropWhile P (rev (dropWhile P s)))) = rev (dropWhile P (rev (dropWhile P s)))"
proof (cases "dropWhile P s")
  case Nil
  then show ?thesis by (simp only: rev.simps dropWhile.simps)
next
  case (Cons x xs)
  then have x: "\<not> P x" by (metis dropWhile_eq_Cons_conv)
  then show ?thesis
    by (simp add: Cons dropWhile_append)
qed

lemma py_strip_idem [simp]: "py_strip (py_strip s) = py_strip s"
  unfolding py_strip_def py_lstrip_def
  by (metis dropWhile_rev_idem rev_rev_ident dropWhile_idem)

lemma py_lstrip_id: "s \<noteq> [] \<Longrightarrow> \<not> py_space (hd s) \<Longrightarrow> py_lstrip s = s"
  by (cases s) (simp_all add: py_lstrip_def)

lemma py_strip_id: "s \<noteq> [] \<Longrightarrow> \<not> py_space (hd s) \<Longrightarrow> \<not> py_space (last s) \<Longrightarrow> py_strip s = s"
  by (simp add: py_strip_def py_lstrip_id hd_rev)

text \<open>\<open>(value or "").strip().lower()\<close>, the normalisation almost every module applies to a token.\<close>

definition or_empty :: "string option \<Rightarrow> string" where
  "or_empty v = (case v of None \<Rightarrow> '''' | Some s \<Rightarrow> s)"

definition norm_token :: "string option \<Rightarrow> string" where
  "norm_token v = py_lower (py_strip (or_empty v))"

lemma or_empty_simps [simp]: "or_empty None = ''''" "or_empty (Some s) = s"
  by (simp_all add: or_empty_def)

lemma norm_token_idem [simp]: "norm_token (Some (norm_token v)) = norm_token v"
  by (simp add: norm_token_def py_strip_lower)

lemma norm_token_None [simp]: "norm_token None = ''''"
  by (simp add: norm_token_def py_strip_def py_lstrip_def py_lower_def)

lemma norm_token_Nil [simp]: "norm_token (Some '''') = ''''"
  by (simp add: norm_token_def py_strip_def py_lstrip_def py_lower_def)

text \<open>\<open>value or None\<close> and \<open>value or default\<close> on strings: the empty string is false.\<close>

definition or_none :: "string \<Rightarrow> string option" where
  "or_none s = (if s = '''' then None else Some s)"

definition or_else :: "string \<Rightarrow> string \<Rightarrow> string" where
  "or_else s d = (if s = '''' then d else s)"

definition str_true :: "string option \<Rightarrow> bool" where
  "str_true v = (or_empty v \<noteq> '''')"

lemma or_none_simps [simp]: "or_none '''' = None" "s \<noteq> '''' \<Longrightarrow> or_none s = Some s"
  by (simp_all add: or_none_def)

definition starts_with :: "string \<Rightarrow> string \<Rightarrow> bool" where
  "starts_with p s = (take (length p) s = p)"

lemma starts_with_Nil [simp]: "starts_with [] s"
  by (simp add: starts_with_def)

lemma starts_with_Cons [simp]:
  "starts_with (c # p) [] = False"
  "starts_with (c # p) (d # s) = (c = d \<and> starts_with p s)"
  by (auto simp: starts_with_def)

lemma starts_with_iff: "starts_with p s \<longleftrightarrow> (\<exists>r. s = p @ r)"
  by (metis append_eq_conv_conj append_take_drop_id starts_with_def)

definition ends_with :: "string \<Rightarrow> string \<Rightarrow> bool" where
  "ends_with p s = starts_with (rev p) (rev s)"

fun contains_str :: "string \<Rightarrow> string \<Rightarrow> bool" where
  "contains_str p [] = (p = [])"
| "contains_str p (c # cs) = (starts_with p (c # cs) \<or> contains_str p cs)"

definition replace_char :: "char \<Rightarrow> char \<Rightarrow> string \<Rightarrow> string" where
  "replace_char a b s = map (\<lambda>c. if c = a then b else c) s"

text \<open>\<open>s.split(sep)\<close> and \<open>s.split(sep, 1)\<close> for a one-character separator; \<open>sep.join(parts)\<close>.\<close>

fun split_on :: "char \<Rightarrow> string \<Rightarrow> string list" where
  "split_on d [] = [[]]"
| "split_on d (c # cs) =
     (if c = d then [] # split_on d cs
      else (case split_on d cs of [] \<Rightarrow> [[c]] | p # ps \<Rightarrow> (c # p) # ps))"

definition split_once :: "char \<Rightarrow> string \<Rightarrow> (string \<times> string) option" where
  "split_once d s =
     (case dropWhile (\<lambda>c. c \<noteq> d) s of
        [] \<Rightarrow> None
      | _ # rest \<Rightarrow> Some (takeWhile (\<lambda>c. c \<noteq> d) s, rest))"

fun join_with :: "string \<Rightarrow> string list \<Rightarrow> string" where
  "join_with sep [] = ''''"
| "join_with sep [s] = s"
| "join_with sep (s # t # ts) = s @ sep @ join_with sep (t # ts)"

lemma split_on_neq_Nil [simp]: "split_on d s \<noteq> []"
  by (induction s) (auto split: list.splits)

lemma split_once_append:
  "d \<notin> set a \<Longrightarrow> split_once d (a @ d # b) = Some (a, b)"
  by (induction a) (auto simp: split_once_def split: list.splits)

lemma split_once_Cons:
  "split_once d (c # s) =
     (if c = d then Some ([], s) else map_option (\<lambda>(a, b). (c # a, b)) (split_once d s))"
  by (cases "dropWhile (\<lambda>c. c \<noteq> d) s")
    (simp_all add: split_once_def del: dropWhile_eq_Nil_conv)

lemma split_once_None_iff: "split_once d s = None \<longleftrightarrow> d \<notin> set s"
proof (induction s)
  case Nil
  show ?case by (simp add: split_once_def)
next
  case (Cons c s)
  then show ?case by (auto simp: split_once_Cons)
qed

lemma split_once_SomeD: "split_once d s = Some (a, b) \<Longrightarrow> s = a @ d # b \<and> d \<notin> set a"
proof (induction s arbitrary: a)
  case Nil
  then show ?case by (simp add: split_once_def)
next
  case (Cons c s)
  show ?case
  proof (cases "c = d")
    case True
    with Cons.prems show ?thesis by (auto simp: split_once_def)
  next
    case False
    with Cons.prems obtain a' where "a = c # a'" "split_once d s = Some (a', b)"
      by (auto simp: split_once_Cons)
    with Cons.IH False show ?thesis by auto
  qed
qed

section \<open>Integers and text\<close>

definition is_digit :: "char \<Rightarrow> bool" where
  "is_digit c = (let n = (of_char c :: nat) in 48 \<le> n \<and> n \<le> 57)"

definition digit_val :: "char \<Rightarrow> int" where
  "digit_val c = int (of_char c :: nat) - 48"

definition digit_char :: "nat \<Rightarrow> char" where
  "digit_char n = char_of (48 + n)"

text \<open>\<open>str.isdigit\<close> also holds of the superscripts one, two and three of Latin-1.\<close>

definition py_isdigit :: "string \<Rightarrow> bool" where
  "py_isdigit s = (s \<noteq> [] \<and>
     list_all (\<lambda>c. is_digit c \<or> (of_char c :: nat) \<in> {178, 179, 185}) s)"

text \<open>Python's \<open>int(text)\<close>: surrounding white space, a sign, digits with single underscores between
  them; anything else raises (here \<open>None\<close>).\<close>

fun parse_digits :: "int \<Rightarrow> bool \<Rightarrow> string \<Rightarrow> int option" where
  "parse_digits acc prev [] = (if prev then Some acc else None)"
| "parse_digits acc prev (c # cs) =
     (if is_digit c then parse_digits (10 * acc + digit_val c) True cs
      else if c = CHR ''_'' \<and> prev then parse_digits acc False cs
      else None)"

definition py_int_of_str :: "string \<Rightarrow> int option" where
  "py_int_of_str s =
     (case py_strip s of
        [] \<Rightarrow> None
      | c # cs \<Rightarrow>
          if c = CHR ''-'' then map_option uminus (parse_digits 0 False cs)
          else if c = CHR ''+'' then parse_digits 0 False cs
          else parse_digits 0 False (c # cs))"

fun nat_str :: "nat \<Rightarrow> string" where
  "nat_str n = (if n < 10 then [digit_char n] else nat_str (n div 10) @ [digit_char (n mod 10)])"

declare nat_str.simps [simp del]

definition int_str :: "int \<Rightarrow> string" where
  "int_str i = (if i < 0 then CHR ''-'' # nat_str (nat (- i)) else nat_str (nat i))"

text \<open>\<open>f"{n:02d}"\<close> for a number below 100.\<close>

definition two_digits :: "int \<Rightarrow> string" where
  "two_digits n = [digit_char (nat (n div 10)), digit_char (nat (n mod 10))]"

lemma of_char_digit_char: "n < 10 \<Longrightarrow> (of_char (digit_char n) :: nat) = 48 + n"
  by (simp add: digit_char_def)

lemma is_digit_digit_char [simp]: "n < 10 \<Longrightarrow> is_digit (digit_char n)"
  by (simp add: is_digit_def of_char_digit_char Let_def)

lemma digit_val_digit_char [simp]: "n < 10 \<Longrightarrow> digit_val (digit_char n) = int n"
  by (simp add: digit_val_def of_char_digit_char)

lemma digit_char_plain:
  "n < 10 \<Longrightarrow> \<not> py_space (digit_char n)" "n < 10 \<Longrightarrow> digit_char n \<noteq> CHR '':''"
  "n < 10 \<Longrightarrow> digit_char n \<noteq> CHR ''-''" "n < 10 \<Longrightarrow> digit_char n \<noteq> CHR ''+''"
  by (auto simp: py_space_def Let_def of_char_digit_char dest!: arg_cong [where f = "of_char :: char \<Rightarrow> nat"])

lemma py_int_two_digits: "0 \<le> n \<Longrightarrow> n \<le> 99 \<Longrightarrow> py_int_of_str (two_digits n) = Some n"
proof -
  assume n: "0 \<le> n" "n \<le> 99"
  then have d: "nat (n div 10) < 10" "nat (n mod 10) < 10" by auto
  have "parse_digits 0 False (two_digits n) = Some n"
    using d n pos_imp_zdiv_nonneg_iff [of 10 n] by (simp add: two_digits_def)
  with d show ?thesis
    by (simp add: py_int_of_str_def two_digits_def py_strip_def py_lstrip_def digit_char_plain)
qed

text \<open>Python's \<open>round\<close> to an integer: half goes to the even neighbour.  Floats are modelled by the
  rationals they denote.\<close>

definition py_round :: "rat \<Rightarrow> int" where
  "py_round x = (let f = \<lfloor>x\<rfloor>; d = x - of_int f in
     if d < 1 / 2 then f else if d > 1 / 2 then f + 1 else if even f then f else f + 1)"

lemma py_round_of_int [simp]: "py_round (of_int n) = n"
  by (simp add: py_round_def Let_def)

lemma py_round_bounds: "\<lfloor>x\<rfloor> \<le> py_round x \<and> py_round x \<le> \<lfloor>x\<rfloor> + 1"
  by (auto simp: py_round_def Let_def)

lemma py_round_le: "x \<le> of_int n \<Longrightarrow> py_round x \<le> n"
proof (cases "x = of_int n")
  case False
  assume "x \<le> of_int n"
  with False have "x < of_int n" by simp
  then have "\<lfloor>x\<rfloor> < n" by (simp add: floor_less_iff)
  then show ?thesis using py_round_bounds [of x] by linarith
qed simp

lemma py_round_ge: "of_int n \<le> x \<Longrightarrow> n \<le> py_round x"
proof -
  assume "of_int n \<le> x"
  then have "n \<le> \<lfloor>x\<rfloor>" by (simp add: le_floor_iff)
  then show ?thesis using py_round_bounds [of x] by linarith
qed

section \<open>Lists and dictionaries\<close>

text \<open>\<open>list(dict.fromkeys(xs))\<close>: the first occurrence of each element, in order.\<close>

fun from_keys :: "'a list \<Rightarrow> 'a list" where
  "from_keys [] = []"
| "from_keys (x # xs) = x # filter (\<lambda>y. y \<noteq> x) (from_keys xs)"

lemma set_from_keys [simp]: "set (from_keys xs) = set xs"
  by (induction xs) auto

lemma distinct_from_keys [simp]: "distinct (from_keys xs)"
  by (induction xs) auto

lemma from_keys_distinct: "distinct xs \<Longrightarrow> from_keys xs = xs"
  by (induction xs) (auto simp: filter_id_conv)

lemma from_keys_idem [simp]: "from_keys (from_keys xs) = from_keys xs"
  by (simp add: from_keys_distinct)

lemma from_keys_eq_Nil [simp]: "from_keys xs = [] \<longleftrightarrow> xs = []"
  by (cases xs) auto

lemma find_distinct_key:
  "distinct (map f xs) \<Longrightarrow> x \<in> set xs \<Longrightarrow> List.find (\<lambda>y. f y = f x) xs = Some x"
  by (induction xs) (auto simp: image_iff)

text \<open>A Python dictionary as an association list in insertion order: assignment to a present key
  keeps its place.\<close>

fun dict_set :: "'k \<Rightarrow> 'v \<Rightarrow> ('k \<times> 'v) list \<Rightarrow> ('k \<times> 'v) list" where
  "dict_set k v [] = [(k, v)]"
| "dict_set k v ((k', v') # d) = (if k' = k then (k, v) # d else (k', v') # dict_set k v d)"

definition dict_update :: "('k \<times> 'v) list \<Rightarrow> ('k \<times> 'v) list \<Rightarrow> ('k \<times> 'v) list" where
  "dict_update d e = fold (\<lambda>(k, v). dict_set k v) e d"

lemma map_of_dict_set: "map_of (dict_set k v d) = (map_of d)(k \<mapsto> v)"
  by (induction k v d rule: dict_set.induct) auto

lemma map_of_dict_update: "map_of (dict_update d e) x = (map_of d ++ map_of (rev e)) x"
proof (induction e arbitrary: d)
  case Nil
  show ?case by (simp add: dict_update_def)
next
  case (Cons kv e)
  obtain k v where kv: "kv = (k, v)" by (cases kv)
  have "map_of (dict_update d (kv # e)) x = map_of (dict_update (dict_set k v d) e) x"
    by (simp add: dict_update_def kv)
  also have "\<dots> = ((map_of d)(k \<mapsto> v) ++ map_of (rev e)) x"
    unfolding Cons.IH map_of_dict_set ..
  finally show ?case
    by (auto simp: kv map_of_append map_add_def split: option.splits)
qed

section \<open>Result order of a query\<close>

text \<open>\<open>ORDER BY x ASC NULLS LAST\<close> sorts by \<open>NullsLast x\<close>; \<open>x DESC NULLS LAST\<close> by
  \<open>NullsLast (map_option Desc x)\<close>.  Several criteria are a tuple, ordered lexicographically.\<close>

datatype 'a nulls_last = NullsLast "'a option"

datatype 'a desc = Desc 'a

instantiation nulls_last :: (linorder) linorder
begin

definition less_eq_nulls_last :: "'a nulls_last \<Rightarrow> 'a nulls_last \<Rightarrow> bool" where
  "a \<le> b = (case (a, b) of (NullsLast x, NullsLast y) \<Rightarrow>
     (case y of None \<Rightarrow> True
      | Some y' \<Rightarrow> (case x of None \<Rightarrow> False | Some x' \<Rightarrow> x' \<le> y')))"

definition less_nulls_last :: "'a nulls_last \<Rightarrow> 'a nulls_last \<Rightarrow> bool" where
  "(a :: 'a nulls_last) < b = (a \<le> b \<and> \<not> b \<le> a)"

instance
proof
  fix x y z :: "'a nulls_last"
  show "x < y \<longleftrightarrow> x \<le> y \<and> \<not> y \<le> x" by (simp add: less_nulls_last_def)
  show "x \<le> x"
    by (auto simp: less_eq_nulls_last_def split: nulls_last.splits option.splits)
  show "x \<le> y \<Longrightarrow> y \<le> z \<Longrightarrow> x \<le> z"
    by (auto simp: less_eq_nulls_last_def split: nulls_last.splits option.splits)
  show "x \<le> y \<Longrightarrow> y \<le> x \<Longrightarrow> x = y"
    by (auto simp: less_eq_nulls_last_def split: nulls_last.splits option.splits)
  show "x \<le> y \<or> y \<le> x"
    by (auto simp: less_eq_nulls_last_def split: nulls_last.splits option.splits)
qed

end

instantiation desc :: (linorder) linorder
begin

definition less_eq_desc :: "'a desc \<Rightarrow> 'a desc \<Rightarrow> bool" where
  "a \<le> b = (case (a, b) of (Desc x, Desc y) \<Rightarrow> y \<le> x)"

definition less_desc :: "'a desc \<Rightarrow> 'a desc \<Rightarrow> bool" where
  "a < b = (case (a, b) of (Desc x, Desc y) \<Rightarrow> y < x)"

instance
  by standard (auto simp: less_eq_desc_def less_desc_def split: desc.splits)

end

lemma nulls_last_simps [simp]:
  "a \<le> NullsLast None"
  "\<not> NullsLast None \<le> NullsLast (Some x)"
  "NullsLast (Some x) \<le> NullsLast (Some y) \<longleftrightarrow> x \<le> y"
  "NullsLast (Some x) < NullsLast (Some y) \<longleftrightarrow> x < y"
  "NullsLast (Some x) < NullsLast None"
  "\<not> NullsLast None < b"
  by (auto simp: less_eq_nulls_last_def less_nulls_last_def split: nulls_last.splits option.splits)

lemma desc_simps [simp]:
  "Desc x \<le> Desc y \<longleftrightarrow> y \<le> x"
  "Desc x < Desc y \<longleftrightarrow> y < x"
  by (simp_all add: less_eq_desc_def less_desc_def)

text \<open>\<open>select(...).order_by(key).limit(1)\<close>.\<close>

definition first_by :: "('a \<Rightarrow> 'k::linorder) \<Rightarrow> 'a list \<Rightarrow> 'a option" where
  "first_by key xs = (case sort_key key xs of [] \<Rightarrow> None | x # _ \<Rightarrow> Some x)"

lemma sort_key_eq_Nil: "sort_key f xs = [] \<longleftrightarrow> xs = []"
  by (metis length_0_conv length_sort)

lemma first_by_None [simp]: "first_by key xs = None \<longleftrightarrow> xs = []"
  unfolding first_by_def using sort_key_eq_Nil [of key xs] by (auto split: list.splits)

lemma first_by_Nil [simp]: "first_by key [] = None"
  by simp

lemma first_by_in: "first_by key xs = Some x \<Longrightarrow> x \<in> set xs"
  unfolding first_by_def by (metis list.case_eq_if list.set_sel(1) option.distinct(1)
      option.inject set_sort)

lemma first_by_least:
  assumes "first_by key xs = Some x" and "y \<in> set xs"
  shows "key x \<le> key y"
proof -
  from assms(1) obtain zs where zs: "sort_key key xs = x # zs"
    by (auto simp: first_by_def split: list.splits)
  with assms(2) have "y \<in> set (x # zs)" by (metis set_sort)
  moreover have "sorted (map key (x # zs))" using sorted_sort_key [of key xs] zs by simp
  ultimately show ?thesis by auto
qed

section \<open>Components that keep an invariant\<close>

text \<open>Several components offer operations on one state that share a contract: whatever the
  operation and its arguments, an invariant of the state is kept.  What follows for every history
  of operations is proved once here.\<close>

locale invariant_machine =
  fixes step :: "'s \<Rightarrow> 'e \<Rightarrow> 's"
    and inv :: "'s \<Rightarrow> bool"
  assumes inv_step: "inv s \<Longrightarrow> inv (step s e)"
begin

lemma inv_run: "inv s \<Longrightarrow> inv (foldl step s es)"
  by (induction es arbitrary: s) (auto intro: inv_step)

end

text \<open>Rows that no operation touches any more once they are final: a finished request, an ended session.\<close>

locale frozen_rows = invariant_machine step inv
  for step :: "'s \<Rightarrow> 'e \<Rightarrow> 's" and inv :: "'s \<Rightarrow> bool" +
  fixes rows :: "'s \<Rightarrow> 'r set"
    and final :: "'r \<Rightarrow> bool"
  assumes frozen_step: "inv s \<Longrightarrow> r \<in> rows s \<Longrightarrow> final r \<Longrightarrow> r \<in> rows (step s e)"
begin

lemma frozen_run: "inv s \<Longrightarrow> r \<in> rows s \<Longrightarrow> final r \<Longrightarrow> r \<in> rows (foldl step s es)"
  by (induction es arbitrary: s) (auto intro: frozen_step inv_step)

end

text \<open>The state after an operation that leaves it alone when it raises.\<close>

definition or_same :: "'s \<Rightarrow> 's res \<Rightarrow> 's" where
  "or_same st r = (case r of Inl _ \<Rightarrow> st | Inr st' \<Rightarrow> st')"

lemma or_same_simps [simp]: "or_same st (Inl e) = st" "or_same st (Inr st') = st'"
  by (simp_all add: or_same_def)

lemma map_fst_Inr: "map_sum id fst r = Inr x \<longleftrightarrow> (\<exists>y. r = Inr (x, y))"
  by (cases r) auto

lemma map_snd_Inr: "map_sum id snd r = Inr y \<longleftrightarrow> (\<exists>x. r = Inr (x, y))"
  by (cases r) auto

end
