(* ===== verification/Models.thy ===== *)
theory Models
  imports Prelude
begin

text \<open>
  The rows of the database that several components read, from \<open>models/auth.py\<close>,
  \<open>models/access_control.py\<close>, \<open>models/platform.py\<close> and \<open>models/catalog.py\<close>: one record per mapped
  class, one field per column or relationship that modelled code reads or writes.  A nullable column
  is an option, a relationship is the row (or the list of rows) it loads, an instant is the number
  of microseconds since the epoch in UTC.
\<close>

type_synonym instant = int

definition one_day :: int where "one_day = 86400000000"

text \<open>The first and the last moment a \<open>datetime\<close> can hold; arithmetic that leaves the range raises.\<close>

definition datetime_min :: instant where "datetime_min = - 62135596800000000"

definition datetime_max :: instant where "datetime_max = 253402300799999999"

definition in_range :: "instant \<Rightarrow> instant res" where
  "in_range t = (if datetime_min \<le> t \<and> t \<le> datetime_max then Inr t
     else Inl (OverflowError ''date value out of range''))"

text \<open>A \<open>datetime\<close> that a request carries may be naive; comparing it with an aware one is a TypeError.\<close>

datatype py_datetime = Aware instant | Naive instant

definition as_utc :: "py_datetime \<Rightarrow> instant" where
  "as_utc d = (case d of Aware t \<Rightarrow> t | Naive t \<Rightarrow> t)"

text \<open>A JSON value as Python holds it: an object is an association list in insertion order.\<close>

datatype py_value =
    PNone
  | PBool bool
  | PInt int
  | PFloat rat
  | PStr string
  | PList "py_value list"
  | PDict "(string \<times> py_value) list"

fun py_true :: "py_value \<Rightarrow> bool" where
  "py_true PNone = False"
| "py_true (PBool b) = b"
| "py_true (PInt i) = (i \<noteq> 0)"
| "py_true (PFloat x) = (x \<noteq> 0)"
| "py_true (PStr s) = (s \<noteq> [])"
| "py_true (PList xs) = (xs \<noteq> [])"
| "py_true (PDict d) = (d \<noteq> [])"

text \<open>\<open>int(value)\<close>.\<close>

fun py_int :: "py_value \<Rightarrow> int res" where
  "py_int (PBool b) = Inr (if b then 1 else 0)"
| "py_int (PInt i) = Inr i"
| "py_int (PFloat x) = Inr (if x < 0 then \<lceil>x\<rceil> else \<lfloor>x\<rfloor>)"
| "py_int (PStr s) = (case py_int_of_str s of None \<Rightarrow> Inl (ValueError ''invalid literal for int()'') | Some i \<Rightarrow> Inr i)"
| "py_int _ = Inl (TypeError ''int() argument must be a string, a bytes-like object or a real number'')"

text \<open>\<open>d.get(key)\<close> for a value that is a dictionary, the empty dictionary otherwise.\<close>

definition as_dict :: "py_value option \<Rightarrow> (string \<times> py_value) list" where
  "as_dict v = (case v of Some (PDict d) \<Rightarrow> d | _ \<Rightarrow> [])"

definition dict_get :: "(string \<times> py_value) list \<Rightarrow> string \<Rightarrow> py_value" where
  "dict_get d k = (case map_of d k of None \<Rightarrow> PNone | Some v \<Rightarrow> v)"

section \<open>Users and what they are granted\<close>

record role_row =
  role_name :: string
  role_permissions :: "string list"

record grant_row =
  grant_id :: "int option"
  grant_effect :: "string option"
  grant_datasource_id :: "int option"
  grant_schema_id :: "int option"
  grant_table_id :: "int option"

record group_row =
  group_grants :: "grant_row list"

record user_row =
  user_id :: int
  user_email :: string
  user_name :: "string option"
  user_roles :: "role_row list"
  user_allowed_domains :: "string option list option"
  user_allowed_environments :: "string option list option"
  user_access_grants :: "grant_row list"
  user_access_groups :: "group_row list"
  user_is_active :: bool
  user_token_version :: int
  user_password_hash :: string
  user_password_changed_at :: instant
  user_mfa_enabled :: bool
  user_mfa_secret_encrypted :: "string option"
  user_mfa_grace_logins_used :: int
  user_mfa_locked :: bool
  user_mfa_locked_at :: "instant option"
  user_mfa_last_counter :: "int option"

record session_row =
  sess_user_id :: int
  sess_jti :: string
  sess_started_at :: instant
  sess_expires_at :: "instant option"
  sess_ended_at :: "instant option"
  sess_end_reason :: "string option"
  sess_duration_seconds :: "int option"
  sess_revoked_at :: "instant option"
  sess_mfa_used :: bool

section \<open>The catalogue\<close>

record datasource_row =
  ds_id :: int
  ds_environment :: "string option"

record database_row =
  database_datasource_id :: "int option"
  database_datasource :: "datasource_row option"

record schema_row =
  schema_pk :: int
  schema_database :: "database_row option"

record data_owner_row =
  owner_row_email :: string
  owner_row_area :: "string option"

record table_row =
  table_pk :: int
  table_schema_id :: int
  table_schema :: "schema_row option"
  table_owner_email :: "string option"
  table_data_owner :: "data_owner_row option"
  table_sensitivity_level :: "string option"
  table_has_personal_data :: bool
  table_has_sensitive_personal_data :: bool
  table_access_scope :: "string option"
  table_access_roles :: "string list option"

record visibility_rule =
  rule_entity_type :: string
  rule_entity_id :: "int option"
  rule_scope :: "string option"
  rule_match_value :: "string option"
  rule_allowed_role :: "string option"
  rule_allowed_user_id :: "int option"
  rule_visibility_scope :: string
  rule_mask_sensitive_fields :: bool
  rule_is_active :: bool

text \<open>Rows used in the concrete instances of the properties.\<close>

definition plain_user :: user_row where
  "plain_user = \<lparr>user_id = 7, user_email = ''ana@x'', user_name = None, user_roles = [],
     user_allowed_domains = None, user_allowed_environments = None, user_access_grants = [],
     user_access_groups = [], user_is_active = True, user_token_version = 0,
     user_password_hash = ''h'', user_password_changed_at = 0, user_mfa_enabled = False,
     user_mfa_secret_encrypted = None, user_mfa_grace_logins_used = 0, user_mfa_locked = False,
     user_mfa_locked_at = None, user_mfa_last_counter = None\<rparr>"

definition user_with_role :: "string \<Rightarrow> user_row" where
  "user_with_role r = plain_user\<lparr>user_roles := [\<lparr>role_name = r, role_permissions = []\<rparr>]\<rparr>"

definition plain_table :: table_row where
  "plain_table = \<lparr>table_pk = 1, table_schema_id = 2, table_schema = None, table_owner_email = None,
     table_data_owner = None, table_sensitivity_level = None, table_has_personal_data = False,
     table_has_sensitive_personal_data = False, table_access_scope = None, table_access_roles = None\<rparr>"

end
