(* ===== verification/Rbac.thy ===== *)
theory Rbac
  imports Models
begin

text \<open>
  Role based access to API paths, \<open>core/rbac.py\<close>: role names and their aliases, the resource a path
  belongs to, and the decision \<open>can_access_path\<close> that every authenticated request passes.
\<close>

section \<open>Role names\<close>

definition role_aliases :: "(string \<times> string) list" where
  "role_aliases =
     [(''administrador'', ''admin''), (''admin'', ''admin''),
      (''editor'', ''editor''), (''analista'', ''editor''), (''analyst'', ''editor''),
      (''viewer'', ''viewer''), (''visualizador'', ''viewer''), (''reader'', ''viewer''),
      (''leitor'', ''viewer''), (''stewardship'', ''stewardship''), (''steward'', ''stewardship''),
      (''data_owner'', ''data_owner''), (''data-owner'', ''data_owner''),
      (''data owner'', ''data_owner''), (''dataowner'', ''data_owner''), (''owner'', ''data_owner'')]"

definition normalize_role_name :: "string option \<Rightarrow> string" where
  "normalize_role_name value = (let raw = norm_token value in
     if raw = '''' then '''' else (case map_of role_aliases raw of None \<Rightarrow> raw | Some r \<Rightarrow> r))"

definition user_role_names :: "user_row option \<Rightarrow> string set" where
  "user_role_names user = (case user of None \<Rightarrow> {}
     | Some u \<Rightarrow> set (filter (\<lambda>n. n \<noteq> '''')
         (map (\<lambda>r. normalize_role_name (Some (role_name r))) (user_roles u))))"

definition is_admin_role :: "string set \<Rightarrow> bool" where
  "is_admin_role roles = (''admin'' \<in> roles)"

definition is_editor_role :: "string set \<Rightarrow> bool" where
  "is_editor_role roles = (''editor'' \<in> roles \<and> ''admin'' \<notin> roles)"

definition is_viewer_role :: "string set \<Rightarrow> bool" where
  "is_viewer_role roles = (''viewer'' \<in> roles \<and> ''admin'' \<notin> roles \<and> ''editor'' \<notin> roles)"

definition is_stewardship_role :: "string set \<Rightarrow> bool" where
  "is_stewardship_role roles = (''stewardship'' \<in> roles \<and> ''admin'' \<notin> roles)"

definition is_data_owner_role :: "string set \<Rightarrow> bool" where
  "is_data_owner_role roles = (''data_owner'' \<in> roles \<and> ''admin'' \<notin> roles)"

section \<open>Paths\<close>

definition normalize_api_scope_path :: "string \<Rightarrow> string" where
  "normalize_api_scope_path path =
     or_else (if starts_with ''/api/v1'' path then drop (length ''/api/v1'') path
              else if starts_with ''/api'' path then drop (length ''/api'') path
              else path) ''/''"

definition is_profile_path :: "string \<Rightarrow> bool" where
  "is_profile_path path = (path = ''/me'' \<or> starts_with ''/me/'' path)"

definition resource_from_path :: "string \<Rightarrow> string" where
  "resource_from_path path =
     (if path = ''/'' \<or> starts_with ''/home'' path then ''home''
      else if starts_with ''/dashboard'' path then ''dashboard''
      else if starts_with ''/search'' path then ''search''
      else if starts_with ''/assistant'' path then ''assistant''
      else if starts_with ''/explorer'' path then ''explorer''
      else if starts_with ''/governance/stewardship'' path \<or> path = ''/stewardship'' then ''stewardship''
      else if starts_with ''/governance'' path then ''governance''
      else if starts_with ''/lineage'' path then ''lineage''
      else if starts_with ''/data-quality'' path \<or> starts_with ''/dq'' path then ''dataQuality''
      else if starts_with ''/incidents'' path then ''incidents''
      else if starts_with ''/glossary'' path then ''glossary''
      else if starts_with ''/tags'' path then ''tags''
      else if starts_with ''/certification'' path then ''certification''
      else if starts_with ''/privacy-access'' path then ''privacyAccess''
      else if starts_with ''/admin/governance'' path then ''configuration''
      else if starts_with ''/me'' path \<or> starts_with ''/profile'' path then ''profile''
      else if starts_with ''/inbox'' path then ''inbox''
      else if starts_with ''/data-owners'' path then ''dataOwners''
      else if starts_with ''/datasources'' path then ''datasources''
      else if starts_with ''/audit'' path then ''audit''
      else if starts_with ''/ops'' path then ''ops''
      else if starts_with ''/admin'' path then ''admin''
      else ''other'')"

definition read_only_write_exceptions :: "string list" where
  "read_only_write_exceptions =
     [''/search/track-query'', ''/search/track-click'', ''/search/favorites'', ''/assistant/explain'']"

definition viewer_prefixes :: "string list" where
  "viewer_prefixes =
     [''/home'', ''/dashboard'', ''/search'', ''/explorer'', ''/lineage'', ''/privacy-access'',
      ''/certification'']"

text \<open>\<open>str.upper\<close> on an HTTP method, whose token is ASCII.\<close>

definition ascii_upper :: "string \<Rightarrow> string" where
  "ascii_upper s = map (\<lambda>c. let n = (of_char c :: nat) in
     if 97 \<le> n \<and> n \<le> 122 then char_of (n - 32) else c) s"

definition can_access_path :: "string set \<Rightarrow> string \<Rightarrow> string \<Rightarrow> bool" where
  "can_access_path roles mtd path =
     (if roles = {} then False
      else if is_admin_role roles then True
      else
        let normalized_path = normalize_api_scope_path path;
            resource = resource_from_path normalized_path;
            http_method = ascii_upper mtd
        in
        if is_profile_path normalized_path then True
        else if resource = ''inbox'' then True
        else if resource = ''configuration'' then is_editor_role roles
        else if is_stewardship_role roles \<or> is_data_owner_role roles then
          (if resource = ''admin'' then False
           else if resource = ''assistant'' then True
           else if http_method = ''GET'' then True
           else resource = ''stewardship'')
        else if is_editor_role roles then
          (if resource = ''configuration'' then http_method = ''GET''
           else if resource \<in> {''datasources'', ''audit'', ''admin''} then False
           else if resource = ''stewardship'' \<and> http_method \<noteq> ''GET'' then False
           else True)
        else if is_viewer_role roles then
          (if http_method \<noteq> ''GET'' then
             normalized_path \<in> set read_only_write_exceptions
             \<or> starts_with ''/search/favorites/'' normalized_path
             \<or> starts_with ''/assistant/explain/'' normalized_path
           else list_ex (\<lambda>p. normalized_path = p \<or> starts_with (p @ ''/'') normalized_path)
                  viewer_prefixes)
        else False)"

section \<open>What the roles may do\<close>

lemma normalize_role_name_idem [simp]:
  "normalize_role_name (Some (normalize_role_name v)) = normalize_role_name v"
proof -
  have canon: "r = ''admin'' \<or> r = ''editor'' \<or> r = ''viewer'' \<or> r = ''stewardship'' \<or> r = ''data_owner''"
    if "map_of role_aliases s = Some r" for s r
    using that by (auto simp: role_aliases_def split: if_splits)
  have fixed: "normalize_role_name (Some ''admin'') = ''admin''"
    "normalize_role_name (Some ''editor'') = ''editor''"
    "normalize_role_name (Some ''viewer'') = ''viewer''"
    "normalize_role_name (Some ''stewardship'') = ''stewardship''"
    "normalize_role_name (Some ''data_owner'') = ''data_owner''"
    by code_simp+
  show ?thesis
  proof (cases "map_of role_aliases (norm_token v)")
    case None
    then show ?thesis by (simp add: normalize_role_name_def Let_def)
  next
    case (Some r)
    then have "norm_token v \<noteq> ''''" by (auto simp: role_aliases_def)
    with Some have "normalize_role_name v = r" by (simp add: normalize_role_name_def)
    with canon [OF Some] fixed show ?thesis by auto
  qed
qed

lemmas role_defs = is_admin_role_def is_editor_role_def is_viewer_role_def is_stewardship_role_def
  is_data_owner_role_def

lemma profile_resource:
  assumes "is_profile_path p" shows "resource_from_path p = ''profile''"
proof -
  from assms obtain r where "p = ''/me'' @ r"
    by (auto simp: is_profile_path_def starts_with_iff)
  then show ?thesis by (simp add: resource_from_path_def)
qed

lemma viewer_prefix_resource:
  assumes "list_ex (\<lambda>p. n = p \<or> starts_with (p @ ''/'') n) viewer_prefixes"
  shows "resource_from_path n \<in> {''home'', ''dashboard'', ''search'', ''explorer'', ''lineage'',
    ''privacyAccess'', ''certification''}"
proof -
  from assms obtain p r where "p \<in> set viewer_prefixes" and n: "n = p @ r"
    by (auto simp: list_ex_iff starts_with_iff)
  then show ?thesis unfolding viewer_prefixes_def n
    by (simp only: set_simps, elim insertE emptyE) (simp_all add: resource_from_path_def)
qed

lemma viewer_write_resource:
  assumes "n \<in> set read_only_write_exceptions \<or> starts_with ''/search/favorites/'' n
    \<or> starts_with ''/assistant/explain/'' n"
  shows "resource_from_path n \<in> {''search'', ''assistant''}"
proof -
  from assms obtain r where "n = ''/search'' @ r \<or> n = ''/assistant'' @ r"
    by (auto simp: read_only_write_exceptions_def starts_with_iff)
  then show ?thesis by (elim disjE) (simp_all add: resource_from_path_def)
qed

lemma admin_area_is_admin_only:
  assumes "resource_from_path (normalize_api_scope_path path) = ''admin''"
  shows "can_access_path roles mtd path \<longleftrightarrow> ''admin'' \<in> roles"
proof -
  let ?n = "normalize_api_scope_path path"
  have "\<not> is_profile_path ?n" using assms profile_resource [of ?n] by auto
  moreover have "\<not> list_ex (\<lambda>p. ?n = p \<or> starts_with (p @ ''/'') ?n) viewer_prefixes"
    using assms viewer_prefix_resource [of ?n] by auto
  moreover have "\<not> (?n \<in> set read_only_write_exceptions \<or> starts_with ''/search/favorites/'' ?n
    \<or> starts_with ''/assistant/explain/'' ?n)"
    using assms viewer_write_resource [of ?n] by auto
  ultimately show ?thesis
    using assms by (simp add: can_access_path_def Let_def role_defs)
qed

text \<open>\<open>can_access_path\<close> is monotone for reading: a role set that may \<open>GET\<close> a path still may
  after more roles are added to it.\<close>

theorem read_access_monotone:
  assumes "roles \<subseteq> roles'" and "ascii_upper mtd = ''GET''" and "can_access_path roles mtd path"
  shows "can_access_path roles' mtd path"
proof -
  let ?n = "normalize_api_scope_path path"
  have v: "list_ex (\<lambda>p. ?n = p \<or> starts_with (p @ ''/'') ?n) viewer_prefixes \<Longrightarrow>
     resource_from_path ?n \<notin> {''admin'', ''configuration'', ''datasources'', ''audit'', ''stewardship''}"
    using viewer_prefix_resource [of ?n] by auto
  show ?thesis
    using assms v unfolding can_access_path_def Let_def role_defs
    by (simp split: if_split_asm) blast+
qed

theorem read_access_monotone_witness:
  "can_access_path {''viewer'', ''stewardship''} ''get'' ''/api/v1/lineage/graph''"
  by (rule read_access_monotone [of "{''viewer''}"]) (simp, code_simp, code_simp)

end
