(* ===== verification/Guard.thy ===== *)
theory Guard
  imports Rbac
begin

text \<open>
  The dependencies every authenticated request passes, \<open>core/deps.py\<close>: \<open>get_current_user\<close> (token, account
  and session checks), the role guard \<open>enforce_role_scope_for_request\<close> and the route dependencies
  \<open>require_roles\<close> and \<open>require_permission\<close>.
\<close>

section \<open>The role guard\<close>

definition guard_is_profile_path :: "string \<Rightarrow> bool" where
  "guard_is_profile_path path =
     (path = ''/me'' \<or> starts_with ''/me/'' path \<or> path = ''/auth/logout'')"

definition under_prefix :: "string list \<Rightarrow> string \<Rightarrow> bool" where
  "under_prefix prefixes path =
     list_ex (\<lambda>p. path = p \<or> starts_with (p @ ''/'') path) prefixes"

definition is_editor_blocked_path :: "string \<Rightarrow> bool" where
  "is_editor_blocked_path path =
     (if starts_with ''/admin/governance'' path then False
      else under_prefix [''/datasources'', ''/admin''] path)"

definition operator_runtime_prefixes :: "string list" where
  "operator_runtime_prefixes =
     [''/scan-runs'', ''/operations'', ''/platform/jobs'', ''/platform/automations'',
      ''/platform/actions'', ''/platform/read-models'']"

definition is_operator_runtime_path :: "string \<Rightarrow> bool" where
  "is_operator_runtime_path path = under_prefix operator_runtime_prefixes path"

definition is_viewer_allowed_read_path :: "string \<Rightarrow> bool" where
  "is_viewer_allowed_read_path path =
     (if path = ''/integrations/data-lake/catalog''
         \<or> starts_with ''/integrations/data-lake/tables'' path then True
      else under_prefix
        [''/home'', ''/metrics'', ''/catalog'', ''/certification'', ''/privacy-access'', ''/lineage'',
         ''/tables'', ''/search'', ''/ping''] path)"

definition is_viewer_allowed_write_path :: "string \<Rightarrow> bool" where
  "is_viewer_allowed_write_path path =
     (path \<in> {''/search/track-query'', ''/search/track-click'', ''/search/favorites'', ''/assistant/explain''}
      \<or> starts_with ''/search/favorites/'' path \<or> starts_with ''/assistant/explain/'' path)"

text \<open>\<open>re.fullmatch(r"/tables/\d+/owner", path)\<close>.\<close>

definition is_asset_owner_write_path :: "string \<Rightarrow> bool" where
  "is_asset_owner_write_path path =
     (starts_with ''/tables/'' path \<and>
      (let rest = drop (length ''/tables/'') path in
       takeWhile is_digit rest \<noteq> [] \<and> dropWhile is_digit rest = ''/owner''))"

definition forbidden :: "string \<Rightarrow> unit res" where
  "forbidden detail = Inl (HTTPException 403 detail)"

definition role_scope_check :: "string set \<Rightarrow> string \<Rightarrow> string \<Rightarrow> unit res" where
  "role_scope_check roles http_method path =
     (if ''stewardship'' \<in> roles \<or> ''data_owner'' \<in> roles then
        (if starts_with ''/admin'' path \<or> starts_with ''/datasources'' path
         then forbidden ''Insufficient role scope''
         else if http_method = ''GET'' then Inr ()
         else if starts_with ''/stewardship'' path then Inr ()
         else if ''data_owner'' \<in> roles \<and> is_asset_owner_write_path path then Inr ()
         else forbidden ''Insufficient role scope'')
      else if ''editor'' \<in> roles then
        (if starts_with ''/admin/governance'' path then
           (if http_method \<noteq> ''GET'' then forbidden ''Insufficient role scope'' else Inr ())
         else if is_editor_blocked_path path then forbidden ''Insufficient role scope''
         else if starts_with ''/stewardship'' path \<and> http_method \<noteq> ''GET''
         then forbidden ''Insufficient role scope''
         else Inr ())
      else if ''viewer'' \<in> roles then
        (if http_method \<noteq> ''GET'' \<and> \<not> is_viewer_allowed_write_path path
         then forbidden ''Viewer has read-only access''
         else if http_method = ''GET'' \<and> \<not> is_viewer_allowed_read_path path
         then forbidden ''Viewer cannot access this area''
         else Inr ())
      else forbidden ''Role is not allowed'')"

definition enforce_roles :: "string set \<Rightarrow> string \<Rightarrow> string \<Rightarrow> unit res" where
  "enforce_roles roles mtd path =
     (if is_admin_role roles then Inr ()
      else
        let normalized_path = normalize_api_scope_path path;
            http_method = ascii_upper mtd
        in
        if guard_is_profile_path normalized_path then Inr ()
        else if starts_with ''/assistant'' normalized_path \<and> ''viewer'' \<in> roles then
          (if http_method = ''POST'' \<and> is_viewer_allowed_write_path normalized_path then Inr ()
           else forbidden ''Viewer has read-only access'')
        else if starts_with ''/assistant'' normalized_path
                \<and> (''stewardship'' \<in> roles \<or> ''data_owner'' \<in> roles \<or> ''editor'' \<in> roles) then Inr ()
        else role_scope_check roles http_method normalized_path)"

definition enforce_role_scope_for_request :: "user_row \<Rightarrow> string \<Rightarrow> string \<Rightarrow> unit res" where
  "enforce_role_scope_for_request user mtd path = enforce_roles (user_role_names (Some user)) mtd path"

section \<open>The current user\<close>

text \<open>What PyJWT makes of a token is a parameter \<open>decode\<close>: the verified claims, or nothing.  It looks at
  the clock for the claims \<open>iat\<close> and \<open>exp\<close>, in whole seconds since the epoch, so that what a request gets
  is \<open>decode\<close> at its own time.\<close>

record token_claims =
  claim_sub :: "string option"
  claim_tv :: "int option"
  claim_iat :: "int option"
  claim_exp :: "int option"
  claim_jti :: "string option"

definition decode_token :: "(string \<Rightarrow> token_claims option) \<Rightarrow> string \<Rightarrow> string option" where
  "decode_token decode token =
     (case decode token of None \<Rightarrow> None | Some payload \<Rightarrow> claim_sub payload)"

definition authentication_unavailable_message :: "string \<Rightarrow> string" where
  "authentication_unavailable_message exc =
     (let lowered = py_lower (py_strip exc); has = (\<lambda>p. contains_str p lowered) in
      if has ''password authentication failed'' \<or> has ''invalid password'' \<or> has ''access denied''
      then ''Servico de autenticacao indisponivel no momento. A conexao com o banco principal falhou na autenticacao. Em clusters com volume persistido, a senha atual pode ser diferente da senha declarada no compose.''
      else if has ''connection refused'' \<or> has ''could not connect to server''
      then ''Servico de autenticacao indisponivel no momento. O banco principal nao respondeu a conexao.''
      else if has ''timeout'' \<or> has ''timed out''
      then ''Servico de autenticacao indisponivel no momento. A conexao com o banco principal excedeu o tempo limite.''
      else if has ''could not translate host name'' \<or> has ''name or service not known'' \<or> has ''getaddrinfo failed''
      then ''Servico de autenticacao indisponivel no momento. O host do banco principal nao foi encontrado.''
      else ''Servico de autenticacao indisponivel no momento. Nao foi possivel consultar o banco principal.'')"

text \<open>The result of the account query: the row, no row, or the text of an \<open>SQLAlchemyError\<close>.\<close>

type_synonym account_query = "string \<Rightarrow> string + user_row option"

definition account_by_email :: "user_row list \<Rightarrow> account_query" where
  "account_by_email users email = Inr (List.find (\<lambda>u. user_email u = email) users)"

definition lookup_session :: "session_row list \<Rightarrow> int \<Rightarrow> string \<Rightarrow> session_row option" where
  "lookup_session sessions uid jti =
     List.find (\<lambda>s. sess_user_id s = uid \<and> sess_jti s = jti) sessions"

definition session_live :: "instant \<Rightarrow> session_row option \<Rightarrow> bool" where
  "session_live now s =
     (case s of None \<Rightarrow> False
      | Some r \<Rightarrow> sess_revoked_at r = None \<and>
          (case sess_expires_at r of None \<Rightarrow> False | Some e \<Rightarrow> \<not> e \<le> now))"

definition claim_session :: "token_claims option \<Rightarrow> string option" where
  "claim_session payload =
     (case payload of None \<Rightarrow> None
      | Some p \<Rightarrow> (case claim_jti p of None \<Rightarrow> None | Some j \<Rightarrow> or_none (py_strip j)))"

definition unauthorized :: "string \<Rightarrow> 'a res" where
  "unauthorized detail = Inl (HTTPException 401 detail)"

definition get_current_user ::
  "(string \<Rightarrow> token_claims option) \<Rightarrow> account_query \<Rightarrow> session_row list \<Rightarrow> instant
    \<Rightarrow> string \<Rightarrow> string \<Rightarrow> string \<Rightarrow> user_row res" where
  "get_current_user decode find_account sessions now token mtd path =
     (let token_payload = decode token;
          sub = (case token_payload of None \<Rightarrow> None | Some p \<Rightarrow> claim_sub p);
          email = (if str_true sub then sub
                   else (case decode_token decode token of None \<Rightarrow> None
                         | Some f \<Rightarrow> or_none (py_strip f)))
      in
      case email of
        None \<Rightarrow> unauthorized ''Invalid token''
      | Some e \<Rightarrow>
        (case find_account e of
           Inl exc \<Rightarrow> Inl (HTTPException 503 (authentication_unavailable_message exc))
         | Inr None \<Rightarrow> unauthorized ''User inactive or missing''
         | Inr (Some user) \<Rightarrow>
             if \<not> user_is_active user then unauthorized ''User inactive or missing''
             else
               let tv = (case token_payload of None \<Rightarrow> None | Some p \<Rightarrow> claim_tv p) in
               if (case tv of None \<Rightarrow> 0 | Some v \<Rightarrow> v) \<noteq> user_token_version user
               then unauthorized ''Token expired or invalid''
               else if (case claim_session token_payload of None \<Rightarrow> False
                        | Some jti \<Rightarrow> \<not> session_live now (lookup_session sessions (user_id user) jti))
               then unauthorized ''Token expired or invalid''
               else res_bind (enforce_role_scope_for_request user mtd path) (\<lambda>_. Inr user)))"

section \<open>Route dependencies\<close>

definition require_roles :: "string list \<Rightarrow> user_row \<Rightarrow> user_row res" where
  "require_roles allowed current_user =
     (let allowed_set = (if ''viewer'' \<in> set allowed
                         then set allowed \<union> {''stewardship'', ''data_owner''} else set allowed) in
      if user_role_names (Some current_user) \<inter> allowed_set = {}
      then Inl (HTTPException 403 ''Insufficient role'') else Inr current_user)"

definition granted_permissions :: "user_row \<Rightarrow> string list" where
  "granted_permissions u = concat (map role_permissions (user_roles u))"

definition require_permission :: "string \<Rightarrow> user_row \<Rightarrow> user_row res" where
  "require_permission permission_name current_user =
     (if is_admin_role (user_role_names (Some current_user)) then Inr current_user
      else let granted = granted_permissions current_user in
        if permission_name \<in> set granted then Inr current_user
        else if ends_with '':read'' permission_name \<and> permission_name \<noteq> ''datasource:read''
                \<and> ''*:read'' \<in> set granted then Inr current_user
        else Inl (HTTPException 403 ''Insufficient permission''))"

section \<open>What the guard lets through\<close>

lemma under_prefix_iff:
  "under_prefix ps path \<longleftrightarrow> (\<exists>p\<in>set ps. path = p \<or> (\<exists>r. path = p @ ''/'' @ r))"
  by (auto simp: under_prefix_def list_ex_iff starts_with_iff)

lemma admin_area_cases:
  assumes "under_prefix [''/admin'', ''/datasources''] p"
  obtains "p = ''/admin''" | "p = ''/datasources''"
    | r where "p = ''/admin/'' @ r" | r where "p = ''/datasources/'' @ r"
  using assms by (auto simp: under_prefix_iff)

lemma admin_area_facts:
  assumes "under_prefix [''/admin'', ''/datasources''] p" and "\<not> starts_with ''/admin/governance'' p"
  shows "\<not> guard_is_profile_path p" "\<not> starts_with ''/assistant'' p" "is_editor_blocked_path p"
    "starts_with ''/admin'' p \<or> starts_with ''/datasources'' p"
    "\<not> is_viewer_allowed_write_path p" "\<not> is_viewer_allowed_read_path p"
  using assms
  by (elim admin_area_cases; simp add: guard_is_profile_path_def is_editor_blocked_path_def
      under_prefix_def is_viewer_allowed_write_path_def is_viewer_allowed_read_path_def)+

text \<open>The administration and datasource areas are closed to everyone but administrators: for every
  path in them (the governance settings under \<open>/admin/governance\<close> aside), every method and every set of
  roles, the guard lets the request through exactly when the administrator role is held.\<close>

theorem admin_and_datasources_admin_only:
  assumes "under_prefix [''/admin'', ''/datasources''] (normalize_api_scope_path path)"
    and "\<not> starts_with ''/admin/governance'' (normalize_api_scope_path path)"
  shows "enforce_roles roles mtd path = Inr () \<longleftrightarrow> ''admin'' \<in> roles"
  using admin_area_facts [OF assms] assms(2)
  by (simp add: enforce_roles_def role_scope_check_def is_admin_role_def forbidden_def Let_def)

theorem admin_and_datasources_admin_only_witness:
  "enforce_roles {''editor'', ''stewardship''} ''GET'' ''/api/v1/datasources/3'' = Inr ()
     \<longleftrightarrow> ''admin'' \<in> {''editor'', ''stewardship''}"
  by (rule admin_and_datasources_admin_only) code_simp+

text \<open>A role set with none of the administrator, editor, steward and data owner roles cannot write:
  a request that is not a \<open>GET\<close> passes only for self-service paths, or for a viewer on the search
  and assistant exceptions (the latter by \<open>POST\<close> only).\<close>

theorem viewer_read_only:
  assumes "roles \<inter> {''admin'', ''editor'', ''stewardship'', ''data_owner''} = {}"
    and "ascii_upper mtd \<noteq> ''GET''"
  shows "enforce_roles roles mtd path = Inr () \<longleftrightarrow>
    (let p = normalize_api_scope_path path in
     guard_is_profile_path p
     \<or> ''viewer'' \<in> roles \<and> is_viewer_allowed_write_path p
        \<and> (ascii_upper mtd = ''POST'' \<or> \<not> starts_with ''/assistant'' p))"
  using assms
  by (auto simp: enforce_roles_def role_scope_check_def is_admin_role_def forbidden_def Let_def)

theorem viewer_read_only_witness:
  "\<not> enforce_roles {''viewer''} ''DELETE'' ''/api/v1/tables/1'' = Inr ()"
  by (subst viewer_read_only) (simp, code_simp, code_simp)

lemma operator_path_facts:
  assumes "is_operator_runtime_path p"
  shows "\<not> starts_with ''/assistant'' p" "\<not> is_editor_blocked_path p"
    "\<not> starts_with ''/admin/governance'' p" "\<not> starts_with ''/stewardship'' p"
proof -
  from assms obtain q r where "q \<in> set operator_runtime_prefixes" and p: "p = q @ r"
    by (auto simp: is_operator_runtime_path_def under_prefix_iff)
  then show "\<not> starts_with ''/assistant'' p" "\<not> is_editor_blocked_path p"
    "\<not> starts_with ''/admin/governance'' p" "\<not> starts_with ''/stewardship'' p"
    unfolding operator_runtime_prefixes_def p
    by (simp only: set_simps, elim insertE emptyE;
        simp add: is_editor_blocked_path_def under_prefix_def)+
qed

text \<open>The operator and runtime prefixes, which the comment above them reserves to administrators, are
  not guarded here: \<open>is_operator_runtime_path\<close> is consulted nowhere, and the guard lets an editor
  through on every path under them with every method.\<close>

theorem operator_paths_open_to_editor:
  assumes "is_operator_runtime_path (normalize_api_scope_path path)"
  shows "enforce_roles {''editor''} mtd path = Inr ()"
  using operator_path_facts [OF assms]
  by (simp add: enforce_roles_def role_scope_check_def is_admin_role_def Let_def)

theorem operator_paths_open_to_editor_witness:
  "enforce_roles {''editor''} ''POST'' ''/api/v1/platform/jobs/run'' = Inr ()"
  by (rule operator_paths_open_to_editor) code_simp

text \<open>C2: Authentication is sound.  When \<open>get_current_user\<close> yields a user, the token carried verified
  claims with a subject, the row is the one stored for the claimed address, the account is active, the claimed token
  version is the account's, a claimed session exists for that account and is neither revoked
  nor past its expiry, and the role guard accepted the request.\<close>

theorem current_user_sound:
  assumes "get_current_user decode find_account sessions now token mtd path = Inr u"
  shows "\<exists>c email. decode token = Some c \<and> claim_sub c = Some email \<and> email \<noteq> ''''
    \<and> find_account email = Inr (Some u)
    \<and> user_is_active u
    \<and> (case claim_tv c of None \<Rightarrow> 0 | Some v \<Rightarrow> v) = user_token_version u
    \<and> (\<forall>jti. claim_session (Some c) = Some jti \<longrightarrow>
          (\<exists>s\<in>set sessions. sess_user_id s = user_id u \<and> sess_jti s = jti
             \<and> sess_revoked_at s = None \<and> (\<exists>e. sess_expires_at s = Some e \<and> now < e)))
    \<and> enforce_role_scope_for_request u mtd path = Inr ()"
proof (cases "decode token")
  case None
  with assms show ?thesis
    by (simp add: get_current_user_def Let_def str_true_def decode_token_def unauthorized_def)
next
  case (Some c)
  have live: "\<exists>s\<in>set sessions. sess_user_id s = k \<and> sess_jti s = jti
      \<and> sess_revoked_at s = None \<and> (\<exists>e. sess_expires_at s = Some e \<and> now < e)"
    if "session_live now (lookup_session sessions k jti)" for k jti
    using that
    by (auto simp: session_live_def lookup_session_def find_Some_iff split: option.splits)
  have blank: "(case claim_sub c of None \<Rightarrow> None | Some f \<Rightarrow> or_none (py_strip f)) = None"
    if "\<not> str_true (claim_sub c)"
    using that by (auto simp: str_true_def or_none_def py_strip_def py_lstrip_def split: option.splits)
  from assms Some have "str_true (claim_sub c)"
    by (auto simp: get_current_user_def Let_def decode_token_def unauthorized_def blank split: if_splits)
  then obtain email where email: "claim_sub c = Some email" "email \<noteq> ''''"
    by (auto simp: str_true_def or_empty_def split: option.splits)
  have main: "find_account email = Inr (Some u) \<and> user_is_active u
      \<and> (case claim_tv c of None \<Rightarrow> 0 | Some v \<Rightarrow> v) = user_token_version u
      \<and> (\<forall>jti. claim_session (Some c) = Some jti \<longrightarrow>
           session_live now (lookup_session sessions (user_id u) jti))
      \<and> enforce_role_scope_for_request u mtd path = Inr ()"
    using assms Some email
    by (auto simp: get_current_user_def Let_def str_true_def unauthorized_def res_bind_Inr_iff
        split: sum.splits option.splits if_splits)
  with live have "\<forall>jti. claim_session (Some c) = Some jti \<longrightarrow>
      (\<exists>s\<in>set sessions. sess_user_id s = user_id u \<and> sess_jti s = jti
         \<and> sess_revoked_at s = None \<and> (\<exists>e. sess_expires_at s = Some e \<and> now < e))" by blast
  with main email Some show ?thesis by blast
qed

definition ana_claims :: "string \<Rightarrow> token_claims option" where
  "ana_claims t = (if t = ''tok''
     then Some \<lparr>claim_sub = Some ''ana@x'', claim_tv = Some 0, claim_iat = Some 0, claim_exp = Some 9,
                claim_jti = Some ''j1''\<rparr> else None)"

definition ana_session :: session_row where
  "ana_session = \<lparr>sess_user_id = 7, sess_jti = ''j1'', sess_started_at = 0,
     sess_expires_at = Some 100, sess_ended_at = None, sess_end_reason = None,
     sess_duration_seconds = None, sess_revoked_at = None, sess_mfa_used = False\<rparr>"

theorem current_user_sound_witness:
  "user_is_active (user_with_role ''editor'')
   \<and> (\<exists>s\<in>set [ana_session]. sess_jti s = ''j1'' \<and> sess_revoked_at s = None)"
proof -
  have run: "get_current_user ana_claims (account_by_email [user_with_role ''editor'']) [ana_session] 99
     ''tok'' ''GET'' ''/api/v1/tables'' = Inr (user_with_role ''editor'')"
    by code_simp
  have "claim_session (ana_claims ''tok'') = Some ''j1''" by code_simp
  with current_user_sound [OF run] show ?thesis by fastforce
qed

text \<open>\<open>require_permission\<close> grants exactly what the roles carry: an administrator everything, anyone else
  the permissions of the roles, with \<open>*:read\<close> standing for every read permission but
  \<open>datasource:read\<close>.\<close>

theorem require_permission_iff:
  "require_permission perm u = Inr v \<longleftrightarrow>
     v = u \<and> (''admin'' \<in> user_role_names (Some u)
       \<or> (\<exists>r\<in>set (user_roles u). perm \<in> set (role_permissions r))
       \<or> ends_with '':read'' perm \<and> perm \<noteq> ''datasource:read''
         \<and> (\<exists>r\<in>set (user_roles u). ''*:read'' \<in> set (role_permissions r)))"
  by (auto simp: require_permission_def is_admin_role_def granted_permissions_def Let_def)

end
