(* ===== verification/Totp.thy ===== *)
theory Totp
  imports Prelude "HOL-Library.Word"
begin

unbundle bit_operations_syntax

text \<open>
  Passwords and one-time codes, \<open>core/security.py\<close>: the password policy, TOTP secrets, the truncation of
  RFC 4226 on 8-bit bytes, and the search for the counter that a code belongs to.  The keyed digest
  \<open>hmac.new(key, message, hashlib.sha1).digest()\<close> is a parameter \<open>mac\<close>; nothing is assumed of it
  beyond its documented length of twenty bytes, where that matters.
\<close>

type_synonym byte = "8 word"
type_synonym keyed_digest = "byte list \<Rightarrow> byte list \<Rightarrow> byte list"

section \<open>Password policy\<close>

definition is_ascii_lower :: "char \<Rightarrow> bool" where
  "is_ascii_lower c = (let n = (of_char c :: nat) in 97 \<le> n \<and> n \<le> 122)"

definition is_ascii_upper :: "char \<Rightarrow> bool" where
  "is_ascii_upper c = (let n = (of_char c :: nat) in 65 \<le> n \<and> n \<le> 90)"

definition password_classes :: "string \<Rightarrow> nat" where
  "password_classes candidate =
     (if list_ex is_ascii_lower candidate then 1 else 0)
     + (if list_ex is_ascii_upper candidate then 1 else 0)
     + (if list_ex is_digit candidate then 1 else 0)
     + (if list_ex (\<lambda>c. \<not> (is_ascii_lower c \<or> is_ascii_upper c \<or> is_digit c)) candidate then 1 else 0)"

definition validate_password_policy :: "string \<Rightarrow> unit res" where
  "validate_password_policy candidate =
     (let msg = ''New password must have at least 12 chars and 3 of 4 character types'' in
      if length candidate < 12 then Inl (ValueError msg)
      else if password_classes candidate < 3 then Inl (ValueError msg)
      else Inr ())"

section \<open>Secrets\<close>

definition upper_char :: "char \<Rightarrow> char" where
  "upper_char c = (if is_ascii_lower c then char_of ((of_char c :: nat) - 32) else c)"

definition rstrip_char :: "char \<Rightarrow> string \<Rightarrow> string" where
  "rstrip_char d s = rev (dropWhile (\<lambda>c. c = d) (rev s))"

text \<open>Base32 is ASCII, so that \<open>upper\<close> matters on ASCII letters only.\<close>

definition normalize_totp_secret :: "string \<Rightarrow> string" where
  "normalize_totp_secret secret =
     rstrip_char CHR ''='' (map upper_char (filter (\<lambda>c. \<not> py_space c) (py_strip secret)))"

definition b32_val :: "char \<Rightarrow> int option" where
  "b32_val c = (let n = int (of_char c :: nat) in
     if 65 \<le> n \<and> n \<le> 90 then Some (n - 65)
     else if 50 \<le> n \<and> n \<le> 55 then Some (n - 24) else None)"

text \<open>\<open>base64.b32decode\<close>: quanta of eight characters give five bytes each, a last quantum padded with
  one, three, four or six signs gives four, three, two or one.\<close>

fun b32_acc :: "int \<Rightarrow> string \<Rightarrow> int option" where
  "b32_acc acc [] = Some acc"
| "b32_acc acc (c # cs) = (case b32_val c of None \<Rightarrow> None | Some v \<Rightarrow> b32_acc (acc * 32 + v) cs)"

definition be_bytes :: "nat \<Rightarrow> int \<Rightarrow> byte list" where
  "be_bytes n v = map (\<lambda>i. word_of_int (v div 256 ^ (n - 1 - i))) [0..<n]"

definition b32_quantum :: "string \<Rightarrow> byte list option" where
  "b32_quantum q =
     (let data = rstrip_char CHR ''='' q; pad = length q - length data in
      if pad \<in> {0, 1, 3, 4, 6} then
        (case b32_acc 0 data of None \<Rightarrow> None
         | Some v \<Rightarrow> Some (take ((length data * 5) div 8) (be_bytes 5 (v * 32 ^ pad))))
      else None)"

fun b32decode :: "string \<Rightarrow> byte list option" where
  "b32decode [] = Some []"
| "b32decode [a, b, c, d, e, f, g, h] = b32_quantum [a, b, c, d, e, f, g, h]"
| "b32decode (a # b # c # d # e # f # g # h # s) =
     (case b32_acc 0 [a, b, c, d, e, f, g, h] of
        None \<Rightarrow> None
      | Some v \<Rightarrow> map_option (\<lambda>rest. be_bytes 5 v @ rest) (b32decode s))"
| "b32decode s = None"

section \<open>Codes\<close>

definition totp_counter :: "int \<Rightarrow> int \<Rightarrow> int" where
  "totp_counter moment period = moment div (1000000 * max 1 period)"

definition zfill :: "nat \<Rightarrow> string \<Rightarrow> string" where
  "zfill w s = replicate (w - length s) CHR ''0'' @ s"

text \<open>The dynamic truncation: the low nibble of the last byte selects four bytes, read as a 31-bit
  big-endian number.\<close>

definition truncate_digest :: "byte list \<Rightarrow> int" where
  "truncate_digest digest =
     (let off = unat (last digest AND 0x0F) in
      or (or (or (push_bit 24 (uint (digest ! off AND 0x7F)))
                 (push_bit 16 (uint (digest ! (off + 1) AND 0xFF))))
             (push_bit 8 (uint (digest ! (off + 2) AND 0xFF))))
         (uint (digest ! (off + 3) AND 0xFF)))"

definition padded_secret :: "string \<Rightarrow> string" where
  "padded_secret secret =
     (let s = normalize_totp_secret secret; pad = nat ((- int (length s)) mod 8) in
      if pad \<noteq> 0 then s @ replicate pad CHR ''='' else s)"

definition hotp_code :: "keyed_digest \<Rightarrow> string \<Rightarrow> int \<Rightarrow> nat \<Rightarrow> string res" where
  "hotp_code mac secret counter digits =
     (case b32decode (padded_secret secret) of
        None \<Rightarrow> Inl (Base32Error ''Non-base32 digit found'')
      | Some key \<Rightarrow>
          if counter < 0 then Inl (OverflowError ''can't convert negative int to unsigned'')
          else if counter \<ge> 2 ^ 64 then Inl (OverflowError ''int too big to convert'')
          else Inr (zfill digits (int_str (truncate_digest (mac key (be_bytes 8 counter)) mod 10 ^ digits))))"

text \<open>\<open>hmac.compare_digest\<close> raises on text with a character beyond ASCII.\<close>

definition compare_digest :: "string \<Rightarrow> string \<Rightarrow> bool res" where
  "compare_digest a b =
     (if list_all (\<lambda>c. (of_char c :: nat) < 128) a \<and> list_all (\<lambda>c. (of_char c :: nat) < 128) b
      then Inr (a = b)
      else Inl (TypeError ''comparing strings with non-ASCII characters is not supported''))"

fun match_counter :: "keyed_digest \<Rightarrow> string \<Rightarrow> string \<Rightarrow> nat \<Rightarrow> int list \<Rightarrow> int option res" where
  "match_counter mac secret code digits [] = Inr None"
| "match_counter mac secret code digits (k # ks) =
     res_bind (hotp_code mac secret k digits) (\<lambda>candidate.
     res_bind (compare_digest candidate code) (\<lambda>eq.
       if eq then Inr (Some k) else match_counter mac secret code digits ks))"

definition normalize_code :: "string \<Rightarrow> string" where
  "normalize_code code = filter (\<lambda>c. \<not> py_space c) (py_strip code)"

definition find_totp_counter ::
  "keyed_digest \<Rightarrow> string \<Rightarrow> string \<Rightarrow> int \<Rightarrow> int \<Rightarrow> nat \<Rightarrow> int \<Rightarrow> int option res" where
  "find_totp_counter mac secret code for_time period digits window =
     (let normalized_code = normalize_code code in
      if \<not> py_isdigit normalized_code \<or> length normalized_code \<noteq> digits then Inr None
      else let counter = totp_counter for_time period in
        match_counter mac secret normalized_code digits
          (map (\<lambda>off. counter + off) [- window .. window]))"

definition verify_totp_code ::
  "keyed_digest \<Rightarrow> string \<Rightarrow> string \<Rightarrow> int \<Rightarrow> int \<Rightarrow> nat \<Rightarrow> int \<Rightarrow> bool res" where
  "verify_totp_code mac secret code for_time period digits window =
     res_bind (find_totp_counter mac secret code for_time period digits window) (\<lambda>r. Inr (r \<noteq> None))"

definition generate_totp_code :: "keyed_digest \<Rightarrow> string \<Rightarrow> int \<Rightarrow> int \<Rightarrow> nat \<Rightarrow> string res" where
  "generate_totp_code mac secret for_time period digits =
     hotp_code mac secret (totp_counter for_time period) digits"

section \<open>Shape of a code\<close>

lemma uint_and_mask: "uint (b AND (0x7F :: byte)) < 2 ^ 7" "uint (b AND (0xFF :: byte)) < 2 ^ 8"
proof -
  have "b AND 0x7F \<le> (0x7F :: byte)" by (rule word_and_le1)
  then show "uint (b AND (0x7F :: byte)) < 2 ^ 7" by (simp add: word_le_def)
  show "uint (b AND (0xFF :: byte)) < 2 ^ 8"
    using uint_lt2p [of "b AND (0xFF :: byte)"] by simp
qed

lemma or_less_pow: "0 \<le> x \<Longrightarrow> 0 \<le> y \<Longrightarrow> x < 2 ^ n \<Longrightarrow> y < 2 ^ n \<Longrightarrow> or x y < (2 ^ n :: int)"
  by (metis OR_upper)

lemma truncate_digest_bounds: "0 \<le> truncate_digest d" "truncate_digest d < 2 ^ 31"
proof -
  have p: "push_bit k (x :: int) < 2 ^ 31" if "x < 2 ^ n" "0 \<le> x" "n + k \<le> 31" for k n x
  proof -
    from that have "push_bit k x < 2 ^ n * 2 ^ k"
      by (simp add: push_bit_eq_mult)
    also have "\<dots> \<le> 2 ^ 31" using power_increasing [of "n + k" 31 "2 :: int"] that(3)
      by (simp add: power_add)
    finally show ?thesis .
  qed
  have nn: "0 \<le> push_bit k (uint b)" for k and b :: byte by simp
  have q: "uint (b AND 0xFF) < 2 ^ 31" for b :: byte using uint_and_mask(2) [of b] by simp
  show "0 \<le> truncate_digest d" by (simp add: truncate_digest_def Let_def)
  show "truncate_digest d < 2 ^ 31"
    unfolding truncate_digest_def Let_def
    using uint_and_mask p [of _ 7 24] p [of _ 8 16] p [of _ 8 8] q
    by (intro or_less_pow) (simp_all add: nn)
qed

lemma nat_str_digits: "list_all is_digit (nat_str n)"
proof (induction n rule: nat_str.induct)
  case (1 n)
  then show ?case by (subst nat_str.simps) (simp del: One_nat_def)
qed

lemma nat_str_length: "n < 10 ^ d \<Longrightarrow> 0 < d \<Longrightarrow> length (nat_str n) \<le> d"
proof (induction n arbitrary: d rule: nat_str.induct)
  case (1 n)
  show ?case
  proof (cases "n < 10")
    case True
    with "1.prems" show ?thesis by (subst nat_str.simps) simp
  next
    case False
    with "1.prems" obtain e where d: "d = Suc e" by (cases d) auto
    with False "1.prems" have e: "0 < e" by (cases e) auto
    with "1.prems" d have "n div 10 < 10 ^ e" by (simp add: less_mult_imp_div_less)
    with "1.IH" False e have "length (nat_str (n div 10)) \<le> e" by blast
    with False d show ?thesis by (subst nat_str.simps) simp
  qed
qed

text \<open>A one-time code always has the configured number of characters, all decimal digits, for every
  secret, counter and digest: the truncated number is below \<open>2 ^ 31\<close>, its remainder has at most that many
  digits, and \<open>zfill\<close> supplies the rest.\<close>

theorem hotp_code_shape:
  assumes "hotp_code mac secret counter digits = Inr code" and "0 < digits"
  shows "length code = digits \<and> list_all is_digit code"
proof -
  from assms(1) obtain d where
    code: "code = zfill digits (int_str (truncate_digest d mod 10 ^ digits))"
    by (auto simp: hotp_code_def split: option.splits if_splits)
  define m where "m = truncate_digest d mod 10 ^ digits"
  have m: "0 \<le> m" "m < 10 ^ digits" by (simp_all add: m_def)
  then have "int (nat m) < int (10 ^ digits)" by simp
  then have "nat m < 10 ^ digits" by (simp only: of_nat_less_iff)
  with assms(2) have "length (nat_str (nat m)) \<le> digits" by (rule nat_str_length [rotated])
  with m nat_str_digits [of "nat m"] show ?thesis
    by (auto simp: code m_def [symmetric] zfill_def int_str_def is_digit_def list_all_iff Let_def
        split: if_splits)
qed

definition ones_digest :: keyed_digest where
  "ones_digest k m = replicate 20 1"

lemma ones_code: "hotp_code ones_digest ''MZXQ'' 5 6 = Inr ''843009''"
proof -
  have "b32decode (padded_secret ''MZXQ'') = Some [102, 111]" by code_simp
  moreover have "truncate_digest (replicate 20 1) = 16843009"
    by (simp add: truncate_digest_def Let_def numeral_eq_Suc)
  moreover have "zfill 6 (int_str 843009) = ''843009''"
    by (simp add: zfill_def int_str_def nat_str.simps digit_char_def) code_simp
  ultimately show ?thesis by (simp add: hotp_code_def ones_digest_def)
qed

theorem hotp_code_shape_witness: "length ''843009'' = 6 \<and> list_all is_digit ''843009''"
  by (rule hotp_code_shape [OF ones_code]) simp

section \<open>The search for the counter\<close>

lemma match_counter_sound:
  "match_counter mac secret code digits ks = Inr (Some k) \<Longrightarrow>
     k \<in> set ks \<and> hotp_code mac secret k digits = Inr code"
  by (induction ks)
    (auto simp: res_bind_Inr_iff compare_digest_def split: if_splits)

lemma find_totp_counter_sound:
  assumes "find_totp_counter mac secret code now period digits window = Inr (Some k)"
  shows "\<bar>k - totp_counter now period\<bar> \<le> window"
    and "hotp_code mac secret k digits = Inr (normalize_code code)"
  using assms match_counter_sound
  by (fastforce simp: find_totp_counter_def Let_def split: if_splits)+

lemma match_counter_complete:
  assumes "\<forall>k\<in>set ks. \<exists>c. hotp_code mac secret k digits = Inr c \<and> list_all is_digit c"
    and "list_all is_digit code"
    and "k0 \<in> set ks" and "hotp_code mac secret k0 digits = Inr code"
  shows "\<exists>k. match_counter mac secret code digits ks = Inr (Some k)"
proof -
  have ascii: "list_all (\<lambda>c. (of_char c :: nat) < 128) s" if "list_all is_digit s" for s
    using that by (auto simp: list_all_iff is_digit_def Let_def)
  from assms(1,3) show ?thesis
  proof (induction ks)
    case (Cons k ks)
    then obtain c where c: "hotp_code mac secret k digits = Inr c" "list_all is_digit c" by auto
    show ?case
    proof (cases "c = code")
      case True
      with c assms(2) ascii show ?thesis by (simp add: compare_digest_def)
    next
      case False
      with Cons.prems c assms(4) have "k0 \<in> set ks" by auto
      with Cons False c ascii assms(2) show ?thesis by (auto simp: compare_digest_def)
    qed
  qed simp
qed

lemma hotp_code_total:
  assumes "b32decode (padded_secret secret) = Some key" and "0 \<le> k" and "k < 2 ^ 64" and "0 < digits"
  shows "\<exists>c. hotp_code mac secret k digits = Inr c \<and> length c = digits \<and> list_all is_digit c"
proof -
  from assms obtain c where "hotp_code mac secret k digits = Inr c" by (simp add: hotp_code_def)
  with hotp_code_shape [OF this assms(4)] show ?thesis by blast
qed

lemma match_counter_total:
  assumes "\<forall>k\<in>set ks. \<exists>c. hotp_code mac secret k digits = Inr c \<and> list_all is_digit c"
    and "list_all (\<lambda>c. (of_char c :: nat) < 128) code"
  shows "match_counter mac secret code digits ks \<noteq> Inl e"
proof -
  have ascii: "list_all (\<lambda>c. (of_char c :: nat) < 128) s" if "list_all is_digit s" for s
    using that by (auto simp: list_all_iff is_digit_def Let_def)
  from assms(1) show ?thesis
    by (induction ks) (use assms(2) ascii in \<open>auto simp: compare_digest_def split: if_splits\<close>)
qed

lemma find_totp_counter_total:
  assumes "b32decode (padded_secret secret) = Some key"
    and "list_all (\<lambda>c. (of_char c :: nat) < 128) code"
    and "window \<le> totp_counter now period" and "totp_counter now period + window < 2 ^ 64"
  shows "find_totp_counter mac secret code now period digits window \<noteq> Inl e"
proof (cases "py_isdigit (normalize_code code) \<and> length (normalize_code code) = digits")
  case True
  have "set (normalize_code code) \<subseteq> set code"
    by (auto simp: normalize_code_def py_strip_def py_lstrip_def dest!: set_dropWhileD)
  then have ascii: "list_all (\<lambda>c. (of_char c :: nat) < 128) (normalize_code code)"
    using assms(2) by (auto simp: list_all_iff)
  have d: "0 < digits" using True by (auto simp: py_isdigit_def)
  have "\<forall>k\<in>set (map (\<lambda>off. totp_counter now period + off) [- window..window]).
      \<exists>c. hotp_code mac secret k digits = Inr c \<and> list_all is_digit c"
  proof
    fix k
    assume "k \<in> set (map (\<lambda>off. totp_counter now period + off) [- window..window])"
    then have "0 \<le> k" "k < 2 ^ 64" using assms(3,4) by auto
    from hotp_code_total [OF assms(1) this d, of mac]
    show "\<exists>c. hotp_code mac secret k digits = Inr c \<and> list_all is_digit c" by blast
  qed
  from match_counter_total [OF this ascii] True show ?thesis
    by (simp add: find_totp_counter_def Let_def)
next
  case False
  then show ?thesis by (auto simp: find_totp_counter_def Let_def)
qed

text \<open>The tolerance works: a code generated for some moment is accepted at every moment whose
  counter is at most \<open>window\<close> steps away, provided the secret decodes and the counters of the
  window are representable.  The counter returned is inside the window and produces that very code.\<close>

theorem totp_accepts_within_window:
  assumes "b32decode (padded_secret secret) = Some key" and "0 < digits"
    and "generate_totp_code mac secret t0 period digits = Inr code"
    and "\<bar>totp_counter t0 period - totp_counter t1 period\<bar> \<le> window"
    and "window \<le> totp_counter t1 period" and "totp_counter t1 period + window < 2 ^ 64"
  shows "\<exists>k. find_totp_counter mac secret code t1 period digits window = Inr (Some k)
    \<and> \<bar>k - totp_counter t1 period\<bar> \<le> window \<and> hotp_code mac secret k digits = Inr code"
proof -
  from assms(3) have gen: "hotp_code mac secret (totp_counter t0 period) digits = Inr code"
    by (simp add: generate_totp_code_def)
  with hotp_code_shape [OF this assms(2)]
  have code: "length code = digits" "list_all is_digit code" by auto
  have nosp: "\<not> py_space c" if "is_digit c" for c
    using that by (auto simp: is_digit_def py_space_def Let_def)
  have [simp]: "dropWhile py_space s = s" if "list_all is_digit s" for s
    using that nosp by (cases s) auto
  have norm: "normalize_code code = code"
    using code nosp by (auto simp: normalize_code_def py_strip_def py_lstrip_def list_all_iff filter_id_conv)
  have isd: "py_isdigit code"
    using code assms(2) by (auto simp: py_isdigit_def list_all_iff)
  have total: "\<forall>k\<in>set (map (\<lambda>off. totp_counter t1 period + off) [- window..window]).
      \<exists>c. hotp_code mac secret k digits = Inr c \<and> list_all is_digit c"
  proof
    fix k
    assume "k \<in> set (map (\<lambda>off. totp_counter t1 period + off) [- window..window])"
    then have "0 \<le> k" "k < 2 ^ 64" using assms(5,6) by auto
    from hotp_code_total [OF assms(1) this assms(2), of mac]
    show "\<exists>c. hotp_code mac secret k digits = Inr c \<and> list_all is_digit c" by blast
  qed
  have "totp_counter t0 period \<in> set (map (\<lambda>off. totp_counter t1 period + off) [- window..window])"
    unfolding set_map set_upto using assms(4)
    by (intro image_eqI [where x = "totp_counter t0 period - totp_counter t1 period"]) auto
  from match_counter_complete [OF total code(2) this gen] norm isd code(1)
  obtain k where k: "find_totp_counter mac secret code t1 period digits window = Inr (Some k)"
    by (auto simp: find_totp_counter_def Let_def)
  with find_totp_counter_sound [OF k] norm show ?thesis by auto
qed

theorem totp_accepts_within_window_witness:
  "\<exists>k. find_totp_counter ones_digest ''MZXQ'' ''843009'' 185000000 30 6 1 = Inr (Some k)"
proof -
  have "b32decode (padded_secret ''MZXQ'') = Some [102, 111]" by code_simp
  moreover have "generate_totp_code ones_digest ''MZXQ'' 155000000 30 6 = Inr ''843009''"
    by (simp add: generate_totp_code_def totp_counter_def ones_code)
  ultimately show ?thesis
    using totp_accepts_within_window [of "''MZXQ''" "[102, 111]" 6 ones_digest 155000000 30
      "''843009''" 185000000 1]
    by (auto simp: totp_counter_def)
qed

text \<open>A code of the right length with a superscript digit, such as \<open>12345\<close> followed by a superscript
  two, passes the \<open>isdigit\<close> test and then makes the constant-time comparison raise: the search ends in a
  \<open>TypeError\<close> instead of \<open>None\<close>, so that a login with it fails with an unhandled exception.\<close>

theorem superscript_code_raises:
  assumes "py_isdigit (normalize_code code)" and "length (normalize_code code) = digits"
    and "\<exists>c\<in>set (normalize_code code). \<not> is_digit c"
    and "b32decode (padded_secret secret) = Some key" and "0 \<le> window"
    and "window \<le> totp_counter now period" and "totp_counter now period + window < 2 ^ 64"
  shows "find_totp_counter mac secret code now period digits window =
    Inl (TypeError ''comparing strings with non-ASCII characters is not supported'')"
proof -
  let ?k = "totp_counter now period - window"
  have "[- window..window] = - window # [- window + 1..window]"
    using assms(5) by (simp add: upto_rec1)
  moreover have "0 < digits" using assms(1,2) by (auto simp: py_isdigit_def)
  then obtain c where "hotp_code mac secret ?k digits = Inr c"
    using hotp_code_total [OF assms(4), of ?k digits mac] assms(5-7) by auto
  moreover from assms(1,3) obtain x where "x \<in> set (normalize_code code)" "of_char x \<in> {178, 179, 185 :: nat}"
    by (auto simp: py_isdigit_def list_all_iff)
  then have "\<not> list_all (\<lambda>c. (of_char c :: nat) < 128) (normalize_code code)"
    by (auto simp: list_all_iff intro!: bexI [of _ x])
  ultimately show ?thesis
    using assms(1,2) by (simp add: find_totp_counter_def Let_def compare_digest_def)
qed

theorem superscript_code_raises_witness:
  "find_totp_counter ones_digest ''MZXQ'' (''12345'' @ [CHR 0xB2]) 185000000 30 6 1 =
    Inl (TypeError ''comparing strings with non-ASCII characters is not supported'')"
proof -
  have n: "normalize_code (''12345'' @ [CHR 0xB2]) = ''12345'' @ [CHR 0xB2]" by code_simp
  show ?thesis
    by (rule superscript_code_raises [of _ _ _ "[102, 111]"])
      (unfold n, code_simp, simp, code_simp, code_simp, simp_all add: totp_counter_def)
qed

end
