(* ===== verification/Auth.thy ===== *)
theory Auth
  imports Guard Totp "HOL-Library.List_Lexorder" "HOL-Library.Char_ord"
begin

text \<open>
  Logging in and out, \<open>api/auth.py\<close>, with what it rests on: the password age policy of
  \<open>features/auth/password_policy.py\<close>, the session rows of \<open>services/user_activity_tracker.py\<close>, and
  the self-service and administrative operations on the second factor in \<open>api/me.py\<close> and
  \<open>api/admin_routes/users.py\<close>.

  The state is the three tables these handlers touch.  A handler takes one reading of the clock;
  password hashing, the secret store and the keyed digest are parameters in the record \<open>auth_env\<close>.
\<close>

record auth_settings =
  set_rate_limit_attempts :: int
  set_rate_limit_window_seconds :: int
  set_password_max_age_days :: int
  set_password_expiry_warning_days :: int
  set_mfa_grace_logins :: int
  set_access_token_expire_minutes :: int

record auth_env =
  env_settings :: auth_settings
  env_verify_password :: "string \<Rightarrow> string \<Rightarrow> bool"
  env_hash_password :: "string \<Rightarrow> string"
  env_stored_secret :: "string option \<Rightarrow> string option"
  env_mac :: keyed_digest

record audit_row =
  aud_action :: string
  aud_created_at :: instant
  aud_ip :: "string option"
  aud_user_email :: "string option"
  aud_reason :: string

record auth_state =
  st_users :: "user_row list"
  st_sessions :: "session_row list"
  st_audit :: "audit_row list"

record login_request =
  req_email :: string
  req_password :: string
  req_mfa_code :: "string option"
  req_ip :: "string option"

record login_response =
  resp_token :: token_claims
  resp_roles :: "string list"
  resp_permissions :: "string list"
  resp_mfa_enabled :: bool
  resp_mfa_grace_remaining :: "int option"
  resp_password_expires_at :: instant
  resp_password_days_remaining :: int

definition seconds :: int where "seconds = 1000000"
definition minutes :: int where "minutes = 60 * seconds"
definition days :: int where "days = 86400 * seconds"

section \<open>Password age\<close>

record password_expiry =
  exp_changed_at :: instant
  exp_expires_at :: instant
  exp_days_remaining :: int
  exp_expired :: bool
  exp_warning :: bool

definition int_or :: "int \<Rightarrow> int \<Rightarrow> int" where
  "int_or v d = (if v = 0 then d else v)"

definition ceil_div :: "int \<Rightarrow> int \<Rightarrow> int" where
  "ceil_div a b = - ((- a) div b)"

definition password_expiry_status :: "auth_settings \<Rightarrow> user_row \<Rightarrow> instant \<Rightarrow> password_expiry" where
  "password_expiry_status cfg user now =
     (let max_age = int_or (set_password_max_age_days cfg) 90;
          warn_days = int_or (set_password_expiry_warning_days cfg) 10;
          changed_at = user_password_changed_at user;
          expires_at = changed_at + max_age * days;
          remaining = expires_at - now;
          days_remaining = (if remaining > 0 then ceil_div remaining days else remaining div days);
          expired = (now \<ge> expires_at)
      in \<lparr>exp_changed_at = changed_at, exp_expires_at = expires_at,
          exp_days_remaining = days_remaining, exp_expired = expired,
          exp_warning = (\<not> expired \<and> days_remaining \<le> warn_days)\<rparr>)"

section \<open>Rate limit\<close>

definition normalize_email :: "string \<Rightarrow> string" where
  "normalize_email email = py_lower (py_strip email)"

definition rate_limit_window_cutoff :: "auth_settings \<Rightarrow> instant \<Rightarrow> instant" where
  "rate_limit_window_cutoff cfg now =
     now - max 1 (set_rate_limit_window_seconds cfg) * seconds"

definition email_matches :: "string \<Rightarrow> audit_row \<Rightarrow> bool" where
  "email_matches email a =
     (case aud_user_email a of None \<Rightarrow> False | Some e \<Rightarrow> py_lower e = email)"

definition counted_failure :: "instant \<Rightarrow> string option \<Rightarrow> string \<Rightarrow> audit_row \<Rightarrow> bool" where
  "counted_failure cutoff ip email a =
     (aud_action a = ''login_failed'' \<and> aud_created_at a \<ge> cutoff \<and>
      (case ip of Some i \<Rightarrow> aud_ip a = Some i \<or> email_matches email a
       | None \<Rightarrow> email_matches email a))"

definition login_rate_limited ::
  "auth_settings \<Rightarrow> instant \<Rightarrow> string option \<Rightarrow> string \<Rightarrow> audit_row list \<Rightarrow> bool" where
  "login_rate_limited cfg now ip email audit =
     (int (length (filter (counted_failure (rate_limit_window_cutoff cfg now) ip (normalize_email email)) audit))
        \<ge> max 1 (set_rate_limit_attempts cfg))"

section \<open>Second factor\<close>

datatype second_factor =
    Denied user_row string int string
  | Raised py_error
  | Passed user_row "int option"

text \<open>\<open>Denied row reason status detail\<close>: the row as it is left, the reason written to the audit log, and the
  response.\<close>

definition check_mfa_code :: "auth_env \<Rightarrow> instant \<Rightarrow> string option \<Rightarrow> user_row \<Rightarrow> second_factor" where
  "check_mfa_code env now code user =
     (let secret = env_stored_secret env (user_mfa_secret_encrypted user) in
      if \<not> str_true secret
      then Denied user ''mfa_configuration_missing'' 401 ''MFA is not configured''
      else let mfa_code = py_strip (or_empty code) in
      if mfa_code = [] then Denied user ''mfa_required'' 401 ''MFA required''
      else (case find_totp_counter (env_mac env) (or_empty secret) mfa_code now 30 6 1 of
          Inl e \<Rightarrow> Raised e
        | Inr matched \<Rightarrow>
            (case matched of
               None \<Rightarrow> Denied user ''invalid_mfa_code'' 401 ''Invalid MFA code''
             | Some k \<Rightarrow>
                 if (case user_mfa_last_counter user of None \<Rightarrow> False | Some l \<Rightarrow> k \<le> l)
                 then Denied user ''replayed_mfa_code'' 401 ''Invalid MFA code''
                 else Passed (user\<lparr>user_mfa_last_counter := Some k\<rparr>) None)))"

definition check_grace :: "auth_env \<Rightarrow> instant \<Rightarrow> user_row \<Rightarrow> second_factor" where
  "check_grace env now user =
     (let grace_limit = set_mfa_grace_logins (env_settings env);
          used = user_mfa_grace_logins_used user in
      if used \<ge> grace_limit
      then Denied (user\<lparr>user_mfa_locked := True, user_mfa_locked_at := Some now\<rparr>)
             ''mfa_grace_exhausted'' 403
             ''Conta bloqueada: o periodo de carencia sem autenticacao de duplo fator terminou. Solicite o desbloqueio a um administrador.''
      else Passed (user\<lparr>user_mfa_grace_logins_used := used + 1\<rparr>)
             (Some (max (grace_limit - (used + 1)) 0)))"

definition second_factor_check :: "auth_env \<Rightarrow> instant \<Rightarrow> string option \<Rightarrow> user_row \<Rightarrow> second_factor" where
  "second_factor_check env now code user =
     (if user_mfa_enabled user then check_mfa_code env now code user else check_grace env now user)"

section \<open>Tables\<close>

definition update_user :: "user_row \<Rightarrow> user_row list \<Rightarrow> user_row list" where
  "update_user u = map (\<lambda>v. if user_id v = user_id u then u else v)"

definition find_by_email :: "string \<Rightarrow> user_row list \<Rightarrow> user_row option" where
  "find_by_email email = List.find (\<lambda>u. py_lower (user_email u) = email)"

definition failure_row :: "instant \<Rightarrow> string option \<Rightarrow> string \<Rightarrow> string \<Rightarrow> audit_row" where
  "failure_row now ip email reason = \<lparr>aud_action = ''login_failed'', aud_created_at = now,
     aud_ip = ip, aud_user_email = Some email, aud_reason = reason\<rparr>"

definition login_failed ::
  "instant \<Rightarrow> login_request \<Rightarrow> string \<Rightarrow> string \<Rightarrow> int \<Rightarrow> string \<Rightarrow> auth_state
    \<Rightarrow> auth_state \<times> login_response res" where
  "login_failed now req email reason status detail st =
     (st\<lparr>st_audit := st_audit st @ [failure_row now (req_ip req) email reason]\<rparr>,
      Inl (HTTPException status detail))"

definition record_session_start :: "user_row \<Rightarrow> string \<Rightarrow> instant \<Rightarrow> instant \<Rightarrow> session_row" where
  "record_session_start user jti now expires_at =
     \<lparr>sess_user_id = user_id user, sess_jti = jti, sess_started_at = now,
      sess_expires_at = Some expires_at, sess_ended_at = None, sess_end_reason = None,
      sess_duration_seconds = None, sess_revoked_at = None, sess_mfa_used = False\<rparr>"

text \<open>The claims of an access token, which the source hands to \<open>jwt.encode\<close>.  \<open>int\<close> cuts the seconds of a
  time off towards zero; \<open>expires_minutes or settings.access_token_expire_minutes\<close> is the lifetime.\<close>

definition epoch_seconds :: "instant \<Rightarrow> int" where
  "epoch_seconds t = (if 0 \<le> t then t div seconds else - ((- t) div seconds))"

definition create_access_token ::
  "auth_settings \<Rightarrow> instant \<Rightarrow> string \<Rightarrow> int option \<Rightarrow> int \<Rightarrow> string option \<Rightarrow> token_claims" where
  "create_access_token cfg now subject expires_minutes token_version session_jti =
     (let lifetime = int_or (case expires_minutes of None \<Rightarrow> 0 | Some m \<Rightarrow> m)
            (set_access_token_expire_minutes cfg);
          expire = now + lifetime * minutes;
          jti = or_none (py_strip (or_empty session_jti))
      in \<lparr>claim_sub = Some subject, claim_tv = Some token_version,
          claim_iat = Some (epoch_seconds now), claim_exp = Some (epoch_seconds expire),
          claim_jti = jti\<rparr>)"

definition login_succeeded ::
  "auth_env \<Rightarrow> instant \<Rightarrow> string \<Rightarrow> login_request \<Rightarrow> user_row \<Rightarrow> int option \<Rightarrow> auth_state
    \<Rightarrow> auth_state \<times> login_response res" where
  "login_succeeded env now jti req user grace st =
     (let cfg = env_settings env; pwd = password_expiry_status cfg user now;
          expires_at = now + set_access_token_expire_minutes cfg * minutes
      in (st\<lparr>st_users := update_user user (st_users st),
             st_sessions := st_sessions st @ [record_session_start user jti now expires_at],
             st_audit := st_audit st @ [\<lparr>aud_action = ''login_success'', aud_created_at = now,
               aud_ip = req_ip req, aud_user_email = Some (user_email user), aud_reason = ''''\<rparr>]\<rparr>,
          Inr \<lparr>resp_token = create_access_token cfg now (user_email user) None (user_token_version user) (Some jti),
               resp_roles = map role_name (user_roles user),
               resp_permissions = sort (remdups (granted_permissions user)),
               resp_mfa_enabled = user_mfa_enabled user,
               resp_mfa_grace_remaining = grace,
               resp_password_expires_at = exp_expires_at pwd,
               resp_password_days_remaining = exp_days_remaining pwd\<rparr>))"

section \<open>Login and logout\<close>

definition mfa_lock_detail :: string where
  "mfa_lock_detail = ''Conta bloqueada por falta de autenticacao de duplo fator. Solicite o desbloqueio a um administrador.''"

definition password_expired_detail :: string where
  "password_expired_detail = ''Acesso bloqueado: sua senha expirou (troca obrigatoria a cada 90 dias). Solicite a liberacao a um administrador.''"

definition login ::
  "auth_env \<Rightarrow> instant \<Rightarrow> string \<Rightarrow> login_request \<Rightarrow> auth_state \<Rightarrow> auth_state \<times> login_response res" where
  "login env now jti req st =
     (let normalized_email = normalize_email (req_email req);
          cfg = env_settings env
      in
      if login_rate_limited cfg now (req_ip req) normalized_email (st_audit st)
      then (st, Inl (HTTPException 429 ''Too many login attempts. Try again later.''))
      else (case find_by_email normalized_email (st_users st) of
        None \<Rightarrow> login_failed now req normalized_email ''invalid_credentials'' 401 ''Invalid credentials'' st
      | Some user \<Rightarrow>
          if \<not> env_verify_password env (req_password req) (user_password_hash user)
          then login_failed now req normalized_email ''invalid_credentials'' 401 ''Invalid credentials'' st
          else if user_mfa_locked user
          then login_failed now req (user_email user) ''mfa_locked'' 403 mfa_lock_detail st
          else if exp_expired (password_expiry_status cfg user now)
          then login_failed now req (user_email user) ''password_expired'' 403 password_expired_detail st
          else (case second_factor_check env now (req_mfa_code req) user of
              Denied user' reason status detail \<Rightarrow>
                login_failed now req (user_email user) reason status detail
                  (st\<lparr>st_users := update_user user' (st_users st)\<rparr>)
            | Raised e \<Rightarrow> (st, Inl e)
            | Passed user' grace \<Rightarrow> login_succeeded env now jti req user' grace st)))"

definition record_session_end :: "instant \<Rightarrow> string \<Rightarrow> session_row \<Rightarrow> session_row" where
  "record_session_end now end_reason s =
     s\<lparr>sess_ended_at := Some now,
       sess_end_reason := or_none (py_strip end_reason),
       sess_revoked_at := (if end_reason = ''revoked'' then Some now else sess_revoked_at s),
       sess_duration_seconds := Some (max ((now - sess_started_at s) div seconds) 0)\<rparr>"

definition update_session :: "int \<Rightarrow> string \<Rightarrow> session_row \<Rightarrow> session_row list \<Rightarrow> session_row list" where
  "update_session uid jti s' =
     map (\<lambda>s. if sess_user_id s = uid \<and> sess_jti s = jti then s' else s)"

definition bump_token_version :: "user_row \<Rightarrow> user_row" where
  "bump_token_version u = u\<lparr>user_token_version := user_token_version u + 1\<rparr>"

definition logout ::
  "(instant \<Rightarrow> string \<Rightarrow> token_claims option) \<Rightarrow> instant \<Rightarrow> string \<Rightarrow> auth_state
    \<Rightarrow> auth_state \<times> bool res" where
  "logout decode now token st =
     (let payload = decode now token;
          email = normalize_email (or_empty (case payload of None \<Rightarrow> None | Some p \<Rightarrow> claim_sub p))
      in if email = [] then (st, unauthorized ''Invalid token'')
      else (case find_by_email email (st_users st) of
        None \<Rightarrow> (st, unauthorized ''User inactive or missing'')
      | Some user \<Rightarrow>
          if \<not> user_is_active user then (st, unauthorized ''User inactive or missing'')
          else let bumped = (st\<lparr>st_users := update_user (bump_token_version user) (st_users st)\<rparr>, Inr False)
          in (case claim_session payload of
               None \<Rightarrow> bumped
             | Some jti \<Rightarrow>
                 (case lookup_session (st_sessions st) (user_id user) jti of
                    None \<Rightarrow> bumped
                  | Some s \<Rightarrow>
                      let ended = record_session_end now ''logout'' s;
                          revoked = ended\<lparr>sess_revoked_at :=
                            (case sess_revoked_at ended of None \<Rightarrow> sess_ended_at ended | Some r \<Rightarrow> Some r)\<rparr>
                      in (st\<lparr>st_sessions := update_session (user_id user) jti revoked (st_sessions st)\<rparr>,
                          Inr True)))))"

section \<open>Self-service and administration\<close>

definition change_password ::
  "auth_env \<Rightarrow> instant \<Rightarrow> string \<Rightarrow> string \<Rightarrow> user_row \<Rightarrow> user_row res" where
  "change_password env now current_password new_password user =
     (if \<not> env_verify_password env current_password (user_password_hash user)
      then Inl (HTTPException 400 ''Current password is invalid'')
      else (case validate_password_policy new_password of
          Inl (ValueError msg) \<Rightarrow> Inl (HTTPException 400 msg)
        | Inl e \<Rightarrow> Inl e
        | Inr _ \<Rightarrow> Inr (user\<lparr>user_password_hash := env_hash_password env new_password,
                            user_token_version := user_token_version user + 1,
                            user_password_changed_at := now\<rparr>)))"

definition setup_mfa :: "string option \<Rightarrow> user_row \<Rightarrow> user_row res" where
  "setup_mfa encrypted user =
     (if user_mfa_enabled user then Inl (HTTPException 409 ''MFA is already enabled'')
      else Inr (user\<lparr>user_mfa_secret_encrypted := encrypted\<rparr>))"

definition verify_mfa :: "auth_env \<Rightarrow> instant \<Rightarrow> string \<Rightarrow> user_row \<Rightarrow> user_row res" where
  "verify_mfa env now code user =
     (if user_mfa_enabled user then Inl (HTTPException 409 ''MFA is already enabled'')
      else let secret = env_stored_secret env (user_mfa_secret_encrypted user) in
      if \<not> str_true secret then Inl (HTTPException 400 ''MFA setup has not been started'')
      else res_bind (find_totp_counter (env_mac env) (or_empty secret) code now 30 6 1) (\<lambda>matched.
        case matched of
          None \<Rightarrow> Inl (HTTPException 400 ''Invalid MFA code'')
        | Some k \<Rightarrow> Inr (user\<lparr>user_mfa_enabled := True, user_mfa_last_counter := Some k,
                             user_mfa_locked := False, user_mfa_locked_at := None,
                             user_mfa_grace_logins_used := 0\<rparr>)))"

definition disable_mfa :: "auth_env \<Rightarrow> string \<Rightarrow> user_row \<Rightarrow> user_row res" where
  "disable_mfa env current_password user =
     (if \<not> env_verify_password env current_password (user_password_hash user)
      then Inl (HTTPException 400 ''Current password is invalid'')
      else if \<not> user_mfa_enabled user
           \<and> \<not> str_true (env_stored_secret env (user_mfa_secret_encrypted user))
      then Inl (HTTPException 400 ''MFA is not enabled'')
      else Inr (user\<lparr>user_mfa_enabled := False, user_mfa_secret_encrypted := None\<rparr>))"

definition unlock_user_mfa :: "user_row \<Rightarrow> user_row res" where
  "unlock_user_mfa user = Inr (user\<lparr>user_mfa_locked := False, user_mfa_locked_at := None,
     user_mfa_grace_logins_used := 0\<rparr>)"

definition unlock_user_password :: "instant \<Rightarrow> user_row \<Rightarrow> user_row res" where
  "unlock_user_password now user = Inr (user\<lparr>user_password_changed_at := now\<rparr>)"

section \<open>Histories of the account tables\<close>

datatype auth_event =
    Login instant string login_request
  | Logout instant string
  | ChangePassword int instant string string
  | SetupMfa int "string option"
  | VerifyMfa int instant string
  | DisableMfa int string
  | UnlockMfa int
  | UnlockPassword int instant

definition on_user :: "int \<Rightarrow> (user_row \<Rightarrow> user_row res) \<Rightarrow> auth_state \<Rightarrow> auth_state" where
  "on_user uid f st =
     (case List.find (\<lambda>u. user_id u = uid) (st_users st) of
        None \<Rightarrow> st
      | Some u \<Rightarrow> (case f u of Inl e \<Rightarrow> st
                   | Inr u' \<Rightarrow> st\<lparr>st_users := update_user u' (st_users st)\<rparr>))"

fun auth_step ::
  "auth_env \<Rightarrow> (instant \<Rightarrow> string \<Rightarrow> token_claims option) \<Rightarrow> auth_state \<Rightarrow> auth_event \<Rightarrow> auth_state" where
  "auth_step env decode st (Login now jti req) = fst (login env now jti req st)"
| "auth_step env decode st (Logout now token) = fst (logout decode now token st)"
| "auth_step env decode st (ChangePassword uid now cur new) = on_user uid (change_password env now cur new) st"
| "auth_step env decode st (SetupMfa uid encrypted) = on_user uid (setup_mfa encrypted) st"
| "auth_step env decode st (VerifyMfa uid now code) = on_user uid (verify_mfa env now code) st"
| "auth_step env decode st (DisableMfa uid pwd) = on_user uid (disable_mfa env pwd) st"
| "auth_step env decode st (UnlockMfa uid) = on_user uid unlock_user_mfa st"
| "auth_step env decode st (UnlockPassword uid now) = on_user uid (unlock_user_password now) st"

text \<open>What every account row satisfies: the grace logins stay within the configured number, the lock
  carries its time, and an enabled second factor has a secret and a consumed counter.\<close>

definition account_ok :: "auth_env \<Rightarrow> user_row \<Rightarrow> bool" where
  "account_ok env u =
     (0 \<le> user_mfa_grace_logins_used u
      \<and> user_mfa_grace_logins_used u \<le> max 0 (set_mfa_grace_logins (env_settings env))
      \<and> (user_mfa_locked u \<longleftrightarrow> user_mfa_locked_at u \<noteq> None)
      \<and> (user_mfa_enabled u \<longrightarrow>
           str_true (env_stored_secret env (user_mfa_secret_encrypted u))
           \<and> user_mfa_last_counter u \<noteq> None))"

definition accounts_ok :: "auth_env \<Rightarrow> auth_state \<Rightarrow> bool" where
  "accounts_ok env st = list_all (account_ok env) (st_users st)"

lemma accounts_ok_update:
  "list_all (account_ok env) us \<Longrightarrow> account_ok env u \<Longrightarrow> list_all (account_ok env) (update_user u us)"
  by (auto simp: list_all_iff update_user_def)

lemma find_in: "List.find P xs = Some x \<Longrightarrow> x \<in> set xs \<and> P x"
  by (auto simp: find_Some_iff)

lemma second_factor_account_ok:
  assumes "account_ok env u"
  shows "second_factor_check env now code u = Denied u' r s d \<Longrightarrow> account_ok env u'"
    and "second_factor_check env now code u = Passed u' g \<Longrightarrow> account_ok env u'"
  using assms
  by (auto simp: second_factor_check_def check_mfa_code_def check_grace_def account_ok_def Let_def
      split: if_splits option.splits sum.splits)

text \<open>The outcomes of a login: stopped by the rate limit, stopped by an exception of the code check,
  denied (the row of the user possibly locked), or granted.\<close>

lemma login_cases:
  obtains (limited) "login_rate_limited (env_settings env) now (req_ip req)
        (normalize_email (req_email req)) (st_audit st)"
      and "login env now jti req st = (st, Inl (HTTPException 429 ''Too many login attempts. Try again later.''))"
  | (failed) email reason status detail where
      "\<not> login_rate_limited (env_settings env) now (req_ip req)
        (normalize_email (req_email req)) (st_audit st)"
      and "login env now jti req st = login_failed now req email reason status detail st"
      and "py_lower email = normalize_email (req_email req)" and "status \<noteq> 429"
  | (factor) u where
      "\<not> login_rate_limited (env_settings env) now (req_ip req)
        (normalize_email (req_email req)) (st_audit st)"
      and "find_by_email (normalize_email (req_email req)) (st_users st) = Some u"
      and "env_verify_password env (req_password req) (user_password_hash u)"
      and "\<not> user_mfa_locked u" and "\<not> exp_expired (password_expiry_status (env_settings env) u now)"
      and "login env now jti req st =
        (case second_factor_check env now (req_mfa_code req) u of
           Denied user' reason status detail \<Rightarrow>
             login_failed now req (user_email u) reason status detail
               (st\<lparr>st_users := update_user user' (st_users st)\<rparr>)
         | Raised e \<Rightarrow> (st, Inl e)
         | Passed user' grace \<Rightarrow> login_succeeded env now jti req user' grace st)"
proof -
  let ?e = "normalize_email (req_email req)"
  have low: "py_lower ?e = ?e" by (simp add: normalize_email_def)
  show ?thesis
  proof (cases "login_rate_limited (env_settings env) now (req_ip req) ?e (st_audit st)")
    case True
    then show ?thesis by (intro limited) (simp_all add: login_def Let_def)
  next
    case nolimit: False
    show ?thesis
    proof (cases "find_by_email ?e (st_users st)")
      case None
      with nolimit low show ?thesis by (intro failed [OF nolimit], simp_all add: login_def Let_def, simp?)
    next
      case (Some u)
      then have lu: "py_lower (user_email u) = ?e" by (auto simp: find_by_email_def dest: find_Some_iff [THEN iffD1])
      show ?thesis
      proof (cases "env_verify_password env (req_password req) (user_password_hash u)
          \<and> \<not> user_mfa_locked u \<and> \<not> exp_expired (password_expiry_status (env_settings env) u now)")
        case True
        with nolimit Some show ?thesis by (intro factor) (simp_all add: login_def Let_def)
      next
        case False
        show ?thesis
        proof (cases "env_verify_password env (req_password req) (user_password_hash u)")
          case ok: True
          show ?thesis
          proof (cases "user_mfa_locked u")
            case True
            with ok nolimit Some lu show ?thesis
              by (intro failed [OF nolimit, of "user_email u"], simp_all add: login_def Let_def, simp?)
          next
            case nolock: False
            with False ok nolimit Some lu show ?thesis
              by (intro failed [OF nolimit, of "user_email u"], simp_all add: login_def Let_def, simp?)
          qed
        next
          case nok: False
          with nolimit Some low show ?thesis
            by (intro failed [OF nolimit], simp_all add: login_def Let_def, simp?)
        qed
      qed
    qed
  qed
qed

lemma login_users_cases:
  obtains "st_users (fst (login env now jti req st)) = st_users st"
  | u u' where "find_by_email (normalize_email (req_email req)) (st_users st) = Some u"
      and "st_users (fst (login env now jti req st)) = update_user u' (st_users st)"
      and "(\<exists>r s d. second_factor_check env now (req_mfa_code req) u = Denied u' r s d)
           \<or> (\<exists>g. second_factor_check env now (req_mfa_code req) u = Passed u' g)"
proof (cases rule: login_cases [of env now req st jti])
  case limited
  then show ?thesis by (intro that(1)) simp
next
  case failed
  then show ?thesis by (intro that(1)) (simp add: login_failed_def)
next
  case (factor u)
  show ?thesis
  proof (cases "second_factor_check env now (req_mfa_code req) u")
    case (Denied u' r s d)
    with factor show ?thesis by (intro that(2) [of u u']) (simp_all add: login_failed_def)
  next
    case (Raised e)
    with factor show ?thesis by (intro that(1)) simp
  next
    case (Passed u' g)
    with factor show ?thesis by (intro that(2) [of u u']) (simp_all add: login_succeeded_def Let_def)
  qed
qed

lemma accounts_ok_login: "accounts_ok env st \<Longrightarrow> accounts_ok env (fst (login env now jti req st))"
proof (cases rule: login_users_cases [of env now jti req st])
  case (2 u u')
  assume ok: "accounts_ok env st"
  from 2(1) have "u \<in> set (st_users st)" by (auto simp: find_by_email_def dest: find_in)
  with ok have "account_ok env u" by (simp add: accounts_ok_def list_all_iff)
  with 2(3) second_factor_account_ok [of env u] have "account_ok env u'" by blast
  with ok 2(2) show ?thesis by (simp add: accounts_ok_def accounts_ok_update)
qed (simp add: accounts_ok_def)

lemma accounts_ok_on_user:
  assumes "accounts_ok env st" and "\<And>u u'. account_ok env u \<Longrightarrow> f u = Inr u' \<Longrightarrow> account_ok env u'"
  shows "accounts_ok env (on_user uid f st)"
  using assms
  by (auto simp: on_user_def accounts_ok_def list_all_iff update_user_def dest!: find_in
      split: option.splits sum.splits)

lemma accounts_ok_logout: "accounts_ok env st \<Longrightarrow> accounts_ok env (fst (logout decode now token st))"
  by (auto simp: logout_def accounts_ok_def list_all_iff update_user_def account_ok_def
      bump_token_version_def find_by_email_def Let_def dest!: find_in split: option.splits if_splits)

lemma account_ok_ops:
  assumes "account_ok env u"
  shows "change_password env now cur new u = Inr u' \<Longrightarrow> account_ok env u'"
    and "setup_mfa encrypted u = Inr u' \<Longrightarrow> account_ok env u'"
    and "verify_mfa env now code u = Inr u' \<Longrightarrow> account_ok env u'"
    and "disable_mfa env pwd u = Inr u' \<Longrightarrow> account_ok env u'"
    and "unlock_user_mfa u = Inr u' \<Longrightarrow> account_ok env u'"
    and "unlock_user_password now u = Inr u' \<Longrightarrow> account_ok env u'"
  subgoal using assms
    by (auto simp: change_password_def account_ok_def split: if_splits sum.splits py_error.splits)
  subgoal using assms by (auto simp: setup_mfa_def account_ok_def split: if_splits)
  subgoal using assms
    by (auto simp: verify_mfa_def account_ok_def Let_def res_bind_Inr_iff split: if_splits option.splits)
  subgoal using assms by (auto simp: disable_mfa_def account_ok_def split: if_splits)
  subgoal using assms by (auto simp: unlock_user_mfa_def account_ok_def)
  subgoal using assms by (auto simp: unlock_user_password_def account_ok_def)
  done

lemma accounts_ok_step: "accounts_ok env st \<Longrightarrow> accounts_ok env (auth_step env decode st e)"
  by (cases e)
    (simp_all add: accounts_ok_login accounts_ok_logout,
     (erule accounts_ok_on_user; erule (1) account_ok_ops)+)

interpretation auth: invariant_machine "auth_step env decode" "accounts_ok env" for env decode
  by unfold_locales (rule accounts_ok_step)

text \<open>Whatever the history of logins, logouts, password changes, enrolments and unlocks, with whatever
  arguments and in whatever order, every account keeps its grace logins within the configured number, has a
  lock time exactly when it is locked, and has a stored secret and a consumed counter whenever its second
  factor is enabled, so that \<open>mfa_configuration_missing\<close> cannot arise from these operations.\<close>

theorem accounts_ok_history:
  assumes "accounts_ok env st"
  shows "accounts_ok env (foldl (auth_step env decode) st es)"
  using assms by (rule auth.inv_run)

definition demo_settings :: auth_settings where
  "demo_settings = \<lparr>set_rate_limit_attempts = 5, set_rate_limit_window_seconds = 300,
     set_password_max_age_days = 90, set_password_expiry_warning_days = 10,
     set_mfa_grace_logins = 1, set_access_token_expire_minutes = 120\<rparr>"

definition demo_env :: auth_env where
  "demo_env = \<lparr>env_settings = demo_settings, env_verify_password = (\<lambda>p h. p = h),
     env_hash_password = id, env_stored_secret = id, env_mac = ones_digest\<rparr>"

definition demo_state :: "user_row list \<Rightarrow> auth_state" where
  "demo_state us = \<lparr>st_users = us, st_sessions = [], st_audit = []\<rparr>"

definition demo_login :: "string \<Rightarrow> string option \<Rightarrow> login_request" where
  "demo_login pwd code = \<lparr>req_email = '' Ana@x'', req_password = pwd, req_mfa_code = code, req_ip = None\<rparr>"

theorem accounts_ok_history_witness:
  "accounts_ok demo_env (foldl (auth_step demo_env (\<lambda>_ _. None)) (demo_state [plain_user])
     [Login 5 ''j1'' (demo_login ''h'' None), Login 6 ''j2'' (demo_login ''h'' None), UnlockMfa 7])"
  by (rule accounts_ok_history) code_simp

section \<open>Guessing is bounded\<close>

fun run_logins ::
  "auth_env \<Rightarrow> auth_state \<Rightarrow> (instant \<times> string \<times> login_request) list \<Rightarrow> login_response res list" where
  "run_logins env st [] = []"
| "run_logins env st ((now, jti, req) # rs) =
     (let (st', r) = login env now jti req st in r # run_logins env st' rs)"




definition failures_since :: "instant \<Rightarrow> string \<Rightarrow> auth_state \<Rightarrow> nat" where
  "failures_since t0 email st = length (filter (\<lambda>a. aud_action a = ''login_failed''
     \<and> aud_created_at a \<ge> t0 \<and> email_matches email a) (st_audit st))"

lemma normalize_email_idem [simp]: "normalize_email (normalize_email e) = normalize_email e"
  by (simp add: normalize_email_def py_strip_lower)





lemma failures_since_users [simp]:
  "failures_since t0 e (st\<lparr>st_users := us\<rparr>) = failures_since t0 e st"
  by (simp add: failures_since_def)





section \<open>Without a second factor\<close>

lemma find_by_email_update:
  assumes "find_by_email e us = Some u" and "user_id u' = user_id u" and "py_lower (user_email u') = e"
  shows "find_by_email e (update_user u' us) = Some u'"
  using assms by (induction us) (auto simp: find_by_email_def update_user_def split: if_splits)

lemma second_factor_row:
  assumes "second_factor_check env now code u = Passed u' g \<or> second_factor_check env now code u = Denied u' r s d"
  shows "user_id u' = user_id u \<and> user_email u' = user_email u \<and> user_mfa_enabled u' = user_mfa_enabled u
    \<and> user_is_active u' = user_is_active u \<and> user_token_version u' = user_token_version u
    \<and> user_roles u' = user_roles u"
  using assms
  by (auto simp: second_factor_check_def check_mfa_code_def check_grace_def Let_def
      split: if_splits option.splits sum.splits)

lemma login_keeps_grace:
  assumes e: "normalize_email (req_email req) = e" and run: "login env now jti req st = (st', r)"
    and u: "find_by_email e (st_users st) = Some u" and mfa: "\<not> user_mfa_enabled u"
  shows "\<exists>u'. find_by_email e (st_users st') = Some u' \<and> \<not> user_mfa_enabled u'
    \<and> user_mfa_grace_logins_used u' = user_mfa_grace_logins_used u + (if isl r then 0 else 1)
    \<and> (\<not> isl r \<longrightarrow> user_mfa_grace_logins_used u < set_mfa_grace_logins (env_settings env))"
proof (cases rule: login_cases [of env now req st jti])
  case limited
  with run u mfa show ?thesis by auto
next
  case (failed email reason status detail)
  with run u mfa show ?thesis by (auto simp: login_failed_def)
next
  case (factor v)
  with e u have v: "v = u" by simp
  then have low: "py_lower (user_email u) = e"
    using u by (auto simp: find_by_email_def find_Some_iff)
  have upd: "find_by_email e (update_user u' (st_users st)) = Some u'"
    if "user_id u' = user_id u" "user_email u' = user_email u" for u'
    using find_by_email_update [OF u] that low by simp
  show ?thesis
    using factor run mfa v upd
    by (auto simp: second_factor_check_def check_grace_def Let_def login_failed_def
        login_succeeded_def split: if_splits)
qed

text \<open>The grace period is finite.  However many logins are attempted with the right password on an account
  without a second factor, at most the remaining grace logins succeed.\<close>

theorem grace_logins_bounded:
  assumes "\<forall>(now, jti, req)\<in>set rs. normalize_email (req_email req) = e"
    and "find_by_email e (st_users st) = Some u" and "\<not> user_mfa_enabled u"
  shows "int (length (filter (\<lambda>r. \<not> isl r) (run_logins env st rs)))
    \<le> max 0 (set_mfa_grace_logins (env_settings env) - user_mfa_grace_logins_used u)"
  using assms
proof (induction rs arbitrary: st u)
  case (Cons x rs)
  obtain now jti req where x: "x = (now, jti, req)" by (cases x)
  obtain st' r where run: "login env now jti req st = (st', r)" by fastforce
  from Cons.prems x have "normalize_email (req_email req) = e" by auto
  from login_keeps_grace [OF this run Cons.prems(2,3)] obtain u' where
    u': "find_by_email e (st_users st') = Some u'" "\<not> user_mfa_enabled u'"
      "user_mfa_grace_logins_used u' = user_mfa_grace_logins_used u + (if isl r then 0 else 1)"
      "\<not> isl r \<longrightarrow> user_mfa_grace_logins_used u < set_mfa_grace_logins (env_settings env)"
    by blast
  with Cons.IH [of st' u'] Cons.prems(1) run x show ?case by auto
qed simp

theorem grace_logins_bounded_witness:
  "int (length (filter (\<lambda>r. \<not> isl r) (run_logins demo_env (demo_state [plain_user])
     [(5, ''j1'', demo_login ''h'' None), (6, ''j2'', demo_login ''h'' None)]))) \<le> 1"
proof -
  have "normalize_email '' Ana@x'' = ''ana@x''" by code_simp
  moreover have "find_by_email ''ana@x'' [plain_user] = Some plain_user" by code_simp
  ultimately show ?thesis
    using grace_logins_bounded [of "[(5, ''j1'', demo_login ''h'' None), (6, ''j2'', demo_login ''h'' None)]"
      "''ana@x''" "demo_state [plain_user]" plain_user demo_env]
    by (simp add: demo_login_def demo_state_def plain_user_def demo_env_def demo_settings_def)
qed

section \<open>No code is accepted twice\<close>

definition session_step ::
  "auth_env \<Rightarrow> (instant \<Rightarrow> string \<Rightarrow> token_claims option) \<Rightarrow> auth_state \<Rightarrow> auth_event \<Rightarrow> auth_state" where
  "session_step env decode st e =
     (case e of Login _ _ _ \<Rightarrow> auth_step env decode st e
      | Logout _ _ \<Rightarrow> auth_step env decode st e
      | _ \<Rightarrow> st)"

definition counter_consumed :: "string \<Rightarrow> int \<Rightarrow> auth_state \<Rightarrow> bool" where
  "counter_consumed e k st =
     (distinct (map user_id (st_users st)) \<and>
      (\<exists>u. find_by_email e (st_users st) = Some u \<and> user_mfa_enabled u
         \<and> (case user_mfa_last_counter u of None \<Rightarrow> False | Some l \<Rightarrow> k \<le> l)))"

lemma map_id_update [simp]: "map user_id (update_user u us) = map user_id us"
  by (auto simp: update_user_def)

lemma find_by_email_update_other:
  assumes "distinct (map user_id us)" and "find_by_email e us = Some u" and "find_by_email e2 us = Some v"
    and "user_id v' = user_id v" and "user_email v' = user_email v"
  shows "find_by_email e (update_user v' us) = Some (if u = v then v' else u)"
proof -
  have u: "u \<in> set us" "py_lower (user_email u) = e" and v: "v \<in> set us"
    using assms(2,3) by (auto simp: find_by_email_def dest: find_in)
  show ?thesis
  proof (cases "u = v")
    case True
    with assms u find_by_email_update [OF assms(2), of v'] show ?thesis by simp
  next
    case False
    with assms(1) u v have "user_id u \<noteq> user_id v" by (auto dest: distinct_map [THEN iffD1] inj_onD)
    with assms(1-5) False show ?thesis
    proof (induction us)
      case (Cons w us)
      have "w = v" if "user_id w = user_id v"
        using that Cons.prems(1,3) by (auto simp: find_by_email_def split: if_splits dest!: find_in)
      moreover have "map (\<lambda>x. if user_id x = user_id v then v' else x) us = us" if "w = v"
        using that Cons.prems(1) by (intro map_idI) (auto simp: image_iff)
      ultimately show ?case
        using Cons by (auto simp: find_by_email_def update_user_def split: if_splits)
    qed (simp add: find_by_email_def)
  qed
qed

lemma check_mfa_row:
  assumes "user_mfa_enabled u"
  shows "second_factor_check env now code u = Denied u' r s d \<Longrightarrow> u' = u"
    and "second_factor_check env now code u = Passed u' g \<Longrightarrow>
      \<exists>k. u' = u\<lparr>user_mfa_last_counter := Some k\<rparr>
        \<and> (case user_mfa_last_counter u of None \<Rightarrow> True | Some l \<Rightarrow> l < k)
        \<and> find_totp_counter (env_mac env) (or_empty (env_stored_secret env (user_mfa_secret_encrypted u)))
            (py_strip (or_empty code)) now 30 6 1 = Inr (Some k)"
  using assms
  by (auto simp: second_factor_check_def check_mfa_code_def Let_def split: if_splits option.splits sum.splits)

lemma login_counter:
  assumes c: "counter_consumed e k st" and run: "login env now jti req st = (st', r)"
  shows "counter_consumed e k st'
    \<and> (\<not> isl r \<and> normalize_email (req_email req) = e \<longrightarrow> counter_consumed e (k + 1) st')"
proof -
  from c obtain u l where u: "find_by_email e (st_users st) = Some u" "user_mfa_enabled u"
      "user_mfa_last_counter u = Some l" "k \<le> l" and d: "distinct (map user_id (st_users st))"
    by (auto simp: counter_consumed_def split: option.splits)
  show ?thesis
  proof (cases rule: login_cases [of env now req st jti])
    case limited
    with run c show ?thesis by auto
  next
    case (failed email reason status detail)
    with run c show ?thesis by (auto simp: login_failed_def counter_consumed_def)
  next
    case (factor v)
    note upd = find_by_email_update_other [OF d u(1) factor(2)]
    show ?thesis
    proof (cases "second_factor_check env now (req_mfa_code req) v")
      case (Raised x)
      with factor run c show ?thesis by auto
    next
      case (Denied v' reason status detail)
      then have "user_id v' = user_id v" "user_email v' = user_email v"
        using second_factor_row [of env now "req_mfa_code req" v v'] by blast+
      from upd [OF this] Denied check_mfa_row(1) [of v env now "req_mfa_code req" v'] factor run u d
      show ?thesis by (auto simp: login_failed_def counter_consumed_def)
    next
      case (Passed v' g)
      then have "user_id v' = user_id v" "user_email v' = user_email v" "user_mfa_enabled v' = user_mfa_enabled v"
        using second_factor_row [of env now "req_mfa_code req" v v'] by blast+
      from upd [OF this(1,2)] this(3) Passed check_mfa_row(2) [of v env now "req_mfa_code req" v' g]
        factor run u d
      show ?thesis by (auto simp: login_succeeded_def Let_def counter_consumed_def split: if_splits)
    qed
  qed
qed

lemma counter_logout: "counter_consumed e k st \<Longrightarrow> counter_consumed e k (fst (logout decode now token st))"
proof -
  assume c: "counter_consumed e k st"
  then obtain u where u: "find_by_email e (st_users st) = Some u" and d: "distinct (map user_id (st_users st))"
    by (auto simp: counter_consumed_def)
  have "counter_consumed e k (st\<lparr>st_users := update_user (bump_token_version v) (st_users st)\<rparr>)"
    if "find_by_email e2 (st_users st) = Some v" for e2 v
    using c find_by_email_update_other [OF d u that, of "bump_token_version v"] u
    by (auto simp: counter_consumed_def bump_token_version_def split: if_splits)
  with c show ?thesis
    by (auto simp: logout_def Let_def split: option.splits; simp add: counter_consumed_def)
qed

interpretation counter: invariant_machine "session_step env decode" "counter_consumed e k"
  for env decode e k
proof
  fix st ev
  assume c: "counter_consumed e k st"
  show "counter_consumed e k (session_step env decode st ev)"
    using c login_counter [OF c] counter_logout [OF c]
    by (cases ev) (auto simp: session_step_def, metis prod.collapse)
qed

lemma mfa_login_consumes:
  assumes d: "distinct (map user_id (st_users st))" and run: "login env now jti req st = (st', Inr resp)"
    and mfa: "resp_mfa_enabled resp"
  shows "\<exists>k u. find_by_email (normalize_email (req_email req)) (st_users st) = Some u
    \<and> counter_consumed (normalize_email (req_email req)) k st'
    \<and> find_totp_counter (env_mac env) (or_empty (env_stored_secret env (user_mfa_secret_encrypted u)))
        (py_strip (or_empty (req_mfa_code req))) now 30 6 1 = Inr (Some k)
    \<and> (\<forall>m. counter_consumed (normalize_email (req_email req)) m st \<longrightarrow> m < k)"
proof (cases rule: login_cases [of env now req st jti])
  case limited
  with run show ?thesis by simp
next
  case failed
  with run show ?thesis by (simp add: login_failed_def)
next
  case (factor u)
  from factor run obtain u' g where p: "second_factor_check env now (req_mfa_code req) u = Passed u' g"
    and r: "(st', Inr resp) = login_succeeded env now jti req u' g st"
    by (auto simp: login_failed_def split: second_factor.splits)
  from r mfa second_factor_row [OF disjI1, OF p] have en: "user_mfa_enabled u"
    by (auto simp: login_succeeded_def Let_def)
  from check_mfa_row(2) [OF this p] obtain k where k: "u' = u\<lparr>user_mfa_last_counter := Some k\<rparr>"
    "case user_mfa_last_counter u of None \<Rightarrow> True | Some l \<Rightarrow> l < k"
    "find_totp_counter (env_mac env) (or_empty (env_stored_secret env (user_mfa_secret_encrypted u)))
       (py_strip (or_empty (req_mfa_code req))) now 30 6 1 = Inr (Some k)" by blast
  have "counter_consumed (normalize_email (req_email req)) k st'"
    using r d en k(1) find_by_email_update_other [OF d factor(2) factor(2), of u']
    by (auto simp: login_succeeded_def Let_def counter_consumed_def)
  moreover have "m < k" if "counter_consumed (normalize_email (req_email req)) m st" for m
    using that k(2) factor(2) by (auto simp: counter_consumed_def split: option.splits)
  ultimately show ?thesis using factor(2) k(3) by blast
qed

text \<open>C3: A one-time code is accepted once.  After a login with a code of counter \<open>k\<close>, and any number of
  further logins and logouts of any accounts, a login of the same account succeeds only with a code of a
  strictly larger counter.\<close>

theorem no_code_replay:
  assumes "distinct (map user_id (st_users st))"
    and "login env now1 jti1 req1 st = (st1, Inr resp1)" and "resp_mfa_enabled resp1"
    and "login env now2 jti2 req2 (foldl (session_step env decode) st1 es) = (st2, Inr resp2)"
    and "resp_mfa_enabled resp2"
    and "normalize_email (req_email req2) = normalize_email (req_email req1)"
  shows "\<exists>k1 k2 s1 s2. k1 < k2
    \<and> hotp_code (env_mac env) s1 k1 6 = Inr (normalize_code (py_strip (or_empty (req_mfa_code req1))))
    \<and> hotp_code (env_mac env) s2 k2 6 = Inr (normalize_code (py_strip (or_empty (req_mfa_code req2))))
    \<and> \<bar>k1 - totp_counter now1 30\<bar> \<le> 1 \<and> \<bar>k2 - totp_counter now2 30\<bar> \<le> 1"
proof -
  from mfa_login_consumes [OF assms(1-3)] obtain k1 and u1 :: user_row where
    c1: "counter_consumed (normalize_email (req_email req1)) k1 st1"
    and f1: "find_totp_counter (env_mac env) (or_empty (env_stored_secret env (user_mfa_secret_encrypted u1)))
       (py_strip (or_empty (req_mfa_code req1))) now1 30 6 1 = Inr (Some k1)" by blast
  from c1 have c: "counter_consumed (normalize_email (req_email req1)) k1 (foldl (session_step env decode) st1 es)"
    by (rule counter.inv_run)
  then have "distinct (map user_id (st_users (foldl (session_step env decode) st1 es)))"
    by (simp add: counter_consumed_def)
  from mfa_login_consumes [OF this assms(4,5)] c assms(6) obtain k2 and u2 :: user_row where "k1 < k2"
    and f2: "find_totp_counter (env_mac env) (or_empty (env_stored_secret env (user_mfa_secret_encrypted u2)))
       (py_strip (or_empty (req_mfa_code req2))) now2 30 6 1 = Inr (Some k2)" by auto
  with find_totp_counter_sound [OF f1] find_totp_counter_sound [OF f2] show ?thesis by blast
qed

definition mfa_user_at :: "int \<Rightarrow> user_row" where
  "mfa_user_at l = plain_user\<lparr>user_mfa_enabled := True, user_mfa_secret_encrypted := Some ''MZXQ'',
     user_mfa_last_counter := Some l\<rparr>"

lemma b32_fo: "b32decode (padded_secret ''MZXQ'') = Some [102, 111]"
  by code_simp

lemma ones_code_at: "0 \<le> k \<Longrightarrow> k < 2 ^ 64 \<Longrightarrow> hotp_code ones_digest ''MZXQ'' k 6 = Inr ''843009''"
  using ones_code by (simp add: hotp_code_def b32_fo ones_digest_def)

lemma ones_find:
  assumes "1 \<le> c" and "c < 1000"
  shows "find_totp_counter ones_digest ''MZXQ'' ''843009'' (c * 30 * seconds) 30 6 1 = Inr (Some (c - 1))"
proof -
  have "normalize_code ''843009'' = ''843009'' \<and> py_isdigit ''843009''" by code_simp
  moreover have "totp_counter (c * 30 * seconds) 30 = c" by (simp add: totp_counter_def seconds_def)
  moreover have "[- 1 .. 1] = [- 1, 0, 1 :: int]" by code_simp
  moreover have "compare_digest ''843009'' ''843009'' = Inr True" by code_simp
  ultimately show ?thesis
    using assms by (simp add: find_totp_counter_def ones_code_at Let_def)
qed

lemma mfa_login_run:
  assumes "l < c - 1" and "1 \<le> c" and "c < 1000"
    and "st_users st = [mfa_user_at l]"
    and "filter (\<lambda>a. aud_action a = ''login_failed'') (st_audit st) = []"
  shows "login demo_env (c * 30 * seconds) j (demo_login ''h'' (Some ''843009'')) st
    = login_succeeded demo_env (c * 30 * seconds) j (demo_login ''h'' (Some ''843009'')) (mfa_user_at (c - 1)) None st"
proof -
  have n: "normalize_email '' Ana@x'' = ''ana@x''" "normalize_email ''ana@x'' = ''ana@x''"
    "py_lower ''ana@x'' = ''ana@x''" "py_strip ''843009'' = ''843009''" by code_simp+
  have z: "filter (counted_failure x None ''ana@x'') (st_audit st) = []" for x
    using assms(5) by (auto simp: filter_empty_conv counted_failure_def)
  show ?thesis
    using assms(1-4) ones_find [OF assms(2,3)]
    by (simp add: login_def demo_login_def n login_rate_limited_def z Let_def find_by_email_def
        mfa_user_at_def plain_user_def demo_env_def demo_settings_def password_expiry_status_def int_or_def days_def
        seconds_def second_factor_check_def check_mfa_code_def str_true_def)
qed

lemma login_succeeded_resp:
  "\<exists>resp. login_succeeded env now jti req u g st = (fst (login_succeeded env now jti req u g st), Inr resp)
     \<and> resp_mfa_enabled resp = user_mfa_enabled u"
  by (simp add: login_succeeded_def Let_def)

abbreviation demo_code_request :: login_request where
  "demo_code_request \<equiv> demo_login ''h'' (Some ''843009'')"

definition demo_mid :: auth_state where
  "demo_mid = fst (login_succeeded demo_env (10 * 30 * seconds) ''j1'' demo_code_request (mfa_user_at 9) None
     (demo_state [mfa_user_at 1]))"

theorem no_code_replay_witness:
  "\<exists>k1 k2. k1 < k2 \<and> \<bar>k1 - 10\<bar> \<le> 1 \<and> \<bar>k2 - (20 :: int)\<bar> \<le> (1 :: int)"
proof -
  have mid: "st_users demo_mid = [mfa_user_at 9]"
    "filter (\<lambda>a. aud_action a = ''login_failed'') (st_audit demo_mid) = []"
    by (simp_all add: demo_mid_def login_succeeded_def Let_def demo_state_def update_user_def mfa_user_at_def)
  have pred: "10 - 1 = (9 :: int)" "20 - 1 = (19 :: int)" by simp_all
  have l1: "login demo_env (10 * 30 * seconds) ''j1'' demo_code_request (demo_state [mfa_user_at 1])
      = login_succeeded demo_env (10 * 30 * seconds) ''j1'' demo_code_request (mfa_user_at 9) None (demo_state [mfa_user_at 1])"
    by (rule mfa_login_run [of 1 10, unfolded pred]) (simp_all add: demo_state_def)
  have l2: "login demo_env (20 * 30 * seconds) ''j2'' demo_code_request demo_mid
      = login_succeeded demo_env (20 * 30 * seconds) ''j2'' demo_code_request (mfa_user_at 19) None demo_mid"
    by (rule mfa_login_run [of 9 20, unfolded pred]) (simp_all add: mid)
  have en: "user_mfa_enabled (mfa_user_at l)" for l by (simp add: mfa_user_at_def)
  obtain r1 where r1: "login demo_env (10 * 30 * seconds) ''j1'' demo_code_request (demo_state [mfa_user_at 1])
      = (demo_mid, Inr r1)" "resp_mfa_enabled r1"
    using login_succeeded_resp [of demo_env "10 * 30 * seconds" "''j1''" demo_code_request "mfa_user_at 9" None
        "demo_state [mfa_user_at 1]"]
    unfolding l1 demo_mid_def by (elim exE conjE) (simp only: en)
  obtain s2 r2 where r2: "login demo_env (20 * 30 * seconds) ''j2'' demo_code_request
      (foldl (session_step demo_env (\<lambda>_ _. None)) demo_mid []) = (s2, Inr r2)" "resp_mfa_enabled r2"
    using login_succeeded_resp [of demo_env "20 * 30 * seconds" "''j2''" demo_code_request "mfa_user_at 19" None demo_mid]
    unfolding foldl.simps l2 by (elim exE conjE) (simp only: en)
  have "distinct (map user_id (st_users (demo_state [mfa_user_at 1])))" by (simp add: demo_state_def)
  from no_code_replay [OF this r1 r2 refl] show ?thesis by (auto simp: totp_counter_def seconds_def)
qed

section \<open>From login to authenticated requests\<close>

lemma login_granted:
  assumes "login env now jti req st = (st', Inr resp)"
    and "find_by_email (normalize_email (req_email req)) (st_users st) = Some u"
  obtains u' g where "(st', Inr resp) = login_succeeded env now jti req u' g st"
    and "user_id u' = user_id u \<and> user_email u' = user_email u \<and> user_mfa_enabled u' = user_mfa_enabled u
      \<and> user_is_active u' = user_is_active u \<and> user_token_version u' = user_token_version u
      \<and> user_roles u' = user_roles u"
proof (cases rule: login_cases [of env now req st jti])
  case limited
  with assms(1) show ?thesis by simp
next
  case failed
  with assms(1) show ?thesis by (simp add: login_failed_def)
next
  case (factor v)
  with assms(2) have v: "v = u" by simp
  from factor assms(1) v obtain u' g where p: "second_factor_check env now (req_mfa_code req) u = Passed u' g"
    and r: "(st', Inr resp) = login_succeeded env now jti req u' g st"
    by (auto simp: login_failed_def split: second_factor.splits)
  from that [OF r second_factor_row [OF disjI1, OF p]] show ?thesis .
qed

lemma find_exact_update:
  assumes "u \<in> set us" and "distinct (map user_email us)"
    and "user_id u' = user_id u" and "user_email u' = user_email u"
  shows "List.find (\<lambda>v. user_email v = user_email u) (update_user u' us) = Some u'"
  using assms by (induction us) (auto simp: update_user_def image_iff)

lemma lookup_session_fresh:
  assumes "\<forall>s\<in>set ss. sess_jti s \<noteq> jti" and "sess_user_id s = k" and "sess_jti s = jti"
  shows "lookup_session (ss @ [s]) k jti = Some s"
  using assms by (induction ss) (auto simp: lookup_session_def)

text \<open>When PyJWT accepts claims: from the second they were issued in until the second they expire in.\<close>

definition claims_valid_at :: "token_claims \<Rightarrow> instant \<Rightarrow> bool" where
  "claims_valid_at c t =
     ((case claim_iat c of None \<Rightarrow> True | Some i \<Rightarrow> i * seconds \<le> t)
      \<and> (case claim_exp c of None \<Rightarrow> True | Some e \<Rightarrow> t < e * seconds))"

lemma epoch_seconds_le: "0 \<le> t \<Longrightarrow> epoch_seconds t * seconds \<le> t"
  by (simp add: epoch_seconds_def seconds_def)

text \<open>C1: A granted login yields a token that works for the configured lifetime and no longer.  With a
  verifier that gives the issued claims back while they are valid, and nothing otherwise, the active account
  authenticates on every path its roles allow at every moment from the login until the last full second
  of \<open>access_token_expire_minutes\<close>, and the user obtained is the account that logged in; from that second
  on every request with the token is refused.\<close>

theorem login_authenticates:
  assumes "login env now jti req st = (st', Inr resp)"
    and "find_by_email (normalize_email (req_email req)) (st_users st) = Some u"
    and "distinct (map user_email (st_users st))" and "user_email u \<noteq> ''''"
    and "\<forall>s\<in>set (st_sessions st). sess_jti s \<noteq> jti" and "py_strip jti = jti" and "jti \<noteq> ''''"
    and "\<forall>s. decode s token = (if claims_valid_at (resp_token resp) s then Some (resp_token resp) else None)"
    and "0 \<le> now" and "now \<le> t" and "0 \<le> set_access_token_expire_minutes (env_settings env)"
    and "user_is_active u" and "enforce_role_scope_for_request u mtd path = Inr ()"
  shows "if t < (now + set_access_token_expire_minutes (env_settings env) * minutes) div seconds * seconds
    then \<exists>v. get_current_user (decode t) (account_by_email (st_users st')) (st_sessions st') t token mtd path
           = Inr v \<and> user_id v = user_id u \<and> user_email v = user_email u
    else \<exists>e. get_current_user (decode t) (account_by_email (st_users st')) (st_sessions st') t token mtd path = Inl e"
proof -
  from assms(1,2) obtain u' g where r: "(st', Inr resp) = login_succeeded env now jti req u' g st"
    and row: "user_id u' = user_id u \<and> user_email u' = user_email u \<and> user_mfa_enabled u' = user_mfa_enabled u
      \<and> user_is_active u' = user_is_active u \<and> user_token_version u' = user_token_version u
      \<and> user_roles u' = user_roles u"
    by (rule login_granted)
  have "u \<in> set (st_users st)" using assms(2) by (auto simp: find_by_email_def dest: find_in)
  then have acc: "account_by_email (st_users st') (user_email u) = Inr (Some u')"
    using r row find_exact_update [of u "st_users st" u'] assms(3)
    by (simp add: login_succeeded_def Let_def account_by_email_def)
  have sess: "lookup_session (st_sessions st') (user_id u') jti
      = Some (record_session_start u' jti now (now + set_access_token_expire_minutes (env_settings env) * minutes))"
    using r assms(5)
    by (simp add: login_succeeded_def Let_def lookup_session_fresh record_session_start_def)
  have enf: "enforce_role_scope_for_request u' mtd path = Inr ()"
    using assms(13) row by (simp add: enforce_role_scope_for_request_def user_role_names_def)
  let ?until = "now + set_access_token_expire_minutes (env_settings env) * minutes"
  have nn: "0 \<le> ?until" using assms(9,11) by (simp add: minutes_def seconds_def)
  from r row have tok: "resp_token resp = \<lparr>claim_sub = Some (user_email u),
      claim_tv = Some (user_token_version u'), claim_iat = Some (epoch_seconds now),
      claim_exp = Some (epoch_seconds ?until), claim_jti = Some jti\<rparr>"
    using assms(6,7) by (simp add: login_succeeded_def Let_def create_access_token_def int_or_def)
  have valid: "claims_valid_at (resp_token resp) t \<longleftrightarrow> t < ?until div seconds * seconds"
    using epoch_seconds_le [OF assms(9)] assms(10) nn
    by (simp add: tok claims_valid_at_def epoch_seconds_def)
  show ?thesis
  proof (cases "t < ?until div seconds * seconds")
    case True
    then have "t < ?until" using epoch_seconds_le [OF nn] nn by (simp add: epoch_seconds_def)
    then have live: "session_live t (lookup_session (st_sessions st') (user_id u') jti)"
      unfolding sess by (simp add: session_live_def record_session_start_def)
    have "decode t token = Some (resp_token resp)" using assms(8) valid True by simp
    then have "get_current_user (decode t) (account_by_email (st_users st')) (st_sessions st') t token mtd path = Inr u'"
      using assms(4,6,7,12) acc live enf row
      by (simp add: get_current_user_def tok claim_session_def str_true_def)
    with row True show ?thesis by auto
  next
    case False
    then have "decode t token = None" using assms(8) valid by simp
    with False show ?thesis
      by (simp add: get_current_user_def str_true_def decode_token_def unauthorized_def)
  qed
qed

theorem login_authenticates_witness:
  "\<exists>st' resp v. login demo_env 5 ''j1'' (demo_login ''h'' None) (demo_state [user_with_role ''editor'']) = (st', Inr resp)
    \<and> get_current_user (\<lambda>_. if claims_valid_at (resp_token resp) 6 then Some (resp_token resp) else None)
        (account_by_email (st_users st')) (st_sessions st') 6
        ''tok'' ''GET'' ''/api/v1/tables'' = Inr v \<and> user_id v = 7"
proof -
  let ?s = "demo_state [user_with_role ''editor'']" and ?u = "user_with_role ''editor''"
  have n: "normalize_email '' Ana@x'' = ''ana@x''" "normalize_email ''ana@x'' = ''ana@x''"
    "py_lower ''ana@x'' = ''ana@x''" "py_strip ''j1'' = ''j1''" by code_simp+
  have f: "find_by_email (normalize_email (req_email (demo_login ''h'' None))) (st_users ?s) = Some ?u"
    by (simp add: demo_login_def n find_by_email_def demo_state_def user_with_role_def plain_user_def)
  have "\<not> isl (snd (login demo_env 5 ''j1'' (demo_login ''h'' None) ?s))"
    by (simp add: login_def demo_login_def n login_rate_limited_def find_by_email_def Let_def demo_state_def
        user_with_role_def plain_user_def demo_env_def demo_settings_def password_expiry_status_def
        int_or_def days_def seconds_def second_factor_check_def check_grace_def login_succeeded_def)
  then obtain st' resp where run: "login demo_env 5 ''j1'' (demo_login ''h'' None) ?s = (st', Inr resp)"
    by (cases "login demo_env 5 ''j1'' (demo_login ''h'' None) ?s"; cases "snd (login demo_env 5 ''j1'' (demo_login ''h'' None) ?s)") auto
  have enf: "enforce_role_scope_for_request ?u ''GET'' ''/api/v1/tables'' = Inr ()" by code_simp
  let ?decode = "\<lambda>s (_ :: string). if claims_valid_at (resp_token resp) s then Some (resp_token resp) else None"
  have life: "(6 :: int) < (5 + set_access_token_expire_minutes (env_settings demo_env) * minutes) div seconds * seconds"
    by (simp add: demo_env_def demo_settings_def minutes_def seconds_def)
  have "if (6 :: int) < (5 + set_access_token_expire_minutes (env_settings demo_env) * minutes) div seconds * seconds
    then \<exists>v. get_current_user (?decode 6) (account_by_email (st_users st')) (st_sessions st') 6
           ''tok'' ''GET'' ''/api/v1/tables'' = Inr v \<and> user_id v = user_id ?u \<and> user_email v = user_email ?u
    else \<exists>e. get_current_user (?decode 6) (account_by_email (st_users st')) (st_sessions st') 6
           ''tok'' ''GET'' ''/api/v1/tables'' = Inl e"
    by (rule login_authenticates [where decode = ?decode, OF run f _ _ _ n(4) _ _ _ _ _ _ enf])
      (simp_all add: demo_state_def user_with_role_def plain_user_def demo_env_def demo_settings_def)
  with run life show ?thesis by (auto simp: user_with_role_def plain_user_def)
qed

text \<open>Logging out ends the session: after a logout that reports a revoked session, no request
  authenticates with a token carrying that session, at any later time and on any path.\<close>

theorem logout_ends_session:
  assumes "logout decode now token st = (st', Inr True)" and "\<forall>s. decode s token \<in> {Some c, None}" and "decode now token = Some c"
    and "claim_session (Some c) = Some jti"
    and "find_by_email (normalize_email (or_empty (claim_sub c))) (st_users st) = Some u"
    and "account_by_email (st_users st') (or_empty (claim_sub c)) = Inr (Some w)" and "user_id w = user_id u"
  shows "\<exists>e. get_current_user (decode t) (account_by_email (st_users st')) (st_sessions st') t token mtd path = Inl e"
proof -
  have "\<not> session_live t (lookup_session (st_sessions st') (user_id u) jti)"
  proof -
    from assms(1,3,4,5) obtain s where s: "lookup_session (st_sessions st) (user_id u) jti = Some s"
      and st': "st' = st\<lparr>st_sessions := update_session (user_id u) jti
        ((record_session_end now ''logout'' s)\<lparr>sess_revoked_at :=
           (case sess_revoked_at s of None \<Rightarrow> Some now | Some r \<Rightarrow> Some r)\<rparr>) (st_sessions st)\<rparr>"
      by (auto simp: logout_def Let_def record_session_end_def unauthorized_def
          split: option.splits if_splits)
    have "\<exists>x. sess_revoked_at v = Some x"
      if "lookup_session (update_session (user_id u) jti r ss) (user_id u) jti = Some v"
        and "\<exists>x. sess_revoked_at r = Some x" and "sess_user_id r = user_id u" "sess_jti r = jti" for v r ss
      using that by (induction ss) (auto simp: lookup_session_def update_session_def split: if_splits)
    from this [OF _ _ _ _] s st' show ?thesis
      by (auto simp: session_live_def lookup_session_def find_Some_iff record_session_end_def
          split: option.splits)
  qed
  note dead = this
  show ?thesis
  proof (cases "decode t token")
    case None
    then show ?thesis by (simp add: get_current_user_def str_true_def decode_token_def unauthorized_def)
  next
    case (Some d)
    then have "decode t token = Some c" using assms(2) by (metis insertE option.distinct(1) singletonD)
    with dead assms(4,6,7) show ?thesis
      by (auto simp: get_current_user_def Let_def unauthorized_def str_true_def decode_token_def
          or_none_def py_strip_def py_lstrip_def split: option.splits)
  qed
qed

definition ana_claims_at :: "instant \<Rightarrow> string \<Rightarrow> token_claims option" where
  "ana_claims_at t token = ana_claims token"

theorem logout_ends_session_witness:
  "\<exists>e. get_current_user (ana_claims_at 60) (account_by_email [plain_user])
     (st_sessions (fst (logout ana_claims_at 50 ''tok''
        \<lparr>st_users = [plain_user], st_sessions = [ana_session], st_audit = []\<rparr>)))
     60 ''tok'' ''GET'' ''/api/v1/me'' = Inl e"
proof -
  let ?s = "\<lparr>st_users = [plain_user], st_sessions = [ana_session], st_audit = []\<rparr>"
  have u: "find_by_email (normalize_email (or_empty (Some ''ana@x''))) [plain_user] = Some plain_user" by code_simp
  have run: "snd (logout ana_claims_at 50 ''tok'' ?s) = Inr True" by code_simp
  then obtain st' where st': "logout ana_claims_at 50 ''tok'' ?s = (st', Inr True)"
    by (cases "logout ana_claims_at 50 ''tok'' ?s") auto
  have us: "st_users (fst (logout ana_claims_at 50 ''tok'' ?s)) = [plain_user]" by code_simp
  have c: "claim_session (ana_claims_at 50 ''tok'') = Some ''j1''" by code_simp
  have "account_by_email [plain_user] ''ana@x'' = Inr (Some plain_user)"
    by (simp add: account_by_email_def plain_user_def)
  with logout_ends_session [OF st', of _ "''j1''" plain_user plain_user 60 "''GET''" "''/api/v1/me''"] u c us st'
  show ?thesis by (auto simp: ana_claims_def ana_claims_at_def)
qed

end
