(* ===== verification/Visibility.thy ===== *)
theory Visibility
  imports Models
begin

text \<open>
  Asset visibility rules, \<open>features/platform/visibility.py\<close>, and the token normalisation of
  \<open>features/privacy_access/policy.py\<close> that they, and the privacy policy, compare roles and labels with.
\<close>

section \<open>Tokens\<close>

text \<open>\<open>unicodedata.normalize("NFKD", c).encode("ascii", "ignore")\<close> for a lower-case character of Latin-1.\<close>

definition nfkd_ascii :: "char \<Rightarrow> string" where
  "nfkd_ascii c = (let n = (of_char c :: nat) in
     if n < 128 then [c]
     else if n \<in> {160, 168, 175, 180, 184} then '' ''
     else if n = 170 then ''a'' else if n = 178 then ''2'' else if n = 179 then ''3''
     else if n = 185 then ''1'' else if n = 186 then ''o''
     else if n = 188 then ''14'' else if n = 189 then ''12'' else if n = 190 then ''34''
     else if 224 \<le> n \<and> n \<le> 229 then ''a'' else if n = 231 then ''c''
     else if 232 \<le> n \<and> n \<le> 235 then ''e'' else if 236 \<le> n \<and> n \<le> 239 then ''i''
     else if n = 241 then ''n'' else if 242 \<le> n \<and> n \<le> 246 then ''o''
     else if 249 \<le> n \<and> n \<le> 252 then ''u'' else if n = 253 \<or> n = 255 then ''y'' else [])"

definition is_slug_char :: "char \<Rightarrow> bool" where
  "is_slug_char c = (let n = (of_char c :: nat) in 97 \<le> n \<and> n \<le> 122 \<or> 48 \<le> n \<and> n \<le> 57)"

text \<open>\<open>re.sub(r"[^a-z0-9]+", "_", text)\<close>; the flag says that a run is being consumed.\<close>

fun slug_sub :: "bool \<Rightarrow> string \<Rightarrow> string" where
  "slug_sub run [] = []"
| "slug_sub run (c # cs) =
     (if is_slug_char c then c # slug_sub False cs
      else if run then slug_sub True cs
      else CHR ''_'' # slug_sub True cs)"

definition strip_underscore :: "string \<Rightarrow> string" where
  "strip_underscore s =
     rev (dropWhile (\<lambda>c. c = CHR ''_'') (rev (dropWhile (\<lambda>c. c = CHR ''_'') s)))"

definition slug :: "string \<Rightarrow> string" where
  "slug s = strip_underscore (slug_sub False (concat (map nfkd_ascii s)))"

definition token_aliases :: "(string \<times> string) list" where
  "token_aliases =
     [(''visualizador'', ''reader''), (''viewer'', ''reader''), (''leitor'', ''reader''),
      (''reader'', ''reader''), (''editor'', ''analyst''), (''analista'', ''analyst''),
      (''analyst'', ''analyst''), (''governanca'', ''governance''), (''governance'', ''governance''),
      (''data_owner'', ''data_owner''), (''data_owners'', ''data_owner''), (''owner'', ''data_owner''),
      (''dataowner'', ''data_owner''), (''administrador'', ''admin''), (''admin'', ''admin''),
      (''autenticado'', ''authenticated''), (''authenticated'', ''authenticated'')]"

definition normalize_token :: "string option \<Rightarrow> string" where
  "normalize_token value = (let raw = norm_token value in
     if raw = '''' then ''''
     else let ascii_value = slug raw in
       (case map_of token_aliases ascii_value of None \<Rightarrow> ascii_value | Some t \<Rightarrow> t))"

definition normalize_access_role :: "string option \<Rightarrow> string" where
  "normalize_access_role value = normalize_token value"

section \<open>Rules\<close>

record visibility_subject =
  subj_table_id :: int
  subj_domain_name :: "string option"
  subj_classification :: "string option"

record visibility_decision =
  vis_visible :: bool
  vis_masked :: bool

definition full_visibility :: visibility_decision where
  "full_visibility = \<lparr>vis_visible = True, vis_masked = False\<rparr>"

definition visibility_role_names :: "user_row option \<Rightarrow> string set" where
  "visibility_role_names user = (case user of None \<Rightarrow> {}
     | Some u \<Rightarrow> set (filter (\<lambda>n. n \<noteq> '''')
         (map (\<lambda>r. normalize_access_role (Some (role_name r))) (user_roles u))))"

definition user_can_manage_visibility :: "user_row option \<Rightarrow> bool" where
  "user_can_manage_visibility user = (''admin'' \<in> visibility_role_names user)"

definition matches_rule :: "visibility_rule \<Rightarrow> visibility_subject \<Rightarrow> bool" where
  "matches_rule rule subject =
     (let scope = py_lower (py_strip (or_else (or_empty (rule_scope rule)) ''asset'')) in
      if scope = ''asset''
      then rule_entity_type rule = ''table'' \<and> rule_entity_id rule = Some (subj_table_id subject)
      else if scope = ''domain''
      then str_true (subj_domain_name subject)
        \<and> normalize_token (subj_domain_name subject) = normalize_token (rule_match_value rule)
      else if scope = ''classification''
      then str_true (subj_classification subject)
        \<and> normalize_token (subj_classification subject) = normalize_token (rule_match_value rule)
      else False)"

definition allows_user :: "visibility_rule \<Rightarrow> string set \<Rightarrow> int option \<Rightarrow> bool" where
  "allows_user rule role_names uid =
     ((rule_allowed_user_id rule \<noteq> None \<and> rule_allowed_user_id rule = uid)
      \<or> (rule_allowed_role rule \<noteq> None \<and> normalize_token (rule_allowed_role rule) \<in> role_names))"

definition subject_decision ::
  "visibility_rule list \<Rightarrow> string set \<Rightarrow> int option \<Rightarrow> visibility_subject \<Rightarrow> visibility_decision" where
  "subject_decision rules role_names uid subject =
     (let matched = filter (\<lambda>r. matches_rule r subject) rules in
      if matched = [] then full_visibility
      else let allowed = filter (\<lambda>r. allows_user r role_names uid) matched in
        \<lparr>vis_visible = (allowed \<noteq> []),
         vis_masked = list_ex (\<lambda>r. rule_mask_sensitive_fields r \<or> rule_visibility_scope r = ''masked'') allowed\<rparr>)"

text \<open>The rows of the rule table, or \<open>None\<close> when the query raises an \<open>SQLAlchemyError\<close>.\<close>

type_synonym rule_table = "visibility_rule list option"

definition state_map_of ::
  "visibility_subject list \<Rightarrow> (visibility_subject \<Rightarrow> visibility_decision) \<Rightarrow> (int \<times> visibility_decision) list" where
  "state_map_of subjects f = fold (\<lambda>s. dict_set (subj_table_id s) (f s)) subjects []"

definition load_visibility_state_map ::
  "rule_table \<Rightarrow> visibility_subject list \<Rightarrow> user_row option \<Rightarrow> (int \<times> visibility_decision) list" where
  "load_visibility_state_map table subjects user =
     (if subjects = [] then []
      else if ''admin'' \<in> visibility_role_names user then state_map_of subjects (\<lambda>_. full_visibility)
      else (case table of
          None \<Rightarrow> state_map_of subjects (\<lambda>_. full_visibility)
        | Some rows \<Rightarrow>
            let rules = filter rule_is_active rows in
            if rules = [] then state_map_of subjects (\<lambda>_. full_visibility)
            else state_map_of subjects
              (subject_decision rules (visibility_role_names user) (map_option user_id user))))"

text \<open>\<open>load_table_visibility_map\<close> and \<open>filter_visible_table_ids\<close>: the rows of \<open>tables\<close> are given as identifier and
  sensitivity level.\<close>

definition load_table_visibility_map ::
  "rule_table \<Rightarrow> (int \<times> string option) list \<Rightarrow> int list \<Rightarrow> user_row option \<Rightarrow> (int \<times> bool) list" where
  "load_table_visibility_map table rows table_ids user =
     (if table_ids = [] then []
      else map (\<lambda>(k, d). (k, vis_visible d))
        (load_visibility_state_map table
          (map (\<lambda>(i, cl). \<lparr>subj_table_id = i, subj_domain_name = None, subj_classification = cl\<rparr>)
             (filter (\<lambda>(i, cl). i \<in> set table_ids) rows)) user))"

definition filter_visible_table_ids ::
  "rule_table \<Rightarrow> (int \<times> string option) list \<Rightarrow> int list \<Rightarrow> user_row option \<Rightarrow> int list" where
  "filter_visible_table_ids table rows table_ids user =
     (let visibility = map_of (load_table_visibility_map table rows table_ids user) in
      filter (\<lambda>i. case visibility i of None \<Rightarrow> True | Some v \<Rightarrow> v) table_ids)"

definition is_table_visible ::
  "rule_table \<Rightarrow> (int \<times> string option) list \<Rightarrow> int \<Rightarrow> user_row option \<Rightarrow> bool" where
  "is_table_visible table rows table_id user =
     (case map_of (load_table_visibility_map table rows [table_id] user) table_id of
        None \<Rightarrow> True | Some v \<Rightarrow> v)"

text \<open>A table object that is attached to no session is not looked up at all: the outer \<open>None\<close>.\<close>

definition table_visibility_decision_from_entity ::
  "rule_table option \<Rightarrow> table_row \<Rightarrow> user_row option \<Rightarrow> visibility_decision" where
  "table_visibility_decision_from_entity session tbl user =
     (case session of
        None \<Rightarrow> full_visibility
      | Some table \<Rightarrow>
          (case map_of (load_visibility_state_map table
             [\<lparr>subj_table_id = table_pk tbl, subj_domain_name = None,
               subj_classification = table_sensitivity_level tbl\<rparr>] user) (table_pk tbl) of
             None \<Rightarrow> full_visibility | Some d \<Rightarrow> d))"

section \<open>Lemmas\<close>

lemma slug_sub_chars: "c \<in> set (slug_sub r s) \<Longrightarrow> is_slug_char c \<or> c = CHR ''_''"
  by (induction r s rule: slug_sub.induct) (auto split: if_splits)

fun sep_ok :: "bool \<Rightarrow> string \<Rightarrow> bool" where
  "sep_ok prev [] = True"
| "sep_ok prev (c # cs) = (if is_slug_char c then sep_ok False cs
     else c = CHR ''_'' \<and> \<not> prev \<and> sep_ok True cs)"

lemma not_slug_underscore [simp]: "\<not> is_slug_char CHR ''_''"
  by (simp add: is_slug_char_def)

lemma slug_sub_sep_ok: "sep_ok r (slug_sub r s)"
  by (induction r s rule: slug_sub.induct) auto

lemma slug_sub_id: "sep_ok r s \<Longrightarrow> slug_sub r s = s"
  by (induction r s rule: sep_ok.induct) (auto split: if_splits)

lemma sep_ok_mono: "sep_ok True s \<Longrightarrow> sep_ok r s"
  by (cases s) (auto split: if_splits)

lemma sep_ok_append: "sep_ok r (s @ t) \<Longrightarrow> sep_ok r s"
  by (induction s arbitrary: r) (simp_all split: if_split_asm)

lemma sep_ok_appendD: "sep_ok r (s @ t) \<Longrightarrow> sep_ok False t"
proof (induction s arbitrary: r)
  case Nil
  then show ?case by (cases r) (simp_all add: sep_ok_mono)
next
  case (Cons c s)
  then show ?case by (simp split: if_split_asm) blast
qed

lemma sep_ok_strip: "sep_ok False s \<Longrightarrow> sep_ok False (strip_underscore s)"
proof -
  assume "sep_ok False s"
  then have "sep_ok False (dropWhile (\<lambda>c. c = CHR ''_'') s)"
    by (metis sep_ok_appendD takeWhile_dropWhile_id)
  moreover have "\<exists>t. u = rev (dropWhile P (rev u)) @ t" for u :: string and P
    by (metis rev_append rev_rev_ident takeWhile_dropWhile_id)
  ultimately show ?thesis unfolding strip_underscore_def by (metis sep_ok_append)
qed

lemma strip_underscore_idem [simp]: "strip_underscore (strip_underscore s) = strip_underscore s"
  unfolding strip_underscore_def by (metis dropWhile_rev_idem dropWhile_idem rev_rev_ident)

lemma underscore_facts: "\<not> py_space CHR ''_''" "\<not> is_upper CHR ''_''" "nfkd_ascii CHR ''_'' = ''_''"
  by code_simp+

lemma sep_ok_chars: "sep_ok r s \<Longrightarrow> c \<in> set s \<Longrightarrow> is_slug_char c \<or> c = CHR ''_''"
  by (induction r s rule: sep_ok.induct) (auto split: if_splits)

lemma slug_char_facts:
  assumes "is_slug_char c"
  shows "\<not> py_space c" "\<not> is_upper c" "nfkd_ascii c = [c]"
proof -
  from assms have n: "97 \<le> (of_char c :: nat) \<and> (of_char c :: nat) \<le> 122
      \<or> 48 \<le> (of_char c :: nat) \<and> (of_char c :: nat) \<le> 57"
    by (auto simp: is_slug_char_def Let_def)
  show "\<not> py_space c" using n by (auto simp: py_space_def Let_def)
  show "\<not> is_upper c" using n by (auto simp: is_upper_def Let_def)
  from n have "(of_char c :: nat) < 128" by auto
  then show "nfkd_ascii c = [c]" by (simp add: nfkd_ascii_def)
qed

text \<open>A word in normal form: what \<open>slug\<close> produces and leaves alone.\<close>

definition slug_normal :: "string \<Rightarrow> bool" where
  "slug_normal s = (sep_ok False s \<and> strip_underscore s = s)"

lemma slug_normal_slug: "slug_normal (slug s)"
  by (simp add: slug_normal_def slug_def sep_ok_strip slug_sub_sep_ok)

lemma slug_normal_fixed:
  assumes "slug_normal s"
  shows "slug s = s" and "norm_token (Some s) = s"
proof -
  from assms have ok: "sep_ok False s" and st: "strip_underscore s = s" by (simp_all add: slug_normal_def)
  have ch: "is_slug_char c \<or> c = CHR ''_''" if "c \<in> set s" for c using sep_ok_chars [OF ok that] .
  have "concat (map nfkd_ascii s) = s" using ch slug_char_facts(3) underscore_facts(3) by (induction s) auto
  with ok st show "slug s = s" by (simp add: slug_def slug_sub_id)
  have "dropWhile py_space t = t" if "set t \<subseteq> set s" for t
    using that ch slug_char_facts(1) underscore_facts(1) by (cases t) auto
  then have "py_strip s = s" by (simp add: py_strip_def py_lstrip_def)
  moreover have "py_lower s = s" unfolding py_lower_def
    using ch slug_char_facts(2) underscore_facts(2) by (intro map_idI) (auto simp: py_lower_char_def)
  ultimately show "norm_token (Some s) = s" by (simp add: norm_token_def)
qed

text \<open>The token normalisation is idempotent: a stored token compares with a raw one as the raw ones do.\<close>

lemma normalize_token_idem:
  "normalize_token (Some (normalize_token v)) = normalize_token v"
proof -
  have fixed: "normalize_token (Some t) = t" if "map_of token_aliases s = Some t" for s t
  proof -
    from that have "t \<in> {''reader'', ''analyst'', ''governance'', ''data_owner'', ''admin'', ''authenticated''}"
      by (auto simp: token_aliases_def split: if_splits)
    moreover have "normalize_token (Some ''reader'') = ''reader''"
      "normalize_token (Some ''analyst'') = ''analyst''" "normalize_token (Some ''governance'') = ''governance''"
      "normalize_token (Some ''data_owner'') = ''data_owner''" "normalize_token (Some ''admin'') = ''admin''"
      "normalize_token (Some ''authenticated'') = ''authenticated''" by code_simp+
    ultimately show ?thesis by auto
  qed
  show ?thesis
  proof (cases "norm_token v = ''''")
    case True
    then show ?thesis by (simp add: normalize_token_def)
  next
    case nz: False
    show ?thesis
    proof (cases "map_of token_aliases (slug (norm_token v))")
      case (Some t)
      with nz fixed [OF Some] show ?thesis by (simp add: normalize_token_def)
    next
      case None
      with nz have e: "normalize_token v = slug (norm_token v)" by (simp add: normalize_token_def)
      with None slug_normal_fixed [OF slug_normal_slug, of "norm_token v"] show ?thesis
        unfolding e by (simp add: normalize_token_def Let_def)
    qed
  qed
qed

lemma state_map_one: "map_of (state_map_of [s] f) (subj_table_id s) = Some (f s)"
  by (simp add: state_map_of_def)

lemma map_of_fold_dict_set:
  "map_of (fold (\<lambda>s. dict_set (subj_table_id s) (f s)) ss d) k =
     (if \<exists>s\<in>set ss. subj_table_id s = k
      then Some (f (last (filter (\<lambda>s. subj_table_id s = k) ss))) else map_of d k)"
proof (induction ss arbitrary: d)
  case (Cons s ss)
  then show ?case
    by (auto simp: map_of_dict_set filter_empty_conv)
qed simp

lemma admin_sees_all:
  "''admin'' \<in> visibility_role_names user \<Longrightarrow>
     table_visibility_decision_from_entity session tbl user = full_visibility"
  by (auto simp: table_visibility_decision_from_entity_def load_visibility_state_map_def state_map_of_def
      split: option.splits)

text \<open>Visibility rules only ever narrow by matching: a table is hidden from a user exactly when the user is
  no administrator, some active rule matches the table, and none of the matching active rules allows the user
  by identifier or by role.\<close>

theorem hidden_iff:
  "\<not> vis_visible (table_visibility_decision_from_entity (Some (Some rows)) tbl user) \<longleftrightarrow>
    (let subject = \<lparr>subj_table_id = table_pk tbl, subj_domain_name = None,
        subj_classification = table_sensitivity_level tbl\<rparr>;
         matched = filter (\<lambda>r. rule_is_active r \<and> matches_rule r subject) rows
     in ''admin'' \<notin> visibility_role_names user \<and> matched \<noteq> []
       \<and> \<not> (\<exists>r\<in>set matched. allows_user r (visibility_role_names user) (map_option user_id user)))"
  by (auto simp: table_visibility_decision_from_entity_def load_visibility_state_map_def state_map_of_def
      full_visibility_def subject_decision_def Let_def filter_empty_conv)

end
