(* ===== verification/Privacy.thy ===== *)
theory Privacy
  imports Visibility
begin

text \<open>
  The privacy policy of a table, \<open>features/privacy_access/policy.py\<close>: the scope of a table and the roles that
  reach it, and the detection of columns that look like personal data.
\<close>

section \<open>Tables of constants\<close>

definition access_role_options :: "string list" where
  "access_role_options = [''admin'', ''governance'', ''data_owner'', ''analyst'', ''reader'']"

definition personal_data_signal_rules :: "(string \<times> string \<times> string) list" where
  "personal_data_signal_rules =
     [
      (''cpf'', ''Nome da coluna sugere identificacao por CPF.'', ''high''),
      (''cnpj'', ''Nome da coluna sugere identificacao por CNPJ.'', ''high''),
      (''email'', ''Nome da coluna sugere endereco de e-mail.'', ''high''),
      (''mail'', ''Nome da coluna sugere endereco de e-mail.'', ''high''),
      (''telefone'', ''Nome da coluna sugere numero de telefone.'', ''high''),
      (''phone'', ''Nome da coluna sugere numero de telefone.'', ''high''),
      (''rg'', ''Nome da coluna sugere documento de identificacao.'', ''high''),
      (''data_nascimento'', ''Nome da coluna sugere data de nascimento.'', ''medium''),
      (''nascimento'', ''Nome da coluna sugere data de nascimento.'', ''medium''),
      (''birth'', ''Nome da coluna sugere data de nascimento.'', ''medium''),
      (''nome'', ''Nome da coluna sugere identificacao nominal de pessoa.'', ''medium''),
      (''name'', ''Nome da coluna sugere identificacao nominal de pessoa.'', ''medium''),
      (''endereco'', ''Nome da coluna sugere endereco residencial ou comercial.'', ''medium''),
      ((''endere'' @ [CHR 0xE7] @ ''o''), ''Nome da coluna sugere endereco residencial ou comercial.'', ''medium''),
      (''address'', ''Nome da coluna sugere endereco residencial ou comercial.'', ''medium''),
      (''renda'', ''Nome da coluna sugere valor de renda ou faturamento.'', ''high''),
      (''salary'', ''Nome da coluna sugere valor de renda ou salario.'', ''high''),
      (''income'', ''Nome da coluna sugere valor de renda ou salario.'', ''high''),
      (''banco'', ''Nome da coluna sugere dado bancario.'', ''high''),
      (''bank'', ''Nome da coluna sugere dado bancario.'', ''high''),
      (''conta'', ''Nome da coluna sugere conta bancaria ou identificador financeiro.'', ''high''),
      (''boleto'', ''Nome da coluna sugere identificador de cobranca financeira.'', ''high''),
      (''parcela'', ''Nome da coluna sugere parcela ou pagamento recorrente.'', ''high''),
      (''saldo_devedor'', ''Nome da coluna sugere saldo devedor ou valor financeiro.'', ''high''),
      (''credito'', ''Nome da coluna sugere valor de credito ou financiamento.'', ''high''),
      (''contrato'', ''Nome da coluna sugere contrato com valor financeiro ou vinculo pessoal.'', ''high''),
      (''proposta'', ''Nome da coluna sugere proposta ou identificacao comercial/financeira.'', ''high''),
      (''cota'', ''Nome da coluna sugere cota ou participacao financeira.'', ''high'')]"

definition sensitivity_labels :: "(string \<times> string) list" where
  "sensitivity_labels =
     [(''public'', ''Publico''),
      (''internal'', ''Interno''),
      (''confidential'', ''Confidencial''),
      (''restricted'', ''Restrito''),
      (''personal_data'', ''Dado pessoal'')]"

definition legal_basis_labels :: "(string \<times> string) list" where
  "legal_basis_labels =
     [(''consent'', ''Consentimento''),
      (''contract'', ''Execucao de contrato''),
      (''legal_obligation'', ''Obrigacao legal/regulatoria''),
      (''legitimate_interest'', ''Legitimo interesse''),
      (''exercise_of_rights'', ''Exercicio regular de direitos''),
      (''credit_protection'', ''Protecao ao credito''),
      (''other'', ''Outro'')]"

definition access_scope_labels :: "(string \<times> string) list" where
  "access_scope_labels =
     [(''public'', ''Publico''),
      (''authenticated'', ''Autenticados''),
      (''confidential'', ''Confidencial''),
      (''restricted'', ''Restrito''),
      (''personal_data'', ''Dado pessoal'')]"

definition access_role_labels_table :: "(string \<times> string) list" where
  "access_role_labels_table =
     [(''admin'', ''Administrador''),
      (''governance'', ''Governanca''),
      (''data_owner'', ''Data Owner''),
      (''analyst'', ''Analista''),
      (''reader'', ''Leitor'')]"

definition lookup_or :: "(string \<times> string) list \<Rightarrow> string \<Rightarrow> string \<Rightarrow> string" where
  "lookup_or table key def = (case map_of table key of None \<Rightarrow> def | Some v \<Rightarrow> v)"

section \<open>Who may see a table, by privacy alone\<close>

definition normalize_access_roles :: "string list option \<Rightarrow> string list" where
  "normalize_access_roles values =
     (let normalized = map (\<lambda>v. normalize_access_role (Some v)) (case values of None \<Rightarrow> [] | Some vs \<Rightarrow> vs) in
      filter (\<lambda>v. v \<in> set access_role_options) (from_keys normalized))"

definition default_access_scope_for_sensitivity :: "string option \<Rightarrow> string" where
  "default_access_scope_for_sensitivity sensitivity_level =
     lookup_or [(''public'', ''public''), (''internal'', ''authenticated''),
       (''confidential'', ''confidential''), (''restricted'', ''restricted''),
       (''personal_data'', ''personal_data'')] (normalize_token sensitivity_level) ''authenticated''"

definition role_tokens_for_user :: "user_row option \<Rightarrow> table_row option \<Rightarrow> string set" where
  "role_tokens_for_user user tbl =
     (case user of
        None \<Rightarrow> {}
      | Some u \<Rightarrow>
          let tokens = insert ''authenticated'' (visibility_role_names user);
              tokens = (if ''admin'' \<in> tokens then insert ''governance'' tokens else tokens)
          in (case tbl of
                None \<Rightarrow> tokens
              | Some t \<Rightarrow>
                  if user_email u = '''' then tokens
                  else
                    let of_owner = (case table_data_owner t of None \<Rightarrow> '''' | Some d \<Rightarrow> owner_row_email d);
                        owner_email = (if of_owner \<noteq> '''' then of_owner else or_empty (table_owner_email t))
                    in if owner_email \<noteq> ''''
                          \<and> py_lower (py_strip owner_email) = py_lower (py_strip (user_email u))
                       then insert ''data_owner'' tokens else tokens))"

definition base_roles :: "string \<Rightarrow> string set" where
  "base_roles scope =
     (if scope = ''confidential'' then {''governance'', ''data_owner'', ''analyst''}
      else if scope = ''restricted'' then {''governance'', ''data_owner'', ''stewardship''}
      else if scope = ''personal_data'' then {''governance'', ''data_owner'', ''stewardship''}
      else {''authenticated''})"

definition effective_scope :: "table_row \<Rightarrow> string" where
  "effective_scope tbl = or_else (normalize_token (table_access_scope tbl))
     (default_access_scope_for_sensitivity (table_sensitivity_level tbl))"

definition can_view_table_privacy_only :: "rule_table option \<Rightarrow> user_row option \<Rightarrow> table_row \<Rightarrow> bool" where
  "can_view_table_privacy_only session user tbl =
     (if \<not> vis_visible (table_visibility_decision_from_entity session tbl user) then False
      else
        let scope = effective_scope tbl;
            allowed_roles = set (normalize_access_roles (table_access_roles tbl));
            tokens = role_tokens_for_user user (Some tbl)
        in
        if scope = ''public'' then True
        else if user = None then False
        else if ''admin'' \<in> tokens then True
        else if allowed_roles \<noteq> {} \<and> tokens \<inter> allowed_roles \<noteq> {} then True
        else tokens \<inter> base_roles scope \<noteq> {})"

section \<open>Columns that look personal\<close>

record column_classification_row =
  cls_taxonomy_key :: string
  cls_taxonomy_label :: string
  cls_is_personal_data :: bool
  cls_is_sensitive_data :: bool
  cls_is_financial_data :: bool

record column_row =
  col_name :: string
  col_data_type :: string
  col_classification :: "column_classification_row option"

record suspect =
  sus_column_name :: string
  sus_data_type :: string
  sus_signal :: string
  sus_reason :: string
  sus_suggested_classification :: string
  sus_confidence :: string

definition classified_sensitive :: "column_row \<Rightarrow> column_classification_row option" where
  "classified_sensitive c = (case col_classification c of
     None \<Rightarrow> None
   | Some k \<Rightarrow> if cls_is_personal_data k \<or> cls_is_sensitive_data k \<or> cls_is_financial_data k
               then Some k else None)"

definition suspect_of_column :: "column_row \<Rightarrow> suspect option" where
  "suspect_of_column c =
     (case classified_sensitive c of
        Some k \<Rightarrow> Some \<lparr>sus_column_name = col_name c, sus_data_type = col_data_type c,
          sus_signal = cls_taxonomy_key k,
          sus_reason = ''Classificacao persistida como '' @ cls_taxonomy_label k @ ''.'',
          sus_suggested_classification = ''personal_data'',
          sus_confidence = (if cls_is_sensitive_data k then ''high'' else ''medium'')\<rparr>
      | None \<Rightarrow>
          let haystack = normalize_token (Some (col_name c)) in
          (case List.find (\<lambda>(sig, reason, conf). let signal = normalize_token (Some sig) in
                  signal \<noteq> '''' \<and> contains_str signal haystack) personal_data_signal_rules of
             None \<Rightarrow> None
           | Some (sig, reason, conf) \<Rightarrow> Some \<lparr>sus_column_name = col_name c, sus_data_type = col_data_type c,
               sus_signal = sig, sus_reason = reason,
               sus_suggested_classification = ''personal_data'', sus_confidence = conf\<rparr>))"

definition suspected_personal_data_columns :: "column_row list option \<Rightarrow> suspect list" where
  "suspected_personal_data_columns columns =
     (case columns of None \<Rightarrow> [] | Some cs \<Rightarrow> List.map_filter suspect_of_column cs)"

definition suggest_possible_personal_data :: "column_row list option \<Rightarrow> bool" where
  "suggest_possible_personal_data columns = (suspected_personal_data_columns columns \<noteq> [])"

section \<open>Labels\<close>

definition sensitivity_label :: "string option \<Rightarrow> string" where
  "sensitivity_label value = lookup_or sensitivity_labels (normalize_token value) ''Nao classificado''"

definition legal_basis_label :: "string option \<Rightarrow> string option" where
  "legal_basis_label value =
     (let normalized = normalize_token value in
      if normalized = '''' then None
      else (case map_of legal_basis_labels normalized of None \<Rightarrow> value | Some l \<Rightarrow> Some l))"

definition access_scope_label :: "string option \<Rightarrow> string option \<Rightarrow> string" where
  "access_scope_label value sensitivity_level =
     lookup_or access_scope_labels
       (or_else (normalize_token value) (default_access_scope_for_sensitivity sensitivity_level)) ''Autenticados''"

definition access_role_labels :: "string list option \<Rightarrow> string list" where
  "access_role_labels values =
     map (\<lambda>r. lookup_or access_role_labels_table r r) (normalize_access_roles values)"

section \<open>Lemmas\<close>

lemma normalize_access_roles_range:
  "set (normalize_access_roles vs) \<subseteq> set access_role_options" "distinct (normalize_access_roles vs)"
  by (auto simp: normalize_access_roles_def Let_def)

text \<open>The list of roles allowed on a table is stored in a normal form: whatever labels were given,
  in any spelling, the result has no duplicates, contains only known roles, and normalises to itself.\<close>

theorem access_roles_normal_form:
  "distinct (normalize_access_roles vs) \<and> set (normalize_access_roles vs) \<subseteq> set access_role_options
   \<and> normalize_access_roles (Some (normalize_access_roles vs)) = normalize_access_roles vs"
proof -
  let ?r = "normalize_access_roles vs"
  have "normalize_access_role (Some t) = t" if "t \<in> set ?r" for t
  proof -
    from that obtain v where "t = normalize_access_role (Some v)"
      by (auto simp: normalize_access_roles_def Let_def split: option.splits)
    then show ?thesis by (simp add: normalize_access_role_def normalize_token_idem)
  qed
  then have "map (\<lambda>v. normalize_access_role (Some v)) ?r = ?r" by (simp add: map_idI)
  then show ?thesis
    using normalize_access_roles_range [of vs]
    by (auto simp: normalize_access_roles_def [of "Some ?r"] from_keys_distinct filter_id_conv)
qed

lemma authenticated_token: "''authenticated'' \<in> role_tokens_for_user (Some u) t"
  by (auto simp: role_tokens_for_user_def Let_def split: option.splits)

text \<open>An administrator is never stopped by the privacy policy.\<close>

lemma privacy_admin:
  assumes "''admin'' \<in> visibility_role_names (Some u)"
  shows "can_view_table_privacy_only session (Some u) tbl"
proof -
  have "''admin'' \<in> role_tokens_for_user (Some u) (Some tbl)"
    using assms by (auto simp: role_tokens_for_user_def Let_def split: option.splits)
  with assms show ?thesis
    by (simp add: can_view_table_privacy_only_def admin_sees_all full_visibility_def Let_def)
qed

end
