(* ===== verification/AccessControl.thy ===== *)
theory AccessControl
  imports Rbac Privacy
begin

text \<open>
  Attribute and grant based access, \<open>features/access_control/abac.py\<close> and
  \<open>features/access_control/policy.py\<close>: domain, environment and sensitivity checks on a resource, the grants of
  a user and of the groups the user is in, and the decisions on tables, schemas and datasources that combine
  them with the privacy policy.
\<close>

section \<open>Attributes\<close>

definition environment_aliases :: "(string \<times> string) list" where
  "environment_aliases =
     [(''production'', ''prod''), (''prod'', ''prod''), (''development'', ''dev''), (''dev'', ''dev''),
      (''local'', ''local''), (''test'', ''test''), (''qa'', ''qa''), (''hml'', ''hml''),
      (''sandbox'', ''sandbox''), (''shared'', ''shared'')]"

definition normalize_environment :: "string option \<Rightarrow> string" where
  "normalize_environment env = norm_token env"

definition abac_normalize_token :: "string option \<Rightarrow> string" where
  "abac_normalize_token value = (let raw = normalize_environment value in lookup_or environment_aliases raw raw)"

definition abac_normalize_tokens :: "string option list \<Rightarrow> string set" where
  "abac_normalize_tokens values = set (filter (\<lambda>t. t \<noteq> '''') (map abac_normalize_token values))"

record classification_map =
  cc_taxonomy_group :: "string option"
  cc_is_personal_data :: bool
  cc_is_sensitive_data :: bool
  cc_is_financial_data :: bool

definition permission_names :: "user_row option \<Rightarrow> string set" where
  "permission_names user = (case user of None \<Rightarrow> {}
     | Some u \<Rightarrow> set (filter (\<lambda>n. n \<noteq> '''')
         (map (\<lambda>p. norm_token (Some p)) (concat (map role_permissions (user_roles u))))))"

definition allowed_tokens :: "string option list option \<Rightarrow> string set" where
  "allowed_tokens values = (case values of None \<Rightarrow> {}
     | Some vs \<Rightarrow> abac_normalize_tokens (filter (\<lambda>v. v \<noteq> None) vs))"

definition allowed_domains :: "user_row option \<Rightarrow> string set" where
  "allowed_domains user = (case user of None \<Rightarrow> {} | Some u \<Rightarrow> allowed_tokens (user_allowed_domains u))"

definition allowed_environments :: "user_row option \<Rightarrow> string set" where
  "allowed_environments user =
     (case user of None \<Rightarrow> {} | Some u \<Rightarrow> allowed_tokens (user_allowed_environments u))"

definition user_matches_owner :: "user_row option \<Rightarrow> table_row option \<Rightarrow> bool" where
  "user_matches_owner user tbl =
     (case (user, tbl) of
        (Some u, Some t) \<Rightarrow>
          if user_email u = '''' then False
          else
            let mine = py_lower (py_strip (user_email u));
                owner_email = norm_token (table_owner_email t);
                data_owner_email = norm_token (map_option owner_row_email (table_data_owner t))
            in if owner_email \<noteq> '''' \<and> owner_email = mine then True
               else data_owner_email \<noteq> '''' \<and> data_owner_email = mine
      | _ \<Rightarrow> False)"

definition user_is_owner :: "user_row option \<Rightarrow> table_row option \<Rightarrow> bool" where
  "user_is_owner user tbl =
     (if tbl = None then False
      else ''data_owner'' \<in> user_role_names user \<or> user_matches_owner user tbl)"

definition user_is_steward :: "user_row option \<Rightarrow> bool" where
  "user_is_steward user = (''stewardship'' \<in> user_role_names user)"

definition resource_domain_name :: "table_row option \<Rightarrow> string option" where
  "resource_domain_name tbl =
     (case tbl of None \<Rightarrow> None
      | Some t \<Rightarrow> or_none (py_strip (or_empty
          (case table_data_owner t of None \<Rightarrow> None | Some d \<Rightarrow> owner_row_area d))))"

definition table_datasource :: "table_row \<Rightarrow> datasource_row option" where
  "table_datasource t = Option.bind (table_schema t) (\<lambda>s. Option.bind (schema_database s) database_datasource)"

definition resource_environment :: "table_row option \<Rightarrow> datasource_row option \<Rightarrow> string option" where
  "resource_environment tbl ds =
     (case ds of
        Some d \<Rightarrow> or_none (abac_normalize_token (ds_environment d))
      | None \<Rightarrow> (case tbl of None \<Rightarrow> None
          | Some t \<Rightarrow> or_none (abac_normalize_token
              (Option.bind (table_datasource t) ds_environment))))"

definition resource_sensitivity_level ::
  "table_row option \<Rightarrow> classification_map option \<Rightarrow> string option" where
  "resource_sensitivity_level tbl cc =
     (let of_table = (case tbl of None \<Rightarrow> None
            | Some t \<Rightarrow> or_none (abac_normalize_token (table_sensitivity_level t)))
      in case cc of
        None \<Rightarrow> of_table
      | Some c \<Rightarrow>
          let taxonomy_group = norm_token (cc_taxonomy_group c) in
          if taxonomy_group \<in> {''sensitive'', ''personal'', ''financial''}
          then Some (if taxonomy_group = ''sensitive'' then ''restricted'' else ''personal_data'')
          else of_table)"

definition resource_has_sensitive_flags :: "table_row option \<Rightarrow> classification_map option \<Rightarrow> bool" where
  "resource_has_sensitive_flags tbl cc =
     (case cc of
        Some c \<Rightarrow> cc_is_personal_data c \<or> cc_is_sensitive_data c \<or> cc_is_financial_data c
      | None \<Rightarrow> (case tbl of None \<Rightarrow> False
          | Some t \<Rightarrow> table_has_personal_data t \<or> table_has_sensitive_personal_data t))"

definition resource_is_sensitive :: "table_row option \<Rightarrow> classification_map option \<Rightarrow> bool" where
  "resource_is_sensitive tbl cc =
     (if resource_sensitivity_level tbl cc \<in> {Some ''confidential'', Some ''restricted'', Some ''personal_data''}
      then True else resource_has_sensitive_flags tbl cc)"

definition resource_domain_allowed :: "user_row option \<Rightarrow> table_row option \<Rightarrow> bool" where
  "resource_domain_allowed user tbl =
     (case resource_domain_name tbl of
        None \<Rightarrow> True
      | Some domain \<Rightarrow>
          if is_admin_role (user_role_names user) \<or> user_is_owner user tbl \<or> user_is_steward user then True
          else if allowed_domains user = {} then True
          else abac_normalize_token (Some domain) \<in> allowed_domains user)"

definition open_environments :: "string set" where
  "open_environments = {''dev'', ''local'', ''test'', ''shared'', ''sandbox'', ''hml'', ''qa''}"

definition resource_environment_allowed ::
  "user_row option \<Rightarrow> table_row option \<Rightarrow> datasource_row option \<Rightarrow> bool" where
  "resource_environment_allowed user tbl ds =
     (case resource_environment tbl ds of
        None \<Rightarrow> True
      | Some environment \<Rightarrow>
          let normalized = abac_normalize_token (Some environment) in
          if is_admin_role (user_role_names user) \<or> user_is_owner user tbl \<or> user_is_steward user then True
          else if normalized \<in> open_environments then True
          else if allowed_environments user = {} then False
          else normalized \<in> allowed_environments user)"

definition sensitive_read_permissions :: "string set" where
  "sensitive_read_permissions =
     {''sensitive:read'', ''data:sensitive:read'', ''sensitive_read'', ''admin.user_audit.sensitive_read''}"

definition sensitive_export_permissions :: "string set" where
  "sensitive_export_permissions = {''sensitive:export'', ''data:sensitive:export'', ''sensitive_export''}"

definition sensitive_actions :: "string set" where
  "sensitive_actions = {''read'', ''sensitive_read'', ''export'', ''update'', ''approve'', ''certify'',
     ''classify'', ''delete''}"

definition has_permission :: "user_row option \<Rightarrow> string set \<Rightarrow> bool" where
  "has_permission user names = (permission_names user \<inter> names \<noteq> {})"

definition normalize_action :: "string \<Rightarrow> string" where
  "normalize_action action = py_lower (py_strip (or_else action ''read''))"

definition can_access_resource ::
  "user_row option \<Rightarrow> string \<Rightarrow> table_row option \<Rightarrow> datasource_row option \<Rightarrow> classification_map option \<Rightarrow> bool" where
  "can_access_resource user action tbl ds cc =
     (if user = None then False
      else if is_admin_role (user_role_names user) then True
      else if \<not> resource_domain_allowed user tbl then False
      else if \<not> resource_environment_allowed user tbl ds then False
      else
        let normalized_action = normalize_action action;
            sensitive_resource = resource_is_sensitive tbl cc
        in
        if normalized_action \<in> {''read'', ''sensitive_read''} then
          (if \<not> sensitive_resource then True
           else if has_permission user sensitive_read_permissions then True
           else user_is_owner user tbl \<or> user_is_steward user)
        else if normalized_action = ''export'' then
          (if \<not> sensitive_resource then True else has_permission user sensitive_export_permissions)
        else if normalized_action \<in> {''update'', ''approve'', ''certify'', ''classify'', ''delete''} then
          (if \<not> sensitive_resource then True
           else if user_is_owner user tbl \<or> user_is_steward user then True
           else has_permission user {''sensitive:read''} \<or> has_permission user sensitive_read_permissions)
        else if normalized_action \<in> sensitive_actions then
          (if \<not> sensitive_resource then True
           else has_permission user sensitive_read_permissions \<or> user_is_owner user tbl \<or> user_is_steward user)
        else True)"

definition sensitivity_denial_reason ::
  "user_row option \<Rightarrow> string \<Rightarrow> table_row option \<Rightarrow> datasource_row option \<Rightarrow> classification_map option
    \<Rightarrow> string option" where
  "sensitivity_denial_reason user action tbl ds cc =
     (if can_access_resource user action tbl ds cc then None
      else if normalize_action action = ''export'' then Some ''export_sensitive_denied''
      else if \<not> resource_domain_allowed user tbl then Some ''domain_denied''
      else if \<not> resource_environment_allowed user tbl ds then Some ''environment_denied''
      else if resource_is_sensitive tbl cc then Some ''sensitive_permission_denied''
      else Some ''access_denied'')"

record access_subject =
  as_action :: string
  as_domain_name :: "string option"
  as_environment :: "string option"
  as_sensitivity_level :: "string option"
  as_has_personal_data :: bool
  as_has_sensitive_data :: bool
  as_has_financial_data :: bool
  as_owner_email :: "string option"
  as_datasource_id :: "int option"
  as_table_id :: "int option"

definition build_access_subject ::
  "string \<Rightarrow> table_row option \<Rightarrow> datasource_row option \<Rightarrow> classification_map option \<Rightarrow> access_subject" where
  "build_access_subject action tbl ds cc =
     \<lparr>as_action = action,
      as_domain_name = resource_domain_name tbl,
      as_environment = resource_environment tbl ds,
      as_sensitivity_level = resource_sensitivity_level tbl cc,
      as_has_personal_data = resource_has_sensitive_flags tbl cc,
      as_has_sensitive_data = resource_has_sensitive_flags tbl cc,
      as_has_financial_data = (case cc of None \<Rightarrow> False | Some c \<Rightarrow> cc_is_financial_data c),
      as_owner_email = Option.bind tbl table_owner_email,
      as_datasource_id = (case ds of Some d \<Rightarrow> Some (ds_id d)
        | None \<Rightarrow> Option.bind tbl (\<lambda>t. Option.bind (table_schema t) (\<lambda>s.
            Option.bind (schema_database s) database_datasource_id))),
      as_table_id = map_option table_pk tbl\<rparr>"

section \<open>Grants\<close>

record scope_decision =
  sd_visible :: bool
  sd_explicit :: bool
  sd_reason :: string

definition normalize_effect :: "string option \<Rightarrow> string" where
  "normalize_effect value = (let raw = norm_token value in
     if raw \<in> {''allow'', ''deny''} then raw else ''allow'')"

definition add_grant :: "grant_row \<Rightarrow> (int \<times> grant_row) list \<Rightarrow> (int \<times> grant_row) list" where
  "add_grant g d = (case grant_id g of None \<Rightarrow> d | Some i \<Rightarrow> dict_set i g d)"

definition principal_grants :: "user_row option \<Rightarrow> grant_row list" where
  "principal_grants user = (case user of None \<Rightarrow> []
     | Some u \<Rightarrow> map snd (fold add_grant
         (user_access_grants u @ concat (map group_grants (user_access_groups u))) []))"

definition user_has_data_scope_rules :: "user_row option \<Rightarrow> bool" where
  "user_has_data_scope_rules user = (principal_grants user \<noteq> [])"

definition table_datasource_id :: "table_row \<Rightarrow> int option" where
  "table_datasource_id t =
     (case Option.bind (table_schema t) schema_database of
        None \<Rightarrow> None
      | Some db \<Rightarrow>
          (case database_datasource_id db of
             Some i \<Rightarrow> Some i
           | None \<Rightarrow> (case database_datasource db of None \<Rightarrow> None
               | Some ds \<Rightarrow> if ds_id ds = 0 then None else Some (ds_id ds))))"

definition grant_matches_table :: "table_row \<Rightarrow> grant_row \<Rightarrow> bool" where
  "grant_matches_table tbl g =
     (case grant_table_id g of
        Some i \<Rightarrow> i = table_pk tbl
      | None \<Rightarrow>
        (case grant_schema_id g of
           Some i \<Rightarrow> i = table_schema_id tbl
         | None \<Rightarrow>
           (case grant_datasource_id g of
              Some i \<Rightarrow> table_datasource_id tbl = Some i
            | None \<Rightarrow> False)))"

definition grant_matches_schema :: "schema_row \<Rightarrow> grant_row \<Rightarrow> bool" where
  "grant_matches_schema sch g =
     (case grant_schema_id g of
        Some i \<Rightarrow> i = schema_pk sch
      | None \<Rightarrow>
        (case grant_datasource_id g of
           Some i \<Rightarrow> Option.bind (schema_database sch) database_datasource_id = Some i
         | None \<Rightarrow> False))"

definition grant_matches_datasource :: "datasource_row \<Rightarrow> grant_row \<Rightarrow> bool" where
  "grant_matches_datasource ds g =
     (case grant_datasource_id g of Some i \<Rightarrow> i = ds_id ds | None \<Rightarrow> False)"

definition is_deny :: "grant_row \<Rightarrow> bool" where
  "is_deny g = (normalize_effect (grant_effect g) = ''deny'')"

definition is_allow :: "grant_row \<Rightarrow> bool" where
  "is_allow g = (normalize_effect (grant_effect g) = ''allow'')"

definition evaluate_grants :: "grant_row list \<Rightarrow> (grant_row \<Rightarrow> bool) \<Rightarrow> scope_decision" where
  "evaluate_grants grants matches =
     (let matched = filter matches grants;
          no_match = \<lparr>sd_visible = False, sd_explicit = False, sd_reason = ''no_match''\<rparr> in
      if matched = [] then no_match
      else if list_ex is_deny matched
      then \<lparr>sd_visible = False, sd_explicit = True, sd_reason = ''deny''\<rparr>
      else if list_ex is_allow matched
      then \<lparr>sd_visible = True, sd_explicit = True, sd_reason = ''allow''\<rparr>
      else no_match)"

definition can_view_table :: "rule_table option \<Rightarrow> user_row option \<Rightarrow> table_row \<Rightarrow> bool" where
  "can_view_table session user tbl =
     (if \<not> can_view_table_privacy_only session user tbl then False
      else if user = None then False
      else if is_admin_role (user_role_names user) then True
      else
        let grants = principal_grants user in
        if grants = [] then can_access_resource user ''read'' (Some tbl) None None
        else
          let matched = filter (grant_matches_table tbl) grants in
          if matched = [] then False
          else if list_ex is_deny matched then False
          else if \<not> list_ex is_allow matched then False
          else can_access_resource user ''read'' (Some tbl) None None)"

definition any_visible :: "rule_table option \<Rightarrow> user_row option \<Rightarrow> table_row list option \<Rightarrow> bool" where
  "any_visible session user tables =
     (case tables of None \<Rightarrow> False | Some ts \<Rightarrow> list_ex (can_view_table session user) ts)"

definition can_view_schema ::
  "rule_table option \<Rightarrow> user_row option \<Rightarrow> schema_row \<Rightarrow> table_row list option \<Rightarrow> bool" where
  "can_view_schema session user sch tables =
     (if user = None then False
      else if is_admin_role (user_role_names user) then True
      else
        let grants = principal_grants user in
        if grants = [] then any_visible session user tables
        else
          let decision = evaluate_grants grants (grant_matches_schema sch) in
          if sd_visible decision then True
          else if sd_explicit decision then False
          else any_visible session user tables)"

definition can_view_datasource ::
  "rule_table option \<Rightarrow> user_row option \<Rightarrow> datasource_row \<Rightarrow> schema_row list option \<Rightarrow> table_row list option \<Rightarrow> bool" where
  "can_view_datasource session user ds schemas tables =
     (if user = None then False
      else if is_admin_role (user_role_names user) then True
      else
        let grants = principal_grants user in
        if grants = [] then any_visible session user tables
        else
          let decision = evaluate_grants grants (grant_matches_datasource ds) in
          if sd_visible decision then True
          else if sd_explicit decision then False
          else if tables \<noteq> None \<and> tables \<noteq> Some [] then any_visible session user tables
          else (case schemas of None \<Rightarrow> False
                | Some ss \<Rightarrow> list_ex (\<lambda>s. can_view_schema session user s None) ss))"

definition visible_table_ids :: "rule_table option \<Rightarrow> user_row option \<Rightarrow> table_row list \<Rightarrow> int list" where
  "visible_table_ids session user tables = map table_pk (filter (can_view_table session user) tables)"

text \<open>\<open>features/privacy_access/policy.py\<close> has its own \<open>can_view_table\<close> and \<open>can_edit_privacy\<close> on top of these.\<close>

definition privacy_can_view_table :: "rule_table option \<Rightarrow> user_row option \<Rightarrow> table_row \<Rightarrow> bool" where
  "privacy_can_view_table session user tbl =
     (if \<not> can_view_table_privacy_only session user tbl then False
      else can_view_table session user tbl)"

definition can_edit_privacy :: "user_row option \<Rightarrow> table_row option \<Rightarrow> bool" where
  "can_edit_privacy user tbl =
     (if user = None then False
      else if role_tokens_for_user user None \<inter> {''admin'', ''governance'', ''analyst''} = {} then False
      else (case tbl of None \<Rightarrow> True
            | Some t \<Rightarrow> can_access_resource user ''update'' (Some t) None None))"

section \<open>What the grants decide\<close>

lemma effect_cases: "is_allow g \<longleftrightarrow> \<not> is_deny g"
  by (auto simp: is_allow_def is_deny_def normalize_effect_def Let_def)

text \<open>An abstract account of who sees a table, over the raw rows: the grants held directly or through a
  group, the rules of visibility, the scope of privacy and the attributes.\<close>

definition holds_grant :: "user_row \<Rightarrow> grant_row \<Rightarrow> bool" where
  "holds_grant u g \<longleftrightarrow> g \<in> set (user_access_grants u)
     \<or> (\<exists>grp\<in>set (user_access_groups u). g \<in> set (group_grants grp))"

definition lies_in_datasource :: "table_row \<Rightarrow> int \<Rightarrow> bool" where
  "lies_in_datasource t i \<longleftrightarrow>
     (\<exists>s db. table_schema t = Some s \<and> schema_database s = Some db
        \<and> (database_datasource_id db = Some i
           \<or> database_datasource_id db = None \<and> i \<noteq> 0
             \<and> (\<exists>ds. database_datasource db = Some ds \<and> ds_id ds = i)))"

definition grant_covers :: "grant_row \<Rightarrow> table_row \<Rightarrow> bool" where
  "grant_covers g t \<longleftrightarrow>
     grant_table_id g = Some (table_pk t)
     \<or> grant_table_id g = None \<and> grant_schema_id g = Some (table_schema_id t)
     \<or> grant_table_id g = None \<and> grant_schema_id g = None
       \<and> (\<exists>i. grant_datasource_id g = Some i \<and> lies_in_datasource t i)"

definition grants_show :: "user_row \<Rightarrow> table_row \<Rightarrow> bool" where
  "grants_show u t \<longleftrightarrow>
     (\<forall>g. \<not> holds_grant u g)
     \<or> (\<exists>g. holds_grant u g \<and> grant_covers g t)
       \<and> (\<forall>g. holds_grant u g \<and> grant_covers g t \<longrightarrow> norm_token (grant_effect g) \<noteq> ''deny'')"

definition has_role_token :: "user_row \<Rightarrow> string \<Rightarrow> bool" where
  "has_role_token u x \<longleftrightarrow> x \<noteq> '''' \<and> (\<exists>r\<in>set (user_roles u). normalize_token (Some (role_name r)) = x)"

definition rule_concerns :: "visibility_rule \<Rightarrow> table_row \<Rightarrow> bool" where
  "rule_concerns r t \<longleftrightarrow>
     (let scope = py_lower (py_strip (or_else (or_empty (rule_scope r)) ''asset'')) in
      scope = ''asset'' \<and> rule_entity_type r = ''table'' \<and> rule_entity_id r = Some (table_pk t)
      \<or> scope = ''classification'' \<and> str_true (table_sensitivity_level t)
        \<and> normalize_token (table_sensitivity_level t) = normalize_token (rule_match_value r))"

definition rule_admits :: "visibility_rule \<Rightarrow> user_row \<Rightarrow> bool" where
  "rule_admits r u \<longleftrightarrow> rule_allowed_user_id r = Some (user_id u)
     \<or> (\<exists>a. rule_allowed_role r = Some a \<and> has_role_token u (normalize_token (Some a)))"

definition rules_show :: "visibility_rule list \<Rightarrow> user_row \<Rightarrow> table_row \<Rightarrow> bool" where
  "rules_show rows u t \<longleftrightarrow> has_role_token u ''admin''
     \<or> (\<forall>r\<in>set rows. rule_is_active r \<longrightarrow> \<not> rule_concerns r t)
     \<or> (\<exists>r\<in>set rows. rule_is_active r \<and> rule_concerns r t \<and> rule_admits r u)"

definition scope_owner :: "user_row \<Rightarrow> table_row \<Rightarrow> bool" where
  "scope_owner u t \<longleftrightarrow> user_email u \<noteq> ''''
     \<and> (\<exists>mail. mail \<noteq> '''' \<and> py_lower (py_strip mail) = py_lower (py_strip (user_email u))
          \<and> ((\<exists>d. table_data_owner t = Some d \<and> owner_row_email d = mail)
             \<or> (\<forall>d. table_data_owner t = Some d \<longrightarrow> owner_row_email d = '''')
               \<and> table_owner_email t = Some mail))"

definition acts_as :: "user_row \<Rightarrow> table_row \<Rightarrow> string \<Rightarrow> bool" where
  "acts_as u t x \<longleftrightarrow> x = ''authenticated'' \<or> has_role_token u x
     \<or> x = ''governance'' \<and> has_role_token u ''admin'' \<or> x = ''data_owner'' \<and> scope_owner u t"

definition access_scope :: "table_row \<Rightarrow> string" where
  "access_scope t =
     (let s = normalize_token (table_access_scope t); l = normalize_token (table_sensitivity_level t) in
      if s \<noteq> '''' then s
      else if l \<in> {''public'', ''confidential'', ''restricted'', ''personal_data''} then l
      else ''authenticated'')"

definition privacy_shows :: "user_row \<Rightarrow> table_row \<Rightarrow> bool" where
  "privacy_shows u t \<longleftrightarrow>
     acts_as u t ''admin''
     \<or> (\<exists>vs v. table_access_roles t = Some vs \<and> v \<in> set vs
          \<and> normalize_token (Some v) \<in> {''governance'', ''data_owner'', ''analyst'', ''reader''}
          \<and> acts_as u t (normalize_token (Some v)))
     \<or> (if access_scope t = ''confidential''
        then acts_as u t ''governance'' \<or> acts_as u t ''data_owner'' \<or> acts_as u t ''analyst''
        else if access_scope t \<in> {''restricted'', ''personal_data''}
        then acts_as u t ''governance'' \<or> acts_as u t ''data_owner'' \<or> acts_as u t ''stewardship''
        else True)"

definition attribute_owner :: "user_row \<Rightarrow> table_row \<Rightarrow> bool" where
  "attribute_owner u t \<longleftrightarrow> ''data_owner'' \<in> user_role_names (Some u) \<or> ''stewardship'' \<in> user_role_names (Some u)
     \<or> user_email u \<noteq> ''''
       \<and> (\<exists>mail. norm_token (Some mail) \<noteq> '''' \<and> norm_token (Some mail) = norm_token (Some (user_email u))
            \<and> (table_owner_email t = Some mail \<or> (\<exists>d. table_data_owner t = Some d \<and> owner_row_email d = mail)))"

definition environment_token :: "string option \<Rightarrow> string" where
  "environment_token v = (let e = norm_token v in
     if e = ''production'' then ''prod'' else if e = ''development'' then ''dev'' else e)"

definition listed_token :: "string option list option \<Rightarrow> string \<Rightarrow> bool" where
  "listed_token vs x \<longleftrightarrow> x \<noteq> '''' \<and> (\<exists>l v. vs = Some l \<and> Some v \<in> set l \<and> environment_token (Some v) = x)"

definition domain_shows :: "user_row \<Rightarrow> table_row \<Rightarrow> bool" where
  "domain_shows u t \<longleftrightarrow>
     (\<forall>d a. table_data_owner t = Some d \<and> owner_row_area d = Some a \<and> py_strip a \<noteq> '''' \<longrightarrow>
        attribute_owner u t \<or> (\<forall>x. \<not> listed_token (user_allowed_domains u) x)
        \<or> listed_token (user_allowed_domains u) (environment_token (Some (py_strip a))))"

definition environment_shows :: "user_row \<Rightarrow> table_row \<Rightarrow> bool" where
  "environment_shows u t \<longleftrightarrow>
     (\<forall>s db ds. table_schema t = Some s \<and> schema_database s = Some db \<and> database_datasource db = Some ds
        \<and> environment_token (ds_environment ds) \<noteq> '''' \<longrightarrow>
        attribute_owner u t
        \<or> environment_token (ds_environment ds)
            \<in> {''dev'', ''local'', ''test'', ''shared'', ''sandbox'', ''hml'', ''qa''}
        \<or> listed_token (user_allowed_environments u) (environment_token (ds_environment ds)))"

definition sensitivity_shows :: "user_row \<Rightarrow> table_row \<Rightarrow> bool" where
  "sensitivity_shows u t \<longleftrightarrow>
     norm_token (table_sensitivity_level t) \<notin> {''confidential'', ''restricted'', ''personal_data''}
       \<and> \<not> table_has_personal_data t \<and> \<not> table_has_sensitive_personal_data t
     \<or> attribute_owner u t
     \<or> (\<exists>r\<in>set (user_roles u). \<exists>p\<in>set (role_permissions r). norm_token (Some p)
          \<in> {''sensitive:read'', ''data:sensitive:read'', ''sensitive_read'', ''admin.user_audit.sensitive_read''})"

section \<open>The rows decide\<close>

lemma effect_deny_iff: "is_deny g \<longleftrightarrow> norm_token (grant_effect g) = ''deny''"
  by (auto simp: is_deny_def normalize_effect_def Let_def)

lemma fold_add_grant_set:
  assumes "\<forall>g h. g \<in> S \<and> h \<in> S \<longrightarrow> grant_id g \<noteq> None \<and> (grant_id g = grant_id h \<longrightarrow> g = h)"
    and "\<forall>(i, g)\<in>set d. grant_id g = Some i \<and> g \<in> S" and "set gs \<subseteq> S"
  shows "snd ` set (fold add_grant gs d) = snd ` set d \<union> set gs"
  using assms(2,3)
proof (induction gs arbitrary: d)
  case (Cons g gs)
  have g: "g \<in> S" using Cons.prems(2) by simp
  then obtain i where i: "grant_id g = Some i" using assms(1) by blast
  have "(\<forall>(i, g)\<in>set (dict_set i g e). grant_id g = Some i \<and> g \<in> S)
      \<and> snd ` set (dict_set i g e) = insert g (snd ` set e)"
    if "\<forall>(i, g)\<in>set e. grant_id g = Some i \<and> g \<in> S" for e
    using that
  proof (induction e)
    case (Cons p e)
    obtain j h where p: "p = (j, h)" by (cases p)
    with Cons.prems have h: "grant_id h = Some j" "h \<in> S" by auto
    show ?case
    proof (cases "j = i")
      case True
      with h g i assms(1) have "h = g" by metis
      with True p g i Cons.prems show ?thesis by auto
    next
      case False
      with Cons p h show ?thesis by auto
    qed
  qed (simp add: g i)
  from this [OF Cons.prems(1)] Cons.IH [of "dict_set i g d"] Cons.prems(2) i show ?case
    by (simp add: add_grant_def)
qed simp

lemma principal_grants_set:
  assumes "\<forall>g h. holds_grant u g \<and> holds_grant u h \<longrightarrow>
           grant_id g \<noteq> None \<and> (grant_id g = grant_id h \<longrightarrow> g = h)"
  shows "g \<in> set (principal_grants (Some u)) \<longleftrightarrow> holds_grant u g"
proof -
  have "snd ` set (fold add_grant (user_access_grants u @ concat (map group_grants (user_access_groups u))) [])
      = {} \<union> {g. holds_grant u g}"
    by (subst fold_add_grant_set [where S = "{g. holds_grant u g}"])
      (use assms in \<open>auto simp: holds_grant_def\<close>)
  then show ?thesis by (auto simp: principal_grants_def)
qed

lemma grant_covers_iff: "grant_matches_table t g \<longleftrightarrow> grant_covers g t"
proof -
  have "table_datasource_id t = Some i \<longleftrightarrow> lies_in_datasource t i" for i
    by (auto simp: table_datasource_id_def lies_in_datasource_def split: option.splits bind_splits)
  then show ?thesis by (auto simp: grant_matches_table_def grant_covers_def split: option.splits)
qed

lemma visibility_roles_iff: "x \<in> visibility_role_names (Some u) \<longleftrightarrow> has_role_token u x"
  by (auto simp: visibility_role_names_def has_role_token_def normalize_access_role_def)

lemma rules_show_iff:
  "vis_visible (table_visibility_decision_from_entity (Some (Some rows)) t (Some u)) \<longleftrightarrow> rules_show rows u t"
proof -
  let ?s = "\<lparr>subj_table_id = table_pk t, subj_domain_name = None,
        subj_classification = table_sensitivity_level t\<rparr>"
  have m: "matches_rule r ?s \<longleftrightarrow> rule_concerns r t" for r
    by (simp add: matches_rule_def rule_concerns_def Let_def str_true_def)
  have a: "allows_user r (visibility_role_names (Some u)) (map_option user_id (Some u)) \<longleftrightarrow> rule_admits r u" for r
    by (auto simp: allows_user_def rule_admits_def visibility_roles_iff)
  show ?thesis
    using hidden_iff [of rows t "Some u"]
    unfolding Let_def m a visibility_roles_iff rules_show_def
    by (auto simp: filter_empty_conv)
qed

lemma role_tokens_iff: "x \<in> role_tokens_for_user (Some u) (Some t) \<longleftrightarrow> acts_as u t x"
proof -
  have o: "(let of_owner = (case table_data_owner t of None \<Rightarrow> '''' | Some d \<Rightarrow> owner_row_email d);
             owner_email = (if of_owner \<noteq> '''' then of_owner else or_empty (table_owner_email t))
         in owner_email \<noteq> '''' \<and> py_lower (py_strip owner_email) = py_lower (py_strip (user_email u)))
         \<and> user_email u \<noteq> '''' \<longleftrightarrow> scope_owner u t"
    by (cases "table_data_owner t"; cases "table_owner_email t")
      (auto simp: scope_owner_def Let_def)
  show ?thesis
    unfolding acts_as_def o [symmetric]
    by (auto simp: role_tokens_for_user_def Let_def visibility_roles_iff)
qed

lemma effective_scope_iff:
  "effective_scope t = ''confidential'' \<longleftrightarrow> access_scope t = ''confidential''"
  "effective_scope t \<in> {''restricted'', ''personal_data''} \<longleftrightarrow> access_scope t \<in> {''restricted'', ''personal_data''}"
  "effective_scope t = ''public'' \<longleftrightarrow> access_scope t = ''public''"
  by (auto simp: effective_scope_def access_scope_def Let_def or_else_def
      default_access_scope_for_sensitivity_def lookup_or_def split: if_splits)

lemma privacy_shows_iff:
  "can_view_table_privacy_only (Some (Some rows)) (Some u) t \<longleftrightarrow> rules_show rows u t \<and> privacy_shows u t"
proof -
  let ?T = "role_tokens_for_user (Some u) (Some t)"
  have named: "?T \<inter> set (normalize_access_roles (table_access_roles t)) \<noteq> {} \<longleftrightarrow>
     (\<exists>vs v. table_access_roles t = Some vs \<and> v \<in> set vs
          \<and> normalize_token (Some v) \<in> set access_role_options \<and> acts_as u t (normalize_token (Some v)))"
    by (cases "table_access_roles t")
      (auto simp: normalize_access_roles_def role_tokens_iff normalize_access_role_def disjoint_iff)
  have base: "?T \<inter> base_roles (effective_scope t) \<noteq> {} \<longleftrightarrow>
     (if access_scope t = ''confidential''
        then acts_as u t ''governance'' \<or> acts_as u t ''data_owner'' \<or> acts_as u t ''analyst''
        else if access_scope t \<in> {''restricted'', ''personal_data''}
        then acts_as u t ''governance'' \<or> acts_as u t ''data_owner'' \<or> acts_as u t ''stewardship''
        else True)"
    using effective_scope_iff [of t] role_tokens_iff [of _ u t]
    by (auto simp: base_roles_def acts_as_def)
  define N where "N \<longleftrightarrow> (\<exists>vs v. table_access_roles t = Some vs \<and> v \<in> set vs
          \<and> normalize_token (Some v) \<in> {''governance'', ''data_owner'', ''analyst'', ''reader''}
          \<and> acts_as u t (normalize_token (Some v)))"
  have N: "(\<exists>vs v. table_access_roles t = Some vs \<and> v \<in> set vs
          \<and> normalize_token (Some v) \<in> set access_role_options \<and> acts_as u t (normalize_token (Some v)))
      \<longleftrightarrow> N" if "\<not> acts_as u t ''admin''"
    unfolding N_def access_role_options_def using that by auto
  define B where "B \<longleftrightarrow> (if access_scope t = ''confidential''
        then acts_as u t ''governance'' \<or> acts_as u t ''data_owner'' \<or> acts_as u t ''analyst''
        else if access_scope t \<in> {''restricted'', ''personal_data''}
        then acts_as u t ''governance'' \<or> acts_as u t ''data_owner'' \<or> acts_as u t ''stewardship''
        else True)"
  have pub: "B" if "effective_scope t = ''public''" using that effective_scope_iff(3) [of t] by (simp add: B_def)
  have "privacy_shows u t \<longleftrightarrow> acts_as u t ''admin'' \<or> N \<or> B"
    unfolding privacy_shows_def N_def B_def ..
  moreover have "(set (normalize_access_roles (table_access_roles t)) \<noteq> {}
      \<and> ?T \<inter> set (normalize_access_roles (table_access_roles t)) \<noteq> {}) \<longleftrightarrow> N" if "\<not> acts_as u t ''admin''"
  proof -
    have e: "(?T \<inter> set (normalize_access_roles (table_access_roles t)) \<noteq> {}) = N"
      using N [OF that] named by (simp only:)
    show ?thesis unfolding e [symmetric] by auto
  qed
  moreover have "?T \<inter> base_roles (effective_scope t) \<noteq> {} \<longleftrightarrow> B" unfolding base B_def ..
  moreover have "''admin'' \<in> ?T \<longleftrightarrow> acts_as u t ''admin''" by (rule role_tokens_iff)
  ultimately show ?thesis
    using pub by (simp add: can_view_table_privacy_only_def rules_show_iff Let_def)
qed

lemma lookup_or_simps:
  "lookup_or [] e d = d" "lookup_or ((k, v) # ps) e d = (if e = k then v else lookup_or ps e d)"
  by (simp_all add: lookup_or_def)

lemma environment_token_eq: "abac_normalize_token v = environment_token v"
proof -
  have same: "(if e = k then k else e) = e" for e k :: string by simp
  have "lookup_or environment_aliases e e
      = (if e = ''production'' then ''prod'' else if e = ''prod'' then ''prod''
         else if e = ''development'' then ''dev'' else e)" for e
    unfolding environment_aliases_def by (simp only: lookup_or_simps same)
  moreover have "(if e = ''prod'' then ''prod'' else if e = ''development'' then ''dev'' else e)
      = (if e = ''development'' then ''dev'' else e)" for e
    by (cases "e = ''prod''") simp_all
  ultimately show ?thesis
    by (simp only: abac_normalize_token_def environment_token_def normalize_environment_def Let_def)
qed

lemma attribute_owner_eq: "attribute_owner u t \<longleftrightarrow> user_is_owner (Some u) (Some t) \<or> user_is_steward (Some u)"
proof -
  have "norm_token None = ''''" by code_simp
  then show ?thesis
    by (cases "table_owner_email t"; cases "table_data_owner t")
      (auto simp: attribute_owner_def user_is_owner_def user_is_steward_def user_matches_owner_def Let_def
        norm_token_def [of "Some (user_email u)"])
qed

lemma listed_token_iff: "x \<in> allowed_tokens vs \<longleftrightarrow> listed_token vs x"
  by (cases vs) (auto simp: allowed_tokens_def abac_normalize_tokens_def listed_token_def environment_token_eq)

lemma listed_token_empty: "allowed_tokens vs = {} \<longleftrightarrow> (\<forall>x. \<not> listed_token vs x)"
  by (auto simp flip: listed_token_iff)

lemma domain_shows_iff:
  assumes "''admin'' \<notin> user_role_names (Some u)"
  shows "resource_domain_allowed (Some u) (Some t) \<longleftrightarrow> domain_shows u t"
  using assms
  by (auto simp: resource_domain_allowed_def domain_shows_def resource_domain_name_def is_admin_role_def
      attribute_owner_eq allowed_domains_def listed_token_empty listed_token_iff environment_token_eq or_none_def
      or_empty_def py_strip_def py_lstrip_def split: option.splits if_splits)

lemma environment_token_idem: "environment_token (Some (environment_token v)) = environment_token v"
proof -
  have "norm_token (Some ''prod'') = ''prod''" "norm_token (Some ''dev'') = ''dev''" by code_simp+
  moreover have "norm_token (Some (norm_token v)) = norm_token v"
    by (simp add: norm_token_def py_strip_lower)
  ultimately show ?thesis by (simp add: environment_token_def Let_def)
qed

lemma environment_shows_iff:
  assumes "''admin'' \<notin> user_role_names (Some u)"
  shows "resource_environment_allowed (Some u) (Some t) None \<longleftrightarrow> environment_shows u t"
proof (cases "table_datasource t")
  case None
  then have "environment_shows u t"
    by (auto simp: environment_shows_def table_datasource_def)
  moreover have "environment_token None = ''''" by code_simp
  ultimately show ?thesis
    using None by (simp add: resource_environment_allowed_def resource_environment_def environment_token_eq)
next
  case (Some ds)
  then obtain s db where s: "table_schema t = Some s" "schema_database s = Some db" "database_datasource db = Some ds"
    by (auto simp: table_datasource_def split: bind_splits)
  let ?e = "environment_token (ds_environment ds)"
  have "resource_environment (Some t) None = or_none ?e"
    using Some by (simp add: resource_environment_def environment_token_eq)
  moreover have "environment_shows u t \<longleftrightarrow> ?e = '''' \<or> attribute_owner u t \<or> ?e \<in> open_environments
      \<or> listed_token (user_allowed_environments u) ?e"
    using s by (auto simp: environment_shows_def open_environments_def)
  ultimately show ?thesis
    using assms listed_token_empty [of "user_allowed_environments u"]
    by (cases "?e = ''''")
      (auto simp: resource_environment_allowed_def is_admin_role_def attribute_owner_eq
        environment_token_eq environment_token_idem Let_def allowed_environments_def listed_token_iff)
qed

lemma sensitivity_shows_iff:
  "\<not> resource_is_sensitive (Some t) None \<or> has_permission (Some u) sensitive_read_permissions
     \<or> user_is_owner (Some u) (Some t) \<or> user_is_steward (Some u) \<longleftrightarrow> sensitivity_shows u t"
proof -
  have level: "resource_sensitivity_level (Some t) None \<in> {Some ''confidential'', Some ''restricted'', Some ''personal_data''}
      \<longleftrightarrow> norm_token (table_sensitivity_level t) \<in> {''confidential'', ''restricted'', ''personal_data''}"
    by (auto simp: resource_sensitivity_level_def environment_token_eq environment_token_def or_none_def Let_def
        split: if_splits)
  have perm: "has_permission (Some u) sensitive_read_permissions \<longleftrightarrow>
     (\<exists>r\<in>set (user_roles u). \<exists>p\<in>set (role_permissions r). norm_token (Some p)
          \<in> {''sensitive:read'', ''data:sensitive:read'', ''sensitive_read'', ''admin.user_audit.sensitive_read''})"
  proof -
    have "x \<in> permission_names (Some u) \<longleftrightarrow> x \<noteq> '''' \<and> (\<exists>r\<in>set (user_roles u). \<exists>p\<in>set (role_permissions r).
        norm_token (Some p) = x)" for x
      by (auto simp: permission_names_def)
    moreover have "has_permission (Some u) S \<longleftrightarrow> (\<exists>x\<in>S. x \<in> permission_names (Some u))" for S
      by (auto simp: has_permission_def)
    ultimately show ?thesis by (simp add: sensitive_read_permissions_def bex_disj_distrib)
  qed
  show ?thesis
    unfolding sensitivity_shows_def attribute_owner_eq perm [symmetric] level [symmetric] resource_is_sensitive_def
    by (auto simp: resource_has_sensitive_flags_def)
qed

text \<open>C5: Who sees a table.  A user who is no administrator and whose grants are told apart by their
  identifiers sees a table of the catalogue exactly when four things hold of the raw rows.  Some active rule of
  visibility that concerns the table admits the user, or none concerns it; the roles of the user reach the
  privacy scope of the table or one of the roles named on it; the user holds no grant at all, or some grant
  held directly or through a group covers the table, by the table, else its schema, else its datasource,
  and none that covers it denies; and the domain, the environment and the sensitivity of the table are open to
  the user.\<close>

theorem table_visible_iff:
  assumes "''admin'' \<notin> user_role_names (Some u)"
    and "\<forall>g h. holds_grant u g \<and> holds_grant u h \<longrightarrow>
           grant_id g \<noteq> None \<and> (grant_id g = grant_id h \<longrightarrow> g = h)"
  shows "can_view_table (Some (Some rows)) (Some u) t \<longleftrightarrow>
    rules_show rows u t \<and> privacy_shows u t \<and> grants_show u t
    \<and> domain_shows u t \<and> environment_shows u t \<and> sensitivity_shows u t"
proof -
  have read: "normalize_action ''read'' = ''read''" by code_simp
  have attrs: "can_access_resource (Some u) ''read'' (Some t) None None
      \<longleftrightarrow> domain_shows u t \<and> environment_shows u t \<and> sensitivity_shows u t"
    using assms(1)
    by (auto simp: can_access_resource_def is_admin_role_def read Let_def domain_shows_iff environment_shows_iff
        simp flip: sensitivity_shows_iff)
  have mem: "g \<in> set (principal_grants (Some u)) \<longleftrightarrow> holds_grant u g" for g
    by (rule principal_grants_set [OF assms(2)])
  then have empty: "principal_grants (Some u) = [] \<longleftrightarrow> (\<forall>g. \<not> holds_grant u g)"
    by (metis list.set_intros(1) list.exhaust empty_iff set_empty)
  have grants: "grants_show u t \<longleftrightarrow> principal_grants (Some u) = []
      \<or> (\<exists>g\<in>set (principal_grants (Some u)). grant_matches_table t g)
        \<and> \<not> (\<exists>g\<in>set (principal_grants (Some u)). grant_matches_table t g \<and> is_deny g)"
    unfolding grants_show_def empty by (auto simp: mem grant_covers_iff effect_deny_iff)
  show ?thesis
    unfolding grants attrs [symmetric]
    using assms(1) privacy_shows_iff [of rows u t]
    by (auto simp: can_view_table_def is_admin_role_def Let_def list_ex_iff effect_cases filter_empty_conv)
qed

definition table_grant :: "int \<Rightarrow> string \<Rightarrow> grant_row" where
  "table_grant i effect = \<lparr>grant_id = Some (100 + i), grant_effect = Some effect,
     grant_datasource_id = None, grant_schema_id = None, grant_table_id = Some i\<rparr>"

definition schema_grant :: "int \<Rightarrow> string \<Rightarrow> grant_row" where
  "schema_grant i effect = \<lparr>grant_id = Some (200 + i), grant_effect = Some effect,
     grant_datasource_id = None, grant_schema_id = Some i, grant_table_id = None\<rparr>"

definition user_with_grants :: "grant_row list \<Rightarrow> user_row" where
  "user_with_grants gs = (user_with_role ''editor'')\<lparr>user_access_grants := gs\<rparr>"

theorem table_visible_iff_witness:
  "\<not> can_view_table (Some (Some [])) (Some (user_with_grants [table_grant 1 ''allow'', schema_grant 2 ''deny''])) plain_table"
proof -
  let ?u = "user_with_grants [table_grant 1 ''allow'', schema_grant 2 ''deny'']"
  have held: "holds_grant ?u g \<longleftrightarrow> g = table_grant 1 ''allow'' \<or> g = schema_grant 2 ''deny''" for g
    by (auto simp: holds_grant_def user_with_grants_def user_with_role_def plain_user_def)
  have role: "''admin'' \<notin> user_role_names (Some ?u)" by code_simp
  have "grant_covers (schema_grant 2 ''deny'') plain_table"
    by (simp add: grant_covers_def schema_grant_def plain_table_def)
  moreover have "norm_token (grant_effect (schema_grant 2 ''deny'')) = ''deny''" by code_simp
  ultimately have "\<not> grants_show ?u plain_table"
    by (auto simp: grants_show_def held)
  moreover have "\<forall>g h. holds_grant ?u g \<and> holds_grant ?u h \<longrightarrow>
      grant_id g \<noteq> None \<and> (grant_id g = grant_id h \<longrightarrow> g = h)"
    unfolding held by (auto simp: table_grant_def schema_grant_def)
  ultimately show ?thesis using table_visible_iff [OF role, of "[]" plain_table] by blast
qed

text \<open>Nothing but the grants changes when only the grants change.\<close>

lemma grants_only_privacy:
  fixes u v :: user_row
  assumes "user_roles v = user_roles u" and "user_email v = user_email u" and "user_id v = user_id u"
  shows "user_role_names (Some v) = user_role_names (Some u)"
    and "can_view_table_privacy_only session (Some v) tbl = can_view_table_privacy_only session (Some u) tbl"
proof -
  show r: "user_role_names (Some v) = user_role_names (Some u)" by (simp add: user_role_names_def assms)
  have n: "visibility_role_names (Some v) = visibility_role_names (Some u)"
    by (simp add: visibility_role_names_def assms)
  have "role_tokens_for_user (Some v) (Some tbl) = role_tokens_for_user (Some u) (Some tbl)"
    unfolding role_tokens_for_user_def by (simp only: option.case n assms)
  moreover have "table_visibility_decision_from_entity session tbl (Some v)
      = table_visibility_decision_from_entity session tbl (Some u)"
    unfolding table_visibility_decision_from_entity_def load_visibility_state_map_def
    by (simp only: n option.map assms)
  ultimately show "can_view_table_privacy_only session (Some v) tbl = can_view_table_privacy_only session (Some u) tbl"
    unfolding can_view_table_privacy_only_def by (simp only: option.distinct)
qed

lemma grants_only_abac:
  fixes u v :: user_row
  assumes "user_roles v = user_roles u" and "user_email v = user_email u"
    and "user_allowed_domains v = user_allowed_domains u"
    and "user_allowed_environments v = user_allowed_environments u"
  shows "can_access_resource (Some v) action tbl ds cc = can_access_resource (Some u) action tbl ds cc"
proof -
  have r: "user_role_names (Some v) = user_role_names (Some u)" by (simp add: user_role_names_def assms)
  have p: "has_permission (Some v) ps = has_permission (Some u) ps" for ps
    by (simp add: has_permission_def permission_names_def assms)
  have o: "user_is_owner (Some v) tbl = user_is_owner (Some u) tbl"
    unfolding user_is_owner_def user_matches_owner_def r by (simp only: assms prod.case option.case)
  have st: "user_is_steward (Some v) = user_is_steward (Some u)" by (simp add: user_is_steward_def r)
  have d: "resource_domain_allowed (Some v) tbl = resource_domain_allowed (Some u) tbl"
    unfolding resource_domain_allowed_def r o st allowed_domains_def by (simp only: assms option.case)
  have e: "resource_environment_allowed (Some v) tbl ds = resource_environment_allowed (Some u) tbl ds"
    unfolding resource_environment_allowed_def r o st allowed_environments_def by (simp only: assms option.case)
  show ?thesis unfolding can_access_resource_def r p o st d e by (simp only: option.distinct)
qed

text \<open>Giving a user one more grant that denies never reveals anything: every table visible afterwards was
  visible before.\<close>

theorem deny_never_reveals:
  assumes "grant_id g = Some i" and "is_deny g"
    and "\<forall>h\<in>set (user_access_grants u @ concat (map group_grants (user_access_groups u))). grant_id h \<noteq> Some i"
    and "can_view_table session (Some (u\<lparr>user_access_grants := g # user_access_grants u\<rparr>)) tbl"
  shows "can_view_table session (Some u) tbl"
proof -
  let ?v = "u\<lparr>user_access_grants := g # user_access_grants u\<rparr>"
  have fold_front: "map snd (fold add_grant hs ((i, g) # d)) = g # map snd (fold add_grant hs d)"
    if "\<forall>h\<in>set hs. grant_id h \<noteq> Some i" for hs d
    using that by (induction hs arbitrary: d) (auto simp: add_grant_def split: option.splits)
  have v: "principal_grants (Some ?v) = g # principal_grants (Some u)"
    using assms(1,3) fold_front [of "user_access_grants u @ concat (map group_grants (user_access_groups u))" "[]"]
    by (simp add: principal_grants_def add_grant_def)
  have same: "user_role_names (Some ?v) = user_role_names (Some u)"
    "can_view_table_privacy_only session (Some ?v) tbl = can_view_table_privacy_only session (Some u) tbl"
    "can_access_resource (Some ?v) ''read'' (Some tbl) None None = can_access_resource (Some u) ''read'' (Some tbl) None None"
    by (rule grants_only_privacy grants_only_abac; simp)+
  from assms(4) show ?thesis
    unfolding can_view_table_def Let_def v same
    using assms(2) by (auto simp: list_ex_iff filter_empty_conv split: if_splits)
qed

theorem deny_never_reveals_witness:
  "can_view_table None (Some (user_with_grants [table_grant 1 ''allow''])) plain_table"
proof (rule deny_never_reveals [of "schema_grant 9 ''deny''" 209])
  have u: "(user_with_grants [table_grant 1 ''allow''])\<lparr>user_access_grants :=
      schema_grant 9 ''deny'' # user_access_grants (user_with_grants [table_grant 1 ''allow''])\<rparr>
      = user_with_grants [schema_grant 9 ''deny'', table_grant 1 ''allow'']"
    by (simp add: user_with_grants_def)
  show "can_view_table None (Some ((user_with_grants [table_grant 1 ''allow''])\<lparr>user_access_grants :=
      schema_grant 9 ''deny'' # user_access_grants (user_with_grants [table_grant 1 ''allow''])\<rparr>)) plain_table"
    unfolding u by code_simp
qed (code_simp, code_simp, simp add: user_with_grants_def user_with_role_def plain_user_def table_grant_def)

text \<open>A grant names exactly one scope, as the check constraint of its table demands.\<close>

definition grant_well_formed :: "grant_row \<Rightarrow> bool" where
  "grant_well_formed g =
     (length (filter (\<lambda>x. x \<noteq> None) [grant_datasource_id g, grant_schema_id g, grant_table_id g]) = 1)"

lemma schema_deny_reaches_table:
  assumes "grant_well_formed g" and "table_schema t = Some s" and "table_schema_id t = schema_pk s"
    and "grant_matches_schema s g"
  shows "grant_matches_table t g"
  using assms
  by (cases "schema_database s")
    (auto simp: grant_well_formed_def grant_matches_schema_def grant_matches_table_def table_datasource_id_def
      split: option.splits if_splits)

text \<open>The hierarchy is consistent: when a user may see a table, the user may see the schema that holds it,
  and the datasource of that schema, if the table is among those offered for the decision.\<close>

theorem visible_table_visible_ancestors:
  assumes "can_view_table session user t" and "t \<in> set ts"
    and "table_schema t = Some s" and "table_schema_id t = schema_pk s"
    and "schema_database s = Some db" and "database_datasource_id db = Some (ds_id ds)"
    and "\<forall>g\<in>set (principal_grants user). grant_well_formed g"
  shows "can_view_schema session user s (Some ts) \<and> can_view_datasource session user ds schemas (Some ts)"
proof -
  have any: "any_visible session user (Some ts)"
    using assms(1,2) by (auto simp: any_visible_def list_ex_iff)
  have nodeny: "\<not> is_deny g"
    if "g \<in> set (principal_grants user)" "grant_matches_table t g" "''admin'' \<notin> user_role_names user" for g
    using assms(1) that
    by (auto simp: can_view_table_def is_admin_role_def Let_def list_ex_iff filter_empty_conv split: if_splits)
  have ds: "grant_matches_table t g" if "g \<in> set (principal_grants user)" "grant_matches_datasource ds g" for g
    using assms(3,5-7) that
    by (fastforce simp: grant_matches_datasource_def grant_matches_table_def table_datasource_id_def
        grant_well_formed_def split: option.splits if_splits)
  have sch: "grant_matches_table t g" if "g \<in> set (principal_grants user)" "grant_matches_schema s g" for g
    using schema_deny_reaches_table [OF _ assms(3,4)] assms(7) that by blast
  have u: "user \<noteq> None" using assms(1) by (auto simp: can_view_table_def split: if_splits)
  have "ts \<noteq> []" using assms(2) by auto
  with u any nodeny ds sch show ?thesis
    by (auto simp: can_view_schema_def can_view_datasource_def evaluate_grants_def is_admin_role_def Let_def
        list_ex_iff)
qed

definition housed_table :: table_row where
  "housed_table = plain_table\<lparr>table_schema := Some \<lparr>schema_pk = 2, schema_database =
     Some \<lparr>database_datasource_id = Some 3,
       database_datasource = Some \<lparr>ds_id = 3, ds_environment = Some ''qa''\<rparr>\<rparr>\<rparr>\<rparr>"

theorem visible_table_visible_ancestors_witness:
  "can_view_schema None (Some (user_with_grants [table_grant 1 ''allow'']))
     \<lparr>schema_pk = 2, schema_database = Some \<lparr>database_datasource_id = Some 3,
       database_datasource = Some \<lparr>ds_id = 3, ds_environment = Some ''qa''\<rparr>\<rparr>\<rparr> (Some [housed_table])
   \<and> can_view_datasource None (Some (user_with_grants [table_grant 1 ''allow'']))
     \<lparr>ds_id = 3, ds_environment = Some ''qa''\<rparr> None (Some [housed_table])"
  by (rule visible_table_visible_ancestors [of _ _ housed_table])
    (code_simp, simp, simp add: housed_table_def, simp add: housed_table_def plain_table_def, simp, simp, code_simp)

text \<open>The two modules that each define \<open>can_view_table\<close> agree.\<close>

lemma can_view_table_agree:
  "privacy_can_view_table session user tbl = can_view_table session user tbl"
  by (simp add: privacy_can_view_table_def can_view_table_def)

lemma admin_raw: "map_of role_aliases raw = Some ''admin'' \<Longrightarrow> raw = ''admin'' \<or> raw = ''administrador''"
  by (auto simp: role_aliases_def split: if_splits)

lemma admin_role_admin_token:
  assumes "normalize_role_name (Some n) = ''admin''" shows "normalize_access_role (Some n) = ''admin''"
proof -
  from assms admin_raw have "norm_token (Some n) = ''admin'' \<or> norm_token (Some n) = ''administrador''"
    by (auto simp: normalize_role_name_def Let_def split: if_splits option.splits)
  moreover have "slug ''admin'' = ''admin''" "slug ''administrador'' = ''administrador''"
    "map_of token_aliases ''admin'' = Some ''admin''" "map_of token_aliases ''administrador'' = Some ''admin''"
    by code_simp+
  ultimately show ?thesis by (auto simp: normalize_access_role_def normalize_token_def Let_def)
qed

text \<open>An administrator, by the role names of \<open>core/rbac.py\<close>, sees every table through both modules that
  define the decision, although each subsystem normalises role names by its own rules: neither the privacy
  policy, nor a visibility rule, nor a grant, nor an attribute stops one.\<close>

theorem admin_sees_every_table:
  assumes "''admin'' \<in> user_role_names (Some u)"
  shows "can_view_table session (Some u) tbl \<and> privacy_can_view_table session (Some u) tbl"
proof -
  from assms have "''admin'' \<in> visibility_role_names (Some u)"
    using admin_role_admin_token by (force simp: user_role_names_def visibility_role_names_def)
  with assms show ?thesis
    by (simp add: can_view_table_agree can_view_table_def is_admin_role_def privacy_admin)
qed

theorem admin_sees_every_table_witness:
  "can_view_table (Some (Some [])) (Some ((user_with_role '' Administrador'')
     \<lparr>user_access_grants := [table_grant 1 ''deny'']\<rparr>)) plain_table"
proof -
  have "''admin'' \<in> user_role_names (Some ((user_with_role '' Administrador'')
     \<lparr>user_access_grants := [table_grant 1 ''deny'']\<rparr>))" by code_simp
  from admin_sees_every_table [OF this] show ?thesis by blast
qed

text \<open>The reason given for a refusal is the cause: a refused user who is logged in is told of the domain
  only when the domain is closed to the user, of the environment only when the environment is, and
  otherwise of the sensitivity, in which case the resource is sensitive; the catch-all reason is never used.
  Only for an export does the reason hide which check failed.\<close>

theorem denial_reason_is_cause:
  assumes "sensitivity_denial_reason (Some u) action tbl ds cc = Some reason"
  shows "\<not> can_access_resource (Some u) action tbl ds cc
    \<and> (reason = ''export_sensitive_denied'' \<and> normalize_action action = ''export''
       \<or> reason = ''domain_denied'' \<and> \<not> resource_domain_allowed (Some u) tbl
       \<or> reason = ''environment_denied'' \<and> \<not> resource_environment_allowed (Some u) tbl ds
       \<or> reason = ''sensitive_permission_denied'' \<and> resource_is_sensitive tbl cc
          \<and> resource_domain_allowed (Some u) tbl \<and> resource_environment_allowed (Some u) tbl ds
          \<and> \<not> has_permission (Some u) sensitive_read_permissions
          \<and> \<not> user_is_owner (Some u) tbl \<and> \<not> user_is_steward (Some u))"
proof -
  have no: "\<not> can_access_resource (Some u) action tbl ds cc"
    using assms by (auto simp: sensitivity_denial_reason_def split: if_splits)
  have "resource_is_sensitive tbl cc \<and> \<not> has_permission (Some u) sensitive_read_permissions
      \<and> \<not> user_is_owner (Some u) tbl \<and> \<not> user_is_steward (Some u)"
    if "resource_domain_allowed (Some u) tbl" "resource_environment_allowed (Some u) tbl ds"
      "normalize_action action \<noteq> ''export''"
    using no that unfolding can_access_resource_def Let_def
    by (simp split: if_split_asm)
  with no assms show ?thesis
    unfolding sensitivity_denial_reason_def by (simp split: if_split_asm)
qed

theorem denial_reason_is_cause_witness:
  "resource_is_sensitive (Some (plain_table\<lparr>table_has_personal_data := True\<rparr>)) None"
proof -
  have "sensitivity_denial_reason (Some (user_with_role ''viewer'')) ''read''
      (Some (plain_table\<lparr>table_has_personal_data := True\<rparr>)) None None = Some ''sensitive_permission_denied''"
    by code_simp
  from denial_reason_is_cause [OF this] show ?thesis by simp
qed

end
