(* ===== verification/ApiScopes.thy ===== *)
theory ApiScopes
  imports Models "HOL-Library.List_Lexorder" "HOL-Library.Char_ord"
begin

text \<open>
  The scopes of external API keys, first half of \<open>features/platform/api_keys.py\<close>: the table of scopes,
  the normalisation of a list of scopes, the read scope every write scope brings along, the validation
  against the table, and the expiration policy that the scopes imply.
\<close>

section \<open>The table of scopes\<close>

record scope_entry =
  scope_key :: string
  scope_action :: string
  scope_label :: string
  scope_description :: string
  scope_available :: bool
  scope_destructive :: bool
  scope_requires_read :: bool
  scope_methods :: "string list"
  scope_endpoints :: "string list"

record scope_group =
  group_key :: string
  group_label :: string
  group_description :: string
  group_actions :: "scope_entry list"

definition catalog_scopes :: scope_group where
  "catalog_scopes = \<lparr>group_key = ''catalog'', group_label = ''Catalogo'',
     group_description = ''Consulta de tabelas e metadados do catalogo.'',
     group_actions = [
       \<lparr>scope_key = ''catalog.read'', scope_action = ''read'', scope_label = ''Ler'',
       scope_description = ''Ler tabelas e detalhes do catalogo.'',
       scope_available = True, scope_destructive = False, scope_requires_read = False,
       scope_methods = [''GET''],
       scope_endpoints = [''/external/catalog/tables'',
         ''/external/catalog/tables/{table_id}'']\<rparr>,
       \<lparr>scope_key = ''catalog.create'', scope_action = ''create'', scope_label = ''Criar'',
       scope_description = ''Criar recursos do catalogo via API externa.'',
       scope_available = False, scope_destructive = False, scope_requires_read = True,
       scope_methods = [''POST''],
       scope_endpoints = []\<rparr>,
       \<lparr>scope_key = ''catalog.update'', scope_action = ''update'', scope_label = ''Editar'',
       scope_description = ''Editar recursos do catalogo via API externa.'',
       scope_available = False, scope_destructive = False, scope_requires_read = True,
       scope_methods = [''PATCH'', ''PUT''],
       scope_endpoints = []\<rparr>,
       \<lparr>scope_key = ''catalog.delete'', scope_action = ''delete'', scope_label = ''Excluir'',
       scope_description = ''Excluir recursos do catalogo via API externa.'',
       scope_available = False, scope_destructive = True, scope_requires_read = True,
       scope_methods = [''DELETE''],
       scope_endpoints = []\<rparr>]\<rparr>"

definition explorer_scopes :: scope_group where
  "explorer_scopes = \<lparr>group_key = ''explorer'', group_label = ''Explorer'',
     group_description = ''Busca e resumo canonico do Explorer.'',
     group_actions = [
       \<lparr>scope_key = ''explorer.read'', scope_action = ''read'', scope_label = ''Ler'',
       scope_description = ''Pesquisar e consultar resumos do Explorer.'',
       scope_available = True, scope_destructive = False, scope_requires_read = False,
       scope_methods = [''GET''],
       scope_endpoints = [''/external/explorer/search'',
         ''/external/explorer/tables/{table_id}/summary'']\<rparr>,
       \<lparr>scope_key = ''explorer.create'', scope_action = ''create'', scope_label = ''Criar'',
       scope_description = ''Criar recursos do Explorer via API externa.'',
       scope_available = False, scope_destructive = False, scope_requires_read = True,
       scope_methods = [],
       scope_endpoints = []\<rparr>,
       \<lparr>scope_key = ''explorer.update'', scope_action = ''update'', scope_label = ''Editar'',
       scope_description = ''Editar recursos do Explorer via API externa.'',
       scope_available = False, scope_destructive = False, scope_requires_read = True,
       scope_methods = [],
       scope_endpoints = []\<rparr>,
       \<lparr>scope_key = ''explorer.delete'', scope_action = ''delete'', scope_label = ''Excluir'',
       scope_description = ''Excluir recursos do Explorer via API externa.'',
       scope_available = False, scope_destructive = True, scope_requires_read = True,
       scope_methods = [],
       scope_endpoints = []\<rparr>]\<rparr>"

definition governance_scopes :: scope_group where
  "governance_scopes = \<lparr>group_key = ''governance'', group_label = ''Governanca'',
     group_description = ''Pendencias, fila de revisao e acoes de governanca.'',
     group_actions = [
       \<lparr>scope_key = ''governance.read'', scope_action = ''read'', scope_label = ''Ler'',
       scope_description = ''Consultar paineis e pendencias de governanca.'',
       scope_available = True, scope_destructive = False, scope_requires_read = False,
       scope_methods = [''GET''],
       scope_endpoints = [''/external/governance/pending-center/summary'',
         ''/external/governance/pending-center/queue'']\<rparr>,
       \<lparr>scope_key = ''governance.create'', scope_action = ''create'', scope_label = ''Criar'',
       scope_description = ''Criar recursos de governanca via API externa.'',
       scope_available = False, scope_destructive = False, scope_requires_read = True,
       scope_methods = [],
       scope_endpoints = []\<rparr>,
       \<lparr>scope_key = ''governance.update'', scope_action = ''update'', scope_label = ''Editar'',
       scope_description = ''Editar recursos de governanca via API externa.'',
       scope_available = False, scope_destructive = False, scope_requires_read = True,
       scope_methods = [],
       scope_endpoints = []\<rparr>,
       \<lparr>scope_key = ''governance.delete'', scope_action = ''delete'', scope_label = ''Excluir'',
       scope_description = ''Excluir recursos de governanca via API externa.'',
       scope_available = False, scope_destructive = True, scope_requires_read = True,
       scope_methods = [],
       scope_endpoints = []\<rparr>]\<rparr>"

definition certification_scopes :: scope_group where
  "certification_scopes = \<lparr>group_key = ''certification'', group_label = ''Certificacao'',
     group_description = ''Status e resumo de certificacao.'',
     group_actions = [
       \<lparr>scope_key = ''certification.read'', scope_action = ''read'', scope_label = ''Ler'',
       scope_description = ''Consultar status e resumo de certificacao.'',
       scope_available = True, scope_destructive = False, scope_requires_read = False,
       scope_methods = [''GET''],
       scope_endpoints = [''/external/certification/tables'']\<rparr>,
       \<lparr>scope_key = ''certification.create'', scope_action = ''create'', scope_label = ''Criar'',
       scope_description = ''Criar recursos de certificacao via API externa.'',
       scope_available = False, scope_destructive = False, scope_requires_read = True,
       scope_methods = [],
       scope_endpoints = []\<rparr>,
       \<lparr>scope_key = ''certification.update'', scope_action = ''update'', scope_label = ''Editar'',
       scope_description = ''Editar recursos de certificacao via API externa.'',
       scope_available = False, scope_destructive = False, scope_requires_read = True,
       scope_methods = [],
       scope_endpoints = []\<rparr>,
       \<lparr>scope_key = ''certification.delete'', scope_action = ''delete'', scope_label = ''Excluir'',
       scope_description = ''Excluir recursos de certificacao via API externa.'',
       scope_available = False, scope_destructive = True, scope_requires_read = True,
       scope_methods = [],
       scope_endpoints = []\<rparr>]\<rparr>"

definition dq_scopes :: scope_group where
  "dq_scopes = \<lparr>group_key = ''dq'', group_label = ''Data Quality'',
     group_description = ''Regras e sinais de DQ.'',
     group_actions = [
       \<lparr>scope_key = ''dq.read'', scope_action = ''read'', scope_label = ''Ler'',
       scope_description = ''Consultar regras e resultados de DQ.'',
       scope_available = True, scope_destructive = False, scope_requires_read = False,
       scope_methods = [''GET''],
       scope_endpoints = [''/external/dq/rules'']\<rparr>,
       \<lparr>scope_key = ''dq.create'', scope_action = ''create'', scope_label = ''Criar'',
       scope_description = ''Criar recursos de DQ via API externa.'',
       scope_available = False, scope_destructive = False, scope_requires_read = True,
       scope_methods = [],
       scope_endpoints = []\<rparr>,
       \<lparr>scope_key = ''dq.update'', scope_action = ''update'', scope_label = ''Editar'',
       scope_description = ''Editar recursos de DQ via API externa.'',
       scope_available = False, scope_destructive = False, scope_requires_read = True,
       scope_methods = [],
       scope_endpoints = []\<rparr>,
       \<lparr>scope_key = ''dq.delete'', scope_action = ''delete'', scope_label = ''Excluir'',
       scope_description = ''Excluir recursos de DQ via API externa.'',
       scope_available = False, scope_destructive = True, scope_requires_read = True,
       scope_methods = [],
       scope_endpoints = []\<rparr>]\<rparr>"

definition incidents_scopes :: scope_group where
  "incidents_scopes = \<lparr>group_key = ''incidents'', group_label = ''Incidentes'',
     group_description = ''Incidentes operacionais e de governanca.'',
     group_actions = [
       \<lparr>scope_key = ''incidents.read'', scope_action = ''read'', scope_label = ''Ler'',
       scope_description = ''Consultar incidentes e seus resumos.'',
       scope_available = True, scope_destructive = False, scope_requires_read = False,
       scope_methods = [''GET''],
       scope_endpoints = [''/external/incidents'',
         ''/external/incidents/summary'']\<rparr>,
       \<lparr>scope_key = ''incidents.create'', scope_action = ''create'', scope_label = ''Criar'',
       scope_description = ''Criar incidentes via API externa.'',
       scope_available = False, scope_destructive = False, scope_requires_read = True,
       scope_methods = [],
       scope_endpoints = []\<rparr>,
       \<lparr>scope_key = ''incidents.update'', scope_action = ''update'', scope_label = ''Editar'',
       scope_description = ''Editar incidentes via API externa.'',
       scope_available = False, scope_destructive = False, scope_requires_read = True,
       scope_methods = [],
       scope_endpoints = []\<rparr>,
       \<lparr>scope_key = ''incidents.delete'', scope_action = ''delete'', scope_label = ''Excluir'',
       scope_description = ''Excluir incidentes via API externa.'',
       scope_available = False, scope_destructive = True, scope_requires_read = True,
       scope_methods = [],
       scope_endpoints = []\<rparr>]\<rparr>"

definition lineage_scopes :: scope_group where
  "lineage_scopes = \<lparr>group_key = ''lineage'', group_label = ''Linhagem'',
     group_description = ''Resumo de linhagem por ativo.'',
     group_actions = [
       \<lparr>scope_key = ''lineage.read'', scope_action = ''read'', scope_label = ''Ler'',
       scope_description = ''Consultar resumo de linhagem.'',
       scope_available = True, scope_destructive = False, scope_requires_read = False,
       scope_methods = [''GET''],
       scope_endpoints = [''/external/lineage/tables/{table_id}/summary'']\<rparr>,
       \<lparr>scope_key = ''lineage.create'', scope_action = ''create'', scope_label = ''Criar'',
       scope_description = ''Criar recursos de linhagem via API externa.'',
       scope_available = False, scope_destructive = False, scope_requires_read = True,
       scope_methods = [],
       scope_endpoints = []\<rparr>,
       \<lparr>scope_key = ''lineage.update'', scope_action = ''update'', scope_label = ''Editar'',
       scope_description = ''Editar recursos de linhagem via API externa.'',
       scope_available = False, scope_destructive = False, scope_requires_read = True,
       scope_methods = [],
       scope_endpoints = []\<rparr>,
       \<lparr>scope_key = ''lineage.delete'', scope_action = ''delete'', scope_label = ''Excluir'',
       scope_description = ''Excluir recursos de linhagem via API externa.'',
       scope_available = False, scope_destructive = True, scope_requires_read = True,
       scope_methods = [],
       scope_endpoints = []\<rparr>]\<rparr>"

definition platform_scopes :: scope_group where
  "platform_scopes = \<lparr>group_key = ''platform'', group_label = ''Plataforma'',
     group_description = ''Eventos de dominio e visao operacional resumida.'',
     group_actions = [
       \<lparr>scope_key = ''platform.read'', scope_action = ''read'', scope_label = ''Ler'',
       scope_description = ''Consultar eventos e visao operacional da plataforma.'',
       scope_available = True, scope_destructive = False, scope_requires_read = False,
       scope_methods = [''GET''],
       scope_endpoints = [''/external/platform/events'',
         ''/external/platform/events/catalog'',
         ''/external/platform/ingestion/overview'']\<rparr>,
       \<lparr>scope_key = ''platform.create'', scope_action = ''create'', scope_label = ''Criar'',
       scope_description = ''Criar recursos de plataforma via API externa.'',
       scope_available = False, scope_destructive = False, scope_requires_read = True,
       scope_methods = [],
       scope_endpoints = []\<rparr>,
       \<lparr>scope_key = ''platform.update'', scope_action = ''update'', scope_label = ''Editar'',
       scope_description = ''Editar recursos de plataforma via API externa.'',
       scope_available = False, scope_destructive = False, scope_requires_read = True,
       scope_methods = [],
       scope_endpoints = []\<rparr>,
       \<lparr>scope_key = ''platform.delete'', scope_action = ''delete'', scope_label = ''Excluir'',
       scope_description = ''Excluir recursos de plataforma via API externa.'',
       scope_available = False, scope_destructive = True, scope_requires_read = True,
       scope_methods = [],
       scope_endpoints = []\<rparr>]\<rparr>"

definition tags_scopes :: scope_group where
  "tags_scopes = \<lparr>group_key = ''tags'', group_label = ''Tags'',
     group_description = ''Taxonomia, atribuicoes e automacoes de tags.'',
     group_actions = [
       \<lparr>scope_key = ''tags.read'', scope_action = ''read'', scope_label = ''Ler'',
       scope_description = ''Listar tags e taxonomia associada.'',
       scope_available = True, scope_destructive = False, scope_requires_read = False,
       scope_methods = [''GET''],
       scope_endpoints = [''/external/tags'']\<rparr>,
       \<lparr>scope_key = ''tags.create'', scope_action = ''create'', scope_label = ''Criar'',
       scope_description = ''Criar tags via API externa.'',
       scope_available = True, scope_destructive = False, scope_requires_read = True,
       scope_methods = [''POST''],
       scope_endpoints = [''/external/tags'']\<rparr>,
       \<lparr>scope_key = ''tags.update'', scope_action = ''update'', scope_label = ''Editar'',
       scope_description = ''Editar tags via API externa.'',
       scope_available = True, scope_destructive = False, scope_requires_read = True,
       scope_methods = [''PATCH'', ''PUT''],
       scope_endpoints = [''/external/tags/{tag_id}'']\<rparr>,
       \<lparr>scope_key = ''tags.delete'', scope_action = ''delete'', scope_label = ''Excluir'',
       scope_description = ''Excluir tags via API externa.'',
       scope_available = True, scope_destructive = True, scope_requires_read = True,
       scope_methods = [''DELETE''],
       scope_endpoints = [''/external/tags/{tag_id}'']\<rparr>]\<rparr>"

definition glossary_scopes :: scope_group where
  "glossary_scopes = \<lparr>group_key = ''glossary'', group_label = ''Glossario'',
     group_description = ''Termos e categorias do glossario.'',
     group_actions = [
       \<lparr>scope_key = ''glossary.read'', scope_action = ''read'', scope_label = ''Ler'',
       scope_description = ''Listar termos e categorias do glossario.'',
       scope_available = True, scope_destructive = False, scope_requires_read = False,
       scope_methods = [''GET''],
       scope_endpoints = [''/external/glossary/terms'']\<rparr>,
       \<lparr>scope_key = ''glossary.create'', scope_action = ''create'', scope_label = ''Criar'',
       scope_description = ''Criar termos do glossario via API externa.'',
       scope_available = True, scope_destructive = False, scope_requires_read = True,
       scope_methods = [''POST''],
       scope_endpoints = [''/external/glossary/terms'']\<rparr>,
       \<lparr>scope_key = ''glossary.update'', scope_action = ''update'', scope_label = ''Editar'',
       scope_description = ''Editar termos do glossario via API externa.'',
       scope_available = True, scope_destructive = False, scope_requires_read = True,
       scope_methods = [''PATCH'', ''PUT''],
       scope_endpoints = [''/external/glossary/terms/{term_id}'']\<rparr>,
       \<lparr>scope_key = ''glossary.delete'', scope_action = ''delete'', scope_label = ''Excluir'',
       scope_description = ''Excluir termos do glossario via API externa.'',
       scope_available = True, scope_destructive = True, scope_requires_read = True,
       scope_methods = [''DELETE''],
       scope_endpoints = [''/external/glossary/terms/{term_id}'']\<rparr>]\<rparr>"

definition EXTERNAL_API_SCOPE_GROUPS :: "scope_group list" where
  "EXTERNAL_API_SCOPE_GROUPS = [catalog_scopes, explorer_scopes, governance_scopes, certification_scopes, dq_scopes, incidents_scopes, lineage_scopes, platform_scopes, tags_scopes, glossary_scopes]"

text \<open>The entry of a scope, or none.\<close>

definition scope_entries :: "scope_entry list" where
  "scope_entries = concat (map group_actions EXTERNAL_API_SCOPE_GROUPS)"

definition scope_lookup :: "string \<Rightarrow> scope_entry option" where
  "scope_lookup s = map_of (map (\<lambda>e. (scope_key e, e)) scope_entries) s"

definition supported_scope_keys :: "string list" where
  "supported_scope_keys = map scope_key (filter scope_available scope_entries)"

section \<open>Validation\<close>

definition normalize_scope_tokens :: "string list \<Rightarrow> string list" where
  "normalize_scope_tokens tokens =
     from_keys (filter (\<lambda>v. v \<noteq> '''') (map (\<lambda>t. norm_token (Some t)) tokens))"

definition add_scope :: "string \<Rightarrow> string list \<Rightarrow> string list" where
  "add_scope s acc = (if s \<in> set acc then acc else acc @ [s])"

definition scope_domain :: "string \<Rightarrow> string" where
  "scope_domain s = (case split_once CHR ''.'' s of None \<Rightarrow> s | Some (d, _) \<Rightarrow> d)"

definition read_scope :: "string \<Rightarrow> string" where
  "read_scope s = scope_domain s @ ''.read''"

definition expand_scope :: "string list \<Rightarrow> string \<Rightarrow> string list" where
  "expand_scope acc s =
     (case scope_lookup s of
        None \<Rightarrow> add_scope s acc
      | Some e \<Rightarrow>
          if scope_requires_read e then add_scope (read_scope s) (add_scope s acc)
          else add_scope s acc)"

definition expand_scope_dependencies :: "string list \<Rightarrow> string list" where
  "expand_scope_dependencies tokens = foldl expand_scope [] (from_keys tokens)"

definition validate_scope_keys :: "string list \<Rightarrow> string list res" where
  "validate_scope_keys scopes =
     (let normalized = expand_scope_dependencies (normalize_scope_tokens scopes);
          invalid = sort (from_keys (filter (\<lambda>s. s \<notin> set supported_scope_keys) normalized))
      in if invalid \<noteq> [] then
           Inl (HTTPException 422 (''Escopos invalidos ou indisponiveis: '' @ join_with '', '' invalid @ ''.''))
         else Inr normalized)"

section \<open>What the scopes imply\<close>

definition scope_parts :: "string list \<Rightarrow> (string \<times> string) list" where
  "scope_parts scopes = List.map_filter (split_once CHR ''.'') (normalize_scope_tokens scopes)"

definition scope_actions :: "string list \<Rightarrow> string list" where
  "scope_actions scopes = from_keys (map snd (scope_parts scopes))"

definition WRITE_EXPIRATION_MAX_DAYS :: int where "WRITE_EXPIRATION_MAX_DAYS = 30"

definition DELETE_EXPIRATION_MAX_DAYS :: int where "DELETE_EXPIRATION_MAX_DAYS = 7"

text \<open>The longest life of a key with these scopes, with the word the message uses.\<close>

definition expiration_policy_for_scopes :: "string list \<Rightarrow> (int \<times> string) option" where
  "expiration_policy_for_scopes scopes =
     (let actions = scope_actions scopes in
      if ''delete'' \<in> set actions then Some (DELETE_EXPIRATION_MAX_DAYS, ''delete'')
      else if ''create'' \<in> set actions \<or> ''update'' \<in> set actions then Some (WRITE_EXPIRATION_MAX_DAYS, ''write'')
      else None)"

record permission_summary =
  sum_read :: nat
  sum_create :: nat
  sum_update :: nat
  sum_delete :: nat
  sum_total :: nat
  sum_risk_level :: string

definition permission_summary_of :: "string list \<Rightarrow> permission_summary" where
  "permission_summary_of scopes =
     (let selected = filter (\<lambda>(d, a). a \<in> {''read'', ''create'', ''update'', ''delete''}) (scope_parts scopes);
          count = (\<lambda>a. length (filter (\<lambda>(d, b). b = a) (from_keys selected)))
      in \<lparr>sum_read = count ''read'', sum_create = count ''create'', sum_update = count ''update'',
          sum_delete = count ''delete'', sum_total = length (from_keys (map fst selected)),
          sum_risk_level =
            (if count ''delete'' \<noteq> 0 then ''high''
             else if count ''create'' \<noteq> 0 \<or> count ''update'' \<noteq> 0 then ''medium''
             else ''low'')\<rparr>)"

section \<open>Facts\<close>

lemma scope_keys_distinct: "distinct (map scope_key scope_entries)"
  by code_simp

text \<open>Every entry is named by a domain and its action, and exactly the write actions need the read scope.\<close>

definition entry_ok :: "scope_entry \<Rightarrow> bool" where
  "entry_ok e = (split_once CHR ''.'' (scope_key e) = Some (scope_domain (scope_key e), scope_action e)
     \<and> (scope_requires_read e \<longleftrightarrow> scope_action e \<noteq> ''read'')
     \<and> (scope_destructive e \<longleftrightarrow> scope_action e = ''delete'')
     \<and> norm_token (Some (scope_key e)) = scope_key e)"

lemma scope_entries_ok: "list_all entry_ok scope_entries"
  by code_simp

text \<open>The name of a scope ends in its action, and the actions of a list of scopes are those of its members.\<close>

lemma scope_entries_named:
  "list_all (\<lambda>e. list_all (\<lambda>a. ends_with (CHR ''.'' # a) (scope_key e) \<longrightarrow> scope_action e = a)
     [''create'', ''update'', ''delete'']) scope_entries"
  by code_simp

lemma scope_lookup_Some: "scope_lookup s = Some e \<longleftrightarrow> e \<in> set scope_entries \<and> scope_key e = s"
proof
  assume "scope_lookup s = Some e"
  then show "e \<in> set scope_entries \<and> scope_key e = s"
    unfolding scope_lookup_def by (auto dest: map_of_SomeD)
next
  assume "e \<in> set scope_entries \<and> scope_key e = s"
  moreover have "distinct (map fst (map (\<lambda>e. (scope_key e, e)) scope_entries))"
    using scope_keys_distinct by (simp add: comp_def)
  ultimately show "scope_lookup s = Some e"
    unfolding scope_lookup_def by (auto intro: map_of_is_SomeI)
qed

lemma supported_iff:
  "s \<in> set supported_scope_keys \<longleftrightarrow> (\<exists>e. scope_lookup s = Some e \<and> scope_available e)"
  by (auto simp: supported_scope_keys_def scope_lookup_Some)

lemma set_add_scope [simp]: "set (add_scope s acc) = insert s (set acc)"
  by (auto simp: add_scope_def)

lemma distinct_add_scope [simp]: "distinct acc \<Longrightarrow> distinct (add_scope s acc)"
  by (auto simp: add_scope_def)

lemma action_of_named_scope:
  assumes "s \<in> set scopes" and "s \<in> set supported_scope_keys" and "ends_with (CHR ''.'' # a) s"
    and "a \<in> {''create'', ''update'', ''delete''}"
  shows "a \<in> set (scope_actions scopes)"
proof -
  from assms(2) obtain e where e: "e \<in> set scope_entries" "scope_key e = s"
    by (auto simp: supported_iff scope_lookup_Some)
  with scope_entries_ok have ok: "entry_ok e" by (simp add: list_all_iff)
  from e scope_entries_named assms(3,4) have "scope_action e = a" by (auto simp: list_all_iff)
  with ok e(2) have "split_once CHR ''.'' s = Some (scope_domain s, a)" "norm_token (Some s) = s"
    by (simp_all add: entry_ok_def)
  moreover from this have "s \<in> set (normalize_scope_tokens scopes)"
    using assms(1) by (force simp: normalize_scope_tokens_def split_once_def image_iff)
  ultimately show ?thesis
    by (force simp: scope_actions_def scope_parts_def map_filter_def image_iff)
qed

text \<open>What one scope adds to a list: itself, and its read scope if the table asks for it.\<close>

definition scope_closure :: "string \<Rightarrow> string set" where
  "scope_closure s = (case scope_lookup s of
     Some e \<Rightarrow> if scope_requires_read e then {s, read_scope s} else {s}
   | None \<Rightarrow> {s})"

lemma set_expand_scope: "set (expand_scope acc s) = set acc \<union> scope_closure s"
  by (auto simp: expand_scope_def scope_closure_def split: option.splits)

lemma distinct_expand_scope: "distinct acc \<Longrightarrow> distinct (expand_scope acc s)"
  by (auto simp: expand_scope_def split: option.splits)

lemma set_foldl_expand: "set (foldl expand_scope acc xs) = set acc \<union> (\<Union>s\<in>set xs. scope_closure s)"
  by (induction xs arbitrary: acc) (auto simp: set_expand_scope)

lemma distinct_foldl_expand: "distinct acc \<Longrightarrow> distinct (foldl expand_scope acc xs)"
  by (induction xs arbitrary: acc) (auto simp: distinct_expand_scope)

lemma set_expand_dependencies: "set (expand_scope_dependencies xs) = (\<Union>s\<in>set xs. scope_closure s)"
  by (simp add: expand_scope_dependencies_def set_foldl_expand)

lemma distinct_expand_dependencies: "distinct (expand_scope_dependencies xs)"
  by (simp add: expand_scope_dependencies_def distinct_foldl_expand)

lemma validate_scope_keys_Inr:
  "validate_scope_keys scopes = Inr ys \<longleftrightarrow>
     ys = expand_scope_dependencies (normalize_scope_tokens scopes) \<and> set ys \<subseteq> set supported_scope_keys"
  by (auto simp: validate_scope_keys_def Let_def sort_key_eq_Nil filter_empty_conv)

lemma lookup_supported_write:
  assumes "scope_lookup s = Some e" and "scope_available e" and "scope_action e \<noteq> ''read''"
  shows "scope_domain s \<in> {''tags'', ''glossary''}"
proof -
  have "list_all (\<lambda>e. scope_available e \<and> scope_action e \<noteq> ''read'' \<longrightarrow>
      scope_domain (scope_key e) \<in> {''tags'', ''glossary''}) scope_entries"
    by code_simp
  with assms show ?thesis by (auto simp: list_all_iff scope_lookup_Some)
qed

lemma entry_ok_lookup: "scope_lookup s = Some e \<Longrightarrow> entry_ok e \<and> scope_key e = s"
  using scope_entries_ok by (auto simp: list_all_iff scope_lookup_Some)

text \<open>A read scope needs nothing else.\<close>

lemma read_scope_closed:
  assumes "scope_lookup s = Some e"
  shows "scope_requires_read e \<longleftrightarrow> s \<noteq> read_scope s"
proof -
  have "list_all (\<lambda>e. scope_requires_read e \<longleftrightarrow> scope_key e \<noteq> read_scope (scope_key e)) scope_entries"
    by code_simp
  with assms show ?thesis by (auto simp: list_all_iff scope_lookup_Some)
qed

section \<open>Properties\<close>

text \<open>A list of scopes that passes validation becomes a list without duplicates of available scopes
  of the table; it holds every scope asked for, and besides those only read scopes of their domains;
  every write scope comes with the read scope of its domain, and writing is only ever granted on tags and
  glossary.\<close>

theorem scopes_validated:
  assumes "validate_scope_keys scopes = Inr ys"
  shows "distinct ys \<and> set (normalize_scope_tokens scopes) \<subseteq> set ys \<and>
    (\<forall>s\<in>set ys. s \<in> set supported_scope_keys \<and> read_scope s \<in> set ys \<and>
       (s \<in> set (normalize_scope_tokens scopes) \<or> s = read_scope s) \<and>
       (s \<noteq> read_scope s \<longrightarrow> scope_domain s \<in> {''tags'', ''glossary''}))"
proof -
  let ?n = "normalize_scope_tokens scopes"
  note v = assms [unfolded validate_scope_keys_Inr]
  from v have ys: "ys = expand_scope_dependencies ?n" by (rule conjunct1)
  from v have sub: "set ys \<subseteq> set supported_scope_keys" by (rule conjunct2)
  have set_ys: "set ys = (\<Union>s\<in>set ?n. scope_closure s)" by (simp add: ys set_expand_dependencies)
  have self: "s \<in> scope_closure s" for s by (auto simp: scope_closure_def split: option.splits)
  have closed: "read_scope t \<in> set ys \<and> (t \<in> set ?n \<or> t = read_scope t)" if "t \<in> set ys" for t
  proof -
    from that set_ys obtain s where s: "s \<in> set ?n" "t \<in> scope_closure s" by auto
    with set_ys self have "s \<in> set ys" by blast
    with sub have "s \<in> set supported_scope_keys" by blast
    then obtain e where e: "scope_lookup s = Some e" by (auto simp: supported_iff)
    have rr: "read_scope (read_scope s) = read_scope s"
    proof -
      have "list_all (\<lambda>e. read_scope (read_scope (scope_key e)) = read_scope (scope_key e)) scope_entries"
        by code_simp
      with e show ?thesis by (auto simp: list_all_iff scope_lookup_Some)
    qed
    have "scope_closure s = {s, read_scope s}"
      using e read_scope_closed [OF e] by (auto simp: scope_closure_def)
    with s rr set_ys show ?thesis by auto
  qed
  have writes: "scope_domain t \<in> {''tags'', ''glossary''}" if "t \<in> set ys" "t \<noteq> read_scope t" for t
  proof -
    from that sub have "t \<in> set supported_scope_keys" by blast
    then obtain e where e: "scope_lookup t = Some e" "scope_available e" by (auto simp: supported_iff)
    with that read_scope_closed entry_ok_lookup have "scope_action e \<noteq> ''read''"
      by (metis entry_ok_def)
    with e show ?thesis by (rule lookup_supported_write)
  qed
  have "distinct ys" by (simp add: ys distinct_expand_dependencies)
  with closed writes sub set_ys self show ?thesis by blast
qed

theorem scopes_validated_witness:
  "validate_scope_keys [''  TAGS.update'', ''dq.read''] = Inr [''tags.update'', ''tags.read'', ''dq.read'']
   \<and> ''tags.read'' \<in> set [''tags.update'', ''tags.read'', ''dq.read'']"
proof -
  have v: "validate_scope_keys [''  TAGS.update'', ''dq.read''] = Inr [''tags.update'', ''tags.read'', ''dq.read'']"
    by code_simp
  have r: "read_scope ''tags.update'' = ''tags.read''" by code_simp
  from scopes_validated [OF v] have "read_scope ''tags.update'' \<in> set [''tags.update'', ''tags.read'', ''dq.read'']"
    by (metis list.set_intros(1))
  with v r show ?thesis by simp
qed

end
