(* ===== verification/IpRules.thy ===== *)
theory IpRules
  imports Prelude
begin

text \<open>
  What the allow-list of an API key uses of Python's module \<open>ipaddress\<close>: parsing of IPv4 and IPv6
  addresses and networks (\<open>strict=False\<close>), membership, equality and the canonical text.  A failed
  parse is a ValueError of the module, here \<open>None\<close>.
\<close>

datatype ip_addr = IPv4 int | IPv6 int "string option"

datatype ip_net = IPv4Net int nat | IPv6Net int "string option" nat

section \<open>Addresses\<close>

definition parse_octet :: "string \<Rightarrow> int option" where
  "parse_octet s =
     (if s = [] \<or> \<not> list_all is_digit s \<or> length s > 3 \<or> s \<noteq> ''0'' \<and> hd s = CHR ''0'' then None
      else case parse_digits 0 False s of
             None \<Rightarrow> None
           | Some n \<Rightarrow> if n > 255 then None else Some n)"

definition parse_v4 :: "string \<Rightarrow> int option" where
  "parse_v4 s =
     (case map parse_octet (split_on CHR ''.'' s) of
        [Some a, Some b, Some c, Some d] \<Rightarrow> Some (((a * 256 + b) * 256 + c) * 256 + d)
      | _ \<Rightarrow> None)"

definition hex_val :: "char \<Rightarrow> int option" where
  "hex_val c = (let n = of_char c :: int in
     if 48 \<le> n \<and> n \<le> 57 then Some (n - 48)
     else if 65 \<le> n \<and> n \<le> 70 then Some (n - 55)
     else if 97 \<le> n \<and> n \<le> 102 then Some (n - 87)
     else None)"

fun hex_digits :: "int \<Rightarrow> string \<Rightarrow> int option" where
  "hex_digits acc [] = Some acc"
| "hex_digits acc (c # cs) =
     (case hex_val c of None \<Rightarrow> None | Some d \<Rightarrow> hex_digits (16 * acc + d) cs)"

definition parse_hextet :: "string \<Rightarrow> int option" where
  "parse_hextet s = (if s = [] \<or> length s > 4 then None else hex_digits 0 s)"

fun parse_hextets :: "int \<Rightarrow> string list \<Rightarrow> int option" where
  "parse_hextets acc [] = Some acc"
| "parse_hextets acc (h # hs) =
     (case parse_hextet h of None \<Rightarrow> None | Some n \<Rightarrow> parse_hextets (65536 * acc + n) hs)"

definition hex_char :: "nat \<Rightarrow> char" where
  "hex_char n = (if n < 10 then char_of (48 + n) else char_of (87 + n))"

fun hex_str :: "nat \<Rightarrow> string" where
  "hex_str n = (if n < 16 then [hex_char n] else hex_str (n div 16) @ [hex_char (n mod 16)])"

declare hex_str.simps [simp del]

text \<open>A dotted last part counts as two hextets.\<close>

definition v6_parts :: "string \<Rightarrow> string list option" where
  "v6_parts s =
     (let parts = split_on CHR '':'' s; final = last parts in
      if length parts < 3 then None
      else if CHR ''.'' \<in> set final then
        (case parse_v4 final of
           None \<Rightarrow> None
         | Some n \<Rightarrow> Some (butlast parts @ [hex_str (nat (n div 65536)), hex_str (nat (n mod 65536))]))
      else Some parts)"

text \<open>The positions of \<open>::\<close> strictly inside the parts.\<close>

definition skip_positions :: "string list \<Rightarrow> nat list" where
  "skip_positions parts = filter (\<lambda>i. parts ! i = []) [1..<length parts - 1]"

definition parse_v6 :: "string \<Rightarrow> int option" where
  "parse_v6 s =
     (case v6_parts s of
        None \<Rightarrow> None
      | Some parts \<Rightarrow>
          if length parts > 9 then None
          else (case skip_positions parts of
            [] \<Rightarrow> if length parts \<noteq> 8 then None else parse_hextets 0 parts
          | [k] \<Rightarrow>
              (let hi = if hd parts = [] then k - 1 else k;
                   lo = if last parts = [] then length parts - k - 2 else length parts - k - 1
               in if hd parts = [] \<and> hi \<noteq> 0 \<or> last parts = [] \<and> lo \<noteq> 0 \<or> 8 < hi + lo + 1 then None
                  else case parse_hextets 0 (take hi parts) of
                         None \<Rightarrow> None
                       | Some n \<Rightarrow> parse_hextets (n * 65536 ^ (8 - (hi + lo)))
                           (if lo = 0 then [] else drop (length parts - lo) parts))
          | _ \<Rightarrow> None))"

text \<open>\<open>address%scope\<close>.\<close>

definition parse_v6_scoped :: "string \<Rightarrow> (int \<times> string option) option" where
  "parse_v6_scoped s =
     (case split_once CHR ''%'' s of
        None \<Rightarrow> map_option (\<lambda>n. (n, None)) (parse_v6 s)
      | Some (a, scope) \<Rightarrow>
          if scope = [] \<or> CHR ''%'' \<in> set scope then None
          else map_option (\<lambda>n. (n, Some scope)) (parse_v6 a))"

definition ip_address :: "string \<Rightarrow> ip_addr option" where
  "ip_address s =
     (if CHR ''/'' \<in> set s then None
      else case parse_v4 s of
             Some n \<Rightarrow> Some (IPv4 n)
           | None \<Rightarrow> map_option (\<lambda>(n, sc). IPv6 n sc) (parse_v6_scoped s))"

definition is_unspecified :: "ip_addr \<Rightarrow> bool" where
  "is_unspecified a = (case a of IPv4 n \<Rightarrow> n = 0 | IPv6 n _ \<Rightarrow> n = 0)"

section \<open>Networks\<close>

definition parse_prefix :: "nat \<Rightarrow> string \<Rightarrow> nat option" where
  "parse_prefix width s =
     (if s = [] \<or> \<not> list_all is_digit s then None
      else case parse_digits 0 False s of
             None \<Rightarrow> None
           | Some n \<Rightarrow> if n > int width then None else Some (nat n))"

definition prefix_of_mask :: "int \<Rightarrow> nat option" where
  "prefix_of_mask n = List.find (\<lambda>p. n + 2 ^ (32 - p) = 2 ^ 32) [0..<33]"

text \<open>An IPv4 prefix is a number, a netmask or a hostmask.\<close>

definition v4_prefix :: "string \<Rightarrow> nat option" where
  "v4_prefix s =
     (case parse_prefix 32 s of
        Some p \<Rightarrow> Some p
      | None \<Rightarrow>
          (case parse_v4 s of
             None \<Rightarrow> None
           | Some n \<Rightarrow>
               (case prefix_of_mask n of
                  Some p \<Rightarrow> Some p
                | None \<Rightarrow> prefix_of_mask (2 ^ 32 - 1 - n))))"

definition mask_bits :: "nat \<Rightarrow> nat \<Rightarrow> int \<Rightarrow> int" where
  "mask_bits width p n = n div 2 ^ (width - p) * 2 ^ (width - p)"

definition ip_network :: "string \<Rightarrow> ip_net option" where
  "ip_network s =
     (case split_on CHR ''/'' s of
        [a, m] \<Rightarrow>
          (case (parse_v4 a, v4_prefix m) of
             (Some n, Some p) \<Rightarrow> Some (IPv4Net (mask_bits 32 p n) p)
           | _ \<Rightarrow>
             (case (parse_v6_scoped a, parse_prefix 128 m) of
                (Some (n, sc), Some p) \<Rightarrow>
                  Some (IPv6Net (mask_bits 128 p n) (if mask_bits 128 p n = n then sc else None) p)
              | _ \<Rightarrow> None))
      | _ \<Rightarrow> None)"

definition prefixlen :: "ip_net \<Rightarrow> nat" where
  "prefixlen net = (case net of IPv4Net _ p \<Rightarrow> p | IPv6Net _ _ p \<Rightarrow> p)"

definition in_network :: "ip_addr \<Rightarrow> ip_net \<Rightarrow> bool" where
  "in_network a net =
     (case (a, net) of
        (IPv4 n, IPv4Net m p) \<Rightarrow> mask_bits 32 p n = m
      | (IPv6 n _, IPv6Net m _ p) \<Rightarrow> mask_bits 128 p n = m
      | _ \<Rightarrow> False)"

section \<open>Canonical text\<close>

definition v4_text :: "int \<Rightarrow> string" where
  "v4_text n = join_with ''.'' (map int_str
     [n div 16777216, n div 65536 mod 256, n div 256 mod 256, n mod 256])"

definition hextets :: "int \<Rightarrow> string list" where
  "hextets n = map (\<lambda>i. hex_str (nat (n div 65536 ^ i mod 65536))) [7, 6, 5, 4, 3, 2, 1, 0]"

text \<open>The first of the longest runs of \<open>"0"\<close>, as start and length.\<close>

fun zero_runs :: "nat \<Rightarrow> nat \<Rightarrow> nat \<Rightarrow> (nat \<times> nat) \<Rightarrow> string list \<Rightarrow> nat \<times> nat" where
  "zero_runs i start len best [] = best"
| "zero_runs i start len best (h # hs) =
     (if h = ''0'' then
        (let start' = (if len = 0 then i else start); len' = len + 1 in
         zero_runs (i + 1) start' len' (if snd best < len' then (start', len') else best) hs)
      else zero_runs (i + 1) 0 0 best hs)"

definition compress_hextets :: "string list \<Rightarrow> string list" where
  "compress_hextets hs =
     (let (start, len) = zero_runs 0 0 0 (0, 0) hs in
      if len > 1 then
        (if start = 0 then [''''] else []) @ take start hs @ [''''] @ drop (start + len) hs
          @ (if start + len = length hs then [''''] else [])
      else hs)"

definition v6_text :: "int \<Rightarrow> string option \<Rightarrow> string" where
  "v6_text n sc = join_with '':'' (compress_hextets (hextets n))
     @ (case sc of None \<Rightarrow> '''' | Some s \<Rightarrow> CHR ''%'' # s)"

definition ip_text :: "ip_addr \<Rightarrow> string" where
  "ip_text a = (case a of IPv4 n \<Rightarrow> v4_text n | IPv6 n sc \<Rightarrow> v6_text n sc)"

definition net_text :: "ip_net \<Rightarrow> string" where
  "net_text net = (case net of
     IPv4Net n p \<Rightarrow> v4_text n @ ''/'' @ nat_str p
   | IPv6Net n sc p \<Rightarrow> v6_text n sc @ ''/'' @ nat_str p)"

section \<open>Facts\<close>

lemma mask_bits_idem [simp]: "mask_bits w p (mask_bits w p n) = mask_bits w p n"
  by (simp add: mask_bits_def)

lemma mask_bits_interval:
  "mask_bits w p n = mask_bits w p m \<longleftrightarrow> n div 2 ^ (w - p) = m div 2 ^ (w - p)"
  by (simp add: mask_bits_def)

lemma parse_octet_bounds:
  assumes "parse_octet s = Some n"
  shows "0 \<le> n \<and> n \<le> 255"
proof -
  have nonneg: "parse_digits acc b cs = Some m \<Longrightarrow> 0 \<le> acc \<Longrightarrow> 0 \<le> m" for acc b cs m
    by (induction acc b cs rule: parse_digits.induct)
      (auto simp: is_digit_def digit_val_def Let_def split: if_splits)
  from assms show ?thesis
    by (auto simp: parse_octet_def split: if_splits option.splits dest: nonneg)
qed

lemma parse_v4_bound:
  assumes "parse_v4 s = Some n"
  shows "0 \<le> n \<and> n < 2 ^ 32"
proof -
  from assms obtain a b c d where parts: "map parse_octet (split_on CHR ''.'' s) = [Some a, Some b, Some c, Some d]"
    and n: "n = ((a * 256 + b) * 256 + c) * 256 + d"
    by (auto simp: parse_v4_def split: list.splits option.splits)
  from parts have "\<forall>x\<in>{a, b, c, d}. 0 \<le> x \<and> x \<le> 255"
    by (auto simp: map_eq_Cons_conv dest: parse_octet_bounds)
  with n show ?thesis by simp
qed

end
