(* ===== verification/ApiKeys.thy ===== *)
theory ApiKeys
  imports ApiScopes IpRules
begin

text \<open>
  The life of an external API key, second half of \<open>features/platform/api_keys.py\<close> with the handlers of
  \<open>api/platform.py\<close> that call it: creation, update, rotation, revocation, listing, the allow-list of
  addresses and the resolution of a token.

  Parameters (\<open>key_env\<close>): hashing and verification of a secret.  The two random texts of a new token are an
  argument (\<open>fresh_token\<close>).  Every operation takes one reading of the clock.  An operation that raises leaves
  the rows as they were: the session is never committed.
\<close>

section \<open>Instants\<close>

definition after_aware :: "py_datetime \<Rightarrow> instant \<Rightarrow> bool res" where
  "after_aware d t = (case d of
     Aware s \<Rightarrow> Inr (s > t)
   | Naive s \<Rightarrow> Inl (TypeError ''cannot compare offset-naive and offset-aware datetimes''))"

definition plus_days :: "instant \<Rightarrow> int \<Rightarrow> instant res" where
  "plus_days t n = (if n > 999999999 \<or> t + n * one_day > datetime_max
     then Inl (OverflowError ''date value out of range'') else Inr (t + n * one_day))"

section \<open>Rows and requests\<close>

record api_key_row =
  key_id :: int
  key_public_id :: string
  key_name :: string
  key_description :: "string option"
  key_status :: string
  key_scopes :: "string list"
  key_environment :: string
  key_allowed_ips :: "string list"
  key_token_hash :: string
  key_token_prefix :: string
  key_expires_at :: "py_datetime option"
  key_created_at :: instant
  key_last_used_at :: "instant option"
  key_last_used_ip :: "string option"
  key_last_used_user_agent :: "string option"
  key_usage_count :: int
  key_created_by_user_id :: "int option"

record key_env =
  ke_hash :: "string \<Rightarrow> string"
  ke_verify :: "string \<Rightarrow> string \<Rightarrow> bool"

record fresh_token =
  ft_public_id :: string
  ft_secret :: string

record key_create_in =
  kc_name :: string
  kc_description :: "string option"
  kc_scopes :: "string list"
  kc_environment :: "string option"
  kc_allowed_ips :: "string list"
  kc_status :: string
  kc_expires_at :: "py_datetime option"
  kc_expires_in_days :: "int option"
  kc_created_by :: "int option"

record key_update_in =
  ku_name :: "string option"
  ku_description :: "string option"
  ku_scopes :: "string list option"
  ku_environment :: "string option"
  ku_allowed_ips :: "string list option"
  ku_status :: "string option"
  ku_expires_at :: "py_datetime option"
  ku_expires_in_days :: "int option"

record key_store =
  ks_keys :: "api_key_row list"
  ks_next_id :: int

section \<open>Normalisation\<close>

definition API_KEY_PREFIX :: string where "API_KEY_PREFIX = ''t2c_ext''"

definition key_statuses :: "string list" where "key_statuses = [''active'', ''inactive'', ''revoked'']"

definition normalize_key_environment :: "string option \<Rightarrow> string" where
  "normalize_key_environment v = or_else (norm_token v) ''shared''"

definition validate_status_value :: "string \<Rightarrow> string res" where
  "validate_status_value v =
     (let value = or_else (norm_token (Some v)) ''active'' in
      if value \<notin> set key_statuses then Inl (HTTPException 422 ''Status invalido.'') else Inr value)"

definition normalize_ip_entry :: "string \<Rightarrow> string res" where
  "normalize_ip_entry value =
     (let bad = Inl (HTTPException 422 (''IP ou rede invalida: '' @ value @ ''.'')) in
      if CHR ''/'' \<in> set value then
        (case ip_network value of
           None \<Rightarrow> bad
         | Some net \<Rightarrow> if prefixlen net = 0 then bad else Inr (net_text net))
      else
        (case ip_address value of
           None \<Rightarrow> bad
         | Some ip \<Rightarrow> if is_unspecified ip then bad else Inr (ip_text ip)))"

definition normalize_allowed_ips :: "string list \<Rightarrow> string list res" where
  "normalize_allowed_ips values =
     res_bind (res_map normalize_ip_entry (filter (\<lambda>v. v \<noteq> '''') (map py_strip values)))
       (\<lambda>vs. Inr (from_keys vs))"

section \<open>Expiration\<close>

definition too_long :: "string \<Rightarrow> int \<Rightarrow> 'a res" where
  "too_long policy_name max_days = Inl (HTTPException 422 (''Chaves com permissao de '' @ policy_name
     @ '' devem expirar em ate '' @ int_str max_days @ '' dias.''))"

definition validate_expiration_policy ::
  "instant \<Rightarrow> string list \<Rightarrow> py_datetime option \<Rightarrow> int option \<Rightarrow> (py_datetime option \<times> int option) res" where
  "validate_expiration_policy now scopes expires_at expires_in_days =
     (case expiration_policy_for_scopes scopes of
        None \<Rightarrow> Inr (expires_at, expires_in_days)
      | Some (max_days, policy_name) \<Rightarrow>
          if expires_in_days = None \<and> expires_at = None then Inr (None, Some max_days)
          else if (case expires_in_days of None \<Rightarrow> False | Some d \<Rightarrow> d > max_days) then too_long policy_name max_days
          else (case expires_at of
             None \<Rightarrow> Inr (expires_at, expires_in_days)
           | Some e \<Rightarrow>
               res_bind (plus_days now max_days) (\<lambda>limit.
               res_bind (after_aware e limit) (\<lambda>late.
                 if late then too_long policy_name max_days else Inr (expires_at, expires_in_days)))))"

definition apply_expiration :: "instant \<Rightarrow> py_datetime option \<Rightarrow> int option \<Rightarrow> py_datetime option res" where
  "apply_expiration now expires_at expires_in_days =
     (case expires_at of
        Some e \<Rightarrow> Inr (Some e)
      | None \<Rightarrow> (case expires_in_days of
          Some d \<Rightarrow> res_bind (plus_days now (max d 1)) (\<lambda>t. Inr (Some (Aware t)))
        | None \<Rightarrow> Inr None))"

definition validated_expiration :: "instant \<Rightarrow> string list \<Rightarrow> py_datetime option \<Rightarrow> int option \<Rightarrow> py_datetime option res" where
  "validated_expiration now scopes expires_at expires_in_days =
     res_bind (validate_expiration_policy now scopes expires_at expires_in_days)
       (\<lambda>(e, d). apply_expiration now e d)"

definition expired :: "instant \<Rightarrow> api_key_row \<Rightarrow> bool" where
  "expired now k = (case key_expires_at k of None \<Rightarrow> False | Some e \<Rightarrow> as_utc e \<le> now)"

definition effective_status :: "instant \<Rightarrow> api_key_row \<Rightarrow> string" where
  "effective_status now k =
     (if key_status k = ''revoked'' then ''revoked''
      else if expired now k then ''expired''
      else if key_status k = ''inactive'' then ''inactive''
      else ''active'')"

section \<open>Operations\<close>

definition generated_token :: "fresh_token \<Rightarrow> string" where
  "generated_token ft = API_KEY_PREFIX @ ''_'' @ ft_public_id ft @ ''.'' @ ft_secret ft"

definition new_api_key :: "key_env \<Rightarrow> instant \<Rightarrow> fresh_token \<Rightarrow> int \<Rightarrow> key_create_in \<Rightarrow> api_key_row res" where
  "new_api_key env now ft new_id req =
     res_bind (validate_scope_keys (kc_scopes req)) (\<lambda>scopes.
     res_bind (validate_expiration_policy now scopes (kc_expires_at req) (kc_expires_in_days req)) (\<lambda>(e, d).
     res_bind (validate_status_value (kc_status req)) (\<lambda>status.
     res_bind (normalize_allowed_ips (kc_allowed_ips req)) (\<lambda>ips.
     res_bind (apply_expiration now e d) (\<lambda>expires.
       Inr \<lparr>key_id = new_id, key_public_id = ft_public_id ft, key_name = py_strip (kc_name req),
            key_description = (case kc_description req of None \<Rightarrow> None
              | Some t \<Rightarrow> if t = '''' then None else Some (py_strip t)),
            key_status = status, key_scopes = scopes,
            key_environment = normalize_key_environment (kc_environment req), key_allowed_ips = ips,
            key_token_hash = ke_hash env (ft_secret ft), key_token_prefix = take 8 (ft_secret ft),
            key_expires_at = expires, key_created_at = now, key_last_used_at = None, key_last_used_ip = None,
            key_last_used_user_agent = None, key_usage_count = 0,
            key_created_by_user_id = kc_created_by req\<rparr>)))))"

text \<open>The unique index on \<open>public_id\<close> refuses a second row of the same public id.\<close>

definition unique_violation :: "'a res" where
  "unique_violation = Inl (RuntimeError ''duplicate key value violates unique constraint'')"

definition create_api_key ::
  "key_env \<Rightarrow> instant \<Rightarrow> fresh_token \<Rightarrow> key_create_in \<Rightarrow> key_store \<Rightarrow> (key_store \<times> string) res" where
  "create_api_key env now ft req st =
     res_bind (new_api_key env now ft (ks_next_id st) req) (\<lambda>k.
       if ft_public_id ft \<in> key_public_id ` set (ks_keys st) then unique_violation
       else Inr (st\<lparr>ks_keys := ks_keys st @ [k], ks_next_id := ks_next_id st + 1\<rparr>, generated_token ft))"

definition updated_expiration :: "instant \<Rightarrow> api_key_row \<Rightarrow> string list \<Rightarrow> key_update_in \<Rightarrow> py_datetime option res" where
  "updated_expiration now k scopes u =
     (let given = ku_expires_at u \<noteq> None \<or> ku_expires_in_days u \<noteq> None in
      if ku_scopes u \<noteq> None then
        (case expiration_policy_for_scopes scopes of
           None \<Rightarrow> if given then apply_expiration now (ku_expires_at u) (ku_expires_in_days u) else Inr (key_expires_at k)
         | Some (max_days, policy_name) \<Rightarrow>
             if \<not> given then
               (case key_expires_at k of
                  None \<Rightarrow> apply_expiration now None (Some max_days)
                | Some e \<Rightarrow> res_bind (plus_days now max_days) (\<lambda>limit.
                    if as_utc e > limit then too_long policy_name max_days else Inr (Some e)))
             else validated_expiration now scopes (ku_expires_at u) (ku_expires_in_days u))
      else if given then validated_expiration now scopes (ku_expires_at u) (ku_expires_in_days u)
      else Inr (key_expires_at k))"

definition update_api_key :: "instant \<Rightarrow> api_key_row \<Rightarrow> key_update_in \<Rightarrow> api_key_row res" where
  "update_api_key now k u =
     res_bind (case ku_scopes u of None \<Rightarrow> Inr (key_scopes k) | Some s \<Rightarrow> validate_scope_keys s) (\<lambda>scopes.
     res_bind (updated_expiration now k scopes u) (\<lambda>expires.
     res_bind (case ku_allowed_ips u of None \<Rightarrow> Inr (key_allowed_ips k) | Some ips \<Rightarrow> normalize_allowed_ips ips) (\<lambda>ips.
     res_bind (case ku_status u of None \<Rightarrow> Inr (key_status k) | Some s \<Rightarrow> validate_status_value s) (\<lambda>status.
       Inr (k\<lparr>key_name := (case ku_name u of None \<Rightarrow> key_name k | Some n \<Rightarrow> py_strip n),
              key_description := (case ku_description u of None \<Rightarrow> key_description k | Some t \<Rightarrow> or_none (py_strip t)),
              key_scopes := scopes, key_expires_at := expires,
              key_environment := (case ku_environment u of None \<Rightarrow> key_environment k
                | Some e \<Rightarrow> normalize_key_environment (Some e)),
              key_allowed_ips := ips, key_status := status\<rparr>)))))"

definition rotate_api_key :: "key_env \<Rightarrow> fresh_token \<Rightarrow> api_key_row \<Rightarrow> api_key_row" where
  "rotate_api_key env ft k = k\<lparr>key_public_id := ft_public_id ft, key_token_hash := ke_hash env (ft_secret ft),
     key_token_prefix := take 8 (ft_secret ft)\<rparr>"

definition revoke_api_key :: "api_key_row \<Rightarrow> api_key_row" where
  "revoke_api_key k = k\<lparr>key_status := ''revoked''\<rparr>"

definition get_api_key :: "key_store \<Rightarrow> int \<Rightarrow> api_key_row option" where
  "get_api_key st i = List.find (\<lambda>k. key_id k = i) (ks_keys st)"

definition put_key :: "api_key_row \<Rightarrow> key_store \<Rightarrow> key_store" where
  "put_key k st = st\<lparr>ks_keys := map (\<lambda>r. if key_id r = key_id k then k else r) (ks_keys st)\<rparr>"

definition key_not_found :: "'a res" where
  "key_not_found = Inl (HTTPException 404 ''API key nao encontrada.'')"

definition platform_api_keys_update :: "instant \<Rightarrow> int \<Rightarrow> key_update_in \<Rightarrow> key_store \<Rightarrow> key_store res" where
  "platform_api_keys_update now i u st =
     (case get_api_key st i of
        None \<Rightarrow> key_not_found
      | Some k \<Rightarrow> res_bind (update_api_key now k u) (\<lambda>k'. Inr (put_key k' st)))"

definition platform_api_keys_rotate :: "key_env \<Rightarrow> fresh_token \<Rightarrow> int \<Rightarrow> key_store \<Rightarrow> (key_store \<times> string) res" where
  "platform_api_keys_rotate env ft i st =
     (case get_api_key st i of
        None \<Rightarrow> key_not_found
      | Some k \<Rightarrow>
          if ft_public_id ft \<in> key_public_id ` set (filter (\<lambda>r. key_id r \<noteq> i) (ks_keys st)) then unique_violation
          else Inr (put_key (rotate_api_key env ft k) st, generated_token ft))"

definition platform_api_keys_revoke :: "int \<Rightarrow> key_store \<Rightarrow> key_store res" where
  "platform_api_keys_revoke i st =
     (case get_api_key st i of
        None \<Rightarrow> key_not_found
      | Some k \<Rightarrow> Inr (put_key (revoke_api_key k) st))"

definition list_api_keys :: "key_store \<Rightarrow> int \<Rightarrow> int \<Rightarrow> api_key_row list" where
  "list_api_keys st offset limit =
     take (nat (max 1 (min (if limit = 0 then 50 else limit) 200)))
       (drop (nat (max offset 0)) (sort_key (\<lambda>k. (Desc (key_created_at k), Desc (key_id k))) (ks_keys st)))"

section \<open>Using a key\<close>

definition ip_matches_rule :: "string \<Rightarrow> string \<Rightarrow> bool" where
  "ip_matches_rule ip_value rule =
     (case ip_address ip_value of
        None \<Rightarrow> False
      | Some ip \<Rightarrow>
          if CHR ''/'' \<in> set rule then (case ip_network rule of None \<Rightarrow> False | Some net \<Rightarrow> in_network ip net)
          else (case ip_address rule of None \<Rightarrow> False | Some a \<Rightarrow> ip = a))"

definition is_api_key_ip_allowed :: "api_key_row \<Rightarrow> string option \<Rightarrow> bool" where
  "is_api_key_ip_allowed k request_ip =
     (let raw_entries = filter (\<lambda>v. v \<noteq> '''') (map py_strip (key_allowed_ips k)) in
      if raw_entries = [] then True
      else if \<not> str_true request_ip then False
      else list_ex (ip_matches_rule (or_empty request_ip)) raw_entries)"

record key_auth =
  ka_key :: api_key_row
  ka_scopes :: "string list"
  ka_token :: string

definition key_missing :: "'a res" where "key_missing = Inl (HTTPException 401 ''API key ausente'')"

definition key_invalid :: "'a res" where "key_invalid = Inl (HTTPException 401 ''API key invalida'')"

text \<open>\<open>prefix.replace("t2c_ext_", "", 1)\<close> on a text that starts with it drops it.\<close>

definition token_parts :: "string \<Rightarrow> (string \<times> string) option" where
  "token_parts raw =
     (if starts_with (API_KEY_PREFIX @ ''_'') raw
      then map_option (\<lambda>(p, s). (drop (length API_KEY_PREFIX + 1) p, s)) (split_once CHR ''.'' raw)
      else None)"

definition resolve_api_key_from_token :: "key_env \<Rightarrow> instant \<Rightarrow> string \<Rightarrow> key_store \<Rightarrow> key_auth res" where
  "resolve_api_key_from_token env now token st =
     (let raw = py_strip token in
      if raw = '''' then key_missing
      else (case token_parts raw of
        None \<Rightarrow> key_invalid
      | Some (public_id, secret) \<Rightarrow>
          if public_id = '''' \<or> secret = '''' then key_invalid
          else (case List.find (\<lambda>k. key_public_id k = public_id) (ks_keys st) of
            None \<Rightarrow> key_invalid
          | Some k \<Rightarrow>
              if key_status k \<in> {''revoked'', ''inactive''} then key_invalid
              else if expired now k then key_invalid
              else if \<not> ke_verify env secret (key_token_hash k) then key_invalid
              else Inr \<lparr>ka_key = k, ka_scopes = normalize_scope_tokens (key_scopes k), ka_token = raw\<rparr>)))"

definition ensure_scopes :: "key_auth \<Rightarrow> string list \<Rightarrow> unit res" where
  "ensure_scopes auth required =
     (if required = [] then Inr ()
      else if list_ex (\<lambda>t. py_lower t \<in> set (ka_scopes auth)) required then Inr ()
      else Inl (HTTPException 403 ''API key sem escopo suficiente''))"

section \<open>Facts about expirations\<close>

lemma policy_days:
  "expiration_policy_for_scopes scopes = Some (d, p) \<Longrightarrow> d = 7 \<or> d = 30"
  by (auto simp: expiration_policy_for_scopes_def Let_def WRITE_EXPIRATION_MAX_DAYS_def
      DELETE_EXPIRATION_MAX_DAYS_def split: if_splits)

lemma plus_days_Inr: "plus_days t n = Inr u \<Longrightarrow> u = t + n * one_day"
  by (auto simp: plus_days_def split: if_splits)

definition expires_within :: "instant \<Rightarrow> int \<Rightarrow> py_datetime option \<Rightarrow> bool" where
  "expires_within now d x = (case x of None \<Rightarrow> False | Some e \<Rightarrow> as_utc e \<le> now + d * one_day)"

lemma expires_within_later: "expires_within now d x \<Longrightarrow> now \<le> t \<Longrightarrow> expires_within t d x"
  by (auto simp: expires_within_def split: option.splits)

lemma after_aware_Inr: "after_aware e t = Inr b \<Longrightarrow> as_utc e > t \<longleftrightarrow> b"
  by (auto simp: after_aware_def as_utc_def split: py_datetime.splits)

lemma apply_expiration_days:
  assumes "apply_expiration now None (Some d) = Inr x" and "max d 1 \<le> m"
  shows "expires_within now m x"
proof -
  have "max d 1 * one_day \<le> m * one_day" using assms(2) by (simp add: one_day_def)
  with assms(1) show ?thesis
    by (auto simp: apply_expiration_def res_bind_Inr_iff expires_within_def as_utc_def dest!: plus_days_Inr)
qed

lemma validate_expiration_policy_cases:
  assumes "expiration_policy_for_scopes scopes = Some (m, p)"
    and "validate_expiration_policy now scopes e d = Inr (e', d')"
  shows "e' = None \<and> (\<exists>n. d' = Some n \<and> n \<le> m) \<or> (\<exists>t. e' = Some t \<and> as_utc t \<le> now + m * one_day)"
proof (cases e)
  case None
  with assms show ?thesis
    by (cases d) (auto simp: validate_expiration_policy_def too_long_def split: if_splits)
next
  case (Some t)
  with assms obtain limit late where l: "plus_days now m = Inr limit" "after_aware t limit = Inr late"
    and "\<not> late" "e' = Some t"
    by (auto simp: validate_expiration_policy_def res_bind_Inr_iff too_long_def split: if_splits)
  with after_aware_Inr [OF l(2)] plus_days_Inr [OF l(1)] show ?thesis by auto
qed

lemma validated_policy_expiration:
  assumes "validate_expiration_policy now scopes e d = Inr (e', d')"
    and "apply_expiration now e' d' = Inr x"
    and "expiration_policy_for_scopes scopes = Some (m, p)"
  shows "expires_within now m x"
proof -
  from policy_days [OF assms(3)] have "1 \<le> m" by auto
  with validate_expiration_policy_cases [OF assms(3,1)] assms(2) apply_expiration_days show ?thesis
    by (auto simp: apply_expiration_def expires_within_def)
qed

section \<open>Every history of key operations\<close>

definition write_policy :: "instant \<Rightarrow> api_key_row \<Rightarrow> bool" where
  "write_policy now k = (set (key_scopes k) \<subseteq> set supported_scope_keys
     \<and> (case expiration_policy_for_scopes (key_scopes k) of
          None \<Rightarrow> True
        | Some (d, _) \<Rightarrow> expires_within now d (key_expires_at k)))"

lemma write_policy_later: "write_policy now k \<Longrightarrow> now \<le> t \<Longrightarrow> write_policy t k"
  by (auto simp: write_policy_def intro: expires_within_later split: option.splits)

lemma new_api_key_policy: "new_api_key env now ft i req = Inr k \<Longrightarrow> write_policy now k"
  by (auto simp: write_policy_def new_api_key_def res_bind_Inr_iff validate_scope_keys_Inr split: option.splits
      dest: validated_policy_expiration)

lemma updated_expiration_policy:
  assumes "updated_expiration now k scopes u = Inr x" and "write_policy now k"
    and "ku_scopes u = None \<Longrightarrow> scopes = key_scopes k"
    and "expiration_policy_for_scopes scopes = Some (m, p)"
  shows "expires_within now m x"
proof (cases "ku_expires_at u \<noteq> None \<or> ku_expires_in_days u \<noteq> None")
  case True
  with assms(1,4) have "validated_expiration now scopes (ku_expires_at u) (ku_expires_in_days u) = Inr x"
    by (auto simp: updated_expiration_def Let_def split: if_splits)
  with assms(4) show ?thesis 
    by (auto simp: validated_expiration_def res_bind_Inr_iff intro: validated_policy_expiration)
next
  case False
  from policy_days [OF assms(4)] have m: "1 \<le> m" by auto
  show ?thesis
  proof (cases "ku_scopes u = None")
    case True
    with False assms show ?thesis
      by (auto simp: updated_expiration_def write_policy_def)
  next
    case scopes: False
    show ?thesis
    proof (cases "key_expires_at k")
      case None
      with False scopes assms(1,4) have "apply_expiration now None (Some m) = Inr x"
        by (auto simp: updated_expiration_def)
      then show ?thesis by (rule apply_expiration_days) (use m in auto)
    next
      case (Some e)
      with False scopes assms(1,4) show ?thesis
        by (auto simp: updated_expiration_def res_bind_Inr_iff too_long_def expires_within_def
            dest!: plus_days_Inr split: if_splits)
    qed
  qed
qed

lemma update_api_key_policy:
  assumes "update_api_key now k u = Inr k'" and "write_policy now k"
  shows "write_policy now k'"
proof -
  from assms(1) obtain scopes x where
    s: "(case ku_scopes u of None \<Rightarrow> Inr (key_scopes k) | Some s \<Rightarrow> validate_scope_keys s) = Inr scopes"
    and x: "updated_expiration now k scopes u = Inr x"
    and k': "key_scopes k' = scopes" "key_expires_at k' = x"
    by (auto simp: update_api_key_def res_bind_Inr_iff)
  from s have "ku_scopes u = None \<Longrightarrow> scopes = key_scopes k" by simp
  moreover from s assms(2) have "set scopes \<subseteq> set supported_scope_keys"
    by (auto simp: write_policy_def validate_scope_keys_Inr split: option.splits)
  ultimately show ?thesis using x assms(2) k'
    by (auto simp: write_policy_def intro: updated_expiration_policy split: option.splits)
qed

lemma update_api_key_ids:
  "update_api_key now k u = Inr k' \<Longrightarrow>
     key_id k' = key_id k \<and> key_public_id k' = key_public_id k \<and> key_token_hash k' = key_token_hash k"
  by (auto simp: update_api_key_def res_bind_Inr_iff)

datatype key_event =
    CreateKey fresh_token key_create_in
  | UpdateKey int key_update_in
  | RotateKey fresh_token int
  | RevokeKey int

text \<open>One request of an administrator, some time after the one before; a refused request changes nothing.\<close>

definition key_step :: "key_env \<Rightarrow> instant \<times> key_store \<Rightarrow> nat \<times> key_event \<Rightarrow> instant \<times> key_store" where
  "key_step env s e = (let now = fst s + int (fst e); st = snd s in
     (now, or_same st (case snd e of
        CreateKey ft req \<Rightarrow> map_sum id fst (create_api_key env now ft req st)
      | UpdateKey i u \<Rightarrow> platform_api_keys_update now i u st
      | RotateKey ft i \<Rightarrow> map_sum id fst (platform_api_keys_rotate env ft i st)
      | RevokeKey i \<Rightarrow> platform_api_keys_revoke i st)))"

definition store_ok :: "key_store \<Rightarrow> bool" where
  "store_ok st = (distinct (map key_id (ks_keys st)) \<and> distinct (map key_public_id (ks_keys st))
     \<and> (\<forall>k\<in>set (ks_keys st). key_id k < ks_next_id st))"

definition keys_ok :: "instant \<times> key_store \<Rightarrow> bool" where
  "keys_ok s = (store_ok (snd s) \<and> (\<forall>k\<in>set (ks_keys (snd s)). write_policy (fst s) k))"

lemma get_api_key_Some:
  "get_api_key st i = Some k \<Longrightarrow> k \<in> set (ks_keys st) \<and> key_id k = i"
  by (auto simp: get_api_key_def find_Some_iff)

lemma put_key_ids:
  "ks_keys (put_key k st) = map (\<lambda>r. if key_id r = key_id k then k else r) (ks_keys st)"
  "map key_id (ks_keys (put_key k st)) = map key_id (ks_keys st)"
  "ks_next_id (put_key k st) = ks_next_id st"
  by (auto simp: put_key_def)

lemma replaced_public_distinct:
  assumes "distinct (map key_id rs)" and "distinct (map key_public_id rs)"
    and "\<forall>r\<in>set rs. key_id r \<noteq> key_id k \<longrightarrow> key_public_id r \<noteq> key_public_id k"
  shows "distinct (map key_public_id (map (\<lambda>r. if key_id r = key_id k then k else r) rs))"
  using assms
proof (induction rs)
  case (Cons r rs)
  have "key_id r = key_id k \<Longrightarrow> \<forall>x\<in>set rs. key_id x \<noteq> key_id k"
    using Cons.prems(1) by (auto simp: image_iff)
  with Cons show ?case by (auto split: if_splits)
qed simp

lemma put_key_public_distinct:
  assumes "store_ok st"
    and "key_public_id k \<notin> key_public_id ` set (filter (\<lambda>r. key_id r \<noteq> key_id k) (ks_keys st))"
  shows "distinct (map key_public_id (ks_keys (put_key k st)))"
  unfolding put_key_ids(1)
  by (rule replaced_public_distinct) (use assms in \<open>auto simp: store_ok_def image_iff\<close>)

lemma store_ok_put:
  assumes "store_ok st" and "get_api_key st (key_id k) = Some r"
    and "key_public_id k \<notin> key_public_id ` set (filter (\<lambda>r. key_id r \<noteq> key_id k) (ks_keys st))"
  shows "store_ok (put_key k st)"
  using assms put_key_public_distinct [OF assms(1,3)] get_api_key_Some [OF assms(2)]
  unfolding store_ok_def put_key_ids(2,3) by (auto simp: put_key_ids(1))

lemma store_ok_put_same:
  assumes "store_ok st" and "get_api_key st i = Some r" and "key_id k = i" and "key_public_id k = key_public_id r"
  shows "store_ok (put_key k st)"
proof -
  from assms(2) have r: "r \<in> set (ks_keys st)" "key_id r = i" by (auto dest: get_api_key_Some)
  have "key_public_id k \<notin> key_public_id ` set (filter (\<lambda>r. key_id r \<noteq> key_id k) (ks_keys st))"
  proof
    assume "key_public_id k \<in> key_public_id ` set (filter (\<lambda>r. key_id r \<noteq> key_id k) (ks_keys st))"
    then obtain x where "x \<in> set (ks_keys st)" "key_id x \<noteq> i" "key_public_id x = key_public_id r"
      using assms by auto
    with r assms(1) show False by (auto simp: store_ok_def distinct_map dest: inj_onD)
  qed
  with assms(1-3) show ?thesis by (metis store_ok_put)
qed

lemma put_key_policy:
  "\<forall>k\<in>set (ks_keys st). P k \<Longrightarrow> P k' \<Longrightarrow> \<forall>k\<in>set (ks_keys (put_key k' st)). P k"
  by (auto simp: put_key_ids)

lemma write_policy_rotate [simp]: "write_policy t (rotate_api_key env ft k) = write_policy t k"
  by (simp add: write_policy_def rotate_api_key_def split: option.splits)

lemma write_policy_revoke [simp]: "write_policy t (revoke_api_key k) = write_policy t k"
  by (simp add: write_policy_def revoke_api_key_def split: option.splits)

lemma put_keeps:
  assumes "keys_ok (t, st)" and "get_api_key st i = Some k"
    and "key_id k' = key_id k" and "key_public_id k' = key_public_id k" and "write_policy t k'"
  shows "keys_ok (t, put_key k' st)"
proof -
  from assms(1) have ok: "store_ok st" "\<forall>k\<in>set (ks_keys st). write_policy t k" by (simp_all add: keys_ok_def)
  have "store_ok (put_key k' st)"
    using store_ok_put_same [OF ok(1) assms(2) _ assms(4)] assms(3) get_api_key_Some [OF assms(2)] by simp
  with put_key_policy [OF ok(2) assms(5)] show ?thesis by (simp add: keys_ok_def)
qed

lemma create_keeps:
  assumes "keys_ok (t, st)" and "create_api_key env t ft req st = Inr (st', tok)"
  shows "keys_ok (t, st')"
proof -
  from assms(2) obtain k where k: "new_api_key env t ft (ks_next_id st) req = Inr k"
    and fresh: "ft_public_id ft \<notin> key_public_id ` set (ks_keys st)"
    and st': "st' = st\<lparr>ks_keys := ks_keys st @ [k], ks_next_id := ks_next_id st + 1\<rparr>"
    by (auto simp: create_api_key_def res_bind_Inr_iff unique_violation_def split: if_splits)
  from k have "key_id k = ks_next_id st" "key_public_id k = ft_public_id ft"
    by (auto simp: new_api_key_def res_bind_Inr_iff)
  with fresh assms(1) new_api_key_policy [OF k] show ?thesis
    by (auto simp: keys_ok_def store_ok_def st')
qed

lemma update_keeps:
  assumes "keys_ok (t, st)" and "platform_api_keys_update t i u st = Inr st'"
  shows "keys_ok (t, st')"
proof -
  from assms(2) obtain k k' where g: "get_api_key st i = Some k" and u: "update_api_key t k u = Inr k'"
    and st': "st' = put_key k' st"
    by (auto simp: platform_api_keys_update_def res_bind_Inr_iff key_not_found_def split: option.splits)
  from g assms(1) have "write_policy t k" by (auto simp: keys_ok_def dest: get_api_key_Some)
  with put_keeps [OF assms(1) g] update_api_key_policy [OF u] update_api_key_ids [OF u] st'
  show ?thesis by simp
qed

lemma rotate_keeps:
  assumes "keys_ok (t, st)" and "platform_api_keys_rotate env ft i st = Inr (st', tok)"
  shows "keys_ok (t, st')"
proof -
  from assms(2) obtain k where g: "get_api_key st i = Some k"
    and fresh: "ft_public_id ft \<notin> key_public_id ` set (filter (\<lambda>r. key_id r \<noteq> i) (ks_keys st))"
    and st': "st' = put_key (rotate_api_key env ft k) st"
    by (auto simp: platform_api_keys_rotate_def key_not_found_def unique_violation_def split: option.splits if_splits)
  have ids: "key_id (rotate_api_key env ft k) = i" "key_public_id (rotate_api_key env ft k) = ft_public_id ft"
    using get_api_key_Some [OF g] by (auto simp: rotate_api_key_def)
  have "store_ok (put_key (rotate_api_key env ft k) st)"
    by (rule store_ok_put) (use assms(1) g fresh ids in \<open>auto simp: keys_ok_def\<close>)
  then show ?thesis
    using assms(1) get_api_key_Some [OF g]
      put_key_policy [of st "write_policy t" "rotate_api_key env ft k"] by (simp add: st' keys_ok_def)
qed

lemma revoke_keeps:
  assumes "keys_ok (t, st)" and "platform_api_keys_revoke i st = Inr st'"
  shows "keys_ok (t, st')"
proof -
  from assms(2) obtain k where g: "get_api_key st i = Some k" and st': "st' = put_key (revoke_api_key k) st"
    by (auto simp: platform_api_keys_revoke_def key_not_found_def split: option.splits)
  have "write_policy t (revoke_api_key k)"
    using get_api_key_Some [OF g] assms(1) by (auto simp: keys_ok_def)
  then show ?thesis
    unfolding st' by (rule put_keeps [OF assms(1) g, rotated 2]) (simp_all add: revoke_api_key_def)
qed

lemma key_step_keeps:
  assumes "keys_ok s"
  shows "keys_ok (key_step env s e)"
proof -
  let ?t = "fst s + int (fst e)"
  from assms have ok: "keys_ok (?t, snd s)" by (auto simp: keys_ok_def intro: write_policy_later)
  then show ?thesis
    by (cases "snd e")
      (auto simp: key_step_def Let_def or_same_def map_fst_Inr
        intro: create_keeps update_keeps rotate_keeps revoke_keeps split: sum.splits)
qed

interpretation keys: invariant_machine "key_step env" keys_ok for env
  by unfold_locales (rule key_step_keeps)

section \<open>Tokens\<close>

lemma starts_with_before:
  "d \<notin> set pre \<Longrightarrow> starts_with pre (p @ d # s) \<Longrightarrow> starts_with pre p"
proof (induction pre arbitrary: p)
  case (Cons c pre)
  then show ?case by (cases p) auto
qed simp

lemma token_parts_Some:
  "token_parts raw = Some (public_id, secret) \<longleftrightarrow>
     raw = API_KEY_PREFIX @ ''_'' @ public_id @ ''.'' @ secret \<and> CHR ''.'' \<notin> set public_id"
proof
  assume a: "token_parts raw = Some (public_id, secret)"
  then obtain p where p: "split_once CHR ''.'' raw = Some (p, secret)" "public_id = drop (length API_KEY_PREFIX + 1) p"
    and st: "starts_with (API_KEY_PREFIX @ ''_'') raw"
    by (auto simp: token_parts_def split: if_splits)
  from split_once_SomeD [OF p(1)] have raw: "raw = p @ CHR ''.'' # secret" "CHR ''.'' \<notin> set p" by auto
  have "\<exists>q. p = API_KEY_PREFIX @ ''_'' @ q"
    using starts_with_before [of "CHR ''.''" "API_KEY_PREFIX @ ''_''" p secret] st raw(1)
    by (simp add: API_KEY_PREFIX_def starts_with_iff)
  then show "raw = API_KEY_PREFIX @ ''_'' @ public_id @ ''.'' @ secret \<and> CHR ''.'' \<notin> set public_id"
    using raw p(2) by (auto simp: API_KEY_PREFIX_def)
next
  assume a: "raw = API_KEY_PREFIX @ ''_'' @ public_id @ ''.'' @ secret \<and> CHR ''.'' \<notin> set public_id"
  have "split_once CHR ''.'' ((API_KEY_PREFIX @ ''_'' @ public_id) @ CHR ''.'' # secret)
      = Some (API_KEY_PREFIX @ ''_'' @ public_id, secret)"
    by (rule split_once_append) (use a in \<open>simp add: API_KEY_PREFIX_def\<close>)
  with a show "token_parts raw = Some (public_id, secret)"
    by (simp add: token_parts_def API_KEY_PREFIX_def starts_with_def)
qed

text \<open>What the module \<open>secrets\<close> returns: \<open>token_hex\<close> has hexadecimal digits, \<open>token_urlsafe\<close> letters, digits,
  \<open>-\<close> and \<open>_\<close>; in particular no dot in the first and no white space in the second.\<close>

definition fresh_ok :: "fresh_token \<Rightarrow> bool" where
  "fresh_ok ft = (ft_public_id ft \<noteq> [] \<and> CHR ''.'' \<notin> set (ft_public_id ft)
     \<and> ft_secret ft \<noteq> [] \<and> list_all (\<lambda>c. \<not> py_space c) (ft_secret ft))"

lemma py_lstrip_Cons: "\<not> py_space c \<Longrightarrow> py_lstrip (c # s) = c # s"
  by (simp add: py_lstrip_def)

lemma generated_token_strip:
  assumes "fresh_ok ft"
  shows "py_strip (generated_token ft) = generated_token ft"
proof -
  have t: "py_lstrip (generated_token ft) = generated_token ft"
    by (simp add: generated_token_def API_KEY_PREFIX_def py_lstrip_def py_space_def)
  from assms obtain s c where sec: "ft_secret ft = s @ [c]" "\<not> py_space c"
    by (cases "ft_secret ft" rule: rev_cases) (auto simp: fresh_ok_def)
  then have "rev (generated_token ft) = c # rev (API_KEY_PREFIX @ ''_'' @ ft_public_id ft @ ''.'' @ s)"
    by (simp add: generated_token_def)
  with sec(2) have "py_lstrip (rev (generated_token ft)) = rev (generated_token ft)"
    by (metis py_lstrip_Cons)
  with t show ?thesis by (simp add: py_strip_def)
qed

lemma generated_token_parts:
  "fresh_ok ft \<Longrightarrow> token_parts (generated_token ft) = Some (ft_public_id ft, ft_secret ft)"
  by (simp add: token_parts_Some generated_token_def fresh_ok_def)

lemma find_public_id:
  assumes "store_ok st" and "k \<in> set (ks_keys st)"
  shows "List.find (\<lambda>r. key_public_id r = key_public_id k) (ks_keys st) = Some k"
  using assms unfolding store_ok_def by (intro find_distinct_key) auto

text \<open>The answer to a token whose public id is that of a key of the store.\<close>

definition key_answer :: "key_env \<Rightarrow> instant \<Rightarrow> string \<Rightarrow> string \<Rightarrow> api_key_row \<Rightarrow> key_auth res" where
  "key_answer env now raw secret k =
     (if key_status k \<in> {''revoked'', ''inactive''} \<or> expired now k \<or> \<not> ke_verify env secret (key_token_hash k)
      then key_invalid
      else Inr \<lparr>ka_key = k, ka_scopes = normalize_scope_tokens (key_scopes k), ka_token = raw\<rparr>)"

lemma resolve_of_key:
  assumes "store_ok st" and "k \<in> set (ks_keys st)"
    and "token_parts (py_strip token) = Some (key_public_id k, secret)"
    and "key_public_id k \<noteq> []" and "secret \<noteq> []"
  shows "resolve_api_key_from_token env now token st = key_answer env now (py_strip token) secret k"
proof -
  have "py_strip token \<noteq> []" using assms(3) by (auto simp: token_parts_Some)
  with assms(3-5) find_public_id [OF assms(1,2)] show ?thesis
    by (simp add: resolve_api_key_from_token_def key_answer_def)
qed

lemma resolve_Inr:
  assumes "resolve_api_key_from_token env now token st = Inr r"
  shows "ka_key r \<in> set (ks_keys st) \<and> key_status (ka_key r) \<notin> {''revoked'', ''inactive''}
    \<and> \<not> expired now (ka_key r) \<and> ka_token r = py_strip token
    \<and> ka_scopes r = normalize_scope_tokens (key_scopes (ka_key r))
    \<and> (\<exists>secret. token_parts (py_strip token) = Some (key_public_id (ka_key r), secret)
         \<and> ke_verify env secret (key_token_hash (ka_key r)))"
  using assms
  by (auto simp: resolve_api_key_from_token_def Let_def key_missing_def key_invalid_def find_Some_iff
      split: if_splits option.splits)

lemma normalize_supported:
  assumes "set xs \<subseteq> set supported_scope_keys" and "distinct xs"
  shows "normalize_scope_tokens xs = xs"
proof -
  have "norm_token (Some s) = s \<and> s \<noteq> ''''" if "s \<in> set xs" for s
  proof -
    from that assms(1) have "s \<in> set supported_scope_keys" by blast
    then obtain e where "scope_lookup s = Some e" by (auto simp: supported_iff)
    with entry_ok_lookup [OF this] show ?thesis by (auto simp: entry_ok_def split_once_def)
  qed
  then have "map (\<lambda>t. norm_token (Some t)) xs = xs" "filter (\<lambda>v. v \<noteq> '''') xs = xs"
    by (auto simp: map_idI filter_id_conv)
  with assms(2) show ?thesis by (simp add: normalize_scope_tokens_def from_keys_distinct)
qed

lemma validated_normal: "validate_scope_keys scopes = Inr ys \<Longrightarrow> normalize_scope_tokens ys = ys"
  unfolding validate_scope_keys_Inr
  by (metis distinct_expand_dependencies normalize_supported)

lemma key_status_cases: "validate_status_value v = Inr s \<Longrightarrow> s \<in> {''active'', ''inactive'', ''revoked''}"
  by (auto simp: validate_status_value_def Let_def key_statuses_def split: if_splits)

lemma put_key_in:
  "get_api_key st i = Some k \<Longrightarrow> key_id k' = i \<Longrightarrow> k' \<in> set (ks_keys (put_key k' st))"
  by (auto simp: put_key_ids dest!: get_api_key_Some)

section \<open>Properties\<close>

text \<open>C7: whatever the history of creations, updates, rotations and revocations, a key with a scope that is
  named for deletion expires within 7 days of the last request, one with a scope named for creation or update
  within 30 days, and from then on no token is resolved to it.\<close>

theorem write_keys_expire:
  assumes "foldl (key_step env) (t0, \<lparr>ks_keys = [], ks_next_id = 1\<rparr>) es = (t, st)"
    and "k \<in> set (ks_keys st)"
    and "s \<in> set (key_scopes k)"
    and "ends_with ''.delete'' s \<and> d = 7 \<or> (ends_with ''.create'' s \<or> ends_with ''.update'' s) \<and> d = 30"
  shows "\<exists>e. key_expires_at k = Some e \<and> as_utc e \<le> t + d * one_day \<and>
      (\<forall>now tok r. t + d * one_day \<le> now \<longrightarrow> resolve_api_key_from_token env now tok st = Inr r \<longrightarrow> ka_key r \<noteq> k)"
proof -
  have "keys_ok (t0, \<lparr>ks_keys = [], ks_next_id = 1\<rparr>)" by (simp add: keys_ok_def store_ok_def)
  then have "keys_ok (t, st)" unfolding assms(1) [symmetric] by (rule keys.inv_run)
  with assms(2) have "write_policy t k" by (auto simp: keys_ok_def)
  with assms(3) have s: "s \<in> set supported_scope_keys" by (auto simp: write_policy_def)
  have "case expiration_policy_for_scopes (key_scopes k) of None \<Rightarrow> False | Some (d', p) \<Rightarrow> d' \<le> d"
    using assms(4) action_of_named_scope [OF assms(3) s, of "''delete''"]
      action_of_named_scope [OF assms(3) s, of "''create''"] action_of_named_scope [OF assms(3) s, of "''update''"]
    by (auto simp: expiration_policy_for_scopes_def Let_def WRITE_EXPIRATION_MAX_DAYS_def
        DELETE_EXPIRATION_MAX_DAYS_def split: option.splits)
  then obtain d' p where d': "expiration_policy_for_scopes (key_scopes k) = Some (d', p)" "d' \<le> d"
    by (auto split: option.splits)
  then obtain e where e: "key_expires_at k = Some e" "as_utc e \<le> t + d' * one_day"
    using \<open>write_policy t k\<close> by (auto simp: write_policy_def expires_within_def split: option.splits)
  have "d' * one_day \<le> d * one_day" using d'(2) by (simp add: one_day_def)
  with e have e: "key_expires_at k = Some e" "as_utc e \<le> t + d * one_day" by simp_all
  moreover have "ka_key r \<noteq> k" if "t + d * one_day \<le> now" "resolve_api_key_from_token env now tok st = Inr r" for now tok r
    using resolve_Inr [OF that(2)] that(1) e by (auto simp: expired_def)
  ultimately show ?thesis by blast
qed

text \<open>C8: the token of a new key resolves to that key, with the scopes that were granted, exactly while the key
  is active and not expired.\<close>

theorem issued_token_resolves:
  assumes "store_ok st" and "create_api_key env t ft req st = Inr (st', token)"
    and "fresh_ok ft" and "ke_verify env (ft_secret ft) (ke_hash env (ft_secret ft))"
  shows "\<exists>k\<in>set (ks_keys st'). key_id k = ks_next_id st \<and> validate_scope_keys (kc_scopes req) = Inr (key_scopes k) \<and>
    (\<forall>now. resolve_api_key_from_token env now token st' =
       (if effective_status now k = ''active'' then Inr \<lparr>ka_key = k, ka_scopes = key_scopes k, ka_token = token\<rparr>
        else key_invalid))"
proof -
  from assms(2) obtain k where k: "new_api_key env t ft (ks_next_id st) req = Inr k"
    and fresh: "ft_public_id ft \<notin> key_public_id ` set (ks_keys st)"
    and st': "st' = st\<lparr>ks_keys := ks_keys st @ [k], ks_next_id := ks_next_id st + 1\<rparr>"
    and token: "token = generated_token ft"
    by (auto simp: create_api_key_def res_bind_Inr_iff unique_violation_def split: if_splits)
  from k have ids: "key_id k = ks_next_id st" "key_public_id k = ft_public_id ft"
    "key_token_hash k = ke_hash env (ft_secret ft)" "validate_scope_keys (kc_scopes req) = Inr (key_scopes k)"
    and status: "validate_status_value (kc_status req) = Inr (key_status k)"
    by (auto simp: new_api_key_def res_bind_Inr_iff)
  have ok: "store_ok st'" "k \<in> set (ks_keys st')"
    using assms(1) fresh ids by (auto simp: store_ok_def st')
  have parts: "token_parts (py_strip token) = Some (key_public_id k, ft_secret ft)"
    using assms(3) by (simp add: token generated_token_strip generated_token_parts ids)
  have "resolve_api_key_from_token env now token st' = key_answer env now token (ft_secret ft) k" for now
    using resolve_of_key [OF ok parts] assms(3) by (simp add: ids fresh_ok_def token generated_token_strip)
  moreover have "normalize_scope_tokens (key_scopes k) = key_scopes k" by (rule validated_normal [OF ids(4)])
  ultimately show ?thesis
    using ok(2) ids key_status_cases [OF status] assms(4)
    by (intro bexI [of _ k]) (auto simp: key_answer_def effective_status_def)
qed

text \<open>Rotating a key makes the new token its only one: the new token is answered as the status and expiry
  of the key say, which rotation does not touch (a revoked or expired key stays unusable), and every token of
  the old public id is refused.\<close>

theorem rotation_replaces_token:
  assumes "store_ok st" and "get_api_key st i = Some k"
    and "platform_api_keys_rotate env ft i st = Inr (st', token)"
    and "fresh_ok ft" and "ke_verify env (ft_secret ft) (ke_hash env (ft_secret ft))"
    and "ft_public_id ft \<noteq> key_public_id k"
  shows "(\<forall>now. resolve_api_key_from_token env now token st' =
      (if key_status k \<in> {''revoked'', ''inactive''} \<or> expired now k then key_invalid
       else Inr \<lparr>ka_key = rotate_api_key env ft k, ka_scopes = normalize_scope_tokens (key_scopes k), ka_token = token\<rparr>)) \<and>
    (\<forall>now tok secret. token_parts (py_strip tok) = Some (key_public_id k, secret) \<longrightarrow>
       resolve_api_key_from_token env now tok st' = key_invalid)"
proof -
  let ?k = "rotate_api_key env ft k"
  from assms(2,3) have st': "st' = put_key ?k st" and token: "token = generated_token ft"
    and fresh: "ft_public_id ft \<notin> key_public_id ` set (filter (\<lambda>r. key_id r \<noteq> i) (ks_keys st))"
    by (auto simp: platform_api_keys_rotate_def unique_violation_def split: if_splits)
  have kin: "k \<in> set (ks_keys st)" "key_id k = i" using get_api_key_Some [OF assms(2)] by auto
  have ids: "key_id ?k = i" "key_public_id ?k = ft_public_id ft" "key_token_hash ?k = ke_hash env (ft_secret ft)"
    "key_status ?k = key_status k" "key_expires_at ?k = key_expires_at k" "key_scopes ?k = key_scopes k"
    using kin by (auto simp: rotate_api_key_def)
  have ok: "store_ok st'" unfolding st' by (rule store_ok_put) (use assms(1,2) fresh ids in auto)
  have k': "?k \<in> set (ks_keys st')" unfolding st' by (rule put_key_in [OF assms(2) ids(1)])
  have parts: "token_parts (py_strip token) = Some (key_public_id ?k, ft_secret ft)"
    using assms(4) by (simp add: token generated_token_strip generated_token_parts ids)
  have new: "resolve_api_key_from_token env now token st' = key_answer env now token (ft_secret ft) ?k" for now
    using resolve_of_key [OF ok k' parts] assms(4) by (simp add: ids fresh_ok_def token generated_token_strip)
  have gone: "key_public_id x \<noteq> key_public_id k" if "x \<in> set (ks_keys st')" for x
    using that assms(1,6) kin ids unfolding st' put_key_ids(1)
    by (auto simp: store_ok_def distinct_map dest: inj_onD split: if_splits)
  have "resolve_api_key_from_token env now tok st' = key_invalid"
    if "token_parts (py_strip tok) = Some (key_public_id k, secret)" for now tok secret
  proof -
    have "List.find (\<lambda>x. key_public_id x = key_public_id k) (ks_keys st') = None"
      using gone by (auto simp: find_None_iff)
    moreover have "py_strip tok \<noteq> []" using that by (auto simp: token_parts_Some)
    ultimately show ?thesis using that by (simp add: resolve_api_key_from_token_def)
  qed
  then show ?thesis using new assms(5) by (auto simp: key_answer_def ids expired_def)
qed

section \<open>Concrete instances\<close>

definition demo_key_env :: key_env where
  "demo_key_env = \<lparr>ke_hash = rev, ke_verify = (\<lambda>s h. rev s = h)\<rparr>"

definition demo_fresh :: fresh_token where
  "demo_fresh = \<lparr>ft_public_id = ''a1'', ft_secret = ''s-1''\<rparr>"

definition demo_create :: key_create_in where
  "demo_create = \<lparr>kc_name = ''k'', kc_description = None, kc_scopes = [''tags.delete''], kc_environment = None,
     kc_allowed_ips = [], kc_status = ''active'', kc_expires_at = None, kc_expires_in_days = None, kc_created_by = Some 1\<rparr>"

definition demo_key :: api_key_row where
  "demo_key = \<lparr>key_id = 1, key_public_id = ''a1'', key_name = ''k'', key_description = None, key_status = ''active'',
     key_scopes = [''tags.delete'', ''tags.read''], key_environment = ''shared'', key_allowed_ips = [],
     key_token_hash = ''1-s'', key_token_prefix = ''s-1'', key_expires_at = Some (Aware 604800000000),
     key_created_at = 0, key_last_used_at = None, key_last_used_ip = None, key_last_used_user_agent = None,
     key_usage_count = 0, key_created_by_user_id = Some 1\<rparr>"

definition demo_keys :: key_store where
  "demo_keys = \<lparr>ks_keys = [demo_key], ks_next_id = 2\<rparr>"

lemma demo_created:
  "create_api_key demo_key_env 0 demo_fresh demo_create \<lparr>ks_keys = [], ks_next_id = 1\<rparr>
     = Inr (demo_keys, ''t2c_ext_a1.s-1'')"
  by code_simp

theorem write_keys_expire_witness:
  "\<exists>e. key_expires_at demo_key = Some e \<and> as_utc e \<le> 7 * one_day"
proof -
  have r: "foldl (key_step demo_key_env) (0, \<lparr>ks_keys = [], ks_next_id = 1\<rparr>) [(0, CreateKey demo_fresh demo_create)]
      = (0, demo_keys)"
    using demo_created by (simp add: key_step_def or_same_def)
  have "ends_with ''.delete'' ''tags.delete''" by code_simp
  moreover have "''tags.delete'' \<in> set (key_scopes demo_key)" by (simp add: demo_key_def)
  moreover have "demo_key \<in> set (ks_keys demo_keys)" by (simp add: demo_keys_def)
  ultimately show ?thesis using write_keys_expire [OF r, of demo_key "''tags.delete''" 7] by force
qed

theorem issued_token_resolves_witness:
  "resolve_api_key_from_token demo_key_env 5 ''t2c_ext_a1.s-1'' demo_keys
     = Inr \<lparr>ka_key = demo_key, ka_scopes = [''tags.delete'', ''tags.read''], ka_token = ''t2c_ext_a1.s-1''\<rparr>"
proof -
  have ok: "store_ok \<lparr>ks_keys = [], ks_next_id = 1\<rparr>" "fresh_ok demo_fresh"
    by (simp add: store_ok_def, code_simp)
  have v: "ke_verify demo_key_env (ft_secret demo_fresh) (ke_hash demo_key_env (ft_secret demo_fresh))"
    by (simp add: demo_key_env_def)
  have s: "effective_status 5 demo_key = ''active''" by code_simp
  have ks: "ks_keys demo_keys = [demo_key]" "key_scopes demo_key = [''tags.delete'', ''tags.read'']"
    by (simp_all add: demo_keys_def demo_key_def)
  from issued_token_resolves [OF ok(1) demo_created ok(2) v]
  obtain k where "k \<in> set (ks_keys demo_keys)"
    and k: "\<forall>now. resolve_api_key_from_token demo_key_env now ''t2c_ext_a1.s-1'' demo_keys =
      (if effective_status now k = ''active''
       then Inr \<lparr>ka_key = k, ka_scopes = key_scopes k, ka_token = ''t2c_ext_a1.s-1''\<rparr> else key_invalid)"
    by blast
  with ks(1) have "k = demo_key" by simp
  with spec [OF k, of 5] s ks(2) show ?thesis by simp
qed

theorem rotation_replaces_token_witness:
  "\<exists>st'. platform_api_keys_rotate demo_key_env \<lparr>ft_public_id = ''b2'', ft_secret = ''q''\<rparr> 1 demo_keys
       = Inr (st', ''t2c_ext_b2.q'')
     \<and> resolve_api_key_from_token demo_key_env 5 ''t2c_ext_a1.s-1'' st' = key_invalid"
proof -
  let ?ft = "\<lparr>ft_public_id = ''b2'', ft_secret = ''q''\<rparr>"
  let ?st = "put_key (rotate_api_key demo_key_env ?ft demo_key) demo_keys"
  have g: "get_api_key demo_keys 1 = Some demo_key" by code_simp
  have r: "platform_api_keys_rotate demo_key_env ?ft 1 demo_keys = Inr (?st, ''t2c_ext_b2.q'')"
    by code_simp
  have ok: "store_ok demo_keys" "fresh_ok ?ft" "ft_public_id ?ft \<noteq> key_public_id demo_key"
    by code_simp+
  have v: "ke_verify demo_key_env (ft_secret ?ft) (ke_hash demo_key_env (ft_secret ?ft))"
    by (simp add: demo_key_env_def)
  have t: "token_parts (py_strip ''t2c_ext_a1.s-1'') = Some (key_public_id demo_key, ''s-1'')"
    by code_simp
  from rotation_replaces_token [OF ok(1) g r ok(2) v ok(3)] t r show ?thesis by blast
qed

end
