(* ===== verification/ExternalApi.thy ===== *)
theory ExternalApi
  imports ApiKeys
begin

text \<open>
  A request to the external API: authentication by key (\<open>core/external_auth.py\<close>), the per-key rate limit
  (\<open>core/rate_limit.py\<close>) and the scope of the endpoint, in the order in which the router
  (\<open>api/external.py\<close>) declares them.

  The state is the table of keys and the table of rate limit buckets.  Audit records and abuse alerts are
  left out: they are written in blocks whose failure is swallowed and read by nothing here.  The parsed
  setting of overrides is a parameter (none when it is blank or no JSON).
\<close>

section \<open>Rate limit\<close>

definition DEFAULT_ROUTE_LIMITS :: "(string \<times> int) list" where
  "DEFAULT_ROUTE_LIMITS = [(''external.catalog'', 600), (''external.explorer'', 300),
     (''external.governance'', 240), (''external.certification'', 240), (''external.dq'', 240),
     (''external.incidents'', 240), (''external.lineage'', 180), (''external.platform'', 240),
     (''external.tags'', 300), (''external.glossary'', 300), (''external.ping'', 600),
     (''external.default'', 600)]"

record rate_settings =
  rs_enabled :: bool
  rs_window_seconds :: int
  rs_default_per_window :: int
  rs_overrides :: "py_value option"

record limit_decision =
  dec_allowed :: bool
  dec_limit :: int
  dec_remaining :: int
  dec_reset_at :: instant
  dec_bucket_start :: instant

type_synonym bucket = "int \<times> string \<times> int \<times> instant"

type_synonym buckets = "(bucket \<times> int) list"

definition route_groups :: "string list" where
  "route_groups = [''catalog'', ''explorer'', ''governance'', ''certification'', ''dq'', ''incidents'',
     ''lineage'', ''platform'', ''tags'', ''glossary'', ''ping'']"

definition route_tail :: "string \<Rightarrow> string" where
  "route_tail path =
     (let normalized = norm_token (Some path) in
      if starts_with ''/api/v1/external/'' normalized then drop (length ''/api/v1/external/'') normalized
      else if starts_with ''/api/external/'' normalized then drop (length ''/api/external/'') normalized
      else if starts_with ''/external/'' normalized then drop (length ''/external/'') normalized
      else dropWhile (\<lambda>c. c = CHR ''/'') normalized)"

definition external_route_group :: "string \<Rightarrow> string" where
  "external_route_group path =
     (case List.find (\<lambda>g. starts_with g (route_tail path)) route_groups of
        None \<Rightarrow> ''external.default''
      | Some g \<Rightarrow> ''external.'' @ g)"

definition rate_limit_overrides :: "rate_settings \<Rightarrow> (string \<times> int) list res" where
  "rate_limit_overrides rs =
     (case rs_overrides rs of
        Some (PDict d) \<Rightarrow>
          res_map (\<lambda>(k, v). res_bind (py_int v) (\<lambda>n. Inr (k, n))) (filter (\<lambda>(k, v). py_strip k \<noteq> '''') d)
      | _ \<Rightarrow> Inr [])"

definition resolve_limit :: "rate_settings \<Rightarrow> string \<Rightarrow> int res" where
  "resolve_limit rs route_group =
     res_bind (rate_limit_overrides rs) (\<lambda>overrides.
       Inr (case map_of (rev overrides) route_group of
              Some n \<Rightarrow> max 1 n
            | None \<Rightarrow>
                (case map_of (rev overrides) ''external.default'' of
                   Some n \<Rightarrow> max 1 n
                 | None \<Rightarrow>
                     (case map_of DEFAULT_ROUTE_LIMITS route_group of
                        Some n \<Rightarrow> max 1 n
                      | None \<Rightarrow> max 1 (rs_default_per_window rs)))))"

definition one_second :: int where "one_second = 1000000"

definition bucket_start :: "instant \<Rightarrow> int \<Rightarrow> instant" where
  "bucket_start now window_seconds =
     (let window = max 1 window_seconds; secs = now div one_second in
      (secs - secs mod window) * one_second)"

definition rate_limit_decision ::
  "instant \<Rightarrow> int \<Rightarrow> string \<Rightarrow> int \<Rightarrow> int \<Rightarrow> buckets \<Rightarrow> limit_decision \<times> buckets" where
  "rate_limit_decision now api_key_id route_group window_seconds limit bs =
     (let start = bucket_start now window_seconds;
          b = (api_key_id, route_group, window_seconds, start);
          counter = (case map_of bs b of None \<Rightarrow> 1 | Some n \<Rightarrow> n + 1)
      in (\<lparr>dec_allowed = (counter \<le> limit), dec_limit = limit, dec_remaining = max 0 (limit - counter),
           dec_reset_at = start + window_seconds * one_second, dec_bucket_start = start\<rparr>,
          dict_set b counter bs))"

definition enforce_external_rate_limit ::
  "rate_settings \<Rightarrow> instant \<Rightarrow> string \<Rightarrow> key_auth \<Rightarrow> buckets \<Rightarrow> limit_decision res \<times> buckets" where
  "enforce_external_rate_limit rs now path auth bs =
     (if \<not> rs_enabled rs then
        (Inr \<lparr>dec_allowed = True, dec_limit = 0, dec_remaining = 0, dec_reset_at = now, dec_bucket_start = now\<rparr>, bs)
      else
        (let route_group = external_route_group path; window_seconds = max 1 (rs_window_seconds rs) in
         case resolve_limit rs route_group of
           Inl e \<Rightarrow> (Inl e, bs)
         | Inr limit \<Rightarrow>
             (let (d, bs') = rate_limit_decision now (key_id (ka_key auth)) route_group window_seconds limit bs
              in (if \<not> dec_allowed d then Inl (HTTPException 429 ''Rate limit excedido para esta credencial.'')
                  else Inr d, bs'))))"

section \<open>Authentication\<close>

record external_request =
  xr_api_key :: "string option"
  xr_client_ip :: "string option"
  xr_user_agent :: "string option"
  xr_path :: string
  xr_required_scopes :: "string list"

record external_state =
  xs_keys :: key_store
  xs_buckets :: buckets

definition used_key :: "instant \<Rightarrow> external_request \<Rightarrow> api_key_row \<Rightarrow> api_key_row" where
  "used_key now req k = k\<lparr>key_last_used_at := Some now, key_last_used_ip := xr_client_ip req,
     key_last_used_user_agent := xr_user_agent req, key_usage_count := key_usage_count k + 1\<rparr>"

definition get_external_api_key ::
  "key_env \<Rightarrow> instant \<Rightarrow> external_request \<Rightarrow> key_store \<Rightarrow> key_auth res \<times> key_store" where
  "get_external_api_key env now req st =
     (if \<not> str_true (xr_api_key req) then (key_missing, st)
      else case resolve_api_key_from_token env now (or_empty (xr_api_key req)) st of
             Inl e \<Rightarrow> (Inl e, st)
           | Inr auth \<Rightarrow>
               if \<not> is_api_key_ip_allowed (ka_key auth) (xr_client_ip req)
               then (Inl (HTTPException 403 ''API key nao autorizada para este IP''), st)
               else (let k = used_key now req (ka_key auth) in (Inr (auth\<lparr>ka_key := k\<rparr>), put_key k st)))"

text \<open>The dependencies of an endpoint of the external router: the rate limit of the router (which authenticates),
  then the scopes of the endpoint.  What was committed before a refusal stays.\<close>

definition external_call ::
  "key_env \<Rightarrow> rate_settings \<Rightarrow> instant \<Rightarrow> external_request \<Rightarrow> external_state
     \<Rightarrow> (key_auth \<times> limit_decision) res \<times> external_state" where
  "external_call env rs now req st =
     (case get_external_api_key env now req (xs_keys st) of
        (Inl e, ks) \<Rightarrow> (Inl e, st\<lparr>xs_keys := ks\<rparr>)
      | (Inr auth, ks) \<Rightarrow>
          (case enforce_external_rate_limit rs now (xr_path req) auth (xs_buckets st) of
             (Inl e, bs) \<Rightarrow> (Inl e, st\<lparr>xs_keys := ks, xs_buckets := bs\<rparr>)
           | (Inr d, bs) \<Rightarrow>
               (res_bind (ensure_scopes auth (xr_required_scopes req)) (\<lambda>_. Inr (auth, d)),
                st\<lparr>xs_keys := ks, xs_buckets := bs\<rparr>)))"

section \<open>Facts\<close>

lemma ensure_scopes_Inr:
  "ensure_scopes auth required = Inr () \<longleftrightarrow> required = [] \<or> (\<exists>t\<in>set required. py_lower t \<in> set (ka_scopes auth))"
  by (auto simp: ensure_scopes_def list_ex_iff)

lemma ip_allowed_iff:
  "is_api_key_ip_allowed k ip \<longleftrightarrow>
     (\<forall>v\<in>set (key_allowed_ips k). py_strip v = '''') \<or>
     (\<exists>v\<in>set (key_allowed_ips k). py_strip v \<noteq> '''' \<and> str_true ip \<and> ip_matches_rule (or_empty ip) (py_strip v))"
  by (auto simp: is_api_key_ip_allowed_def Let_def list_ex_iff filter_empty_conv)

lemma put_key_other:
  "x \<in> set (ks_keys st) \<Longrightarrow> key_id x \<noteq> key_id k \<Longrightarrow> x \<in> set (ks_keys (put_key k st))"
  by (force simp: put_key_ids)

section \<open>Properties\<close>

text \<open>One counted request: its instant, key and route group.\<close>

definition hit_bucket :: "int \<Rightarrow> instant \<times> int \<times> string \<Rightarrow> bucket" where
  "hit_bucket w h = (case h of (now, key, grp) \<Rightarrow> (key, grp, w, bucket_start now w))"

fun run_hits :: "int \<Rightarrow> int \<Rightarrow> (instant \<times> int \<times> string) list \<Rightarrow> buckets \<Rightarrow> bool list" where
  "run_hits w limit [] bs = []"
| "run_hits w limit ((now, key, grp) # hs) bs =
     (let (d, bs') = rate_limit_decision now key grp w limit bs in dec_allowed d # run_hits w limit hs bs')"

definition seen :: "buckets \<Rightarrow> bucket \<Rightarrow> int" where
  "seen bs b = (case map_of bs b of None \<Rightarrow> 0 | Some n \<Rightarrow> n)"

lemma decision_step:
  "rate_limit_decision now key grp w limit bs = (d, bs') \<Longrightarrow> b = hit_bucket w (now, key, grp) \<Longrightarrow>
     (dec_allowed d \<longleftrightarrow> seen bs b + 1 \<le> limit) \<and> seen bs' b = seen bs b + 1 \<and> (\<forall>c. c \<noteq> b \<longrightarrow> seen bs' c = seen bs c)"
  by (auto simp: rate_limit_decision_def Let_def hit_bucket_def seen_def map_of_dict_set split: option.splits)

lemma run_hits_bucket:
  "0 \<le> seen bs b \<Longrightarrow>
     map snd (filter (\<lambda>(h, _). hit_bucket w h = b) (zip hs (run_hits w limit hs bs)))
       = map (\<lambda>i. seen bs b + int i < limit) [0..<length (filter (\<lambda>h. hit_bucket w h = b) hs)]"
proof (induction w limit hs bs rule: run_hits.induct)
  case (1 w limit bs)
  then show ?case by simp
next
  case (2 w limit now key grp hs bs)
  obtain d bs' where d: "rate_limit_decision now key grp w limit bs = (d, bs')" by fastforce
  note step = decision_step [OF d refl]
  let ?h = "(now, key, grp)"
  have other: "seen bs' b = seen bs b" if "b \<noteq> hit_bucket w ?h" using step that by blast
  have nonneg: "0 \<le> seen bs' b" using 2(2) step other by (cases "b = hit_bucket w ?h") auto
  note IH = 2(1) [OF d [symmetric] refl nonneg]
  show ?case
  proof (cases "b = hit_bucket w ?h")
    case True
    with step have s: "seen bs' b = seen bs b + 1" "dec_allowed d \<longleftrightarrow> seen bs b < limit" by auto
    have shift: "map (\<lambda>i. seen bs b + int i < limit) [0..<Suc n]
        = (seen bs b < limit) # map (\<lambda>i. seen bs b + 1 + int i < limit) [0..<n]" for n
      by (simp only: map_upt_Suc) (simp add: algebra_simps)
    show ?thesis using IH True [symmetric] s by (simp add: d shift del: upt_Suc)
  next
    case False
    then show ?thesis using IH other by (auto simp: d)
  qed
qed

text \<open>The requests of a key and route group in the \<open>k\<close>-th window since the epoch; a window has at least one
  second.\<close>

definition in_window :: "int \<Rightarrow> int \<Rightarrow> int \<Rightarrow> string \<Rightarrow> instant \<times> int \<times> string \<Rightarrow> bool" where
  "in_window w k key grp h = (case h of (now, key', grp') \<Rightarrow> key' = key \<and> grp' = grp
     \<and> k * max 1 w * one_second \<le> now \<and> now < (k + 1) * max 1 w * one_second)"

lemma window_index:
  assumes "0 < (m :: int)"
  shows "now div m = k \<longleftrightarrow> k * m \<le> now \<and> now < (k + 1) * m"
proof -
  have "now div m * m \<le> now" "now < now div m * m + m"
    using div_mult_mod_eq [of now m] pos_mod_sign [OF assms, of now] pos_mod_bound [OF assms, of now] by linarith+
  moreover have "(k + 1) * m = k * m + m" by (simp add: distrib_right)
  moreover have "now div m = k" if "k * m \<le> now" "now < k * m + m"
    using that by (intro int_div_pos_eq [of now m k "now - k * m"]) (simp_all add: mult.commute)
  ultimately show ?thesis by auto
qed

lemma bucket_is_window:
  "hit_bucket w h = (key, grp, w, k * max 1 w * one_second) \<longleftrightarrow> in_window w k key grp h"
proof -
  obtain now key' grp' where h: "h = (now, key', grp')" by (cases h)
  let ?w = "max 1 w"
  have pos: "0 < ?w * one_second" by (simp add: one_second_def)
  have "now div (?w * one_second) = now div one_second div ?w"
    by (subst mult.commute) (rule zdiv_zmult2_eq, simp)
  then have "bucket_start now w = now div (?w * one_second) * (?w * one_second)"
    by (simp add: bucket_start_def Let_def minus_mod_eq_div_mult)
  then have "bucket_start now w = k * ?w * one_second \<longleftrightarrow> now div (?w * one_second) = k"
    using pos by (auto simp: mult.assoc)
  also have "\<dots> \<longleftrightarrow> k * (?w * one_second) \<le> now \<and> now < (k + 1) * (?w * one_second)"
    by (rule window_index [OF pos])
  finally show ?thesis by (auto simp: h hit_bucket_def in_window_def mult.assoc)
qed

text \<open>C10: of all requests with one key and route group whose times lie in one window, aligned to multiples of
  its length since the epoch, exactly the first \<open>limit\<close> are admitted, in whatever order requests of other
  keys, route groups and windows come between them.\<close>

theorem rate_limit_window:
  "map snd (filter (\<lambda>(h, _). in_window w k key grp h) (zip hits (run_hits w limit hits [])))
     = map (\<lambda>i. int i < limit) [0..<length (filter (in_window w k key grp) hits)]"
  using run_hits_bucket [of "[]" "(key, grp, w, k * max 1 w * one_second)" w hits limit]
  by (simp add: bucket_is_window seen_def)

text \<open>C9: a call that gets through was made with the token of a stored, active, unexpired key whose secret
  verifies, from an address its allow-list admits, carries one of the scopes the endpoint asks for, and stayed
  within the limit of its bucket; the only change to the table of keys is the record of this use.\<close>

theorem external_call_sound:
  assumes "external_call env rs now req st = (Inr (auth, d), st')"
  shows "\<exists>k secret. k \<in> set (ks_keys (xs_keys st)) \<and> effective_status now k = ''active'' \<and>
    token_parts (py_strip (or_empty (xr_api_key req))) = Some (key_public_id k, secret) \<and>
    ke_verify env secret (key_token_hash k) \<and>
    is_api_key_ip_allowed k (xr_client_ip req) \<and>
    (xr_required_scopes req = [] \<or>
      (\<exists>t\<in>set (xr_required_scopes req). py_lower t \<in> set (normalize_scope_tokens (key_scopes k)))) \<and>
    (rs_enabled rs \<longrightarrow> resolve_limit rs (external_route_group (xr_path req)) = Inr (dec_limit d) \<and>
      seen (xs_buckets st') (hit_bucket (max 1 (rs_window_seconds rs)) (now, key_id k, external_route_group (xr_path req)))
        \<le> dec_limit d) \<and>
    xs_keys st' = put_key (used_key now req k) (xs_keys st)"
proof -
  from assms obtain ks where g: "get_external_api_key env now req (xs_keys st) = (Inr auth, ks)"
    and scopes: "ensure_scopes auth (xr_required_scopes req) = Inr ()"
    and rate: "enforce_external_rate_limit rs now (xr_path req) auth (xs_buckets st) = (Inr d, xs_buckets st')"
    and ks: "xs_keys st' = ks"
    by (auto simp: external_call_def res_bind_Inr_iff split: prod.splits sum.splits)
  from g obtain a where r: "resolve_api_key_from_token env now (or_empty (xr_api_key req)) (xs_keys st) = Inr a"
    and ip: "is_api_key_ip_allowed (ka_key a) (xr_client_ip req)"
    and auth: "auth = a\<lparr>ka_key := used_key now req (ka_key a)\<rparr>"
    and ks': "ks = put_key (used_key now req (ka_key a)) (xs_keys st)"
    by (auto simp: get_external_api_key_def key_missing_def Let_def split: if_splits sum.splits)
  note key = resolve_Inr [OF r]
  have id: "key_id (ka_key auth) = key_id (ka_key a)" by (simp add: auth used_key_def)
  have active: "effective_status now (ka_key a) = ''active''"
    using key by (auto simp: effective_status_def)
  have sc: "xr_required_scopes req = [] \<or>
      (\<exists>t\<in>set (xr_required_scopes req). py_lower t \<in> set (normalize_scope_tokens (key_scopes (ka_key a))))"
    using scopes key by (simp add: ensure_scopes_Inr auth)
  have lim: "resolve_limit rs (external_route_group (xr_path req)) = Inr (dec_limit d) \<and>
      seen (xs_buckets st') (hit_bucket (max 1 (rs_window_seconds rs)) (now, key_id (ka_key a), external_route_group (xr_path req)))
        \<le> dec_limit d" if on: "rs_enabled rs"
  proof -
    from rate on obtain limit where l: "resolve_limit rs (external_route_group (xr_path req)) = Inr limit"
      and dec: "rate_limit_decision now (key_id (ka_key a)) (external_route_group (xr_path req))
          (max 1 (rs_window_seconds rs)) limit (xs_buckets st) = (d, xs_buckets st')"
      and ok: "dec_allowed d"
      by (auto simp: enforce_external_rate_limit_def Let_def id split: sum.splits prod.splits if_splits)
    have "dec_limit d = limit" using dec by (auto simp: rate_limit_decision_def Let_def)
    with l ok decision_step [OF dec refl] show ?thesis by simp
  qed
  show ?thesis
    using key ip active sc lim ks ks' by blast
qed

theorem external_call_sound_witness:
  "is_api_key_ip_allowed (demo_key\<lparr>key_allowed_ips := [''10.0.0.0/8'']\<rparr>) (Some ''10.1.2.3'')"
proof -
  let ?k = "demo_key\<lparr>key_allowed_ips := [''10.0.0.0/8'']\<rparr>"
  let ?rs = "\<lparr>rs_enabled = True, rs_window_seconds = 60, rs_default_per_window = 600, rs_overrides = None\<rparr>"
  let ?req = "\<lparr>xr_api_key = Some ''t2c_ext_a1.s-1'', xr_client_ip = Some ''10.1.2.3'', xr_user_agent = None,
    xr_path = ''/external/tags'', xr_required_scopes = [''tags.read'']\<rparr>"
  let ?st = "\<lparr>xs_keys = \<lparr>ks_keys = [?k], ks_next_id = 2\<rparr>, xs_buckets = []\<rparr>"
  obtain r st' where c: "external_call demo_key_env ?rs 5000000 ?req ?st = (r, st')" by fastforce
  have "isl (fst (external_call demo_key_env ?rs 5000000 ?req ?st)) = False" by code_simp
  with c obtain auth d where r: "r = Inr (auth, d)" by (cases r) auto
  from external_call_sound [OF c [unfolded r]] show ?thesis by force
qed

end
