(* ===== verification/Certification.thy ===== *)
theory Certification
  imports Models
begin

text \<open>
  Certification of tables, \<open>features/certification/api_support.py\<close> with the handlers of
  \<open>api/certification.py\<close> that change a table: the checklist of ten gates, the two ways in which the code
  derives the effective status, the transition table, the validation of a change and its application.

  The rows the queries read are lists of records (\<open>cert_db\<close>); row order where a query gives none is table
  order.  Parameters: whether the user may see the table, and whether the ingestion database reports a
  recurrent degradation.  The free text \<open>detail\<close> of a gate and the metadata copied into an event are left
  out.  Intervals of the governance settings are at most 3650 days, so sums of instants stay in range.
\<close>

section \<open>Rows\<close>

record cert_column =
  cc_dictionary_description :: "string option"
  cc_description_manual :: "string option"
  cc_description_source :: "string option"

record cert_table =
  ct_id :: int
  ct_schema_name :: string
  ct_name :: string
  ct_description_manual :: "string option"
  ct_description_source :: "string option"
  ct_columns :: "cert_column list"
  ct_data_owner_id :: "int option"
  ct_owner :: "string option"
  ct_has_personal_data :: bool
  ct_has_sensitive_personal_data :: bool
  ct_privacy_reviewed_at :: "instant option"
  ct_legal_basis :: "string option"
  ct_privacy_purpose :: "string option"
  ct_updated_at :: "instant option"
  ct_status :: "string option"
  ct_criticality :: "string option"
  ct_badges :: "string list option"
  ct_notes :: "string option"
  ct_submitted_by :: "int option"
  ct_submitted_at :: "instant option"
  ct_decided_by :: "int option"
  ct_decided_at :: "instant option"
  ct_review_at :: "instant option"
  ct_expires_at :: "instant option"

record dq_metric_row =
  dm_table_id :: int
  dm_run_id :: int
  dm_run_status :: string
  dm_run_finished_at :: "instant option"
  dm_score :: "rat option"

record cert_incident_row =
  ci_entity_type :: string
  ci_table_fqn :: "string option"
  ci_severity :: string
  ci_status :: string
  ci_source_type :: "string option"

record dq_rule_row =
  dr_id :: int
  dr_table_id :: "int option"
  dr_name :: string
  dr_is_active :: bool

record dq_rule_run_row =
  rr_id :: int
  rr_rule_id :: int
  rr_status :: string
  rr_violations_count :: int
  rr_created_at :: instant

record cert_db =
  cd_metrics :: "dq_metric_row list"
  cd_incidents :: "cert_incident_row list"
  cd_rules :: "dq_rule_row list"
  cd_rule_runs :: "dq_rule_run_row list"
  cd_tag_count :: "int \<Rightarrow> nat"
  cd_term_count :: "int \<Rightarrow> nat"

section \<open>Facts about a table\<close>

definition table_fqn :: "cert_table \<Rightarrow> string" where
  "table_fqn t = ct_schema_name t @ ''.'' @ ct_name t"

definition latest_dq_score :: "cert_db \<Rightarrow> int \<Rightarrow> rat option" where
  "latest_dq_score db table_id =
     (case first_by (\<lambda>m. (NullsLast (map_option Desc (dm_run_finished_at m)), Desc (dm_run_id m)))
         (filter (\<lambda>m. dm_table_id m = table_id \<and> dm_run_status m = ''success'') (cd_metrics db)) of
        None \<Rightarrow> None
      | Some m \<Rightarrow> dm_score m)"

definition incident_open :: "cert_incident_row \<Rightarrow> bool" where
  "incident_open i = (ci_status i = ''open'' \<or> ci_status i = ''investigating'')"

definition has_open_critical_incident :: "cert_db \<Rightarrow> cert_table \<Rightarrow> bool" where
  "has_open_critical_incident db t =
     list_ex (\<lambda>i. ci_entity_type i = ''table'' \<and> ci_table_fqn i = Some (table_fqn t) \<and> ci_severity i = ''sev1''
       \<and> incident_open i) (cd_incidents db)"

definition table_description_complete :: "cert_table \<Rightarrow> bool" where
  "table_description_complete t =
     (py_strip (or_else (or_empty (ct_description_manual t)) (or_empty (ct_description_source t))) \<noteq> '''')"

definition column_documented :: "cert_column \<Rightarrow> bool" where
  "column_documented c = (py_strip (or_empty (cc_dictionary_description c)) \<noteq> ''''
     \<or> py_strip (or_empty (cc_description_manual c)) \<noteq> '''' \<or> py_strip (or_empty (cc_description_source c)) \<noteq> '''')"

definition percent :: "nat \<Rightarrow> nat \<Rightarrow> int" where
  "percent part whole = py_round (of_nat part / of_nat whole * 100)"

definition column_documentation_coverage :: "cert_table \<Rightarrow> nat \<times> nat \<times> int" where
  "column_documentation_coverage t =
     (if ct_columns t = [] then (0, 0, 0)
      else (let documented = length (filter column_documented (ct_columns t)); total = length (ct_columns t)
            in (documented, total, percent documented total)))"

definition review_is_recent :: "instant \<Rightarrow> cert_table \<Rightarrow> bool" where
  "review_is_recent now t =
     (let candidates = List.map_filter id [ct_decided_at t, ct_review_at t]
      in candidates \<noteq> [] \<and> Max (set candidates) \<ge> now - 90 * one_day)"

definition latest_rule_run :: "cert_db \<Rightarrow> dq_rule_row \<Rightarrow> dq_rule_run_row option" where
  "latest_rule_run db r = first_by (\<lambda>run. (Desc (rr_created_at run), Desc (rr_id run)))
     (filter (\<lambda>run. rr_rule_id run = dr_id r) (cd_rule_runs db))"

definition active_rules :: "cert_db \<Rightarrow> cert_table \<Rightarrow> dq_rule_row list" where
  "active_rules db t = filter (\<lambda>r. dr_table_id r = Some (ct_id t) \<and> dr_is_active r) (cd_rules db)"

record dq_violation =
  dv_active :: bool
  dv_count :: nat
  dv_rule_names :: "string list"

definition active_dq_violation_summary :: "cert_db \<Rightarrow> cert_table \<Rightarrow> dq_violation" where
  "active_dq_violation_summary db t =
     (let rules = active_rules db t in
      if rules = [] then \<lparr>dv_active = False, dv_count = 0, dv_rule_names = []\<rparr>
      else
        (let names = map dr_name (filter (\<lambda>r. case latest_rule_run db r of
               None \<Rightarrow> False
             | Some run \<Rightarrow> py_lower (rr_status run) = ''fail'' \<and> rr_violations_count run > 0) rules);
             incidents = length (filter (\<lambda>i. ci_entity_type i = ''table'' \<and> ci_table_fqn i = Some (table_fqn t)
               \<and> ci_source_type i = Some ''dq_rule'' \<and> incident_open i) (cd_incidents db))
         in \<lparr>dv_active = (names \<noteq> [] \<or> incidents > 0), dv_count = incidents, dv_rule_names = names\<rparr>))"

section \<open>The checklist\<close>

record gate =
  gate_key :: string
  gate_label :: string
  gate_passed :: bool

definition privacy_required :: "cert_table \<Rightarrow> bool" where
  "privacy_required t = (ct_has_personal_data t \<or> ct_has_sensitive_personal_data t)"

definition privacy_context :: "cert_table \<Rightarrow> bool" where
  "privacy_context t = (py_strip (or_empty (ct_legal_basis t)) \<noteq> '''' \<and> py_strip (or_empty (ct_privacy_purpose t)) \<noteq> '''')"

definition owner_defined :: "cert_table \<Rightarrow> bool" where
  "owner_defined t = ((case ct_data_owner_id t of None \<Rightarrow> False | Some i \<Rightarrow> i \<noteq> 0)
     \<or> py_strip (or_empty (ct_owner t)) \<noteq> '''')"

definition certification_gates :: "cert_db \<Rightarrow> instant \<Rightarrow> cert_table \<Rightarrow> gate list" where
  "certification_gates db now t =
     (let (documented, total, pct) = column_documentation_coverage t in
      [\<lparr>gate_key = ''owner_defined'', gate_label = ''Owner definido'', gate_passed = owner_defined t\<rparr>,
       \<lparr>gate_key = ''table_description_complete'', gate_label = ''Descricao da tabela'',
         gate_passed = table_description_complete t\<rparr>,
       \<lparr>gate_key = ''documentation_coverage'', gate_label = ''Colunas documentadas >= 80%'',
         gate_passed = total > 0 \<and> pct \<ge> 80\<rparr>,
       \<lparr>gate_key = ''tags_applied'', gate_label = ''Tags aplicadas'', gate_passed = cd_tag_count db (ct_id t) > 0\<rparr>,
       \<lparr>gate_key = ''terms_associated'', gate_label = ''Termos associados'',
         gate_passed = cd_term_count db (ct_id t) > 0\<rparr>,
       \<lparr>gate_key = ''privacy_reviewed'', gate_label = ''Privacidade revisada quando aplicavel'',
         gate_passed = (privacy_required t \<longrightarrow> ct_privacy_reviewed_at t \<noteq> None)\<rparr>,
       \<lparr>gate_key = ''privacy_context_complete'', gate_label = ''Base legal e finalidade registradas quando aplicavel'',
         gate_passed = (privacy_required t \<longrightarrow> privacy_context t)\<rparr>,
       \<lparr>gate_key = ''dq_score'', gate_label = ''DQ score >= 90'',
         gate_passed = (case latest_dq_score db (ct_id t) of None \<Rightarrow> False | Some s \<Rightarrow> s \<ge> 90)\<rparr>,
       \<lparr>gate_key = ''no_critical_incidents'', gate_label = ''Sem incidente critico aberto'',
         gate_passed = (\<not> has_open_critical_incident db t)\<rparr>,
       \<lparr>gate_key = ''review_recent'', gate_label = ''Revisao realizada nos ultimos 90 dias'',
         gate_passed = review_is_recent now t\<rparr>])"

definition gates_completed :: "gate list \<Rightarrow> nat" where
  "gates_completed checks = length (filter gate_passed checks)"

definition readiness :: "gate list \<Rightarrow> int" where
  "readiness checks = (if checks = [] then 0 else percent (gates_completed checks) (length checks))"

definition gates_eligible :: "gate list \<Rightarrow> bool" where
  "gates_eligible checks =
     ((if checks = [] then 0 else of_nat (gates_completed checks) / of_nat (length checks) * 100 :: rat) \<ge> 50)"

definition missing_certification_gates :: "gate list \<Rightarrow> gate list" where
  "missing_certification_gates checks = filter (\<lambda>g. \<not> gate_passed g) checks"

section \<open>The effective status, twice\<close>

definition CERTIFICATION_STATUSES :: "string list" where
  "CERTIFICATION_STATUSES = [''not_eligible'', ''eligible'', ''in_review'', ''certified'', ''rejected'', ''expired'',
     ''revalidation_pending'']"

definition CERTIFICATION_CRITICALITIES :: "string list" where
  "CERTIFICATION_CRITICALITIES = [''low'', ''medium'', ''high'', ''critical'']"

definition CERTIFICATION_BADGES :: "string list" where
  "CERTIFICATION_BADGES = [''internal_use'', ''official_use'', ''restricted_sensitive'']"

definition CERTIFICATION_STATUS_LABELS :: "(string \<times> string) list" where
  "CERTIFICATION_STATUS_LABELS = [(''not_assessed'', ''Nao elegivel''), (''not_eligible'', ''Nao elegivel''),
     (''eligible'', ''Elegivel''), (''in_review'', ''Em revisao''), (''certified'', ''Certificado''),
     (''rejected'', ''Recusado''), (''expired'', ''Vencido''), (''revalidation_pending'', ''Pendente de revalidacao'')]"

definition status_token :: "string option \<Rightarrow> string" where
  "status_token v = or_else (py_strip (or_else (or_empty v) ''not_eligible'')) ''not_eligible''"

definition certification_status_label :: "string option \<Rightarrow> string" where
  "certification_status_label v =
     (case map_of CERTIFICATION_STATUS_LABELS (status_token v) of None \<Rightarrow> status_token v | Some l \<Rightarrow> l)"

definition normalized_workflow_status :: "string option \<Rightarrow> string" where
  "normalized_workflow_status v = (if status_token v = ''not_assessed'' then ''not_eligible'' else status_token v)"

definition past_due :: "instant \<Rightarrow> instant option \<Rightarrow> bool" where
  "past_due now x = (case x of None \<Rightarrow> False | Some t \<Rightarrow> t \<le> now)"

text \<open>The signals both derivations read: readiness, an active data quality violation, the number of open critical
  incidents, and the operational signal.\<close>

record cert_signals =
  sg_readiness :: int
  sg_dq :: dq_violation
  sg_incidents :: nat
  sg_operational :: bool

definition certification_status_rule :: "string \<Rightarrow> cert_signals \<Rightarrow> string" where
  "certification_status_rule status g =
     (if status = ''in_review'' then ''manual_in_review''
      else if status = ''rejected'' then ''manual_rejected''
      else if status = ''expired'' then ''automatic_expired''
      else if status = ''revalidation_pending'' then
        (if dv_active (sg_dq g) then ''automatic_dq_revalidation''
         else if sg_incidents g > 0 then ''automatic_incident_revalidation''
         else if sg_operational g then ''automatic_operational_revalidation''
         else if sg_readiness g \<ge> 70 then ''automatic_certified_hysteresis_revalidation''
         else ''automatic_revalidation'')
      else if sg_readiness g \<ge> 80 \<and> \<not> dv_active (sg_dq g) then ''automatic_readiness_certified''
      else if sg_readiness g \<ge> 50 then ''automatic_readiness_eligible''
      else ''automatic_readiness_not_eligible'')"

definition named_violation :: "string \<Rightarrow> string \<Rightarrow> dq_violation \<Rightarrow> string" where
  "named_violation with_names without_names v =
     (if dv_rule_names v \<noteq> [] then with_names @ join_with '', '' (take 3 (dv_rule_names v)) @ ''.''
      else without_names)"

definition certification_status_reason :: "string \<Rightarrow> cert_signals \<Rightarrow> string" where
  "certification_status_reason status g =
     (if status = ''in_review'' then ''Decisao manual em revisao.''
      else if status = ''rejected'' then ''Decisao manual recusada.''
      else if status = ''expired'' then ''A certificacao venceu e precisa ser revalidada.''
      else if status = ''revalidation_pending'' then
        (if dv_active (sg_dq g) then
           named_violation ''Violacao ativa de Data Quality em '' ''Violacao ativa de Data Quality.'' (sg_dq g)
         else if sg_incidents g > 0 then
           ''Existe incidente critico aberto e a certificacao precisa ser revalidada.''
         else if sg_operational g then
           ''A estabilidade operacional indica reavaliacao obrigatoria da certificacao.''
         else if sg_readiness g \<ge> 70 then
           ''A certificacao foi colocada em reavaliacao preventiva por oscilacao relevante de prontidao.''
         else ''A certificacao requer revalidacao.'')
      else if status = ''certified'' then
        ''Certificada automaticamente por prontidao >= 80% e sem sinais de degradacao critica.''
      else if status = ''eligible'' then ''Elegivel automaticamente por prontidao >= 50%.''
      else if dv_active (sg_dq g) then
        named_violation ''Ha violacao ativa de Data Quality em '' ''Ha violacao ativa de Data Quality.'' (sg_dq g)
      else if sg_readiness g \<ge> 50 then ''Prontidao >= 50%, aguardando criterios para certificacao.''
      else ''Prontidao abaixo do patamar minimo para certificacao.'')"

definition evaluated_status :: "cert_table \<Rightarrow> instant \<Rightarrow> cert_signals \<Rightarrow> string" where
  "evaluated_status t now g =
     (let current = normalized_workflow_status (ct_status t);
          certified = sg_readiness g \<ge> 80;
          violation = dv_active (sg_dq g)
      in if current = ''in_review'' then ''in_review''
         else if current = ''rejected'' then ''rejected''
         else if current = ''certified'' then
           (if past_due now (ct_expires_at t) then ''expired''
            else if violation \<or> sg_incidents g > 0 \<or> sg_operational g then ''revalidation_pending''
            else if certified \<and> sg_readiness g \<ge> 70 then ''certified''
            else ''revalidation_pending'')
         else if current = ''revalidation_pending'' then
           (if certified \<and> \<not> violation \<and> sg_incidents g = 0 \<and> \<not> sg_operational g then ''certified''
            else ''revalidation_pending'')
         else if certified \<and> \<not> violation then ''certified''
         else if sg_readiness g \<ge> 50 then ''eligible''
         else ''not_eligible'')"

definition status_source :: "string \<Rightarrow> string" where
  "status_source status = (if status = ''in_review'' \<or> status = ''rejected'' then ''manual'' else ''automatic'')"

definition evaluation_next_step :: "string \<Rightarrow> string" where
  "evaluation_next_step status =
     (if status = ''in_review'' then ''Concluir decisao de certificacao''
      else if status = ''eligible'' then ''Decisao automatica aplicada''
      else if status = ''not_eligible'' then ''Completar criterios de prontidao''
      else if status = ''rejected'' then ''Corrigir gaps e reenviar para revisao''
      else if status = ''revalidation_pending'' \<or> status = ''expired'' then ''Corrigir bloqueios e iniciar revalidacao''
      else ''Monitorar validade e sinais operacionais'')"

record certification_evaluation =
  ev_readiness_score :: int
  ev_readiness_completed :: nat
  ev_readiness_total :: nat
  ev_eligible_for_certification :: bool
  ev_certified_for_certification :: bool
  ev_dq :: dq_violation
  ev_status :: string
  ev_status_label :: string
  ev_status_source :: string
  ev_status_rule :: string
  ev_status_reason :: string
  ev_revalidation_required :: bool
  ev_next_step :: string

definition evaluate_certification ::
  "cert_table \<Rightarrow> instant \<Rightarrow> nat \<Rightarrow> nat \<Rightarrow> cert_signals \<Rightarrow> certification_evaluation" where
  "evaluate_certification t now completed gates g =
     (let status = evaluated_status t now g in
      \<lparr>ev_readiness_score = sg_readiness g, ev_readiness_completed = completed, ev_readiness_total = gates,
       ev_eligible_for_certification = (sg_readiness g \<ge> 50),
       ev_certified_for_certification = (sg_readiness g \<ge> 80), ev_dq = sg_dq g,
       ev_status = status, ev_status_label = certification_status_label (Some status),
       ev_status_source = status_source status, ev_status_rule = certification_status_rule status g,
       ev_status_reason = certification_status_reason status g,
       ev_revalidation_required = (status = ''revalidation_pending'' \<or> status = ''expired''),
       ev_next_step = evaluation_next_step status\<rparr>)"

text \<open>The second derivation, used for the transitions, the guidance and the dashboards.\<close>

definition resolve_certification_status :: "cert_table \<Rightarrow> instant \<Rightarrow> cert_signals \<Rightarrow> string" where
  "resolve_certification_status t now g =
     (let current = normalized_workflow_status (ct_status t);
          eligible_flag = sg_readiness g \<ge> 50;
          certified_flag = sg_readiness g \<ge> 80;
          violation = dv_active (sg_dq g)
      in if past_due now (ct_expires_at t) \<and> current \<in> {''certified'', ''revalidation_pending'', ''expired''} then ''expired''
         else if current = ''certified'' then
           (if violation \<or> sg_incidents g > 0 \<or> sg_operational g then ''revalidation_pending''
            else if certified_flag \<and> sg_readiness g \<ge> 70 then ''certified''
            else ''revalidation_pending'')
         else if current = ''revalidation_pending'' then
           (if certified_flag \<and> \<not> violation \<and> sg_incidents g = 0 \<and> \<not> sg_operational g then ''certified''
            else ''revalidation_pending'')
         else if violation \<and> current \<in> {''certified'', ''revalidation_pending''} then ''revalidation_pending''
         else if current \<in> {''in_review'', ''rejected''} then current
         else if current = ''certified'' then
           (if certified_flag \<and> \<not> violation then ''certified'' else if eligible_flag then ''eligible'' else ''not_eligible'')
         else if certified_flag \<and> \<not> violation then ''certified''
         else if eligible_flag then ''eligible''
         else ''not_eligible'')"

section \<open>Deadlines\<close>

record cert_settings =
  cs_review_sla_days :: int
  cs_review_interval_days :: int
  cs_revalidation_window_days :: int

definition sla_status_of :: "instant \<Rightarrow> int \<Rightarrow> instant \<Rightarrow> string" where
  "sla_status_of now soon_days due =
     (if due \<le> now then ''overdue'' else if due \<le> now + soon_days * one_day then ''due_soon'' else ''on_track'')"

definition sla_status_label :: "string \<Rightarrow> string" where
  "sla_status_label v = (if v = ''on_track'' then ''Dentro do SLA'' else if v = ''due_soon'' then ''SLA proximo do vencimento''
     else if v = ''overdue'' then ''SLA vencido'' else ''Sem SLA ativo'')"

record cert_guidance =
  gd_sla_due_at :: "instant option"
  gd_sla_status :: string
  gd_sla_label :: string
  gd_revalidation_required :: bool
  gd_next_step :: string

definition or_instant :: "instant option \<Rightarrow> instant option \<Rightarrow> instant option" where
  "or_instant a b = (case a of None \<Rightarrow> b | Some t \<Rightarrow> Some t)"

definition guidance_due :: "cert_table \<Rightarrow> instant \<Rightarrow> cert_settings \<Rightarrow> string \<Rightarrow> instant option \<times> string" where
  "guidance_due t now s status =
     (if status = ''in_review'' then
        (let anchor = (case or_instant (ct_submitted_at t) (ct_updated_at t) of None \<Rightarrow> now | Some a \<Rightarrow> a);
             due = anchor + cs_review_sla_days s * one_day
         in (Some due, sla_status_of now 2 due))
      else if status \<in> {''eligible'', ''not_eligible'', ''rejected''} then (None, ''not_applicable'')
      else if status \<in> {''revalidation_pending'', ''expired''} then
        (case or_instant (or_instant (ct_review_at t) (ct_expires_at t)) (ct_decided_at t) of
           None \<Rightarrow> (None, ''not_applicable'')
         | Some due \<Rightarrow> (Some due, sla_status_of now 7 due))
      else
        (case or_instant (ct_review_at t) (ct_expires_at t) of
           None \<Rightarrow> (None, ''not_applicable'')
         | Some due \<Rightarrow>
             if due \<le> now + cs_revalidation_window_days s * one_day then (Some due, sla_status_of now 7 due)
             else (None, ''not_applicable'')))"

definition guidance_next_step :: "string \<Rightarrow> string" where
  "guidance_next_step status =
     (if status = ''in_review'' then ''Concluir decisao de certificacao''
      else if status = ''eligible'' then ''Decisao automatica aplicada''
      else if status = ''not_eligible'' then ''Completar criterios de elegibilidade''
      else if status = ''rejected'' then ''Corrigir gaps e reenviar para revisao''
      else if status \<in> {''revalidation_pending'', ''expired''} then ''Corrigir violacao ativa de Data Quality''
      else ''Monitorar validade da certificacao'')"

definition certification_workflow_guidance :: "cert_table \<Rightarrow> instant \<Rightarrow> cert_settings \<Rightarrow> cert_signals \<Rightarrow> cert_guidance" where
  "certification_workflow_guidance t now s g =
     (let status = resolve_certification_status t now g; (due, sla) = guidance_due t now s status in
      \<lparr>gd_sla_due_at = due, gd_sla_status = sla, gd_sla_label = sla_status_label sla,
       gd_revalidation_required = (status \<in> {''revalidation_pending'', ''expired''}),
       gd_next_step = guidance_next_step status\<rparr>)"

section \<open>Transitions\<close>

definition WORKFLOW_TRANSITIONS :: "(string \<times> string list) list" where
  "WORKFLOW_TRANSITIONS = [
     (''not_eligible'', [''eligible'', ''in_review'', ''rejected'']),
     (''eligible'', [''not_eligible'', ''in_review'', ''certified'', ''rejected'']),
     (''in_review'', [''eligible'', ''certified'', ''rejected'', ''revalidation_pending'']),
     (''certified'', [''in_review'', ''revalidation_pending'', ''expired'', ''rejected'']),
     (''rejected'', [''not_eligible'', ''eligible'', ''in_review'']),
     (''expired'', [''in_review'', ''certified'', ''rejected'']),
     (''revalidation_pending'', [''in_review'', ''certified'', ''rejected'', ''expired''])]"

definition allowed_targets :: "string \<Rightarrow> string list" where
  "allowed_targets current = (case map_of WORKFLOW_TRANSITIONS current of None \<Rightarrow> [] | Some ts \<Rightarrow> ts)"

definition invalid_422 :: "string \<Rightarrow> 'a res" where
  "invalid_422 msg = Inl (HTTPException 422 msg)"

definition validate_workflow_transition :: "string \<Rightarrow> string \<Rightarrow> bool \<Rightarrow> bool \<Rightarrow> unit res" where
  "validate_workflow_transition current target eligible certifiable =
     (if target \<notin> set CERTIFICATION_STATUSES then invalid_422 ''Invalid certification status''
      else if current = target then Inr ()
      else if target \<notin> set (allowed_targets current) then
        invalid_422 (''Transicao invalida de '' @ certification_status_label (Some current) @ '' para ''
          @ certification_status_label (Some target))
      else if target \<in> {''eligible'', ''in_review'', ''certified''} \<and> \<not> eligible then
        invalid_422 ''O ativo ainda nao atende aos criterios minimos para avancar no workflow de certificacao.''
      else if target = ''certified'' \<and> \<not> certifiable then
        invalid_422 ''O ativo ainda nao atende a prontidao minima de 80% para certificacao.''
      else Inr ())"

section \<open>Changing the certification of a table\<close>

record cert_patch =
  cp_status :: string
  cp_criticality :: "string option"
  cp_badges :: "string list option"
  cp_notes :: "string option"
  cp_review_at :: "py_datetime option"
  cp_expires_at :: "py_datetime option"

definition py_before :: "py_datetime \<Rightarrow> py_datetime \<Rightarrow> bool res" where
  "py_before a b = (case (a, b) of
     (Aware s, Aware t) \<Rightarrow> Inr (s < t)
   | (Naive s, Naive t) \<Rightarrow> Inr (s < t)
   | _ \<Rightarrow> Inl (TypeError ''cannot compare offset-naive and offset-aware datetimes''))"

definition check :: "bool \<Rightarrow> string \<Rightarrow> unit res" where
  "check refuse msg = (if refuse then invalid_422 msg else Inr ())"

definition signals_of :: "cert_db \<Rightarrow> instant \<Rightarrow> bool \<Rightarrow> cert_table \<Rightarrow> cert_signals" where
  "signals_of db now operational t =
     \<lparr>sg_readiness = readiness (certification_gates db now t), sg_dq = active_dq_violation_summary db t,
      sg_incidents = (if has_open_critical_incident db t then 1 else 0), sg_operational = operational\<rparr>"

definition certifiable :: "cert_signals \<Rightarrow> bool" where
  "certifiable g = (sg_readiness g \<ge> 80 \<and> \<not> dv_active (sg_dq g) \<and> sg_incidents g = 0)"

definition blocked_detail :: "cert_signals \<Rightarrow> gate list \<Rightarrow> string" where
  "blocked_detail g checks =
     (if dv_active (sg_dq g) \<and> dv_rule_names (sg_dq g) \<noteq> [] then
        ''Tabela bloqueada por violacao ativa de Data Quality: '' @ join_with '', '' (take 3 (dv_rule_names (sg_dq g))) @ ''.''
      else if dv_active (sg_dq g) then ''Tabela bloqueada por violacao ativa de Data Quality.''
      else if sg_incidents g > 0 then ''Tabela bloqueada por incidente critico aberto.''
      else if sg_readiness g < 80 then ''Tabela ainda nao alcancou a prontidao minima de 80% para certificacao.''
      else ''Tabela ainda nao elegivel para certificacao. Pendencias: ''
        @ join_with '', '' (map gate_label (missing_certification_gates checks)))"

definition validate_certification_patch :: "cert_db \<Rightarrow> instant \<Rightarrow> cert_table \<Rightarrow> cert_patch \<Rightarrow> (gate list \<times> bool) res" where
  "validate_certification_patch db now t p =
     (let target = norm_token (Some (cp_status p));
          notes = py_strip (or_empty (cp_notes p));
          invalid_badges = filter (\<lambda>b. b \<notin> set CERTIFICATION_BADGES) (case cp_badges p of None \<Rightarrow> [] | Some bs \<Rightarrow> bs);
          checks = certification_gates db now t;
          g = signals_of db now False t;
          eligible = gates_eligible checks
      in
        res_bind (check (str_true (cp_criticality p) \<and> or_empty (cp_criticality p) \<notin> set CERTIFICATION_CRITICALITIES)
          ''Invalid certification criticality'') (\<lambda>_.
        res_bind (check (invalid_badges \<noteq> []) (''Invalid certification badges: '' @ join_with '', '' invalid_badges)) (\<lambda>_.
        res_bind (check (target \<in> {''in_review'', ''certified'', ''rejected'', ''revalidation_pending'', ''expired''} \<and> notes = '''')
          ''Informe um motivo ou observacao formal para registrar esta decisao de certificacao.'') (\<lambda>_.
        res_bind (check (target = ''certified'' \<and> cp_review_at p = None)
          ''Informe a proxima revisao formal antes de concluir a certificacao.'') (\<lambda>_.
        res_bind (check (target = ''certified'' \<and> cp_expires_at p = None)
          ''Informe a validade da certificacao antes de concluir a aprovacao.'') (\<lambda>_.
        res_bind (check (target \<in> {''in_review'', ''certified''} \<and> privacy_required t \<and> ct_privacy_reviewed_at t = None)
          ''Ativos com dado pessoal ou sensivel exigem revisao formal de privacidade antes de avancar na certificacao.'') (\<lambda>_.
        res_bind (check (target \<in> {''in_review'', ''certified''} \<and> privacy_required t \<and> \<not> privacy_context t)
          ''Ativos com dado pessoal ou sensivel exigem base legal e finalidade registradas antes de avancar na certificacao.'') (\<lambda>_.
        res_bind (check (target \<in> {''in_review'', ''certified''} \<and> missing_certification_gates checks \<noteq> [])
          (''Complete os gates obrigatorios antes de avancar a certificacao: ''
             @ join_with '', '' (map gate_label (missing_certification_gates checks)) @ ''.'')) (\<lambda>_.
        res_bind (check (cp_status p = ''certified'' \<and> \<not> certifiable g) (blocked_detail g checks)) (\<lambda>_.
        res_bind (validate_workflow_transition (resolve_certification_status t now g) (cp_status p) eligible (certifiable g)) (\<lambda>_.
        res_bind (case (cp_expires_at p, cp_review_at p) of (Some e, Some r) \<Rightarrow> py_before e r | _ \<Rightarrow> Inr False) (\<lambda>early.
        res_bind (check early ''A validade da certificacao nao pode ser anterior a data de revisao.'') (\<lambda>_.
          Inr (checks, eligible))))))))))))))"

record cert_event =
  ce_asset_id :: int
  ce_previous_status :: string
  ce_new_status :: string
  ce_previous_readiness :: int
  ce_new_readiness :: int
  ce_decision_type :: string
  ce_decision_source :: string
  ce_reviewer_user_id :: int
  ce_observation :: "string option"
  ce_reason :: string
  ce_valid_until :: "instant option"
  ce_revalidation_due_at :: "instant option"

definition decision_type_for_transition :: "string \<Rightarrow> bool \<Rightarrow> string" where
  "decision_type_for_transition new_status status_changed =
     (if new_status = ''certified'' then ''certification''
      else if new_status = ''rejected'' then ''refusal''
      else if new_status = ''revalidation_pending'' then ''revalidation''
      else if new_status = ''expired'' then ''expiration''
      else if status_changed then ''status_change''
      else ''review'')"

definition record_certification_event ::
  "cert_table \<Rightarrow> int \<Rightarrow> certification_evaluation \<Rightarrow> certification_evaluation \<Rightarrow> cert_event" where
  "record_certification_event t user before after =
     \<lparr>ce_asset_id = ct_id t, ce_previous_status = ev_status before, ce_new_status = ev_status after,
      ce_previous_readiness = ev_readiness_score before, ce_new_readiness = ev_readiness_score after,
      ce_decision_type = decision_type_for_transition (ev_status after) (ev_status before \<noteq> ev_status after),
      ce_decision_source = ''manual'', ce_reviewer_user_id = user, ce_observation = ct_notes t,
      ce_reason = ev_status_reason after, ce_valid_until = ct_expires_at t,
      ce_revalidation_due_at = ct_review_at t\<rparr>"

definition certification_summary :: "cert_db \<Rightarrow> instant \<Rightarrow> bool \<Rightarrow> cert_table \<Rightarrow> certification_evaluation" where
  "certification_summary db now operational t =
     (let checks = certification_gates db now t in
      evaluate_certification t now (gates_completed checks) (length checks) (signals_of db now operational t))"

definition patched_review_at :: "cert_settings \<Rightarrow> instant \<Rightarrow> cert_patch \<Rightarrow> instant option" where
  "patched_review_at s now p =
     (case cp_review_at p of
        Some r \<Rightarrow> Some (as_utc r)
      | None \<Rightarrow>
          if cp_status p = ''in_review'' then Some (now + cs_review_sla_days s * one_day)
          else if cp_status p = ''certified'' then Some (now + cs_review_interval_days s * one_day)
          else None)"

definition patched_expires_at :: "cert_settings \<Rightarrow> instant \<Rightarrow> cert_patch \<Rightarrow> instant option" where
  "patched_expires_at s now p =
     (case cp_expires_at p of
        Some e \<Rightarrow> Some (as_utc e)
      | None \<Rightarrow>
          if cp_status p = ''certified'' then
            map_option (\<lambda>r. r + cs_revalidation_window_days s * one_day) (patched_review_at s now p)
          else None)"

definition patched_table :: "cert_settings \<Rightarrow> instant \<Rightarrow> int \<Rightarrow> string \<Rightarrow> cert_patch \<Rightarrow> cert_table \<Rightarrow> cert_table" where
  "patched_table s now user previous p t =
     (let target = cp_status p;
          decided = target \<in> {''certified'', ''rejected'', ''expired'', ''revalidation_pending''}
      in t\<lparr>ct_status := Some target, ct_criticality := cp_criticality p,
           ct_badges := (case cp_badges p of Some (b # bs) \<Rightarrow> Some (b # bs) | _ \<Rightarrow> None),
           ct_notes := (if str_true (cp_notes p) then Some (py_strip (or_empty (cp_notes p))) else None),
           ct_review_at := patched_review_at s now p, ct_expires_at := patched_expires_at s now p,
           ct_submitted_by := (if target = ''in_review'' then Some user else ct_submitted_by t),
           ct_submitted_at := (if target = ''in_review'' then Some now else ct_submitted_at t),
           ct_decided_by := (if decided then Some user else if previous \<noteq> target then None else ct_decided_by t),
           ct_decided_at := (if decided then Some now else if previous \<noteq> target then None else ct_decided_at t)\<rparr>)"

record cert_env =
  cx_db :: cert_db
  cx_settings :: cert_settings
  cx_visible :: bool
  cx_operational :: bool

definition patch_table_certification ::
  "cert_env \<Rightarrow> instant \<Rightarrow> int \<Rightarrow> cert_patch \<Rightarrow> cert_table \<Rightarrow> (cert_table \<times> cert_event) res" where
  "patch_table_certification x now user p t =
     (if \<not> cx_visible x then Inl (HTTPException 403 ''Table is not visible for this profile'')
      else
        res_bind (validate_certification_patch (cx_db x) now t p) (\<lambda>_.
          let before = certification_summary (cx_db x) now (cx_operational x) t;
              t' = patched_table (cx_settings x) now user (ev_status before) p t;
              after = certification_summary (cx_db x) now (cx_operational x) t'
          in Inr (t', record_certification_event t' user before after)))"

definition submit_table_certification ::
  "cert_env \<Rightarrow> instant \<Rightarrow> int \<Rightarrow> string option \<Rightarrow> py_datetime option \<Rightarrow> py_datetime option \<Rightarrow> cert_table
     \<Rightarrow> (cert_table \<times> cert_event) res" where
  "submit_table_certification x now user notes review_at expires_at =
     patch_table_certification x now user
       \<lparr>cp_status = ''in_review'', cp_criticality = None, cp_badges = None, cp_notes = notes,
        cp_review_at = review_at, cp_expires_at = expires_at\<rparr>"

definition decide_table_certification ::
  "cert_env \<Rightarrow> instant \<Rightarrow> int \<Rightarrow> cert_patch \<Rightarrow> cert_table \<Rightarrow> (cert_table \<times> cert_event) res" where
  "decide_table_certification x now user p t =
     (let decision = norm_token (Some (cp_status p)) in
      if decision \<notin> {''certified'', ''rejected'', ''expired'', ''revalidation_pending''}
      then invalid_422 ''Decisao de certificacao invalida.''
      else patch_table_certification x now user (p\<lparr>cp_status := decision\<rparr>) t)"

section \<open>Facts\<close>

lemma check_Inr [simp]: "check b msg = Inr u \<longleftrightarrow> \<not> b"
  by (simp add: check_def invalid_422_def)

lemma transition_Inr:
  "validate_workflow_transition current target eligible cert = Inr u \<Longrightarrow>
     target \<in> set CERTIFICATION_STATUSES \<and> (target = current \<or> target \<in> set (allowed_targets current))"
  by (auto simp: validate_workflow_transition_def invalid_422_def split: if_splits)

lemma statuses_normal: "target \<in> set CERTIFICATION_STATUSES \<Longrightarrow> norm_token (Some target) = target"
proof -
  have "list_all (\<lambda>s. norm_token (Some s) = s) CERTIFICATION_STATUSES" by code_simp
  then show "target \<in> set CERTIFICATION_STATUSES \<Longrightarrow> norm_token (Some target) = target"
    by (auto simp: list_all_iff)
qed

lemma missing_Nil: "missing_certification_gates checks = [] \<longleftrightarrow> (\<forall>c\<in>set checks. gate_passed c)"
  by (simp add: missing_certification_gates_def filter_empty_conv)

lemma py_before_False: "py_before e r = Inr False \<Longrightarrow> as_utc r \<le> as_utc e"
  by (auto simp: py_before_def as_utc_def split: py_datetime.splits)

lemma validated_patch:
  assumes "validate_certification_patch db now t p = Inr r"
  shows "cp_status p \<in> set CERTIFICATION_STATUSES \<and>
    (let current = resolve_certification_status t now (signals_of db now False t) in
      cp_status p = current \<or> cp_status p \<in> set (allowed_targets current)) \<and>
    (cp_status p \<in> {''in_review'', ''certified'', ''rejected'', ''revalidation_pending'', ''expired''} \<longrightarrow>
      py_strip (or_empty (cp_notes p)) \<noteq> '''') \<and>
    (cp_status p \<in> {''in_review'', ''certified''} \<longrightarrow> missing_certification_gates (certification_gates db now t) = []) \<and>
    (cp_status p = ''certified'' \<longrightarrow> certifiable (signals_of db now False t) \<and>
      (\<exists>rv ex. cp_review_at p = Some rv \<and> cp_expires_at p = Some ex \<and> as_utc rv \<le> as_utc ex))"
proof -
  let ?g = "signals_of db now False t"
  note v = assms [unfolded validate_certification_patch_def Let_def res_bind_Inr_iff check_Inr]
  from v have w: "\<exists>u e. validate_workflow_transition (resolve_certification_status t now ?g) (cp_status p) e (certifiable ?g) = Inr u"
    by blast
  then have st: "cp_status p \<in> set CERTIFICATION_STATUSES"
    "cp_status p = resolve_certification_status t now ?g \<or> cp_status p \<in> set (allowed_targets (resolve_certification_status t now ?g))"
    using transition_Inr by blast+
  note n = statuses_normal [OF st(1)]
  from v have r: "\<not> (norm_token (Some (cp_status p)) \<in> {''in_review'', ''certified'', ''rejected'', ''revalidation_pending'', ''expired''}
        \<and> py_strip (or_empty (cp_notes p)) = '''')"
    "\<not> (norm_token (Some (cp_status p)) \<in> {''in_review'', ''certified''}
        \<and> missing_certification_gates (certification_gates db now t) \<noteq> [])"
    "\<not> (norm_token (Some (cp_status p)) = ''certified'' \<and> cp_review_at p = None)"
    "\<not> (norm_token (Some (cp_status p)) = ''certified'' \<and> cp_expires_at p = None)"
    "\<not> (cp_status p = ''certified'' \<and> \<not> certifiable ?g)"
    by blast+
  note facts = r [unfolded n]
  have dates: "\<exists>rv ex. cp_review_at p = Some rv \<and> cp_expires_at p = Some ex \<and> as_utc rv \<le> as_utc ex"
    if c: "cp_status p = ''certified''"
  proof -
    from facts(3,4) c obtain rv ex where d: "cp_review_at p = Some rv" "cp_expires_at p = Some ex" by auto
    from v obtain early where "\<not> early"
      and "(case (cp_expires_at p, cp_review_at p) of (Some e, Some r) \<Rightarrow> py_before e r | _ \<Rightarrow> Inr False) = Inr early"
      by blast
    with d show ?thesis by (simp add: py_before_False)
  qed
  show ?thesis using st facts dates by (auto simp: Let_def)
qed

lemma gates_nonempty: "certification_gates db now t \<noteq> []"
  by (simp add: certification_gates_def split: prod.splits)

lemma all_gates_ready: "missing_certification_gates checks = [] \<Longrightarrow> checks \<noteq> [] \<Longrightarrow> readiness checks = 100"
proof -
  assume a: "missing_certification_gates checks = []" "checks \<noteq> []"
  then have "filter gate_passed checks = checks" by (simp add: missing_Nil filter_id_conv)
  then have "readiness checks = py_round (of_int 100)"
    using a(2) by (simp add: readiness_def gates_completed_def percent_def)
  then show ?thesis by (simp only: py_round_of_int)
qed

lemma gates_review_recent:
  "missing_certification_gates (certification_gates db now t) = [] \<Longrightarrow> review_is_recent now t"
proof -
  assume a: "missing_certification_gates (certification_gates db now t) = []"
  have "gate_passed (last (certification_gates db now t)) = review_is_recent now t"
    by (cases "column_documentation_coverage t") (simp add: certification_gates_def)
  with a show "review_is_recent now t"
    using last_in_set [OF gates_nonempty] by (auto simp: missing_Nil)
qed

section \<open>Properties\<close>

text \<open>C11: the handler accepts a change to in_review or certified only when all ten gates of the checklist pass and
  a note is given; certified moreover needs no active data quality violation, no open critical incident, and a
  review date not after the expiry date.  The stored status then is the requested one, and it is the effective
  status before the change or one of its targets in the transition table.\<close>

theorem certification_needs_all_gates:
  assumes "patch_table_certification x now user p t = Inr (t', e)"
    and "cp_status p = ''in_review'' \<or> cp_status p = ''certified''"
  shows "(\<forall>c\<in>set (certification_gates (cx_db x) now t). gate_passed c) \<and>
    readiness (certification_gates (cx_db x) now t) = 100 \<and>
    py_strip (or_empty (cp_notes p)) \<noteq> '''' \<and> ct_status t' = Some (cp_status p) \<and>
    (let current = resolve_certification_status t now (signals_of (cx_db x) now False t) in
      cp_status p = current \<or> cp_status p \<in> set (allowed_targets current)) \<and>
    (cp_status p = ''certified'' \<longrightarrow>
      \<not> dv_active (active_dq_violation_summary (cx_db x) t) \<and> \<not> has_open_critical_incident (cx_db x) t \<and>
      (\<exists>rv ex. ct_review_at t' = Some rv \<and> ct_expires_at t' = Some ex \<and> rv \<le> ex))"
proof -
  from assms(1) obtain r where v: "validate_certification_patch (cx_db x) now t p = Inr r"
    and t': "t' = patched_table (cx_settings x) now user (ev_status (certification_summary (cx_db x) now (cx_operational x) t)) p t"
    by (auto simp: patch_table_certification_def res_bind_Inr_iff Let_def split: if_splits)
  note f = validated_patch [OF v]
  from f assms(2) have m: "missing_certification_gates (certification_gates (cx_db x) now t) = []"
    and n: "py_strip (or_empty (cp_notes p)) \<noteq> ''''" by auto
  have dates: "\<exists>rv ex. ct_review_at t' = Some rv \<and> ct_expires_at t' = Some ex \<and> rv \<le> ex" if "cp_status p = ''certified''"
    using f that by (auto simp: t' patched_table_def Let_def patched_review_at_def patched_expires_at_def)
  have "ct_status t' = Some (cp_status p)" by (simp add: t' patched_table_def Let_def)
  then show ?thesis
    using f m n dates all_gates_ready [OF m gates_nonempty]
    by (auto simp: missing_Nil certifiable_def signals_of_def split: if_splits)
qed

text \<open>The two derivations of the effective status give the same answer except for tables stored as
  revalidation_pending or expired whose expiry date has passed; there they never agree: the transitions,
  the guidance and the dashboards see an expired certification, the summary and its events do not.\<close>

theorem status_derivations_differ_iff:
  "evaluated_status t now g \<noteq> resolve_certification_status t now g \<longleftrightarrow>
     past_due now (ct_expires_at t) \<and> normalized_workflow_status (ct_status t) \<in> {''revalidation_pending'', ''expired''}"
  unfolding evaluated_status_def resolve_certification_status_def Let_def by auto

text \<open>A table that was never decided and has no review date cannot be submitted for review nor certified by
  any request, whatever else it fulfils: the checklist demands a review of the last 90 days before the first
  review.\<close>

theorem first_review_refused:
  assumes "ct_decided_at t = None" and "ct_review_at t = None"
    and "norm_token (Some (cp_status p)) = ''in_review'' \<or> norm_token (Some (cp_status p)) = ''certified''"
  shows "isl (patch_table_certification x now user p t) \<and>
    isl (submit_table_certification x now user notes rv ex t)"
proof -
  have nr: "\<not> review_is_recent now t" using assms by (simp add: review_is_recent_def map_filter_simps)
  have refused: "isl (patch_table_certification x now user q t)"
    if "norm_token (Some (cp_status q)) = ''in_review'' \<or> norm_token (Some (cp_status q)) = ''certified''" for q
  proof (cases "patch_table_certification x now user q t")
    case (Inr r)
    then obtain u where v: "validate_certification_patch (cx_db x) now t q = Inr u"
      by (auto simp: patch_table_certification_def res_bind_Inr_iff split: if_splits)
    have "cp_status q = ''in_review'' \<or> cp_status q = ''certified''"
      using validated_patch [OF v] statuses_normal that by metis
    with validated_patch [OF v] gates_review_recent nr show ?thesis by blast
  qed simp
  have "norm_token (Some ''in_review'') = ''in_review''" by code_simp
  with refused assms(3) show ?thesis by (simp add: submit_table_certification_def)
qed

section \<open>Concrete instances\<close>

definition demo_cert_table :: cert_table where
  "demo_cert_table = \<lparr>ct_id = 1, ct_schema_name = ''s'', ct_name = ''t'', ct_description_manual = Some ''d'',
     ct_description_source = None,
     ct_columns = [\<lparr>cc_dictionary_description = Some ''c'', cc_description_manual = None, cc_description_source = None\<rparr>],
     ct_data_owner_id = Some 1, ct_owner = None, ct_has_personal_data = False, ct_has_sensitive_personal_data = False,
     ct_privacy_reviewed_at = None, ct_legal_basis = None, ct_privacy_purpose = None, ct_updated_at = None,
     ct_status = Some ''eligible'', ct_criticality = None, ct_badges = None, ct_notes = None, ct_submitted_by = None,
     ct_submitted_at = None, ct_decided_by = None, ct_decided_at = None, ct_review_at = Some 0, ct_expires_at = None\<rparr>"

definition demo_cert_env :: cert_env where
  "demo_cert_env = \<lparr>cx_db = \<lparr>cd_metrics = [\<lparr>dm_table_id = 1, dm_run_id = 1, dm_run_status = ''success'',
       dm_run_finished_at = Some 0, dm_score = Some 95\<rparr>], cd_incidents = [], cd_rules = [], cd_rule_runs = [],
       cd_tag_count = (\<lambda>_. 1), cd_term_count = (\<lambda>_. 1)\<rparr>,
     cx_settings = \<lparr>cs_review_sla_days = 7, cs_review_interval_days = 180, cs_revalidation_window_days = 30\<rparr>,
     cx_visible = True, cx_operational = False\<rparr>"

definition demo_cert_patch :: cert_patch where
  "demo_cert_patch = \<lparr>cp_status = ''certified'', cp_criticality = None, cp_badges = None, cp_notes = Some ''ok'',
     cp_review_at = Some (Aware 10), cp_expires_at = Some (Aware 20)\<rparr>"

lemma demo_certified: "\<not> isl (patch_table_certification demo_cert_env 5 1 demo_cert_patch demo_cert_table)"
  by code_simp

theorem certification_needs_all_gates_witness:
  "readiness (certification_gates (cx_db demo_cert_env) 5 demo_cert_table) = 100"
proof -
  obtain t' e where "patch_table_certification demo_cert_env 5 1 demo_cert_patch demo_cert_table = Inr (t', e)"
    using demo_certified by (metis isl_def old.prod.exhaust sum.exhaust_sel)
  from certification_needs_all_gates [OF this] show ?thesis by (simp add: demo_cert_patch_def)
qed

theorem first_review_refused_witness:
  "isl (patch_table_certification demo_cert_env 5 1 demo_cert_patch (demo_cert_table\<lparr>ct_review_at := None\<rparr>))"
proof -
  have "norm_token (Some (cp_status demo_cert_patch)) = ''in_review'' \<or> norm_token (Some (cp_status demo_cert_patch)) = ''certified''"
    by code_simp
  from first_review_refused [OF _ _ this] show ?thesis by (simp add: demo_cert_table_def)
qed

end
