(* ===== verification/ChangeRequests.thy ===== *)
theory ChangeRequests
  imports Models
begin

text \<open>
  Requests to change the metadata of a table or column, and service levels of assets,
  \<open>features/governance/change_management.py\<close>: creation, the four transitions with their event log, the
  application of an approved request to the asset, and the upsert of a service level.

  The state (\<open>gov_store\<close>) is the tables, columns and owners, the service levels, the requests and the event
  trail.  The attributes that a request may set by name are an association list of JSON values; that the
  database may refuse a value of the wrong type at the flush is not modelled.  The audit log and the
  payload of events are left out, as is the code's iteration order over its sets of field names (the order
  of the lists below).  A handler commits after success; after an error the store is what had been committed.
\<close>

section \<open>Rows\<close>

record governed_table =
  gt_id :: int
  gt_path :: "string list"
  gt_name :: string
  gt_data_owner_id :: "int option"
  gt_owner :: "string option"
  gt_owner_email :: "string option"
  gt_owner_reviewed_by :: "int option"
  gt_owner_reviewed_at :: "instant option"
  gt_privacy_reviewed_by :: "int option"
  gt_privacy_reviewed_at :: "instant option"
  gt_fields :: "(string \<times> py_value) list"

record governed_column =
  gc_id :: int
  gc_table_id :: int
  gc_name :: string
  gc_data_owner_id :: "int option"
  gc_owner_reviewed_by :: "int option"
  gc_owner_reviewed_at :: "instant option"
  gc_fields :: "(string \<times> py_value) list"

record owner_entry =
  oe_id :: int
  oe_name :: string
  oe_email :: string

record asset_sla =
  sla_id :: int
  sla_asset_type :: string
  sla_asset_id :: int
  sla_table_id :: int
  sla_column_id :: "int option"
  sla_asset_name :: string
  sla_asset_fqn :: string
  sla_kind :: string
  sla_hours :: int
  sla_status :: string
  sla_source_kind :: string
  sla_source_ref :: "string option"
  sla_context :: "(string \<times> py_value) list"
  sla_reviewed_by :: "int option"
  sla_reviewed_at :: instant

record change_request =
  cr_id :: int
  cr_key :: string
  cr_asset_type :: string
  cr_asset_id :: int
  cr_table_id :: int
  cr_column_id :: "int option"
  cr_asset_name :: string
  cr_asset_fqn :: string
  cr_change_kind :: string
  cr_status :: string
  cr_title :: string
  cr_description :: "string option"
  cr_requested_by :: "int option"
  cr_reviewed_by :: "int option"
  cr_reviewed_at :: "instant option"
  cr_approved_by :: "int option"
  cr_approved_at :: "instant option"
  cr_applied_by :: "int option"
  cr_applied_at :: "instant option"
  cr_rejected_by :: "int option"
  cr_rejected_at :: "instant option"
  cr_policy_rule_key :: "string option"
  cr_recommendation_id :: "int option"
  cr_current :: "(string \<times> py_value) list"
  cr_proposed :: "(string \<times> py_value) list"
  cr_context :: "(string \<times> py_value) list"
  cr_apply_error :: "string option"

record change_event =
  che_request_id :: int
  che_type :: string
  che_previous :: "string option"
  che_next :: string
  che_actor :: "int option"
  che_comment :: "string option"

record gov_store =
  gs_tables :: "governed_table list"
  gs_columns :: "governed_column list"
  gs_owners :: "owner_entry list"
  gs_slas :: "asset_sla list"
  gs_requests :: "change_request list"
  gs_events :: "change_event list"
  gs_next_request :: int
  gs_next_sla :: int

definition find_table :: "gov_store \<Rightarrow> int \<Rightarrow> governed_table option" where
  "find_table st i = List.find (\<lambda>t. gt_id t = i) (gs_tables st)"

definition find_column :: "gov_store \<Rightarrow> int \<Rightarrow> governed_column option" where
  "find_column st i = List.find (\<lambda>c. gc_id c = i) (gs_columns st)"

definition put_table :: "governed_table \<Rightarrow> gov_store \<Rightarrow> gov_store" where
  "put_table t st = st\<lparr>gs_tables := map (\<lambda>x. if gt_id x = gt_id t then t else x) (gs_tables st)\<rparr>"

definition put_column :: "governed_column \<Rightarrow> gov_store \<Rightarrow> gov_store" where
  "put_column c st = st\<lparr>gs_columns := map (\<lambda>x. if gc_id x = gc_id c then c else x) (gs_columns st)\<rparr>"

definition put_request :: "change_request \<Rightarrow> gov_store \<Rightarrow> gov_store" where
  "put_request r st = st\<lparr>gs_requests := map (\<lambda>x. if cr_id x = cr_id r then r else x) (gs_requests st)\<rparr>"

definition add_event :: "change_event \<Rightarrow> gov_store \<Rightarrow> gov_store" where
  "add_event e st = st\<lparr>gs_events := gs_events st @ [e]\<rparr>"

section \<open>The asset of a request\<close>

record asset_context =
  ax_type :: string
  ax_id :: int
  ax_table_id :: int
  ax_column_id :: "int option"
  ax_name :: string
  ax_fqn :: string

definition normalize_asset_type :: "string \<Rightarrow> string res" where
  "normalize_asset_type v = (let n = norm_token (Some v) in
     if n \<in> {''table'', ''column''} then Inr n else http 422 ''Unsupported asset_type'')"

definition normalize_asset_id :: "int \<Rightarrow> int res" where
  "normalize_asset_id i = (if i \<le> 0 then http 422 ''Invalid asset_id'' else Inr i)"

text \<open>\<open>gt_path\<close> holds the names of data source, database and schema.\<close>

definition asset_context_of :: "gov_store \<Rightarrow> string \<Rightarrow> int \<Rightarrow> asset_context res" where
  "asset_context_of st asset_type asset_id =
     res_bind (normalize_asset_type asset_type) (\<lambda>ty.
     res_bind (normalize_asset_id asset_id) (\<lambda>i.
       if ty = ''table'' then
         (case find_table st i of
            None \<Rightarrow> http 404 ''Table not found''
          | Some t \<Rightarrow> Inr \<lparr>ax_type = ty, ax_id = i, ax_table_id = gt_id t, ax_column_id = None, ax_name = gt_name t,
              ax_fqn = join_with ''.'' (gt_path t @ [gt_name t])\<rparr>)
       else
         (case find_column st i of
            None \<Rightarrow> http 404 ''Column not found''
          | Some c \<Rightarrow>
              (case find_table st (gc_table_id c) of
                 None \<Rightarrow> Inl (RuntimeError ''NoneType has no attribute'')
               | Some t \<Rightarrow> Inr \<lparr>ax_type = ty, ax_id = i, ax_table_id = gt_id t, ax_column_id = Some (gc_id c),
                   ax_name = gc_name c, ax_fqn = join_with ''.'' (gt_path t @ [gt_name t, gc_name c])\<rparr>))))"

section \<open>Service levels\<close>

record sla_request =
  sr_kind :: string
  sr_hours :: int
  sr_status :: string
  sr_source_kind :: string
  sr_source_ref :: "string option"
  sr_context :: "(string \<times> py_value) list"

definition token_or :: "string \<Rightarrow> string \<Rightarrow> string" where
  "token_or v d = or_else (py_lower (py_strip (or_else v d))) d"

text \<open>\<open>(value or row.value or "active").strip().lower() or "active"\<close>.\<close>

definition upserted_sla ::
  "asset_context \<Rightarrow> sla_request \<Rightarrow> int option \<Rightarrow> instant \<Rightarrow> asset_sla \<Rightarrow> asset_sla" where
  "upserted_sla ax req actor now row = row\<lparr>sla_table_id := ax_table_id ax, sla_column_id := ax_column_id ax,
     sla_asset_name := ax_name ax, sla_asset_fqn := ax_fqn ax, sla_hours := sr_hours req,
     sla_status := or_else (py_lower (py_strip (or_else (or_else (sr_status req) (sla_status row)) ''active''))) ''active'',
     sla_source_kind := or_else (py_lower (py_strip (or_else (or_else (sr_source_kind req) (sla_source_kind row)) ''manual''))) ''manual'',
     sla_source_ref := sr_source_ref req, sla_context := sr_context req,
     sla_reviewed_by := actor, sla_reviewed_at := now\<rparr>"

definition upsert_asset_sla ::
  "instant \<Rightarrow> int option \<Rightarrow> string \<Rightarrow> int \<Rightarrow> sla_request \<Rightarrow> gov_store \<Rightarrow> (asset_sla \<times> gov_store) res" where
  "upsert_asset_sla now actor asset_type asset_id req st =
     res_bind (asset_context_of st asset_type asset_id) (\<lambda>ax.
       let kind = norm_token (Some (sr_kind req)) in
       if kind = '''' then http 422 ''sla_kind is required''
       else (case List.find (\<lambda>r. sla_asset_type r = ax_type ax \<and> sla_asset_id r = ax_id ax \<and> sla_kind r = kind) (gs_slas st) of
          None \<Rightarrow>
            (let row = \<lparr>sla_id = gs_next_sla st, sla_asset_type = ax_type ax, sla_asset_id = ax_id ax,
                sla_table_id = ax_table_id ax, sla_column_id = ax_column_id ax, sla_asset_name = ax_name ax,
                sla_asset_fqn = ax_fqn ax, sla_kind = kind, sla_hours = sr_hours req,
                sla_status = token_or (sr_status req) ''active'', sla_source_kind = token_or (sr_source_kind req) ''manual'',
                sla_source_ref = sr_source_ref req, sla_context = sr_context req, sla_reviewed_by = actor,
                sla_reviewed_at = now\<rparr>
             in Inr (row, st\<lparr>gs_slas := gs_slas st @ [row], gs_next_sla := gs_next_sla st + 1\<rparr>))
        | Some old \<Rightarrow>
            (let row = upserted_sla ax req actor now old
             in Inr (row, st\<lparr>gs_slas := map (\<lambda>r. if sla_id r = sla_id old then row else r) (gs_slas st)\<rparr>))))"

section \<open>Creating a request\<close>

record change_request_in =
  ci_asset_type :: string
  ci_asset_id :: int
  ci_change_kind :: string
  ci_title :: string
  ci_description :: "string option"
  ci_policy_rule_key :: "string option"
  ci_recommendation_id :: "int option"
  ci_current :: "(string \<times> py_value) list"
  ci_proposed :: "(string \<times> py_value) list"
  ci_context :: "(string \<times> py_value) list"

definition create_metadata_change_request ::
  "string \<Rightarrow> int option \<Rightarrow> change_request_in \<Rightarrow> gov_store \<Rightarrow> (change_request \<times> gov_store) res" where
  "create_metadata_change_request request_key actor req st =
     res_bind (asset_context_of st (ci_asset_type req) (ci_asset_id req)) (\<lambda>ax.
       let kind = norm_token (Some (ci_change_kind req)); title = py_strip (ci_title req) in
       if kind = '''' then http 422 ''change_kind is required''
       else if title = '''' then http 422 ''title is required''
       else if request_key \<in> cr_key ` set (gs_requests st) then
         Inl (RuntimeError ''duplicate key value violates unique constraint'')
       else
         (let row = \<lparr>cr_id = gs_next_request st, cr_key = request_key, cr_asset_type = ax_type ax,
              cr_asset_id = ax_id ax, cr_table_id = ax_table_id ax, cr_column_id = ax_column_id ax,
              cr_asset_name = ax_name ax, cr_asset_fqn = ax_fqn ax, cr_change_kind = kind, cr_status = ''draft'',
              cr_title = title, cr_description = or_none (py_strip (or_empty (ci_description req))),
              cr_requested_by = actor, cr_reviewed_by = None, cr_reviewed_at = None, cr_approved_by = None,
              cr_approved_at = None, cr_applied_by = None, cr_applied_at = None, cr_rejected_by = None,
              cr_rejected_at = None, cr_policy_rule_key = ci_policy_rule_key req,
              cr_recommendation_id = ci_recommendation_id req, cr_current = ci_current req,
              cr_proposed = ci_proposed req, cr_context = ci_context req, cr_apply_error = None\<rparr>;
              event = \<lparr>che_request_id = cr_id row, che_type = ''created'', che_previous = None, che_next = ''draft'',
                che_actor = actor, che_comment = ci_description req\<rparr>
          in Inr (row, add_event event
               (st\<lparr>gs_requests := gs_requests st @ [row], gs_next_request := gs_next_request st + 1\<rparr>))))"

section \<open>Applying a request\<close>

definition OWNER_KINDS :: "string list" where
  "OWNER_KINDS = [''owner_assignment'', ''owner_review'', ''owner'']"

definition CLASSIFICATION_KINDS :: "string list" where
  "CLASSIFICATION_KINDS = [''classification_update'', ''privacy_update'', ''classification'']"

definition DESCRIPTION_KINDS :: "string list" where
  "DESCRIPTION_KINDS = [''description_update'', ''description'']"

definition SLA_KINDS :: "string list" where
  "SLA_KINDS = [''sla'', ''sla_update'', ''freshness_sla'']"

definition CLASSIFICATION_FIELDS :: "string list" where
  "CLASSIFICATION_FIELDS = [''sensitivity_level'', ''has_personal_data'', ''has_sensitive_personal_data'',
     ''legal_basis'', ''privacy_purpose'', ''retention_policy'', ''is_masked'', ''external_sharing'',
     ''access_scope'', ''access_roles'', ''privacy_notes'']"

definition TABLE_DESCRIPTION_FIELDS :: "string list" where
  "TABLE_DESCRIPTION_FIELDS = [''description_manual'', ''description_source'']"

definition COLUMN_DESCRIPTION_FIELDS :: "string list" where
  "COLUMN_DESCRIPTION_FIELDS = [''description_manual'', ''description_source'', ''dictionary_description'',
     ''dictionary_comment'']"

definition has_key :: "(string \<times> py_value) list \<Rightarrow> string \<Rightarrow> bool" where
  "has_key d k = (map_of d k \<noteq> None)"

text \<open>The fields of the list that the proposal names, and their assignment.\<close>

definition proposed_fields :: "string list \<Rightarrow> (string \<times> py_value) list \<Rightarrow> string list" where
  "proposed_fields names proposed = filter (has_key proposed) names"

definition set_fields ::
  "string list \<Rightarrow> (string \<times> py_value) list \<Rightarrow> (string \<times> py_value) list \<Rightarrow> (string \<times> py_value) list" where
  "set_fields names proposed vals =
     foldl (\<lambda>fs f. dict_set f (dict_get proposed f) fs) vals (proposed_fields names proposed)"

definition proposed_owner :: "gov_store \<Rightarrow> (string \<times> py_value) list \<Rightarrow> owner_entry option res" where
  "proposed_owner st proposed =
     (case dict_get proposed ''data_owner_id'' of
        PNone \<Rightarrow> Inr None
      | PList _ \<Rightarrow> Inl (TypeError ''unhashable type: list'')
      | PDict _ \<Rightarrow> Inl (TypeError ''unhashable type: dict'')
      | v \<Rightarrow>
          if v = PStr '''' then Inr None
          else res_bind (py_int v) (\<lambda>i.
            case List.find (\<lambda>ow. oe_id ow = i) (gs_owners st) of
              None \<Rightarrow> http 422 ''Data owner not found''
            | Some ow \<Rightarrow> Inr (Some ow)))"

definition touches_owner :: "change_request \<Rightarrow> bool" where
  "touches_owner r = (cr_change_kind r \<in> set OWNER_KINDS \<or> has_key (cr_proposed r) ''data_owner_id'')"

definition touches_classification :: "change_request \<Rightarrow> bool" where
  "touches_classification r = (cr_change_kind r \<in> set CLASSIFICATION_KINDS
     \<or> proposed_fields CLASSIFICATION_FIELDS (cr_proposed r) \<noteq> [])"

definition touches_description :: "string list \<Rightarrow> change_request \<Rightarrow> bool" where
  "touches_description names r = (cr_change_kind r \<in> set DESCRIPTION_KINDS \<or> proposed_fields names (cr_proposed r) \<noteq> [])"

definition owned_table :: "owner_entry option \<Rightarrow> int option \<Rightarrow> instant \<Rightarrow> governed_table \<Rightarrow> governed_table" where
  "owned_table ow actor now t = t\<lparr>gt_data_owner_id := map_option oe_id ow, gt_owner := map_option oe_name ow,
     gt_owner_email := map_option oe_email ow, gt_owner_reviewed_by := actor, gt_owner_reviewed_at := Some now\<rparr>"

definition classified_table ::
  "(string \<times> py_value) list \<Rightarrow> int option \<Rightarrow> instant \<Rightarrow> governed_table \<Rightarrow> governed_table" where
  "classified_table proposed actor now t = t\<lparr>gt_fields := set_fields CLASSIFICATION_FIELDS proposed (gt_fields t),
     gt_privacy_reviewed_by := actor, gt_privacy_reviewed_at := Some now\<rparr>"

definition described_table :: "(string \<times> py_value) list \<Rightarrow> governed_table \<Rightarrow> governed_table" where
  "described_table proposed t = t\<lparr>gt_fields := set_fields TABLE_DESCRIPTION_FIELDS proposed (gt_fields t)\<rparr>"

text \<open>The names of the changed fields, as the audit log and the event payload list them.\<close>

definition table_changes :: "change_request \<Rightarrow> string list" where
  "table_changes r =
     (if touches_owner r then [''data_owner_id'', ''owner'', ''owner_email'', ''owner_reviewed_by_user_id'', ''owner_reviewed_at'']
      else [])
     @ (if touches_classification r then proposed_fields CLASSIFICATION_FIELDS (cr_proposed r)
          @ [''privacy_reviewed_by_user_id'', ''privacy_reviewed_at''] else [])
     @ (if touches_description TABLE_DESCRIPTION_FIELDS r then proposed_fields TABLE_DESCRIPTION_FIELDS (cr_proposed r) else [])"

definition apply_request_to_table ::
  "gov_store \<Rightarrow> int option \<Rightarrow> instant \<Rightarrow> change_request \<Rightarrow> governed_table \<Rightarrow> governed_table res" where
  "apply_request_to_table st actor now r t =
     res_bind (if touches_owner r
               then res_bind (proposed_owner st (cr_proposed r)) (\<lambda>ow. Inr (owned_table ow actor now t))
               else Inr t) (\<lambda>t1.
       let t2 = (if touches_classification r then classified_table (cr_proposed r) actor now t1 else t1);
           t3 = (if touches_description TABLE_DESCRIPTION_FIELDS r then described_table (cr_proposed r) t2 else t2)
       in if table_changes r = [] then http 422 ''Unsupported table change request'' else Inr t3)"

definition column_changes :: "change_request \<Rightarrow> string list" where
  "column_changes r =
     (if touches_owner r then [''data_owner_id'', ''owner_reviewed_by_user_id'', ''owner_reviewed_at''] else [])
     @ (if touches_description COLUMN_DESCRIPTION_FIELDS r then proposed_fields COLUMN_DESCRIPTION_FIELDS (cr_proposed r) else [])"

definition apply_request_to_column ::
  "gov_store \<Rightarrow> int option \<Rightarrow> instant \<Rightarrow> change_request \<Rightarrow> governed_column \<Rightarrow> governed_column res" where
  "apply_request_to_column st actor now r c =
     res_bind (if touches_owner r
               then res_bind (proposed_owner st (cr_proposed r)) (\<lambda>ow.
                 Inr (c\<lparr>gc_data_owner_id := map_option oe_id ow, gc_owner_reviewed_by := actor, gc_owner_reviewed_at := Some now\<rparr>))
               else Inr c) (\<lambda>c1.
       let c2 = (if touches_description COLUMN_DESCRIPTION_FIELDS r
                 then c1\<lparr>gc_fields := set_fields COLUMN_DESCRIPTION_FIELDS (cr_proposed r) (gc_fields c1)\<rparr> else c1)
       in if column_changes r = [] then http 422 ''Unsupported column change request'' else Inr c2)"

text \<open>\<open>value or default\<close> for a JSON value.\<close>

definition py_or :: "py_value \<Rightarrow> py_value \<Rightarrow> py_value" where
  "py_or a b = (if py_true a then a else b)"

text \<open>The branch for service levels passes a keyword that \<open>upsert_asset_sla\<close> does not have.\<close>

definition apply_sla_request :: "change_request \<Rightarrow> gov_store res" where
  "apply_sla_request r =
     (let proposed = cr_proposed r in
      if \<not> has_key proposed ''sla_hours'' \<and> \<not> has_key proposed ''sla_kind'' then http 422 ''SLA payload is missing''
      else res_bind (py_int (py_or (dict_get proposed ''sla_hours'') (PInt 0))) (\<lambda>_.
        case py_or (dict_get proposed ''context_json'') (PDict []) of
          PStr _ \<Rightarrow> Inl (ValueError ''dictionary update sequence element has wrong length'')
        | _ \<Rightarrow> Inl (TypeError ''upsert_asset_sla() got an unexpected keyword argument status'')))"

definition apply_change_request :: "instant \<Rightarrow> int option \<Rightarrow> change_request \<Rightarrow> gov_store \<Rightarrow> gov_store res" where
  "apply_change_request now actor r st =
     res_bind (asset_context_of st (cr_asset_type r) (cr_asset_id r)) (\<lambda>ax.
       if cr_change_kind r \<in> set SLA_KINDS then apply_sla_request r
       else if ax_type ax = ''table'' then
         (case find_table st (ax_id ax) of
            None \<Rightarrow> http 404 ''Table not found''
          | Some t \<Rightarrow> res_bind (apply_request_to_table st actor now r t) (\<lambda>t'. Inr (put_table t' st)))
       else
         (case find_column st (ax_id ax) of
            None \<Rightarrow> http 404 ''Column not found''
          | Some c \<Rightarrow> res_bind (apply_request_to_column st actor now r c) (\<lambda>c'. Inr (put_column c' st))))"

section \<open>Transitions\<close>

definition request_event_type :: "string \<Rightarrow> string" where
  "request_event_type next_status =
     (if next_status = ''review'' then ''reviewed''
      else if next_status \<in> {''approved'', ''applied'', ''rejected''} then next_status
      else ''updated'')"

definition request_allowed_transitions :: "string \<Rightarrow> string list" where
  "request_allowed_transitions status =
     (case map_of [(''draft'', [''review'', ''rejected'']), (''review'', [''approved'', ''rejected'']),
        (''approved'', [''applied'', ''rejected'']), (''applied'', []), (''rejected'', [])] status of
        None \<Rightarrow> [] | Some ss \<Rightarrow> ss)"

definition next_status_map :: "(string \<times> string) list" where
  "next_status_map = [(''review'', ''review''), (''approve'', ''approved''), (''apply'', ''applied''), (''reject'', ''rejected'')]"

definition current_status :: "change_request \<Rightarrow> string" where
  "current_status r = py_lower (py_strip (or_else (cr_status r) ''draft''))"

definition transition_refused :: "string \<Rightarrow> string \<Rightarrow> string \<Rightarrow> bool" where
  "transition_refused transition current next_status =
     (next_status \<notin> set (request_allowed_transitions current)
      \<and> \<not> (transition = ''reject'' \<and> current \<in> {''draft'', ''review'', ''approved''}))"

definition request_by_key :: "gov_store \<Rightarrow> string \<Rightarrow> change_request res" where
  "request_by_key st ref =
     (case List.find (\<lambda>r. cr_key r = ref) (gs_requests st) of
        Some r \<Rightarrow> Inr r
      | None \<Rightarrow> http 404 ''Change request not found'')"

definition load_change_request :: "gov_store \<Rightarrow> string \<Rightarrow> change_request res" where
  "load_change_request st request_ref =
     (let ref = py_strip request_ref in
      if ref = '''' then http 404 ''Change request not found''
      else if py_isdigit ref then
        (case py_int_of_str ref of
           None \<Rightarrow> Inl (ValueError ''invalid literal for int()'')
         | Some i \<Rightarrow>
             (case List.find (\<lambda>r. cr_id r = i) (gs_requests st) of
                Some r \<Rightarrow> Inr r
              | None \<Rightarrow> request_by_key st ref))
      else request_by_key st ref)"

text \<open>The row once the transition is decided, before an application.\<close>

definition moved_request :: "string \<Rightarrow> int option \<Rightarrow> instant \<Rightarrow> change_request \<Rightarrow> change_request" where
  "moved_request transition actor now r =
     (if transition = ''review'' then r\<lparr>cr_status := ''review'', cr_reviewed_by := actor, cr_reviewed_at := Some now\<rparr>
      else if transition = ''approve'' then r\<lparr>cr_status := ''approved'', cr_approved_by := actor, cr_approved_at := Some now\<rparr>
      else if transition = ''reject'' then r\<lparr>cr_status := ''rejected'', cr_rejected_by := actor, cr_rejected_at := Some now\<rparr>
      else r\<lparr>cr_status := ''approved'',
             cr_approved_by := (case cr_approved_by r of Some u \<Rightarrow> if u = 0 then actor else Some u | None \<Rightarrow> actor),
             cr_approved_at := (case cr_approved_at r of Some t \<Rightarrow> Some t | None \<Rightarrow> Some now)\<rparr>)"

definition applied_request :: "int option \<Rightarrow> instant \<Rightarrow> change_request \<Rightarrow> change_request" where
  "applied_request actor now r = r\<lparr>cr_status := ''applied'', cr_applied_by := actor, cr_applied_at := Some now,
     cr_apply_error := None\<rparr>"

definition transition_event ::
  "change_request \<Rightarrow> string \<Rightarrow> string \<Rightarrow> string \<Rightarrow> int option \<Rightarrow> string option \<Rightarrow> change_event" where
  "transition_event r kind previous next_status actor comment =
     \<lparr>che_request_id = cr_id r, che_type = kind, che_previous = Some previous, che_next = next_status,
      che_actor = actor, che_comment = comment\<rparr>"

definition failed_apply :: "string \<Rightarrow> int option \<Rightarrow> string option \<Rightarrow> change_request \<Rightarrow> gov_store \<Rightarrow> gov_store" where
  "failed_apply detail actor comment r st =
     add_event (transition_event r ''apply_failed'' ''approved'' ''approved'' actor
         (if str_true comment then comment else Some detail))
       (put_request (r\<lparr>cr_apply_error := Some detail\<rparr>) st)"

text \<open>The second half of the handler, for a transition that is allowed.\<close>

definition perform_transition ::
  "instant \<Rightarrow> int option \<Rightarrow> string option \<Rightarrow> string \<Rightarrow> string \<Rightarrow> change_request \<Rightarrow> gov_store
     \<Rightarrow> change_request res \<times> gov_store" where
  "perform_transition now actor comment transition next_status row st =
     (let current = current_status row; moved = moved_request transition actor now row in
      if transition \<noteq> ''apply'' then
        (Inr moved, add_event (transition_event moved (request_event_type next_status) current (cr_status moved) actor comment)
           (put_request moved st))
      else
        (case apply_change_request now actor moved st of
           Inr st' \<Rightarrow>
             (let done_row = applied_request actor now moved in
              (Inr done_row, add_event (transition_event done_row (request_event_type next_status) current
                   (cr_status done_row) actor comment) (put_request done_row st')))
         | Inl (HTTPException code detail) \<Rightarrow>
             (Inl (HTTPException code detail), failed_apply detail actor comment moved st)
         | Inl e \<Rightarrow> (Inl e, st)))"

definition transition_metadata_change_request ::
  "instant \<Rightarrow> int option \<Rightarrow> string option \<Rightarrow> string \<Rightarrow> string \<Rightarrow> gov_store \<Rightarrow> change_request res \<times> gov_store" where
  "transition_metadata_change_request now actor comment request_ref transition st =
     (case load_change_request st request_ref of
        Inl e \<Rightarrow> (Inl e, st)
      | Inr row \<Rightarrow>
          (let current = current_status row; tr = norm_token (Some transition) in
           case map_of next_status_map tr of
             None \<Rightarrow> (http 422 ''Unsupported transition'', st)
           | Some next_status \<Rightarrow>
               if transition_refused tr current next_status then
                 (http 422 (''Transition '' @ tr @ '' not allowed from status '' @ current), st)
               else perform_transition now actor comment tr next_status row st))"

section \<open>The abstract life of a request\<close>

text \<open>What the module promises: a request is drafted, reviewed, approved and applied, may be rejected before it is
  applied, and an application that fails leaves it approved.\<close>

inductive change_step :: "string \<Rightarrow> string \<Rightarrow> bool" where
  review: "change_step ''draft'' ''review''"
| approve: "change_step ''review'' ''approved''"
| apply_ok: "change_step ''approved'' ''applied''"
| apply_failed: "change_step ''approved'' ''approved''"
| reject: "s \<in> {''draft'', ''review'', ''approved''} \<Longrightarrow> change_step s ''rejected''"

inductive_cases to_approved: "change_step s ''approved''"
inductive_cases to_applied: "change_step s ''applied''"
inductive_cases to_review: "change_step s ''review''"
inductive_cases from_draft: "change_step ''draft'' s"

inductive_simps change_step_final: "change_step ''applied'' s" "change_step ''rejected'' s"

text \<open>A trail of statuses (each with the one before) that records a path of the machine from its start.\<close>

inductive change_history :: "(string option \<times> string) list \<Rightarrow> string \<Rightarrow> bool" where
  created: "change_history [(None, ''draft'')] ''draft''"
| moved: "change_history trail s \<Longrightarrow> change_step s t \<Longrightarrow> change_history (trail @ [(Some s, t)]) t"

lemma history_start: "change_history trail s \<Longrightarrow> (None, ''draft'') \<in> set trail"
  by (induction rule: change_history.induct) auto

lemma history_review: "change_history trail s \<Longrightarrow> s = ''review'' \<Longrightarrow> (Some ''draft'', ''review'') \<in> set trail"
proof (induction rule: change_history.induct)
  case (moved trail s t)
  from moved.hyps(2) moved.prems have "s = ''draft''" by (auto elim: to_review)
  with moved.prems show ?case by simp
qed simp

lemma history_approved:
  "change_history trail s \<Longrightarrow> s = ''approved'' \<Longrightarrow>
     (Some ''draft'', ''review'') \<in> set trail \<and> (Some ''review'', ''approved'') \<in> set trail"
proof (induction rule: change_history.induct)
  case (moved trail s t)
  from moved.hyps(2) moved.prems have s: "s = ''review'' \<or> s = ''approved''" by (auto elim: to_approved)
  then show ?case
  proof
    assume r: "s = ''review''"
    with history_review [OF moved.hyps(1)] have "(Some ''draft'', ''review'') \<in> set trail" by simp
    with r moved.prems show ?case by simp
  next
    assume "s = ''approved''"
    with moved.IH show ?case by simp
  qed
qed simp

lemma history_applied:
  "change_history trail s \<Longrightarrow> s = ''applied'' \<Longrightarrow>
     (Some ''draft'', ''review'') \<in> set trail \<and> (Some ''review'', ''approved'') \<in> set trail
     \<and> (Some ''approved'', ''applied'') \<in> set trail"
proof (induction rule: change_history.induct)
  case (moved trail s t)
  from moved.hyps(2) moved.prems have s: "s = ''approved''" by (auto elim: to_applied)
  with history_approved [OF moved.hyps(1)] moved.prems show ?case by simp
qed simp

lemma history_status: "change_history trail s \<Longrightarrow> s \<in> {''draft'', ''review'', ''approved'', ''applied'', ''rejected''}"
proof (induction rule: change_history.induct)
  case (moved trail s t)
  from moved.hyps(2) show ?case by cases simp_all
qed simp

section \<open>The handlers refine it\<close>

definition request_log :: "gov_store \<Rightarrow> int \<Rightarrow> (string option \<times> string) list" where
  "request_log st i = map (\<lambda>e. (che_previous e, che_next e)) (filter (\<lambda>e. che_request_id e = i) (gs_events st))"

definition gov_ok :: "gov_store \<Rightarrow> bool" where
  "gov_ok st = (distinct (map cr_id (gs_requests st)) \<and> (\<forall>r\<in>set (gs_requests st). cr_id r < gs_next_request st)
     \<and> (\<forall>e\<in>set (gs_events st). che_request_id e < gs_next_request st)
     \<and> (\<forall>r\<in>set (gs_requests st). change_history (request_log st (cr_id r)) (cr_status r)))"

lemma find_SomeD: "List.find P xs = Some x \<Longrightarrow> x \<in> set xs \<and> P x"
  by (auto simp: find_Some_iff)

lemma load_in: "load_change_request st ref = Inr r \<Longrightarrow> r \<in> set (gs_requests st)"
  by (auto simp: load_change_request_def request_by_key_def http_def Let_def dest!: find_SomeD
      split: if_splits option.splits)

lemma current_status_normal:
  "cr_status r \<in> {''draft'', ''review'', ''approved'', ''applied'', ''rejected''} \<Longrightarrow> current_status r = cr_status r"
proof -
  assume a: "cr_status r \<in> {''draft'', ''review'', ''approved'', ''applied'', ''rejected''}"
  have "list_all (\<lambda>s. py_lower (py_strip (or_else s ''draft'')) = s)
      [''draft'', ''review'', ''approved'', ''applied'', ''rejected'']" by code_simp
  with a show ?thesis by (auto simp: current_status_def)
qed

lemma gov_parts [simp]:
  "gs_requests (put_table t st) = gs_requests st" "gs_events (put_table t st) = gs_events st"
  "gs_next_request (put_table t st) = gs_next_request st"
  "gs_requests (put_column c st) = gs_requests st" "gs_events (put_column c st) = gs_events st"
  "gs_next_request (put_column c st) = gs_next_request st"
  "gs_requests (add_event e st) = gs_requests st" "gs_events (add_event e st) = gs_events st @ [e]"
  "gs_next_request (add_event e st) = gs_next_request st"
  "gs_events (put_request r st) = gs_events st" "gs_next_request (put_request r st) = gs_next_request st"
  by (simp_all add: put_table_def put_column_def put_request_def add_event_def)

lemma apply_sla_never: "isl (apply_sla_request r)"
  by (auto simp: apply_sla_request_def Let_def http_def res_bind_def split: sum.splits py_value.splits)

lemma apply_change_request_frame:
  assumes "apply_change_request now actor r st = Inr st'"
  shows "gs_requests st' = gs_requests st \<and> gs_events st' = gs_events st \<and> gs_next_request st' = gs_next_request st"
  using assms apply_sla_never [of r]
  by (auto simp: apply_change_request_def res_bind_Inr_iff http_def split: if_splits option.splits)

lemma transition_allowed:
  assumes "map_of next_status_map tr = Some n" and "\<not> transition_refused tr s n"
  shows "change_step s n"
proof -
  have "n = ''review'' \<and> s = ''draft'' \<or> n = ''approved'' \<and> s = ''review'' \<or> n = ''applied'' \<and> s = ''approved''
      \<or> n = ''rejected'' \<and> s \<in> {''draft'', ''review'', ''approved''}"
    using assms
    by (auto simp: next_status_map_def transition_refused_def request_allowed_transitions_def split: if_splits)
  then show ?thesis by (elim disjE) (auto intro: change_step.intros)
qed

lemma moved_request_simps:
  "cr_id (moved_request tr actor now r) = cr_id r"
  "map_of next_status_map tr = Some n \<Longrightarrow> tr \<noteq> ''apply'' \<Longrightarrow> cr_status (moved_request tr actor now r) = n"
  "map_of next_status_map tr = Some n \<Longrightarrow> tr = ''apply'' \<Longrightarrow> n = ''applied'' \<and> cr_status (moved_request tr actor now r) = ''approved''"
  by (auto simp: moved_request_def next_status_map_def split: if_splits)

text \<open>The one shape of a successful or failed transition: the row moves along the machine and the log records it.\<close>

lemma gov_ok_moved:
  assumes ok: "gov_ok st" and r: "r \<in> set (gs_requests st)"
    and same: "gs_requests st1 = gs_requests st" "gs_events st1 = gs_events st" "gs_next_request st1 = gs_next_request st"
    and r': "cr_id r' = cr_id r" and step: "change_step (cr_status r) (cr_status r')"
    and e: "che_request_id e = cr_id r" "che_previous e = Some (cr_status r)" "che_next e = cr_status r'"
  shows "gov_ok (add_event e (put_request r' st1))"
proof -
  let ?st = "add_event e (put_request r' st1)"
  have reqs: "gs_requests ?st = map (\<lambda>x. if cr_id x = cr_id r then r' else x) (gs_requests st)"
    by (simp add: put_request_def same r')
  have ids: "map cr_id (gs_requests ?st) = map cr_id (gs_requests st)"
    by (auto simp add: reqs r' simp del: gov_parts)
  have trails: "request_log ?st i = request_log st i @ (if i = cr_id r then [(Some (cr_status r), cr_status r')] else [])" for i
    by (simp add: request_log_def same e)
  have "change_history (request_log ?st (cr_id x)) (cr_status x)" if "x \<in> set (gs_requests ?st)" for x
  proof (cases "cr_id x = cr_id r")
    case True
    with that have "x = r'" using r' ok unfolding reqs by (auto simp: gov_ok_def split: if_splits)
    moreover have "change_history (request_log st (cr_id r)) (cr_status r)" using ok r by (simp add: gov_ok_def)
    ultimately show ?thesis using step by (simp add: trails r' change_history.moved)
  next
    case False
    with that have "x \<in> set (gs_requests st)" unfolding reqs by (auto simp: r' split: if_splits)
    with ok False show ?thesis by (simp add: trails gov_ok_def)
  qed
  moreover have "\<forall>x\<in>set (gs_requests ?st). cr_id x < gs_next_request ?st"
    using ok r unfolding reqs by (auto simp: gov_ok_def r' same split: if_splits)
  moreover have "\<forall>v\<in>set (gs_events ?st). che_request_id v < gs_next_request ?st"
    using ok r by (auto simp: gov_ok_def same e)
  ultimately show ?thesis using ok ids by (simp add: gov_ok_def)
qed

lemma perform_other:
  assumes "x \<in> set (gs_requests st)" and "cr_id x \<noteq> cr_id r"
  shows "x \<in> set (gs_requests (snd (perform_transition now actor comment tr n r st)))"
proof -
  have put: "x \<in> set (gs_requests (put_request r' st1))"
    if "cr_id r' = cr_id r" "gs_requests st1 = gs_requests st" for r' st1
    using assms that by (force simp: put_request_def)
  show ?thesis
    using assms(1)
    by (auto simp: perform_transition_def Let_def failed_apply_def applied_request_def moved_request_simps
        intro!: put dest!: apply_change_request_frame split: sum.splits py_error.splits)
qed

lemma perform_keeps:
  assumes ok: "gov_ok st" and r: "r \<in> set (gs_requests st)" and cur: "current_status r = cr_status r"
    and n: "map_of next_status_map tr = Some n" and step: "change_step (cr_status r) n"
  shows "gov_ok (snd (perform_transition now actor comment tr n r st))"
proof (cases "tr = ''apply''")
  case False
  show ?thesis
    using False step n moved_request_simps(2) [OF n False]
    by (simp add: perform_transition_def Let_def cur)
      (rule gov_ok_moved [OF ok r refl refl refl], simp_all add: transition_event_def moved_request_simps)
next
  case True
  let ?m = "moved_request tr actor now r"
  from moved_request_simps(3) [OF n True] have n': "n = ''applied''" and m: "cr_status ?m = ''approved''" by auto
  from step have app: "cr_status r = ''approved''" unfolding n' by (rule to_applied)
  show ?thesis
  proof (cases "apply_change_request now actor ?m st")
    case (Inr st1)
    note frame = apply_change_request_frame [OF Inr]
    show ?thesis
      using True Inr frame step n'
      by (simp add: perform_transition_def Let_def cur)
        (rule gov_ok_moved [OF ok r], simp_all add: transition_event_def applied_request_def moved_request_simps)
  next
    case (Inl err)
    show ?thesis
    proof (cases err)
      case (HTTPException code detail)
      show ?thesis
        using True Inl HTTPException m app
        by (simp add: perform_transition_def Let_def failed_apply_def split del: if_split)
          (rule gov_ok_moved [OF ok r refl refl refl],
            simp_all add: transition_event_def moved_request_simps change_step.apply_failed)
    qed (use True Inl ok in \<open>simp_all add: perform_transition_def Let_def\<close>)
  qed
qed

lemma gov_current:
  assumes "gov_ok st" and "r \<in> set (gs_requests st)"
  shows "current_status r = cr_status r"
  using assms by (intro current_status_normal) (auto simp: gov_ok_def dest!: history_status)

lemma transition_keeps:
  assumes "gov_ok st"
  shows "gov_ok (snd (transition_metadata_change_request now actor comment ref tr st))"
proof (cases "load_change_request st ref")
  case (Inr r)
  note r = load_in [OF Inr]
  note cur = gov_current [OF assms r]
  from Inr assms show ?thesis
    by (auto simp: transition_metadata_change_request_def Let_def cur
        intro!: perform_keeps [OF assms r cur] intro: transition_allowed split: option.splits)
qed (use assms in \<open>simp add: transition_metadata_change_request_def\<close>)

text \<open>A row in a final status is left alone by every transition.\<close>

definition final_request :: "change_request \<Rightarrow> bool" where
  "final_request r = (cr_status r = ''applied'' \<or> cr_status r = ''rejected'')"

lemma final_no_step: "final_request r \<Longrightarrow> \<not> change_step (cr_status r) n"
  by (auto simp: final_request_def change_step_final)

lemma transition_frozen:
  assumes "gov_ok st" and "x \<in> set (gs_requests st)" and "final_request x"
  shows "x \<in> set (gs_requests (snd (transition_metadata_change_request now actor comment ref tr st)))"
proof (cases "load_change_request st ref")
  case (Inr r)
  note r = load_in [OF Inr]
  note cur = gov_current [OF assms(1) r]
  have "cr_id x \<noteq> cr_id r" if "change_step (cr_status r) n" for n
    using assms r final_no_step [OF assms(3)] that by (auto simp: gov_ok_def distinct_map dest: inj_onD)
  with Inr assms(2) show ?thesis
    by (auto simp: transition_metadata_change_request_def Let_def cur
        intro!: perform_other dest: transition_allowed split: option.splits)
qed (use assms in \<open>simp add: transition_metadata_change_request_def\<close>)

section \<open>Every history of requests\<close>

datatype gov_event =
    UpsertSla "int option" string int sla_request
  | CreateRequest string "int option" change_request_in
  | MoveRequest "int option" "string option" string string

definition gov_step :: "gov_store \<Rightarrow> instant \<times> gov_event \<Rightarrow> gov_store" where
  "gov_step st e = (case snd e of
     UpsertSla actor ty i req \<Rightarrow> or_same st (map_sum id snd (upsert_asset_sla (fst e) actor ty i req st))
   | CreateRequest key actor req \<Rightarrow> or_same st (map_sum id snd (create_metadata_change_request key actor req st))
   | MoveRequest actor comment ref tr \<Rightarrow> snd (transition_metadata_change_request (fst e) actor comment ref tr st))"

lemma upsert_frame:
  "upsert_asset_sla now actor ty i req st = Inr (row, st') \<Longrightarrow>
     gs_requests st' = gs_requests st \<and> gs_events st' = gs_events st \<and> gs_next_request st' = gs_next_request st"
  by (auto simp: upsert_asset_sla_def res_bind_Inr_iff Let_def http_def split: if_splits option.splits)

lemma gov_ok_frame:
  "gov_ok st \<Longrightarrow> gs_requests st' = gs_requests st \<and> gs_events st' = gs_events st \<and> gs_next_request st' = gs_next_request st
     \<Longrightarrow> gov_ok st'"
  by (simp add: gov_ok_def request_log_def)

lemma create_shape:
  assumes "create_metadata_change_request key actor req st = Inr (row, st')"
  shows "gs_requests st' = gs_requests st @ [row] \<and> cr_id row = gs_next_request st \<and> cr_status row = ''draft''
    \<and> gs_next_request st' = gs_next_request st + 1
    \<and> (\<exists>e. gs_events st' = gs_events st @ [e] \<and> che_request_id e = cr_id row \<and> che_previous e = None \<and> che_next e = ''draft'')"
  using assms
  by (auto simp: create_metadata_change_request_def res_bind_Inr_iff Let_def http_def split: if_splits)

lemma gov_create_keeps:
  assumes ok: "gov_ok st" and c: "create_metadata_change_request key actor req st = Inr (row, st')"
  shows "gov_ok st'"
proof -
  from create_shape [OF c] obtain e where st': "gs_requests st' = gs_requests st @ [row]" "gs_next_request st' = gs_next_request st + 1"
    and row: "cr_id row = gs_next_request st" "cr_status row = ''draft''"
    and e: "gs_events st' = gs_events st @ [e]" "che_request_id e = cr_id row" "che_previous e = None" "che_next e = ''draft''"
    by blast
  have "request_log st (gs_next_request st) = []"
    using ok by (auto simp: gov_ok_def request_log_def filter_empty_conv)
  then have "request_log st' (cr_id row) = [(None, ''draft'')]"
    by (simp add: request_log_def e row)
  moreover have "request_log st' (cr_id x) = request_log st (cr_id x)" if "x \<in> set (gs_requests st)" for x
    using ok that by (auto simp: gov_ok_def request_log_def e row)
  ultimately show ?thesis
    using ok by (auto simp: gov_ok_def st' row e change_history.created)
qed

lemma gov_step_keeps: "gov_ok st \<Longrightarrow> gov_ok (gov_step st e)"
  by (cases "snd e")
    (auto simp: gov_step_def or_same_def map_snd_Inr transition_keeps
      intro: gov_create_keeps gov_ok_frame dest: upsert_frame split: sum.splits)

lemma gov_step_frozen:
  assumes "gov_ok st" and "r \<in> set (gs_requests st)" and "final_request r"
  shows "r \<in> set (gs_requests (gov_step st e))"
  using assms
  by (cases "snd e")
    (auto simp: gov_step_def or_same_def map_snd_Inr transition_frozen dest: upsert_frame create_shape split: sum.splits)

interpretation requests: frozen_rows gov_step gov_ok "\<lambda>st. set (gs_requests st)" final_request
  by unfold_locales (simp_all add: gov_step_keeps gov_step_frozen)

section \<open>What an application writes\<close>

lemma map_of_foldl_set:
  "map_of (foldl (\<lambda>fs f. dict_set f (v f) fs) vals names) x = (if x \<in> set names then Some (v x) else map_of vals x)"
  by (induction names arbitrary: vals) (auto simp: map_of_dict_set)

lemma map_of_set_fields:
  "map_of (set_fields names proposed vals) f =
     (if f \<in> set names \<and> has_key proposed f then Some (dict_get proposed f) else map_of vals f)"
  by (auto simp: set_fields_def proposed_fields_def map_of_foldl_set)

lemma untouched_fields:
  "proposed_fields names proposed = [] \<Longrightarrow> f \<in> set names \<Longrightarrow> \<not> has_key proposed f"
  by (auto simp: proposed_fields_def filter_empty_conv)

lemma applied_table_fields:
  assumes "apply_request_to_table st actor now r t = Inr t'"
  shows "map_of (gt_fields t') f =
      (if f \<in> set CLASSIFICATION_FIELDS \<union> set TABLE_DESCRIPTION_FIELDS \<and> has_key (cr_proposed r) f
       then Some (dict_get (cr_proposed r) f) else map_of (gt_fields t) f)
    \<and> gt_id t' = gt_id t
    \<and> (\<not> touches_owner r \<longrightarrow> gt_data_owner_id t' = gt_data_owner_id t \<and> gt_owner t' = gt_owner t
        \<and> gt_owner_email t' = gt_owner_email t)"
proof -
  from assms [unfolded apply_request_to_table_def res_bind_Inr_iff] obtain t1 where o1: "(if touches_owner r
        then res_bind (proposed_owner st (cr_proposed r)) (\<lambda>ow. Inr (owned_table ow actor now t)) else Inr t) = Inr t1"
    and rest: "(let t2 = (if touches_classification r then classified_table (cr_proposed r) actor now t1 else t1);
        t3 = (if touches_description TABLE_DESCRIPTION_FIELDS r then described_table (cr_proposed r) t2 else t2)
        in if table_changes r = [] then http 422 ''Unsupported table change request'' else Inr t3) = Inr t'"
    by (elim exE conjE)
  from rest have t': "t' = (if touches_description TABLE_DESCRIPTION_FIELDS r
        then described_table (cr_proposed r) (if touches_classification r then classified_table (cr_proposed r) actor now t1 else t1)
        else (if touches_classification r then classified_table (cr_proposed r) actor now t1 else t1))"
    by (cases "table_changes r = []") (simp_all add: Let_def http_def)
  from o1 have t1: "gt_fields t1 = gt_fields t" "gt_id t1 = gt_id t" "\<not> touches_owner r \<longrightarrow> t1 = t"
    by (auto simp: res_bind_Inr_iff owned_table_def split: if_splits)
  have "\<not> touches_classification r \<Longrightarrow> f \<in> set CLASSIFICATION_FIELDS \<Longrightarrow> \<not> has_key (cr_proposed r) f"
    "\<not> touches_description TABLE_DESCRIPTION_FIELDS r \<Longrightarrow> f \<in> set TABLE_DESCRIPTION_FIELDS \<Longrightarrow> \<not> has_key (cr_proposed r) f"
    by (auto simp: touches_classification_def touches_description_def dest: untouched_fields)
  then show ?thesis
    unfolding t' using t1
    by (auto simp: described_table_def classified_table_def map_of_set_fields)
qed

section \<open>Properties\<close>

text \<open>C12: whatever is requested in whatever order, the event log of every request is a path of the abstract
  machine from draft to its present status, and an applied request was reviewed, approved and applied, each
  from the status before it.\<close>

theorem requests_follow_life_cycle:
  assumes "gs_requests st0 = []" and "gs_events st0 = []"
    and "r \<in> set (gs_requests (foldl gov_step st0 es))"
  shows "change_history (request_log (foldl gov_step st0 es) (cr_id r)) (cr_status r) \<and>
    (cr_status r = ''applied'' \<longrightarrow>
      {(None, ''draft''), (Some ''draft'', ''review''), (Some ''review'', ''approved''), (Some ''approved'', ''applied'')}
        \<subseteq> set (request_log (foldl gov_step st0 es) (cr_id r)))"
proof -
  have "gov_ok st0" using assms(1,2) by (simp add: gov_ok_def)
  then have "gov_ok (foldl gov_step st0 es)" by (rule requests.inv_run)
  with assms(3) have h: "change_history (request_log (foldl gov_step st0 es) (cr_id r)) (cr_status r)"
    by (simp add: gov_ok_def)
  with history_start [OF h] history_applied [OF h] show ?thesis by simp
qed

text \<open>An applied or rejected request keeps its row whatever is requested afterwards.\<close>

theorem final_requests_stay:
  assumes "gov_ok st" and "r \<in> set (gs_requests st)" and "cr_status r \<in> {''applied'', ''rejected''}"
  shows "r \<in> set (gs_requests (foldl gov_step st es))"
  by (rule requests.frozen_run) (use assms in \<open>auto simp: final_request_def\<close>)

text \<open>Applying a request to a table changes that table only; of its named attributes exactly the proposed ones
  on the lists of classification and description fields get the proposed values, and the owner is untouched
  unless the request is about the owner.\<close>

theorem apply_writes_only_proposed:
  assumes "apply_change_request now actor r st = Inr st'" and "norm_token (Some (cr_asset_type r)) = ''table''"
  shows "\<exists>t t'. find_table st (cr_asset_id r) = Some t \<and> st' = put_table t' st \<and> gt_id t' = gt_id t \<and>
    (\<forall>f. map_of (gt_fields t') f =
      (if f \<in> set CLASSIFICATION_FIELDS \<union> set TABLE_DESCRIPTION_FIELDS \<and> has_key (cr_proposed r) f
       then Some (dict_get (cr_proposed r) f) else map_of (gt_fields t) f)) \<and>
    (\<not> touches_owner r \<longrightarrow> gt_data_owner_id t' = gt_data_owner_id t \<and> gt_owner t' = gt_owner t)"
proof -
  from assms obtain ax where ax: "asset_context_of st (cr_asset_type r) (cr_asset_id r) = Inr ax"
    and b: "cr_change_kind r \<notin> set SLA_KINDS"
    using apply_sla_never [of r] by (auto simp: apply_change_request_def res_bind_Inr_iff split: if_splits)
  from ax assms(2) have ids: "ax_type ax = ''table''" "ax_id ax = cr_asset_id r"
    by (auto simp: asset_context_of_def normalize_asset_type_def normalize_asset_id_def http_def res_bind_Inr_iff
        split: if_splits option.splits)
  from assms(1) ax b ids obtain t t' where t: "find_table st (cr_asset_id r) = Some t"
    and a: "apply_request_to_table st actor now r t = Inr t'" and st': "st' = put_table t' st"
    by (auto simp: apply_change_request_def res_bind_Inr_iff http_def split: option.splits)
  from t st' applied_table_fields [OF a] show ?thesis by blast
qed

text \<open>A request for a service level cannot be applied: whatever its proposal, the application raises, and after
  every transition the request is not in the status applied.\<close>

theorem sla_requests_never_apply:
  assumes "gov_ok st" and "r \<in> set (gs_requests st)" and "load_change_request st ref = Inr r"
    and "cr_change_kind r \<in> set SLA_KINDS" and "cr_status r \<noteq> ''applied''"
  shows "isl (fst (transition_metadata_change_request now actor comment ref ''apply'' st)) \<and>
    (\<forall>r'\<in>set (gs_requests (snd (transition_metadata_change_request now actor comment ref ''apply'' st))).
       cr_id r' = cr_id r \<longrightarrow> cr_status r' \<noteq> ''applied'')"
proof -
  note cur = gov_current [OF assms(1,2)]
  have a: "norm_token (Some ''apply'') = ''apply''" "map_of next_status_map ''apply'' = Some ''applied''"
    by code_simp+
  let ?m = "moved_request ''apply'' actor now r"
  have uniq: "x = r" if "x \<in> set (gs_requests st)" "cr_id x = cr_id r" for x
    using assms(1,2) that by (auto simp: gov_ok_def distinct_map dest: inj_onD)
  have m: "cr_id ?m = cr_id r" "cr_status ?m = ''approved''" "cr_change_kind ?m = cr_change_kind r"
    by (simp_all add: moved_request_def)
  have never: "isl (apply_change_request now actor ?m st)"
    using apply_sla_never [of ?m] assms(4) m(3)
    by (auto simp: apply_change_request_def res_bind_def split: sum.splits)
  have kept: "\<forall>r'\<in>set (gs_requests st). cr_id r' = cr_id r \<longrightarrow> cr_status r' \<noteq> ''applied''"
    using uniq assms(5) by blast
  have put: "\<forall>r'\<in>set (gs_requests (put_request (?m\<lparr>cr_apply_error := d\<rparr>) st)). cr_id r' = cr_id r \<longrightarrow> cr_status r' \<noteq> ''applied''" for d
    using m by (auto simp: put_request_def)
  show ?thesis
    using never kept put
    by (auto simp: transition_metadata_change_request_def assms(3) a Let_def http_def perform_transition_def failed_apply_def
        split: sum.splits py_error.splits if_splits)
qed

section \<open>Concrete instances\<close>

definition demo_gov :: gov_store where
  "demo_gov = \<lparr>gs_tables = [\<lparr>gt_id = 1, gt_path = [''d'', ''b'', ''s''], gt_name = ''t'', gt_data_owner_id = None,
       gt_owner = None, gt_owner_email = None, gt_owner_reviewed_by = None, gt_owner_reviewed_at = None,
       gt_privacy_reviewed_by = None, gt_privacy_reviewed_at = None, gt_fields = []\<rparr>],
     gs_columns = [], gs_owners = [], gs_slas = [], gs_requests = [], gs_events = [], gs_next_request = 1, gs_next_sla = 1\<rparr>"

definition demo_change :: "string \<Rightarrow> change_request_in" where
  "demo_change kind = \<lparr>ci_asset_type = ''table'', ci_asset_id = 1, ci_change_kind = kind, ci_title = ''x'',
     ci_description = None, ci_policy_rule_key = None, ci_recommendation_id = None, ci_current = [],
     ci_proposed = [(''description_manual'', PStr ''new''), (''sla_hours'', PInt 4)], ci_context = []\<rparr>"

definition demo_moves :: "string \<Rightarrow> (instant \<times> gov_event) list" where
  "demo_moves kind = [(1, CreateRequest ''k1'' (Some 7) (demo_change kind)),
     (2, MoveRequest (Some 7) None ''k1'' ''review''), (3, MoveRequest (Some 7) None ''k1'' ''approve''),
     (4, MoveRequest (Some 7) None ''k1'' ''apply'')]"

lemma demo_run_statuses:
  "map cr_status (gs_requests (foldl gov_step demo_gov (demo_moves ''description''))) = [''applied'']"
  "map cr_status (gs_requests (foldl gov_step demo_gov (demo_moves ''sla''))) = [''approved'']"
  by code_simp+

lemma demo_gov_start: "gs_requests demo_gov = []" "gs_events demo_gov = []"
  by (simp_all add: demo_gov_def)

lemma demo_gov_ok: "gov_ok (foldl gov_step demo_gov es)"
  by (rule requests.inv_run) (simp add: gov_ok_def demo_gov_start)

theorem requests_follow_life_cycle_witness:
  "\<exists>r\<in>set (gs_requests (foldl gov_step demo_gov (demo_moves ''description''))). cr_status r = ''applied''
     \<and> (Some ''review'', ''approved'') \<in> set (request_log (foldl gov_step demo_gov (demo_moves ''description'')) (cr_id r))"
proof -
  obtain r where r: "gs_requests (foldl gov_step demo_gov (demo_moves ''description'')) = [r]" "cr_status r = ''applied''"
    using demo_run_statuses(1) by (auto simp: map_eq_Cons_conv)
  then have "r \<in> set (gs_requests (foldl gov_step demo_gov (demo_moves ''description'')))" by simp
  from requests_follow_life_cycle [OF demo_gov_start this] r(2) this show ?thesis by blast
qed

theorem final_requests_stay_witness:
  "\<exists>r. cr_status r = ''applied'' \<and> r \<in> set (gs_requests (foldl gov_step demo_gov
     (demo_moves ''description'' @ [(9, MoveRequest None None ''k1'' ''reject'')])))"
proof -
  obtain r where r: "gs_requests (foldl gov_step demo_gov (demo_moves ''description'')) = [r]" "cr_status r = ''applied''"
    using demo_run_statuses(1) by (auto simp: map_eq_Cons_conv)
  from final_requests_stay [OF demo_gov_ok, of r "demo_moves ''description''" "[(9, MoveRequest None None ''k1'' ''reject'')]"] r
  show ?thesis by auto
qed

definition demo_request :: "string \<Rightarrow> change_request" where
  "demo_request kind = hd (gs_requests (foldl gov_step demo_gov (take 3 (demo_moves kind))))"

theorem apply_writes_only_proposed_witness:
  "\<exists>st' t'. apply_change_request 4 (Some 7) (demo_request ''description'') demo_gov = Inr st'
     \<and> find_table st' 1 = Some t' \<and> map_of (gt_fields t') ''description_manual'' = Some (PStr ''new'')"
proof -
  have n: "norm_token (Some (cr_asset_type (demo_request ''description''))) = ''table''" by code_simp
  have "\<not> isl (apply_change_request 4 (Some 7) (demo_request ''description'') demo_gov)" by code_simp
  then obtain st' where a: "apply_change_request 4 (Some 7) (demo_request ''description'') demo_gov = Inr st'"
    by (cases "apply_change_request 4 (Some 7) (demo_request ''description'') demo_gov") auto
  have p: "has_key (cr_proposed (demo_request ''description'')) ''description_manual''"
    "dict_get (cr_proposed (demo_request ''description'')) ''description_manual'' = PStr ''new''"
    "''description_manual'' \<in> set TABLE_DESCRIPTION_FIELDS" "cr_asset_id (demo_request ''description'') = 1"
    by code_simp+
  from apply_writes_only_proposed [OF a n] obtain t t' where t: "find_table demo_gov 1 = Some t" "st' = put_table t' demo_gov"
    "gt_id t' = gt_id t" and f: "\<forall>f. map_of (gt_fields t') f =
      (if f \<in> set CLASSIFICATION_FIELDS \<union> set TABLE_DESCRIPTION_FIELDS \<and> has_key (cr_proposed (demo_request ''description'')) f
       then Some (dict_get (cr_proposed (demo_request ''description'')) f) else map_of (gt_fields t) f)"
    unfolding p(4) by blast
  from f p have d: "map_of (gt_fields t') ''description_manual'' = Some (PStr ''new'')" by simp
  from t have "find_table st' 1 = Some t'"
    by (auto simp: find_table_def put_table_def demo_gov_def)
  with a d show ?thesis by blast
qed

theorem sla_requests_never_apply_witness:
  "isl (fst (transition_metadata_change_request 4 (Some 7) None ''k1'' ''apply''
     (foldl gov_step demo_gov (take 3 (demo_moves ''sla'')))))"
proof -
  let ?st = "foldl gov_step demo_gov (take 3 (demo_moves ''sla''))"
  have l: "load_change_request ?st ''k1'' = Inr (demo_request ''sla'')" by code_simp
  have k: "cr_change_kind (demo_request ''sla'') \<in> set SLA_KINDS" "cr_status (demo_request ''sla'') \<noteq> ''applied''"
    by code_simp+
  from sla_requests_never_apply [OF demo_gov_ok load_in [OF l] l k] show ?thesis by blast
qed

end
