(* ===== verification/Calendar.thy ===== *)
theory Calendar
  imports Models
begin

text \<open>
  Calendar arithmetic of Python's \<open>datetime\<close> as the schedules use it: ordinals of the proleptic
  Gregorian calendar (1 January of year 1 is day 1), year, month and week day of an ordinal, the
  moment of a wall clock reading, and \<open>date.fromisoformat\<close>.

  A moment or a wall clock reading is a number of microseconds; the reading of a clock is counted
  as if it were UTC.
\<close>

section \<open>Ordinals\<close>

definition is_leap :: "int \<Rightarrow> bool" where
  "is_leap y = (y mod 4 = 0 \<and> (y mod 100 \<noteq> 0 \<or> y mod 400 = 0))"

definition year_len :: "int \<Rightarrow> int" where
  "year_len y = (if is_leap y then 366 else 365)"

definition days_before_year :: "int \<Rightarrow> int" where
  "days_before_year y = (let p = y - 1 in p * 365 + p div 4 - p div 100 + p div 400)"

text \<open>\<open>calendar.monthrange(year, month)[1]\<close>.\<close>

definition month_len :: "int \<Rightarrow> int \<Rightarrow> int" where
  "month_len y m =
     (if m = 2 then (if is_leap y then 29 else 28)
      else if m \<in> {4, 6, 9, 11} then 30 else 31)"

definition days_before_month :: "int \<Rightarrow> int \<Rightarrow> int" where
  "days_before_month y m =
     [0, 31, 59, 90, 120, 151, 181, 212, 243, 273, 304, 334] ! nat (m - 1)
     + (if m > 2 \<and> is_leap y then 1 else 0)"

definition ymd2ord :: "int \<Rightarrow> int \<Rightarrow> int \<Rightarrow> int" where
  "ymd2ord y m d = days_before_year y + days_before_month y m + d"

definition year_of :: "int \<Rightarrow> int" where
  "year_of n = (let y = (n - 1) * 400 div 146097 + 1 in
     if n \<le> days_before_year y then y - 1
     else if days_before_year (y + 1) < n then y + 1 else y)"

definition month_of :: "int \<Rightarrow> int" where
  "month_of n = (let y = year_of n; r = n - days_before_year y in
     the (List.find (\<lambda>m. r \<le> days_before_month y m + month_len y m) [1, 2, 3, 4, 5, 6, 7, 8, 9, 10, 11, 12]))"

definition day_of :: "int \<Rightarrow> int" where
  "day_of n = n - days_before_year (year_of n) - days_before_month (year_of n) (month_of n)"

text \<open>\<open>date.weekday()\<close>: Monday is 0.\<close>

definition weekday :: "int \<Rightarrow> int" where
  "weekday n = (n + 6) mod 7"

definition max_ordinal :: int where "max_ordinal = 3652059"

lemma div_pred:
  assumes "0 < (k :: int)"
  shows "y div k = (y - 1) div k + (if y mod k = 0 then 1 else 0)"
proof (cases "y mod k = 0")
  case True
  have "(y - 1) div k = y div k - 1"
  proof (rule int_div_pos_eq)
    show "y - 1 = k * (y div k - 1) + (k - 1)"
      using True mult_div_mod_eq [of k y] by (simp add: algebra_simps)
  qed (use assms in simp_all)
  with True show ?thesis by simp
next
  case False
  have "(y - 1) div k = y div k"
  proof (rule int_div_pos_eq)
    show "y - 1 = k * (y div k) + (y mod k - 1)"
      using mult_div_mod_eq [of k y] by simp
    show "0 \<le> y mod k - 1"
      using False pos_mod_sign [OF assms, of y] by linarith
    show "y mod k - 1 < k"
      using pos_mod_bound [OF assms, of y] by linarith
  qed
  with False show ?thesis by simp
qed

lemma div_interval: "0 < (k :: int) \<Longrightarrow> k * (n div k) \<le> n \<and> n < k * (n div k) + k"
  using mult_div_mod_eq [of k n] pos_mod_sign [of k n] pos_mod_bound [of k n] by linarith

lemma leap_mods: "(y :: int) mod 100 = 0 \<Longrightarrow> y mod 4 = 0" "y mod 400 = 0 \<Longrightarrow> y mod 100 = 0"
proof -
  show "y mod 100 = 0 \<Longrightarrow> y mod 4 = 0"
    using dvd_trans [of 4 100 y] by (simp add: mod_eq_0_iff_dvd)
  show "y mod 400 = 0 \<Longrightarrow> y mod 100 = 0"
    using dvd_trans [of 100 400 y] by (simp add: mod_eq_0_iff_dvd)
qed

lemma shift_year:
  "a' = a + i \<Longrightarrow> b' = b + j \<Longrightarrow> c' = c + k \<Longrightarrow>
     y * 365 + a' - b' + c' = (y - 1) * 365 + a - b + c + 365 + i - j + (k :: int)"
  by simp

lemma days_before_next_year: "days_before_year (y + 1) = days_before_year y + year_len y"
proof -
  have "days_before_year (y + 1) = days_before_year y + 365
      + (if y mod 4 = 0 then 1 else 0) - (if y mod 100 = 0 then 1 else 0) + (if y mod 400 = 0 then 1 else 0)"
    unfolding days_before_year_def Let_def
      add_diff_cancel_right'
    by (rule shift_year; rule div_pred; simp)
  also have "\<dots> = days_before_year y + year_len y"
    using leap_mods [of y] unfolding year_len_def is_leap_def
    by (cases "y mod 4 = 0"; cases "y mod 100 = 0"; cases "y mod 400 = 0") simp_all
  finally show ?thesis .
qed

lemma year_len_bounds: "365 \<le> year_len y \<and> year_len y \<le> 366"
  by (simp add: year_len_def)

lemma days_before_year_mono: "y \<le> z \<Longrightarrow> days_before_year y \<le> days_before_year z"
proof (induction z rule: int_ge_induct)
  case (step z)
  then show ?case using days_before_next_year [of z] year_len_bounds [of z] by simp
qed simp

lemma approx_years:
  assumes "4 * a \<le> (p :: int)" "p < 4 * a + 4" "100 * b \<le> p" "p < 100 * b + 100"
    "400 * c \<le> p" "p < 400 * c + 400"
  shows "400 * (p * 365 + a - b + c) \<le> 146097 * p + 400" and "146097 * p - 800 \<le> 400 * (p * 365 + a - b + c)"
proof -
  show "400 * (p * 365 + a - b + c) \<le> 146097 * p + 400" using assms by (simp add: distrib_left)
  show "146097 * p - 800 \<le> 400 * (p * 365 + a - b + c)" using assms by (simp add: distrib_left)
qed

lemma days_before_year_approx:
  "400 * days_before_year y \<le> 146097 * (y - 1) + 400" "146097 * (y - 1) - 800 \<le> 400 * days_before_year y"
  unfolding days_before_year_def Let_def
  by (rule approx_years; use div_interval [of 4 "y - 1"] div_interval [of 100 "y - 1"]
      div_interval [of 400 "y - 1"] in simp)+

lemma year_of_bounds: "days_before_year (year_of n) < n \<and> n \<le> days_before_year (year_of n + 1)"
proof -
  define y where "y = (n - 1) * 400 div 146097 + 1"
  have q: "146097 * (y - 1) \<le> (n - 1) * 400" "(n - 1) * 400 < 146097 * (y - 1) + 146097"
    using div_interval [of 146097 "(n - 1) * 400"] unfolding y_def by simp_all
  have "days_before_year (y - 1) < n"
    using q days_before_year_approx [of "y - 1"] by simp
  moreover have "n \<le> days_before_year (y + 1 + 1)"
    using q days_before_year_approx [of "y + 1 + 1"] by simp
  moreover have "y - 1 + 1 = y" by simp
  ultimately show ?thesis
    unfolding year_of_def Let_def y_def [symmetric] by (auto simp: not_less not_le)
qed

lemma year_in_range: "n \<le> max_ordinal \<Longrightarrow> 0 < n \<Longrightarrow> 1 \<le> year_of n \<and> year_of n \<le> 9999"
proof (rule ccontr)
  assume n: "n \<le> max_ordinal" "0 < n" and no: "\<not> (1 \<le> year_of n \<and> year_of n \<le> 9999)"
  have b: "days_before_year (year_of n) < n" "n \<le> days_before_year (year_of n + 1)"
    using year_of_bounds by blast+
  have e: "days_before_year 1 = 0" "days_before_year 10000 = 3652059"
    by (simp_all add: days_before_year_def)
  from no show False
    using n b e days_before_year_mono [of "year_of n + 1" 1] days_before_year_mono [of 10000 "year_of n"]
    by (auto simp: max_ordinal_def not_le)
qed

lemma month_table:
  "days_before_month y 1 = 0" "days_before_month y 2 = 31"
  "days_before_month y 3 = (if is_leap y then 60 else 59)"
  "days_before_month y 4 = (if is_leap y then 91 else 90)"
  "days_before_month y 5 = (if is_leap y then 121 else 120)"
  "days_before_month y 6 = (if is_leap y then 152 else 151)"
  "days_before_month y 7 = (if is_leap y then 182 else 181)"
  "days_before_month y 8 = (if is_leap y then 213 else 212)"
  "days_before_month y 9 = (if is_leap y then 244 else 243)"
  "days_before_month y 10 = (if is_leap y then 274 else 273)"
  "days_before_month y 11 = (if is_leap y then 305 else 304)"
  "days_before_month y 12 = (if is_leap y then 335 else 334)"
  by (simp_all add: days_before_month_def)

lemma days_before_next_month:
  "1 \<le> m \<Longrightarrow> m \<le> 11 \<Longrightarrow> days_before_month y (m + 1) = days_before_month y m + month_len y m"
proof -
  assume "1 \<le> m" "m \<le> 11"
  then have "m = 1 \<or> m = 2 \<or> m = 3 \<or> m = 4 \<or> m = 5 \<or> m = 6 \<or> m = 7 \<or> m = 8 \<or> m = 9 \<or> m = 10 \<or> m = 11"
    by presburger
  then show ?thesis
    by (elim disjE) (simp_all add: month_table month_len_def)
qed

lemma days_before_last_month: "days_before_month y 12 + month_len y 12 = year_len y"
  by (simp add: month_table month_len_def year_len_def)

lemma month_len_bounds: "28 \<le> month_len y m \<and> month_len y m \<le> 31"
  by (simp add: month_len_def)

lemma days_before_month_nonneg: "1 \<le> m \<Longrightarrow> m \<le> 12 \<Longrightarrow> 0 \<le> days_before_month y m"
proof -
  assume "1 \<le> m" "m \<le> 12"
  then have "m = 1 \<or> m = 2 \<or> m = 3 \<or> m = 4 \<or> m = 5 \<or> m = 6 \<or> m = 7 \<or> m = 8 \<or> m = 9 \<or> m = 10 \<or> m = 11 \<or> m = 12"
    by presburger
  then show ?thesis by (elim disjE) (simp_all add: month_table)
qed

text \<open>The month of a day, and the first day of the month after it.\<close>

lemma month_of_bounds:
  "1 \<le> month_of n \<and> month_of n \<le> 12 \<and> 1 \<le> day_of n \<and> day_of n \<le> month_len (year_of n) (month_of n)"
proof -
  define y r where "y = year_of n" and "r = n - days_before_year y"
  have r: "0 < r" "r \<le> year_len y"
    using year_of_bounds [of n] days_before_next_year [of y] unfolding r_def y_def by simp_all
  have m: "month_of n = the (List.find (\<lambda>m. r \<le> days_before_month y m + month_len y m)
      [1, 2, 3, 4, 5, 6, 7, 8, 9, 10, 11, 12])"
    unfolding month_of_def Let_def y_def r_def by (rule refl)
  have d: "day_of n = r - days_before_month y (month_of n)"
    unfolding day_of_def r_def y_def by simp
  show ?thesis
    unfolding y_def [symmetric] d m using r
    by (cases "is_leap y") (simp_all add: month_table month_len_def year_len_def)
qed

lemma ymd_of_ord: "ymd2ord (year_of n) (month_of n) (day_of n) = n"
  by (simp add: ymd2ord_def day_of_def)

text \<open>The calendar is a bijection: every date has one year, month and day.\<close>

lemma year_of_unique: "days_before_year y < n \<Longrightarrow> n \<le> days_before_year (y + 1) \<Longrightarrow> year_of n = y"
proof (rule ccontr)
  assume n: "days_before_year y < n" "n \<le> days_before_year (y + 1)" and ne: "year_of n \<noteq> y"
  have "days_before_year (year_of n) < n" "n \<le> days_before_year (year_of n + 1)"
    using year_of_bounds by blast+
  with n ne days_before_year_mono [of "year_of n + 1" y] days_before_year_mono [of "y + 1" "year_of n"]
  show False by linarith
qed

lemma month_of_unique:
  assumes "1 \<le> m" "m \<le> 12" "days_before_month y m < r" "r \<le> days_before_month y m + month_len y m"
  shows "List.find (\<lambda>m. r \<le> days_before_month y m + month_len y m) [1, 2, 3, 4, 5, 6, 7, 8, 9, 10, 11, 12] = Some m"
proof -
  have "m = 1 \<or> m = 2 \<or> m = 3 \<or> m = 4 \<or> m = 5 \<or> m = 6 \<or> m = 7 \<or> m = 8 \<or> m = 9 \<or> m = 10 \<or> m = 11 \<or> m = 12"
    using assms(1,2) by presburger
  then show ?thesis
    using assms(3,4) by (elim disjE; cases "is_leap y") (simp_all add: month_table month_len_def)
qed

lemma days_in_year: "1 \<le> m \<Longrightarrow> m \<le> 12 \<Longrightarrow> days_before_month y m + month_len y m \<le> year_len y"
proof -
  assume "1 \<le> m" "m \<le> 12"
  then have "m = 1 \<or> m = 2 \<or> m = 3 \<or> m = 4 \<or> m = 5 \<or> m = 6 \<or> m = 7 \<or> m = 8 \<or> m = 9 \<or> m = 10 \<or> m = 11 \<or> m = 12"
    by presburger
  then show ?thesis by (elim disjE) (simp_all add: month_table month_len_def year_len_def)
qed

lemma ord_of_ymd:
  assumes "1 \<le> m" "m \<le> 12" "1 \<le> d" "d \<le> month_len y m"
  shows "year_of (ymd2ord y m d) = y" and "month_of (ymd2ord y m d) = m" and "day_of (ymd2ord y m d) = d"
proof -
  have y: "year_of (ymd2ord y m d) = y"
    using assms days_in_year [of m y] days_before_month_nonneg [of m y] days_before_next_year [of y]
    by (intro year_of_unique) (simp_all add: ymd2ord_def)
  have m: "month_of (ymd2ord y m d) = m"
    using month_of_unique [OF assms(1,2), of y "days_before_month y m + d"] assms(3,4)
    unfolding month_of_def Let_def y by (simp add: ymd2ord_def)
  show "year_of (ymd2ord y m d) = y" "month_of (ymd2ord y m d) = m" "day_of (ymd2ord y m d) = d"
    unfolding day_of_def y m by (simp_all add: ymd2ord_def)
qed

lemma later_month:
  assumes "n \<le> d" and "(year_of d, month_of d) \<noteq> (year_of n, month_of n)"
  shows "ymd2ord (year_of n) (month_of n) (month_len (year_of n) (month_of n)) < d"
proof (rule ccontr)
  assume le: "\<not> ?thesis"
  let ?e = "d - ymd2ord (year_of n) (month_of n) 0"
  have eq: "ymd2ord (year_of n) (month_of n) ?e = d" by (simp add: ymd2ord_def)
  have e: "1 \<le> ?e" "?e \<le> month_len (year_of n) (month_of n)"
    using le assms(1) month_of_bounds [of n] ymd_of_ord [of n] by (simp_all add: ymd2ord_def)
  from month_of_bounds [of n] ord_of_ymd(1,2) [OF _ _ e] assms(2) show False
    unfolding eq by simp
qed

definition next_month :: "int \<times> int \<Rightarrow> int \<times> int" where
  "next_month ym = (case ym of (y, m) \<Rightarrow> if m + 1 > 12 then (y + 1, 1) else (y, m + 1))"

lemma ymd2ord_next_month:
  assumes "1 \<le> m" and "m \<le> 12" and "next_month (y, m) = (y', m')"
  shows "ymd2ord y' m' d = ymd2ord y m (month_len y m) + d" and "1 \<le> m'" and "m' \<le> 12"
proof -
  show "ymd2ord y' m' d = ymd2ord y m (month_len y m) + d"
  proof (cases "m = 12")
    case True
    with assms(3) show ?thesis
      using days_before_last_month [of y]
      by (auto simp: next_month_def ymd2ord_def days_before_next_year month_table(1))
  next
    case False
    with assms show ?thesis
      using days_before_next_month [of m y] by (auto simp: next_month_def ymd2ord_def)
  qed
  show "1 \<le> m'" "m' \<le> 12"
    using assms by (auto simp: next_month_def split: if_splits)
qed

section \<open>Moments\<close>

definition epoch_ordinal :: int where "epoch_ordinal = 719163"

definition date_of :: "int \<Rightarrow> int" where
  "date_of w = w div one_day + epoch_ordinal"

text \<open>\<open>datetime.combine(date, time)\<close>.\<close>

definition combine :: "int \<Rightarrow> int \<Rightarrow> int" where
  "combine n tod = (n - epoch_ordinal) * one_day + tod"

lemma combine_date_of: "combine (date_of w) 0 \<le> w \<and> w < combine (date_of w) 0 + one_day"
  using div_interval [of one_day w] by (simp add: combine_def date_of_def one_day_def)

lemma combine_add: "combine (n + k) tod = combine n tod + k * one_day"
  by (simp add: combine_def algebra_simps)

lemma date_of_combine: "0 \<le> tod \<Longrightarrow> tod < one_day \<Longrightarrow> date_of (combine n tod) = n"
  by (simp add: combine_def date_of_def one_day_def)

text \<open>\<open>date + timedelta(days=k)\<close>.\<close>

definition plus_date :: "int \<Rightarrow> int \<Rightarrow> int res" where
  "plus_date n k = (if 1 \<le> n + k \<and> n + k \<le> max_ordinal then Inr (n + k)
     else Inl (OverflowError ''date value out of range''))"

text \<open>\<open>date(year, month, day)\<close> for a month and a day that exist.\<close>

lemma year_of_late_date:
  "ymd2ord y m d \<le> max_ordinal \<Longrightarrow> 1 \<le> m \<Longrightarrow> m \<le> 12 \<Longrightarrow> 1 \<le> d \<Longrightarrow> y \<le> 9999"
  using days_before_year_mono [of 10000 y] days_before_month_nonneg [of m y]
  by (cases "10000 \<le> y") (simp_all add: ymd2ord_def max_ordinal_def days_before_year_def)

definition make_date :: "int \<Rightarrow> int \<Rightarrow> int \<Rightarrow> int res" where
  "make_date y m d = (if 1 \<le> y \<and> y \<le> 9999 then Inr (ymd2ord y m d)
     else Inl (ValueError ''year is out of range''))"

section \<open>ISO text of a date\<close>

fun read_digits :: "nat \<Rightarrow> string \<Rightarrow> (int \<times> string) option" where
  "read_digits 0 s = Some (0, s)"
| "read_digits (Suc n) s =
     (case s of
        [] \<Rightarrow> None
      | c # cs \<Rightarrow> if is_digit c
          then map_option (\<lambda>(v, r). (digit_val c * 10 ^ n + v, r)) (read_digits n cs) else None)"

definition valid_date :: "int \<Rightarrow> int \<Rightarrow> int \<Rightarrow> int option" where
  "valid_date y m d = (if 1 \<le> y \<and> 1 \<le> m \<and> m \<le> 12 \<and> 1 \<le> d \<and> d \<le> month_len y m
     then Some (ymd2ord y m d) else None)"

text \<open>The Monday of week 1 is the Monday of the week that holds 4 January.\<close>

definition week_one :: "int \<Rightarrow> int" where
  "week_one y = ymd2ord y 1 4 - weekday (ymd2ord y 1 4)"

definition valid_week :: "int \<Rightarrow> int \<Rightarrow> int \<Rightarrow> int option" where
  "valid_week y w d =
     (let n = week_one y + (w - 1) * 7 + d - 1 in
      if 1 \<le> y \<and> 1 \<le> w \<and> week_one y + (w - 1) * 7 < week_one (y + 1) \<and> 1 \<le> d \<and> d \<le> 7
         \<and> 1 \<le> n \<and> n \<le> max_ordinal
      then Some n else None)"

text \<open>The separator must be present everywhere or nowhere.\<close>

definition skip_sep :: "bool \<Rightarrow> string \<Rightarrow> string option" where
  "skip_sep sep s = (if sep then (case s of [] \<Rightarrow> None | c # cs \<Rightarrow> if c = CHR ''-'' then Some cs else None)
     else Some s)"

definition parse_month_day :: "bool \<Rightarrow> int \<Rightarrow> string \<Rightarrow> int option" where
  "parse_month_day sep y s =
     Option.bind (read_digits 2 s) (\<lambda>(m, r).
     Option.bind (skip_sep sep r) (\<lambda>r'.
     Option.bind (read_digits 2 r') (\<lambda>(d, e). if e = [] then valid_date y m d else None)))"

definition parse_week_day :: "bool \<Rightarrow> int \<Rightarrow> string \<Rightarrow> int option" where
  "parse_week_day sep y s =
     Option.bind (read_digits 2 s) (\<lambda>(w, r).
     if r = [] then valid_week y w 1
     else Option.bind (skip_sep sep r) (\<lambda>r'.
       Option.bind (read_digits 1 r') (\<lambda>(d, e). if e = [] then valid_week y w d else None)))"

definition date_fromisoformat :: "string \<Rightarrow> int option" where
  "date_fromisoformat s =
     (if length s \<notin> {7, 8, 10} then None
      else Option.bind (read_digits 4 s) (\<lambda>(y, r).
        let sep = starts_with ''-'' r; r' = (if sep then tl r else r) in
        if starts_with ''W'' r' then parse_week_day sep y (tl r') else parse_month_day sep y r'))"

end
