(* ===== verification/Schedule.thy ===== *)
theory Schedule
  imports Calendar
begin

text \<open>
  Recurring schedules, \<open>features/data_quality/schedule_utils.py\<close>: the mode of a schedule, the
  validation of a requested one, its description, and the computation of the next run.

  The time zone data base is a parameter (\<open>zoneinfo\<close>): a zone gives the wall clock of a moment and the
  moment of a wall clock reading.  The clock is an argument.
\<close>

section \<open>Data\<close>

text \<open>The columns of a schedule row, in \<open>models/datasource_scheduler.py\<close>, \<open>models/platform.py\<close> and \<open>models/dq.py\<close>.
  Rows without a \<open>schedule_timezone\<close> column have \<open>None\<close> there.  An anchor date is a date, or the wall clock of a
  \<open>datetime\<close>, or ISO text.\<close>

datatype anchor = AnchorDate int | AnchorDatetime int | AnchorText string

record schedule_row =
  sch_id :: int
  sch_target_id :: int
  sch_mode :: "string option"
  sch_enabled :: "bool option"
  sch_every_minutes :: "int option"
  sch_time :: "string option"
  sch_timezone :: "string option"
  sch_day_of_week :: "int option"
  sch_day_of_month :: "int option"
  sch_anchor_date :: "anchor option"
  sch_last_run_at :: "instant option"
  sch_last_started_at :: "instant option"
  sch_last_finished_at :: "instant option"
  sch_last_status :: "string option"
  sch_last_error :: "string option"
  sch_next_run_at :: "instant option"
  sch_created_at :: "instant option"
  sch_recipients :: "int list"

record zone =
  tz_local :: "instant \<Rightarrow> int"
  tz_utc :: "int \<Rightarrow> instant"

definition utc_zone :: zone where
  "utc_zone = \<lparr>tz_local = (\<lambda>t. t), tz_utc = (\<lambda>w. w)\<rparr>"

type_synonym zoneinfo = "string \<Rightarrow> zone res"

section \<open>Reading a schedule\<close>

definition SCHEDULE_MODES :: "string list" where
  "SCHEDULE_MODES = [''manual'', ''interval'', ''daily'', ''weekly'', ''biweekly'', ''monthly'']"

definition schedule_mode_label :: "string option \<Rightarrow> string" where
  "schedule_mode_label m =
     (let n = py_lower (py_strip (or_empty m)) in
      if n = ''interval'' then ''Intervalo tecnico'' else if n = ''daily'' then ''Diario''
      else if n = ''weekly'' then ''Semanal'' else if n = ''biweekly'' then ''Quinzenal''
      else if n = ''monthly'' then ''Mensal'' else ''Manual'')"

definition coerce_date :: "anchor option \<Rightarrow> int option" where
  "coerce_date v =
     (case v of None \<Rightarrow> None
      | Some (AnchorDate n) \<Rightarrow> Some n
      | Some (AnchorDatetime w) \<Rightarrow> Some (date_of w)
      | Some (AnchorText s) \<Rightarrow> date_fromisoformat (take 10 s))"

definition parse_time_text :: "string option \<Rightarrow> (int \<times> int) option" where
  "parse_time_text v =
     (case v of None \<Rightarrow> None
      | Some s \<Rightarrow>
          (case split_once CHR '':'' (py_strip s) of None \<Rightarrow> None
           | Some (ht, mt) \<Rightarrow>
               (case (py_int_of_str ht, py_int_of_str mt) of
                  (Some h, Some m) \<Rightarrow> if h < 0 \<or> h > 23 \<or> m < 0 \<or> m > 59 then None else Some (h, m)
                | _ \<Rightarrow> None)))"

definition normalize_time_text :: "string option \<Rightarrow> string" where
  "normalize_time_text v =
     (case parse_time_text v of None \<Rightarrow> ''08:00'' | Some (h, m) \<Rightarrow> two_digits h @ '':'' @ two_digits m)"

definition schedule_timezone :: "zoneinfo \<Rightarrow> schedule_row \<Rightarrow> zone res" where
  "schedule_timezone zi s =
     (case sch_timezone s of None \<Rightarrow> Inr utc_zone
      | Some n \<Rightarrow>
          if py_strip n = '''' then Inr utc_zone
          else (case zi (py_strip n) of
                  Inl (KeyError _) \<Rightarrow> Inr utc_zone
                | r \<Rightarrow> r))"

definition normalize_mode_text :: "string option \<Rightarrow> string option" where
  "normalize_mode_text v =
     (case v of None \<Rightarrow> None
      | Some s \<Rightarrow> let t = py_lower (py_strip s) in if t \<in> set SCHEDULE_MODES then Some t else None)"

definition infer_schedule_mode :: "string option \<Rightarrow> bool option \<Rightarrow> int option \<Rightarrow> string" where
  "infer_schedule_mode m enabled every =
     (let mode = normalize_mode_text m in
      if enabled = Some False then ''manual''
      else if mode \<in> {Some ''interval'', Some ''daily'', Some ''weekly'', Some ''biweekly'', Some ''monthly''}
        then the mode
      else if mode = Some ''manual'' then (if every \<noteq> None then ''interval'' else ''daily'')
      else if every \<noteq> None then ''interval''
      else ''daily'')"

definition schedule_mode_of :: "schedule_row \<Rightarrow> string" where
  "schedule_mode_of s = infer_schedule_mode (sch_mode s) (sch_enabled s) (sch_every_minutes s)"

definition schedule_weekday_label :: "int option \<Rightarrow> string" where
  "schedule_weekday_label w =
     [''segunda-feira'', ''terca-feira'', ''quarta-feira'', ''quinta-feira'', ''sexta-feira'', ''sabado'', ''domingo'']
       ! nat (max 0 (min 6 (case w of None \<Rightarrow> 0 | Some v \<Rightarrow> v)))"

definition schedule_day_of_month_value :: "int option \<Rightarrow> int" where
  "schedule_day_of_month_value v = max 1 (min 31 (case v of None \<Rightarrow> 1 | Some d \<Rightarrow> d))"

section \<open>Validation of a requested schedule\<close>

text \<open>A field of a payload is absent, present and null, or present with a value.\<close>

record schedule_payload =
  sp_mode :: "string option option"
  sp_enabled :: "bool option option"
  sp_every_minutes :: "int option option"
  sp_time :: "string option option"
  sp_day_of_week :: "int option option"
  sp_day_of_month :: "int option option"
  sp_anchor_date :: "anchor option option"

definition no_payload :: schedule_payload where
  "no_payload = \<lparr>sp_mode = None, sp_enabled = None, sp_every_minutes = None, sp_time = None,
     sp_day_of_week = None, sp_day_of_month = None, sp_anchor_date = None\<rparr>"

definition get_field :: "'a option option \<Rightarrow> 'a option option \<Rightarrow> 'a option" where
  "get_field p e = (case p of Some v \<Rightarrow> v | None \<Rightarrow> (case e of Some v \<Rightarrow> v | None \<Rightarrow> None))"

definition http422 :: "string \<Rightarrow> 'a res" where
  "http422 d = Inl (HTTPException 422 d)"

definition checked_interval :: "int option \<Rightarrow> int res" where
  "checked_interval v =
     (case v of None \<Rightarrow> http422 ''schedule_every_minutes must be a positive integer''
      | Some i \<Rightarrow> if i \<le> 0 then http422 ''schedule_every_minutes must be greater than zero'' else Inr i)"

definition checked_weekday :: "int option \<Rightarrow> int res" where
  "checked_weekday v =
     (case v of None \<Rightarrow> http422 ''schedule_day_of_week must be an integer from 0 to 6''
      | Some d \<Rightarrow> if d < 0 \<or> d > 6 then http422 ''schedule_day_of_week must be between 0 and 6'' else Inr d)"

definition checked_day_of_month :: "int option \<Rightarrow> int res" where
  "checked_day_of_month v =
     (case v of None \<Rightarrow> http422 ''schedule_day_of_month must be an integer between 1 and 31''
      | Some d \<Rightarrow> if d < 1 \<or> d > 31 then http422 ''schedule_day_of_month must be between 1 and 31'' else Inr d)"

text \<open>The result of the validation is a dictionary too: a disabled schedule has its mode and nothing else.\<close>

definition normalized :: "string \<Rightarrow> int option \<Rightarrow> string option \<Rightarrow> int option \<Rightarrow> int option \<Rightarrow> anchor option
    \<Rightarrow> schedule_payload" where
  "normalized mode every time wd md anchor =
     \<lparr>sp_mode = Some (Some mode), sp_enabled = Some (Some True), sp_every_minutes = Some every,
      sp_time = Some time, sp_day_of_week = Some wd, sp_day_of_month = Some md, sp_anchor_date = Some anchor\<rparr>"

definition requested_enabled :: "schedule_payload \<Rightarrow> schedule_payload \<Rightarrow> bool" where
  "requested_enabled p ex =
     (let raw_mode = normalize_mode_text (get_field (sp_mode p) (sp_mode ex)) in
      case sp_enabled p of Some b \<Rightarrow> b = Some True
      | None \<Rightarrow> (case sp_enabled ex of Some b \<Rightarrow> b = Some True | None \<Rightarrow> raw_mode \<noteq> Some ''manual''))"

definition validate_schedule_payload :: "instant \<Rightarrow> schedule_payload \<Rightarrow> schedule_payload \<Rightarrow> schedule_payload res" where
  "validate_schedule_payload now p ex =
     (let raw_mode = normalize_mode_text (get_field (sp_mode p) (sp_mode ex));
          enabled = requested_enabled p ex;
          every = get_field (sp_every_minutes p) (sp_every_minutes ex);
          mode = infer_schedule_mode raw_mode (Some enabled) every
      in if \<not> enabled then
           Inr (no_payload\<lparr>sp_mode := Some (Some (case raw_mode of Some m \<Rightarrow> m
                  | None \<Rightarrow> (case normalize_mode_text (get_field (sp_mode ex) None) of Some m \<Rightarrow> m | None \<Rightarrow> ''manual''))),
                sp_enabled := Some (Some False)\<rparr>)
         else if mode = ''interval'' then
           map_sum id (\<lambda>i. normalized mode (Some i) None None None None) (checked_interval every)
         else
           (let time = Some (normalize_time_text (get_field (sp_time p) (sp_time ex)))
            in if mode = ''daily'' then Inr (normalized mode None time None None None)
               else if mode = ''weekly'' then
                 map_sum id (\<lambda>d. normalized mode None time (Some d) None None)
                   (checked_weekday (get_field (sp_day_of_week p) (sp_day_of_week ex)))
               else if mode = ''biweekly'' then
                 (let d = (case coerce_date (get_field (sp_anchor_date p) (sp_anchor_date ex)) of
                             Some d \<Rightarrow> d | None \<Rightarrow> date_of now)
                  in Inr (normalized mode None time None None (Some (AnchorDatetime (combine d 0)))))
               else if mode = ''monthly'' then
                 map_sum id (\<lambda>d. normalized mode None time None (Some d) None)
                   (checked_day_of_month (get_field (sp_day_of_month p) (sp_day_of_month ex)))
               else http422 (''Unsupported schedule_mode '' @ mode)))"

section \<open>Description\<close>

definition date_label :: "int \<Rightarrow> string" where
  "date_label n = two_digits (day_of n) @ ''/'' @ two_digits (month_of n) @ ''/'' @ int_str (year_of n)"

definition describe_schedule :: "schedule_row \<Rightarrow> string" where
  "describe_schedule s =
     (let mode = schedule_mode_of s; time = normalize_time_text (sch_time s) in
      if mode = ''manual'' then ''Manual''
      else if mode = ''interval'' then
        (let i = (case sch_every_minutes s of None \<Rightarrow> 0 | Some i \<Rightarrow> i) in
         if i \<le> 0 then ''Intervalo tecnico nao configurado''
         else if i mod 60 = 0 then
           (if i div 60 \<noteq> 1 then ''A cada '' @ int_str (i div 60) @ '' hora(s)'' else ''A cada 1 hora'')
         else ''A cada '' @ int_str i @ '' minuto(s)'')
      else if mode = ''daily'' then ''Diario as '' @ time
      else if mode = ''weekly'' then ''Semanal na '' @ schedule_weekday_label (sch_day_of_week s) @ '' as '' @ time
      else if mode = ''biweekly'' then ''Quinzenal as '' @ time @ '' (base ''
        @ (case coerce_date (sch_anchor_date s) of Some n \<Rightarrow> date_label n | None \<Rightarrow> ''data base'') @ '')''
      else if mode = ''monthly'' then ''Mensal no dia '' @ int_str (schedule_day_of_month_value (sch_day_of_month s))
        @ '' as '' @ time
      else ''Manual'')"

section \<open>The next run\<close>

definition one_minute :: int where "one_minute = 60000000"

text \<open>
  The loop \<open>while candidate <= reference: candidate += step\<close>.  Every caller passes a positive step; for
  other steps, which would never end, the guard stops at once.
\<close>

function advance_past :: "int \<Rightarrow> int \<Rightarrow> int \<Rightarrow> int res" where
  "advance_past step ref t =
     (if t \<le> ref \<and> 0 < step
      then (if datetime_max < t + step then Inl (OverflowError ''date value out of range'')
            else advance_past step ref (t + step))
      else Inr t)"
  by pat_completeness auto
termination
  by (relation "measure (\<lambda>(step, ref, t). nat (ref + 1 - t))") auto

declare advance_past.simps [simp del]

text \<open>
  The time of day of a schedule, and whether the candidate carries the schedule's own zone: a time that was given
  is read as UTC, the default 08:00 as a time of the zone.  A candidate with the zone of the reference is compared
  by its wall clock, any other by its moment.
\<close>

definition schedule_clock :: "schedule_row \<Rightarrow> int \<times> bool" where
  "schedule_clock s =
     (case parse_time_text (sch_time s) of
        Some (h, m) \<Rightarrow> ((h * 60 + m) * one_minute, False)
      | None \<Rightarrow> (8 * 60 * one_minute, True))"

definition compared_reference :: "zone \<Rightarrow> bool \<Rightarrow> instant \<Rightarrow> int" where
  "compared_reference z own ref = (if own then tz_local z ref else ref)"

definition candidate_instant :: "zone \<Rightarrow> bool \<Rightarrow> int \<Rightarrow> instant res" where
  "candidate_instant z own w = in_range (if own then tz_utc z w else w)"

definition next_interval :: "schedule_row \<Rightarrow> instant \<Rightarrow> instant option res" where
  "next_interval s ref =
     (let i = (case sch_every_minutes s of None \<Rightarrow> 0 | Some i \<Rightarrow> i);
          base = (case sch_last_run_at s of Some t \<Rightarrow> t | None \<Rightarrow> ref)
      in if i \<le> 0 then Inr None
         else res_bind (in_range (base + i * one_minute)) (\<lambda>c.
           map_sum id Some (advance_past (i * one_minute) ref c)))"

definition next_daily :: "zone \<Rightarrow> schedule_row \<Rightarrow> instant \<Rightarrow> instant option res" where
  "next_daily z s ref =
     (case schedule_clock s of (tod, own) \<Rightarrow>
        let c = combine (date_of (tz_local z ref)) tod in
        map_sum id Some (res_bind (if c \<le> compared_reference z own ref then in_range (c + one_day) else Inr c)
          (candidate_instant z own)))"

definition next_weekly :: "zone \<Rightarrow> schedule_row \<Rightarrow> instant \<Rightarrow> instant option res" where
  "next_weekly z s ref =
     (case schedule_clock s of (tod, own) \<Rightarrow>
        let today = date_of (tz_local z ref);
            wd = max 0 (min 6 (case sch_day_of_week s of None \<Rightarrow> 0 | Some d \<Rightarrow> d))
        in res_bind (plus_date today ((wd - weekday today) mod 7)) (\<lambda>d.
             let c = combine d tod in
             map_sum id Some (res_bind (if c \<le> compared_reference z own ref then in_range (c + 7 * one_day) else Inr c)
               (candidate_instant z own))))"

definition anchor_day :: "schedule_row \<Rightarrow> instant \<Rightarrow> int" where
  "anchor_day s ref =
     (case coerce_date (sch_anchor_date s) of Some d \<Rightarrow> d
      | None \<Rightarrow> date_of (case sch_created_at s of Some t \<Rightarrow> t | None \<Rightarrow> ref))"

definition next_biweekly :: "zone \<Rightarrow> schedule_row \<Rightarrow> instant \<Rightarrow> instant option res" where
  "next_biweekly z s ref =
     (case schedule_clock s of (tod, own) \<Rightarrow>
        map_sum id Some (res_bind (advance_past (14 * one_day) (compared_reference z own ref) (combine (anchor_day s ref) tod))
          (candidate_instant z own)))"

text \<open>The loop over at most fifteen months.\<close>

fun search_months :: "nat \<Rightarrow> int \<Rightarrow> int \<Rightarrow> int \<Rightarrow> int \<times> int \<Rightarrow> int option res" where
  "search_months 0 cmp md tod ym = Inr None"
| "search_months (Suc k) cmp md tod ym =
     res_bind (make_date (fst ym) (snd ym) (min md (month_len (fst ym) (snd ym)))) (\<lambda>d.
       if cmp < combine d tod then Inr (Some (combine d tod))
       else search_months k cmp md tod (next_month ym))"

definition next_monthly :: "zone \<Rightarrow> schedule_row \<Rightarrow> instant \<Rightarrow> instant option res" where
  "next_monthly z s ref =
     (case schedule_clock s of (tod, own) \<Rightarrow>
        let today = date_of (tz_local z ref) in
        res_bind (search_months 15 (compared_reference z own ref) (schedule_day_of_month_value (sch_day_of_month s)) tod
            (year_of today, month_of today))
          (\<lambda>c. case c of None \<Rightarrow> Inr None | Some w \<Rightarrow> map_sum id Some (candidate_instant z own w)))"

definition compute_next_run_at :: "zoneinfo \<Rightarrow> instant \<Rightarrow> schedule_row \<Rightarrow> instant option res" where
  "compute_next_run_at zi ref s =
     res_bind (schedule_timezone zi s) (\<lambda>z. res_bind (in_range (tz_local z ref)) (\<lambda>_.
       let mode = schedule_mode_of s in
       if mode = ''manual'' then Inr None
       else if mode = ''interval'' then next_interval s ref
       else if mode = ''daily'' then next_daily z s ref
       else if mode = ''weekly'' then next_weekly z s ref
       else if mode = ''biweekly'' then next_biweekly z s ref
       else if mode = ''monthly'' then next_monthly z s ref
       else Inr None))"

section \<open>Facts about the parts\<close>

lemma utc_simps [simp]:
  "tz_local utc_zone t = t" "tz_utc utc_zone w = w"
  "compared_reference utc_zone own t = t" "candidate_instant utc_zone own w = in_range w"
  by (simp_all add: utc_zone_def compared_reference_def candidate_instant_def)

lemma in_range_Inr: "in_range t = Inr u \<longleftrightarrow> u = t \<and> datetime_min \<le> t \<and> t \<le> datetime_max"
  by (auto simp: in_range_def)

lemma map_Some_Inr: "map_sum id Some r = Inr (Some t) \<longleftrightarrow> r = Inr t"
  by (cases r) auto

lemma mode_cases:
  "infer_schedule_mode m e v \<in> {''manual'', ''interval'', ''daily'', ''weekly'', ''biweekly'', ''monthly''}"
  by (auto simp: infer_schedule_mode_def Let_def)

lemma parse_time_bounds:
  "parse_time_text v = Some (h, m) \<Longrightarrow> 0 \<le> h \<and> h \<le> 23 \<and> 0 \<le> m \<and> m \<le> 59"
  by (auto simp: parse_time_text_def split: option.splits prod.splits if_splits)

lemma schedule_clock_bounds: "schedule_clock s = (tod, own) \<Longrightarrow> 0 \<le> tod \<and> tod < one_day"
  by (auto simp: schedule_clock_def one_minute_def one_day_def split: option.splits prod.splits
      dest!: parse_time_bounds)

lemma advance_past_after:
  "0 < step \<Longrightarrow> advance_past step ref t = Inr u \<Longrightarrow> ref < u \<and> (ref < t \<longrightarrow> u = t) \<and> (t \<le> ref \<longrightarrow> u \<le> ref + step)"
proof (induction step ref t rule: advance_past.induct)
  case (1 step ref t)
  show ?case
  proof (cases "t \<le> ref")
    case True
    with 1(2,3) have nx: "\<not> datetime_max < t + step" "advance_past step ref (t + step) = Inr u"
      by (auto simp: advance_past.simps [of step ref t] split: if_splits)
    from "1.IH" [OF _ nx(1) 1(2) nx(2)] True 1(2) show ?thesis by force
  next
    case False
    with 1(3) show ?thesis by (auto simp: advance_past.simps [of step ref t])
  qed
qed

lemma advance_past_returns:
  "0 < step \<Longrightarrow> ref + step \<le> datetime_max \<Longrightarrow> \<exists>u. advance_past step ref t = Inr u"
proof (induction step ref t rule: advance_past.induct)
  case (1 step ref t)
  then show ?case by (cases "t \<le> ref") (auto simp: advance_past.simps [of step ref t])
qed

lemma search_months_after:
  "search_months k ref md tod ym = Inr (Some w) \<Longrightarrow> ref < w"
proof (induction k arbitrary: ym)
  case (Suc k)
  then obtain d where "(if ref < combine d tod then Inr (Some (combine d tod))
      else search_months k ref md tod (next_month ym)) = Inr (Some w)"
    by (auto simp: res_bind_Inr_iff)
  then show ?case using Suc.IH by (cases "ref < combine d tod") auto
qed simp

lemma date_of_mono: "t \<le> u \<Longrightarrow> date_of t \<le> date_of u"
  by (simp add: date_of_def one_day_def zdiv_mono1)

lemma date_of_add: "date_of (t + k * one_day) = date_of t + k"
  by (simp add: date_of_def one_day_def)

lemma date_in_range:
  assumes "datetime_min \<le> t" and "t + k * one_day \<le> datetime_max"
  shows "1 \<le> date_of t" and "date_of t + k \<le> max_ordinal"
proof -
  have "date_of datetime_min = 1" "date_of datetime_max = max_ordinal"
    by (simp_all add: date_of_def datetime_min_def datetime_max_def one_day_def epoch_ordinal_def max_ordinal_def)
  with date_of_mono [OF assms(1)] date_of_mono [OF assms(2)]
  show "1 \<le> date_of t" "date_of t + k \<le> max_ordinal" by (simp_all add: date_of_add)
qed

definition month_day :: "int \<Rightarrow> int \<times> int \<Rightarrow> int" where
  "month_day md ym = ymd2ord (fst ym) (snd ym) (min md (month_len (fst ym) (snd ym)))"

text \<open>The candidate of the current month, or the one of the next, follows the reference.\<close>

lemma next_month_candidate:
  assumes n: "n = date_of ref" "1 \<le> md" "md \<le> 31" "0 \<le> tod" "tod < one_day"
    and over: "combine (month_day md (year_of n, month_of n)) tod \<le> ref"
    and nm: "next_month (year_of n, month_of n) = ym'"
  shows "ref < combine (month_day md ym') tod" and "combine (month_day md ym') tod \<le> ref + 31 * one_day"
proof -
  let ?y = "year_of n" and ?m = "month_of n"
  obtain y' m' where ym': "ym' = (y', m')" by fastforce
  define c c' where "c = min md (month_len ?y ?m)" and "c' = min md (month_len y' m')"
  note mb = month_of_bounds [of n]
  have day: "combine n 0 \<le> ref" "ref < combine n 0 + one_day"
    using combine_date_of [of ref] n(1) by simp_all
  have at: "combine (ymd2ord ?y ?m d) tod = combine n 0 + tod + (d - day_of n) * one_day" for d
  proof -
    have "ymd2ord ?y ?m d = n + (d - day_of n)" using ymd_of_ord [of n] by (simp add: ymd2ord_def)
    then show ?thesis using combine_add [of n "d - day_of n" tod] by (simp add: combine_def)
  qed
  have k: "month_len ?y ?m - c + c' \<le> 31" "1 \<le> c'" "0 \<le> month_len ?y ?m - day_of n"
    using n(2) mb month_len_bounds [of ?y ?m] month_len_bounds [of y' m'] by (auto simp: c_def c'_def)
  have "month_day md ym' = ymd2ord ?y ?m (month_len ?y ?m) + c'"
    using ymd2ord_next_month(1) [OF _ _ nm [unfolded ym']] mb by (simp add: month_day_def ym' c'_def)
  then have w: "combine (month_day md ym') tod
      = combine n 0 + tod + (month_len ?y ?m - day_of n + c') * one_day"
    using at [of "month_len ?y ?m"] combine_add [of "ymd2ord ?y ?m (month_len ?y ?m)" c' tod]
    by (simp add: algebra_simps)
  have "combine n 0 + tod + (c - day_of n) * one_day \<le> ref"
    using over at [of c] by (simp add: month_day_def c_def)
  then show "combine (month_day md ym') tod \<le> ref + 31 * one_day"
    using w k(1) by (simp add: one_day_def)
  show "ref < combine (month_day md ym') tod"
    using w day n(4) k(2,3) by (simp add: one_day_def)
qed

lemma this_month_candidate:
  assumes n: "n = date_of ref" "tod < one_day"
  shows "combine (month_day md (year_of n, month_of n)) tod \<le> ref + 31 * one_day"
proof -
  let ?c = "min md (month_len (year_of n) (month_of n))"
  have c: "?c - day_of n \<le> 30"
    using month_of_bounds [of n] month_len_bounds [of "year_of n" "month_of n"] by linarith
  have "ymd2ord (year_of n) (month_of n) ?c = n + (?c - day_of n)"
    using ymd_of_ord [of n] by (simp add: ymd2ord_def)
  then have "combine (month_day md (year_of n, month_of n)) tod = combine n 0 + tod + (?c - day_of n) * one_day"
    using combine_add [of n "?c - day_of n" tod] by (simp add: month_day_def combine_def)
  then show ?thesis
    using c combine_date_of [of ref] n by (simp add: one_day_def)
qed

lemma search_months_Suc:
  "search_months (Suc k) cmp md tod ym = res_bind (make_date (fst ym) (snd ym) (min md (month_len (fst ym) (snd ym))))
     (\<lambda>d. if cmp < combine (month_day md ym) tod then Inr (Some (combine (month_day md ym) tod))
       else search_months k cmp md tod (next_month ym))"
  by (simp add: make_date_def month_day_def)

text \<open>The search takes the first of the two that follows the reference.\<close>

lemma search_months_result:
  assumes n: "n = date_of ref" "1 \<le> md" "md \<le> 31" "0 \<le> tod" "tod < one_day"
    and ref: "datetime_min \<le> ref" "ref + 31 * one_day \<le> datetime_max"
  shows "search_months (Suc (Suc k)) ref md tod (year_of n, month_of n) = Inr (Some (combine (month_day md
     (if ref < combine (month_day md (year_of n, month_of n)) tod then (year_of n, month_of n)
      else next_month (year_of n, month_of n))) tod))"
proof -
  have "1 \<le> n" "n + 31 \<le> max_ordinal" using date_in_range [OF ref] n(1) by simp_all
  then have y: "1 \<le> year_of n" "year_of n \<le> 9999" using year_in_range [of n] by simp_all
  show ?thesis
  proof (cases "ref < combine (month_day md (year_of n, month_of n)) tod")
    case True
    with y show ?thesis by (simp add: search_months_Suc make_date_def del: search_months.simps)
  next
    case False
    obtain y' m' where nm: "next_month (year_of n, month_of n) = (y', m')" by fastforce
    note c = next_month_candidate [OF n _ nm]
    have m': "1 \<le> m'" "m' \<le> 12" using ymd2ord_next_month(2,3) [OF _ _ nm] month_of_bounds [of n] by simp_all
    have "y' \<le> 9999"
    proof (rule year_of_late_date)
      show "ymd2ord y' m' (min md (month_len y' m')) \<le> max_ordinal"
        using c(2) False ref(2) n(4)
        by (simp add: month_day_def combine_def datetime_max_def one_day_def epoch_ordinal_def max_ordinal_def)
    qed (use m' n(2) month_len_bounds [of y' m'] in simp_all)
    moreover have "1 \<le> y'" using nm y by (auto simp: next_month_def split: if_splits)
    ultimately show ?thesis
      using False y nm c(1) by (simp add: search_months_Suc make_date_def del: search_months.simps)
  qed
qed

lemma search_months_returns:
  assumes n: "n = date_of ref" "1 \<le> md" "md \<le> 31" "0 \<le> tod" "tod < one_day"
    and ref: "datetime_min \<le> ref" "ref + 31 * one_day \<le> datetime_max"
  shows "\<exists>w. search_months (Suc (Suc k)) ref md tod (year_of n, month_of n) = Inr (Some w) \<and> w \<le> ref + 31 * one_day"
  unfolding search_months_result [OF assms]
  using this_month_candidate [OF n(1,5), of md] next_month_candidate(2) [OF n _ refl] by auto

section \<open>The next run of a schedule\<close>

definition schedule_period :: "schedule_row \<Rightarrow> int" where
  "schedule_period s =
     (let mode = schedule_mode_of s in
      if mode = ''interval'' then (case sch_every_minutes s of None \<Rightarrow> 0 | Some i \<Rightarrow> i) * one_minute
      else if mode = ''daily'' then one_day
      else if mode = ''weekly'' then 7 * one_day
      else if mode = ''biweekly'' then 14 * one_day
      else 31 * one_day)"

text \<open>Without a time zone, whatever the computation returns follows the reference.\<close>

lemma today_bounds: "combine (date_of t) tod = combine (date_of t) 0 + tod"
  "combine (date_of t) 0 \<le> t" "t < combine (date_of t) 0 + one_day"
  using combine_date_of [of t] by (simp_all add: combine_def)

lemma next_interval_after: "next_interval s ref = Inr (Some t) \<Longrightarrow> ref < t"
  by (auto simp: next_interval_def Let_def res_bind_Inr_iff map_Some_Inr one_minute_def split: if_splits
      dest!: advance_past_after [rotated])

lemma next_daily_after:
  assumes "next_daily utc_zone s ref = Inr (Some t)"
  shows "ref < t"
proof -
  obtain tod own where clock: "schedule_clock s = (tod, own)" by fastforce
  have "0 \<le> tod" using schedule_clock_bounds [OF clock] by simp
  moreover from assms have "t = (if combine (date_of ref) tod \<le> ref then combine (date_of ref) tod + one_day
      else combine (date_of ref) tod)"
    by (auto simp: next_daily_def clock Let_def map_Some_Inr res_bind_Inr_iff in_range_Inr split: if_splits)
  ultimately show ?thesis
    using today_bounds(3) [of ref] today_bounds(1) [of ref tod] by (simp split: if_splits)
qed

lemma days_ahead:
  "combine n 0 + k * one_day + tod \<le> t \<Longrightarrow> t < combine n 0 + one_day \<Longrightarrow> 0 \<le> tod \<Longrightarrow> 0 \<le> k \<Longrightarrow> k = 0"
  by (simp add: one_day_def)

lemma next_weekly_after:
  assumes "next_weekly utc_zone s ref = Inr (Some t)"
  shows "ref < t"
proof -
  obtain tod own where clock: "schedule_clock s = (tod, own)" by fastforce
  define k where "k = (max 0 (min 6 (case sch_day_of_week s of None \<Rightarrow> 0 | Some d \<Rightarrow> d)) - weekday (date_of ref)) mod 7"
  have b: "0 \<le> tod" "0 \<le> k" using schedule_clock_bounds [OF clock] by (simp_all add: k_def)
  have c: "combine (date_of ref + k) tod = combine (date_of ref) 0 + k * one_day + tod"
    using combine_add [of "date_of ref" k tod] today_bounds(1) [of ref tod] by simp
  from assms have "t = (if combine (date_of ref + k) tod \<le> ref then combine (date_of ref + k) tod + 7 * one_day
      else combine (date_of ref + k) tod)"
    by (auto simp: next_weekly_def clock Let_def map_Some_Inr res_bind_Inr_iff in_range_Inr plus_date_def
        k_def [symmetric] split: if_splits)
  then show ?thesis
    using days_ahead [of "date_of ref" k tod ref] today_bounds(2,3) [of ref] b c
    by (auto simp: one_day_def split: if_splits)
qed

lemma next_biweekly_after: "next_biweekly utc_zone s ref = Inr (Some t) \<Longrightarrow> ref < t"
  by (auto simp: next_biweekly_def Let_def map_Some_Inr res_bind_Inr_iff in_range_Inr one_day_def
      split: prod.splits dest!: advance_past_after [rotated])

lemma next_monthly_after: "next_monthly utc_zone s ref = Inr (Some t) \<Longrightarrow> ref < t"
  by (auto simp: next_monthly_def Let_def map_Some_Inr res_bind_Inr_iff in_range_Inr
      split: prod.splits option.splits dest!: search_months_after)

lemmas next_run_after_parts = next_interval_after next_daily_after next_weekly_after next_biweekly_after
  next_monthly_after

lemma next_run_after:
  "sch_timezone s = None \<Longrightarrow> compute_next_run_at zi ref s = Inr (Some t) \<Longrightarrow> ref < t"
  by (auto simp: compute_next_run_at_def schedule_timezone_def Let_def res_bind_Inr_iff
      split: if_splits intro: next_run_after_parts)

lemma next_interval_returns:
  assumes "schedule_mode_of s = ''interval''" and "sch_every_minutes s = Some i" and "0 < i"
    and "datetime_min \<le> ref" and "ref + schedule_period s \<le> datetime_max"
    and "\<And>l. sch_last_run_at s = Some l \<Longrightarrow> datetime_min \<le> l \<and> l \<le> ref"
  shows "\<exists>t. next_interval s ref = Inr (Some t) \<and> t \<le> ref + schedule_period s"
proof -
  define base where "base = (case sch_last_run_at s of Some t \<Rightarrow> t | None \<Rightarrow> ref)"
  have p: "schedule_period s = i * one_minute" by (simp add: schedule_period_def assms(1,2))
  have st: "0 < i * one_minute" using assms(3) by (simp add: one_minute_def)
  have b: "datetime_min \<le> base" "base \<le> ref"
    using assms(4,6) by (auto simp: base_def split: option.splits)
  then have r: "in_range (base + i * one_minute) = Inr (base + i * one_minute)"
    using assms(5) p st by (simp add: in_range_def)
  obtain u where u: "advance_past (i * one_minute) ref (base + i * one_minute) = Inr u"
    using advance_past_returns [OF st] assms(5) p by metis
  from advance_past_after [OF st u] b p have "u \<le> ref + schedule_period s" by linarith
  with r u assms(2,3) show ?thesis by (simp add: next_interval_def base_def)
qed

lemma next_daily_returns:
  assumes "datetime_min \<le> ref" and "ref + one_day \<le> datetime_max"
  shows "\<exists>t. next_daily utc_zone s ref = Inr (Some t) \<and> t \<le> ref + one_day"
proof -
  obtain tod own where clock: "schedule_clock s = (tod, own)" by fastforce
  note tod = schedule_clock_bounds [OF clock]
  define c where "c = combine (date_of ref) tod"
  have c: "ref - one_day < c" "c < ref + one_day"
    using today_bounds(2,3) [of ref] today_bounds(1) [of ref tod] tod by (simp_all add: c_def)
  show ?thesis
    using c assms by (cases "c \<le> ref") (simp_all add: next_daily_def clock c_def [symmetric] in_range_def one_day_def)
qed

lemma next_weekly_returns:
  assumes "datetime_min \<le> ref" and "ref + 7 * one_day \<le> datetime_max"
  shows "\<exists>t. next_weekly utc_zone s ref = Inr (Some t) \<and> t \<le> ref + 7 * one_day"
proof -
  obtain tod own where clock: "schedule_clock s = (tod, own)" by fastforce
  note tod = schedule_clock_bounds [OF clock]
  define k where "k = (max 0 (min 6 (case sch_day_of_week s of None \<Rightarrow> 0 | Some d \<Rightarrow> d)) - weekday (date_of ref)) mod 7"
  have k: "0 \<le> k" "k \<le> 6" by (simp_all add: k_def pos_mod_bound [of 7, THEN zless_imp_add1_zle, simplified])
  define c where "c = combine (date_of ref + k) tod"
  have c': "c = combine (date_of ref) 0 + k * one_day + tod"
    using combine_add [of "date_of ref" k tod] today_bounds(1) [of ref tod] by (simp add: c_def)
  then have c: "ref - one_day < c" "c < ref + 7 * one_day"
    using today_bounds(2,3) [of ref] tod k by (simp_all add: one_day_def)
  have d: "plus_date (date_of ref) k = Inr (date_of ref + k)"
    using k date_in_range [OF assms] by (simp add: plus_date_def)
  show ?thesis
    using c assms d by (cases "c \<le> ref")
      (simp_all add: next_weekly_def clock k_def [symmetric] c_def [symmetric] in_range_def one_day_def Let_def)
qed

lemma next_biweekly_returns:
  assumes "datetime_min \<le> ref" and "ref + 14 * one_day \<le> datetime_max" and "anchor_day s ref \<le> date_of ref"
  shows "\<exists>t. next_biweekly utc_zone s ref = Inr (Some t) \<and> t \<le> ref + 14 * one_day"
proof -
  obtain tod own where clock: "schedule_clock s = (tod, own)" by fastforce
  note tod = schedule_clock_bounds [OF clock]
  define c where "c = combine (anchor_day s ref) tod"
  have c: "c < ref + one_day"
    using combine_date_of [of ref] assms(3) tod by (simp add: c_def combine_def one_day_def)
  obtain u where u: "advance_past (14 * one_day) ref c = Inr u"
    using advance_past_returns [of "14 * one_day" ref c] assms(2) by (auto simp: one_day_def)
  then have b: "ref < u" "u \<le> ref + 14 * one_day"
    using advance_past_after [of "14 * one_day" ref c u] c by (auto simp: one_day_def)
  with u assms show ?thesis
    by (simp add: next_biweekly_def clock c_def [symmetric] in_range_def)
qed

lemma next_monthly_returns:
  assumes "datetime_min \<le> ref" and "ref + 31 * one_day \<le> datetime_max"
  shows "\<exists>t. next_monthly utc_zone s ref = Inr (Some t) \<and> t \<le> ref + 31 * one_day"
proof -
  obtain tod own where clock: "schedule_clock s = (tod, own)" by fastforce
  define md where "md = schedule_day_of_month_value (sch_day_of_month s)"
  have md: "1 \<le> md" "md \<le> 31" by (simp_all add: md_def schedule_day_of_month_value_def)
  obtain w where w: "search_months 15 ref md tod (year_of (date_of ref), month_of (date_of ref)) = Inr (Some w)"
      "w \<le> ref + 31 * one_day"
    using search_months_returns [OF refl md _ _ assms, of tod 13] schedule_clock_bounds [OF clock]
    by (auto simp: numeral_eq_Suc)
  with search_months_after [OF w(1)] assms show ?thesis
    by (simp add: next_monthly_def clock md_def [symmetric] in_range_def)
qed

text \<open>The arguments for which the arithmetic stays in the range of \<open>datetime\<close>, and a schedule that has what
  its mode needs.\<close>

definition schedulable :: "schedule_row \<Rightarrow> instant \<Rightarrow> bool" where
  "schedulable s ref =
     (sch_timezone s = None \<and> schedule_mode_of s \<noteq> ''manual'' \<and>
      datetime_min \<le> ref \<and> ref + schedule_period s \<le> datetime_max \<and>
      (schedule_mode_of s = ''interval'' \<longrightarrow>
         (case sch_every_minutes s of None \<Rightarrow> False | Some i \<Rightarrow> 0 < i) \<and>
         (case sch_last_run_at s of None \<Rightarrow> True | Some l \<Rightarrow> datetime_min \<le> l \<and> l \<le> ref)) \<and>
      (schedule_mode_of s = ''biweekly'' \<longrightarrow> anchor_day s ref \<le> date_of ref))"

lemma next_run_returns:
  assumes "schedulable s ref"
  shows "\<exists>t. compute_next_run_at zi ref s = Inr (Some t) \<and> t \<le> ref + schedule_period s"
proof -
  note h = assms [unfolded schedulable_def]
  have p: "0 \<le> schedule_period s"
    using h by (auto simp: schedule_period_def Let_def one_day_def one_minute_def split: option.splits)
  then have z: "schedule_timezone zi s = Inr utc_zone" "in_range ref = Inr ref"
    using h by (simp_all add: schedule_timezone_def in_range_def)
  have m: "schedule_mode_of s \<in> {''manual'', ''interval'', ''daily'', ''weekly'', ''biweekly'', ''monthly''}"
    unfolding schedule_mode_of_def by (rule mode_cases)
  have b: "datetime_min \<le> ref" "ref + schedule_period s \<le> datetime_max" using h by simp_all
  from m h consider "schedule_mode_of s = ''interval''" | "schedule_mode_of s = ''daily''"
    | "schedule_mode_of s = ''weekly''" | "schedule_mode_of s = ''biweekly''" | "schedule_mode_of s = ''monthly''"
    by blast
  then show ?thesis
  proof cases
    case 1
    with h obtain i where "sch_every_minutes s = Some i" "0 < i" by (auto split: option.splits)
    with 1 z h next_interval_returns [OF 1 this b] show ?thesis
      by (simp add: compute_next_run_at_def split: option.splits)
  next
    case 2
    with z next_daily_returns [of ref s] b show ?thesis
      by (simp add: compute_next_run_at_def schedule_period_def)
  next
    case 3
    with z next_weekly_returns [of ref s] b show ?thesis
      by (simp add: compute_next_run_at_def schedule_period_def)
  next
    case 4
    with z next_biweekly_returns [of ref s] b h show ?thesis
      by (simp add: compute_next_run_at_def schedule_period_def)
  next
    case 5
    with z next_monthly_returns [of ref s] b show ?thesis
      by (simp add: compute_next_run_at_def schedule_period_def)
  qed
qed

section \<open>The moments a schedule names\<close>

text \<open>
  What a schedule means, without the computation: the moments at which it fires, given the reference that stands
  in for a missing last run or anchor.
\<close>

definition fires_at :: "schedule_row \<Rightarrow> instant \<Rightarrow> instant \<Rightarrow> bool" where
  "fires_at s ref t =
     (let mode = schedule_mode_of s; tod = fst (schedule_clock s); day = date_of t in
      if mode = ''interval'' then
        (let base = (case sch_last_run_at s of Some l \<Rightarrow> l | None \<Rightarrow> ref);
             step = (case sch_every_minutes s of None \<Rightarrow> 0 | Some i \<Rightarrow> i) * one_minute
         in base < t \<and> (t - base) mod step = 0)
      else if mode = ''daily'' then t = combine day tod
      else if mode = ''weekly'' then t = combine day tod \<and>
        weekday day = max 0 (min 6 (case sch_day_of_week s of None \<Rightarrow> 0 | Some d \<Rightarrow> d))
      else if mode = ''biweekly'' then
        combine (anchor_day s ref) tod \<le> t \<and> (t - combine (anchor_day s ref) tod) mod (14 * one_day) = 0
      else if mode = ''monthly'' then t = combine day tod \<and>
        day_of day = min (schedule_day_of_month_value (sch_day_of_month s)) (month_len (year_of day) (month_of day))
      else False)"

definition first_after :: "(int \<Rightarrow> bool) \<Rightarrow> int \<Rightarrow> int \<Rightarrow> bool" where
  "first_after P ref t = (ref < t \<and> P t \<and> (\<forall>u. ref < u \<and> u < t \<longrightarrow> \<not> P u))"

lemma advance_past_first:
  assumes "0 < step" and "advance_past step ref c = Inr t"
  shows "first_after (\<lambda>u. c \<le> u \<and> (u - c) mod step = 0) ref t"
  using assms
proof (induction step ref c rule: advance_past.induct)
  case (1 step ref c)
  show ?case
  proof (cases "c \<le> ref")
    case True
    with 1(2,3) have nx: "\<not> datetime_max < c + step" "advance_past step ref (c + step) = Inr t"
      by (auto simp: advance_past.simps [of step ref c] split: if_splits)
    have IH: "first_after (\<lambda>u. c + step \<le> u \<and> (u - (c + step)) mod step = 0) ref t"
      using "1.IH" [OF _ nx(1) 1(2) nx(2)] True 1(2) by simp
    have shift: "(u - (c + step)) mod step = (u - c) mod step" for u
      using minus_mod_self2 [of "u - c" step] by (simp add: algebra_simps)
    note IH' = IH [unfolded first_after_def shift]
    have far: "c + step \<le> u" if "ref < u" "c \<le> u" "(u - c) mod step = 0" for u
    proof (rule ccontr)
      assume "\<not> c + step \<le> u"
      with that(2) have "(u - c) mod step = u - c" by (intro mod_pos_pos_trivial) simp_all
      with that True show False by simp
    qed
    have none: "\<not> (c \<le> u \<and> (u - c) mod step = 0)" if u: "ref < u" "u < t" for u
    proof
      assume c: "c \<le> u \<and> (u - c) mod step = 0"
      then have "c + step \<le> u" using far [OF u(1)] by (elim conjE)
      moreover have "\<not> (c + step \<le> u \<and> (u - c) mod step = 0)"
        using IH' by (elim conjE allE [of _ u]) (simp add: u)
      ultimately show False using c by (elim conjE notE) (intro conjI)
    qed
    have "ref < t" "c \<le> t" "(t - c) mod step = 0"
      using IH' 1(2) by (elim conjE, simp)+
    then show ?thesis unfolding first_after_def 
      by - (intro conjI allI impI; (elim conjE)?; (assumption | rule none; assumption))
  next
    case False
    with 1(2,3) show ?thesis
      by (auto simp: advance_past.simps [of step ref c] first_after_def)
  qed
qed

text \<open>The first day \<open>D\<close> that is wanted and not over gives the first moment.\<close>

lemma first_date:
  assumes "0 \<le> tod" "tod < one_day" "Q D" "ref < combine D tod"
    and least: "\<And>e. date_of ref \<le> e \<Longrightarrow> Q e \<Longrightarrow> ref < combine e tod \<Longrightarrow> D \<le> e"
  shows "first_after (\<lambda>u. u = combine (date_of u) tod \<and> Q (date_of u)) ref (combine D tod)"
proof -
  have d: "date_of (combine e tod) = e" for e using assms(1,2) by (rule date_of_combine)
  have "combine D tod \<le> u" if u: "ref < u" "u = combine (date_of u) tod" "Q (date_of u)" for u
  proof -
    have "D \<le> date_of u" using least [OF _ u(3)] u(1,2) date_of_mono [of ref u] by simp
    then have "combine D tod \<le> combine (date_of u) tod" by (simp add: combine_def one_day_def)
    with u(2) show ?thesis by simp
  qed
  then show ?thesis unfolding first_after_def d using assms(3,4) not_less by blast
qed

lemma next_daily_first:
  assumes "next_daily utc_zone s ref = Inr (Some t)"
  shows "first_after (\<lambda>u. u = combine (date_of u) (fst (schedule_clock s)) \<and> True) ref t"
proof -
  obtain tod own where clock: "schedule_clock s = (tod, own)" by fastforce
  note b = schedule_clock_bounds [OF clock]
  define D where "D = (if combine (date_of ref) tod \<le> ref then date_of ref + 1 else date_of ref)"
  have t: "t = combine D tod"
    using assms combine_add [of "date_of ref" 1 tod]
    by (auto simp: next_daily_def clock Let_def map_Some_Inr res_bind_Inr_iff in_range_Inr D_def split: if_splits)
  have "D \<le> e" if "date_of ref \<le> e" "ref < combine e tod" for e
    using that by (cases "e = date_of ref") (auto simp: D_def)
  with b next_daily_after [OF assms] show ?thesis
    unfolding t clock fst_conv by (intro first_date) simp_all
qed

lemma weekday_diff: "(weekday e - weekday n) mod 7 = (e - n) mod 7"
  by (simp add: weekday_def mod_diff_eq)

lemma weekday_ahead: "0 \<le> w \<Longrightarrow> w \<le> 6 \<Longrightarrow> weekday (n + (w - weekday n) mod 7) = w"
proof -
  assume w: "0 \<le> w" "w \<le> 6"
  have "weekday (n + (w - weekday n) mod 7) = (n + 6 + (w - (n + 6)) mod 7) mod 7"
    unfolding weekday_def mod_diff_right_eq by (simp add: ac_simps)
  also have "\<dots> = (n + 6 + (w - (n + 6))) mod 7" by (rule mod_add_right_eq)
  finally show ?thesis using w by simp
qed

lemma weekday_least:
  "n \<le> e \<Longrightarrow> weekday e = w \<Longrightarrow> n + (w - weekday n) mod 7 \<le> e"
  using zmod_le_nonneg_dividend [of "e - n" 7] weekday_diff [of e n] by simp

lemma weekday_same: "weekday d = weekday e \<Longrightarrow> d < e \<Longrightarrow> d + 7 \<le> e"
  using weekday_diff [of e d] zdvd_imp_le [of 7 "e - d"] by (simp add: dvd_eq_mod_eq_0)

lemma weekday_add_week: "weekday (d + 7) = weekday d"
  using mod_add_self2 [of "d + 6" 7] by (simp add: weekday_def)

lemma next_weekly_first:
  assumes "next_weekly utc_zone s ref = Inr (Some t)"
  shows "first_after (\<lambda>u. u = combine (date_of u) (fst (schedule_clock s)) \<and>
     weekday (date_of u) = max 0 (min 6 (case sch_day_of_week s of None \<Rightarrow> 0 | Some d \<Rightarrow> d))) ref t"
proof -
  obtain tod own where clock: "schedule_clock s = (tod, own)" by fastforce
  note b = schedule_clock_bounds [OF clock]
  define w where "w = max 0 (min 6 (case sch_day_of_week s of None \<Rightarrow> 0 | Some d \<Rightarrow> d))"
  have w: "0 \<le> w" "w \<le> 6" by (simp_all add: w_def)
  define N where "N = date_of ref + (w - weekday (date_of ref)) mod 7"
  define D where "D = (if combine N tod \<le> ref then N + 7 else N)"
  have t: "t = combine D tod"
    using assms combine_add [of N 7 tod]
    by (auto simp: next_weekly_def clock Let_def map_Some_Inr res_bind_Inr_iff in_range_Inr D_def plus_date_def
        w_def [symmetric] N_def [symmetric] split: if_splits)
  have N: "weekday N = w" unfolding N_def by (rule weekday_ahead [OF w])
  have "D \<le> e" if e: "date_of ref \<le> e" "weekday e = w" "ref < combine e tod" for e
  proof -
    have "N \<le> e" unfolding N_def by (rule weekday_least [OF e(1,2)])
    with e(2,3) N weekday_same [of N e] show ?thesis by (cases "e = N") (auto simp: D_def)
  qed
  moreover have "weekday D = w" using N by (simp add: D_def weekday_add_week)
  ultimately show ?thesis
    using b next_weekly_after [OF assms] unfolding t clock fst_conv w_def [symmetric] by (intro first_date) simp_all
qed

text \<open>The day of a month on which a monthly schedule fires.\<close>

abbreviation on_month_day :: "int \<Rightarrow> int \<Rightarrow> bool" where
  "on_month_day md e \<equiv> day_of e = min md (month_len (year_of e) (month_of e))"

lemma month_day_facts:
  assumes "1 \<le> md" "1 \<le> snd ym" "snd ym \<le> 12"
  shows "on_month_day md (month_day md ym)"
    and "(year_of (month_day md ym), month_of (month_day md ym)) = ym"
  using ord_of_ymd [OF assms(2,3), of "min md (month_len (fst ym) (snd ym))" "fst ym"] assms(1)
    month_len_bounds [of "fst ym" "snd ym"]
  by (auto simp: month_day_def)

lemma month_day_unique: "on_month_day md e \<Longrightarrow> e = month_day md (year_of e, month_of e)"
  using ymd_of_ord [of e] by (simp add: month_day_def)

lemma month_day_least:
  assumes "n \<le> e" "on_month_day md e"
  shows "e = month_day md (year_of n, month_of n) \<or>
    ymd2ord (year_of n) (month_of n) (month_len (year_of n) (month_of n)) < e"
  using later_month [OF assms(1)] month_day_unique [OF assms(2)] by fastforce

lemma month_day_end: "month_day md (y, m) \<le> ymd2ord y m (month_len y m)"
  by (simp add: month_day_def ymd2ord_def)

lemma search_months_first:
  assumes n: "n = date_of ref" "1 \<le> md" "md \<le> 31" "0 \<le> tod" "tod < one_day"
    and ref: "datetime_min \<le> ref" "ref + 31 * one_day \<le> datetime_max"
    and s: "search_months (Suc (Suc k)) ref md tod (year_of n, month_of n) = Inr (Some t)"
  shows "\<exists>D. t = combine D tod \<and> on_month_day md D \<and>
      (\<forall>e. n \<le> e \<longrightarrow> on_month_day md e \<longrightarrow> ref < combine e tod \<longrightarrow> D \<le> e)"
proof -
  let ?cur = "(year_of n, month_of n)"
  obtain y' m' where nm: "next_month ?cur = (y', m')" by fastforce
  note mb = month_of_bounds [of n]
  note nx = ymd2ord_next_month [OF _ _ nm]
  define D where "D = month_day md (if ref < combine (month_day md ?cur) tod then ?cur else (y', m'))"
  have t: "t = combine D tod"
    using s search_months_result [OF n ref, of k] nm by (simp add: D_def)
  have on: "on_month_day md D"
    using month_day_facts(1) [OF n(2)] nx(2,3) mb by (simp add: D_def)
  have "D \<le> e" if e: "n \<le> e" "on_month_day md e" "ref < combine e tod" for e
  proof (cases "ref < combine (month_day md ?cur) tod")
    case True
    then show ?thesis
      using month_day_least [OF e(1,2)] month_day_end [of md "year_of n" "month_of n"] by (auto simp: D_def)
  next
    case False
    with e(3) month_day_least [OF e(1,2)]
    have "ymd2ord (year_of n) (month_of n) (month_len (year_of n) (month_of n)) < e" by auto
    then have ge: "ymd2ord y' m' 1 \<le> e" using nx(1) [of 1] mb by simp
    have "year_of (ymd2ord y' m' 1) = y'" "month_of (ymd2ord y' m' 1) = m'"
      using ord_of_ymd [of m' 1 y'] nx(2,3) mb month_len_bounds [of y' m'] by simp_all
    with month_day_least [OF ge e(2)] month_day_end [of md y' m'] False show ?thesis by (auto simp: D_def)
  qed
  with t on show ?thesis by blast
qed

lemma next_monthly_first:
  assumes "next_monthly utc_zone s ref = Inr (Some t)" and "datetime_min \<le> ref" "ref + 31 * one_day \<le> datetime_max"
  shows "first_after (\<lambda>u. u = combine (date_of u) (fst (schedule_clock s)) \<and>
     day_of (date_of u) = min (schedule_day_of_month_value (sch_day_of_month s))
       (month_len (year_of (date_of u)) (month_of (date_of u)))) ref t"
proof -
  obtain tod own where clock: "schedule_clock s = (tod, own)" by fastforce
  note b = schedule_clock_bounds [OF clock]
  define md where "md = schedule_day_of_month_value (sch_day_of_month s)"
  have md: "1 \<le> md" "md \<le> 31" by (simp_all add: md_def schedule_day_of_month_value_def)
  have s: "search_months 15 ref md tod (year_of (date_of ref), month_of (date_of ref)) = Inr (Some t)"
    using assms(1) by (auto simp: next_monthly_def clock Let_def map_Some_Inr res_bind_Inr_iff in_range_Inr
        md_def [symmetric] split: option.splits)
  have "\<exists>D. t = combine D tod \<and> day_of D = min md (month_len (year_of D) (month_of D)) \<and>
      (\<forall>e. date_of ref \<le> e \<longrightarrow> day_of e = min md (month_len (year_of e) (month_of e)) \<longrightarrow> ref < combine e tod \<longrightarrow> D \<le> e)"
    by (rule search_months_first [OF refl md _ _ assms(2,3), of _ 13]) (use b s in \<open>simp_all add: numeral_eq_Suc\<close>)
  then obtain D where "t = combine D tod" "day_of D = min md (month_len (year_of D) (month_of D))"
      "\<And>e. date_of ref \<le> e \<Longrightarrow> day_of e = min md (month_len (year_of e) (month_of e)) \<Longrightarrow> ref < combine e tod \<Longrightarrow> D \<le> e"
    by blast
  with b next_monthly_after [OF assms(1)] show ?thesis
    using first_date [of tod "on_month_day md" D ref]
    unfolding clock fst_conv md_def [symmetric] by simp
qed

lemma next_biweekly_first:
  assumes "next_biweekly utc_zone s ref = Inr (Some t)"
  shows "first_after (\<lambda>u. combine (anchor_day s ref) (fst (schedule_clock s)) \<le> u \<and>
    (u - combine (anchor_day s ref) (fst (schedule_clock s))) mod (14 * one_day) = 0) ref t"
  using assms advance_past_first [of "14 * one_day"]
  by (auto simp: next_biweekly_def Let_def map_Some_Inr res_bind_Inr_iff in_range_Inr one_day_def split: prod.splits)

lemma next_interval_first:
  assumes "next_interval s ref = Inr (Some t)"
  shows "first_after (\<lambda>u. (case sch_last_run_at s of Some l \<Rightarrow> l | None \<Rightarrow> ref) < u \<and>
    (u - (case sch_last_run_at s of Some l \<Rightarrow> l | None \<Rightarrow> ref))
      mod ((case sch_every_minutes s of None \<Rightarrow> 0 | Some i \<Rightarrow> i) * one_minute) = 0) ref t"
proof -
  define base where "base = (case sch_last_run_at s of Some l \<Rightarrow> l | None \<Rightarrow> ref)"
  define step where "step = (case sch_every_minutes s of None \<Rightarrow> 0 | Some i \<Rightarrow> i) * one_minute"
  have st: "0 < step" "advance_past step ref (base + step) = Inr t"
    using assms by (auto simp: next_interval_def Let_def res_bind_Inr_iff map_Some_Inr in_range_Inr
        base_def [symmetric] step_def one_minute_def split: if_splits option.splits)
  have shift: "(u - (base + step)) mod step = (u - base) mod step" for u
    using minus_mod_self2 [of "u - base" step] by (simp add: algebra_simps)
  have "base + step \<le> u \<longleftrightarrow> base < u" if m: "(u - base) mod step = 0" for u
  proof
    show "base + step \<le> u" if "base < u"
    proof (rule ccontr)
      assume "\<not> base + step \<le> u"
      with that have "(u - base) mod step = u - base" by (intro mod_pos_pos_trivial) simp_all
      with m that show False by simp
    qed
  qed (use st(1) in simp)
  then have "(\<lambda>u. base + step \<le> u \<and> (u - (base + step)) mod step = 0) = (\<lambda>u. base < u \<and> (u - base) mod step = 0)"
    unfolding shift by (intro ext iffI; elim conjE; simp)
  with advance_past_first [OF st] show ?thesis
    unfolding base_def [symmetric] step_def [symmetric] by simp
qed

text \<open>Putting the modes together.\<close>

lemma next_run_first:
  assumes "sch_timezone s = None" and "datetime_min \<le> ref" and "ref + schedule_period s \<le> datetime_max"
    and "compute_next_run_at zi ref s = Inr (Some t)"
  shows "first_after (fires_at s ref) ref t"
proof -
  have run: "schedule_mode_of s \<noteq> ''manual''"
      "schedule_mode_of s = ''interval'' \<Longrightarrow> next_interval s ref = Inr (Some t)"
      "schedule_mode_of s = ''daily'' \<Longrightarrow> next_daily utc_zone s ref = Inr (Some t)"
      "schedule_mode_of s = ''weekly'' \<Longrightarrow> next_weekly utc_zone s ref = Inr (Some t)"
      "schedule_mode_of s = ''biweekly'' \<Longrightarrow> next_biweekly utc_zone s ref = Inr (Some t)"
      "schedule_mode_of s = ''monthly'' \<Longrightarrow> next_monthly utc_zone s ref = Inr (Some t)"
    using assms(1,4) by (auto simp: compute_next_run_at_def schedule_timezone_def res_bind_Inr_iff)
  have "schedule_mode_of s \<in> {''manual'', ''interval'', ''daily'', ''weekly'', ''biweekly'', ''monthly''}"
    unfolding schedule_mode_of_def by (rule mode_cases)
  with run(1) consider "schedule_mode_of s = ''interval''" | "schedule_mode_of s = ''daily''"
    | "schedule_mode_of s = ''weekly''" | "schedule_mode_of s = ''biweekly''" | "schedule_mode_of s = ''monthly''"
    by blast
  then show ?thesis
  proof cases
    case 1
    then show ?thesis using next_interval_first [OF run(2) [OF 1]] by (simp add: fires_at_def first_after_def Let_def)
  next
    case 2
    then show ?thesis using next_daily_first [OF run(3) [OF 2]] by (simp add: fires_at_def first_after_def Let_def)
  next
    case 3
    then show ?thesis using next_weekly_first [OF run(4) [OF 3]] by (simp add: fires_at_def first_after_def Let_def)
  next
    case 4
    then show ?thesis using next_biweekly_first [OF run(5) [OF 4]] by (simp add: fires_at_def first_after_def Let_def)
  next
    case 5
    with assms(3) have "ref + 31 * one_day \<le> datetime_max" by (simp add: schedule_period_def)
    with 5 show ?thesis using next_monthly_first [OF run(6) [OF 5] assms(2)] by (simp add: fires_at_def first_after_def Let_def)
  qed
qed

section \<open>Validated schedules\<close>

text \<open>What a validated payload looks like, mode by mode.\<close>

definition time_text_ok :: "string option \<Rightarrow> bool" where
  "time_text_ok v = (parse_time_text v \<noteq> None \<and> v = Some (normalize_time_text v))"

definition enabled_shape :: "string \<Rightarrow> int option \<Rightarrow> string option \<Rightarrow> int option \<Rightarrow> int option \<Rightarrow> anchor option \<Rightarrow> bool" where
  "enabled_shape mode every time wd md anchor =
     (if mode = ''interval'' then (case every of None \<Rightarrow> False | Some i \<Rightarrow> 0 < i) \<and> time = None \<and> wd = None \<and> md = None \<and> anchor = None
      else every = None \<and> time_text_ok time \<and>
        (if mode = ''daily'' then wd = None \<and> md = None \<and> anchor = None
         else if mode = ''weekly'' then (case wd of None \<Rightarrow> False | Some d \<Rightarrow> 0 \<le> d \<and> d \<le> 6) \<and> md = None \<and> anchor = None
         else if mode = ''biweekly'' then wd = None \<and> md = None \<and>
           (case anchor of Some (AnchorDatetime w) \<Rightarrow> w mod one_day = 0 | _ \<Rightarrow> False)
         else if mode = ''monthly'' then wd = None \<and> (case md of None \<Rightarrow> False | Some d \<Rightarrow> 1 \<le> d \<and> d \<le> 31) \<and> anchor = None
         else False))"

definition payload_ok :: "schedule_payload \<Rightarrow> bool" where
  "payload_ok r =
     (case sp_mode r of Some (Some mode) \<Rightarrow>
        mode \<in> set SCHEDULE_MODES \<and>
        (if sp_enabled r = Some (Some False) then r = no_payload\<lparr>sp_mode := Some (Some mode), sp_enabled := Some (Some False)\<rparr>
         else (case (sp_every_minutes r, sp_time r, sp_day_of_week r, sp_day_of_month r, sp_anchor_date r) of
             (Some every, Some time, Some wd, Some md, Some anchor) \<Rightarrow>
               r = normalized mode every time wd md anchor \<and> enabled_shape mode every time wd md anchor
           | _ \<Rightarrow> False))
      | _ \<Rightarrow> False)"

lemma parse_two_digits:
  assumes "0 \<le> h" "h \<le> 23" "0 \<le> m" "m \<le> 59"
  shows "parse_time_text (Some (two_digits h @ '':'' @ two_digits m)) = Some (h, m)"
proof -
  have d: "nat (h div 10) < 10" "nat (h mod 10) < 10" "nat (m div 10) < 10" "nat (m mod 10) < 10"
    using assms by auto
  have "py_strip (two_digits h @ '':'' @ two_digits m) = two_digits h @ '':'' @ two_digits m"
    using digit_char_plain(1) [OF d(1)] digit_char_plain(1) [OF d(4)]
    by (intro py_strip_id) (simp_all add: two_digits_def)
  moreover have "CHR '':'' \<notin> set (two_digits h)"
    using digit_char_plain(2) [OF d(1)] digit_char_plain(2) [OF d(2)] by (auto simp: two_digits_def)
  ultimately show ?thesis
    using assms split_once_append [of "CHR '':''" "two_digits h" "two_digits m"]
    by (simp add: parse_time_text_def py_int_two_digits)
qed

definition time_shown :: "int \<times> int \<Rightarrow> string" where
  "time_shown t = two_digits (fst t) @ '':'' @ two_digits (snd t)"

definition time_or_default :: "string option \<Rightarrow> int \<times> int" where
  "time_or_default v = (case parse_time_text v of None \<Rightarrow> (8, 0) | Some t \<Rightarrow> t)"

lemma normalize_time_shown: "normalize_time_text v = time_shown (time_or_default v)"
proof -
  have "''08:00'' = time_shown (8, 0)" by code_simp
  then show ?thesis
    by (simp add: normalize_time_text_def time_or_default_def time_shown_def split: option.splits prod.splits)
qed

lemma parse_time_shown: "parse_time_text (Some (time_shown (time_or_default v))) = Some (time_or_default v)"
proof -
  obtain h m where t: "time_or_default v = (h, m)" by fastforce
  then have "0 \<le> h \<and> h \<le> 23 \<and> 0 \<le> m \<and> m \<le> 59"
    using parse_time_bounds [of v h m] by (auto simp: time_or_default_def split: option.splits)
  then show ?thesis unfolding t time_shown_def fst_conv snd_conv by (intro parse_two_digits) simp_all
qed

lemma parse_normalized_time: "parse_time_text (Some (normalize_time_text v)) = Some (time_or_default v)"
  unfolding normalize_time_shown by (rule parse_time_shown)

lemma normalize_time_idem [simp]: "normalize_time_text (Some (normalize_time_text v)) = normalize_time_text v"
  unfolding normalize_time_shown [of "Some _"]
  by (simp add: time_or_default_def [of "Some _"] parse_normalized_time) (simp add: normalize_time_shown)

lemma time_text_ok_normalized: "time_text_ok (Some (normalize_time_text v))"
  by (simp add: time_text_ok_def parse_normalized_time)

lemma payload_ok_normalized:
  "mode \<in> set SCHEDULE_MODES \<Longrightarrow> enabled_shape mode every time wd md anchor \<Longrightarrow>
     payload_ok (normalized mode every time wd md anchor)"
  by (simp add: payload_ok_def normalized_def)

lemma enabled_shapes:
  "0 < i \<Longrightarrow> enabled_shape ''interval'' (Some i) None None None None"
  "time_text_ok t \<Longrightarrow> enabled_shape ''daily'' None t None None None"
  "time_text_ok t \<Longrightarrow> 0 \<le> d \<Longrightarrow> d \<le> 6 \<Longrightarrow> enabled_shape ''weekly'' None t (Some d) None None"
  "time_text_ok t \<Longrightarrow> enabled_shape ''biweekly'' None t None None (Some (AnchorDatetime (combine n 0)))"
  "time_text_ok t \<Longrightarrow> 1 \<le> d \<Longrightarrow> d \<le> 31 \<Longrightarrow> enabled_shape ''monthly'' None t None (Some d) None"
  by (simp_all add: enabled_shape_def combine_def)

lemma modes_known:
  "''manual'' \<in> set SCHEDULE_MODES" "''interval'' \<in> set SCHEDULE_MODES" "''daily'' \<in> set SCHEDULE_MODES"
  "''weekly'' \<in> set SCHEDULE_MODES" "''biweekly'' \<in> set SCHEDULE_MODES" "''monthly'' \<in> set SCHEDULE_MODES"
  by (simp_all add: SCHEDULE_MODES_def)

lemma checked_fields:
  "checked_interval v = Inr i \<longleftrightarrow> v = Some i \<and> 0 < i"
  "checked_weekday v = Inr d \<longleftrightarrow> v = Some d \<and> 0 \<le> d \<and> d \<le> 6"
  "checked_day_of_month v = Inr d \<longleftrightarrow> v = Some d \<and> 1 \<le> d \<and> d \<le> 31"
  by (auto simp: checked_interval_def checked_weekday_def checked_day_of_month_def http422_def
      split: option.splits)

lemma map_sum_Inr_iff: "map_sum id f r = Inr y \<longleftrightarrow> (\<exists>x. r = Inr x \<and> y = f x)"
  by (cases r) auto

lemma normalize_mode_known: "normalize_mode_text v = Some m \<Longrightarrow> m \<in> set SCHEDULE_MODES"
  by (auto simp: normalize_mode_text_def Let_def split: option.splits if_splits)

text \<open>The outcomes of a validation.\<close>

lemma validated_cases:
  assumes "validate_schedule_payload now p ex = Inr r"
  obtains (disabled) m where "m \<in> set SCHEDULE_MODES"
      "r = no_payload\<lparr>sp_mode := Some (Some m), sp_enabled := Some (Some False)\<rparr>"
  | (interval) i where "0 < i" "r = normalized ''interval'' (Some i) None None None None"
  | (daily) v where "r = normalized ''daily'' None (Some (normalize_time_text v)) None None None"
  | (weekly) v d where "0 \<le> d" "d \<le> 6" "r = normalized ''weekly'' None (Some (normalize_time_text v)) (Some d) None None"
  | (biweekly) v n where "r = normalized ''biweekly'' None (Some (normalize_time_text v)) None None
      (Some (AnchorDatetime (combine n 0)))"
  | (monthly) v d where "1 \<le> d" "d \<le> 31"
      "r = normalized ''monthly'' None (Some (normalize_time_text v)) None (Some d) None"
proof -
  define m where "m = infer_schedule_mode (normalize_mode_text (get_field (sp_mode p) (sp_mode ex)))
      (Some (requested_enabled p ex)) (get_field (sp_every_minutes p) (sp_every_minutes ex))"
  note v = assms [unfolded validate_schedule_payload_def Let_def m_def [symmetric]]
  have m: "m \<in> {''manual'', ''interval'', ''daily'', ''weekly'', ''biweekly'', ''monthly''}"
    unfolding m_def by (rule mode_cases)
  show thesis
  proof (cases "requested_enabled p ex")
    case False
    define m' where "m' = (case normalize_mode_text (get_field (sp_mode p) (sp_mode ex)) of Some m \<Rightarrow> m
        | None \<Rightarrow> (case normalize_mode_text (get_field (sp_mode ex) None) of Some m \<Rightarrow> m | None \<Rightarrow> ''manual''))"
    have "r = no_payload\<lparr>sp_mode := Some (Some m'), sp_enabled := Some (Some False)\<rparr>"
      using v [unfolded if_P [OF False] sum.inject] by (simp only: m'_def)
    moreover have "m' \<in> set SCHEDULE_MODES"
      unfolding m'_def using normalize_mode_known modes_known(1)
      by (cases "normalize_mode_text (get_field (sp_mode p) (sp_mode ex))";
          cases "normalize_mode_text (get_field (sp_mode ex) None)") simp_all
    ultimately show thesis by (intro disabled)
  next
    case True
    from m show thesis
    proof (elim insertE emptyE)
      assume "m = ''manual''"
      with v True show thesis by (simp add: http422_def)
    next
      assume "m = ''interval''"
      with v True obtain i where "0 < i" "r = normalized ''interval'' (Some i) None None None None"
        by (auto simp: map_sum_Inr_iff checked_fields)
      then show thesis by (rule interval)
    next
      assume "m = ''daily''"
      with v True have "r = normalized ''daily'' None
          (Some (normalize_time_text (get_field (sp_time p) (sp_time ex)))) None None None"
        by simp
      then show thesis by (rule daily)
    next
      assume "m = ''weekly''"
      with v True obtain d where "0 \<le> d" "d \<le> 6" "r = normalized ''weekly'' None
          (Some (normalize_time_text (get_field (sp_time p) (sp_time ex)))) (Some d) None None"
        by (auto simp: map_sum_Inr_iff checked_fields)
      then show thesis by (rule weekly)
    next
      assume "m = ''biweekly''"
      with v True have "r = normalized ''biweekly'' None
          (Some (normalize_time_text (get_field (sp_time p) (sp_time ex)))) None None
          (Some (AnchorDatetime (combine (case coerce_date (get_field (sp_anchor_date p) (sp_anchor_date ex)) of
            Some d \<Rightarrow> d | None \<Rightarrow> date_of now) 0)))"
        by simp
      then show thesis by (rule biweekly)
    next
      assume "m = ''monthly''"
      with v True obtain d where "1 \<le> d" "d \<le> 31" "r = normalized ''monthly'' None
          (Some (normalize_time_text (get_field (sp_time p) (sp_time ex)))) None (Some d) None"
        by (auto simp: map_sum_Inr_iff checked_fields)
      then show thesis by (rule monthly)
    qed
  qed
qed

lemma validated_ok: "validate_schedule_payload now p ex = Inr r \<Longrightarrow> payload_ok r"
  by (elim validated_cases)
    (simp_all add: payload_ok_normalized enabled_shapes modes_known time_text_ok_normalized,
     simp add: payload_ok_def no_payload_def)

text \<open>Validating again changes nothing, whatever the stored schedule and the clock say.\<close>

lemma normalize_mode_fixed: "m \<in> set SCHEDULE_MODES \<Longrightarrow> normalize_mode_text (Some m) = Some m"
proof -
  have "list_all (\<lambda>m. normalize_mode_text (Some m) = Some m) SCHEDULE_MODES" by code_simp
  then show "m \<in> set SCHEDULE_MODES \<Longrightarrow> normalize_mode_text (Some m) = Some m" by (simp add: list_all_iff)
qed

lemma infer_fixed:
  "infer_schedule_mode (Some ''interval'') (Some True) e = ''interval''"
  "infer_schedule_mode (Some ''daily'') (Some True) e = ''daily''"
  "infer_schedule_mode (Some ''weekly'') (Some True) e = ''weekly''"
  "infer_schedule_mode (Some ''biweekly'') (Some True) e = ''biweekly''"
  "infer_schedule_mode (Some ''monthly'') (Some True) e = ''monthly''"
  by (simp_all add: infer_schedule_mode_def normalize_mode_fixed modes_known)

lemmas validate_simps = validate_schedule_payload_def requested_enabled_def normalized_def get_field_def
  normalize_mode_fixed modes_known infer_fixed

lemma revalidated:
  assumes "validate_schedule_payload now p ex = Inr r"
  shows "validate_schedule_payload now' r ex' = Inr r"
  using assms
proof (cases rule: validated_cases)
  case (disabled m)
  then show ?thesis by (simp add: validate_simps no_payload_def Let_def)
next
  case (interval i)
  then show ?thesis by (simp add: validate_simps checked_interval_def Let_def)
next
  case (daily v)
  then show ?thesis by (simp add: validate_simps Let_def)
next
  case (weekly v d)
  then show ?thesis by (simp add: validate_simps checked_weekday_def Let_def)
next
  case (biweekly v n)
  have "date_of (combine n 0) = n" by (rule date_of_combine) (simp_all add: one_day_def)
  with biweekly show ?thesis by (simp add: validate_simps coerce_date_def Let_def)
next
  case (monthly v d)
  then show ?thesis by (simp add: validate_simps checked_day_of_month_def Let_def)
qed

section \<open>Properties\<close>

definition demo_schedule :: schedule_row where
  "demo_schedule = \<lparr>sch_id = 1, sch_target_id = 5, sch_mode = Some ''monthly'', sch_enabled = Some True,
     sch_every_minutes = None, sch_time = Some ''6:30'', sch_timezone = None, sch_day_of_week = None,
     sch_day_of_month = Some 31, sch_anchor_date = None, sch_last_run_at = None, sch_last_started_at = None,
     sch_last_finished_at = None, sch_last_status = None, sch_last_error = None, sch_next_run_at = None,
     sch_created_at = None, sch_recipients = []\<rparr>"

definition no_zones :: zoneinfo where
  "no_zones n = Inl (KeyError n)"

definition west_zones :: zoneinfo where
  "west_zones n = Inr \<lparr>tz_local = (\<lambda>t. t - 10800000000), tz_utc = (\<lambda>w. w + 10800000000)\<rparr>"

text \<open>C13: A schedule without a zone of its own that is not manual has a next run: the loops end, the run lies
  strictly after the reference and at most one period (31 days for monthly) later.  The conditions: the
  reference and the period after it are dates; an interval is positive and was not last run after the
  reference; the anchor of a biweekly schedule is not a day after that of the reference.\<close>

theorem next_run_within_period:
  assumes "sch_timezone s = None" and "schedule_mode_of s \<noteq> ''manual''"
    and "datetime_min \<le> ref" and "ref + schedule_period s \<le> datetime_max"
    and "schedule_mode_of s = ''interval'' \<longrightarrow>
      (\<exists>i > 0. sch_every_minutes s = Some i) \<and> (\<forall>l. sch_last_run_at s = Some l \<longrightarrow> datetime_min \<le> l \<and> l \<le> ref)"
    and "schedule_mode_of s = ''biweekly'' \<longrightarrow> anchor_day s ref \<le> date_of ref"
  shows "\<exists>t. compute_next_run_at zi ref s = Inr (Some t) \<and> ref < t \<and> t \<le> ref + schedule_period s"
proof -
  have "schedulable s ref" using assms by (auto simp: schedulable_def split: option.splits)
  then obtain t where "compute_next_run_at zi ref s = Inr (Some t)" "t \<le> ref + schedule_period s"
    using next_run_returns by blast
  moreover note assms(1)
  ultimately show ?thesis using next_run_after by blast
qed

theorem next_run_within_period_witness:
  "\<exists>t. compute_next_run_at no_zones 1707566400000000 demo_schedule = Inr (Some t) \<and> 1707566400000000 < t \<and>
     t \<le> 1707566400000000 + schedule_period demo_schedule"
proof (rule next_run_within_period)
  show "sch_timezone demo_schedule = None" "schedule_mode_of demo_schedule \<noteq> ''manual''" by code_simp+
  show "datetime_min \<le> 1707566400000000"
    "1707566400000000 + schedule_period demo_schedule \<le> datetime_max" by code_simp+
  have mode: "schedule_mode_of demo_schedule \<noteq> ''interval''" by code_simp
  then show "schedule_mode_of demo_schedule = ''interval'' \<longrightarrow> (\<exists>i > 0. sch_every_minutes demo_schedule = Some i)
      \<and> (\<forall>l. sch_last_run_at demo_schedule = Some l \<longrightarrow> datetime_min \<le> l \<and> l \<le> 1707566400000000)" by simp
  show "schedule_mode_of demo_schedule = ''biweekly''
      \<longrightarrow> anchor_day demo_schedule 1707566400000000 \<le> date_of 1707566400000000" by code_simp
qed

text \<open>C14: Refinement of the calendar by the computation: for every mode of a schedule without a zone of its own, and
  a reference whose next period consists of dates, the run it returns is the first moment after the reference at
  which the schedule fires.\<close>

theorem next_run_is_first:
  assumes "sch_timezone s = None" and "datetime_min \<le> ref" and "ref + schedule_period s \<le> datetime_max"
    and "compute_next_run_at zi ref s = Inr (Some t)"
  shows "fires_at s ref t \<and> ref < t \<and> (\<forall>u. ref < u \<and> fires_at s ref u \<longrightarrow> t \<le> u)"
  using next_run_first [OF assms] unfolding first_after_def by (meson not_le)

theorem next_run_is_first_witness:
  "fires_at demo_schedule 1707566400000000 1709188200000000 \<and>
     \<not> fires_at demo_schedule 1707566400000000 1708583400000000"
proof -
  have "sch_timezone demo_schedule = None" "datetime_min \<le> 1707566400000000"
    "1707566400000000 + schedule_period demo_schedule \<le> datetime_max"
    "compute_next_run_at no_zones 1707566400000000 demo_schedule = Inr (Some 1709188200000000)"
    by code_simp+
  from next_run_is_first [OF this] show ?thesis by force
qed

text \<open>With a zone west of Greenwich the daily computation returns a run that is already over whenever the UTC
  time of day lies between the scheduled time and the offset: the date is taken from the zone, the time from UTC.\<close>

theorem daily_run_lags_west:
  assumes "sch_timezone s = Some n" and "py_strip n \<noteq> ''''"
    and "zi (py_strip n) = Inr \<lparr>tz_local = (\<lambda>t. t - off), tz_utc = (\<lambda>w. w + off)\<rparr>"
    and "schedule_mode_of s = ''daily''" and "schedule_clock s = (tod, False)"
    and "tod \<le> ref mod one_day" and "ref mod one_day < off" and "off < one_day"
    and "datetime_min + one_day \<le> ref" and "ref \<le> datetime_max"
  shows "compute_next_run_at zi ref s = Inr (Some (ref - ref mod one_day + tod))"
proof -
  let ?z = "\<lparr>tz_local = (\<lambda>t. t - off), tz_utc = (\<lambda>w. w + off)\<rparr>"
  have tod: "0 \<le> tod" "tod < one_day" using schedule_clock_bounds [OF assms(5)] by simp_all
  define x d where "x = ref mod one_day" and "d = ref div one_day"
  have ref: "ref = d * one_day + x" by (simp add: x_def d_def)
  have x: "0 \<le> x" "x < one_day" by (simp_all add: x_def one_day_def)
  have "(ref - off) div one_day = d - 1"
  proof (rule int_div_pos_eq)
    show "ref - off = one_day * (d - 1) + (x - off + one_day)" by (simp add: ref algebra_simps)
  qed (use assms(7,8) x x_def in \<open>simp_all\<close>)
  then have c: "combine (date_of (ref - off)) tod = (d - 1) * one_day + tod"
    by (simp add: combine_def date_of_def)
  have lag: "(d - 1) * one_day + tod \<le> ref" "(d - 1) * one_day + tod + one_day = ref - x + tod"
    using tod x by (simp_all add: ref algebra_simps)
  have "in_range (ref - x + tod) = Inr (ref - x + tod)"
    using assms(6,9,10) x tod by (simp add: in_range_def x_def [symmetric])
  moreover have "in_range (ref - off) = Inr (ref - off)"
    using assms(7-10) x by (simp add: in_range_def x_def [symmetric])
  moreover have "schedule_timezone zi s = Inr ?z"
    using assms(1-3) by (simp add: schedule_timezone_def)
  ultimately show ?thesis
    using assms(4,5) lag(1) by (simp add: compute_next_run_at_def next_daily_def c compared_reference_def
        candidate_instant_def x_def [symmetric] lag(2))
qed

theorem daily_run_lags_west_witness:
  "compute_next_run_at west_zones 1704852000000000
     (demo_schedule\<lparr>sch_mode := Some ''daily'', sch_time := Some ''01:00'', sch_timezone := Some ''America/Sao_Paulo''\<rparr>)
   = Inr (Some (1704852000000000 - 1704852000000000 mod one_day + 3600000000))"
proof (rule daily_run_lags_west [where n = "''America/Sao_Paulo''" and off = 10800000000])
  show "west_zones (py_strip ''America/Sao_Paulo'')
      = Inr \<lparr>tz_local = (\<lambda>t. t - 10800000000), tz_utc = (\<lambda>w. w + 10800000000)\<rparr>"
    by (simp add: west_zones_def)
qed code_simp+

text \<open>C15: A validated payload is well formed: the fields its mode uses are present and in range, the time is a valid
  hour and minute in its canonical text, every other field is null; a disabled one carries its mode only.\<close>

theorem validated_payload_typed:
  assumes "validate_schedule_payload now p ex = Inr r"
  shows "payload_ok r"
  using assms by (rule validated_ok)

definition demo_payload :: schedule_payload where
  "demo_payload = no_payload\<lparr>sp_mode := Some (Some '' Weekly''), sp_time := Some (Some ''7:5''), sp_day_of_week := Some (Some 6)\<rparr>"

definition demo_stored :: schedule_payload where
  "demo_stored = no_payload\<lparr>sp_mode := Some (Some ''interval''), sp_enabled := Some (Some True), sp_every_minutes := Some (Some 30)\<rparr>"

theorem validated_payload_typed_witness:
  "payload_ok (normalized ''weekly'' None (Some ''07:05'') (Some 6) None None)"
proof (rule validated_payload_typed)
  show "validate_schedule_payload 0 demo_payload demo_stored = Inr (normalized ''weekly'' None (Some ''07:05'') (Some 6) None None)"
    by code_simp
qed

text \<open>Validation is a normal form: validating a validated payload again gives the same payload, whatever is stored
  and whenever it happens.\<close>

theorem validation_idempotent:
  assumes "validate_schedule_payload now p ex = Inr r"
  shows "validate_schedule_payload now' r ex' = Inr r"
  using assms by (rule revalidated)

theorem validation_idempotent_witness:
  "validate_schedule_payload 99 (normalized ''weekly'' None (Some ''07:05'') (Some 6) None None) demo_stored
     = Inr (normalized ''weekly'' None (Some ''07:05'') (Some 6) None None)"
proof (rule validation_idempotent)
  show "validate_schedule_payload 0 demo_payload no_payload = Inr (normalized ''weekly'' None (Some ''07:05'') (Some 6) None None)"
    by code_simp
qed

end
