(* ===== verification/JobDiagnostics.thy ===== *)
theory JobDiagnostics
  imports Models
begin

text \<open>
  The health of an integration job, \<open>features/platform/job_diagnostics.py\<close>: from the row of the job and the
  clock to a status, a severity, a probable cause and the verdict whether the job is stalled.  The
  evidence line, a text assembled from the redacted context, is not modelled.
\<close>

record job_row =
  job_id :: int
  job_key :: string
  job_source :: string
  job_type :: string
  job_target_type :: "string option"
  job_target_id :: "int option"
  job_target_name :: "string option"
  job_trigger_mode :: string
  job_status :: string
  job_queued_at :: "instant option"
  job_started_at :: "instant option"
  job_finished_at :: "instant option"
  job_next_expected_run_at :: "instant option"
  job_records_processed :: "int option"
  job_progress_pct :: "rat option"
  job_correlation_id :: "string option"
  job_requested_by_user_id :: "int option"
  job_error :: "string option"
  job_context_json :: "py_value option"
  job_payload_json :: "py_value option"
  job_result_summary_json :: "py_value option"
  job_artifact_public_id :: "string option"

record diagnosis =
  diag_status :: string
  diag_severity :: string
  diag_label :: string
  diag_description :: string
  diag_impact :: string
  diag_recommended_action :: string
  diag_module :: string
  diag_probable_cause :: string
  diag_probable_cause_code :: string
  diag_runbook_url :: "string option"
  diag_correlation_id :: "string option"
  diag_generated_at :: instant
  diag_recurrence_count :: "int option"
  diag_is_stalled :: bool
  diag_is_overdue_next_run :: bool
  diag_running_duration_seconds :: "int option"

definition job_context :: "job_row \<Rightarrow> (string \<times> py_value) list" where
  "job_context job = as_dict (job_context_json job)"

definition format_duration_label :: "int \<Rightarrow> string" where
  "format_duration_label secs =
     (if secs \<ge> 24 * 3600 then
        let d = max 1 (secs div (24 * 3600)) in
        ''Travado ha '' @ int_str d @ '' dia'' @ (if d > 1 then ''s'' else '''')
      else ''Possivelmente travado'')"

definition diagnostic_module :: "string \<Rightarrow> string" where
  "diagnostic_module source =
     (case map_of [(''datasource'', ''datasource_scan''), (''s3'', ''data_lake''), (''dq'', ''data_quality''),
        (''metabase'', ''metabase''), (''airflow'', ''airflow''), (''platform'', ''platform_maintenance'')] source of
        Some m \<Rightarrow> m | None \<Rightarrow> or_else source ''platform'')"

definition runbook_path :: "string \<Rightarrow> string \<Rightarrow> string \<Rightarrow> string option" where
  "runbook_path source status probable_cause_code =
     (if source = ''datasource'' then
        (if status = ''partial_success'' then Some ''/docs/runbooks/scan-partial.md''
         else if probable_cause_code = ''row_count_timeout'' then Some ''/docs/runbooks/row-count-timeout.md''
         else Some ''/docs/runbooks/scan-failed.md'')
      else if source = ''s3'' then Some ''/docs/runbooks/data-lake-scan-failed.md''
      else if source = ''dq'' then Some ''/docs/runbooks/dq-failed.md''
      else if source = ''metabase'' then Some ''/docs/runbooks/metabase-sync-alert.md''
      else if source = ''airflow'' then Some ''/docs/runbooks/airflow-disconnected.md''
      else if source = ''platform'' then Some ''/docs/runbooks/platform-maintenance-failed.md''
      else None)"

type_synonym cause = "string \<times> string \<times> string"

definition datasource_causes :: "(string \<times> cause) list" where
  "datasource_causes =
     [(''invalid_credentials'', (''invalid_credentials'',
        ''Credenciais invalidas, expiradas ou revogadas para a fonte de dados.'',
        ''Testar conexao, revisar usuario/senha e validar rotacao de segredo.'')),
      (''invalid_host'', (''invalid_host'',
        ''Host ou DNS da fonte de dados nao esta acessivel a partir do runtime.'',
        ''Validar hostname, rede, DNS e firewall entre a aplicacao e a fonte.'')),
      (''timeout'', (''timeout'',
        ''Timeout durante descoberta de schemas, tabelas ou row count.'',
        ''Rever timeouts, reduzir escopo do scan e evitar row count exato em fontes grandes.'')),
      (''permission_denied'', (''permission_denied'',
        ''Permissoes insuficientes para listar ou consultar objetos da fonte.'',
        ''Revisar grants de leitura e acesso ao schema/tabela no banco de origem.'')),
      (''scan_failed'', (''scan_failed'',
        ''Falha operacional do conector ou objeto inacessivel durante o scan.'',
        ''Inspecionar logs do conector, historico do scan e testar a conexao novamente.''))]"

text \<open>An error code that is no string matches none of the keys, as its text would not.\<close>

definition context_error_code :: "job_row \<Rightarrow> string" where
  "context_error_code job =
     (case dict_get (job_context job) ''error_code'' of PStr s \<Rightarrow> py_lower (py_strip s) | _ \<Rightarrow> '''')"

definition failed_row_counts :: "job_row \<Rightarrow> int res" where
  "failed_row_counts job =
     (case dict_get (job_context job) ''row_counts'' of
        PDict d \<Rightarrow> (let v = dict_get d ''failed'' in if py_true v then py_int v else Inr 0)
      | _ \<Rightarrow> Inr 0)"

definition infer_probable_cause :: "job_row \<Rightarrow> string \<Rightarrow> int option \<Rightarrow> cause res" where
  "infer_probable_cause job status running_duration_seconds =
     (let source = norm_token (Some (job_source job));
          error_code = context_error_code job;
          jtype = norm_token (Some (job_type job))
      in
      if status = ''running'' \<and> (case running_duration_seconds of None \<Rightarrow> False | Some d \<Rightarrow> d > 0) then
        (if the running_duration_seconds \<ge> 24 * 3600
         then Inr (''stalled_execution'',
           ''Possivel lock, worker sem heartbeat ou execucao travada alem da janela critica.'',
           ''Revisar locks, worker dedicado, heartbeat e cancelar a execucao com seguranca se necessario.'')
         else Inr (''long_running_execution'',
           ''Execucao mais longa do que o padrao esperado para este job.'',
           ''Revisar progresso do worker, checkpoints e dependencias externas antes de reprocessar.''))
      else if source = ''datasource'' then
        (if status = ''partial_success'' then
           res_bind (failed_row_counts job) (\<lambda>failed.
             if failed > 0
             then Inr (''row_count_timeout'',
               ''Parte do scan concluiu, mas houve falhas de row count ou tabelas inacessiveis.'',
               ''Revisar tabelas com falha, reduzir custo de row count exato e validar timeouts do conector.'')
             else Inr (''partial_scan'',
               ''O scan encontrou objetos validos, mas nao conseguiu concluir todo o inventario da fonte.'',
               ''Abrir o historico do scan, revisar tabelas ignoradas e validar permissoes da fonte.''))
         else (case map_of datasource_causes error_code of
             Some cse \<Rightarrow> Inr cse
           | None \<Rightarrow> Inr (''datasource_scan_failed'',
             ''Falha de scan sem classificacao fina no conector ou na fonte de dados.'',
             ''Revisar logs do scan, testar conexao e validar permissoes do schema alvo.'')))
      else if source = ''s3''
      then Inr (''data_lake_scan_failed'',
           ''Falha de acesso ao bucket, prefixo ou credencial AWS durante o inventario do Data Lake.'',
           ''Validar bucket, region, policy IAM, credencial e resposta do endpoint S3.'')
      else if source = ''metabase''
      then Inr (''metabase_sync_failed'',
           ''Falha de autenticacao, timeout ou indisponibilidade no sync com Metabase.'',
           ''Testar a conexao, revisar token/base URL e consultar o runbook de sync do Metabase.'')
      else if source = ''airflow''
      then Inr (''airflow_disconnected'',
           ''Airflow indisponivel, sem autenticacao valida ou sem resposta do scheduler.'',
           ''Verificar saude do Airflow, credenciais e conectividade com o endpoint configurado.'')
      else if source = ''platform''
      then Inr (''platform_maintenance_failed'',
           ''Falha no ciclo de manutencao da plataforma, incluindo read models, automacoes ou limpeza operacional.'',
           ''Revisar scheduler da plataforma, worker dedicado, read models e logs do ciclo de manutencao.'')
      else if source = ''dq'' then
        (if contains_str ''profiling'' jtype
         then Inr (''dq_profiling_failed'',
           ''Falha no profiling DQ ou dependencia indisponivel durante o agendamento.'',
           ''Revisar scheduler de profiling, tabela alvo e logs do Spark/profiling.'')
         else Inr (''dq_spark_failed'',
           ''Falha no submit do Spark, indisponibilidade do cluster ou erro durante o scheduler DQ.'',
           ''Revisar worker/scheduler DQ, Spark submit, cluster e logs do job de qualidade.''))
      else Inr (''job_failed'',
           ''Falha operacional sem classificacao especifica para este modulo.'',
           ''Abrir historico, correlacionar com logs e revisar a dependencia externa mais proxima.''))"

definition diagnostic_impact :: "string \<Rightarrow> string \<Rightarrow> string \<Rightarrow> string" where
  "diagnostic_impact source status probable_cause_code =
     (if source = ''datasource'' then
        (if status = ''partial_success'' \<or> probable_cause_code = ''row_count_timeout''
         then ''Parte do catalogo da fonte pode ficar incompleta ou desatualizada.''
         else ''O catalogo da fonte e os sinais associados podem ficar desatualizados.'')
      else if source = ''s3'' then ''O inventario do Data Lake pode ficar incompleto ou atrasado.''
      else if source = ''dq'' then ''As regras e os incidentes de Data Quality podem atrasar a percepcao de risco.''
      else if source = ''metabase'' then ''A camada analitica pode exibir dados desatualizados ou incompletos.''
      else if source = ''airflow''
      then ''A leitura operacional de ingestao pode ficar cega ate a reconciliacao do scheduler.''
      else if source = ''platform'' then ''Read models, automacoes e limpeza operacional podem ficar defasados.''
      else ''A execucao operacional e os sinais associados podem ficar incompletos ou atrasados.'')"

definition base_payload ::
  "job_row \<Rightarrow> instant \<Rightarrow> int option \<Rightarrow> bool \<Rightarrow> string \<Rightarrow> string \<Rightarrow> string \<Rightarrow> string \<Rightarrow> string \<Rightarrow> string
    \<Rightarrow> bool \<Rightarrow> int option \<Rightarrow> diagnosis res" where
  "base_payload job current_time duration overdue status_value severity label description impact action
      stalled recurrence_count =
     res_bind (infer_probable_cause job status_value duration) (\<lambda>(code, cse, probable_action).
       let source = norm_token (Some (job_source job)) in
       Inr \<lparr>diag_status = status_value, diag_severity = severity, diag_label = label,
            diag_description = description, diag_impact = impact,
            diag_recommended_action = or_else action probable_action,
            diag_module = diagnostic_module source, diag_probable_cause = cse,
            diag_probable_cause_code = code, diag_runbook_url = runbook_path source status_value code,
            diag_correlation_id = job_correlation_id job, diag_generated_at = current_time,
            diag_recurrence_count = recurrence_count, diag_is_stalled = stalled,
            diag_is_overdue_next_run = overdue, diag_running_duration_seconds = duration\<rparr>)"

definition running_duration :: "job_row \<Rightarrow> instant \<Rightarrow> int option" where
  "running_duration job now =
     (case job_started_at job of None \<Rightarrow> None
      | Some s \<Rightarrow> (let r = (case job_finished_at job of None \<Rightarrow> now | Some f \<Rightarrow> f) in
          Some (max ((r - s) div 1000000) 0)))"

definition overdue_next_run :: "job_row \<Rightarrow> instant \<Rightarrow> int \<Rightarrow> bool" where
  "overdue_next_run job now next_expected_delay_minutes =
     (case job_next_expected_run_at job of None \<Rightarrow> False
      | Some e \<Rightarrow> max ((now - e) div 1000000) 0 \<ge> max next_expected_delay_minutes 1 * 60)"

definition at_least :: "int option \<Rightarrow> int \<Rightarrow> bool" where
  "at_least d n = (case d of None \<Rightarrow> False | Some v \<Rightarrow> v \<ge> n)"

definition diagnose_integration_job ::
  "job_row \<Rightarrow> instant \<Rightarrow> int \<Rightarrow> int \<Rightarrow> int \<Rightarrow> int option \<Rightarrow> diagnosis res" where
  "diagnose_integration_job job now attention_minutes critical_hours next_expected_delay_minutes recurrence_count =
     (let source = norm_token (Some (job_source job));
          status = norm_token (Some (job_status job));
          duration = running_duration job now;
          overdue = overdue_next_run job now next_expected_delay_minutes;
          attention_seconds = max attention_minutes 1 * 60;
          critical_seconds = max critical_hours 1 * 3600
      in
      if status \<in> {''failed'', ''failure'', ''error''} then
        (base_payload job now duration False ''critical'' ''critical'' ''Falha''
           ''A ultima execucao falhou e precisa de triagem tecnica.''
           (diagnostic_impact source ''failed'' ''job_failed'')
           ''Abrir historico, revisar logs e corrigir a causa raiz.''
           False recurrence_count)
      else if status = ''partial_success'' then
        (base_payload job now duration False ''partial_success'' ''warning'' ''Sucesso parcial''
           ''A execucao concluiu parcialmente e deixou sinais de degradacao operacional.''
           (diagnostic_impact source ''partial_success'' ''partial_scan'')
           ''Revisar itens parciais, identificar a etapa degradada e reexecutar se necessario.''
           False recurrence_count)
      else if status \<in> {''success'', ''succeeded'', ''completed'', ''ok''} then
        (if overdue then
          (base_payload job now duration True ''overdue_next_run'' ''warning'' ''Execucao prevista atrasada''
           ''A proxima execucao registrada esta no passado. Verifique o agendamento e os locks.''
           (diagnostic_impact source ''success'' ''overdue_next_run'')
           ''Revisar scheduler, heartbeat e proxima previsao.''
           False recurrence_count)
        else base_payload job now duration False ''healthy'' ''healthy'' ''Saudavel''
           ''Execucao saudavel na ultima leitura disponivel.''
           (diagnostic_impact source ''success'' ''healthy'')
           ''Manter monitoramento.''
           False recurrence_count)
      else if status \<in> {''skipped'', ''ignored'', ''ignore''} then
        (base_payload job now duration overdue ''unknown'' ''info'' ''Ignorado''
           ''A execucao foi ignorada ou marcada como ignorada.''
           (diagnostic_impact source ''skipped'' ''ignored'')
           ''Revisar se a execucao era esperada.''
           False recurrence_count)
      else if status = ''running'' then
        (if at_least duration critical_seconds then
          (base_payload job now duration overdue ''stalled'' ''critical'' (format_duration_label (the duration))
           ''Este job esta em execucao ha muito tempo e merece revisao imediata.''
           (diagnostic_impact source ''running'' ''stalled_execution'')
           ''Revisar scheduler, locks e tentativa de encerramento seguro.''
           True recurrence_count)
        else if overdue then
          (base_payload job now duration True ''overdue_next_run'' ''warning'' ''Execucao prevista atrasada''
           ''A proxima execucao esperada esta no passado ou nao foi recalculada a tempo.''
           (diagnostic_impact source ''running'' ''overdue_next_run'')
           ''Verificar scheduler, lock e heartbeat da execucao.''
           False recurrence_count)
        else if at_least duration attention_seconds then
          (base_payload job now duration False ''attention'' ''warning'' ''Possivelmente travado''
           ''Este job esta em execucao ha mais tempo do que o habitual.''
           (diagnostic_impact source ''running'' ''long_running_execution'')
           ''Validar scheduler, checkpoint e ultima atualizacao.''
           False recurrence_count)
        else base_payload job now duration overdue ''running'' ''info'' ''Em execucao''
           ''Execucao ativa dentro da janela esperada.''
           (diagnostic_impact source ''running'' ''running'')
           ''Acompanhar conclusao.''
           False recurrence_count)
      else if overdue then
        (base_payload job now duration True ''overdue_next_run'' ''warning'' ''Execucao prevista atrasada''
           ''A proxima execucao registrada esta atrasada. Verifique o agendamento.''
           (diagnostic_impact source ''success'' ''overdue_next_run'')
           ''Revisar scheduler, locks e ultima atualizacao.''
           False recurrence_count)
      else base_payload job now duration False ''unknown'' ''info'' ''Sem diagnostico''
           ''Nao foi possivel derivar um diagnostico operacional para esta execucao.''
           (diagnostic_impact source status ''job_failed'')
           ''Abrir historico e validar o estado da automacao.''
           False recurrence_count)"

section \<open>What the diagnosis says\<close>

lemma base_payload_fields:
  assumes "base_payload job now duration overdue sv sev lab des imp act stalled rc = Inr d"
  shows "diag_status d = sv \<and> diag_severity d = sev \<and> diag_is_stalled d = stalled
    \<and> diag_is_overdue_next_run d = overdue
    \<and> (\<exists>cse act'. infer_probable_cause job sv duration = Inr (diag_probable_cause_code d, cse, act'))"
  using assms by (auto simp: base_payload_def res_bind_Inr_iff Let_def)

lemma infer_total: "sv \<noteq> ''partial_success'' \<Longrightarrow> \<exists>c. infer_probable_cause job sv duration = Inr c"
  by (auto simp: infer_probable_cause_def Let_def split: option.splits)

lemma base_payload_total:
  "sv \<noteq> ''partial_success'' \<Longrightarrow> \<exists>d. base_payload job now duration ov sv sev lab des imp act stl rc = Inr d"
  using infer_total [of sv job duration] by (auto simp: base_payload_def Let_def)

definition stalled_running :: "job_row \<Rightarrow> instant \<Rightarrow> int \<Rightarrow> bool" where
  "stalled_running job now critical_hours =
     (norm_token (Some (job_status job)) = ''running''
      \<and> at_least (running_duration job now) (max critical_hours 1 * 3600))"

lemma diagnose_running:
  assumes "norm_token (Some (job_status job)) = ''running''"
  shows "\<exists>d. diagnose_integration_job job now am ch dm rc = Inr d \<and> diag_is_stalled d = stalled_running job now ch
    \<and> (diag_is_stalled d \<longrightarrow> diag_status d = ''stalled'')"
proof -
  let ?du = "running_duration job now"
  have step: "\<exists>d. base_payload job now ?du ov sv sev lab des imp act stl rc = Inr d \<and> diag_is_stalled d = stl
      \<and> (diag_is_stalled d \<longrightarrow> diag_status d = ''stalled'')"
    if "sv \<noteq> ''partial_success''" "stl \<longrightarrow> sv = ''stalled''" for ov sv sev lab des imp act stl
    using base_payload_total [OF that(1), of job now ?du ov sev lab des imp act stl rc] that(2)
    by (auto dest: base_payload_fields)
  show ?thesis
  proof (cases "at_least ?du (max ch 1 * 3600)")
    case True
    with assms have "stalled_running job now ch" by (simp add: stalled_running_def)
    with True assms show ?thesis
      by (simp add: diagnose_integration_job_def Let_def) (rule step [where stl = True, simplified], simp_all)
  next
    case no: False
    with assms have ns: "\<not> stalled_running job now ch" by (simp add: stalled_running_def)
    show ?thesis
    proof (cases "overdue_next_run job now dm")
      case True
      with no ns assms show ?thesis
        by (simp add: diagnose_integration_job_def Let_def) (rule step [where stl = False, simplified], simp)
    next
      case False
      with no ns assms show ?thesis
        by (simp add: diagnose_integration_job_def Let_def)
          (intro conjI impI; rule step [where stl = False, simplified], simp)
    qed
  qed
qed

text \<open>A stalled job is never diagnosed as such in its probable cause: the cause is looked up under the
  derived status \<open>stalled\<close>, while the rule for stalled executions tests the derived status \<open>running\<close>, so it
  is the jobs well inside their window that are reported as running longer than expected.\<close>

theorem stalled_cause_unreachable:
  assumes "norm_token (Some (job_status job)) = ''running''"
    and "diagnose_integration_job job now am ch dm rc = Inr d"
  shows "(diag_is_stalled d \<longrightarrow> diag_probable_cause_code d \<notin> {''stalled_execution'', ''long_running_execution''})
    \<and> (diag_status d = ''running'' \<and> at_least (running_duration job now) 1 \<longrightarrow>
         diag_probable_cause_code d \<in> {''stalled_execution'', ''long_running_execution''})"
proof -
  have other: "c \<notin> {''stalled_execution'', ''long_running_execution''}"
    if "infer_probable_cause job sv du = Inr (c, x, y)" and "sv = ''stalled''" for sv du c x y
    using that by (auto simp: infer_probable_cause_def Let_def datasource_causes_def res_bind_Inr_iff
        split: option.splits if_splits)
  have long: "c \<in> {''stalled_execution'', ''long_running_execution''}"
    if "infer_probable_cause job ''running'' du = Inr (c, x, y)" "at_least du 1" for du c x y
    using that by (auto simp: infer_probable_cause_def Let_def at_least_def split: option.splits if_splits)
  from assms(2) obtain cse act' where c: "infer_probable_cause job (diag_status d) (running_duration job now)
      = Inr (diag_probable_cause_code d, cse, act')"
    using assms(1) unfolding diagnose_integration_job_def Let_def
    by (auto dest!: base_payload_fields split: if_splits)
  from diagnose_running [OF assms(1), of now am ch dm rc] assms(2)
  have "diag_is_stalled d \<longrightarrow> diag_status d = ''stalled''" by auto
  with c other long show ?thesis by metis
qed

definition sample_job :: job_row where
  "sample_job = \<lparr>job_id = 1, job_key = ''s3:scan'', job_source = ''s3'', job_type = ''scan'',
     job_target_type = None, job_target_id = None, job_target_name = None, job_trigger_mode = ''manual'',
     job_status = ''running'', job_queued_at = None, job_started_at = Some 0, job_finished_at = None,
     job_next_expected_run_at = None, job_records_processed = None, job_progress_pct = None,
     job_correlation_id = None, job_requested_by_user_id = None, job_error = None,
     job_context_json = None, job_payload_json = None, job_result_summary_json = None,
     job_artifact_public_id = None\<rparr>"

theorem stalled_cause_unreachable_witness:
  "\<exists>d. diagnose_integration_job sample_job (2 * 86400 * 1000000) 120 24 60 None = Inr d
     \<and> diag_probable_cause_code d \<noteq> ''stalled_execution''"
proof -
  have r: "norm_token (Some (job_status sample_job)) = ''running''" by code_simp
  from diagnose_running [OF r] obtain d where
    d: "diagnose_integration_job sample_job (2 * 86400 * 1000000) 120 24 60 None = Inr d"
    and st: "diag_is_stalled d = stalled_running sample_job (2 * 86400 * 1000000) 24" by blast
  have "stalled_running sample_job (2 * 86400 * 1000000) 24"
    unfolding stalled_running_def r by (simp add: running_duration_def sample_job_def at_least_def)
  with stalled_cause_unreachable [OF r d] st d show ?thesis by blast
qed

end
