(* ===== verification/Jobs.thy ===== *)
theory Jobs
  imports JobDiagnostics
begin

text \<open>
  The queue of integration jobs, \<open>features/platform/jobs.py\<close>: enqueueing with the one-active-job-per-key rule,
  claiming by the workers, reclaiming stalled jobs, finishing, and the second, lock based way of starting a
  job in the web process.

  The state is the job table, the next primary key, and the set of job keys whose in-process lock is held.
  Parameters (\<open>jobs_env\<close>): the thresholds of the governance settings, the next expected run of a job (read from
  the schedule tables), the ISO text of an instant.  Each operation takes one reading of the clock.
\<close>

record job_limits =
  lim_attention_minutes :: int
  lim_critical_hours :: int
  lim_next_expected_delay_minutes :: int

record jobs_env =
  je_limits :: job_limits
  je_expected :: "string \<Rightarrow> string \<Rightarrow> string option \<Rightarrow> int option \<Rightarrow> instant option"
  je_iso :: "instant \<Rightarrow> string"

record job_store =
  js_jobs :: "job_row list"
  js_next_id :: int
  js_held :: "string set"
  js_table_ready :: bool

section \<open>Keys\<close>

definition build_integration_job_key ::
  "string \<Rightarrow> string \<Rightarrow> string option \<Rightarrow> int option \<Rightarrow> string" where
  "build_integration_job_key source jtype target_type target_id =
     (let parts = [norm_token (Some source), norm_token (Some jtype)]
            @ (if str_true target_type then [norm_token target_type] else [])
            @ (case target_id of None \<Rightarrow> [] | Some i \<Rightarrow> [int_str i])
      in join_with '':'' (filter (\<lambda>p. p \<noteq> '''') parts))"

definition active_job_statuses :: "string list" where
  "active_job_statuses = [''queued'', ''running'']"

definition is_active :: "job_row \<Rightarrow> bool" where
  "is_active j = (job_status j \<in> set active_job_statuses)"

text \<open>Newest first: \<open>queued_at DESC NULLS LAST, started_at DESC NULLS LAST, id DESC\<close>.\<close>

definition newest_key :: "job_row \<Rightarrow> instant desc nulls_last \<times> instant desc nulls_last \<times> int desc" where
  "newest_key j = (NullsLast (map_option Desc (job_queued_at j)),
     NullsLast (map_option Desc (job_started_at j)), Desc (job_id j))"

definition oldest_key :: "job_row \<Rightarrow> instant nulls_last \<times> int" where
  "oldest_key j = (NullsLast (job_queued_at j), job_id j)"

definition latest_job_by_key :: "job_store \<Rightarrow> string \<Rightarrow> job_row option" where
  "latest_job_by_key st key = first_by newest_key (filter (\<lambda>j. job_key j = key) (js_jobs st))"

definition active_job :: "job_store \<Rightarrow> string \<Rightarrow> job_row option" where
  "active_job st key = first_by newest_key (filter (\<lambda>j. job_key j = key \<and> is_active j) (js_jobs st))"

definition update_job :: "job_row \<Rightarrow> job_store \<Rightarrow> job_store" where
  "update_job j st = st\<lparr>js_jobs := map (\<lambda>k. if job_id k = job_id j then j else k) (js_jobs st)\<rparr>"

definition insert_job :: "job_row \<Rightarrow> job_store \<Rightarrow> job_store" where
  "insert_job j st = st\<lparr>js_jobs := js_jobs st @ [j], js_next_id := js_next_id st + 1\<rparr>"

definition is_stalled_integration_job :: "jobs_env \<Rightarrow> instant \<Rightarrow> job_row \<Rightarrow> bool res" where
  "is_stalled_integration_job env now job =
     (let l = je_limits env in
      res_bind (diagnose_integration_job job now (lim_attention_minutes l) (lim_critical_hours l)
        (lim_next_expected_delay_minutes l) None) (\<lambda>d. Inr (diag_is_stalled d)))"

section \<open>Enqueueing\<close>

record enqueue_request =
  enq_job_key :: "string option"
  enq_source :: string
  enq_job_type :: string
  enq_target_type :: "string option"
  enq_target_id :: "int option"
  enq_target_name :: "string option"
  enq_trigger_mode :: string
  enq_requested_by_user_id :: "int option"
  enq_correlation_id :: "string option"
  enq_payload_json :: "py_value option"
  enq_context_json :: "py_value option"
  enq_artifact_public_id :: "string option"
  enq_replace_stalled :: bool

definition request_key :: "enqueue_request \<Rightarrow> string" where
  "request_key req = or_else (norm_token (enq_job_key req))
     (build_integration_job_key (enq_source req) (enq_job_type req) (enq_target_type req) (enq_target_id req))"

definition conflict_queued :: "'a res" where
  "conflict_queued = Inl (HTTPException 409 ''Ja existe uma execucao ativa ou enfileirada para este job.'')"

definition conflict_running :: "'a res" where
  "conflict_running = Inl (HTTPException 409 ''Ja existe uma execucao em andamento para este job.'')"

definition force_replaced :: "jobs_env \<Rightarrow> instant \<Rightarrow> job_row \<Rightarrow> (string \<times> py_value) list" where
  "force_replaced env now j = dict_update (job_context j)
     [(''force_replaced'', PBool True), (''force_replaced_at'', PStr (je_iso env now)),
      (''replacement_reason'', PStr ''stalled_running_job'')]"

definition replaced_by_queued :: "jobs_env \<Rightarrow> instant \<Rightarrow> job_row \<Rightarrow> job_row" where
  "replaced_by_queued env now j = j\<lparr>job_status := ''failed'', job_finished_at := Some now,
     job_error := Some ''Execucao substituida por nova solicitacao enfileirada apos ultrapassar o limite esperado.'',
     job_context_json := Some (PDict (dict_set ''replacement_mode'' (PStr ''queued_job'') (force_replaced env now j))),
     job_progress_pct := Some 100\<rparr>"

definition queued_row :: "jobs_env \<Rightarrow> instant \<Rightarrow> string \<Rightarrow> int \<Rightarrow> enqueue_request \<Rightarrow> job_row" where
  "queued_row env now uid new_id req =
     \<lparr>job_id = new_id, job_key = request_key req,
      job_source = norm_token (Some (enq_source req)), job_type = norm_token (Some (enq_job_type req)),
      job_target_type = or_none (norm_token (enq_target_type req)), job_target_id = enq_target_id req,
      job_target_name = enq_target_name req,
      job_trigger_mode = or_else (norm_token (Some (enq_trigger_mode req))) ''manual'',
      job_status = ''queued'', job_queued_at = Some now, job_started_at = Some now, job_finished_at = None,
      job_next_expected_run_at =
        je_expected env (enq_source req) (enq_job_type req) (enq_target_type req) (enq_target_id req),
      job_records_processed = None, job_progress_pct = Some 0,
      job_correlation_id = Some (take 120 (or_else (or_empty (enq_correlation_id req)) uid)),
      job_requested_by_user_id = enq_requested_by_user_id req, job_error = None,
      job_context_json = enq_context_json req, job_payload_json = enq_payload_json req,
      job_result_summary_json = None, job_artifact_public_id = enq_artifact_public_id req\<rparr>"

definition enqueue_integration_job ::
  "jobs_env \<Rightarrow> instant \<Rightarrow> string \<Rightarrow> enqueue_request \<Rightarrow> job_store \<Rightarrow> job_store \<times> job_row option res" where
  "enqueue_integration_job env now uid req st =
     (if \<not> js_table_ready st then (st, Inr None)
      else
        let add = (\<lambda>s. let row = queued_row env now uid (js_next_id s) req in (insert_job row s, Inr (Some row)))
        in (case active_job st (request_key req) of
              None \<Rightarrow> add st
            | Some act \<Rightarrow>
                (case (if enq_replace_stalled req \<and> job_status act = ''running''
                       then is_stalled_integration_job env now act else Inr False) of
                   Inl e \<Rightarrow> (st, Inl e)
                 | Inr can_replace \<Rightarrow>
                     if \<not> can_replace then (st, conflict_queued)
                     else add (update_job (replaced_by_queued env now act) st))))"

section \<open>Workers\<close>

definition job_filter :: "string option \<Rightarrow> string option \<Rightarrow> job_row \<Rightarrow> bool" where
  "job_filter source jtype j =
     ((str_true source \<longrightarrow> job_source j = norm_token source)
      \<and> (str_true jtype \<longrightarrow> job_type j = norm_token jtype))"

definition reclaimed_row :: "instant \<Rightarrow> job_row \<Rightarrow> job_row" where
  "reclaimed_row now j = j\<lparr>job_status := ''failed'', job_finished_at := Some now,
     job_error := Some ''reclaimed: stalled running job (worker crash/connection drop)'',
     job_progress_pct := Some 100\<rparr>"

definition reclaim_stalled_running_jobs ::
  "jobs_env \<Rightarrow> instant \<Rightarrow> string option \<Rightarrow> string option \<Rightarrow> job_store \<Rightarrow> job_store \<times> nat res" where
  "reclaim_stalled_running_jobs env now source jtype st =
     (if \<not> js_table_ready st then (st, Inr 0)
      else
        let candidates = filter (\<lambda>j. job_status j = ''running'' \<and> job_filter source jtype j) (js_jobs st) in
        (case res_map (\<lambda>j. res_bind (is_stalled_integration_job env now j) (\<lambda>b. Inr (b, j))) candidates of
           Inl e \<Rightarrow> (st, Inl e)
         | Inr verdicts \<Rightarrow>
             let stalled = map snd (filter fst verdicts) in
             (fold (\<lambda>j s. update_job (reclaimed_row now j) s) stalled st, Inr (length stalled))))"

definition claimed_row :: "instant \<Rightarrow> job_row \<Rightarrow> job_row" where
  "claimed_row now j = j\<lparr>job_status := ''running'', job_started_at := Some now, job_finished_at := None,
     job_error := None,
     job_progress_pct := Some (max (case job_progress_pct j of None \<Rightarrow> 0 | Some p \<Rightarrow> p) 1)\<rparr>"

text \<open>\<open>locked\<close> holds of the rows that other transactions have locked: on PostgreSQL the query skips them.\<close>

definition claim_queued_integration_job ::
  "(int \<Rightarrow> bool) \<Rightarrow> instant \<Rightarrow> string option \<Rightarrow> string option \<Rightarrow> job_store \<Rightarrow> job_store \<times> job_row option" where
  "claim_queued_integration_job locked now source jtype st =
     (if \<not> js_table_ready st then (st, None)
      else (case first_by oldest_key (filter (\<lambda>j. job_status j = ''queued'' \<and> job_filter source jtype j
                \<and> \<not> locked (job_id j)) (js_jobs st)) of
              None \<Rightarrow> (st, None)
            | Some j \<Rightarrow> (update_job (claimed_row now j) st, Some (claimed_row now j))))"

section \<open>Starting in the web process\<close>

record job_handle =
  handle_job_id :: int
  handle_job_key :: string
  handle_advisory_locked :: bool

record start_request =
  start_source :: string
  start_job_type :: string
  start_target_type :: "string option"
  start_target_id :: "int option"
  start_target_name :: "string option"
  start_trigger_mode :: string
  start_force_stale :: bool

definition latest_running :: "job_store \<Rightarrow> string \<Rightarrow> job_row option" where
  "latest_running st key = first_by (\<lambda>j. (NullsLast (map_option Desc (job_started_at j)), Desc (job_id j)))
     (filter (\<lambda>j. job_key j = key \<and> job_status j = ''running'') (js_jobs st))"

definition replaced_by_manual :: "jobs_env \<Rightarrow> instant \<Rightarrow> job_row \<Rightarrow> job_row" where
  "replaced_by_manual env now j = j\<lparr>job_status := ''failed'', job_finished_at := Some now,
     job_error := Some ''Execucao substituida por nova sync manual apos ultrapassar o limite esperado.'',
     job_context_json := Some (PDict (force_replaced env now j))\<rparr>"

definition started_row :: "jobs_env \<Rightarrow> instant \<Rightarrow> int \<Rightarrow> string \<Rightarrow> start_request \<Rightarrow> job_row" where
  "started_row env now new_id key req =
     \<lparr>job_id = new_id, job_key = key,
      job_source = norm_token (Some (start_source req)), job_type = norm_token (Some (start_job_type req)),
      job_target_type = or_none (norm_token (start_target_type req)), job_target_id = start_target_id req,
      job_target_name = start_target_name req,
      job_trigger_mode = or_else (norm_token (Some (start_trigger_mode req))) ''manual'',
      job_status = ''running'', job_queued_at = None, job_started_at = Some now, job_finished_at = None,
      job_next_expected_run_at =
        je_expected env (start_source req) (start_job_type req) (start_target_type req) (start_target_id req),
      job_records_processed = None, job_progress_pct = None, job_correlation_id = None,
      job_requested_by_user_id = None, job_error = None, job_context_json = None, job_payload_json = None,
      job_result_summary_json = None, job_artifact_public_id = None\<rparr>"

text \<open>Stalled, as far as replacing is concerned: there is a running job and the diagnosis says so.\<close>

definition stalled_verdict :: "jobs_env \<Rightarrow> instant \<Rightarrow> job_row option \<Rightarrow> bool res" where
  "stalled_verdict env now j =
     (case j of None \<Rightarrow> Inr False | Some r \<Rightarrow> is_stalled_integration_job env now r)"

definition start_row ::
  "jobs_env \<Rightarrow> instant \<Rightarrow> bool \<Rightarrow> string \<Rightarrow> start_request \<Rightarrow> job_store \<Rightarrow> job_store \<times> job_handle option res" where
  "start_row env now advisory key req st =
     (let row = started_row env now (js_next_id st) key req in
      (insert_job row st,
       Inr (Some \<lparr>handle_job_id = job_id row, handle_job_key = key, handle_advisory_locked = advisory\<rparr>)))"

definition maybe_start_integration_job ::
  "jobs_env \<Rightarrow> instant \<Rightarrow> bool \<Rightarrow> start_request \<Rightarrow> job_store \<Rightarrow> job_store \<times> job_handle option res" where
  "maybe_start_integration_job env now advisory req st =
     (if \<not> js_table_ready st then (st, Inr None)
      else
        let key = build_integration_job_key (start_source req) (start_job_type req)
                    (start_target_type req) (start_target_id req);
            acquired = st\<lparr>js_held := insert key (js_held st)\<rparr>;
            released = st\<lparr>js_held := js_held st - {key}\<rparr>;
            go = (case latest_running acquired key of
                    None \<Rightarrow> start_row env now advisory key req acquired
                  | Some r \<Rightarrow>
                      (case (if start_force_stale req then is_stalled_integration_job env now r else Inr False) of
                         Inl e \<Rightarrow> (acquired, Inl e)
                       | Inr replace \<Rightarrow>
                           if \<not> replace then (released, conflict_running)
                           else start_row env now advisory key req
                                  (update_job (replaced_by_manual env now r) acquired)))
        in
        if key \<in> js_held st then
          (if \<not> start_force_stale req then (st, conflict_running)
           else (case stalled_verdict env now (latest_running st key) of
                   Inl e \<Rightarrow> (st, Inl e)
                 | Inr stalled \<Rightarrow> if \<not> stalled then (st, conflict_running) else go))
        else go)"

section \<open>Finishing\<close>

record finish_request =
  fin_status :: string
  fin_records_processed :: "int option"
  fin_error :: "string option"
  fin_context_json :: "py_value option"
  fin_result_summary_json :: "py_value option"
  fin_progress_pct :: "rat option"
  fin_next_expected_run_at :: "instant option"

definition finished_row :: "instant \<Rightarrow> finish_request \<Rightarrow> job_row \<Rightarrow> job_row" where
  "finished_row now fin j = j\<lparr>job_status := fin_status fin, job_finished_at := Some now,
     job_records_processed := fin_records_processed fin,
     job_error := (if str_true (fin_error fin) then Some (take 4000 (or_empty (fin_error fin))) else None),
     job_context_json := (case fin_context_json fin of None \<Rightarrow> job_context_json j | Some c \<Rightarrow> Some c),
     job_next_expected_run_at := (case fin_next_expected_run_at fin of
        None \<Rightarrow> job_next_expected_run_at j | Some n \<Rightarrow> Some n)\<rparr>"

definition ending_statuses :: "string list" where
  "ending_statuses = [''success'', ''partial_success'', ''failed'', ''cancelled'', ''skipped'']"

definition finished_record_row :: "instant \<Rightarrow> finish_request \<Rightarrow> job_row \<Rightarrow> job_row" where
  "finished_record_row now fin j = (finished_row now fin j)
     \<lparr>job_result_summary_json := (case fin_result_summary_json fin of
        None \<Rightarrow> job_result_summary_json j | Some s \<Rightarrow> Some s),
      job_progress_pct := (case fin_progress_pct fin of Some p \<Rightarrow> Some p
        | None \<Rightarrow> if fin_status fin \<in> set ending_statuses then Some 100 else job_progress_pct j)\<rparr>"

definition job_by_id :: "job_store \<Rightarrow> int \<Rightarrow> job_row option" where
  "job_by_id st i = List.find (\<lambda>j. job_id j = i) (js_jobs st)"

definition finish_integration_job_record ::
  "instant \<Rightarrow> finish_request \<Rightarrow> int option \<Rightarrow> job_store \<Rightarrow> job_store \<times> job_row option res" where
  "finish_integration_job_record now fin job st =
     (case Option.bind job (job_by_id st) of
        None \<Rightarrow> (st, Inr None)
      | Some j \<Rightarrow>
          let row = finished_record_row now fin j in
          (update_job row st,
           res_bind (diagnose_integration_job row now 120 24 60 None) (\<lambda>_. Inr (Some row))))"

text \<open>The lock is released whatever happens; releasing a lock that nobody holds raises.\<close>

definition release_thread_lock :: "string \<Rightarrow> job_store \<Rightarrow> job_store \<times> unit res" where
  "release_thread_lock key st =
     (if key \<in> js_held st then (st\<lparr>js_held := js_held st - {key}\<rparr>, Inr ())
      else (st, Inl (RuntimeError ''release unlocked lock'')))"

definition finish_integration_job ::
  "instant \<Rightarrow> finish_request \<Rightarrow> job_handle option \<Rightarrow> job_store \<Rightarrow> job_store \<times> job_row option res" where
  "finish_integration_job now fin handle st =
     (case handle of
        None \<Rightarrow> (st, Inr None)
      | Some h \<Rightarrow>
          let outcome = (case job_by_id st (handle_job_id h) of
                None \<Rightarrow> (st, Inr None)
              | Some j \<Rightarrow>
                  let row = finished_row now fin j in
                  (update_job row st,
                   res_bind (diagnose_integration_job row now 120 24 60 None) (\<lambda>_. Inr (Some row))))
          in (case release_thread_lock (handle_job_key h) (fst outcome) of
                (st', Inl e) \<Rightarrow> (st', Inl e)
              | (st', Inr _) \<Rightarrow> (st', snd outcome)))"

section \<open>Reading the queue\<close>

text \<open>\<open>_latest_jobs_stmt\<close>: of every key the newest of the selected jobs, newest first.\<close>

definition jobs_selected :: "string option \<Rightarrow> string option \<Rightarrow> string option \<Rightarrow> job_store \<Rightarrow> job_row list" where
  "jobs_selected source jtype status st =
     filter (\<lambda>j. job_filter source jtype j \<and> (str_true status \<longrightarrow> job_status j = norm_token status)) (js_jobs st)"

definition latest_jobs :: "string option \<Rightarrow> string option \<Rightarrow> string option \<Rightarrow> job_store \<Rightarrow> job_row list" where
  "latest_jobs source jtype status st =
     (let js = jobs_selected source jtype status st in
      sort_key newest_key (filter (\<lambda>j. list_all (\<lambda>k. job_key k = job_key j \<longrightarrow> newest_key j \<le> newest_key k) js) js))"

record jobs_snapshot =
  snap_total :: nat
  snap_queued :: nat
  snap_running :: nat
  snap_success :: nat
  snap_partial_success :: nat
  snap_failed :: nat
  snap_skipped :: nat
  snap_next_expected_run_at :: "instant option"

definition count_status :: "string \<Rightarrow> job_row list \<Rightarrow> nat" where
  "count_status s js = length (filter (\<lambda>j. job_status j = s) js)"

definition min_option :: "int list \<Rightarrow> int option" where
  "min_option xs = (case xs of [] \<Rightarrow> None | y # ys \<Rightarrow> Some (fold min ys y))"

definition integration_jobs_status_snapshot :: "int \<Rightarrow> job_store \<Rightarrow> jobs_snapshot" where
  "integration_jobs_status_snapshot limit st =
     (if \<not> js_table_ready st
      then \<lparr>snap_total = 0, snap_queued = 0, snap_running = 0, snap_success = 0, snap_partial_success = 0,
            snap_failed = 0, snap_skipped = 0, snap_next_expected_run_at = None\<rparr>
      else
        let js = take (nat (max (if limit = 0 then 12 else limit) 1)) (latest_jobs None None None st) in
        \<lparr>snap_total = length js, snap_queued = count_status ''queued'' js,
         snap_running = count_status ''running'' js, snap_success = count_status ''success'' js,
         snap_partial_success = count_status ''partial_success'' js, snap_failed = count_status ''failed'' js,
         snap_skipped = count_status ''skipped'' js,
         snap_next_expected_run_at = min_option (List.map_filter job_next_expected_run_at js)\<rparr>)"

definition recurrence_lookback_days :: int where
  "recurrence_lookback_days = 30"

definition recent_job_recurrence_count :: "instant \<Rightarrow> job_row \<Rightarrow> job_store \<Rightarrow> nat option" where
  "recent_job_recurrence_count now job st =
     (if job_status job \<notin> {''failed'', ''partial_success''} then None
      else Some (length (filter (\<lambda>j. job_key j = job_key job \<and> job_status j = job_status job
          \<and> (case job_finished_at j of None \<Rightarrow> False
             | Some f \<Rightarrow> f \<ge> now - recurrence_lookback_days * 86400 * 1000000)) (js_jobs st))))"

section \<open>One active job per key\<close>

definition queue_ok :: "job_store \<Rightarrow> bool" where
  "queue_ok st =
     (distinct (map job_id (js_jobs st))
      \<and> list_all (\<lambda>j. job_id j < js_next_id st) (js_jobs st)
      \<and> distinct (map job_key (filter is_active (js_jobs st))))"

lemma distinct_keys_map:
  assumes "distinct (map job_key (filter is_active js))"
    and "\<And>j. j \<in> set js \<Longrightarrow> job_key (f j) = job_key j \<and> (is_active (f j) \<longrightarrow> is_active j)"
  shows "distinct (map job_key (filter is_active (map f js)))"
  using assms
proof (induction js)
  case (Cons j js)
  have "job_key ` set (filter is_active (map f js)) \<subseteq> job_key ` set (filter is_active js)"
    using Cons.prems(2) by fastforce
  with Cons show ?case by (auto split: if_splits)
qed simp

lemma update_job_fields [simp]:
  "js_next_id (update_job j st) = js_next_id st" "js_held (update_job j st) = js_held st"
  "js_table_ready (update_job j st) = js_table_ready st"
  by (simp_all add: update_job_def)

lemma map_job_id_update [simp]: "map job_id (js_jobs (update_job j st)) = map job_id (js_jobs st)"
  by (auto simp: update_job_def)

lemma distinct_ids_eq:
  "distinct (map job_id js) \<Longrightarrow> j \<in> set js \<Longrightarrow> k \<in> set js \<Longrightarrow> job_id j = job_id k \<Longrightarrow> j = k"
  by (auto simp: distinct_map inj_on_def)

lemma queue_ok_update:
  assumes ok: "queue_ok st" and "j \<in> set (js_jobs st)" and "job_id j' = job_id j" and "job_key j' = job_key j"
    and "is_active j' \<longrightarrow> is_active j"
  shows "queue_ok (update_job j' st)"
proof -
  have same: "k = j" if "k \<in> set (js_jobs st)" "job_id k = job_id j" for k
    using that ok assms(2) by (auto simp: queue_ok_def dest: distinct_ids_eq)
  have "distinct (map job_key (filter is_active (js_jobs (update_job j' st))))"
    unfolding update_job_def using ok same assms(3-5)
    by (simp add: queue_ok_def, intro distinct_keys_map) (auto dest: same)
  moreover have "list_all (\<lambda>k. job_id k < js_next_id st) (js_jobs (update_job j' st))"
    using ok assms(2,3) by (auto simp: queue_ok_def update_job_def list_all_iff)
  ultimately show ?thesis using ok by (simp add: queue_ok_def)
qed

lemma queue_ok_insert:
  assumes "queue_ok st" and "job_id j = js_next_id st" and "is_active j"
    and "\<forall>k\<in>set (js_jobs st). job_key k = job_key j \<longrightarrow> \<not> is_active k"
  shows "queue_ok (insert_job j st)"
  using assms by (auto simp: queue_ok_def insert_job_def list_all_iff)

lemma active_job_None: "active_job st key = None \<longleftrightarrow> (\<forall>k\<in>set (js_jobs st). job_key k = key \<longrightarrow> \<not> is_active k)"
  by (auto simp: active_job_def filter_empty_conv)

lemma active_job_Some:
  "active_job st key = Some j \<Longrightarrow> j \<in> set (js_jobs st) \<and> job_key j = key \<and> is_active j"
  by (auto simp: active_job_def dest: first_by_in)

lemma active_unique:
  assumes "queue_ok st" and "j \<in> set (js_jobs st)" and "k \<in> set (js_jobs st)"
    and "is_active j" and "is_active k" and "job_key j = job_key k"
  shows "j = k"
proof -
  have "inj_on job_key (set (filter is_active (js_jobs st)))"
    using assms(1) by (auto simp: queue_ok_def distinct_map)
  with assms(2-6) show ?thesis by (auto simp: inj_on_def)
qed

lemma replaced_inactive:
  assumes "queue_ok st" and "active_job st key = Some j" and "job_id j' = job_id j" and "\<not> is_active j'"
  shows "active_job (update_job j' st) key = None"
proof -
  from active_job_Some [OF assms(2)] have j: "j \<in> set (js_jobs st)" "job_key j = key" "is_active j" by auto
  have "\<not> is_active m" if m: "m \<in> set (js_jobs st)" "job_id m \<noteq> job_id j" "job_key m = key" for m
  proof
    assume "is_active m"
    with m j have "j = m" by (intro active_unique [OF assms(1)]) auto
    with m show False by simp
  qed
  with assms(3,4) show ?thesis unfolding active_job_None by (auto simp: update_job_def)
qed

lemma queued_row_fields [simp]:
  "job_id (queued_row env now uid i req) = i" "job_key (queued_row env now uid i req) = request_key req"
  "is_active (queued_row env now uid i req)" "job_status (queued_row env now uid i req) = ''queued''"
  by (simp_all add: queued_row_def is_active_def active_job_statuses_def)

lemma inactive_failed [simp]: "job_status j = ''failed'' \<Longrightarrow> \<not> is_active j"
  by (simp add: is_active_def active_job_statuses_def)

lemma queue_ok_enqueue: "queue_ok st \<Longrightarrow> queue_ok (fst (enqueue_integration_job env now uid req st))"
proof -
  assume ok: "queue_ok st"
  show ?thesis
  proof (cases "active_job st (request_key req)")
    case None
    then have "queue_ok (insert_job (queued_row env now uid (js_next_id st) req) st)"
      by (intro queue_ok_insert [OF ok]) (simp_all add: active_job_None)
    with ok None show ?thesis by (simp add: enqueue_integration_job_def Let_def)
  next
    case (Some act)
    let ?s = "update_job (replaced_by_queued env now act) st"
    from active_job_Some [OF Some] have act: "act \<in> set (js_jobs st)" "is_active act" by auto
    have "queue_ok ?s"
      by (rule queue_ok_update [OF ok act(1)]) (simp_all add: replaced_by_queued_def)
    moreover have "active_job ?s (request_key req) = None"
      by (rule replaced_inactive [OF ok Some]) (simp_all add: replaced_by_queued_def)
    ultimately have "queue_ok (insert_job (queued_row env now uid (js_next_id ?s) req) ?s)"
      by (intro queue_ok_insert) (auto simp: active_job_None)
    with ok Some show ?thesis
      by (auto simp: enqueue_integration_job_def Let_def split: sum.split)
  qed
qed

lemma queue_ok_claim: "queue_ok st \<Longrightarrow> queue_ok (fst (claim_queued_integration_job locked now src jt st))"
  by (auto simp: claim_queued_integration_job_def claimed_row_def is_active_def active_job_statuses_def
      split: option.split dest!: first_by_in intro!: queue_ok_update)

lemma stalled_total:
  assumes "job_status j = ''running''"
  shows "is_stalled_integration_job env now j = Inr (stalled_running j now (lim_critical_hours (je_limits env)))"
proof -
  have "norm_token (Some (job_status j)) = ''running''" unfolding assms by code_simp
  from diagnose_running [OF this, of now "lim_attention_minutes (je_limits env)"
      "lim_critical_hours (je_limits env)" "lim_next_expected_delay_minutes (je_limits env)" None]
  obtain d where "diagnose_integration_job j now (lim_attention_minutes (je_limits env))
      (lim_critical_hours (je_limits env)) (lim_next_expected_delay_minutes (je_limits env)) None = Inr d"
    "diag_is_stalled d = stalled_running j now (lim_critical_hours (je_limits env))" by blast
  then show ?thesis by (simp add: is_stalled_integration_job_def Let_def)
qed

section \<open>Reclaiming\<close>

lemma verdicts:
  assumes "\<forall>j\<in>set js. job_status j = ''running''"
  shows "res_map (\<lambda>j. res_bind (is_stalled_integration_job env now j) (\<lambda>b. Inr (b, j))) js
    = Inr (map (\<lambda>j. (stalled_running j now (lim_critical_hours (je_limits env)), j)) js)"
  using assms by (intro res_map_all_Inr) (simp add: stalled_total)

lemma reclaimed_row_id [simp]: "job_id (reclaimed_row now j) = job_id j" "job_key (reclaimed_row now j) = job_key j"
  "job_status (reclaimed_row now j) = ''failed''"
  by (simp_all add: reclaimed_row_def)

lemma fold_reclaim_jobs:
  "js_jobs (fold (\<lambda>j s. update_job (reclaimed_row now j) s) js st)
     = fold (\<lambda>j. map (\<lambda>k. if job_id k = job_id j then reclaimed_row now j else k)) js (js_jobs st)"
  by (induction js arbitrary: st) (simp_all add: update_job_def)

lemma fold_map_if:
  assumes "distinct (map job_id xs)" and "set js \<subseteq> set xs"
    and "distinct (map job_id js)"
  shows "fold (\<lambda>j. map (\<lambda>k. if job_id k = job_id j then reclaimed_row now j else k)) js xs
    = map (\<lambda>k. if k \<in> set js then reclaimed_row now k else k) xs"
proof -
  have "fold (\<lambda>j. map (\<lambda>k. if job_id k = job_id j then reclaimed_row now j else k)) js ys
      = map (\<lambda>k. case List.find (\<lambda>j. job_id j = job_id k) js of None \<Rightarrow> k | Some j \<Rightarrow> reclaimed_row now j) ys"
    if "distinct (map job_id js)" for ys
    using that
  proof (induction js arbitrary: ys)
    case (Cons j js)
    have none: "List.find (\<lambda>i. job_id i = job_id (reclaimed_row now j)) js = None"
      using Cons.prems by (auto simp: find_None_iff image_iff)
    show ?case
      using Cons none by (auto split: option.splits)
  qed simp
  moreover have "(case List.find (\<lambda>j. job_id j = job_id k) js of None \<Rightarrow> k | Some j \<Rightarrow> reclaimed_row now j)
      = (if k \<in> set js then reclaimed_row now k else k)" if "k \<in> set xs" for k
  proof (cases "List.find (\<lambda>j. job_id j = job_id k) js")
    case None
    then have "k \<notin> set js" by (auto simp: find_None_iff)
    with None show ?thesis by simp
  next
    case (Some j)
    then have "j \<in> set js" "job_id j = job_id k" by (auto simp: find_Some_iff)
    with assms that have "j = k" by (auto dest: distinct_ids_eq)
    with Some \<open>j \<in> set js\<close> show ?thesis by simp
  qed
  ultimately show ?thesis using assms(3) by simp
qed

definition reclaimable :: "jobs_env \<Rightarrow> instant \<Rightarrow> string option \<Rightarrow> string option \<Rightarrow> job_row \<Rightarrow> bool" where
  "reclaimable env now source jtype j =
     (job_status j = ''running'' \<and> job_filter source jtype j
      \<and> stalled_running j now (lim_critical_hours (je_limits env)))"

lemma reclaim_unfold:
  assumes "js_table_ready st"
  shows "reclaim_stalled_running_jobs env now source jtype st =
    (fold (\<lambda>j s. update_job (reclaimed_row now j) s) (filter (reclaimable env now source jtype) (js_jobs st)) st,
     Inr (length (filter (reclaimable env now source jtype) (js_jobs st))))"
proof -
  let ?c = "filter (\<lambda>j. job_status j = ''running'' \<and> job_filter source jtype j) (js_jobs st)"
  have "map snd (filter fst (map (\<lambda>j. (stalled_running j now (lim_critical_hours (je_limits env)), j)) ?c))
      = filter (reclaimable env now source jtype) (js_jobs st)"
    by (simp add: filter_map comp_def) (rule filter_cong, auto simp: reclaimable_def)
  with assms verdicts [of ?c env now] show ?thesis
    by (simp add: reclaim_stalled_running_jobs_def Let_def)
qed

lemma reclaim_jobs:
  assumes "queue_ok st" and "js_table_ready st"
  shows "js_jobs (fst (reclaim_stalled_running_jobs env now source jtype st))
    = map (\<lambda>j. if reclaimable env now source jtype j then reclaimed_row now j else j) (js_jobs st)"
proof -
  let ?r = "reclaimable env now source jtype" and ?js = "js_jobs st"
  have d: "distinct (map job_id ?js)" using assms(1) by (simp add: queue_ok_def)
  then have "distinct (map job_id (filter ?r ?js))" by (rule distinct_map_filter)
  then have "js_jobs (fold (\<lambda>j s. update_job (reclaimed_row now j) s) (filter ?r ?js) st)
      = map (\<lambda>k. if k \<in> set (filter ?r ?js) then reclaimed_row now k else k) ?js"
    unfolding fold_reclaim_jobs by (intro fold_map_if [OF d]) auto
  also have "\<dots> = map (\<lambda>j. if ?r j then reclaimed_row now j else j) ?js" by simp
  finally show ?thesis using reclaim_unfold [OF assms(2)] by simp
qed

lemma reclaim_next_id:
  "js_next_id (fst (reclaim_stalled_running_jobs env now source jtype st)) = js_next_id st"
proof -
  have "js_next_id (fold (\<lambda>j s. update_job (reclaimed_row now j) s) js s) = js_next_id s" for js s
    by (induction js arbitrary: s) simp_all
  then show ?thesis by (auto simp: reclaim_stalled_running_jobs_def Let_def split: sum.split)
qed

lemma queue_ok_reclaim:
  assumes "queue_ok st" shows "queue_ok (fst (reclaim_stalled_running_jobs env now source jtype st))"
proof (cases "js_table_ready st")
  case True
  let ?f = "\<lambda>j. if reclaimable env now source jtype j then reclaimed_row now j else j"
  have ids: "map job_id (map ?f (js_jobs st)) = map job_id (js_jobs st)" by simp
  have "distinct (map job_id (map ?f (js_jobs st)))" unfolding ids using assms by (simp add: queue_ok_def)
  moreover have "distinct (map job_key (filter is_active (map ?f (js_jobs st))))"
    using assms by (intro distinct_keys_map) (auto simp: queue_ok_def)
  moreover have "list_all (\<lambda>j. job_id j < js_next_id st) (map ?f (js_jobs st))"
    using assms by (auto simp: queue_ok_def list_all_iff)
  ultimately show ?thesis
    unfolding queue_ok_def reclaim_jobs [OF assms True] reclaim_next_id by (intro conjI)
next
  case False
  with assms show ?thesis by (simp add: reclaim_stalled_running_jobs_def)
qed

text \<open>Reclaiming is exact: it fails the running jobs of the selection that have run for the critical time or
  longer, all of them and no other row, reports their number, never raises, and what it leaves running is
  not stalled.\<close>

theorem reclaim_exact:
  assumes "queue_ok st" and "js_table_ready st"
  shows "\<exists>st'. reclaim_stalled_running_jobs env now source jtype st
      = (st', Inr (length (filter (reclaimable env now source jtype) (js_jobs st))))
    \<and> js_jobs st' = map (\<lambda>j. if reclaimable env now source jtype j then reclaimed_row now j else j) (js_jobs st)
    \<and> filter (reclaimable env now source jtype) (js_jobs st') = []"
proof -
  have "filter (reclaimable env now source jtype) (js_jobs (fst (reclaim_stalled_running_jobs env now source jtype st))) = []"
    unfolding reclaim_jobs [OF assms] by (auto simp: filter_empty_conv reclaimable_def)
  moreover have "reclaim_stalled_running_jobs env now source jtype st
      = (fst (reclaim_stalled_running_jobs env now source jtype st),
         Inr (length (filter (reclaimable env now source jtype) (js_jobs st))))"
    by (simp add: reclaim_unfold [OF assms(2)])
  ultimately show ?thesis using reclaim_jobs [OF assms] by blast
qed

definition demo_jobs_env :: jobs_env where
  "demo_jobs_env = \<lparr>je_limits = \<lparr>lim_attention_minutes = 120, lim_critical_hours = 24,
     lim_next_expected_delay_minutes = 60\<rparr>, je_expected = (\<lambda>_ _ _ _. None), je_iso = (\<lambda>_. ''2025-01-01T00:00:00+00:00'')\<rparr>"

definition demo_store :: "job_row list \<Rightarrow> job_store" where
  "demo_store js = \<lparr>js_jobs = js, js_next_id = 10, js_held = {}, js_table_ready = True\<rparr>"

theorem reclaim_exact_witness:
  "\<exists>st'. reclaim_stalled_running_jobs demo_jobs_env (3 * 86400 * 1000000) None None (demo_store [sample_job]) = (st', Inr 1)"
proof -
  have ok: "queue_ok (demo_store [sample_job])" "js_table_ready (demo_store [sample_job])"
    by (simp_all add: queue_ok_def demo_store_def sample_job_def is_active_def active_job_statuses_def)
  have "norm_token (Some ''running'') = ''running''" by code_simp
  then have "reclaimable demo_jobs_env (3 * 86400 * 1000000) None None sample_job"
    by (simp add: reclaimable_def sample_job_def job_filter_def str_true_def stalled_running_def
        running_duration_def at_least_def demo_jobs_env_def)
  with reclaim_exact [OF ok, of demo_jobs_env "3 * 86400 * 1000000" None None] show ?thesis
    by (auto simp: demo_store_def)
qed

section \<open>Histories of the queue\<close>

datatype queue_event =
    Enqueue instant string enqueue_request
  | Claim "int list" instant "string option" "string option"
  | Reclaim instant "string option" "string option"
  | Finish instant finish_request int

fun queue_step :: "jobs_env \<Rightarrow> job_store \<Rightarrow> queue_event \<Rightarrow> job_store" where
  "queue_step env st (Enqueue now uid req) = fst (enqueue_integration_job env now uid req st)"
| "queue_step env st (Claim locked now src jt) =
     fst (claim_queued_integration_job (\<lambda>i. i \<in> set locked) now src jt st)"
| "queue_step env st (Reclaim now src jt) = fst (reclaim_stalled_running_jobs env now src jt st)"
| "queue_step env st (Finish now fin i) =
     (if fin_status fin \<in> set ending_statuses
      then fst (finish_integration_job_record now fin (Some i) st) else st)"

lemma finished_record_row_fields [simp]:
  "job_id (finished_record_row now fin j) = job_id j" "job_key (finished_record_row now fin j) = job_key j"
  "job_status (finished_record_row now fin j) = fin_status fin"
  by (simp_all add: finished_record_row_def finished_row_def)

lemma finished_inactive:
  "fin_status fin \<in> set ending_statuses \<Longrightarrow> \<not> is_active (finished_record_row now fin j)"
  by (auto simp: is_active_def active_job_statuses_def ending_statuses_def)

lemma queue_ok_finish:
  assumes "queue_ok st" and "fin_status fin \<in> set ending_statuses"
  shows "queue_ok (fst (finish_integration_job_record now fin (Some i) st))"
proof (cases "job_by_id st i")
  case None
  with assms show ?thesis by (simp add: finish_integration_job_record_def)
next
  case (Some j)
  then have "j \<in> set (js_jobs st)" by (auto simp: job_by_id_def find_Some_iff)
  with assms(1) have "queue_ok (update_job (finished_record_row now fin j) st)"
    by (rule queue_ok_update) (simp_all add: finished_inactive [OF assms(2)])
  with Some show ?thesis by (simp add: finish_integration_job_record_def Let_def)
qed

lemma queue_ok_step: "queue_ok st \<Longrightarrow> queue_ok (queue_step env st e)"
  by (cases e) (simp_all add: queue_ok_enqueue queue_ok_claim queue_ok_reclaim queue_ok_finish)

interpretation queue: invariant_machine "queue_step env" queue_ok for env
  by unfold_locales (rule queue_ok_step)

text \<open>C6: Mutual exclusion of the queue: whatever requests are enqueued, whatever the workers claim, reclaim and
  finish, and in whatever order, there is at most one queued or running job of each key, and the primary keys
  stay unique.\<close>

theorem queue_history:
  assumes "queue_ok st"
  shows "queue_ok (foldl (queue_step env) st es)"
  using assms by (rule queue.inv_run)

definition demo_enqueue :: "string \<Rightarrow> string \<Rightarrow> enqueue_request" where
  "demo_enqueue source jtype = \<lparr>enq_job_key = None, enq_source = source, enq_job_type = jtype,
     enq_target_type = None, enq_target_id = Some 4, enq_target_name = None, enq_trigger_mode = '''',
     enq_requested_by_user_id = None, enq_correlation_id = None, enq_payload_json = None,
     enq_context_json = None, enq_artifact_public_id = None, enq_replace_stalled = False\<rparr>"

theorem queue_history_witness:
  "queue_ok (foldl (queue_step demo_jobs_env) (demo_store [])
     [Enqueue 5 ''u'' (demo_enqueue ''s3'' ''scan''), Enqueue 6 ''v'' (demo_enqueue ''s3'' ''scan''), Claim [] 7 None None])"
  by (rule queue_history) (simp add: queue_ok_def demo_store_def)

text \<open>When a request is accepted: a new job is queued exactly when no job of its key is queued or running,
  or the request asks to replace and the active job is running and stalled.  Otherwise the answer is the
  conflict 409 and the table is unchanged.\<close>

theorem enqueue_accepts_iff:
  assumes "js_table_ready st"
  shows "((\<exists>row. snd (enqueue_integration_job env now uid req st) = Inr (Some row)) \<longleftrightarrow>
      ((\<forall>j\<in>set (js_jobs st). job_key j = request_key req \<longrightarrow> \<not> is_active j)
       \<or> (\<exists>j. active_job st (request_key req) = Some j \<and> enq_replace_stalled req \<and> job_status j = ''running''
            \<and> stalled_running j now (lim_critical_hours (je_limits env)))))
    \<and> ((\<exists>row. snd (enqueue_integration_job env now uid req st) = Inr (Some row))
       \<or> enqueue_integration_job env now uid req st = (st, conflict_queued))"
  unfolding active_job_None [symmetric] using assms stalled_total [of _ env now]
  by (auto simp: enqueue_integration_job_def Let_def conflict_queued_def split: option.splits if_splits)

theorem enqueue_accepts_iff_witness:
  "\<exists>row. snd (enqueue_integration_job demo_jobs_env 5 ''u'' (demo_enqueue ''s3'' ''scan'') (demo_store [])) = Inr (Some row)"
  using enqueue_accepts_iff [of "demo_store []" demo_jobs_env 5 "''u''" "demo_enqueue ''s3'' ''scan''"]
  by (simp add: demo_store_def)

text \<open>Workers serve the queue in order: the job claimed is a queued job of the selection that no other
  transaction holds, and none of the others was queued earlier; it is returned running and its row is
  the only one that changes.  Nothing is claimed only when there is no such job.\<close>

theorem claim_takes_oldest:
  assumes "js_table_ready st"
  shows "case claim_queued_integration_job locked now source jtype st of
      (st', None) \<Rightarrow> st' = st \<and> \<not> (\<exists>j\<in>set (js_jobs st). job_status j = ''queued'' \<and> job_filter source jtype j \<and> \<not> locked (job_id j))
    | (st', Some j') \<Rightarrow>
        (\<exists>j\<in>set (js_jobs st). j' = claimed_row now j \<and> job_status j = ''queued'' \<and> job_filter source jtype j
          \<and> \<not> locked (job_id j)
          \<and> \<not> (\<exists>k\<in>set (js_jobs st). job_status k = ''queued'' \<and> job_filter source jtype k \<and> \<not> locked (job_id k)
               \<and> oldest_key k < oldest_key j))
        \<and> job_status j' = ''running''
        \<and> js_jobs st' = map (\<lambda>k. if job_id k = job_id j' then j' else k) (js_jobs st)"
proof -
  let ?c = "filter (\<lambda>j. job_status j = ''queued'' \<and> job_filter source jtype j \<and> \<not> locked (job_id j)) (js_jobs st)"
  show ?thesis
  proof (cases "first_by oldest_key ?c")
    case None
    with assms show ?thesis
      by (auto simp: claim_queued_integration_job_def filter_empty_conv)
  next
    case (Some j)
    note least = first_by_least [OF Some]
    from first_by_in [OF Some] have "j \<in> set ?c" .
    with Some assms least show ?thesis
      by (auto simp: claim_queued_integration_job_def update_job_def claimed_row_def not_less [symmetric])
  qed
qed

theorem claim_takes_oldest_witness:
  "\<exists>st' j. claim_queued_integration_job (\<lambda>_. False) 9 None None
     (demo_store [sample_job\<lparr>job_status := ''queued'', job_queued_at := Some 3\<rparr>]) = (st', Some j)
     \<and> job_status j = ''running''"
proof -
  let ?s = "demo_store [sample_job\<lparr>job_status := ''queued'', job_queued_at := Some 3\<rparr>]"
  have r: "js_table_ready ?s" by (simp add: demo_store_def)
  have q: "\<exists>j\<in>set (js_jobs ?s). job_status j = ''queued'' \<and> job_filter None None j"
    by (simp add: demo_store_def job_filter_def str_true_def)
  obtain st' o' where run: "claim_queued_integration_job (\<lambda>_. False) 9 None None ?s = (st', o')" by fastforce
  with claim_takes_oldest [OF r, where locked = "\<lambda>_. False" and now = 9 and source = None and jtype = None] q
  show ?thesis by (cases o') auto
qed

section \<open>Where the two ways of starting disagree\<close>

text \<open>Starting in the web process looks for running jobs only.  When a job of a key is queued and the same
  job is then started directly, a worker that claims the queued one leaves two running jobs of the key.\<close>

theorem start_ignores_queued:
  assumes "queue_ok st" and "js_table_ready st" and "\<forall>j\<in>set (js_jobs st). job_key j \<noteq> key \<and> job_status j \<noteq> ''queued''"
    and "request_key req = key" and "key \<notin> js_held st"
    and "build_integration_job_key (start_source sreq) (start_job_type sreq) (start_target_type sreq)
      (start_target_id sreq) = key"
    and "st1 = fst (enqueue_integration_job env t1 uid req st)"
    and "st2 = fst (maybe_start_integration_job env t2 advisory sreq st1)"
    and "st3 = fst (claim_queued_integration_job (\<lambda>_. False) t3 None None st2)"
  shows "length (filter (\<lambda>j. job_key j = key \<and> job_status j = ''running'') (js_jobs st3)) = 2"
proof -
  let ?n = "js_next_id st"
  have "active_job st key = None" using assms(3) by (auto simp: active_job_None)
  then have st1: "st1 = insert_job (queued_row env t1 uid ?n req) st"
    using assms(2,4,7) by (simp add: enqueue_integration_job_def Let_def)
  have nr: "filter (\<lambda>j. job_key j = key \<and> job_status j = ''running'') (js_jobs st1) = []"
    using assms(3,4) by (auto simp: st1 insert_job_def filter_empty_conv)
  have st2: "js_jobs st2 = js_jobs st @ [queued_row env t1 uid ?n req, started_row env t2 (?n + 1) key sreq]"
    "js_table_ready st2"
    using assms(2,5,6,8) nr
    by (simp_all add: maybe_start_integration_job_def Let_def latest_running_def start_row_def st1 insert_job_def)
  have "filter (\<lambda>j. job_status j = ''queued'' \<and> job_filter None None j \<and> \<not> False) (js_jobs st2)
      = [queued_row env t1 uid ?n req]"
    using assms(3) by (auto simp: st2 filter_empty_conv started_row_def job_filter_def str_true_def)
  then have st3: "st3 = update_job (claimed_row t3 (queued_row env t1 uid ?n req)) st2"
    using st2 assms(9) by (simp add: claim_queued_integration_job_def first_by_def)
  have "\<forall>j\<in>set (js_jobs st). job_id j \<noteq> ?n"
    using assms(1) by (auto simp: queue_ok_def list_all_iff)
  then have "js_jobs st3 = js_jobs st @ [claimed_row t3 (queued_row env t1 uid ?n req), started_row env t2 (?n + 1) key sreq]"
    by (auto simp: st3 update_job_def st2 claimed_row_def started_row_def intro!: map_idI)
  moreover have "filter (\<lambda>j. job_key j = key \<and> job_status j = ''running'') (js_jobs st) = []"
    using assms(3) by (auto simp: filter_empty_conv)
  ultimately show ?thesis using assms(4) by (simp add: claimed_row_def started_row_def)
qed

definition demo_start :: "string \<Rightarrow> string \<Rightarrow> bool \<Rightarrow> start_request" where
  "demo_start source jtype force = \<lparr>start_source = source, start_job_type = jtype, start_target_type = None,
     start_target_id = Some 4, start_target_name = None, start_trigger_mode = '''', start_force_stale = force\<rparr>"

theorem start_ignores_queued_witness:
  "length (filter (\<lambda>j. job_key j = ''s3:scan:4'' \<and> job_status j = ''running'') (js_jobs
     (fst (claim_queued_integration_job (\<lambda>_. False) 7 None None
       (fst (maybe_start_integration_job demo_jobs_env 6 True (demo_start ''s3'' ''scan'' False)
         (fst (enqueue_integration_job demo_jobs_env 5 ''u'' (demo_enqueue ''s3'' ''scan'') (demo_store []))))))))) = 2"
proof (rule start_ignores_queued [OF _ _ _ _ _ _ refl refl refl])
  have i4: "int_str 4 = ''4''"
    by (simp add: int_str_def nat_str.simps digit_char_def) code_simp
  have n: "norm_token (Some ''s3'') = ''s3''" "norm_token (Some ''scan'') = ''scan''" by code_simp+
  have k: "build_integration_job_key ''s3'' ''scan'' None (Some 4) = ''s3:scan:4''"
    by (simp add: build_integration_job_key_def n i4 str_true_def)
  show "request_key (demo_enqueue ''s3'' ''scan'') = ''s3:scan:4''"
    by (simp add: request_key_def demo_enqueue_def k or_else_def)
  show "build_integration_job_key (start_source (demo_start ''s3'' ''scan'' False))
      (start_job_type (demo_start ''s3'' ''scan'' False)) (start_target_type (demo_start ''s3'' ''scan'' False))
      (start_target_id (demo_start ''s3'' ''scan'' False)) = ''s3:scan:4''"
    by (simp add: demo_start_def k)
qed (simp_all add: queue_ok_def demo_store_def)

text \<open>Replacing a stalled run hands its lock over without telling it: after a forced start took the lock of
  a run that is still being executed, the end of the old run releases the lock of the new one, and the end of
  the new run raises \<open>RuntimeError\<close> after its row was written.\<close>

theorem forced_start_breaks_locks:
  assumes "maybe_start_integration_job env t1 a1 req1 st = (st1, Inr (Some h1))"
    and "maybe_start_integration_job env t2 a2 req2 st1 = (st2, Inr (Some h2))"
    and "handle_job_key h2 = handle_job_key h1"
  shows "handle_job_key h1 \<in> js_held st2
    \<and> handle_job_key h1 \<notin> js_held (fst (finish_integration_job t3 fin1 (Some h1) st2))
    \<and> snd (finish_integration_job t4 fin2 (Some h2) (fst (finish_integration_job t3 fin1 (Some h1) st2)))
        = Inl (RuntimeError ''release unlocked lock'')"
proof -
  have held: "handle_job_key h \<in> js_held s'"
    if "maybe_start_integration_job env t a req s = (s', Inr (Some h))" for t a req s s' h
    using that
    by (auto simp: maybe_start_integration_job_def Let_def start_row_def insert_job_def conflict_running_def
        split: if_splits option.splits sum.splits)
  have free: "handle_job_key h \<notin> js_held (fst (finish_integration_job t fin (Some h) s))"
    if "handle_job_key h \<in> js_held s" for t fin h s
    using that by (auto simp: finish_integration_job_def Let_def release_thread_lock_def split: option.splits)
  have raises: "snd (finish_integration_job t fin (Some h) s) = Inl (RuntimeError ''release unlocked lock'')"
    if "handle_job_key h \<notin> js_held s" for t fin h s
    using that by (auto simp: finish_integration_job_def Let_def release_thread_lock_def split: option.splits)
  from held [OF assms(2)] assms(3) have h: "handle_job_key h1 \<in> js_held st2" by simp
  from free [OF this] have f: "handle_job_key h1 \<notin> js_held (fst (finish_integration_job t3 fin1 (Some h1) st2))" .
  with h raises assms(3) show ?thesis by simp
qed

lemma demo_start_key: "build_integration_job_key ''s3'' ''scan'' None (Some 4) = ''s3:scan:4''"
proof -
  have "int_str 4 = ''4''" by (simp add: int_str_def nat_str.simps digit_char_def) code_simp
  moreover have "norm_token (Some ''s3'') = ''s3''" "norm_token (Some ''scan'') = ''scan''" by code_simp+
  ultimately show ?thesis by (simp add: build_integration_job_key_def str_true_def)
qed

definition demo_finish :: finish_request where
  "demo_finish = \<lparr>fin_status = ''success'', fin_records_processed = None, fin_error = None,
        fin_context_json = None, fin_result_summary_json = None, fin_progress_pct = None, fin_next_expected_run_at = None\<rparr>"

theorem forced_start_breaks_locks_witness:
  "\<exists>st2 h1 h2. snd (finish_integration_job 9 demo_finish
      (Some h2) (fst (finish_integration_job 8 demo_finish
        (Some h1) st2))) = Inl (RuntimeError ''release unlocked lock'')"
proof -
  let ?r1 = "demo_start ''s3'' ''scan'' False" and ?r2 = "demo_start ''s3'' ''scan'' True"
  let ?t = "3 * 86400 * 1000000 :: int"
  let ?row = "started_row demo_jobs_env 0 10 ''s3:scan:4'' ?r1"
  obtain st1 h1 where s1: "maybe_start_integration_job demo_jobs_env 0 False ?r1 (demo_store []) = (st1, Inr (Some h1))"
    and st1: "st1 = \<lparr>js_jobs = [?row], js_next_id = 11, js_held = {''s3:scan:4''}, js_table_ready = True\<rparr>"
    and h1: "handle_job_key h1 = ''s3:scan:4''"
    by (simp add: maybe_start_integration_job_def Let_def demo_start_def demo_start_key demo_store_def
        latest_running_def start_row_def insert_job_def)
  have lr: "latest_running st1 ''s3:scan:4'' = Some ?row"
    "latest_running (st1\<lparr>js_held := insert ''s3:scan:4'' (js_held st1)\<rparr>) ''s3:scan:4'' = Some ?row"
    by (simp_all add: latest_running_def st1 first_by_def started_row_def)
  have run: "job_status ?row = ''running''" by (simp add: started_row_def)
  have "norm_token (Some ''running'') = ''running''" by code_simp
  then have "stalled_running ?row ?t 24"
    by (simp add: stalled_running_def started_row_def running_duration_def at_least_def)
  then have stl: "is_stalled_integration_job demo_jobs_env ?t ?row = Inr True"
    unfolding stalled_total [OF run] by (simp add: demo_jobs_env_def)
  obtain st2 h2 where s2: "maybe_start_integration_job demo_jobs_env ?t False ?r2 st1 = (st2, Inr (Some h2))"
    and h2: "handle_job_key h2 = ''s3:scan:4''"
    using lr stl
    by (simp add: maybe_start_integration_job_def Let_def demo_start_def demo_start_key st1
        stalled_verdict_def start_row_def)
  from forced_start_breaks_locks [OF s1 s2, where ?t3.0 = 8 and ?t4.0 = 9 and ?fin1.0 = demo_finish and ?fin2.0 = demo_finish]
    h1 h2
  have "snd (finish_integration_job 9 demo_finish (Some h2) (fst (finish_integration_job 8 demo_finish (Some h1) st2)))
      = Inl (RuntimeError ''release unlocked lock'')" by simp
  then show ?thesis by blast
qed

end
