(* ===== verification/Scheduler.thy ===== *)
theory Scheduler
  imports Schedule Jobs
begin

text \<open>
  The schedulers that fire recurring schedules.  First half: the scans of data sources,
  \<open>features/datasource/schedules.py\<close> and \<open>features/datasource/scheduler.py\<close>, which put jobs into the queue of
  theory \<open>Jobs\<close> through \<open>features/scanner/application.py\<close>.  Second half: the selection of due data quality rules,
  \<open>features/data_quality/scheduler.py\<close>.

  A cycle takes one reading of the clock.  An operation that raises before its commit leaves the store as it was;
  the cycle, which commits on its way, returns the store of its last commit.  The correlation id of the job of a
  schedule is a parameter, as are the time zones.
\<close>

section \<open>State\<close>

record scan_run =
  run_id :: int
  run_datasource_id :: int
  run_job_id :: "int option"

record scan_source =
  src_id :: int
  src_name :: string
  src_db_type :: string

record scan_store =
  scan_schedules :: "schedule_row list"
  scan_next_schedule :: int
  scan_sources :: "scan_source list"
  scan_active_users :: "int list"
  scan_runs :: "scan_run list"
  scan_next_run :: int
  scan_jobs :: job_store
  scan_ready :: bool

definition put_schedule :: "schedule_row \<Rightarrow> scan_store \<Rightarrow> scan_store" where
  "put_schedule s st = st\<lparr>scan_schedules := map (\<lambda>k. if sch_id k = sch_id s then s else k) (scan_schedules st)\<rparr>"

definition get_schedule :: "int \<Rightarrow> scan_store \<Rightarrow> schedule_row option" where
  "get_schedule i st = List.find (\<lambda>s. sch_id s = i) (scan_schedules st)"

definition get_scan_schedule_for_datasource :: "int \<Rightarrow> scan_store \<Rightarrow> schedule_row option" where
  "get_scan_schedule_for_datasource d st =
     (if \<not> scan_ready st then None
      else first_by (\<lambda>s. Desc (sch_id s)) (filter (\<lambda>s. sch_target_id s = d) (scan_schedules st)))"

section \<open>Operations on schedules\<close>

record scan_schedule_in =
  ssi_datasource_id :: int
  ssi_mode :: string
  ssi_enabled :: bool
  ssi_every_minutes :: "int option"
  ssi_time :: "string option"
  ssi_day_of_week :: "int option"
  ssi_day_of_month :: "int option"
  ssi_anchor_date :: "int option"
  ssi_recipient_user_ids :: "int list"

text \<open>\<open>payload.model_dump()\<close>: every field is present.\<close>

definition dumped :: "scan_schedule_in \<Rightarrow> schedule_payload" where
  "dumped p = \<lparr>sp_mode = Some (Some (ssi_mode p)), sp_enabled = Some (Some (ssi_enabled p)),
     sp_every_minutes = Some (ssi_every_minutes p), sp_time = Some (ssi_time p),
     sp_day_of_week = Some (ssi_day_of_week p), sp_day_of_month = Some (ssi_day_of_month p),
     sp_anchor_date = Some (map_option AnchorDatetime (ssi_anchor_date p))\<rparr>"

definition new_schedule :: "int \<Rightarrow> int \<Rightarrow> schedule_row" where
  "new_schedule i d = \<lparr>sch_id = i, sch_target_id = d, sch_mode = None, sch_enabled = None,
     sch_every_minutes = None, sch_time = None, sch_timezone = None, sch_day_of_week = None,
     sch_day_of_month = None, sch_anchor_date = None, sch_last_run_at = None, sch_last_started_at = None,
     sch_last_finished_at = None, sch_last_status = None, sch_last_error = None, sch_next_run_at = None,
     sch_created_at = None, sch_recipients = []\<rparr>"

definition with_payload :: "schedule_payload \<Rightarrow> schedule_row \<Rightarrow> schedule_row" where
  "with_payload r s = s\<lparr>sch_mode := get_field (sp_mode r) None,
     sch_enabled := Some (get_field (sp_enabled r) None = Some True),
     sch_every_minutes := get_field (sp_every_minutes r) None, sch_time := get_field (sp_time r) None,
     sch_day_of_week := get_field (sp_day_of_week r) None, sch_day_of_month := get_field (sp_day_of_month r) None,
     sch_anchor_date := get_field (sp_anchor_date r) None\<rparr>"

definition active_recipients :: "scan_store \<Rightarrow> int list \<Rightarrow> int list" where
  "active_recipients st ids =
     (let wanted = filter (\<lambda>i. i > 0) ids in from_keys (filter (\<lambda>u. u \<in> set wanted) (scan_active_users st)))"

definition upsert_scan_schedule :: "zoneinfo \<Rightarrow> instant \<Rightarrow> scan_schedule_in \<Rightarrow> scan_store \<Rightarrow> scan_store res" where
  "upsert_scan_schedule zi now p st =
     (if \<not> scan_ready st then Inl (ValueError ''Datasource scan schedule table unavailable'')
      else res_bind (validate_schedule_payload now (dumped p) no_payload) (\<lambda>r.
        if ssi_datasource_id p \<notin> set (map src_id (scan_sources st)) then Inl (ValueError ''Datasource not found'')
        else
          (let d = ssi_datasource_id p;
               (base, st') = (case get_scan_schedule_for_datasource d st of
                   Some s \<Rightarrow> (s, st)
                 | None \<Rightarrow> (let s = new_schedule (scan_next_schedule st) d in
                     (s, st\<lparr>scan_schedules := scan_schedules st @ [s], scan_next_schedule := scan_next_schedule st + 1\<rparr>)));
               s = with_payload r base
           in res_bind (compute_next_run_at zi now s) (\<lambda>next.
             Inr (put_schedule (s\<lparr>sch_target_id := d, sch_next_run_at := next,
               sch_recipients := active_recipients st (ssi_recipient_user_ids p)\<rparr>) st')))))"

definition delete_scan_schedule :: "int \<Rightarrow> scan_store \<Rightarrow> scan_store" where
  "delete_scan_schedule i st =
     (if \<not> scan_ready st then st
      else st\<lparr>scan_schedules := filter (\<lambda>s. sch_id s \<noteq> i) (scan_schedules st)\<rparr>)"

record run_report =
  rep_status :: string
  rep_error :: "string option"
  rep_started_at :: "instant option"
  rep_finished_at :: "instant option"

definition reported :: "instant \<Rightarrow> run_report \<Rightarrow> schedule_row \<Rightarrow> schedule_row" where
  "reported now r s = s\<lparr>
     sch_last_run_at := Some (case rep_finished_at r of Some t \<Rightarrow> t | None \<Rightarrow> now),
     sch_last_started_at := (case rep_started_at r of Some t \<Rightarrow> Some t | None \<Rightarrow> sch_last_started_at s),
     sch_last_finished_at := (case rep_finished_at r of Some t \<Rightarrow> Some t | None \<Rightarrow> sch_last_finished_at s),
     sch_last_status := Some (rep_status r), sch_last_error := rep_error r\<rparr>"

definition update_scan_schedule_run_state ::
  "zoneinfo \<Rightarrow> instant \<Rightarrow> int option \<Rightarrow> run_report \<Rightarrow> scan_store \<Rightarrow> scan_store res" where
  "update_scan_schedule_run_state zi now sid r st =
     (case sid of None \<Rightarrow> Inr st
      | Some i \<Rightarrow>
          if \<not> scan_ready st then Inr st
          else (case get_schedule i st of None \<Rightarrow> Inr st
            | Some s \<Rightarrow>
                (let s' = reported now r s in
                 res_bind (compute_next_run_at zi (case rep_finished_at r of Some t \<Rightarrow> t | None \<Rightarrow> now) s') (\<lambda>next.
                   Inr (put_schedule (s'\<lparr>sch_next_run_at := next\<rparr>) st)))))"

definition mark_scan_schedule_dispatched :: "instant \<Rightarrow> int \<Rightarrow> instant option \<Rightarrow> scan_store \<Rightarrow> scan_store" where
  "mark_scan_schedule_dispatched now i started st =
     (if \<not> scan_ready st then st
      else (case get_schedule i st of None \<Rightarrow> st
        | Some s \<Rightarrow> put_schedule (s\<lparr>sch_last_started_at := Some (case started of Some t \<Rightarrow> t | None \<Rightarrow> now),
            sch_last_status := Some ''running'', sch_last_error := None\<rparr>) st))"

definition mark_scan_schedule_queued :: "int \<Rightarrow> instant option \<Rightarrow> scan_store \<Rightarrow> scan_store" where
  "mark_scan_schedule_queued i queued st =
     (if \<not> scan_ready st then st
      else (case get_schedule i st of None \<Rightarrow> st
        | Some s \<Rightarrow> put_schedule (s\<lparr>sch_last_status := Some ''queued'', sch_last_error := None,
            sch_last_started_at := (case queued of Some t \<Rightarrow> Some t | None \<Rightarrow> sch_last_started_at s)\<rparr>) st))"

section \<open>Queueing one scan\<close>

definition scan_request :: "scan_source \<Rightarrow> int option \<Rightarrow> string \<Rightarrow> int option \<Rightarrow> int \<Rightarrow> enqueue_request" where
  "scan_request d by_user trigger sid rid =
     (let pint = (\<lambda>v. case v of None \<Rightarrow> PNone | Some i \<Rightarrow> PInt i) in
     \<lparr>enq_job_key = None, enq_source = ''datasource'', enq_job_type = ''scan'', enq_target_type = Some ''datasource'',
      enq_target_id = Some (src_id d), enq_target_name = Some (src_name d), enq_trigger_mode = trigger,
      enq_requested_by_user_id = by_user, enq_correlation_id = None,
      enq_payload_json = Some (PDict [(''datasource_id'', PInt (src_id d)), (''started_by'', pint by_user),
        (''scan_run_id'', PInt rid), (''schedule_id'', pint sid)]),
      enq_context_json = Some (PDict [(''datasource_id'', PInt (src_id d)), (''datasource_name'', PStr (src_name d)),
        (''engine'', PStr (src_db_type d)), (''scan_run_id'', PInt rid), (''schedule_id'', pint sid)]),
      enq_artifact_public_id = None, enq_replace_stalled = False\<rparr>)"

definition create_queued_scan_run :: "int \<Rightarrow> scan_store \<Rightarrow> scan_store \<times> int" where
  "create_queued_scan_run d st =
     (let i = scan_next_run st in
      (st\<lparr>scan_runs := scan_runs st @ [\<lparr>run_id = i, run_datasource_id = d, run_job_id = None\<rparr>],
          scan_next_run := i + 1\<rparr>, i))"

text \<open>The scan run is committed before the job is queued, and deleted again when the queue refuses.\<close>

definition enqueue_datasource_scan ::
  "jobs_env \<Rightarrow> instant \<Rightarrow> string \<Rightarrow> scan_source \<Rightarrow> int option \<Rightarrow> string \<Rightarrow> int option \<Rightarrow> scan_store
    \<Rightarrow> scan_store \<times> unit res" where
  "enqueue_datasource_scan env now uid d by_user trigger sid st =
     (let (st1, rid) = create_queued_scan_run (src_id d) st;
          (jobs, r) = enqueue_integration_job env now uid (scan_request d by_user trigger sid rid) (scan_jobs st1)
      in case r of
           Inl e \<Rightarrow> (st1\<lparr>scan_jobs := jobs, scan_runs := filter (\<lambda>k. run_id k \<noteq> rid) (scan_runs st1)\<rparr>, Inl e)
         | Inr job \<Rightarrow> (st1\<lparr>scan_jobs := jobs,
             scan_runs := map (\<lambda>k. if run_id k = rid then k\<lparr>run_job_id := map_option job_id job\<rparr> else k) (scan_runs st1)\<rparr>,
             Inr ()))"

section \<open>The scheduler cycle\<close>

definition due_order :: "schedule_row \<Rightarrow> instant nulls_last \<times> int" where
  "due_order s = (NullsLast (sch_next_run_at s), sch_id s)"

text \<open>A schedule without a next run gets one and waits for the next cycle.\<close>

definition fill_next_run :: "zoneinfo \<Rightarrow> instant \<Rightarrow> schedule_row \<Rightarrow> schedule_row res" where
  "fill_next_run zi now s =
     (if sch_enabled s = Some True \<and> sch_next_run_at s = None
      then res_bind (compute_next_run_at zi now s) (\<lambda>next. Inr (s\<lparr>sch_next_run_at := next\<rparr>))
      else Inr s)"

definition is_due :: "instant \<Rightarrow> schedule_row \<Rightarrow> bool" where
  "is_due now s = (sch_enabled s = Some True \<and> (case sch_next_run_at s of None \<Rightarrow> False | Some t \<Rightarrow> t \<le> now))"

definition select_due_schedules :: "zoneinfo \<Rightarrow> instant \<Rightarrow> scan_store \<Rightarrow> (scan_store \<times> schedule_row list) res" where
  "select_due_schedules zi now st =
     res_bind (res_map (fill_next_run zi now) (scan_schedules st)) (\<lambda>filled.
       Inr (st\<lparr>scan_schedules := filled\<rparr>, filter (is_due now) (sort_key due_order (scan_schedules st))))"

datatype dispatch = Dispatched | Skipped | SourceMissing

text \<open>One due schedule: the store of the last commit, the current store and what happened, or the error.\<close>

definition dispatch_schedule ::
  "jobs_env \<Rightarrow> zoneinfo \<Rightarrow> instant \<Rightarrow> (int \<Rightarrow> string) \<Rightarrow> schedule_row \<Rightarrow> scan_store \<Rightarrow> scan_store
    \<Rightarrow> scan_store \<times> (scan_store \<times> dispatch) res" where
  "dispatch_schedule env zi now uid s committed st =
     (case List.find (\<lambda>d. src_id d = sch_target_id s) (scan_sources st) of
        None \<Rightarrow> (committed, map_sum id (\<lambda>st'. (st', SourceMissing))
          (update_scan_schedule_run_state zi now (Some (sch_id s))
            \<lparr>rep_status = ''failed'', rep_error = Some ''Datasource not found'', rep_started_at = None,
             rep_finished_at = Some now\<rparr> st))
      | Some d \<Rightarrow>
          (let (st1, r) = enqueue_datasource_scan env now (uid (sch_id s)) d None ''scheduled'' (Some (sch_id s))
                 (mark_scan_schedule_queued (sch_id s) (Some now) st)
           in case r of
                Inr _ \<Rightarrow> (st1, Inr (st1, Dispatched))
              | Inl e \<Rightarrow>
                  (st1, (case e of HTTPException code _ \<Rightarrow>
                     if code = 409 then map_sum id (\<lambda>st'. (st', Skipped))
                       (update_scan_schedule_run_state zi now (Some (sch_id s))
                         \<lparr>rep_status = ''skipped'', rep_error = Some ''job_already_running'', rep_started_at = None,
                          rep_finished_at = Some now\<rparr> st1)
                     else Inl e
                   | _ \<Rightarrow> Inl e))))"

fun dispatch_all ::
  "jobs_env \<Rightarrow> zoneinfo \<Rightarrow> instant \<Rightarrow> (int \<Rightarrow> string) \<Rightarrow> schedule_row list \<Rightarrow> scan_store \<Rightarrow> scan_store
    \<Rightarrow> scan_store \<times> (scan_store \<times> dispatch list) res" where
  "dispatch_all env zi now uid [] committed st = (committed, Inr (st, []))"
| "dispatch_all env zi now uid (s # ss) committed st =
     (case dispatch_schedule env zi now uid s committed st of
        (c1, Inl e) \<Rightarrow> (c1, Inl e)
      | (c1, Inr (st1, o1)) \<Rightarrow>
          (case dispatch_all env zi now uid ss c1 st1 of
             (c2, Inl e) \<Rightarrow> (c2, Inl e)
           | (c2, Inr (st2, os)) \<Rightarrow> (c2, Inr (st2, o1 # os))))"

record cycle_summary =
  sum_due :: nat
  sum_success :: nat
  sum_failed :: nat
  sum_skipped :: nat
  sum_next_expected :: "instant option"

definition empty_summary :: cycle_summary where
  "empty_summary = \<lparr>sum_due = 0, sum_success = 0, sum_failed = 0, sum_skipped = 0, sum_next_expected = None\<rparr>"

definition next_expected_run :: "scan_store \<Rightarrow> instant option" where
  "next_expected_run st = min_option (List.map_filter sch_next_run_at
     (filter (\<lambda>s. sch_enabled s = Some True) (scan_schedules st)))"

record cycle_env =
  cyc_enabled :: bool
  cyc_lock :: bool

text \<open>The answer is the summary, and whether an exception was caught (the scheduler reports it and goes on).\<close>

definition run_datasource_scan_scheduler_cycle ::
  "jobs_env \<Rightarrow> zoneinfo \<Rightarrow> cycle_env \<Rightarrow> instant \<Rightarrow> (int \<Rightarrow> string) \<Rightarrow> bool \<Rightarrow> scan_store
    \<Rightarrow> scan_store \<times> cycle_summary res" where
  "run_datasource_scan_scheduler_cycle env zi cyc now uid force st =
     (if \<not> cyc_enabled cyc \<and> \<not> force then (st, Inr empty_summary)
      else if \<not> scan_ready st then (st, Inr empty_summary)
      else if \<not> cyc_lock cyc then (st, Inr empty_summary)
      else (case select_due_schedules zi now st of
          Inl e \<Rightarrow> (st, Inl e)
        | Inr (st1, due) \<Rightarrow>
            (case dispatch_all env zi now uid due st st1 of
               (c, Inl e) \<Rightarrow> (c, Inl e)
             | (_, Inr (st2, os)) \<Rightarrow>
                 (st2, Inr \<lparr>sum_due = length due, sum_success = count_list os Dispatched,
                    sum_failed = count_list os SourceMissing, sum_skipped = count_list os Skipped,
                    sum_next_expected = next_expected_run st2\<rparr>))))"

section \<open>What every operation keeps\<close>

text \<open>A stored schedule is one that validation produced; at most one per data source; at most one active job per key.\<close>

definition stored_ok :: "schedule_row \<Rightarrow> bool" where
  "stored_ok s =
     (sch_timezone s = None \<and>
      (case sch_mode s of None \<Rightarrow> False | Some mode \<Rightarrow>
        mode \<in> set SCHEDULE_MODES \<and>
        (sch_enabled s = Some False \<or> sch_enabled s = Some True \<and>
           enabled_shape mode (sch_every_minutes s) (sch_time s) (sch_day_of_week s) (sch_day_of_month s) (sch_anchor_date s))))"

definition schedules_ok :: "scan_store \<Rightarrow> bool" where
  "schedules_ok st =
     (distinct (map sch_id (scan_schedules st)) \<and> distinct (map sch_target_id (scan_schedules st))
      \<and> list_all (\<lambda>s. sch_id s < scan_next_schedule st) (scan_schedules st)
      \<and> list_all stored_ok (scan_schedules st))"

definition scan_ok :: "scan_store \<Rightarrow> bool" where
  "scan_ok st = (schedules_ok st \<and> queue_ok (scan_jobs st))"

lemma get_schedule_Some: "get_schedule i st = Some s \<Longrightarrow> s \<in> set (scan_schedules st) \<and> sch_id s = i"
  by (auto simp: get_schedule_def find_Some_iff)

lemma put_schedule_simps [simp]:
  "scan_jobs (put_schedule s st) = scan_jobs st" "scan_sources (put_schedule s st) = scan_sources st"
  "scan_ready (put_schedule s st) = scan_ready st" "scan_next_schedule (put_schedule s st) = scan_next_schedule st"
  "scan_schedules (put_schedule s st) = map (\<lambda>k. if sch_id k = sch_id s then s else k) (scan_schedules st)"
  by (simp_all add: put_schedule_def)

lemma same_schedule:
  "schedules_ok st \<Longrightarrow> s \<in> set (scan_schedules st) \<Longrightarrow> k \<in> set (scan_schedules st) \<Longrightarrow> sch_id k = sch_id s \<Longrightarrow> k = s"
  by (auto simp: schedules_ok_def distinct_map inj_on_def)

lemma schedules_ok_map:
  assumes "schedules_ok st" and "scan_next_schedule st' = scan_next_schedule st"
    and "scan_schedules st' = map f (scan_schedules st)"
    and "\<And>k. k \<in> set (scan_schedules st) \<Longrightarrow>
      sch_id (f k) = sch_id k \<and> sch_target_id (f k) = sch_target_id k \<and> stored_ok (f k)"
  shows "schedules_ok st'"
proof -
  have "map sch_id (scan_schedules st') = map sch_id (scan_schedules st)"
    "map sch_target_id (scan_schedules st') = map sch_target_id (scan_schedules st)"
    using assms(3,4) by simp_all
  moreover have "list_all (\<lambda>s. sch_id s < scan_next_schedule st') (scan_schedules st')" "list_all stored_ok (scan_schedules st')"
    using assms by (auto simp: schedules_ok_def list_all_iff)
  ultimately show ?thesis using assms(1) by (simp only: schedules_ok_def)
qed

lemma schedules_ok_put:
  assumes "schedules_ok st" and "s \<in> set (scan_schedules st)"
    and "sch_id s' = sch_id s" "sch_target_id s' = sch_target_id s" "stored_ok s'"
  shows "schedules_ok (put_schedule s' st)"
proof (rule schedules_ok_map [OF assms(1), where f = "\<lambda>k. if sch_id k = sch_id s' then s' else k"])
  fix k assume k: "k \<in> set (scan_schedules st)"
  then have "stored_ok k" using assms(1) by (auto simp: schedules_ok_def list_all_iff)
  with k same_schedule [OF assms(1,2)] assms(3-5)
  show "sch_id (if sch_id k = sch_id s' then s' else k) = sch_id k \<and>
      sch_target_id (if sch_id k = sch_id s' then s' else k) = sch_target_id k \<and>
      stored_ok (if sch_id k = sch_id s' then s' else k)"
    by auto
qed simp_all

text \<open>The changes of the run state leave the configuration alone.\<close>

lemma stored_ok_run_state [simp]:
  "stored_ok (sch_next_run_at_update f s) = stored_ok s" "stored_ok (sch_last_run_at_update f s) = stored_ok s"
  "stored_ok (sch_last_started_at_update f s) = stored_ok s" "stored_ok (sch_last_finished_at_update f s) = stored_ok s"
  "stored_ok (sch_last_status_update g s) = stored_ok s" "stored_ok (sch_last_error_update g s) = stored_ok s"
  "stored_ok (sch_recipients_update h s) = stored_ok s"
  by (cases "sch_mode s"; simp add: stored_ok_def)+

lemma stored_ok_reported [simp]: "stored_ok (reported now r s) = stored_ok s"
  by (simp add: reported_def)

lemma reported_simps [simp]:
  "sch_id (reported now r s) = sch_id s" "sch_target_id (reported now r s) = sch_target_id s"
  "sch_timezone (reported now r s) = sch_timezone s"
  by (simp_all add: reported_def)

lemma schedules_ok_stored: "schedules_ok st \<Longrightarrow> s \<in> set (scan_schedules st) \<Longrightarrow> stored_ok s"
  by (auto simp: schedules_ok_def list_all_iff)

lemma run_state_shape:
  assumes "schedules_ok st" and "update_scan_schedule_run_state zi now sid r st = Inr st'"
  shows "schedules_ok st' \<and> scan_jobs st' = scan_jobs st \<and> scan_sources st' = scan_sources st
    \<and> scan_ready st' = scan_ready st"
  using assms schedules_ok_stored [OF assms(1)]
  by (auto simp: update_scan_schedule_run_state_def Let_def res_bind_Inr_iff
      split: option.splits if_splits dest!: get_schedule_Some intro!: schedules_ok_put)

lemma mark_queued_shape:
  "schedules_ok st \<Longrightarrow> schedules_ok (mark_scan_schedule_queued i q st)"
  "scan_jobs (mark_scan_schedule_queued i q st) = scan_jobs st"
  "scan_sources (mark_scan_schedule_queued i q st) = scan_sources st"
  "scan_ready (mark_scan_schedule_queued i q st) = scan_ready st"
  using schedules_ok_stored [of st]
  by (auto simp: mark_scan_schedule_queued_def split: option.splits dest!: get_schedule_Some intro!: schedules_ok_put)

lemma mark_dispatched_shape:
  "schedules_ok st \<Longrightarrow> schedules_ok (mark_scan_schedule_dispatched now i t st)"
  "scan_jobs (mark_scan_schedule_dispatched now i t st) = scan_jobs st"
  using schedules_ok_stored [of st]
  by (auto simp: mark_scan_schedule_dispatched_def split: option.splits dest!: get_schedule_Some intro!: schedules_ok_put)

lemma enqueue_scan_shape:
  assumes "enqueue_datasource_scan env now uid d by_user trigger sid st = (st', r)"
  shows "scan_schedules st' = scan_schedules st" "scan_next_schedule st' = scan_next_schedule st"
    "scan_sources st' = scan_sources st" "scan_ready st' = scan_ready st"
    "\<exists>rid res. enqueue_integration_job env now uid (scan_request d by_user trigger sid rid) (scan_jobs st)
       = (scan_jobs st', res) \<and> r = map_sum id (\<lambda>_. ()) res"
proof -
  let ?rid = "scan_next_run st"
  obtain jobs res where e: "enqueue_integration_job env now uid (scan_request d by_user trigger sid ?rid) (scan_jobs st)
      = (jobs, res)" by fastforce
  show "scan_schedules st' = scan_schedules st" "scan_next_schedule st' = scan_next_schedule st"
    "scan_sources st' = scan_sources st" "scan_ready st' = scan_ready st"
    using assms e by (cases res; auto simp: enqueue_datasource_scan_def create_queued_scan_run_def Let_def)+
  have "scan_jobs st' = jobs" "r = map_sum id (\<lambda>_. ()) res"
    using assms e by (cases res; auto simp: enqueue_datasource_scan_def create_queued_scan_run_def Let_def)+
  with e show "\<exists>rid res. enqueue_integration_job env now uid (scan_request d by_user trigger sid rid) (scan_jobs st)
       = (scan_jobs st', res) \<and> r = map_sum id (\<lambda>_. ()) res"
    by blast
qed

lemma schedules_ok_frame:
  "scan_schedules st' = scan_schedules st \<Longrightarrow> scan_next_schedule st' = scan_next_schedule st \<Longrightarrow>
     schedules_ok st' = schedules_ok st"
  by (simp add: schedules_ok_def)

lemma scan_ok_enqueue:
  assumes "enqueue_datasource_scan env now uid d by_user trigger sid st = (st', r)" and "scan_ok st"
  shows "scan_ok st'"
proof -
  obtain rid res where "enqueue_integration_job env now uid (scan_request d by_user trigger sid rid) (scan_jobs st)
      = (scan_jobs st', res)"
    using enqueue_scan_shape(5) [OF assms(1)] by blast
  then have "queue_ok (scan_jobs st')"
    using assms(2) queue_ok_enqueue [of "scan_jobs st" env now uid "scan_request d by_user trigger sid rid"]
    by (simp add: scan_ok_def)
  with assms(2) schedules_ok_frame [OF enqueue_scan_shape(1,2) [OF assms(1)]] show ?thesis
    by (simp add: scan_ok_def)
qed

lemma scan_ok_dispatch:
  assumes "dispatch_schedule env zi now uid s c st = (c', r)" and "scan_ok c" and "scan_ok st"
  shows "scan_ok c' \<and> (\<forall>st' out. r = Inr (st', out) \<longrightarrow> scan_ok st')"
proof (cases "List.find (\<lambda>d. src_id d = sch_target_id s) (scan_sources st)")
  case None
  with assms show ?thesis
    by (auto simp: dispatch_schedule_def map_sum_Inr_iff scan_ok_def dest!: run_state_shape [rotated])
next
  case (Some d)
  obtain st1 e where e: "enqueue_datasource_scan env now (uid (sch_id s)) d None ''scheduled'' (Some (sch_id s))
      (mark_scan_schedule_queued (sch_id s) (Some now) st) = (st1, e)" by fastforce
  have ok: "scan_ok st1"
    using scan_ok_enqueue [OF e] assms(3) by (simp add: scan_ok_def mark_queued_shape)
  with assms(1) Some e show ?thesis
    by (auto simp: dispatch_schedule_def map_sum_Inr_iff scan_ok_def split: sum.splits py_error.splits if_splits
        dest!: run_state_shape [rotated])
qed

lemma scan_ok_dispatch_all:
  "dispatch_all env zi now uid ss c st = (c', r) \<Longrightarrow> scan_ok c \<Longrightarrow> scan_ok st \<Longrightarrow>
     scan_ok c' \<and> (\<forall>st' out. r = Inr (st', out) \<longrightarrow> scan_ok st')"
proof (induction ss arbitrary: c st c' r)
  case (Cons s ss)
  obtain c1 r1 where d: "dispatch_schedule env zi now uid s c st = (c1, r1)" by fastforce
  from scan_ok_dispatch [OF d Cons.prems(2,3)]
  have ok: "scan_ok c1" "\<And>st1 o1. r1 = Inr (st1, o1) \<Longrightarrow> scan_ok st1" by auto
  show ?case
  proof (cases r1)
    case (Inl e)
    with Cons.prems(1) ok d show ?thesis by auto
  next
    case (Inr p)
    obtain st1 o1 where p: "p = (st1, o1)" by fastforce
    obtain c2 r2 where d2: "dispatch_all env zi now uid ss c1 st1 = (c2, r2)" by fastforce
    from Cons.IH [OF d2 ok(1) ok(2)] Inr p
    have "scan_ok c2 \<and> (\<forall>st' out. r2 = Inr (st', out) \<longrightarrow> scan_ok st')" by simp
    with Cons.prems(1) d d2 Inr p show ?thesis by (auto split: sum.splits prod.splits)
  qed
qed simp

lemma fill_next_run_shape:
  "fill_next_run zi now s = Inr s' \<Longrightarrow> sch_id s' = sch_id s \<and> sch_target_id s' = sch_target_id s \<and> stored_ok s' = stored_ok s
     \<and> sch_enabled s' = sch_enabled s"
  by (auto simp: fill_next_run_def res_bind_Inr_iff split: if_splits)

lemma res_map_fields:
  "res_map f xs = Inr ys \<Longrightarrow> (\<And>x y. f x = Inr y \<Longrightarrow> g y = g x) \<Longrightarrow> map g ys = map g xs"
  by (drule res_map_Inr) (auto simp: list_all2_conv_all_nth intro!: nth_equalityI)

lemma select_shape:
  assumes "select_due_schedules zi now st = Inr (st', due)" and "scan_ok st"
  shows "scan_ok st'" and "scan_sources st' = scan_sources st" and "scan_jobs st' = scan_jobs st"
    and "scan_ready st' = scan_ready st"
    and "s \<in> set due \<longleftrightarrow> s \<in> set (scan_schedules st) \<and> is_due now s"
    and "list_all2 (\<lambda>s s'. fill_next_run zi now s = Inr s') (scan_schedules st) (scan_schedules st')"
proof -
  from assms(1) obtain rows where rows: "res_map (fill_next_run zi now) (scan_schedules st) = Inr rows"
    "st' = st\<lparr>scan_schedules := rows\<rparr>" "due = filter (is_due now) (sort_key due_order (scan_schedules st))"
    by (auto simp: select_due_schedules_def res_bind_Inr_iff)
  then show "scan_sources st' = scan_sources st" "scan_jobs st' = scan_jobs st" "scan_ready st' = scan_ready st"
    "s \<in> set due \<longleftrightarrow> s \<in> set (scan_schedules st) \<and> is_due now s" by auto
  show "list_all2 (\<lambda>s s'. fill_next_run zi now s = Inr s') (scan_schedules st) (scan_schedules st')"
    using rows res_map_Inr by simp
  have "map sch_id rows = map sch_id (scan_schedules st)" "map sch_target_id rows = map sch_target_id (scan_schedules st)"
    "map stored_ok rows = map stored_ok (scan_schedules st)"
    using res_map_fields [OF rows(1)] fill_next_run_shape by blast+
  moreover have "list_all (\<lambda>s. sch_id s < n) rows = list_all (\<lambda>i. i < n) (map sch_id rows)"
      "list_all stored_ok rows = list_all (\<lambda>b. b) (map stored_ok rows)" for rows n
    by (simp_all add: list_all_iff)
  ultimately show "scan_ok st'" using assms(2) rows(2) by (simp add: scan_ok_def schedules_ok_def)
qed

lemma scan_ok_cycle:
  "scan_ok st \<Longrightarrow> scan_ok (fst (run_datasource_scan_scheduler_cycle env zi cyc now uid force st))"
proof -
  assume ok: "scan_ok st"
  show ?thesis
  proof (cases "select_due_schedules zi now st")
    case (Inl e)
    with ok show ?thesis by (simp add: run_datasource_scan_scheduler_cycle_def)
  next
    case (Inr p)
    obtain st1 due where p: "p = (st1, due)" by fastforce
    obtain c r where d: "dispatch_all env zi now uid due st st1 = (c, r)" by fastforce
    from scan_ok_dispatch_all [OF d ok select_shape(1) [OF Inr [unfolded p] ok]]
    show ?thesis using ok Inr p d
      by (cases r) (auto simp: run_datasource_scan_scheduler_cycle_def)
  qed
qed

text \<open>Storing a validated payload.\<close>

lemma stored_payload:
  assumes "validate_schedule_payload now p ex = Inr r" and "sch_timezone s = None"
  shows "stored_ok (with_payload r s)"
  using assms(1)
proof (cases rule: validated_cases)
  case (disabled m)
  then show ?thesis by (simp add: stored_ok_def with_payload_def get_field_def no_payload_def assms(2))
qed (simp_all add: stored_ok_def with_payload_def get_field_def normalized_def assms(2) modes_known
      enabled_shapes time_text_ok_normalized)

lemma with_payload_simps [simp]:
  "sch_id (with_payload r s) = sch_id s" "sch_target_id (with_payload r s) = sch_target_id s"
  "sch_timezone (with_payload r s) = sch_timezone s" "sch_last_run_at (with_payload r s) = sch_last_run_at s"
  by (simp_all add: with_payload_def)

lemma stored_ok_target [simp]: "stored_ok (sch_target_id_update f s) = stored_ok s"
  by (cases "sch_mode s"; simp add: stored_ok_def)

text \<open>The row that an upsert starts from, and the store that holds it.\<close>

definition upsert_base :: "int \<Rightarrow> scan_store \<Rightarrow> schedule_row \<times> scan_store" where
  "upsert_base d st = (case get_scan_schedule_for_datasource d st of
       Some s \<Rightarrow> (s, st)
     | None \<Rightarrow> (let s = new_schedule (scan_next_schedule st) d in
         (s, st\<lparr>scan_schedules := scan_schedules st @ [s], scan_next_schedule := scan_next_schedule st + 1\<rparr>)))"

lemma upsert_InrE:
  assumes "upsert_scan_schedule zi now p st = Inr st'"
  obtains r s st1 nxt where "scan_ready st" "validate_schedule_payload now (dumped p) no_payload = Inr r"
    "upsert_base (ssi_datasource_id p) st = (s, st1)" "compute_next_run_at zi now (with_payload r s) = Inr nxt"
    "st' = put_schedule ((with_payload r s)\<lparr>sch_target_id := ssi_datasource_id p, sch_next_run_at := nxt,
       sch_recipients := active_recipients st (ssi_recipient_user_ids p)\<rparr>) st1"
  using assms
  by (cases "upsert_base (ssi_datasource_id p) st")
    (auto simp: upsert_scan_schedule_def res_bind_Inr_iff upsert_base_def [symmetric] Let_def split: if_splits)

lemma upsert_base_facts:
  assumes "schedules_ok st" and "scan_ready st" and "upsert_base d st = (s, st1)"
  shows "s \<in> set (scan_schedules st1)" "sch_target_id s = d" "sch_timezone s = None"
    "scan_jobs st1 = scan_jobs st"
    "distinct (map sch_id (scan_schedules st1))" "distinct (map sch_target_id (scan_schedules st1))"
    "\<And>k. k \<in> set (scan_schedules st1) \<Longrightarrow> sch_id k < scan_next_schedule st1"
    "\<And>k. k \<in> set (scan_schedules st1) \<Longrightarrow> sch_id k \<noteq> sch_id s \<Longrightarrow> stored_ok k"
proof -
  have "(\<exists>x. get_scan_schedule_for_datasource d st = Some x \<and> s = x \<and> st1 = st \<and> x \<in> set (scan_schedules st) \<and> sch_target_id x = d)
    \<or> (\<forall>k\<in>set (scan_schedules st). sch_target_id k \<noteq> d) \<and> s = new_schedule (scan_next_schedule st) d \<and>
      st1 = st\<lparr>scan_schedules := scan_schedules st @ [s], scan_next_schedule := scan_next_schedule st + 1\<rparr>"
    using assms(2,3)
    by (auto simp: upsert_base_def get_scan_schedule_for_datasource_def Let_def filter_empty_conv
        split: option.splits dest!: first_by_in)
  moreover have "stored_ok k" "sch_id k < scan_next_schedule st" if "k \<in> set (scan_schedules st)" for k
    using that assms(1) by (auto simp: schedules_ok_def list_all_iff)
  moreover have "stored_ok k \<Longrightarrow> sch_timezone k = None" for k by (simp add: stored_ok_def)
  ultimately show "s \<in> set (scan_schedules st1)" "sch_target_id s = d" "sch_timezone s = None"
    "scan_jobs st1 = scan_jobs st"
    "distinct (map sch_id (scan_schedules st1))" "distinct (map sch_target_id (scan_schedules st1))"
    "\<And>k. k \<in> set (scan_schedules st1) \<Longrightarrow> sch_id k < scan_next_schedule st1"
    "\<And>k. k \<in> set (scan_schedules st1) \<Longrightarrow> sch_id k \<noteq> sch_id s \<Longrightarrow> stored_ok k"
    using assms(1) by (auto simp: schedules_ok_def new_schedule_def) fastforce+
qed

lemma scan_ok_upsert:
  assumes "scan_ok st" and "upsert_scan_schedule zi now p st = Inr st'"
  shows "scan_ok st'"
proof -
  from assms(2) obtain r s st1 nxt where u: "scan_ready st" "validate_schedule_payload now (dumped p) no_payload = Inr r"
    "upsert_base (ssi_datasource_id p) st = (s, st1)"
    "st' = put_schedule ((with_payload r s)\<lparr>sch_target_id := ssi_datasource_id p, sch_next_run_at := nxt,
       sch_recipients := active_recipients st (ssi_recipient_user_ids p)\<rparr>) st1"
    by (rule upsert_InrE)
  have ok: "schedules_ok st" "queue_ok (scan_jobs st)" using assms(1) by (simp_all add: scan_ok_def)
  note b = upsert_base_facts [OF ok(1) u(1,3)]
  define s' where "s' = (with_payload r s)\<lparr>sch_target_id := ssi_datasource_id p, sch_next_run_at := nxt,
       sch_recipients := active_recipients st (ssi_recipient_user_ids p)\<rparr>"
  have s': "sch_id s' = sch_id s" "sch_target_id s' = sch_target_id s" "stored_ok s'"
    using b(2,3) stored_payload [OF u(2) b(3)] by (simp_all add: s'_def)
  have rows: "scan_schedules st' = map (\<lambda>k. if sch_id k = sch_id s then s' else k) (scan_schedules st1)"
    "scan_next_schedule st' = scan_next_schedule st1"
    unfolding u(4) s'_def [symmetric] by (simp_all add: s'(1))
  have same: "k = s" if "k \<in> set (scan_schedules st1)" "sch_id k = sch_id s" for k
    using that b(1,5) by (auto simp: distinct_map inj_on_def)
  have "map sch_id (scan_schedules st') = map sch_id (scan_schedules st1)"
    "map sch_target_id (scan_schedules st') = map sch_target_id (scan_schedules st1)"
    unfolding rows using s'(1,2) same by auto
  moreover have "\<forall>k\<in>set (scan_schedules st'). sch_id k < scan_next_schedule st' \<and> stored_ok k"
    unfolding rows using s' b(1,7,8) by auto
  ultimately have "schedules_ok st'"
    using b(5,6) by (simp add: schedules_ok_def list_all_iff)
  moreover have "scan_jobs st' = scan_jobs st" using u(4) b(4) by simp
  ultimately show ?thesis using ok(2) by (simp add: scan_ok_def)
qed

section \<open>Histories\<close>

datatype scan_event =
    UpsertSchedule scan_schedule_in
  | DeleteSchedule int
  | ReportRun int run_report
  | MarkDispatched int "instant option"
  | RunScan scan_source "int option" string
  | SchedulerCycle cycle_env string bool
  | QueueWork queue_event

fun scan_step :: "jobs_env \<Rightarrow> zoneinfo \<Rightarrow> scan_store \<Rightarrow> instant \<times> scan_event \<Rightarrow> scan_store" where
  "scan_step env zi st (now, UpsertSchedule p) = or_same st (upsert_scan_schedule zi now p st)"
| "scan_step env zi st (now, DeleteSchedule i) = delete_scan_schedule i st"
| "scan_step env zi st (now, ReportRun i r) = or_same st (update_scan_schedule_run_state zi now (Some i) r st)"
| "scan_step env zi st (now, MarkDispatched i t) = mark_scan_schedule_dispatched now i t st"
| "scan_step env zi st (now, RunScan d by_user uid) = fst (enqueue_datasource_scan env now uid d by_user ''manual'' None st)"
| "scan_step env zi st (now, SchedulerCycle cyc uid force) =
     fst (run_datasource_scan_scheduler_cycle env zi cyc now (\<lambda>i. uid @ int_str i) force st)"
| "scan_step env zi st (now, QueueWork e) = st\<lparr>scan_jobs := queue_step env (scan_jobs st) e\<rparr>"

lemma schedules_ok_delete: "schedules_ok st \<Longrightarrow> schedules_ok (delete_scan_schedule i st)"
  by (auto simp: delete_scan_schedule_def schedules_ok_def list_all_iff distinct_map filter_set inj_on_def)

lemma scan_ok_step:
  assumes "scan_ok st"
  shows "scan_ok (scan_step env zi st ev)"
proof -
  obtain now e where ev: "ev = (now, e)" by fastforce
  have ok: "schedules_ok st" "queue_ok (scan_jobs st)" using assms by (simp_all add: scan_ok_def)
  show ?thesis unfolding ev
  proof (cases e)
    case (UpsertSchedule p)
    then show "scan_ok (scan_step env zi st (now, e))"
      using assms scan_ok_upsert by (cases "upsert_scan_schedule zi now p st") auto
  next
    case (DeleteSchedule i)
    then show "scan_ok (scan_step env zi st (now, e))"
      using ok schedules_ok_delete by (simp add: scan_ok_def) (simp add: delete_scan_schedule_def)
  next
    case (ReportRun i r)
    then show "scan_ok (scan_step env zi st (now, e))"
      using assms ok run_state_shape [OF ok(1)]
      by (cases "update_scan_schedule_run_state zi now (Some i) r st") (auto simp: scan_ok_def)
  next
    case (MarkDispatched i t)
    then show "scan_ok (scan_step env zi st (now, e))" using ok by (simp add: scan_ok_def mark_dispatched_shape)
  next
    case (RunScan d by_user uid)
    then show "scan_ok (scan_step env zi st (now, e))"
      using assms scan_ok_enqueue by (metis prod.collapse scan_step.simps(5))
  next
    case (SchedulerCycle cyc uid force)
    then show "scan_ok (scan_step env zi st (now, e))" using assms by (simp add: scan_ok_cycle)
  next
    case (QueueWork q)
    then show "scan_ok (scan_step env zi st (now, e))"
      using ok queue.inv_step by (simp add: scan_ok_def schedules_ok_def)
  qed
qed

interpretation scans: invariant_machine "scan_step env zi" scan_ok for env zi
  by unfold_locales (rule scan_ok_step)

section \<open>What a cycle achieves\<close>

definition scan_key :: "int \<Rightarrow> string" where
  "scan_key d = build_integration_job_key ''datasource'' ''scan'' (Some ''datasource'') (Some d)"

definition scan_in_progress :: "int \<Rightarrow> scan_store \<Rightarrow> bool" where
  "scan_in_progress d st = (\<exists>j\<in>set (js_jobs (scan_jobs st)). job_key j = scan_key d \<and> is_active j)"

lemma scan_request_key [simp]: "request_key (scan_request d by_user trigger sid rid) = scan_key (src_id d)"
  by (simp add: request_key_def scan_request_def scan_key_def or_else_def Let_def)

lemma scan_request_keeps [simp]: "enq_replace_stalled (scan_request d by_user trigger sid rid) = False"
  by (simp add: scan_request_def Let_def)

text \<open>Queueing adds at most one job, and either answer means that a scan of the source is in progress.\<close>

lemma enqueue_scan_progress:
  assumes "enqueue_datasource_scan env now uid d by_user trigger sid st = (st', r)"
    and "js_table_ready (scan_jobs st)"
  shows "scan_in_progress (src_id d) st'" and "scan_in_progress k st \<Longrightarrow> scan_in_progress k st'"
    and "js_table_ready (scan_jobs st')" and "r = Inl e \<Longrightarrow> \<exists>m. e = HTTPException 409 m"
proof -
  obtain rid res where e: "enqueue_integration_job env now uid (scan_request d by_user trigger sid rid) (scan_jobs st)
      = (scan_jobs st', res)" "r = map_sum id (\<lambda>_. ()) res"
    using enqueue_scan_shape(5) [OF assms(1)] by blast
  have "scan_in_progress (src_id d) st' \<and> (\<forall>k. scan_in_progress k st \<longrightarrow> scan_in_progress k st')
    \<and> js_table_ready (scan_jobs st') \<and> (\<forall>e. r = Inl e \<longrightarrow> (\<exists>m. e = HTTPException 409 m))"
  proof (cases "active_job (scan_jobs st) (scan_key (src_id d))")
    case None
    with e(1) assms(2) have "scan_jobs st' = insert_job (queued_row env now uid (js_next_id (scan_jobs st))
        (scan_request d by_user trigger sid rid)) (scan_jobs st)"
      "res = Inr (Some (queued_row env now uid (js_next_id (scan_jobs st)) (scan_request d by_user trigger sid rid)))"
      by (auto simp: enqueue_integration_job_def Let_def)
    with e(2) assms(2) show ?thesis by (auto simp: insert_job_def scan_in_progress_def)
  next
    case (Some act)
    with e assms(2) have "scan_jobs st' = scan_jobs st" "res = conflict_queued"
      by (auto simp: enqueue_integration_job_def Let_def)
    with active_job_Some [OF Some] e(2) assms(2) show ?thesis
      by (auto simp: scan_in_progress_def conflict_queued_def)
  qed
  then show "scan_in_progress (src_id d) st'" "scan_in_progress k st \<Longrightarrow> scan_in_progress k st'"
    "js_table_ready (scan_jobs st')" "r = Inl e \<Longrightarrow> \<exists>m. e = HTTPException 409 m"
    by blast+
qed

lemma run_state_cases:
  assumes "update_scan_schedule_run_state zi now (Some i) r st = Inr st'" and "scan_ready st"
  obtains (absent) "\<forall>k\<in>set (scan_schedules st). sch_id k \<noteq> i" "st' = st"
  | (present) s n where "s \<in> set (scan_schedules st)" "sch_id s = i"
      "compute_next_run_at zi (case rep_finished_at r of Some t \<Rightarrow> t | None \<Rightarrow> now) (reported now r s) = Inr n"
      "st' = put_schedule ((reported now r s)\<lparr>sch_next_run_at := n\<rparr>) st"
proof (cases "get_schedule i st")
  case None
  show thesis
  proof (rule absent)
    show "\<forall>k\<in>set (scan_schedules st). sch_id k \<noteq> i"
      using None by (auto simp: get_schedule_def find_None_iff)
    show "st' = st" using None assms by (simp add: update_scan_schedule_run_state_def)
  qed
next
  case (Some s)
  with assms obtain n where "compute_next_run_at zi (case rep_finished_at r of Some t \<Rightarrow> t | None \<Rightarrow> now) (reported now r s) = Inr n"
      "st' = put_schedule ((reported now r s)\<lparr>sch_next_run_at := n\<rparr>) st"
    by (auto simp: update_scan_schedule_run_state_def Let_def res_bind_Inr_iff)
  with get_schedule_Some [OF Some] show thesis by (intro present) simp_all
qed

lemma run_state_rows:
  assumes "update_scan_schedule_run_state zi now (Some i) r st = Inr st'" and "scan_ready st"
    and "k \<in> set (scan_schedules st')"
  shows "\<exists>k'\<in>set (scan_schedules st). sch_id k' = sch_id k \<and> sch_target_id k' = sch_target_id k"
  using assms(1,2)
proof (cases rule: run_state_cases)
  case absent
  with assms(3) show ?thesis by blast
next
  case (present s n)
  from assms(3) have "k = (reported now r s)\<lparr>sch_next_run_at := n\<rparr> \<or> k \<in> set (scan_schedules st)"
    unfolding present(4) by auto
  then show ?thesis
  proof
    assume "k = (reported now r s)\<lparr>sch_next_run_at := n\<rparr>"
    with present(1) show ?thesis by (intro bexI [of _ s]) simp_all
  qed blast
qed

lemma run_state_not_due:
  assumes "schedules_ok st" and "scan_ready st"
    and "update_scan_schedule_run_state zi now (Some i) r st = Inr st'" and "rep_finished_at r = Some now"
    and "k \<in> set (scan_schedules st')"
  shows "sch_id k = i \<Longrightarrow> \<not> is_due now k" and "sch_id k \<noteq> i \<Longrightarrow> k \<in> set (scan_schedules st)"
proof -
  have "(sch_id k = i \<longrightarrow> \<not> is_due now k) \<and> (sch_id k \<noteq> i \<longrightarrow> k \<in> set (scan_schedules st))"
    using assms(3,2)
  proof (cases rule: run_state_cases)
    case absent
    with assms(5) show ?thesis by blast
  next
    case (present s n)
    have "sch_timezone (reported now r s) = None"
      using schedules_ok_stored [OF assms(1) present(1)] by (simp add: stored_ok_def)
    then have "now < t" if "n = Some t" for t
      using next_run_after [of "reported now r s" zi now t] present(3) that assms(4) by simp
    then have "\<not> is_due now ((reported now r s)\<lparr>sch_next_run_at := n\<rparr>)"
      by (auto simp: is_due_def split: option.splits)
    with assms(5) present(2) show ?thesis unfolding present(4) by (auto split: if_splits)
  qed
  then show "sch_id k = i \<Longrightarrow> \<not> is_due now k" "sch_id k \<noteq> i \<Longrightarrow> k \<in> set (scan_schedules st)" by blast+
qed

lemma mark_queued_rows:
  assumes "k \<in> set (scan_schedules (mark_scan_schedule_queued i q st))"
  shows "\<exists>k'\<in>set (scan_schedules st). sch_id k' = sch_id k \<and> sch_target_id k' = sch_target_id k
    \<and> is_due now k' = is_due now k"
  using assms
  by (auto simp: mark_scan_schedule_queued_def is_due_def split: option.splits if_splits dest!: get_schedule_Some)

text \<open>After a cycle that was not cut short, every schedule that is still due has a scan in progress.\<close>

definition due_covered :: "instant \<Rightarrow> int set \<Rightarrow> scan_store \<Rightarrow> bool" where
  "due_covered now todo st =
     (\<forall>k\<in>set (scan_schedules st). is_due now k \<longrightarrow> sch_id k \<in> todo \<or> scan_in_progress (sch_target_id k) st)"

lemma covered_row:
  "due_covered now T st \<Longrightarrow> k \<in> set (scan_schedules st) \<Longrightarrow> is_due now k \<Longrightarrow>
     sch_id k \<in> T \<or> scan_in_progress (sch_target_id k) st"
  by (simp add: due_covered_def)

lemma dispatch_covers:
  assumes d: "dispatch_schedule env zi now uid s c st = (c', Inr (st', out))"
    and ok: "scan_ok st" "scan_ready st" "js_table_ready (scan_jobs st)"
    and s: "\<And>k. k \<in> set (scan_schedules st) \<Longrightarrow> sch_id k = sch_id s \<Longrightarrow> sch_target_id k = sch_target_id s"
    and cov: "due_covered now (insert (sch_id s) todo) st"
  shows "due_covered now todo st' \<and> scan_ready st' \<and> js_table_ready (scan_jobs st')"
    and "k \<in> set (scan_schedules st') \<Longrightarrow> \<exists>k'\<in>set (scan_schedules st). sch_id k' = sch_id k \<and> sch_target_id k' = sch_target_id k"
proof -
  let ?rep = "\<lambda>a e. \<lparr>rep_status = a, rep_error = Some e, rep_started_at = None, rep_finished_at = Some now\<rparr>"
  have so: "schedules_ok st" using ok(1) by (simp add: scan_ok_def)
  have report: "due_covered now todo st' \<and> scan_ready st' \<and> js_table_ready (scan_jobs st')"
    and rows: "k \<in> set (scan_schedules st') \<Longrightarrow> \<exists>k'\<in>set (scan_schedules st). sch_id k' = sch_id k \<and> sch_target_id k' = sch_target_id k"
    if u: "update_scan_schedule_run_state zi now (Some (sch_id s)) (?rep a e) st1 = Inr st'"
      and st1: "schedules_ok st1" "scan_ready st1" "js_table_ready (scan_jobs st1)"
        "due_covered now (insert (sch_id s) todo) st1"
        "\<And>k. k \<in> set (scan_schedules st1) \<Longrightarrow> \<exists>k'\<in>set (scan_schedules st). sch_id k' = sch_id k \<and> sch_target_id k' = sch_target_id k"
    for st1 a e k
  proof -
    note sh = run_state_shape [OF st1(1) u]
    note nd = run_state_not_due [OF st1(1,2) u]
    have "sch_id k \<in> todo \<or> scan_in_progress (sch_target_id k) st'"
      if k: "k \<in> set (scan_schedules st')" "is_due now k" for k
      using nd [OF _ k(1)] k(2) covered_row [OF st1(4) _ k(2)] sh by (auto simp: scan_in_progress_def)
    then show "due_covered now todo st' \<and> scan_ready st' \<and> js_table_ready (scan_jobs st')"
      using sh st1(2,3) by (simp add: due_covered_def)
    show "\<exists>k'\<in>set (scan_schedules st). sch_id k' = sch_id k \<and> sch_target_id k' = sch_target_id k"
      if kin: "k \<in> set (scan_schedules st')"
    proof -
      obtain k1 where "k1 \<in> set (scan_schedules st1)" "sch_id k1 = sch_id k" "sch_target_id k1 = sch_target_id k"
        using run_state_rows [OF u st1(2) kin] by blast
      with st1(5) [of k1] show ?thesis by auto
    qed
  qed
  have both: "(due_covered now todo st' \<and> scan_ready st' \<and> js_table_ready (scan_jobs st')) \<and>
     (k \<in> set (scan_schedules st') \<longrightarrow> (\<exists>k'\<in>set (scan_schedules st). sch_id k' = sch_id k \<and> sch_target_id k' = sch_target_id k))"
  proof (cases "List.find (\<lambda>d. src_id d = sch_target_id s) (scan_sources st)")
    case None
    with d have "update_scan_schedule_run_state zi now (Some (sch_id s)) (?rep ''failed'' ''Datasource not found'') st = Inr st'"
      by (auto simp: dispatch_schedule_def map_sum_Inr_iff)
    from report [OF this so ok(2,3) cov] rows [OF this so ok(2,3) cov] show ?thesis by blast
  next
    case (Some ds)
    then have ds: "src_id ds = sch_target_id s" by (auto simp: find_Some_iff)
    let ?st0 = "mark_scan_schedule_queued (sch_id s) (Some now) st"
    obtain st1 r where e: "enqueue_datasource_scan env now (uid (sch_id s)) ds None ''scheduled'' (Some (sch_id s)) ?st0 = (st1, r)"
      by fastforce
    have tr: "js_table_ready (scan_jobs ?st0)" using ok(3) by (simp add: mark_queued_shape)
    note pr = enqueue_scan_progress [OF e tr]
    have rows1: "\<exists>k'\<in>set (scan_schedules st). sch_id k' = sch_id k \<and> sch_target_id k' = sch_target_id k
        \<and> is_due now k' = is_due now k" if "k \<in> set (scan_schedules st1)" for k
      using that mark_queued_rows by (simp add: enqueue_scan_shape(1) [OF e])
    have prog: "scan_in_progress t st \<Longrightarrow> scan_in_progress t st1" for t
      using pr(2) by (simp add: scan_in_progress_def mark_queued_shape)
    have here: "scan_in_progress (sch_target_id s) st1" using pr(1) ds by simp
    have cov1: "due_covered now todo st1"
      unfolding due_covered_def
    proof (intro ballI impI)
      fix k assume k: "k \<in> set (scan_schedules st1)" "is_due now k"
      obtain k' where k': "k' \<in> set (scan_schedules st)" "sch_id k' = sch_id k" "sch_target_id k' = sch_target_id k" "is_due now k'"
        using rows1 [OF k(1)] k(2) by blast
      from covered_row [OF cov k'(1,4)] s [OF k'(1)] k'(2,3) here prog
      show "sch_id k \<in> todo \<or> scan_in_progress (sch_target_id k) st1" by auto
    qed
    then have cov1': "due_covered now (insert (sch_id s) todo) st1" by (auto simp: due_covered_def)
    have st1: "schedules_ok st1" "scan_ready st1" "js_table_ready (scan_jobs st1)"
      using scan_ok_enqueue [OF e] ok pr(3) by (simp_all add: scan_ok_def mark_queued_shape enqueue_scan_shape(4) [OF e])
    show ?thesis
    proof (cases r)
      case (Inr _)
      with d Some e have "st' = st1" by (auto simp: dispatch_schedule_def)
      with cov1 st1 rows1 show ?thesis by auto
    next
      case (Inl err)
      with pr(4) d Some e obtain a m where "update_scan_schedule_run_state zi now (Some (sch_id s)) (?rep a m) st1 = Inr st'"
        by (auto simp: dispatch_schedule_def map_sum_Inr_iff split: py_error.splits if_splits)
      from report [OF this st1 cov1'] rows [OF this st1 cov1'] rows1 show ?thesis by blast
    qed
  qed
  then show "due_covered now todo st' \<and> scan_ready st' \<and> js_table_ready (scan_jobs st')" by blast
  from both show "k \<in> set (scan_schedules st') \<Longrightarrow> \<exists>k'\<in>set (scan_schedules st). sch_id k' = sch_id k \<and> sch_target_id k' = sch_target_id k"
    by blast
qed

lemma dispatch_all_covers:
  "dispatch_all env zi now uid ss c st = (c', Inr (st', os)) \<Longrightarrow> scan_ok c \<Longrightarrow> scan_ok st \<Longrightarrow> scan_ready st \<Longrightarrow>
     js_table_ready (scan_jobs st) \<Longrightarrow>
     (\<And>s k. s \<in> set ss \<Longrightarrow> k \<in> set (scan_schedules st) \<Longrightarrow> sch_id k = sch_id s \<Longrightarrow> sch_target_id k = sch_target_id s) \<Longrightarrow>
     due_covered now (sch_id ` set ss) st \<Longrightarrow> due_covered now {} st'"
proof (induction ss arbitrary: c st os)
  case (Cons s ss)
  from Cons.prems(1) obtain c1 st1 o1 os' where d: "dispatch_schedule env zi now uid s c st = (c1, Inr (st1, o1))"
    and rest: "dispatch_all env zi now uid ss c1 st1 = (c', Inr (st', os'))"
  proof -
    obtain c1 r1 where d: "dispatch_schedule env zi now uid s c st = (c1, r1)" by fastforce
    with Cons.prems(1) obtain st1 o1 where r1: "r1 = Inr (st1, o1)" by (cases r1) auto
    obtain c2 r2 where d2: "dispatch_all env zi now uid ss c1 st1 = (c2, r2)" by fastforce
    with Cons.prems(1) d r1 obtain os' where "r2 = Inr (st', os')" "c2 = c'" by (cases r2) auto
    with d2 have "dispatch_all env zi now uid ss c1 st1 = (c', Inr (st', os'))" by simp
    from d [unfolded r1] this show thesis by (rule that)
  qed
  have same: "\<And>k. k \<in> set (scan_schedules st) \<Longrightarrow> sch_id k = sch_id s \<Longrightarrow> sch_target_id k = sch_target_id s"
    by (rule Cons.prems(6)) simp_all
  have cov: "due_covered now (insert (sch_id s) (sch_id ` set ss)) st" using Cons.prems(7) by simp
  have dc1: "due_covered now (sch_id ` set ss) st1 \<and> scan_ready st1 \<and> js_table_ready (scan_jobs st1)"
    by (rule dispatch_covers(1) [OF d Cons.prems(3,4,5) _ cov]) (rule same)
  have dc2: "\<exists>k'\<in>set (scan_schedules st). sch_id k' = sch_id k \<and> sch_target_id k' = sch_target_id k"
    if "k \<in> set (scan_schedules st1)" for k
    by (rule dispatch_covers(2) [OF d Cons.prems(3,4,5) _ cov that]) (rule same)
  have ok: "scan_ok c1" "scan_ok st1" using scan_ok_dispatch [OF d Cons.prems(2,3)] by auto
  show ?case
  proof (rule Cons.IH [OF rest ok])
    fix t k assume t: "t \<in> set ss" and k: "k \<in> set (scan_schedules st1)" "sch_id k = sch_id t"
    from dc2 [OF k(1)] obtain k' where "k' \<in> set (scan_schedules st)" "sch_id k' = sch_id k" "sch_target_id k' = sch_target_id k"
      by blast
    with Cons.prems(6) [of t k'] t k(2) show "sch_target_id k = sch_target_id t" by simp
  qed (use dc1 in auto)
qed simp

lemma cycle_covers:
  assumes run: "run_datasource_scan_scheduler_cycle env zi cyc now uid force st = (st', Inr summary)"
    and on: "cyc_enabled cyc \<or> force" "cyc_lock cyc" "scan_ready st"
    and ok: "scan_ok st" "js_table_ready (scan_jobs st)"
  shows "due_covered now {} st'"
proof -
  from run on obtain st1 due c os where sel: "select_due_schedules zi now st = Inr (st1, due)"
    and all: "dispatch_all env zi now uid due st st1 = (c, Inr (st', os))"
  proof -
    have act: "\<not> (\<not> cyc_enabled cyc \<and> \<not> force)" using on(1) by blast
    obtain st1 due where sel: "select_due_schedules zi now st = Inr (st1, due)"
      using run on(2,3) act
      by (cases "select_due_schedules zi now st") (auto simp: run_datasource_scan_scheduler_cycle_def)
    obtain c r where d: "dispatch_all env zi now uid due st st1 = (c, r)" by fastforce
    with run on(2,3) act sel obtain os where "r = Inr (st', os)"
      by (cases r) (auto simp: run_datasource_scan_scheduler_cycle_def)
    with d have "dispatch_all env zi now uid due st st1 = (c, Inr (st', os))" by simp
    from sel this show thesis by (rule that)
  qed
  note sh = select_shape [OF sel ok(1)]
  have link: "\<exists>s\<in>set (scan_schedules st). fill_next_run zi now s = Inr k" if kin: "k \<in> set (scan_schedules st1)" for k
  proof -
    obtain n where n: "n < length (scan_schedules st1)" "k = scan_schedules st1 ! n"
      using kin unfolding in_set_conv_nth by blast
    have "fill_next_run zi now (scan_schedules st ! n) = Inr k" "n < length (scan_schedules st)"
      using list_all2_nthD2 [OF sh(6) n(1)] list_all2_lengthD [OF sh(6)] n by simp_all
    then show ?thesis using nth_mem by blast
  qed
  show ?thesis
  proof (rule dispatch_all_covers [OF all ok(1) sh(1)])
    show "sch_target_id k = sch_target_id s" if sk: "s \<in> set due" "k \<in> set (scan_schedules st1)" "sch_id k = sch_id s" for s k
    proof -
      obtain s0 where "s0 \<in> set (scan_schedules st)" "fill_next_run zi now s0 = Inr k" using link sk(2) by blast
      moreover have "s \<in> set (scan_schedules st)" using sk(1) sh(5) by simp
      ultimately show ?thesis
        using fill_next_run_shape same_schedule [of st s s0] ok(1) sk(3) by (auto simp: scan_ok_def)
    qed
    have "sch_id k \<in> sch_id ` set due" if k: "k \<in> set (scan_schedules st1)" "is_due now k" for k
    proof -
      obtain s0 where s0: "s0 \<in> set (scan_schedules st)" "fill_next_run zi now s0 = Inr k" using link k(1) by blast
      have tz: "sch_timezone s0 = None"
        using schedules_ok_stored [OF _ s0(1)] ok(1) by (simp add: scan_ok_def stored_ok_def)
      have "is_due now s0"
        using s0(2) k(2) next_run_after [OF tz]
        by (fastforce simp: fill_next_run_def is_due_def res_bind_Inr_iff split: if_splits option.splits)
      with s0 sh(5) fill_next_run_shape [OF s0(2)] show ?thesis by force
    qed
    then show "due_covered now (sch_id ` set due) st1" by (simp add: due_covered_def)
  qed (use sh ok on in simp_all)
qed

section \<open>Data quality rules\<close>

record scheduled_rule =
  sr_schedule :: schedule_row
  sr_active :: bool
  sr_archived :: bool
  sr_defined :: bool

definition scheduled_rules :: "scheduled_rule list \<Rightarrow> scheduled_rule list" where
  "scheduled_rules rules = sort_key (\<lambda>r. sch_id (sr_schedule r))
     (filter (\<lambda>r. sr_active r \<and> sch_enabled (sr_schedule r) = Some True \<and> \<not> sr_archived r \<and> sr_defined r) rules)"

definition rule_due :: "zoneinfo \<Rightarrow> instant \<Rightarrow> schedule_row \<Rightarrow> bool res" where
  "rule_due zi now s =
     (if schedule_mode_of s = ''interval'' \<and> sch_last_run_at s = None then Inr True
      else map_sum id (\<lambda>n. case n of None \<Rightarrow> False | Some t \<Rightarrow> t \<le> now) (compute_next_run_at zi now s))"

fun due_rules :: "zoneinfo \<Rightarrow> instant \<Rightarrow> scheduled_rule list \<Rightarrow> scheduled_rule list res" where
  "due_rules zi now [] = Inr []"
| "due_rules zi now (r # rs) =
     res_bind (rule_due zi now (sr_schedule r)) (\<lambda>d.
       map_sum id (\<lambda>ds. if d then r # ds else ds) (due_rules zi now rs))"

text \<open>
  The loop over the due rules: creating the run and queueing it either succeeds and is committed with the new
  \<open>schedule_last_run_at\<close>, or everything about this rule is rolled back.  Whether it succeeds is an argument.
\<close>

definition mark_run :: "instant \<Rightarrow> int list \<Rightarrow> scheduled_rule \<Rightarrow> scheduled_rule" where
  "mark_run now ids r =
     (if sch_id (sr_schedule r) \<in> set ids then r\<lparr>sr_schedule := (sr_schedule r)\<lparr>sch_last_run_at := Some now\<rparr>\<rparr> else r)"

definition run_dq_scheduler_cycle ::
  "zoneinfo \<Rightarrow> instant \<times> (int \<Rightarrow> bool) \<Rightarrow> scheduled_rule list \<Rightarrow> scheduled_rule list \<times> int list" where
  "run_dq_scheduler_cycle zi ev rules =
     (case due_rules zi (fst ev) (scheduled_rules rules) of
        Inl _ \<Rightarrow> (rules, [])
      | Inr due \<Rightarrow>
          (let queued = filter (snd ev) (map (\<lambda>r. sch_id (sr_schedule r)) due)
           in (map (mark_run (fst ev) queued) rules, queued)))"

text \<open>The identifiers of the rules queued by a sequence of cycles.\<close>

fun dq_history :: "zoneinfo \<Rightarrow> scheduled_rule list \<Rightarrow> (instant \<times> (int \<Rightarrow> bool)) list \<Rightarrow> int list" where
  "dq_history zi rules [] = []"
| "dq_history zi rules (ev # evs) =
     (case run_dq_scheduler_cycle zi ev rules of (rules', queued) \<Rightarrow> queued @ dq_history zi rules' evs)"

lemma rule_due_iff:
  assumes "sch_timezone s = None"
  shows "rule_due zi now s = Inr True \<longleftrightarrow> schedule_mode_of s = ''interval'' \<and> sch_last_run_at s = None"
proof -
  have "\<not> t \<le> now" if "compute_next_run_at zi now s = Inr (Some t)" for t
    using next_run_after [OF assms that] by simp
  then show ?thesis by (auto simp: rule_due_def map_sum_Inr_iff split: option.splits)
qed

lemma due_rules_in:
  "due_rules zi now rs = Inr ds \<Longrightarrow> r \<in> set ds \<Longrightarrow> r \<in> set rs \<and> rule_due zi now (sr_schedule r) = Inr True"
  by (induction rs arbitrary: ds) (auto simp: res_bind_Inr_iff map_sum_Inr_iff split: if_splits)

lemma due_rules_distinct:
  "due_rules zi now rs = Inr ds \<Longrightarrow> distinct (map f rs) \<Longrightarrow> distinct (map f ds)"
proof (induction rs arbitrary: ds)
  case (Cons r rs)
  then obtain d es where es: "due_rules zi now rs = Inr es" "ds = (if d then r # es else es)"
    by (auto simp: res_bind_Inr_iff map_sum_Inr_iff)
  have "set es \<subseteq> set rs" using due_rules_in [OF es(1)] by blast
  with Cons es show ?case by auto
qed simp

definition rules_ok :: "scheduled_rule list \<Rightarrow> bool" where
  "rules_ok rules =
     (distinct (map (\<lambda>r. sch_id (sr_schedule r)) rules) \<and> list_all (\<lambda>r. sch_timezone (sr_schedule r) = None) rules)"

definition has_run :: "int \<Rightarrow> scheduled_rule list \<Rightarrow> bool" where
  "has_run i rules = list_all (\<lambda>r. sch_id (sr_schedule r) = i \<longrightarrow> sch_last_run_at (sr_schedule r) \<noteq> None) rules"

lemma mark_run_fields [simp]:
  "sch_id (sr_schedule (mark_run now ids r)) = sch_id (sr_schedule r)"
  "sch_timezone (sr_schedule (mark_run now ids r)) = sch_timezone (sr_schedule r)"
  by (simp_all add: mark_run_def)

lemma dq_cycle_facts:
  assumes ok: "rules_ok rules" and run: "run_dq_scheduler_cycle zi ev rules = (rules', queued)"
  shows "rules_ok rules'" and "distinct queued" and "has_run i rules \<Longrightarrow> has_run i rules' \<and> i \<notin> set queued"
    and "i \<in> set queued \<Longrightarrow> has_run i rules'"
proof -
  have shape: "rules' = rules \<and> queued = [] \<or>
      (\<exists>due. due_rules zi (fst ev) (scheduled_rules rules) = Inr due
        \<and> queued = filter (snd ev) (map (\<lambda>r. sch_id (sr_schedule r)) due)
        \<and> rules' = map (mark_run (fst ev) queued) rules)"
    using run by (auto simp: run_dq_scheduler_cycle_def Let_def split: sum.splits)
  then show "rules_ok rules'" using ok by (auto simp: rules_ok_def list_all_iff comp_def)
  have "distinct (map (\<lambda>r. sch_id (sr_schedule r)) (scheduled_rules rules))"
    using ok by (simp add: rules_ok_def scheduled_rules_def distinct_map filter_set inj_on_def)
  with shape show "distinct queued" by (auto dest: due_rules_distinct)
  show "i \<in> set queued \<Longrightarrow> has_run i rules'"
    using shape by (auto simp: has_run_def list_all_iff mark_run_def)
  show "has_run i rules' \<and> i \<notin> set queued" if i: "has_run i rules"
  proof
    show "has_run i rules'" using shape i by (auto simp: has_run_def list_all_iff mark_run_def)
    have "sch_timezone (sr_schedule r) = None" "sch_id (sr_schedule r) = i \<longrightarrow> sch_last_run_at (sr_schedule r) \<noteq> None"
      if "r \<in> set (scheduled_rules rules)" for r
      using that ok i by (auto simp: scheduled_rules_def rules_ok_def has_run_def list_all_iff)
    then have no: "rule_due zi (fst ev) (sr_schedule r) \<noteq> Inr True"
      if "r \<in> set (scheduled_rules rules)" "sch_id (sr_schedule r) = i" for r
      using that rule_due_iff by blast
    show "i \<notin> set queued"
    proof
      assume "i \<in> set queued"
      with shape obtain due r where "due_rules zi (fst ev) (scheduled_rules rules) = Inr due" "r \<in> set due"
          "sch_id (sr_schedule r) = i" by auto
      with no show False using due_rules_in by blast
    qed
  qed
qed

lemma dq_history_has_run: "rules_ok rules \<Longrightarrow> has_run i rules \<Longrightarrow> i \<notin> set (dq_history zi rules evs)"
proof (induction evs arbitrary: rules)
  case (Cons ev evs)
  obtain rules' queued where run: "run_dq_scheduler_cycle zi ev rules = (rules', queued)" by fastforce
  note f = dq_cycle_facts [OF Cons.prems(1) run]
  with Cons show ?case by (simp add: run)
qed simp

lemma dq_history_distinct: "rules_ok rules \<Longrightarrow> distinct (dq_history zi rules evs)"
proof (induction evs arbitrary: rules)
  case (Cons ev evs)
  obtain rules' queued where run: "run_dq_scheduler_cycle zi ev rules = (rules', queued)" by fastforce
  note f = dq_cycle_facts [OF Cons.prems run]
  with Cons.IH [OF f(1)] dq_history_has_run [OF f(1)] show ?case by (auto simp: run)
qed simp

lemma dq_history_interval:
  "rules_ok rules \<Longrightarrow> i \<in> set (dq_history zi rules evs) \<Longrightarrow>
     \<exists>r\<in>set rules. sch_id (sr_schedule r) = i \<and> schedule_mode_of (sr_schedule r) = ''interval''"
proof (induction evs arbitrary: rules)
  case (Cons ev evs)
  obtain rules' queued where run: "run_dq_scheduler_cycle zi ev rules = (rules', queued)" by fastforce
  have mode: "schedule_mode_of (sr_schedule (mark_run n ids r)) = schedule_mode_of (sr_schedule r)" for n ids r
    by (simp add: schedule_mode_of_def mark_run_def)
  have same: "set rules' = set rules \<or> (\<exists>ids. rules' = map (mark_run (fst ev) ids) rules)"
    using run by (auto simp: run_dq_scheduler_cycle_def Let_def split: sum.splits)
  show ?case
  proof (cases "i \<in> set queued")
    case True
    then obtain due r where "due_rules zi (fst ev) (scheduled_rules rules) = Inr due" "r \<in> set due"
        "sch_id (sr_schedule r) = i"
      using run by (auto simp: run_dq_scheduler_cycle_def Let_def split: sum.splits)
    then have r: "r \<in> set (scheduled_rules rules)" "rule_due zi (fst ev) (sr_schedule r) = Inr True"
      "sch_id (sr_schedule r) = i" by (auto dest: due_rules_in)
    then have "r \<in> set rules" by (auto simp: scheduled_rules_def)
    with r rule_due_iff [of "sr_schedule r" zi "fst ev"] Cons.prems(1) show ?thesis
      by (auto simp: rules_ok_def list_all_iff)
  next
    case False
    with Cons.prems(2) run have "i \<in> set (dq_history zi rules' evs)" by simp
    from Cons.IH [OF dq_cycle_facts(1) [OF Cons.prems(1) run] this] same show ?thesis
    proof (elim disjE exE)
      fix ids assume "rules' = map (mark_run (fst ev) ids) rules"
      with \<open>\<exists>r\<in>set rules'. _\<close> show ?thesis by (force simp: mode)
    qed simp
  qed
qed simp

section \<open>Properties\<close>

text \<open>C18: However often and whenever the data quality scheduler runs, it queues a rule at most once in its life, and
  only a rule in interval mode: the due test asks for a next run that is over, and the next run after a moment never is.\<close>

theorem scheduled_rules_queued_once:
  assumes "rules_ok rules"
  shows "distinct (dq_history zi rules evs) \<and>
    (\<forall>i\<in>set (dq_history zi rules evs). \<exists>r\<in>set rules. sch_id (sr_schedule r) = i \<and>
       infer_schedule_mode (sch_mode (sr_schedule r)) (sch_enabled (sr_schedule r)) (sch_every_minutes (sr_schedule r)) = ''interval'')"
  using dq_history_distinct [OF assms] dq_history_interval [OF assms] by (simp add: schedule_mode_of_def)

definition demo_rules :: "scheduled_rule list" where
  "demo_rules = [\<lparr>sr_schedule = demo_schedule\<lparr>sch_id := 2\<rparr>, sr_active = True, sr_archived = False, sr_defined = True\<rparr>,
     \<lparr>sr_schedule = demo_schedule\<lparr>sch_mode := Some ''interval'', sch_every_minutes := Some 5\<rparr>,
      sr_active = True, sr_archived = False, sr_defined = True\<rparr>]"

lemma demo_rules_history: "dq_history no_zones demo_rules [(5, \<lambda>_. True), (300000005, \<lambda>_. True)] = [1]"
  by code_simp

theorem scheduled_rules_queued_once_witness:
  "\<exists>r\<in>set demo_rules. sch_id (sr_schedule r) = 1 \<and>
     infer_schedule_mode (sch_mode (sr_schedule r)) (sch_enabled (sr_schedule r)) (sch_every_minutes (sr_schedule r)) = ''interval''"
proof -
  have "rules_ok demo_rules" by code_simp
  from scheduled_rules_queued_once [OF this, of no_zones "[(5, \<lambda>_. True), (300000005, \<lambda>_. True)]"]
  show ?thesis unfolding demo_rules_history by simp
qed

text \<open>C16: A cycle that runs to its end leaves no due schedule behind: every schedule that is still due afterwards has a
  scan of its data source queued or running.\<close>

theorem cycle_serves_due:
  assumes "run_datasource_scan_scheduler_cycle env zi cyc now uid force st = (st', Inr summary)"
    and "cyc_enabled cyc \<or> force" "cyc_lock cyc" "scan_ready st"
    and "scan_ok st" "js_table_ready (scan_jobs st)"
    and "s \<in> set (scan_schedules st')" "is_due now s"
  shows "\<exists>j\<in>set (js_jobs (scan_jobs st')). job_status j \<in> {''queued'', ''running''} \<and>
    job_key j = build_integration_job_key ''datasource'' ''scan'' (Some ''datasource'') (Some (sch_target_id s))"
proof -
  have "scan_in_progress (sch_target_id s) st'"
    using covered_row [OF cycle_covers [OF assms(1-6)] assms(7,8)] by simp
  then show ?thesis
    by (auto simp: scan_in_progress_def scan_key_def is_active_def active_job_statuses_def)
qed

definition demo_scan_in :: scan_schedule_in where
  "demo_scan_in = \<lparr>ssi_datasource_id = 5, ssi_mode = ''interval'', ssi_enabled = True, ssi_every_minutes = Some 5,
     ssi_time = None, ssi_day_of_week = None, ssi_day_of_month = None, ssi_anchor_date = None,
     ssi_recipient_user_ids = [7, 0, 7]\<rparr>"

definition demo_scan_row :: schedule_row where
  "demo_scan_row = (new_schedule 1 5)\<lparr>sch_mode := Some ''interval'', sch_enabled := Some True,
     sch_every_minutes := Some 5, sch_next_run_at := Some 100\<rparr>"

definition demo_scans :: "schedule_row list \<Rightarrow> scan_store" where
  "demo_scans rows = \<lparr>scan_schedules = rows, scan_next_schedule = 2,
     scan_sources = [\<lparr>src_id = 5, src_name = ''dw'', src_db_type = ''postgres''\<rparr>], scan_active_users = [7], scan_runs = [],
     scan_next_run = 1, scan_jobs = demo_store [], scan_ready = True\<rparr>"

lemma demo_scans_ok: "scan_ok (demo_scans [demo_scan_row])" "scan_ok (demo_scans [])"
proof -
  have "queue_ok (demo_store [])" by (simp add: queue_ok_def demo_store_def)
  moreover have "stored_ok demo_scan_row"
    by (simp add: stored_ok_def demo_scan_row_def new_schedule_def enabled_shapes modes_known)
  moreover have "sch_id demo_scan_row = 1" by (simp add: demo_scan_row_def new_schedule_def)
  ultimately show "scan_ok (demo_scans [demo_scan_row])" "scan_ok (demo_scans [])"
    by (simp_all add: scan_ok_def schedules_ok_def demo_scans_def)
qed

definition demo_cycle :: "scan_store \<times> cycle_summary res" where
  "demo_cycle = run_datasource_scan_scheduler_cycle demo_jobs_env no_zones \<lparr>cyc_enabled = True, cyc_lock = True\<rparr>
     200 (\<lambda>_. ''u'') False (demo_scans [demo_scan_row])"

lemma demo_cycle_result:
  "map_sum id sum_success (snd demo_cycle) = Inr 1"
  "map (\<lambda>s. (is_due 200 s, sch_target_id s)) (scan_schedules (fst demo_cycle)) = [(True, 5)]"
  by (code_simp, code_simp)

theorem cycle_serves_due_witness:
  "\<exists>j\<in>set (js_jobs (scan_jobs (fst demo_cycle))). job_status j \<in> {''queued'', ''running''} \<and>
     job_key j = build_integration_job_key ''datasource'' ''scan'' (Some ''datasource'') (Some 5)"
proof -
  obtain s where s: "s \<in> set (scan_schedules (fst demo_cycle))" "is_due 200 s" "sch_target_id s = 5"
    using demo_cycle_result(2) by (auto simp: map_eq_Cons_conv)
  obtain summary where "demo_cycle = (fst demo_cycle, Inr summary)"
    using demo_cycle_result(1) by (auto simp: map_sum_Inr_iff prod_eq_iff)
  from cycle_serves_due [OF this [unfolded demo_cycle_def] _ _ _ demo_scans_ok(1) _ _ s(2)] s
  show ?thesis by (simp add: demo_cycle_def demo_scans_def demo_store_def)
qed

text \<open>C17: Whatever is scheduled, deleted, reported, scanned by hand, fired by cycles and worked off by the queue, and
  in whatever order: each data source has at most one schedule, every stored schedule is one that validation accepts,
  and each key has at most one active job.\<close>

theorem scans_ok_history:
  assumes "scan_ok st"
  shows "scan_ok (foldl (scan_step env zi) st evs)"
  using assms by (rule scans.inv_run)

theorem scans_ok_history_witness:
  "scan_ok (foldl (scan_step demo_jobs_env no_zones) (demo_scans [])
     [(10, UpsertSchedule demo_scan_in), (400000000, SchedulerCycle \<lparr>cyc_enabled = True, cyc_lock = True\<rparr> ''u'' False),
      (400000001, QueueWork (Claim [] 400000001 None None)), (400000002, DeleteSchedule 2)])"
  by (rule scans_ok_history) (rule demo_scans_ok(2))

lemma validated_enabled:
  assumes "validate_schedule_payload now p ex = Inr r"
  shows "sp_enabled r = Some (Some (requested_enabled p ex))"
proof (cases "requested_enabled p ex")
  case True
  with assms show ?thesis
    by (auto simp: validate_schedule_payload_def Let_def map_sum_Inr_iff normalized_def http422_def split: if_splits)
next
  case False
  with assms show ?thesis by (auto simp: validate_schedule_payload_def Let_def no_payload_def)
qed

text \<open>A stored schedule that is enabled has what its mode needs.\<close>

lemma stored_schedulable:
  assumes "stored_ok s" and "sch_enabled s = Some True"
    and "datetime_min \<le> now" "now + schedule_period s \<le> datetime_max"
    and "\<And>l. sch_last_run_at s = Some l \<Longrightarrow> datetime_min \<le> l \<and> l \<le> now"
    and "anchor_day s now \<le> date_of now"
  shows "schedulable s now"
proof -
  obtain mode where m: "sch_mode s = Some mode" "mode \<in> set SCHEDULE_MODES" "sch_timezone s = None"
    "enabled_shape mode (sch_every_minutes s) (sch_time s) (sch_day_of_week s) (sch_day_of_month s) (sch_anchor_date s)"
    using assms(1,2) by (auto simp: stored_ok_def split: option.splits)
  from m(2,4) have "schedule_mode_of s = mode" "mode \<noteq> ''manual''"
    unfolding schedule_mode_of_def m(1) assms(2)
    by (auto simp: SCHEDULE_MODES_def infer_fixed) (simp_all add: enabled_shape_def)
  with m(3,4) assms(3-6) show ?thesis
    by (auto simp: schedulable_def enabled_shape_def split: option.splits)
qed

lemma plan_fields [simp]:
  "schedule_mode_of (s\<lparr>sch_target_id := d, sch_next_run_at := n, sch_recipients := rs\<rparr>) = schedule_mode_of s"
  "anchor_day (s\<lparr>sch_target_id := d, sch_next_run_at := n, sch_recipients := rs\<rparr>) t = anchor_day s t"
  by (simp_all add: schedule_mode_of_def anchor_day_def cong: option.case_cong)

lemma plan_period [simp]:
  "schedule_period (s\<lparr>sch_target_id := d, sch_next_run_at := n, sch_recipients := rs\<rparr>) = schedule_period s"
  by (simp add: schedule_period_def Let_def)

lemma plan_schedulable [simp]:
  "schedulable (s\<lparr>sch_target_id := d, sch_next_run_at := n, sch_recipients := rs\<rparr>) t = schedulable s t"
  by (simp add: schedulable_def)

text \<open>An upsert that succeeds with an enabled schedule always sets a next run, after now and within its period, as
  long as the last run is not in the future, the anchor not after today and the calendar does not end.\<close>

theorem upsert_plans_next_run:
  assumes "scan_ok st" and "upsert_scan_schedule zi now p st = Inr st'" and "ssi_enabled p"
    and "s \<in> set (scan_schedules st')" "sch_target_id s = ssi_datasource_id p"
    and "datetime_min \<le> now" "now + schedule_period s \<le> datetime_max"
    and "\<And>l. sch_last_run_at s = Some l \<Longrightarrow> datetime_min \<le> l \<and> l \<le> now"
    and "anchor_day s now \<le> date_of now"
  shows "\<exists>t. sch_next_run_at s = Some t \<and> now < t \<and> t \<le> now + schedule_period s"
proof -
  from assms(2) obtain r b st1 nxt where u: "scan_ready st" "validate_schedule_payload now (dumped p) no_payload = Inr r"
    "upsert_base (ssi_datasource_id p) st = (b, st1)" "compute_next_run_at zi now (with_payload r b) = Inr nxt"
    "st' = put_schedule ((with_payload r b)\<lparr>sch_target_id := ssi_datasource_id p, sch_next_run_at := nxt,
       sch_recipients := active_recipients st (ssi_recipient_user_ids p)\<rparr>) st1"
    by (rule upsert_InrE)
  define s' where "s' = (with_payload r b)\<lparr>sch_target_id := ssi_datasource_id p, sch_next_run_at := nxt,
       sch_recipients := active_recipients st (ssi_recipient_user_ids p)\<rparr>"
  have "schedules_ok st" using assms(1) by (simp add: scan_ok_def)
  note base = upsert_base_facts [OF this u(1,3)]
  have ok': "schedules_ok st'" using scan_ok_upsert [OF assms(1,2)] by (simp add: scan_ok_def)
  have "s' \<in> set (scan_schedules st')" "sch_target_id s' = ssi_datasource_id p"
    using base(1) unfolding u(5) s'_def [symmetric] by (auto simp: s'_def image_iff)
  then have s: "s = s'"
    using ok' assms(4,5) by (auto simp: schedules_ok_def distinct_map inj_on_def)
  have "sch_enabled s = Some True"
    using validated_enabled [OF u(2)] assms(3)
    by (simp add: s s'_def with_payload_def get_field_def requested_enabled_def dumped_def)
  then have "schedulable s now"
    by (intro stored_schedulable) (use assms(6-9) schedules_ok_stored [OF ok' assms(4)] in auto)
  then have sch: "schedulable (with_payload r b) now"
    unfolding s s'_def by simp
  have "schedule_period (with_payload r b) = schedule_period s"
    by (simp add: s s'_def)
  moreover have "sch_timezone (with_payload r b) = None" "sch_next_run_at s = nxt"
    using base(3) by (simp_all add: s s'_def)
  ultimately show ?thesis
    using next_run_returns [OF sch, of zi] next_run_after [of "with_payload r b" zi now] u(4) by auto
qed

definition demo_planned :: scan_store where
  "demo_planned = demo_scans [(new_schedule 2 5)\<lparr>sch_mode := Some ''interval'', sch_enabled := Some True,
     sch_every_minutes := Some 5, sch_next_run_at := Some 300000010, sch_recipients := [7]\<rparr>]\<lparr>scan_next_schedule := 3\<rparr>"

theorem upsert_plans_next_run_witness:
  "\<exists>t. sch_next_run_at (hd (scan_schedules demo_planned)) = Some t \<and> 10 < t \<and>
     t \<le> 10 + schedule_period (hd (scan_schedules demo_planned))"
proof (rule upsert_plans_next_run [OF demo_scans_ok(2)])
  show "upsert_scan_schedule no_zones 10 demo_scan_in (demo_scans []) = Inr demo_planned"
    by code_simp
qed (simp_all add: demo_planned_def demo_scans_def new_schedule_def demo_scan_in_def datetime_min_def
      datetime_max_def anchor_day_def coerce_date_def schedule_period_def schedule_mode_of_def infer_fixed one_minute_def)

end
