(* ===== verification/Regexp.thy ===== *)
theory Regexp
  imports Prelude
begin

text \<open>
  What the redaction code uses of Python's module \<open>re\<close>: patterns whose repetitions run over one class of
  characters, the backtracking matcher and the three ways a pattern is applied (\<open>search\<close>, \<open>match\<close> with a
  final \<open>$\<close>, \<open>sub\<close>).  A match is a split of the text into what was consumed and the rest; the matcher gives
  all of them in the order in which backtracking tries them, so that the head of the list is Python's match.
\<close>

datatype regex =
    Eps
  | Cls "char \<Rightarrow> bool"
  | Cat regex regex
  | Or regex regex
  | Many "char \<Rightarrow> bool"

text \<open>\<open>Many p\<close> is the greedy \<open>p*\<close>: the longest run first.\<close>

fun run_splits :: "(char \<Rightarrow> bool) \<Rightarrow> string \<Rightarrow> (string \<times> string) list" where
  "run_splits p [] = [([], [])]"
| "run_splits p (c # cs) =
     (if p c then map (\<lambda>(u, r). (c # u, r)) (run_splits p cs) else []) @ [([], c # cs)]"

fun matches :: "regex \<Rightarrow> string \<Rightarrow> (string \<times> string) list" where
  "matches Eps s = [([], s)]"
| "matches (Cls p) s = (case s of [] \<Rightarrow> [] | c # cs \<Rightarrow> if p c then [([c], cs)] else [])"
| "matches (Cat a b) s = concat (map (\<lambda>(u, r). map (\<lambda>(v, r'). (u @ v, r')) (matches b r)) (matches a s))"
| "matches (Or a b) s = matches a s @ matches b s"
| "matches (Many p) s = run_splits p s"

section \<open>Patterns\<close>

definition is_ascii_alpha :: "char \<Rightarrow> bool" where
  "is_ascii_alpha c = (let n = of_char c :: nat in 65 \<le> n \<and> n \<le> 90 \<or> 97 \<le> n \<and> n \<le> 122)"

fun lit :: "string \<Rightarrow> regex" where
  "lit [] = Eps"
| "lit (c # cs) = Cat (Cls (\<lambda>d. d = c)) (lit cs)"

text \<open>A literal under \<open>re.IGNORECASE\<close>; the pattern is in lower case.\<close>

fun lit_i :: "string \<Rightarrow> regex" where
  "lit_i [] = Eps"
| "lit_i (c # cs) = Cat (Cls (\<lambda>d. py_lower_char d = c)) (lit_i cs)"

definition opt :: "regex \<Rightarrow> regex" where
  "opt r = Or r Eps"

definition some :: "(char \<Rightarrow> bool) \<Rightarrow> regex" where
  "some p = Cat (Cls p) (Many p)"

fun cats :: "regex list \<Rightarrow> regex" where
  "cats [] = Eps"
| "cats [r] = r"
| "cats (r # rs) = Cat r (cats rs)"

fun ors :: "regex list \<Rightarrow> regex" where
  "ors [] = Cls (\<lambda>_. False)"
| "ors [r] = r"
| "ors (r # rs) = Or r (ors rs)"

fun times :: "nat \<Rightarrow> (char \<Rightarrow> bool) \<Rightarrow> regex" where
  "times 0 p = Eps"
| "times (Suc n) p = Cat (Cls p) (times n p)"

fun up_to :: "nat \<Rightarrow> (char \<Rightarrow> bool) \<Rightarrow> regex" where
  "up_to 0 p = Eps"
| "up_to (Suc n) p = Or (Cat (Cls p) (up_to n p)) Eps"

section \<open>Applying a pattern\<close>

text \<open>\<open>bool(pattern.search(s))\<close>.\<close>

fun searches :: "regex \<Rightarrow> string \<Rightarrow> bool" where
  "searches r [] = (matches r [] \<noteq> [])"
| "searches r (c # cs) = (matches r (c # cs) \<noteq> [] \<or> searches r cs)"

text \<open>\<open>pattern.match(s)\<close> for a pattern that ends in \<open>$\<close>: the end of the text, or its last line feed.\<close>

definition matches_whole :: "regex \<Rightarrow> string \<Rightarrow> bool" where
  "matches_whole r s = list_ex (\<lambda>(u, rest). rest = [] \<or> rest = [CHR 0x0A]) (matches r s)"

text \<open>A pattern \<open>(before)secret(after)\<close> and \<open>pattern.sub(r"\1********\2", s)\<close>.\<close>

record secret_pattern =
  sp_before :: regex
  sp_secret :: regex
  sp_after :: regex

definition secret_match :: "secret_pattern \<Rightarrow> string \<Rightarrow> (string \<times> string \<times> string \<times> string) list" where
  "secret_match p s =
     concat (map (\<lambda>(u, r). concat (map (\<lambda>(v, r'). map (\<lambda>(w, r''). (u, v, w, r'')) (matches (sp_after p) r'))
       (matches (sp_secret p) r))) (matches (sp_before p) s))"

definition stars :: string where
  "stars = ''********''"

text \<open>The scan goes on after a match, or one character further where there is none.  A match that consumes
  nothing does not occur with the patterns of the code; the guard makes the recursion end in any case.\<close>

function star_out :: "secret_pattern \<Rightarrow> string \<Rightarrow> string" where
  "star_out p [] = []"
| "star_out p (c # cs) =
     (case secret_match p (c # cs) of
        [] \<Rightarrow> c # star_out p cs
      | (u, v, w, rest) # _ \<Rightarrow>
          if length rest \<le> length cs then u @ stars @ w @ star_out p rest else c # star_out p cs)"
  by pat_completeness auto
termination by (relation "measure (\<lambda>(p, s). length s)") auto

section \<open>Facts\<close>

lemma run_splits_split: "(u, r) \<in> set (run_splits p s) \<Longrightarrow> s = u @ r \<and> list_all p u"
  by (induction p s arbitrary: u r rule: run_splits.induct) (auto split: if_splits)

lemma matches_split: "(u, r) \<in> set (matches x s) \<Longrightarrow> s = u @ r"
  by (induction x s arbitrary: u r rule: matches.induct)
    (fastforce split: list.splits if_splits dest: run_splits_split)+

lemma secret_match_split:
  "(u, v, w, r) \<in> set (secret_match p s) \<Longrightarrow> s = u @ v @ w @ r"
  by (auto simp: secret_match_def dest!: matches_split)

text \<open>A greedy run up to a character that ends it.\<close>

lemma run_splits_ne: "run_splits p s \<noteq> []"
  by (cases s) auto

lemma run_splits_hd:
  "list_all p u \<Longrightarrow> r = [] \<or> \<not> p (hd r) \<Longrightarrow> hd (run_splits p (u @ r)) = (u, r)"
proof (induction u)
  case Nil
  then show ?case by (cases r) auto
next
  case (Cons c u)
  then have "hd (run_splits p (u @ r)) = (u, r)" by simp
  with Cons.prems show ?case by (simp add: hd_append hd_map run_splits_ne)
qed

lemma star_out_skip: "secret_match p (c # cs) = [] \<Longrightarrow> star_out p (c # cs) = c # star_out p cs"
  by simp

lemma star_out_clean:
  "(\<And>a b. s = a @ b \<Longrightarrow> b \<noteq> [] \<Longrightarrow> secret_match p b = []) \<Longrightarrow> star_out p s = s"
proof (induction s)
  case Nil
  show ?case by simp
next
  case (Cons c cs)
  have "secret_match p (c # cs) = []" using Cons.prems[of "[]" "c # cs"] by simp
  moreover have "star_out p cs = cs"
  proof (rule Cons.IH)
    fix a b assume "cs = a @ b" "b \<noteq> []"
    then show "secret_match p b = []" using Cons.prems[of "c # a" b] by simp
  qed
  ultimately show ?case by simp
qed

text \<open>The first match of a pattern from those of its parts.\<close>

definition first_match :: "regex \<Rightarrow> string \<Rightarrow> (string \<times> string) option" where
  "first_match x s = (case matches x s of [] \<Rightarrow> None | m # _ \<Rightarrow> Some m)"

lemma first_match_None: "first_match x s = None \<longleftrightarrow> matches x s = []"
  by (auto simp: first_match_def split: list.splits)

lemma first_match_Eps [simp]: "first_match Eps s = Some ([], s)"
  by (simp add: first_match_def)

lemma first_match_Cls [simp]:
  "first_match (Cls p) [] = None"
  "first_match (Cls p) (c # cs) = (if p c then Some ([c], cs) else None)"
  by (auto simp: first_match_def)

lemma first_match_Cat:
  assumes "first_match a s = Some (u, r)" and "first_match b r = Some (v, r')"
  shows "first_match (Cat a b) s = Some (u @ v, r')"
  using assms by (auto simp: first_match_def split: list.splits)

lemma first_match_Cat_None: "first_match a s = None \<Longrightarrow> first_match (Cat a b) s = None"
  by (simp add: first_match_None)

lemma first_match_Or_left: "first_match a s = Some m \<Longrightarrow> first_match (Or a b) s = Some m"
  by (auto simp: first_match_def split: list.splits)

lemma first_match_Or_right: "first_match a s = None \<Longrightarrow> first_match (Or a b) s = first_match b s"
  by (auto simp: first_match_def split: list.splits)

lemma first_match_lit: "first_match (lit w) (w @ r) = Some (w, r)"
  by (induction w) (auto simp: first_match_def split: list.splits)

lemma matches_lit_Nil: "\<not> starts_with w s \<Longrightarrow> matches (lit w) s = []"
  by (induction w arbitrary: s) (auto split: list.splits)

lemma first_match_Many:
  assumes "list_all p u" and "r = [] \<or> \<not> p (hd r)"
  shows "first_match (Many p) (u @ r) = Some (u, r)"
  using run_splits_hd[OF assms] run_splits_ne[of p "u @ r"]
  by (auto simp: first_match_def split: list.splits)

lemma first_match_some:
  assumes "u \<noteq> []" and "list_all p u" and "r = [] \<or> \<not> p (hd r)"
  shows "first_match (some p) (u @ r) = Some (u, r)"
proof (cases u)
  case (Cons c w)
  then show ?thesis unfolding some_def
    using first_match_Cat[of "Cls p" "u @ r" "[c]" "w @ r" "Many p" w r] first_match_Many[of p w r] assms by simp
qed (use assms in simp)

lemma secret_match_hd:
  assumes "first_match (sp_before p) s = Some (u, r)"
    and "first_match (sp_secret p) r = Some (v, r')"
    and "first_match (sp_after p) r' = Some (w, r'')"
  shows "\<exists>more. secret_match p s = (u, v, w, r'') # more"
  using assms by (auto simp: first_match_def secret_match_def split: list.splits)

lemma star_out_hit:
  assumes "first_match (sp_before p) s = Some (u, r)"
    and "first_match (sp_secret p) r = Some (v, r')"
    and "first_match (sp_after p) r' = Some (w, r'')"
    and "u @ v @ w \<noteq> []"
  shows "star_out p s = u @ stars @ w @ star_out p r''"
proof -
  obtain more where m: "secret_match p s = (u, v, w, r'') # more" using secret_match_hd[OF assms(1-3)] by blast
  then have s: "s = u @ v @ w @ r''" by (intro secret_match_split[of u v w r'' p s]) simp
  then have "s \<noteq> []" using assms(4) by auto
  then obtain c cs where c: "s = c # cs" by (cases s) auto
  have "length s = length u + length v + length w + length r''" using s by simp
  moreover have "0 < length u + length v + length w" using assms(4) by (cases u; cases v; cases w) simp_all
  moreover have "length s = Suc (length cs)" using c by simp
  ultimately have "length r'' \<le> length cs" by linarith
  then show ?thesis using m unfolding c by simp
qed

lemma secret_match_Nil: "matches (sp_before p) s = [] \<Longrightarrow> secret_match p s = []"
  by (simp add: secret_match_def)

text \<open>A prefix at whose characters the pattern cannot start is copied.\<close>

lemma star_out_prefix:
  assumes "\<And>a b. pre = a @ b \<Longrightarrow> b \<noteq> [] \<Longrightarrow> matches (sp_before p) (b @ s) = []"
  shows "star_out p (pre @ s) = pre @ star_out p s"
  using assms
proof (induction pre)
  case (Cons c pre)
  have "secret_match p (c # pre @ s) = []"
    using Cons.prems[of "[]" "c # pre"] by (intro secret_match_Nil) simp
  moreover have "star_out p (pre @ s) = pre @ star_out p s"
    by (rule Cons.IH) (use Cons.prems[of "c # a" for a] in auto)
  ultimately show ?case by simp
qed simp

text \<open>An optional part that leads nowhere is left out.\<close>

lemma matches_opt_skip:
  assumes "\<And>u r. (u, r) \<in> set (matches a s) \<Longrightarrow> matches k r = []"
  shows "matches (Cat (opt a) k) s = matches k s"
proof -
  have "concat (map (\<lambda>(u, r). map (\<lambda>(v, r'). (u @ v, r')) (matches k r)) (matches a s)) = []"
    using assms by auto
  moreover have "matches (Cat (opt a) k) s =
      concat (map (\<lambda>(u, r). map (\<lambda>(v, r'). (u @ v, r')) (matches k r)) (matches a s)) @ matches k s"
    by (simp add: opt_def)
  ultimately show ?thesis by (simp only: append.left_neutral)
qed

lemma first_match_opt_skip:
  assumes "\<And>u r. (u, r) \<in> set (matches a s) \<Longrightarrow> matches k r = []"
  shows "first_match (Cat (opt a) k) s = first_match k s"
  unfolding first_match_def by (subst matches_opt_skip) (use assms in auto)

text \<open>A character every match has to contain.\<close>

definition demands :: "char \<Rightarrow> regex \<Rightarrow> bool" where
  "demands c x \<longleftrightarrow> (\<forall>s. \<forall>(u, r) \<in> set (matches x s). c \<in> set u)"

lemma demands_Cat: "demands c a \<or> demands c b \<Longrightarrow> demands c (Cat a b)"
  by (fastforce simp: demands_def)

lemma demands_lit: "c \<in> set w \<Longrightarrow> demands c (lit w)"
proof (induction w)
  case (Cons d w)
  show ?case
  proof (cases "c = d")
    case True
    then have "demands c (Cls (\<lambda>x. x = d))" by (auto simp: demands_def split: list.split)
    then show ?thesis by (auto intro: demands_Cat)
  next
    case False
    with Cons show ?thesis by (auto intro: demands_Cat)
  qed
qed simp

lemma star_out_demands:
  assumes "demands c (sp_before p)" and "c \<notin> set s"
  shows "star_out p s = s"
proof (rule star_out_clean)
  fix a b assume "s = a @ b" "b \<noteq> []"
  then have "(u, r) \<notin> set (matches (sp_before p) b)" for u r
    using assms matches_split[of u r "sp_before p" b] by (fastforce simp: demands_def)
  then have "matches (sp_before p) b = []" by (metis equals0I set_empty surj_pair)
  then show "secret_match p b = []" by (rule secret_match_Nil)
qed

end
