(* ===== verification/Redaction.thy ===== *)
theory Redaction
  imports Regexp Models
begin

text \<open>
  Redaction of secrets in logged and stored values, \<open>core/redaction.py\<close>: sensitive keys, the five textual
  patterns, structured values and command lines.
\<close>

section \<open>Patterns\<close>

abbreviation dash :: "char \<Rightarrow> bool" where
  "dash c \<equiv> c = CHR ''_'' \<or> c = CHR ''-''"

definition word_pair :: "string \<Rightarrow> string \<Rightarrow> regex" where
  "word_pair a b = cats [lit_i a, opt (Cls dash), lit_i b]"

definition sensitive_key_re :: regex where
  "sensitive_key_re = ors
     [lit_i ''password'', lit_i ''passwd'', lit_i ''pwd'', lit_i ''secret'', lit_i ''token'',
      word_pair ''api'' ''key'', word_pair ''access'' ''key'', word_pair ''secret'' ''key'',
      cats [lit_i ''aws'', opt (Cls dash), lit_i ''secret'', opt (Cls dash), lit_i ''access'', opt (Cls dash), lit_i ''key''],
      cats [lit_i ''aws'', opt (Cls dash), lit_i ''session'', opt (Cls dash), lit_i ''token''],
      lit_i ''authorization'', lit_i ''webhook'', lit_i ''credential'']"

definition scheme_char :: "char \<Rightarrow> bool" where
  "scheme_char c = (is_ascii_alpha c \<or> is_digit c \<or> c \<in> set ''+.-'')"

definition user_char :: "char \<Rightarrow> bool" where
  "user_char c = (c \<noteq> CHR '':'' \<and> \<not> py_space c \<and> c \<noteq> CHR ''/'' \<and> c \<noteq> CHR ''@'')"

definition uri_secret_char :: "char \<Rightarrow> bool" where
  "uri_secret_char c = (c \<noteq> CHR ''@'' \<and> \<not> py_space c)"

definition uri_secret :: secret_pattern where
  "uri_secret = \<lparr>
     sp_before = cats [opt (lit_i ''jdbc:''), Cls is_ascii_alpha, Many scheme_char, lit ''://'', some user_char, lit '':''],
     sp_secret = some uri_secret_char,
     sp_after = lit ''@''\<rparr>"

definition json_secret :: secret_pattern where
  "json_secret = \<lparr>
     sp_before = cats
       [ors [lit_i ''password'', lit_i ''passwd'', lit_i ''pwd'', lit_i ''secret'', lit_i ''token'',
             word_pair ''api'' ''key'', word_pair ''access'' ''key'', word_pair ''secret'' ''key'',
             lit_i ''aws_secret_access_key'', lit_i ''aws_session_token'', lit_i ''authorization'',
             lit_i ''webhook_url'', lit_i ''jdbc_password''],
        lit [CHR 0x22], Many py_space, lit '':'', Many py_space, lit [CHR 0x22]],
     sp_secret = Many (\<lambda>c. c \<noteq> CHR 0x22),
     sp_after = lit [CHR 0x22]\<rparr>"

definition assigned_names :: regex where
  "assigned_names = ors
     [lit_i ''password'', lit_i ''passwd'', lit_i ''pwd'', lit_i ''secret'', lit_i ''token'', lit_i ''authorization'',
      word_pair ''api'' ''key'', word_pair ''access'' ''key'', word_pair ''secret'' ''key'',
      lit_i ''aws_secret_access_key'', lit_i ''aws_session_token'', lit_i ''jdbc_password'']"

definition plain_secret_char :: "char \<Rightarrow> bool" where
  "plain_secret_char c = (\<not> py_space c \<and> c \<noteq> CHR '','' \<and> c \<noteq> CHR '';'')"

definition assigned_secret :: "char \<Rightarrow> secret_pattern" where
  "assigned_secret sep = \<lparr>
     sp_before = cats [assigned_names, Many py_space, lit [sep], Many py_space],
     sp_secret = some plain_secret_char,
     sp_after = Eps\<rparr>"

definition header_secret :: secret_pattern where
  "header_secret = \<lparr>
     sp_before = cats [ors [lit_i ''x-api-key'', lit_i ''authorization''], Many py_space, lit '':'', Many py_space],
     sp_secret = Cat (some plain_secret_char) (opt (Cat (some py_space) (some plain_secret_char))),
     sp_after = Eps\<rparr>"

definition text_secret_replacements :: "secret_pattern list" where
  "text_secret_replacements =
     [uri_secret, json_secret, assigned_secret CHR ''='', assigned_secret CHR '':'', header_secret]"

definition sensitive_cli_flags :: "string list" where
  "sensitive_cli_flags =
     [''--password'', ''--passwd'', ''--pwd'', ''--secret'', ''--token'', ''--api-key'', ''--access-key'',
      ''--secret-key'', ''--authorization'', ''--jdbc-password'', ''--aws-secret-access-key'', ''--aws-session-token'']"

section \<open>Operations\<close>

definition is_sensitive_key :: "string option \<Rightarrow> bool" where
  "is_sensitive_key value = (case value of None \<Rightarrow> False | Some v \<Rightarrow> v \<noteq> [] \<and> searches sensitive_key_re v)"

definition redact_sensitive_string :: "string \<Rightarrow> string" where
  "redact_sensitive_string value = foldl (\<lambda>redacted p. star_out p redacted) value text_secret_replacements"

text \<open>The keys of an object are distinct strings already.\<close>

fun redact_value :: "py_value \<Rightarrow> py_value" where
  "redact_value (PDict d) =
     PDict (map (\<lambda>(k, x). (k, if is_sensitive_key (Some k) then PStr stars else redact_value x)) d)"
| "redact_value (PList xs) = PList (map redact_value xs)"
| "redact_value (PStr s) = PStr (redact_sensitive_string s)"
| "redact_value v = v"

definition url_flags :: "string list" where
  "url_flags = [''--jdbc-url'', ''--url'', ''--connection-uri'', ''--dsn'']"

fun redact_command_args :: "string list \<Rightarrow> string list" where
  "redact_command_args [] = []"
| "redact_command_args (current # rest) =
     (case split_once CHR ''='' current of
        Some (flag, raw_value) \<Rightarrow>
          (if is_sensitive_key (Some flag) \<or> py_lower flag \<in> set sensitive_cli_flags
           then flag @ ''='' @ stars
           else flag @ ''='' @ redact_sensitive_string raw_value) # redact_command_args rest
      | None \<Rightarrow>
          if py_lower current \<in> set sensitive_cli_flags then
            (case rest of
               [] \<Rightarrow> [current]
             | _ # rest' \<Rightarrow> current # stars # redact_command_args rest')
          else
            (case rest of
               [] \<Rightarrow> [current]
             | next_value # rest' \<Rightarrow>
                 if py_lower current \<in> set url_flags
                 then current # redact_sensitive_string next_value # redact_command_args rest'
                 else current # redact_command_args rest))"

text \<open>\<open>shlex.quote\<close>.\<close>

definition shell_safe :: "char \<Rightarrow> bool" where
  "shell_safe c = (is_ascii_alpha c \<or> is_digit c \<or> c \<in> set ''_@%+=:,./-'')"

definition shlex_quote :: "string \<Rightarrow> string" where
  "shlex_quote s =
     (if s = [] then [CHR 0x27, CHR 0x27]
      else if list_all shell_safe s then s
      else CHR 0x27 # concat (map (\<lambda>c. if c = CHR 0x27
             then [CHR 0x27, CHR 0x22, CHR 0x27, CHR 0x22, CHR 0x27] else [c]) s) @ [CHR 0x27])"

definition format_command_for_log :: "string list \<Rightarrow> string" where
  "format_command_for_log args = join_with '' '' (map shlex_quote (redact_command_args args))"

section \<open>Structured values\<close>

text \<open>Whatever stands under a sensitive key, at any depth, replaced by something else.\<close>

fun alter_secrets :: "(string \<Rightarrow> py_value \<Rightarrow> py_value) \<Rightarrow> py_value \<Rightarrow> py_value" where
  "alter_secrets f (PDict d) =
     PDict (map (\<lambda>(k, x). (k, if is_sensitive_key (Some k) then f k x else alter_secrets f x)) d)"
| "alter_secrets f (PList xs) = PList (map (alter_secrets f) xs)"
| "alter_secrets f v = v"

text \<open>C19: What stands under a sensitive key of a value, at any depth, has no influence on the redacted value.\<close>

theorem redact_value_hides:
  "redact_value (alter_secrets f v) = redact_value v"
  by (induction v rule: redact_value.induct) (auto simp: case_prod_beta)

section \<open>Command lines\<close>

declare redact_command_args.simps(2) [simp del]

definition takes_next :: "string \<Rightarrow> bool" where
  "takes_next arg = (CHR ''='' \<notin> set arg \<and> py_lower arg \<in> set sensitive_cli_flags \<union> set url_flags)"

lemma redact_command_args_single:
  assumes "\<not> takes_next arg"
  shows "redact_command_args (arg # rest) = hd (redact_command_args [arg]) # redact_command_args rest"
proof (cases "split_once CHR ''='' arg")
  case (Some fr)
  then show ?thesis by (cases fr) (simp add: redact_command_args.simps(2)[of arg])
next
  case None
  then have "py_lower arg \<notin> set sensitive_cli_flags" "py_lower arg \<notin> set url_flags"
    using assms by (auto simp: takes_next_def split_once_None_iff)
  with None show ?thesis by (cases rest) (simp_all add: redact_command_args.simps(2)[of arg])
qed

lemma redact_command_args_pair:
  assumes "takes_next arg"
  shows "redact_command_args (arg # v # rest) =
     arg # (if py_lower arg \<in> set sensitive_cli_flags then stars else redact_sensitive_string v) # redact_command_args rest"
proof -
  have "split_once CHR ''='' arg = None" using assms by (simp add: takes_next_def split_once_None_iff)
  moreover have "py_lower arg \<in> set sensitive_cli_flags \<or> py_lower arg \<in> set url_flags"
    using assms by (simp add: takes_next_def)
  ultimately show ?thesis by (auto simp: redact_command_args.simps(2)[of arg])
qed

lemma redact_command_args_append:
  "xs = [] \<or> \<not> takes_next (last xs) \<Longrightarrow>
     redact_command_args (xs @ ys) = redact_command_args xs @ redact_command_args ys"
proof (induction xs rule: length_induct)
  case (1 xs)
  have IH: "redact_command_args (zs @ ys) = redact_command_args zs @ redact_command_args ys"
    if "length zs < length xs" "zs = [] \<or> \<not> takes_next (last zs)" for zs
    using 1 that by blast
  show ?case
  proof (cases xs)
    case (Cons arg rest)
    show ?thesis
    proof (cases "takes_next arg")
      case False
      have "redact_command_args (rest @ ys) = redact_command_args rest @ redact_command_args ys"
        using Cons "1.prems" by (intro IH) auto
      then show ?thesis using Cons redact_command_args_single[OF False, of rest]
          redact_command_args_single[OF False, of "rest @ ys"] by simp
    next
      case True
      then obtain v rest' where rest: "rest = v # rest'" using "1.prems" Cons by (cases rest) auto
      have "redact_command_args (rest' @ ys) = redact_command_args rest' @ redact_command_args ys"
        using Cons rest "1.prems" by (intro IH) auto
      then show ?thesis using Cons rest redact_command_args_pair[OF True] by simp
    qed
  qed simp
qed

text \<open>On a command line the argument after a sensitive flag is starred out, wherever the flag stands as a flag
  of its own, and the arguments before and after it are treated as if it were not there.\<close>

theorem command_secret_starred:
  assumes "py_lower flag \<in> set sensitive_cli_flags"
    and "before = [] \<or> \<not> takes_next (last before)"
  shows "redact_command_args (before @ flag # secret # after) =
    redact_command_args before @ flag # stars # redact_command_args after"
proof -
  have "CHR ''='' \<notin> set (py_lower flag)" using assms(1) by (auto simp: sensitive_cli_flags_def)
  moreover have "CHR ''='' \<in> set flag \<Longrightarrow> CHR ''='' \<in> set (py_lower flag)"
    by (force simp: py_lower_def py_lower_char_def is_upper_def)
  ultimately have "takes_next flag" using assms(1) by (auto simp: takes_next_def)
  with assms show ?thesis by (simp add: redact_command_args_append redact_command_args_pair)
qed

theorem command_secret_starred_witness:
  "redact_command_args [''spark-submit'', ''--Token'', ''abc'', ''job.py''] = [''spark-submit'', ''--Token'', stars, ''job.py'']"
  using command_secret_starred[of "''--Token''" "[''spark-submit'']" "''abc''" "[''job.py'']"]
  by (simp, code_simp)

section \<open>Texts\<close>

lemma scheme_no_colon: "scheme_char c \<Longrightarrow> c \<noteq> CHR '':''"
  by (auto simp: scheme_char_def is_ascii_alpha_def is_digit_def)

lemma lit_i_match: "(u, r) \<in> set (matches (lit_i w) s) \<Longrightarrow> py_lower u = w"
  by (induction w arbitrary: u s) (auto simp: py_lower_def split: list.splits if_splits)

lemma char_code: "c = d \<longleftrightarrow> (of_char c :: nat) = of_char d"
  by (simp only: of_char_eq_iff)

lemma scheme_char_code: "scheme_char c \<longleftrightarrow>
    (let n = of_char c :: nat in 65 \<le> n \<and> n \<le> 90 \<or> 97 \<le> n \<and> n \<le> 122 \<or> 48 \<le> n \<and> n \<le> 57 \<or> n \<in> {43, 45, 46})"
  by (auto simp: scheme_char_def is_ascii_alpha_def is_digit_def Let_def char_code[of c "CHR ''+''"]
      char_code[of c "CHR ''-''"] char_code[of c "CHR ''.''"])

lemma lower_scheme_char: "scheme_char (py_lower_char c) \<Longrightarrow> scheme_char c"
  using of_char_lower[of c] by (auto simp: scheme_char_code is_upper_def Let_def split: if_splits)

lemma lower_colon: "py_lower_char c = CHR '':'' \<Longrightarrow> c = CHR '':''"
  using of_char_lower[of c] by (auto simp: is_upper_def char_code[of c "CHR '':''"] Let_def split: if_splits)

lemma lit_i_jdbc: 
  assumes "(u, r) \<in> set (matches (lit_i ''jdbc:'') s)"
  shows "\<exists>w. u = w @ '':'' \<and> list_all scheme_char w"
proof -
  have "map py_lower_char u = ''jdbc:''" using lit_i_match[OF assms] by (simp add: py_lower_def)
  then obtain j d b c k where u: "u = [j, d, b, c, k]" and
    "py_lower_char j = CHR ''j''" "py_lower_char d = CHR ''d''" "py_lower_char b = CHR ''b''"
    "py_lower_char c = CHR ''c''" "py_lower_char k = CHR '':''"
    by (auto simp: map_eq_Cons_conv)
  then have "list_all scheme_char [j, d, b, c]" "k = CHR '':''"
    using lower_scheme_char[of j] lower_scheme_char[of d] lower_scheme_char[of b] lower_scheme_char[of c] lower_colon[of k]
    by (simp_all add: scheme_char_code)
  with u show ?thesis by (intro exI[of _ "[j, d, b, c]"]) simp
qed

lemma uri_before: "sp_before uri_secret = Cat (opt (lit_i ''jdbc:'')) (Cat (Cls is_ascii_alpha)
    (Cat (Many scheme_char) (Cat (lit ''://'') (Cat (some user_char) (lit '':'')))))"
  by (simp add: uri_secret_def del: lit.simps lit_i.simps)

text \<open>The pattern does not start before the scheme.\<close>

lemma uri_not_before:
  assumes "CHR '':'' \<notin> set b" and "b \<noteq> []" and "\<not> scheme_char (last b)"
  shows "matches (sp_before uri_secret) (b @ s) = []"
proof -
  have run: "matches (Cat (Many scheme_char) (Cat (lit ''://'') k)) (b' @ s) = []"
    if "CHR '':'' \<notin> set b'" "b' \<noteq> []" "\<not> scheme_char (last b')" for b' k
  proof -
    have "matches (lit ''://'') r = []" if "(u, r) \<in> set (run_splits scheme_char (b' @ s))" for u r
    proof -
      have ur: "b' @ s = u @ r" "list_all scheme_char u" using run_splits_split[OF that] by auto
      have "length u < length b'"
      proof (rule ccontr)
        assume "\<not> length u < length b'"
        then obtain v where "u = b' @ v" using ur(1) by (metis append_eq_append_conv_if append_take_drop_id linorder_not_le order.strict_implies_order)
        then show False using ur(2) \<open>b' \<noteq> []\<close> \<open>\<not> scheme_char (last b')\<close> by (auto simp: list_all_iff)
      qed
      then have "r = drop (length u) b' @ s" "drop (length u) b' \<noteq> []" using ur(1)
        by (auto simp: append_eq_append_conv_if)
      then obtain c t where "r = c # t" "c \<in> set b'" by (cases "drop (length u) b'") (simp_all, metis in_set_dropD list.set_intros(1))
      then show ?thesis using \<open>CHR '':'' \<notin> set b'\<close> by (intro matches_lit_Nil) auto
    qed
    then show ?thesis by (auto simp del: lit.simps)
  qed
  have "matches (Cat (Cls is_ascii_alpha) (Cat (Many scheme_char) (Cat (lit ''://'') k))) (b @ s) = []" for k
  proof (cases "is_ascii_alpha (hd b)")
    case True
    then have "scheme_char (hd b)" by (simp add: scheme_char_def)
    then have "tl b \<noteq> []" using assms by (cases b) auto
    then have "matches (Cat (Many scheme_char) (Cat (lit ''://'') k)) (tl b @ s) = []"
      using assms by (intro run) (auto simp: last_tl dest: list.set_sel(2))
    then show ?thesis using assms(2) by (cases b) (simp_all del: lit.simps)
  next
    case False
    then show ?thesis using assms(2) by (cases b) auto
  qed
  moreover have False if m: "(u, r) \<in> set (matches (lit_i ''jdbc:'') (b @ s))" for u r
  proof -
    obtain w where w: "u = w @ '':''" "list_all scheme_char w" using lit_i_jdbc[OF m] by blast
    have "b @ s = w @ '':'' @ r" using matches_split[OF m] w by simp
    then consider v where "b = w @ CHR '':'' # v" | v where "w = b @ v"
      by (auto simp: append_eq_append_conv2 append_eq_Cons_conv)
    then show False using assms w(2) by cases (auto simp: list_all_iff)
  qed
  ultimately show ?thesis unfolding uri_before by (subst matches_opt_skip) blast+
qed

lemma uri_starred:
  assumes "is_ascii_alpha (hd scheme)" and "scheme \<noteq> []" and "list_all scheme_char scheme"
    and "user \<noteq> []" and "list_all user_char user" and "p \<noteq> []" and "list_all uri_secret_char p"
  shows "star_out uri_secret (scheme @ ''://'' @ user @ '':'' @ p @ ''@'' @ after) =
    scheme @ ''://'' @ user @ '':'' @ stars @ ''@'' @ star_out uri_secret after"
proof -
  let ?rest = "user @ '':'' @ p @ ''@'' @ after"
  obtain c w where c: "scheme = c # w" using assms(2) by (cases scheme) auto
  have "first_match (lit ''://'') (''://'' @ ?rest) = Some (''://'', ?rest)" by (rule first_match_lit)
  moreover have "first_match (some user_char) ?rest = Some (user, '':'' @ p @ ''@'' @ after)"
    by (rule first_match_some) (use assms in \<open>auto simp: user_char_def\<close>)
  moreover have "first_match (lit '':'') ('':'' @ p @ ''@'' @ after) = Some ('':'', p @ ''@'' @ after)"
    by (rule first_match_lit)
  ultimately have tail: "first_match (Cat (lit ''://'') (Cat (some user_char) (lit '':''))) (''://'' @ ?rest) =
      Some (''://'' @ user @ '':'', p @ ''@'' @ after)"
    by (blast intro: first_match_Cat)
  have "first_match (Cat (Many scheme_char) (Cat (lit ''://'') (Cat (some user_char) (lit '':'')))) (w @ ''://'' @ ?rest) =
      Some (w @ ''://'' @ user @ '':'', p @ ''@'' @ after)"
    by (intro first_match_Cat[OF first_match_Many tail]) (use assms c in \<open>auto simp: scheme_char_def is_ascii_alpha_def is_digit_def\<close>)
  then have whole: "first_match (Cat (Cls is_ascii_alpha) (Cat (Many scheme_char) (Cat (lit ''://'') (Cat (some user_char) (lit '':'')))))
      (scheme @ ''://'' @ ?rest) = Some (scheme @ ''://'' @ user @ '':'', p @ ''@'' @ after)"
    using first_match_Cat[of "Cls is_ascii_alpha" "scheme @ ''://'' @ ?rest" "[c]"] assms(1) c by fastforce
  have no_jdbc: "matches (Cat (Cls is_ascii_alpha) k) r = []"
    if m: "(u, r) \<in> set (matches (lit_i ''jdbc:'') (scheme @ ''://'' @ ?rest))" for u r k
  proof -
    obtain v where v: "u = v @ '':''" "list_all scheme_char v" using lit_i_jdbc[OF m] by blast
    have eq: "scheme @ CHR '':'' # ''//'' @ ?rest = v @ CHR '':'' # r" using matches_split[OF m] v by simp
    have "CHR '':'' \<notin> set scheme" "CHR '':'' \<notin> set v"
      using assms(3) v(2) scheme_no_colon by (auto simp: list_all_iff)
    then have "Some (scheme, ''//'' @ ?rest) = Some (v, r)"
      by (metis eq split_once_append)
    then have "r = ''//'' @ ?rest" by (simp only: option.inject prod.inject)
    then show ?thesis by (simp add: is_ascii_alpha_def)
  qed
  have before: "first_match (sp_before uri_secret) (scheme @ ''://'' @ ?rest) =
      Some (scheme @ ''://'' @ user @ '':'', p @ ''@'' @ after)"
    unfolding uri_before by (subst first_match_opt_skip) (rule no_jdbc, assumption, rule whole)
  have "first_match (sp_secret uri_secret) (p @ ''@'' @ after) = Some (p, ''@'' @ after)"
    unfolding uri_secret_def using assms by (simp, intro first_match_some) (auto simp: uri_secret_char_def)
  moreover have "first_match (sp_after uri_secret) (''@'' @ after) = Some (''@'', after)"
    unfolding uri_secret_def secret_pattern.select_convs by (rule first_match_lit)
  ultimately show ?thesis using star_out_hit[OF before] by simp
qed

text \<open>The password of a URI in a text has no influence on the redacted text, whatever follows the URI and
  whatever stands before it, as long as that holds no colon and does not run into the scheme.\<close>

theorem uri_password_hidden:
  assumes "CHR '':'' \<notin> set before" and "before = [] \<or> \<not> scheme_char (last before)"
    and "is_ascii_alpha (hd scheme)" and "scheme \<noteq> []" and "list_all scheme_char scheme"
    and "user \<noteq> []" and "list_all user_char user"
    and "p1 \<noteq> []" and "list_all uri_secret_char p1" and "p2 \<noteq> []" and "list_all uri_secret_char p2"
  shows "redact_sensitive_string (before @ scheme @ ''://'' @ user @ '':'' @ p1 @ ''@'' @ after) =
    redact_sensitive_string (before @ scheme @ ''://'' @ user @ '':'' @ p2 @ ''@'' @ after)"
proof -
  have "star_out uri_secret (before @ scheme @ ''://'' @ user @ '':'' @ p @ ''@'' @ after) =
      before @ scheme @ ''://'' @ user @ '':'' @ stars @ ''@'' @ star_out uri_secret after"
    if "p \<noteq> []" and "list_all uri_secret_char p" for p
  proof -
    have "matches (sp_before uri_secret) (b @ s) = []" if "before = a @ b" "b \<noteq> []" for a b s
      using that assms(1,2) by (intro uri_not_before) auto
    then show ?thesis using uri_starred[OF assms(3-7) that] by (subst star_out_prefix) auto
  qed
  then show ?thesis using assms(8-11) by (simp add: redact_sensitive_string_def text_secret_replacements_def)
qed

theorem uri_password_hidden_witness:
  "redact_sensitive_string ''db postgres://app:hunter2@db'' = redact_sensitive_string ''db postgres://app:s3:cret@db''"
  using uri_password_hidden[of "''db ''" "''postgres''" "''app''" "''hunter2''" "''s3:cret''" "''db''"]
  by (simp add: scheme_char_def is_ascii_alpha_def is_digit_def user_char_def uri_secret_char_def py_space_def)

lemma secrets_demand:
  "demands CHR '':'' (sp_before uri_secret)" "demands CHR 0x22 (sp_before json_secret)"
  "demands sep (sp_before (assigned_secret sep))" "demands CHR '':'' (sp_before header_secret)"
  unfolding uri_secret_def json_secret_def assigned_secret_def header_secret_def secret_pattern.select_convs cats.simps
  by (simp_all del: lit.simps add: demands_Cat demands_lit)

text \<open>Only the first word after an assigned secret is starred out: an authorization header written with an
  equals sign keeps its credential.\<close>

theorem bearer_after_equals_kept:
  assumes "list_all (\<lambda>c. is_ascii_alpha c \<or> is_digit c) credential"
  shows "redact_sensitive_string (''authorization=Bearer '' @ credential) = ''authorization=******** '' @ credential"
proof -
  have clean: "CHR '':'' \<notin> set credential" "CHR ''='' \<notin> set credential" "CHR 0x22 \<notin> set credential"
    using assms by (auto simp: list_all_iff is_ascii_alpha_def is_digit_def)
  have "first_match (sp_before (assigned_secret CHR ''='')) (''authorization=Bearer '' @ credential) =
      Some (''authorization='', ''Bearer '' @ credential)"
    by (simp add: assigned_secret_def assigned_names_def word_pair_def opt_def first_match_def py_lower_char_def
        is_upper_def py_space_def)
  moreover have "first_match (sp_secret (assigned_secret CHR ''='')) (''Bearer'' @ ('' '' @ credential)) =
      Some (''Bearer'', '' '' @ credential)"
    unfolding assigned_secret_def secret_pattern.select_convs
    by (rule first_match_some) (simp_all add: plain_secret_char_def py_space_def)
  moreover have "first_match (sp_after (assigned_secret CHR ''='')) ('' '' @ credential) = Some ([], '' '' @ credential)"
    by (simp add: assigned_secret_def)
  ultimately have "star_out (assigned_secret CHR ''='') (''authorization=Bearer '' @ credential) =
      ''authorization='' @ stars @ [] @ star_out (assigned_secret CHR ''='') ('' '' @ credential)"
    by (intro star_out_hit) simp_all
  moreover have "star_out (assigned_secret CHR ''='') ('' '' @ credential) = '' '' @ credential"
    using clean by (intro star_out_demands[OF secrets_demand(3)]) simp
  ultimately have eq: "star_out (assigned_secret CHR ''='') (''authorization=Bearer '' @ credential) =
      ''authorization=******** '' @ credential"
    by (simp add: stars_def)
  have "star_out uri_secret s = s \<and> star_out (assigned_secret CHR '':'') s = s \<and> star_out header_secret s = s"
    if "CHR '':'' \<notin> set s" for s
    using that by (simp add: star_out_demands[OF secrets_demand(1)] star_out_demands[OF secrets_demand(3)]
        star_out_demands[OF secrets_demand(4)])
  moreover have "star_out json_secret s = s" if "CHR 0x22 \<notin> set s" for s
    using that by (rule star_out_demands[OF secrets_demand(2)])
  ultimately show ?thesis using clean eq
    by (simp add: redact_sensitive_string_def text_secret_replacements_def del: star_out.simps)
qed

theorem bearer_after_equals_kept_witness:
  "redact_sensitive_string ''authorization=Bearer abc123'' = ''authorization=******** abc123''"
  using bearer_after_equals_kept[of "''abc123''"] by (simp add: is_ascii_alpha_def is_digit_def)

end
