(* ===== verification/SensitiveData.thy ===== *)
theory SensitiveData
  imports AccessControl Redaction
begin

text \<open>
  Masking of personal data and secrets in payloads, \<open>features/platform/sensitive_data.py\<close>, and the payload masks
  of \<open>features/platform/visibility.py\<close>.  A payload is a JSON value; model objects, which the code first turns
  into their dictionary, and the tokens other than the defaults, which no caller passes, are left out.
\<close>

section \<open>Field names\<close>

definition secret_field_hints :: "string list" where
  "secret_field_hints =
     [''password'', ''passwd'', ''pwd'', ''secret'', ''token'', ''api_key'', ''api-key'', ''access_key'',
      ''access-key'', ''secret_key'', ''secret-key'', ''aws_secret_access_key'', ''aws_session_token'',
      ''authorization'', ''webhook'', ''credential'', ''jdbc'', ''dsn'', ''connection_uri'',
      ''connection_string'']"

definition sensitive_field_hints :: "string list" where
  "sensitive_field_hints =
     [''cpf'', ''cnpj'', ''rg'', ''document'', ''documento'', ''doc'', ''email'', ''mail'', ''telefone'',
      ''phone'', ''celular'', ''mobile'', ''nome'', ''name'', ''endereco'', ''address'', ''cep'',
      ''zipcode'', ''renda'', ''salary'', ''salario'', ''income'', ''bank'', ''banco'', ''account'',
      ''conta'', ''agencia'', ''agency'', ''iban'', ''pix'', ''card'', ''cartao'', ''credit'', ''loan'',
      ''debt'', ''saldo'', ''amount'', ''valor'', ''price'', ''payment'', ''parcela'', ''installment'',
      ''fee'', ''contract'', ''contrato'', ''proposal'', ''proposta'', ''quota'', ''cota'']"

definition public_metadata_keys :: "string list" where
  "public_metadata_keys =
     [''id'', ''row_number'', ''row_count'', ''count'', ''total'', ''status'', ''state'', ''severity'',
      ''tone'', ''type'', ''kind'', ''event_type'', ''action'', ''label'', ''message'', ''created_at'',
      ''updated_at'', ''detected_at'', ''calculated_at'', ''started_at'', ''last_seen_at'', ''ended_at'',
      ''expires_at'']"

definition non_person_name_fields :: "string list" where
  "non_person_name_fields =
     [''schema_name'', ''table_name'', ''database_name'', ''datasource_name'', ''column_name'',
      ''field_name'', ''resource_name'', ''route_name'', ''page_name'', ''metric_name'', ''event_name'']"

definition direct_person_fields :: "string list" where
  "direct_person_fields =
     [''owner'', ''owner_name'', ''owner_email'', ''actor_name'', ''actor_email'', ''reviewer_name'',
      ''reviewer_email'', ''submitted_by_user_name'', ''submitted_by_user_email'',
      ''decided_by_user_name'', ''decided_by_user_email'', ''reviewed_by_user_name'',
      ''reviewed_by_user_email'']"

definition person_mapping_fields :: "string list" where
  "person_mapping_fields =
     [''data_owner'', ''owner'', ''actor'', ''reviewer'', ''submitted_by_user'', ''decided_by_user'',
      ''reviewed_by_user'']"

definition bank_field_hints :: "string list" where
  "bank_field_hints =
     [''bank'', ''banco'', ''conta'', ''account'', ''agencia'', ''agency'', ''iban'', ''pix'', ''card'',
      ''cartao'', ''credit'']"

definition personal_segments :: "string list" where
  "personal_segments =
     [''email'', ''mail'', ''cpf'', ''cnpj'', ''telefone'', ''phone'', ''nome'', ''endereco'',
      ''address'', ''renda'', ''salary'', ''salario'', ''income'', ''bank'', ''banco'', ''account'',
      ''conta'', ''agencia'', ''agency'', ''iban'', ''pix'', ''card'', ''cartao'', ''credit'', ''loan'',
      ''debt'', ''saldo'', ''amount'', ''valor'', ''price'', ''payment'', ''parcela'', ''installment'',
      ''fee'', ''contract'', ''contrato'', ''proposal'', ''proposta'', ''quota'', ''cota'']"

definition person_contexts :: "string list" where
  "person_contexts =
     [''owner'', ''user'', ''actor'', ''person'', ''customer'', ''client'', ''contact'', ''full'',
      ''first'', ''last'', ''data_owner'']"

definition normalize_field_name :: "string option \<Rightarrow> string" where
  "normalize_field_name field_name = replace_char CHR '' '' CHR ''_'' (replace_char CHR ''-'' CHR ''_'' (norm_token field_name))"

definition is_secret_field :: "string option \<Rightarrow> bool" where
  "is_secret_field field_name = (let normalized = normalize_field_name field_name in
     normalized \<noteq> [] \<and> list_ex (\<lambda>token. contains_str token normalized) secret_field_hints)"

text \<open>\<open>[s for s in re.split(r"[^a-z0-9]+", text) if s]\<close>; the first argument is the segment read so far.\<close>

fun segments_from :: "string \<Rightarrow> string \<Rightarrow> string list" where
  "segments_from acc [] = (if acc = [] then [] else [acc])"
| "segments_from acc (c # cs) =
     (if is_slug_char c then segments_from (acc @ [c]) cs
      else (if acc = [] then [] else [acc]) @ segments_from [] cs)"

definition field_segments :: "string \<Rightarrow> string list" where
  "field_segments normalized = segments_from [] normalized"

definition is_sensitive_field :: "string option \<Rightarrow> bool" where
  "is_sensitive_field field_name =
     (let normalized = normalize_field_name field_name in
      if normalized = [] then False
      else
        let all_segments = field_segments normalized;
            segments = (if normalized \<in> set non_person_name_fields
                        then filter (\<lambda>segment. segment \<noteq> ''name'') all_segments else all_segments)
        in list_ex (\<lambda>token.
             if token = ''name'' then
               ''name'' \<in> set segments \<and> normalized \<notin> set non_person_name_fields
               \<and> list_ex (\<lambda>context. context \<in> set segments) person_contexts
             else token \<in> set segments) sensitive_field_hints)"

definition is_public_metadata_key :: "string option \<Rightarrow> bool" where
  "is_public_metadata_key field_name = (let normalized = normalize_field_name field_name in
     normalized \<in> set public_metadata_keys \<or> ends_with ''_id'' normalized)"

section \<open>Values that look personal\<close>

definition email_char :: "char \<Rightarrow> bool" where
  "email_char c = (c \<noteq> CHR ''@'' \<and> \<not> py_space c)"

definition email_re :: regex where
  "email_re = cats [some email_char, lit ''@'', some email_char, lit ''.'', some email_char]"

definition cpf_re :: regex where
  "cpf_re = cats [times 3 is_digit, opt (lit ''.''), times 3 is_digit, opt (lit ''.''), times 3 is_digit,
     opt (lit ''-''), times 2 is_digit]"

definition cnpj_re :: regex where
  "cnpj_re = cats [times 2 is_digit, opt (lit ''.''), times 3 is_digit, opt (lit ''.''), times 3 is_digit,
     opt (lit ''/''), times 4 is_digit, opt (lit ''-''), times 2 is_digit]"

definition phone_char :: "char \<Rightarrow> bool" where
  "phone_char c = (is_digit c \<or> py_space c \<or> c \<in> set ''().-'')"

definition phone_re :: regex where
  "phone_re = cats [opt (lit ''+''), Cls is_digit, times 7 phone_char, Many phone_char]"

definition iban_re :: regex where
  "iban_re = cats [times 2 is_ascii_alpha, times 2 is_digit,
     times 10 (\<lambda>c. is_ascii_alpha c \<or> is_digit c), up_to 20 (\<lambda>c. is_ascii_alpha c \<or> is_digit c)]"

definition looks_like_email :: "string \<Rightarrow> bool" where
  "looks_like_email value = matches_whole email_re (py_strip value)"

definition looks_like_document :: "string \<Rightarrow> bool" where
  "looks_like_document value = (let text = py_strip value in matches_whole cpf_re text \<or> matches_whole cnpj_re text)"

definition looks_like_phone :: "string \<Rightarrow> bool" where
  "looks_like_phone value = (let text = py_strip value in length text \<ge> 8 \<and> matches_whole phone_re text)"

definition looks_like_bank_identifier :: "string \<Rightarrow> string option \<Rightarrow> bool" where
  "looks_like_bank_identifier value field_name =
     (if \<not> list_ex (\<lambda>token. contains_str token (normalize_field_name field_name)) bank_field_hints then False
      else let text = filter (\<lambda>c. c \<noteq> CHR '' '') (py_strip value) in
        list_ex is_digit text \<and> (length text \<ge> 8 \<or> matches_whole iban_re text))"

text \<open>For a value that is a string; any other value does not look sensitive.\<close>

definition looks_like_sensitive_value :: "string \<Rightarrow> string option \<Rightarrow> bool" where
  "looks_like_sensitive_value value field_name =
     (let text = py_strip value in
      if text = [] then False
      else if looks_like_email text \<or> looks_like_document text \<or> looks_like_phone text then True
      else if looks_like_bank_identifier text field_name then True
      else let normalized_field = normalize_field_name field_name in
        normalized_field \<notin> set non_person_name_fields
        \<and> list_ex (\<lambda>token. token \<in> set (field_segments normalized_field)) personal_segments)"

section \<open>Masking\<close>

definition can_view_sensitive_data ::
  "user_row option \<Rightarrow> table_row option \<Rightarrow> datasource_row option \<Rightarrow> string \<Rightarrow> classification_map option \<Rightarrow> bool" where
  "can_view_sensitive_data user tbl ds action column_classification =
     (if user = None then False
      else if is_admin_role (user_role_names user) then True
      else can_access_resource user action tbl ds column_classification)"

definition redact_token :: py_value where
  "redact_token = PStr ''[redacted]''"

definition mask_token :: py_value where
  "mask_token = PStr ''[masked]''"

definition person_keys :: "string list" where
  "person_keys = [''name'', ''email'', ''owner'', ''owner_name'', ''owner_email'']"

fun mask_sensitive_value :: "bool \<Rightarrow> string option \<Rightarrow> py_value \<Rightarrow> py_value" where
  "mask_sensitive_value can_view field_name PNone = PNone"
| "mask_sensitive_value can_view field_name (PDict d) =
     (if \<not> can_view \<and> normalize_field_name field_name \<in> set person_mapping_fields
      then PDict (map (\<lambda>(k, x). (k, if k \<in> set person_keys then mask_token else mask_sensitive_value can_view (Some k) x)) d)
      else PDict (map (\<lambda>(k, x). (k, mask_sensitive_value can_view (Some k) x)) d))"
| "mask_sensitive_value can_view field_name (PList xs) = PList (map (mask_sensitive_value can_view field_name) xs)"
| "mask_sensitive_value can_view field_name (PStr value) =
     (if is_secret_field field_name then redact_token
      else if \<not> can_view \<and> normalize_field_name field_name \<in> set direct_person_fields then mask_token
      else if \<not> can_view \<and> (is_sensitive_field field_name \<or> looks_like_sensitive_value value field_name) then mask_token
      else if looks_like_sensitive_value value field_name \<and> can_view then PStr value
      else PStr (redact_sensitive_string value))"
| "mask_sensitive_value can_view field_name v =
     (if is_secret_field field_name then redact_token
      else if \<not> can_view \<and> is_sensitive_field field_name then mask_token
      else v)"

fun mask_payload_by_policy :: "bool \<Rightarrow> py_value \<Rightarrow> py_value" where
  "mask_payload_by_policy can_view (PDict d) = PDict (map (\<lambda>(k, x). (k, mask_sensitive_value can_view (Some k) x)) d)"
| "mask_payload_by_policy can_view (PList xs) = PList (map (mask_payload_by_policy can_view) xs)"
| "mask_payload_by_policy can_view v = mask_sensitive_value can_view None v"

definition redact_sensitive_metadata :: "py_value \<Rightarrow> py_value" where
  "redact_sensitive_metadata value = mask_payload_by_policy False value"

definition class_masks :: "classification_map option \<Rightarrow> bool" where
  "class_masks c = (case c of None \<Rightarrow> False
     | Some c \<Rightarrow> cc_is_sensitive_data c \<or> cc_is_financial_data c
         \<or> cc_taxonomy_group c \<in> {Some ''personal'', Some ''financial'', Some ''sensitive''})"

definition value_looks_sensitive :: "py_value \<Rightarrow> string option \<Rightarrow> bool" where
  "value_looks_sensitive v field_name = (case v of PStr s \<Rightarrow> looks_like_sensitive_value s field_name | _ \<Rightarrow> False)"

definition mask_row_by_classification ::
  "bool \<Rightarrow> string option \<Rightarrow> bool \<Rightarrow> bool \<Rightarrow> (string \<times> classification_map) list \<Rightarrow> (string \<times> py_value) list
     \<Rightarrow> (string \<times> py_value) list" where
  "mask_row_by_classification can_view level has_personal has_sensitive_personal classes row =
     (if row = [] then []
      else if can_view then row
      else
        let should_mask_all = has_personal \<or> has_sensitive_personal
              \<or> norm_token level \<in> {''confidential'', ''restricted'', ''personal_data''}
        in if classes \<noteq> [] then
             map (\<lambda>(k, v).
               if should_mask_all \<and> \<not> is_public_metadata_key (Some k) then (k, mask_token)
               else (k, if class_masks (map_of classes k) \<or> is_sensitive_field (Some k) \<or> value_looks_sensitive v (Some k)
                        then mask_token else v)) row
           else
             map (\<lambda>(k, v).
               if should_mask_all \<and> \<not> is_public_metadata_key (Some k) then (k, mask_token)
               else (k, mask_sensitive_value can_view (Some k) v)) row)"

section \<open>What a masked payload depends on\<close>

lemma normalize_no_field [simp]: "normalize_field_name None = []"
  by (simp add: normalize_field_name_def replace_char_def)

lemma mask_payload_is_mask_value: "mask_payload_by_policy can_view v = mask_sensitive_value can_view None v"
  by (induction can_view v rule: mask_payload_by_policy.induct) (auto simp: person_mapping_fields_def)

text \<open>Everything the policy hides from a reader replaced: the strings of hidden fields by \<open>f\<close>, the personal entries of
  a person by \<open>g\<close>.  A list belongs to the field it stands in.\<close>

definition hidden_field :: "bool \<Rightarrow> string option \<Rightarrow> bool" where
  "hidden_field can_view field_name \<longleftrightarrow> is_secret_field field_name
     \<or> \<not> can_view \<and> (normalize_field_name field_name \<in> set direct_person_fields \<or> is_sensitive_field field_name)"

fun alter_hidden ::
  "(string \<Rightarrow> string) \<Rightarrow> (py_value \<Rightarrow> py_value) \<Rightarrow> bool \<Rightarrow> string option \<Rightarrow> py_value \<Rightarrow> py_value" where
  "alter_hidden f g can_view field_name (PDict d) =
     PDict (map (\<lambda>(k, x). (k,
       if \<not> can_view \<and> normalize_field_name field_name \<in> set person_mapping_fields \<and> k \<in> set person_keys then g x
       else alter_hidden f g can_view (Some k) x)) d)"
| "alter_hidden f g can_view field_name (PList xs) = PList (map (alter_hidden f g can_view field_name) xs)"
| "alter_hidden f g can_view field_name (PStr s) = PStr (if hidden_field can_view field_name then f s else s)"
| "alter_hidden f g can_view field_name v = v"

lemma mask_value_hides:
  "mask_sensitive_value can_view field_name (alter_hidden f g can_view field_name v) = mask_sensitive_value can_view field_name v"
  by (induction can_view field_name v rule: mask_sensitive_value.induct) (auto simp: hidden_field_def)

text \<open>C20: A masked payload does not depend on what the policy hides: the strings of secret fields for every reader,
  and for a reader without the right to sensitive data the strings of personal and sensitive fields and the
  personal entries of a person, at any depth.\<close>

theorem masked_payload_hides:
  "mask_payload_by_policy can_view (alter_hidden f g can_view None v) = mask_payload_by_policy can_view v"
  unfolding mask_payload_is_mask_value by (rule mask_value_hides)

text \<open>The strings of a value.\<close>

fun strings_of :: "py_value \<Rightarrow> string list" where
  "strings_of (PDict d) = concat (map (\<lambda>(k, x). strings_of x) d)"
| "strings_of (PList xs) = concat (map strings_of xs)"
| "strings_of (PStr s) = [s]"
| "strings_of v = []"

definition looks_personal :: "string \<Rightarrow> bool" where
  "looks_personal s \<longleftrightarrow> looks_like_email s \<or> looks_like_document s \<or> looks_like_phone s"

lemma not_sensitive_not_personal:
  assumes "\<not> looks_like_sensitive_value s field_name"
  shows "\<not> looks_personal s"
proof (cases "py_strip s = []")
  case True
  have "\<not> matches_whole email_re [] \<and> \<not> matches_whole cpf_re [] \<and> \<not> matches_whole cnpj_re []" by code_simp
  with True show ?thesis
    by (simp add: looks_personal_def looks_like_email_def looks_like_document_def looks_like_phone_def)
next
  case False
  with assms show ?thesis
    by (simp add: looks_like_sensitive_value_def looks_personal_def Let_def looks_like_email_def looks_like_document_def
        looks_like_phone_def split: if_splits)
qed

lemma mask_value_strings:
  "t \<in> set (strings_of (mask_sensitive_value False field_name v)) \<Longrightarrow>
     t \<in> {''[masked]'', ''[redacted]''} \<or> (\<exists>s. s \<in> set (strings_of v) \<and> \<not> looks_personal s \<and> t = redact_sensitive_string s)"
proof (induction v arbitrary: field_name t rule: strings_of.induct)
  case (1 d)
  define h where "h k x = (if normalize_field_name field_name \<in> set person_mapping_fields \<and> k \<in> set person_keys
    then mask_token else mask_sensitive_value False (Some k) x)" for k x
  have "mask_sensitive_value False field_name (PDict d) = PDict (map (\<lambda>(k, x). (k, h k x)) d)"
    by (simp add: h_def)
  then obtain k x where x: "(k, x) \<in> set d" and t: "t \<in> set (strings_of (h k x))"
    using "1.prems" by (auto simp: case_prod_beta)
  show ?case
  proof (cases "h k x = mask_token")
    case True
    then show ?thesis using t by (simp add: mask_token_def)
  next
    case False
    then have "h k x = mask_sensitive_value False (Some k) x" by (auto simp: h_def)
    then have "t \<in> {''[masked]'', ''[redacted]''} \<or> (\<exists>s. s \<in> set (strings_of x) \<and> \<not> looks_personal s \<and> t = redact_sensitive_string s)"
      using t "1.IH"[OF x refl] by simp
    then show ?thesis using x by fastforce
  qed
next
  case (3 s)
  then show ?case using not_sensitive_not_personal[of s field_name]
    by (auto simp: redact_token_def mask_token_def split: if_splits)
qed (fastforce simp: redact_token_def mask_token_def split: if_splits)+

text \<open>A string of a payload masked for a reader without the right to sensitive data is a mask or the redacted form
  of a string of the payload that is no e-mail address, no CPF or CNPJ number and no telephone number.\<close>

theorem masked_payload_strings:
  assumes "t \<in> set (strings_of (redact_sensitive_metadata v))"
  shows "t \<in> {''[masked]'', ''[redacted]''} \<or>
    (\<exists>s. s \<in> set (strings_of v) \<and> \<not> looks_personal s \<and> t = redact_sensitive_string s)"
  using assms unfolding redact_sensitive_metadata_def mask_payload_is_mask_value
  by (rule mask_value_strings)

theorem masked_payload_strings_witness:
  "\<exists>s. s \<in> set (strings_of (PDict [(''email'', PStr ''a@b.c''), (''note'', PStr ''hi'')]))
     \<and> \<not> looks_personal s \<and> ''hi'' = redact_sensitive_string s"
proof -
  have "''hi'' \<in> set (strings_of (redact_sensitive_metadata (PDict [(''email'', PStr ''a@b.c''), (''note'', PStr ''hi'')])))"
    by code_simp
  from masked_payload_strings[OF this] show ?thesis by simp
qed

section \<open>Where a secret passes\<close>

text \<open>A secret that is a mapping is not covered: under a secret field the entries of a mapping are masked by their
  own names only, so a value under a harmless name is kept, while \<open>redact_value\<close> stars out the whole mapping.\<close>

theorem nested_secret_kept:
  assumes "normalize_field_name (Some k) \<notin> set person_mapping_fields" and "is_sensitive_key (Some k)"
    and "\<not> hidden_field False (Some i)" and "\<not> looks_like_sensitive_value s (Some i)"
  shows "redact_sensitive_metadata (PDict [(k, PDict [(i, PStr s)])]) = PDict [(k, PDict [(i, PStr (redact_sensitive_string s))])]
    \<and> redact_value (PDict [(k, PDict [(i, PStr s)])]) = PDict [(k, PStr stars)]"
  using assms by (simp_all add: redact_sensitive_metadata_def hidden_field_def)

theorem nested_secret_kept_witness:
  "redact_sensitive_metadata (PDict [(''secret'', PDict [(''value'', PStr ''hunter2'')])]) =
     PDict [(''secret'', PDict [(''value'', PStr (redact_sensitive_string ''hunter2''))])]"
  by (rule nested_secret_kept[THEN conjunct1]) code_simp+

text \<open>A row of a table that holds no personal data keeps a secret column as it is as soon as any column of the
  table is classified; without classifications the same row is redacted.\<close>

theorem classified_rows_keep_secrets:
  assumes "is_secret_field (Some k)" and "\<not> is_sensitive_field (Some k)" and "\<not> looks_like_sensitive_value s (Some k)"
    and "classes \<noteq> []" and "\<not> class_masks (map_of classes k)"
    and "norm_token level \<notin> {''confidential'', ''restricted'', ''personal_data''}"
  shows "mask_row_by_classification False level False False classes [(k, PStr s)] = [(k, PStr s)]
    \<and> mask_row_by_classification False level False False [] [(k, PStr s)] = [(k, redact_token)]"
  using assms by (simp_all add: mask_row_by_classification_def value_looks_sensitive_def)

definition plain_class :: classification_map where
  "plain_class = \<lparr>cc_taxonomy_group = None, cc_is_personal_data = False, cc_is_sensitive_data = False,
     cc_is_financial_data = False\<rparr>"

theorem classified_rows_keep_secrets_witness:
  "mask_row_by_classification False None False False [(''id'', plain_class)] [(''password'', PStr ''hunter2'')]
     = [(''password'', PStr ''hunter2'')]"
  by (rule classified_rows_keep_secrets[THEN conjunct1]) code_simp+

text \<open>In the rows of a table with personal data or a confidential level a reader without the right to sensitive data
  sees, whatever the classification of the columns, only the public metadata columns.\<close>

theorem confidential_rows_masked:
  assumes "has_personal \<or> has_sensitive_personal
      \<or> norm_token level \<in> {''confidential'', ''restricted'', ''personal_data''}"
  shows "map fst (mask_row_by_classification False level has_personal has_sensitive_personal classes row) = map fst row
    \<and> list_all (\<lambda>(k, v). is_public_metadata_key (Some k) \<or> v = mask_token)
        (mask_row_by_classification False level has_personal has_sensitive_personal classes row)"
  using assms by (auto simp: mask_row_by_classification_def Let_def list_all_iff split: if_splits)

theorem confidential_rows_masked_witness:
  "map fst (mask_row_by_classification False (Some ''Restricted'') False False [] [(''id'', PInt 7), (''cpf'', PStr ''x'')])
     = map fst [(''id'', PInt 7), (''cpf'', PStr ''x'')]"
proof -
  have "norm_token (Some ''Restricted'') \<in> {''confidential'', ''restricted'', ''personal_data''}" by code_simp
  then show ?thesis by (intro confidential_rows_masked[THEN conjunct1]) simp
qed

section \<open>Payloads of tables that are shown masked\<close>

text \<open>\<open>dict.update\<close> on a copy.\<close>

definition masked_copy :: "(string \<times> py_value) list \<Rightarrow> (string \<times> py_value) list \<Rightarrow> (string \<times> py_value) list" where
  "masked_copy payload updates = dict_update payload updates"

definition masked_owner :: "(string \<times> py_value) list \<Rightarrow> (string \<times> py_value) list" where
  "masked_owner masked =
     (case dict_get masked ''data_owner'' of
        PDict d \<Rightarrow> dict_set ''data_owner'' (mask_payload_by_policy False (PDict d)) masked
      | _ \<Rightarrow> masked)"

definition mask_dashboard_asset_payload :: "(string \<times> py_value) list \<Rightarrow> (string \<times> py_value) list" where
  "mask_dashboard_asset_payload payload = masked_copy payload
       [(''sensitivity_level'', PNone),
        (''sensitivity_label'', PStr ''Mascarado para o seu perfil''),
        (''owner_name'', PStr ''Visibilidade parcial''),
        (''owner_email'', PNone),
        (''classification_defined'', PBool False),
        (''masked_sensitive_fields'', PBool True)]"

definition mask_table_payload :: "(string \<times> py_value) list \<Rightarrow> (string \<times> py_value) list" where
  "mask_table_payload payload = masked_owner (masked_copy payload
       [(''sensitivity_level'', PNone),
        (''has_personal_data'', PBool False),
        (''has_sensitive_personal_data'', PBool False),
        (''legal_basis'', PNone),
        (''privacy_purpose'', PNone),
        (''retention_policy'', PNone),
        (''access_scope'', PNone),
        (''access_roles'', PList []),
        (''privacy_notes'', PNone),
        (''privacy_reviewed_by_user_id'', PNone),
        (''privacy_reviewed_by_user_name'', PNone),
        (''privacy_reviewed_by_user_email'', PNone),
        (''privacy_reviewed_at'', PNone),
        (''owner_email'', PNone),
        (''is_masked'', PBool True)])"

definition mask_privacy_summary_payload :: "(string \<times> py_value) list \<Rightarrow> (string \<times> py_value) list" where
  "mask_privacy_summary_payload payload = masked_owner (masked_copy payload
       [(''sensitivity_level'', PNone),
        (''sensitivity_label'', PStr ''Mascarado para o seu perfil''),
        (''legal_basis'', PNone),
        (''legal_basis_label'', PNone),
        (''privacy_purpose'', PNone),
        (''retention_policy'', PNone),
        (''is_masked'', PBool True),
        (''access_scope'', PNone),
        (''access_scope_label'', PStr ''Mascarado''),
        (''access_roles'', PList []),
        (''access_role_labels'', PList []),
        (''privacy_notes'', PNone),
        (''privacy_reviewed_by_user_id'', PNone),
        (''privacy_reviewed_by_user_name'', PNone),
        (''privacy_reviewed_by_user_email'', PNone),
        (''privacy_reviewed_at'', PNone),
        (''owner_email'', PNone)])"

definition mask_certification_summary_payload :: "(string \<times> py_value) list \<Rightarrow> (string \<times> py_value) list" where
  "mask_certification_summary_payload payload = masked_owner (masked_copy payload
       [(''owner'', PNone),
        (''owner_email'', PNone),
        (''data_owner_id'', PNone),
        (''data_owner'', PNone),
        (''certification_criticality'', PNone),
        (''certification_badges'', PList []),
        (''certification_notes'', PNone),
        (''owner_reviewed_by_user_id'', PNone),
        (''owner_reviewed_by_user_name'', PNone),
        (''owner_reviewed_by_user_email'', PNone)])"

definition mask_incident_asset_context_payload :: "(string \<times> py_value) list \<Rightarrow> (string \<times> py_value) list" where
  "mask_incident_asset_context_payload payload = masked_copy payload
       [(''owner_name'', PStr ''Visibilidade parcial''),
        (''owner_email'', PNone),
        (''owner_defined'', PBool False),
        (''data_owner_id'', PNone),
        (''sensitivity_level'', PNone),
        (''sensitivity_label'', PStr ''Mascarado para o seu perfil''),
        (''actions'', PList [])]"

definition mask_audit_event_payload :: "(string \<times> py_value) list \<Rightarrow> (string \<times> py_value) list" where
  "mask_audit_event_payload payload = masked_copy payload
       [(''actor_name'', PNone),
        (''actor_email'', PNone),
        (''before_value'', PStr ''Mascarado para o seu perfil''),
        (''after_value'', PStr ''Mascarado para o seu perfil''),
        (''metadata_json'', redact_sensitive_metadata (PDict [(''masked'', PBool True),
          (''message'', PStr ''Os detalhes desta alteracao foram mascarados para o seu perfil.'')]))]"

text \<open>The metadata of a search result is a dictionary or absent, its badges a list or absent.\<close>

definition mask_search_result_payload :: "(string \<times> py_value) list \<Rightarrow> (string \<times> py_value) list res" where
  "mask_search_result_payload payload =
     res_bind (case dict_get payload ''metadata'' of
         PDict d \<Rightarrow> Inr d
       | v \<Rightarrow> if py_true v then Inl (TypeError ''cannot convert dictionary update sequence'') else Inr [])
       (\<lambda>raw. case redact_sensitive_metadata (PDict raw) of
         PDict d \<Rightarrow>
           res_bind (case map_of payload ''badges'' of
               None \<Rightarrow> Inr []
             | Some (PList bs) \<Rightarrow> Inr bs
             | Some _ \<Rightarrow> Inl (TypeError ''object is not iterable''))
           (\<lambda>badges.
             let metadata = dict_set ''masked'' (PBool True) (dict_set ''classification'' PNone d);
                 kept = filter (\<lambda>b. case b of PDict e \<Rightarrow> dict_get e ''tone'' \<noteq> PStr ''warning'' | _ \<Rightarrow> True) badges
             in Inr (masked_copy payload
               [(''description'', PStr ''Parte dos metadados deste ativo foi mascarada para o seu perfil.''),
                (''metadata'', PDict metadata),
                (''badges'', PList (kept @ [PDict [(''label'', PStr ''Metadados sensiveis mascarados''),
                                                   (''tone'', PStr ''neutral'')]]))]))
       | _ \<Rightarrow> Inl (TypeError ''unreachable''))"

text \<open>The table a search record stands for; a boolean is an \<open>int\<close> for \<open>isinstance\<close>.\<close>

record search_record =
  sr_entity_type :: string
  sr_entity_id :: int
  sr_domain_name :: "string option"
  sr_classification :: "string option"
  sr_metadata :: "(string \<times> py_value) list"

definition search_table_id :: "search_record \<Rightarrow> int option" where
  "search_table_id r =
     (if sr_entity_type r \<in> {''table'', ''classification''} then Some (sr_entity_id r)
      else (case dict_get (sr_metadata r) ''table_id'' of
              PInt i \<Rightarrow> Some i
            | PBool b \<Rightarrow> Some (if b then 1 else 0)
            | _ \<Rightarrow> None))"

definition search_subject :: "int \<Rightarrow> search_record \<Rightarrow> visibility_subject" where
  "search_subject i r = \<lparr>subj_table_id = i, subj_domain_name = sr_domain_name r,
     subj_classification = (case dict_get (sr_metadata r) ''sensitivity_level'' of
        PStr s \<Rightarrow> Some s | _ \<Rightarrow> sr_classification r)\<rparr>"

definition visibility_for_search_records ::
  "rule_table \<Rightarrow> search_record list \<Rightarrow> user_row option \<Rightarrow> (int \<times> visibility_decision) list" where
  "visibility_for_search_records table records user =
     load_visibility_state_map table
       (map snd (fold (\<lambda>r grouped. case search_table_id r of
           None \<Rightarrow> grouped
         | Some i \<Rightarrow> dict_set i (search_subject i r) grouped) records [])) user"

lemma dict_update_fixed:
  "map_of (dict_update payload updates) k = (case map_of (rev updates) k of None \<Rightarrow> map_of payload k | Some v \<Rightarrow> Some v)"
  by (simp add: map_of_dict_update map_add_def split: option.split)

lemma dict_get_masked_copy:
  "dict_get (masked_copy payload updates) k =
     (case map_of (rev updates) k of None \<Rightarrow> dict_get payload k | Some v \<Rightarrow> v)"
  by (simp add: masked_copy_def dict_get_def dict_update_fixed split: option.split)

lemma dict_get_masked_owner:
  "k \<noteq> ''data_owner'' \<Longrightarrow> dict_get (masked_owner d) k = dict_get d k"
  by (simp add: masked_owner_def dict_get_def map_of_dict_set split: py_value.split)

text \<open>The payload of a table shown masked carries no level, legal basis, purpose, retention, access or review data and
  no e-mail of the owner, and the data owner is masked by the policy.\<close>

lemma masked_table_payload_hides:
  assumes "k \<in> {''sensitivity_level'', ''legal_basis'', ''privacy_purpose'', ''retention_policy'', ''access_scope'',
         ''privacy_notes'', ''privacy_reviewed_by_user_id'', ''privacy_reviewed_by_user_name'',
         ''privacy_reviewed_by_user_email'', ''privacy_reviewed_at'', ''owner_email''}"
  shows "dict_get (mask_table_payload payload) k = PNone"
  using assms unfolding mask_table_payload_def
  by (elim insertE) (simp_all add: dict_get_masked_owner dict_get_masked_copy)

lemma masked_table_payload_owner:
  assumes "dict_get payload ''data_owner'' = PDict d"
  shows "dict_get (mask_table_payload payload) ''data_owner'' = mask_payload_by_policy False (PDict d)"
  using assms unfolding mask_table_payload_def masked_owner_def
  by (simp add: dict_get_masked_copy) (simp add: dict_get_def map_of_dict_set)

end
