(* ===== verification/Incidents.thy ===== *)
theory Incidents
  imports SensitiveData
begin

text \<open>
  Incidents: the handlers of \<open>api/incidents.py\<close> that change one, with \<open>features/incidents/mutation_support.py\<close> and
  the editing and visibility rules of \<open>features/incidents/query_support.py\<close>.

  A handler commits before it builds its answer, so it returns the state and, apart from it, the answer or the error.
  The columns that no operation reads (tags, links, impact and postmortem documents, domain and teams) are the
  association list of details; the widths of text columns are not modelled.  The table profiles that decide on
  visibility are what \<open>load_table_profiles\<close> selects.
\<close>

section \<open>Rows\<close>

record incident_row =
  inc_id :: int
  inc_title :: string
  inc_description :: "string option"
  inc_entity_type :: string
  inc_table_fqn :: "string option"
  inc_airflow_dag_id :: "string option"
  inc_detected_at :: instant
  inc_last_seen_at :: "instant option"
  inc_acknowledged_at :: "instant option"
  inc_triaged_at :: "instant option"
  inc_mitigated_at :: "instant option"
  inc_resolved_at :: "instant option"
  inc_closed_at :: "instant option"
  inc_reopened_at :: "instant option"
  inc_sla_due_at :: "instant option"
  inc_status :: string
  inc_severity :: string
  inc_owner_user_id :: "int option"
  inc_reporter_user_id :: "int option"
  inc_source_type :: "string option"
  inc_source_ref_id :: "int option"
  inc_evidence :: py_value
  inc_root_cause :: "string option"
  inc_impact_summary :: "string option"
  inc_mitigation_summary :: "string option"
  inc_postmortem_summary :: "string option"
  inc_details :: "(string \<times> py_value) list"
  inc_recurrence_count :: int
  inc_occurrences :: int
  inc_updated_at :: instant

record incident_event =
  ie_id :: int
  ie_incident_id :: int
  ie_event_type :: string
  ie_title :: string
  ie_detail :: "string option"
  ie_status_from :: "string option"
  ie_status_to :: "string option"
  ie_evidence :: py_value
  ie_actor_user_id :: "int option"
  ie_actor_email :: "string option"

record incident_store =
  ist_incidents :: "incident_row list"
  ist_next_incident :: int
  ist_events :: "incident_event list"
  ist_next_event :: int
  ist_user_ids :: "int list"

definition incident_statuses :: "string list" where
  "incident_statuses = [''open'', ''investigating'', ''mitigated'', ''resolved'', ''closed'', ''reopened'', ''recurring'']"

definition incident_severities :: "string list" where
  "incident_severities = [''sev1'', ''sev2'', ''sev3'', ''sev4'']"

definition incident_entity_types :: "string list" where
  "incident_entity_types = [''table'', ''airflow_dag'']"

definition get_incident_or_404 :: "incident_store \<Rightarrow> int \<Rightarrow> incident_row res" where
  "get_incident_or_404 st i =
     (case List.find (\<lambda>r. inc_id r = i) (ist_incidents st) of
        None \<Rightarrow> http 404 ''Incident not found''
      | Some r \<Rightarrow> Inr r)"

definition put_incident :: "incident_row \<Rightarrow> incident_store \<Rightarrow> incident_store" where
  "put_incident r st = st\<lparr>ist_incidents := map (\<lambda>k. if inc_id k = inc_id r then r else k) (ist_incidents st)\<rparr>"

definition add_incident :: "incident_row \<Rightarrow> incident_store \<Rightarrow> incident_store" where
  "add_incident r st = st\<lparr>ist_incidents := ist_incidents st @ [r\<lparr>inc_id := ist_next_incident st\<rparr>],
     ist_next_incident := ist_next_incident st + 1\<rparr>"

section \<open>Life cycle\<close>

text \<open>The column a status is stamped in.\<close>

definition stamp_field :: "string \<Rightarrow> string option" where
  "stamp_field s =
     (if s = ''investigating'' then Some ''triaged_at''
      else if s = ''mitigated'' then Some ''mitigated_at''
      else if s = ''resolved'' then Some ''resolved_at''
      else if s = ''closed'' then Some ''closed_at''
      else if s = ''reopened'' \<or> s = ''recurring'' then Some ''reopened_at''
      else None)"

definition get_stamp :: "string \<Rightarrow> incident_row \<Rightarrow> instant option" where
  "get_stamp f r =
     (if f = ''triaged_at'' then inc_triaged_at r
      else if f = ''mitigated_at'' then inc_mitigated_at r
      else if f = ''resolved_at'' then inc_resolved_at r
      else if f = ''closed_at'' then inc_closed_at r
      else inc_reopened_at r)"

definition set_stamp :: "string \<Rightarrow> instant \<Rightarrow> incident_row \<Rightarrow> incident_row" where
  "set_stamp f t r =
     (if f = ''triaged_at'' then r\<lparr>inc_triaged_at := Some t\<rparr>
      else if f = ''mitigated_at'' then r\<lparr>inc_mitigated_at := Some t\<rparr>
      else if f = ''resolved_at'' then r\<lparr>inc_resolved_at := Some t\<rparr>
      else if f = ''closed_at'' then r\<lparr>inc_closed_at := Some t\<rparr>
      else r\<lparr>inc_reopened_at := Some t\<rparr>)"

definition acknowledging :: "string list" where
  "acknowledging = [''investigating'', ''mitigated'', ''resolved'', ''closed'', ''reopened'', ''recurring'']"

definition stamp_first :: "string \<Rightarrow> instant \<Rightarrow> incident_row \<Rightarrow> incident_row" where
  "stamp_first next_status t r =
     (case stamp_field next_status of
        None \<Rightarrow> r
      | Some f \<Rightarrow> if get_stamp f r = None then set_stamp f t r else r)"

definition apply_incident_lifecycle_transition ::
  "string option \<Rightarrow> string \<Rightarrow> instant \<Rightarrow> incident_row \<Rightarrow> incident_row" where
  "apply_incident_lifecycle_transition previous_status next_status timestamp r =
     (let r1 = (if next_status \<in> set acknowledging \<and> inc_acknowledged_at r = None
                then r\<lparr>inc_acknowledged_at := Some timestamp\<rparr> else r);
          r2 = stamp_first next_status timestamp r1;
          r3 = (if previous_status \<in> {Some ''resolved'', Some ''closed''}
                   \<and> next_status \<in> {''open'', ''investigating'', ''reopened'', ''recurring''}
                then r2\<lparr>inc_reopened_at := Some timestamp\<rparr> else r2);
          r4 = (if next_status = ''reopened'' then r3\<lparr>inc_reopened_at := Some timestamp\<rparr> else r3)
      in if next_status = ''recurring'' then r4\<lparr>inc_recurrence_count := inc_recurrence_count r4 + 1\<rparr> else r4)"

section \<open>Checks\<close>

text \<open>The entity of a payload, with the stored one where the payload has none.\<close>

definition validate_incident_entity :: "string option \<Rightarrow> string option \<Rightarrow> string option \<Rightarrow> incident_row option \<Rightarrow> unit res" where
  "validate_incident_entity payload_type payload_fqn payload_dag fallback =
     (let entity_type = (if payload_type \<noteq> None then payload_type else map_option inc_entity_type fallback);
          table_fqn = (if payload_fqn \<noteq> None then payload_fqn else Option.bind fallback inc_table_fqn);
          dag = (if payload_dag \<noteq> None then payload_dag else Option.bind fallback inc_airflow_dag_id)
      in if entity_type = Some ''table'' \<and> py_strip (or_empty table_fqn) = []
         then http 422 ''table_fqn is required for table incidents''
         else if entity_type = Some ''airflow_dag'' \<and> py_strip (or_empty dag) = []
         then http 422 ''airflow_dag_id is required for airflow_dag incidents''
         else Inr ())"

definition validate_incident_user_refs :: "incident_store \<Rightarrow> int option \<Rightarrow> int option \<Rightarrow> unit res" where
  "validate_incident_user_refs st reporter owner =
     (let known = (\<lambda>u. case u of None \<Rightarrow> True | Some i \<Rightarrow> i \<in> set (ist_user_ids st)) in
      if \<not> known reporter then http 422 ''Invalid reporter_user_id''
      else if \<not> known owner then http 422 ''Invalid owner_user_id''
      else Inr ())"

definition incident_admin :: "user_row \<Rightarrow> bool" where
  "incident_admin user = list_ex (\<lambda>r. role_name r = ''admin'') (user_roles user)"

definition can_edit_incident :: "user_row \<Rightarrow> incident_row \<Rightarrow> bool" where
  "can_edit_incident user r =
     (incident_admin user \<or> inc_owner_user_id r = Some (user_id user) \<or> inc_reporter_user_id r = Some (user_id user))"

definition record_incident_event ::
  "int \<Rightarrow> string \<Rightarrow> string \<Rightarrow> user_row \<Rightarrow> string option \<Rightarrow> string option \<Rightarrow> string option \<Rightarrow> py_value
     \<Rightarrow> incident_store \<Rightarrow> incident_store" where
  "record_incident_event incident event_type title actor detail status_from status_to evidence st =
     st\<lparr>ist_events := ist_events st @
          [\<lparr>ie_id = ist_next_event st, ie_incident_id = incident, ie_event_type = event_type, ie_title = title,
            ie_detail = detail, ie_status_from = status_from, ie_status_to = status_to, ie_evidence = evidence,
            ie_actor_user_id = Some (user_id actor), ie_actor_email = Some (user_email actor)\<rparr>],
        ist_next_event := ist_next_event st + 1\<rparr>"

section \<open>Who sees an incident\<close>

record table_profile =
  tp_table_id :: int
  tp_lookup_key :: string
  tp_table_fqn :: string
  tp_domain_name :: "string option"
  tp_sensitivity_level :: "string option"

definition incident_fqn_variants :: "string option \<Rightarrow> string list" where
  "incident_fqn_variants table_fqn =
     (let normalized = py_strip (or_empty table_fqn) in
      if normalized = [] then []
      else
        let parts = filter (\<lambda>p. p \<noteq> []) (split_on CHR ''.'' normalized) in
        normalized # (if length parts \<ge> 2 then [join_with ''.'' (drop (length parts - 2) parts)] else []))"

text \<open>Later profiles overwrite earlier ones of the same name.\<close>

definition profile_map_of :: "table_profile list \<Rightarrow> (string \<times> table_profile) list" where
  "profile_map_of profiles =
     fold (\<lambda>p m. dict_set (tp_table_fqn p) p (dict_set (tp_lookup_key p) p m)) profiles []"

definition visibility_for_profiles ::
  "rule_table \<Rightarrow> table_profile list \<Rightarrow> user_row option \<Rightarrow> (int \<times> visibility_decision) list" where
  "visibility_for_profiles rules profiles user =
     load_visibility_state_map rules
       (map (\<lambda>p. \<lparr>subj_table_id = tp_table_id p, subj_domain_name = tp_domain_name p,
                  subj_classification = tp_sensitivity_level p\<rparr>) profiles) user"

definition incident_visible ::
  "rule_table \<Rightarrow> table_profile list \<Rightarrow> user_row option \<Rightarrow> incident_row \<Rightarrow> bool" where
  "incident_visible rules profiles user r =
     (if inc_entity_type r \<noteq> ''table'' \<or> or_empty (inc_table_fqn r) = [] then True
      else
        let m = profile_map_of profiles;
            decisions = visibility_for_profiles rules (map snd m) user;
            candidates = or_empty (inc_table_fqn r) # incident_fqn_variants (inc_table_fqn r)
        in (case List.find (\<lambda>c. map_of m c \<noteq> None) candidates of
              None \<Rightarrow> False
            | Some c \<Rightarrow>
                (case map_of m c of
                   None \<Rightarrow> False
                 | Some p \<Rightarrow>
                     (case map_of decisions (tp_table_id p) of
                        None \<Rightarrow> True
                      | Some d \<Rightarrow> vis_visible d))))"

definition filter_incidents_for_user ::
  "rule_table \<Rightarrow> table_profile list \<Rightarrow> user_row option \<Rightarrow> incident_row list \<Rightarrow> incident_row list" where
  "filter_incidents_for_user rules profiles user rs = filter (incident_visible rules profiles user) rs"

text \<open>What a handler reads besides the state: the clock, the visibility rules and the table profiles.\<close>

record incident_env =
  ienv_rules :: rule_table
  ienv_profiles :: "table_profile list"
  ienv_iso :: "instant \<Rightarrow> string"

definition incident_payload :: "incident_env \<Rightarrow> user_row \<Rightarrow> incident_store \<Rightarrow> int \<Rightarrow> incident_row res" where
  "incident_payload env user st i =
     res_bind (get_incident_or_404 st i) (\<lambda>r.
       if filter_incidents_for_user (ienv_rules env) (ienv_profiles env) (Some user) [r] = []
       then http 403 ''Incident is not visible for this profile'' else Inr r)"

section \<open>Creating an incident\<close>

record incident_in =
  ii_title :: "string"
  ii_description :: "string option"
  ii_entity_type :: "string"
  ii_table_fqn :: "string option"
  ii_airflow_dag_id :: "string option"
  ii_detected_at :: "py_datetime"
  ii_last_seen_at :: "instant option"
  ii_acknowledged_at :: "instant option"
  ii_triaged_at :: "instant option"
  ii_mitigated_at :: "instant option"
  ii_resolved_at :: "instant option"
  ii_closed_at :: "instant option"
  ii_reopened_at :: "instant option"
  ii_sla_due_at :: "instant option"
  ii_status :: "string"
  ii_severity :: "string"
  ii_owner_user_id :: "int option"
  ii_reporter_user_id :: "int option"
  ii_source_type :: "string option"
  ii_source_ref_id :: "int option"
  ii_evidence :: "py_value"
  ii_root_cause :: "string option"
  ii_impact_summary :: "string option"
  ii_mitigation_summary :: "string option"
  ii_postmortem_summary :: "string option"
  ii_details :: "(string \<times> py_value) list"
  ii_recurrence_count :: "int option"
  ii_occurrences :: "int option"

text \<open>The limits of \<open>schemas/incident.py\<close>.\<close>

definition title_ok :: "string \<Rightarrow> bool" where
  "title_ok t = (3 \<le> length t \<and> length t \<le> 255)"

definition incident_in_ok :: "incident_in \<Rightarrow> bool" where
  "incident_in_ok p =
     (title_ok (ii_title p) \<and> ii_entity_type p \<in> set incident_entity_types
      \<and> ii_status p \<in> set incident_statuses \<and> ii_severity p \<in> set incident_severities)"

definition stripped :: "string option \<Rightarrow> string option" where
  "stripped v = (case v of None \<Rightarrow> None | Some s \<Rightarrow> if s = [] then None else Some (py_strip s))"

definition or_int :: "int option \<Rightarrow> int \<Rightarrow> int" where
  "or_int v d = (case v of None \<Rightarrow> d | Some i \<Rightarrow> if i = 0 then d else i)"

definition create_incident_model :: "incident_in \<Rightarrow> int \<Rightarrow> instant \<Rightarrow> incident_row" where
  "create_incident_model p reporter now =
     (let detected = as_utc (ii_detected_at p) in
      apply_incident_lifecycle_transition None (ii_status p) detected
        \<lparr>inc_id = 0, inc_title = py_strip (ii_title p), inc_description = ii_description p,
         inc_entity_type = ii_entity_type p, inc_table_fqn = stripped (ii_table_fqn p),
         inc_airflow_dag_id = stripped (ii_airflow_dag_id p), inc_detected_at = detected,
         inc_last_seen_at = ii_last_seen_at p, inc_acknowledged_at = ii_acknowledged_at p,
         inc_triaged_at = ii_triaged_at p, inc_mitigated_at = ii_mitigated_at p, inc_resolved_at = ii_resolved_at p,
         inc_closed_at = ii_closed_at p, inc_reopened_at = ii_reopened_at p, inc_sla_due_at = ii_sla_due_at p,
         inc_status = ii_status p, inc_severity = ii_severity p, inc_owner_user_id = ii_owner_user_id p,
         inc_reporter_user_id = Some reporter, inc_source_type = ii_source_type p,
         inc_source_ref_id = ii_source_ref_id p, inc_evidence = ii_evidence p, inc_root_cause = ii_root_cause p,
         inc_impact_summary = ii_impact_summary p, inc_mitigation_summary = ii_mitigation_summary p,
         inc_postmortem_summary = ii_postmortem_summary p, inc_details = ii_details p,
         inc_recurrence_count = or_int (ii_recurrence_count p) 0, inc_occurrences = or_int (ii_occurrences p) 1,
         inc_updated_at = now\<rparr>)"

definition create_incident ::
  "incident_env \<Rightarrow> instant \<Rightarrow> user_row \<Rightarrow> incident_in \<Rightarrow> incident_store \<Rightarrow> incident_store \<times> incident_row res" where
  "create_incident env now user p st =
     (if \<not> incident_in_ok p then (st, http 422 ''invalid body'')
      else
        let reporter = or_int (ii_reporter_user_id p) (user_id user) in
        case res_bind (validate_incident_entity (Some (ii_entity_type p)) (ii_table_fqn p) (ii_airflow_dag_id p) None)
               (\<lambda>_. validate_incident_user_refs st (Some reporter) (ii_owner_user_id p)) of
          Inl e \<Rightarrow> (st, Inl e)
        | Inr _ \<Rightarrow>
            let r = create_incident_model p reporter now;
                i = ist_next_incident st;
                st' = record_incident_event i ''created'' ''Incidente criado'' user (inc_description r) None
                        (Some (inc_status r)) (inc_evidence r) (add_incident r st)
            in (st', incident_payload env user st' i))"

section \<open>Recording an event of an incident\<close>

record incident_event_in =
  ev_event_type :: string
  ev_title :: string
  ev_detail :: "string option"
  ev_status_from :: "string option"
  ev_status_to :: "string option"
  ev_evidence :: py_value
  ev_root_cause :: "string option option"
  ev_impact_summary :: "string option option"
  ev_mitigation_summary :: "string option option"
  ev_postmortem_summary :: "string option option"

text \<open>A field of a body that was not sent is \<open>None\<close>, one sent as null \<open>Some None\<close>.\<close>

definition upd :: "'a option \<Rightarrow> 'a \<Rightarrow> 'a" where
  "upd new old = (case new of None \<Rightarrow> old | Some v \<Rightarrow> v)"

text \<open>\<open>value.strip() or None\<close> for a text that was sent.\<close>

definition strip_text :: "string option option \<Rightarrow> string option option" where
  "strip_text v = map_option (\<lambda>t. Option.bind t (\<lambda>s. or_none (py_strip s))) v"

definition apply_event_updates :: "instant \<Rightarrow> incident_event_in \<Rightarrow> incident_row \<Rightarrow> incident_row" where
  "apply_event_updates now p r =
     (let target = or_empty (ev_status_to p);
          r1 = (if target = [] then r
                else (apply_incident_lifecycle_transition (Some (inc_status r)) target now (r\<lparr>inc_status := target\<rparr>))
                  \<lparr>inc_last_seen_at := Some now\<rparr>);
          r2 = r1\<lparr>inc_root_cause := upd (strip_text (ev_root_cause p)) (inc_root_cause r1),
                  inc_impact_summary := upd (strip_text (ev_impact_summary p)) (inc_impact_summary r1),
                  inc_mitigation_summary := upd (strip_text (ev_mitigation_summary p)) (inc_mitigation_summary r1),
                  inc_postmortem_summary := upd (strip_text (ev_postmortem_summary p)) (inc_postmortem_summary r1),
                  inc_evidence := (if ev_evidence p = PNone then inc_evidence r1 else ev_evidence p)\<rparr>
      in if ev_root_cause p \<noteq> None \<or> ev_impact_summary p \<noteq> None \<or> ev_mitigation_summary p \<noteq> None
            \<or> ev_postmortem_summary p \<noteq> None \<or> ev_evidence p \<noteq> PNone
         then r2\<lparr>inc_last_seen_at := Some now\<rparr> else r2)"

text \<open>The column \<open>updated_at\<close> is set when the row changes.\<close>

definition touched :: "instant \<Rightarrow> incident_row \<Rightarrow> incident_row \<Rightarrow> incident_row" where
  "touched now old new = (if new = old then old else new\<lparr>inc_updated_at := now\<rparr>)"

text \<open>The answer of the handler calls a function that the module does not import.\<close>

definition create_incident_event ::
  "instant \<Rightarrow> user_row \<Rightarrow> int \<Rightarrow> incident_event_in \<Rightarrow> incident_store \<Rightarrow> incident_store \<times> incident_event res" where
  "create_incident_event now user i p st =
     (if \<not> (ev_event_type p \<noteq> [] \<and> length (ev_event_type p) \<le> 60 \<and> title_ok (ev_title p))
      then (st, http 422 ''invalid body'')
      else case get_incident_or_404 st i of
        Inl e \<Rightarrow> (st, Inl e)
      | Inr r \<Rightarrow>
          if \<not> can_edit_incident user r then (st, http 403 ''Insufficient permission'')
          else
            let r' = apply_event_updates now p r in
            if inc_status r' \<notin> set incident_statuses then (st, Inl (RuntimeError ''StatementError''))
            else (record_incident_event i (ev_event_type p) (ev_title p) user (ev_detail p) (ev_status_from p)
                    (ev_status_to p) (ev_evidence p) (put_incident (touched now r r') st),
                  Inl (NameError ''serialize_incident_event_out'')))"

section \<open>Changing an incident\<close>

record incident_update =
  iu_title :: "string option option"
  iu_description :: "string option option"
  iu_entity_type :: "string option option"
  iu_table_fqn :: "string option option"
  iu_airflow_dag_id :: "string option option"
  iu_detected_at :: "instant option option"
  iu_last_seen_at :: "instant option option"
  iu_acknowledged_at :: "instant option option"
  iu_triaged_at :: "instant option option"
  iu_mitigated_at :: "instant option option"
  iu_resolved_at :: "instant option option"
  iu_closed_at :: "instant option option"
  iu_reopened_at :: "instant option option"
  iu_sla_due_at :: "instant option option"
  iu_status :: "string option option"
  iu_severity :: "string option option"
  iu_owner_user_id :: "int option option"
  iu_reporter_user_id :: "int option option"
  iu_source_type :: "string option option"
  iu_source_ref_id :: "int option option"
  iu_evidence :: "py_value option"
  iu_root_cause :: "string option option"
  iu_impact_summary :: "string option option"
  iu_mitigation_summary :: "string option option"
  iu_postmortem_summary :: "string option option"
  iu_details :: "(string \<times> py_value) list"
  iu_recurrence_count :: "int option option"
  iu_occurrences :: "int option option"

definition sent :: "'a option option \<Rightarrow> 'a option" where
  "sent v = upd v None"

definition sent_ok :: "('a \<Rightarrow> bool) \<Rightarrow> 'a option option \<Rightarrow> bool" where
  "sent_ok ok v = (case sent v of None \<Rightarrow> True | Some x \<Rightarrow> ok x)"

definition incident_update_ok :: "incident_update \<Rightarrow> bool" where
  "incident_update_ok u =
     (sent_ok title_ok (iu_title u)
      \<and> sent_ok (\<lambda>t. t \<in> set incident_entity_types) (iu_entity_type u)
      \<and> sent_ok (\<lambda>t. t \<in> set incident_statuses) (iu_status u)
      \<and> sent_ok (\<lambda>t. t \<in> set incident_severities) (iu_severity u))"

definition build_incident_update_map :: "incident_update \<Rightarrow> incident_update" where
  "build_incident_update_map u =
     u\<lparr>iu_title := map_option (map_option py_strip) (iu_title u),
       iu_table_fqn := strip_text (iu_table_fqn u),
       iu_airflow_dag_id := strip_text (iu_airflow_dag_id u),
       iu_root_cause := strip_text (iu_root_cause u),
       iu_impact_summary := strip_text (iu_impact_summary u),
       iu_mitigation_summary := strip_text (iu_mitigation_summary u),
       iu_postmortem_summary := strip_text (iu_postmortem_summary u)\<rparr>"

text \<open>A null for a column that must not be null fails when the session commits; \<open>upd_nn\<close> leaves such a column.\<close>

definition upd_nn :: "'a option option \<Rightarrow> 'a \<Rightarrow> 'a" where
  "upd_nn new old = (case new of Some (Some v) \<Rightarrow> v | _ \<Rightarrow> old)"

definition set_incident_fields :: "incident_update \<Rightarrow> incident_row \<Rightarrow> incident_row" where
  "set_incident_fields u r = r\<lparr>
     inc_title := upd_nn (iu_title u) (inc_title r),
     inc_description := upd (iu_description u) (inc_description r),
     inc_entity_type := upd_nn (iu_entity_type u) (inc_entity_type r),
     inc_table_fqn := upd (iu_table_fqn u) (inc_table_fqn r),
     inc_airflow_dag_id := upd (iu_airflow_dag_id u) (inc_airflow_dag_id r),
     inc_detected_at := upd_nn (iu_detected_at u) (inc_detected_at r),
     inc_last_seen_at := upd (iu_last_seen_at u) (inc_last_seen_at r),
     inc_acknowledged_at := upd (iu_acknowledged_at u) (inc_acknowledged_at r),
     inc_triaged_at := upd (iu_triaged_at u) (inc_triaged_at r),
     inc_mitigated_at := upd (iu_mitigated_at u) (inc_mitigated_at r),
     inc_resolved_at := upd (iu_resolved_at u) (inc_resolved_at r),
     inc_closed_at := upd (iu_closed_at u) (inc_closed_at r),
     inc_reopened_at := upd (iu_reopened_at u) (inc_reopened_at r),
     inc_sla_due_at := upd (iu_sla_due_at u) (inc_sla_due_at r),
     inc_status := upd_nn (iu_status u) (inc_status r),
     inc_severity := upd_nn (iu_severity u) (inc_severity r),
     inc_owner_user_id := upd (iu_owner_user_id u) (inc_owner_user_id r),
     inc_reporter_user_id := upd (iu_reporter_user_id u) (inc_reporter_user_id r),
     inc_source_type := upd (iu_source_type u) (inc_source_type r),
     inc_source_ref_id := upd (iu_source_ref_id u) (inc_source_ref_id r),
     inc_evidence := upd (iu_evidence u) (inc_evidence r),
     inc_root_cause := upd (iu_root_cause u) (inc_root_cause r),
     inc_impact_summary := upd (iu_impact_summary u) (inc_impact_summary r),
     inc_mitigation_summary := upd (iu_mitigation_summary u) (inc_mitigation_summary r),
     inc_postmortem_summary := upd (iu_postmortem_summary u) (inc_postmortem_summary r),
     inc_details := dict_update (inc_details r) (iu_details u),
     inc_recurrence_count := (case iu_recurrence_count u of None \<Rightarrow> inc_recurrence_count r
       | Some None \<Rightarrow> 0 | Some (Some n) \<Rightarrow> n),
     inc_occurrences := upd_nn (iu_occurrences u) (inc_occurrences r)\<rparr>"

definition status_changed :: "incident_update \<Rightarrow> incident_row \<Rightarrow> bool" where
  "status_changed u r = (case iu_status u of Some (Some s) \<Rightarrow> s \<noteq> inc_status r | _ \<Rightarrow> False)"

definition evidence_sent :: "incident_update \<Rightarrow> bool" where
  "evidence_sent u = (iu_root_cause u \<noteq> None \<or> iu_impact_summary u \<noteq> None \<or> iu_mitigation_summary u \<noteq> None
     \<or> iu_postmortem_summary u \<noteq> None \<or> iu_evidence u \<noteq> None)"

definition seen_now :: "instant \<Rightarrow> incident_row \<Rightarrow> incident_row" where
  "seen_now now r = (if inc_last_seen_at r = None then r\<lparr>inc_last_seen_at := Some now\<rparr> else r)"

definition apply_incident_update :: "instant \<Rightarrow> incident_update \<Rightarrow> incident_row \<Rightarrow> incident_row" where
  "apply_incident_update now u r =
     (let r1 = set_incident_fields u r;
          r2 = (if status_changed u r
                then seen_now now (apply_incident_lifecycle_transition (Some (inc_status r)) (inc_status r1) now r1)
                else r1)
      in if evidence_sent u then seen_now now r2 else r2)"

definition null_column :: "incident_update \<Rightarrow> incident_row \<Rightarrow> bool" where
  "null_column u r =
     (iu_title u = Some None \<or> iu_entity_type u = Some None \<or> iu_detected_at u = Some None
      \<or> iu_status u = Some None \<or> iu_severity u = Some None \<or> iu_occurrences u = Some None
      \<or> iu_recurrence_count u = Some None \<and> \<not> (status_changed u r \<and> iu_status u = Some (Some ''recurring'')))"

definition event_detail :: "incident_update \<Rightarrow> string option" where
  "event_detail u =
     (let notes = map snd (filter fst
        [(iu_status u \<noteq> None, ''status''), (iu_owner_user_id u \<noteq> None, ''owner''),
         (iu_root_cause u \<noteq> None, ''causa raiz''), (iu_impact_summary u \<noteq> None, ''impacto''),
         (iu_mitigation_summary u \<noteq> None, ''mitigacao''), (iu_postmortem_summary u \<noteq> None, ''postmortem''),
         (iu_evidence u \<noteq> None, ''evidencia'')])
      in if notes = [] then None else Some (''Atualizacao de '' @ join_with '', '' notes @ ''.''))"

definition text_value :: "string option \<Rightarrow> py_value" where
  "text_value v = (case v of None \<Rightarrow> PNone | Some s \<Rightarrow> PStr s)"

definition evidence_of_update :: "incident_update \<Rightarrow> py_value" where
  "evidence_of_update u = PDict
     ((case iu_root_cause u of None \<Rightarrow> [] | Some v \<Rightarrow> [(''root_cause'', text_value v)])
      @ (case iu_impact_summary u of None \<Rightarrow> [] | Some v \<Rightarrow> [(''impact_summary'', text_value v)])
      @ (case iu_mitigation_summary u of None \<Rightarrow> [] | Some v \<Rightarrow> [(''mitigation_summary'', text_value v)])
      @ (case iu_postmortem_summary u of None \<Rightarrow> [] | Some v \<Rightarrow> [(''postmortem_summary'', text_value v)])
      @ (case iu_evidence u of None \<Rightarrow> [] | Some v \<Rightarrow> [(''evidence_json'', v)]))"

definition record_update_events :: "user_row \<Rightarrow> incident_update \<Rightarrow> incident_row \<Rightarrow> incident_row \<Rightarrow> incident_store \<Rightarrow> incident_store" where
  "record_update_events user u before after st =
     (let i = inc_id before;
          st1 = (if status_changed u before
                 then record_incident_event i ''status_change'' ''Status alterado'' user
                        (Some (inc_status before @ '' -> '' @ inc_status after)) (Some (inc_status before))
                        (Some (inc_status after)) PNone st
                 else st);
          st2 = (case iu_owner_user_id u of
                   None \<Rightarrow> st1
                 | Some owner \<Rightarrow>
                     if owner = inc_owner_user_id before then st1
                     else record_incident_event i ''assignment'' ''Responsavel atualizado'' user
                            (Some ''Owner do incidente foi atualizado.'') None None
                            (PDict [(''owner_user_id'', case owner of None \<Rightarrow> PNone | Some o' \<Rightarrow> PInt o')]) st1)
      in if evidence_sent u
         then record_incident_event i ''evidence'' ''Evidencia / postmortem atualizado'' user (event_detail u)
                None None (evidence_of_update u) st2
         else st2)"

definition update_incident ::
  "incident_env \<Rightarrow> instant \<Rightarrow> user_row \<Rightarrow> int \<Rightarrow> incident_update \<Rightarrow> incident_store \<Rightarrow> incident_store \<times> incident_row res" where
  "update_incident env now user i payload st =
     (if \<not> incident_update_ok payload then (st, http 422 ''invalid body'')
      else case get_incident_or_404 st i of
        Inl e \<Rightarrow> (st, Inl e)
      | Inr r \<Rightarrow>
          if \<not> can_edit_incident user r then (st, http 403 ''Insufficient permission'')
          else
            let u = build_incident_update_map payload
            in case res_bind (validate_incident_entity (sent (iu_entity_type payload)) (sent (iu_table_fqn payload))
                        (sent (iu_airflow_dag_id payload)) (Some r))
                      (\<lambda>_. validate_incident_user_refs st (sent (iu_reporter_user_id u)) (sent (iu_owner_user_id u))) of
                 Inl e \<Rightarrow> (st, Inl e)
               | Inr _ \<Rightarrow>
                   if null_column u r then (st, Inl (IntegrityError ''null value in column''))
                   else
                     let r' = touched now r (apply_incident_update now u r);
                         st' = record_update_events user u r r' (put_incident r' st)
                     in (st', incident_payload env user st' i))"

definition delete_incident :: "user_row \<Rightarrow> int \<Rightarrow> incident_store \<Rightarrow> incident_store \<times> unit res" where
  "delete_incident user i st =
     (case get_incident_or_404 st i of
        Inl e \<Rightarrow> (st, Inl e)
      | Inr r \<Rightarrow>
          if \<not> can_edit_incident user r then (st, http 403 ''Insufficient permission'')
          else (st\<lparr>ist_incidents := filter (\<lambda>k. inc_id k \<noteq> i) (ist_incidents st),
                   ist_events := filter (\<lambda>e. ie_incident_id e \<noteq> i) (ist_events st)\<rparr>, Inr ()))"

section \<open>Facts about the life cycle\<close>

lemma get_incidentD: "get_incident_or_404 st i = Inr r \<Longrightarrow> r \<in> set (ist_incidents st) \<and> inc_id r = i"
  by (auto simp: get_incident_or_404_def http_def find_Some_iff split: option.splits)

lemma get_incident_distinct:
  "distinct (map inc_id (ist_incidents st)) \<Longrightarrow> r \<in> set (ist_incidents st) \<Longrightarrow> get_incident_or_404 st (inc_id r) = Inr r"
  by (simp add: get_incident_or_404_def find_distinct_key)

lemma set_stamp_simps [simp]:
  "inc_id (set_stamp f t r) = inc_id r" "inc_status (set_stamp f t r) = inc_status r"
  "inc_severity (set_stamp f t r) = inc_severity r" "inc_entity_type (set_stamp f t r) = inc_entity_type r"
  "inc_table_fqn (set_stamp f t r) = inc_table_fqn r" "inc_source_type (set_stamp f t r) = inc_source_type r"
  "inc_acknowledged_at (set_stamp f t r) = inc_acknowledged_at r"
  "inc_recurrence_count (set_stamp f t r) = inc_recurrence_count r"
  by (simp_all add: set_stamp_def)

lemma stamp_first_simps [simp]:
  "inc_id (stamp_first s t r) = inc_id r" "inc_status (stamp_first s t r) = inc_status r"
  "inc_severity (stamp_first s t r) = inc_severity r" "inc_entity_type (stamp_first s t r) = inc_entity_type r"
  "inc_table_fqn (stamp_first s t r) = inc_table_fqn r" "inc_source_type (stamp_first s t r) = inc_source_type r"
  "inc_acknowledged_at (stamp_first s t r) = inc_acknowledged_at r"
  "inc_recurrence_count (stamp_first s t r) = inc_recurrence_count r"
  by (simp_all add: stamp_first_def split: option.split)

lemma transition_simps [simp]:
  "inc_id (apply_incident_lifecycle_transition prev s t r) = inc_id r"
  "inc_status (apply_incident_lifecycle_transition prev s t r) = inc_status r"
  "inc_severity (apply_incident_lifecycle_transition prev s t r) = inc_severity r"
  "inc_entity_type (apply_incident_lifecycle_transition prev s t r) = inc_entity_type r"
  "inc_table_fqn (apply_incident_lifecycle_transition prev s t r) = inc_table_fqn r"
  "inc_source_type (apply_incident_lifecycle_transition prev s t r) = inc_source_type r"
  by (simp_all add: apply_incident_lifecycle_transition_def Let_def)

text \<open>An incident that has been acted on carries the moment it was acknowledged and the stamp of its status.\<close>

definition stamped :: "incident_row \<Rightarrow> bool" where
  "stamped r \<longleftrightarrow> (inc_status r \<in> set acknowledging \<longrightarrow>
     inc_acknowledged_at r \<noteq> None \<and> (\<forall>f. stamp_field (inc_status r) = Some f \<longrightarrow> get_stamp f r \<noteq> None))"

lemma get_set_stamp [simp]: "get_stamp f (set_stamp f t r) = Some t"
  by (simp add: get_stamp_def set_stamp_def)

lemma get_set_stamp_other:
  "f \<in> {''triaged_at'', ''mitigated_at'', ''resolved_at'', ''closed_at''} \<Longrightarrow> g \<noteq> f
     \<Longrightarrow> get_stamp f (set_stamp g t r) = get_stamp f r"
  by (elim insertE emptyE) (simp_all add: get_stamp_def set_stamp_def)

lemma get_stamp_updates [simp]:
  "get_stamp f (r\<lparr>inc_acknowledged_at := a\<rparr>) = get_stamp f r"
  "get_stamp f (r\<lparr>inc_recurrence_count := n\<rparr>) = get_stamp f r"
  "get_stamp f (r\<lparr>inc_last_seen_at := a\<rparr>) = get_stamp f r"
  "get_stamp f (r\<lparr>inc_updated_at := u\<rparr>) = get_stamp f r"
  by (simp_all add: get_stamp_def)

lemma get_stamp_reopened: "get_stamp f r \<noteq> None \<Longrightarrow> get_stamp f (r\<lparr>inc_reopened_at := Some t\<rparr>) \<noteq> None"
  by (auto simp: get_stamp_def split: if_splits)

lemma get_stamp_reopened_other:
  "f \<in> {''triaged_at'', ''mitigated_at'', ''resolved_at'', ''closed_at''}
     \<Longrightarrow> get_stamp f (r\<lparr>inc_reopened_at := a\<rparr>) = get_stamp f r"
  by (elim insertE emptyE) (simp_all add: get_stamp_def)

lemma stamp_first_set: "stamp_field s = Some f \<Longrightarrow> get_stamp f (stamp_first s t r) \<noteq> None"
  by (simp add: stamp_first_def)

lemma stamp_first_keeps:
  assumes "f \<in> {''triaged_at'', ''mitigated_at'', ''resolved_at'', ''closed_at''}" and "get_stamp f r = Some t0"
  shows "get_stamp f (stamp_first s t r) = Some t0"
proof (cases "stamp_field s")
  case (Some g)
  show ?thesis
  proof (cases "get_stamp g r = None")
    case True
    then have "g \<noteq> f" using assms(2) by auto
    with Some True show ?thesis using assms(2) by (simp add: stamp_first_def get_set_stamp_other[OF assms(1)])
  qed (use Some assms(2) in \<open>auto simp: stamp_first_def\<close>)
qed (use assms(2) in \<open>simp add: stamp_first_def\<close>)

lemma get_stamp_if_reopened:
  "get_stamp f q \<noteq> None \<Longrightarrow> get_stamp f (if A then q\<lparr>inc_reopened_at := Some t\<rparr> else q) \<noteq> None"
  by (metis get_stamp_reopened)

lemma transition_acknowledged:
  "s \<in> set acknowledging \<Longrightarrow> inc_acknowledged_at (apply_incident_lifecycle_transition prev s t r) \<noteq> None"
  by (simp add: apply_incident_lifecycle_transition_def Let_def)

lemma transition_stamp:
  assumes "stamp_field s = Some f"
  shows "get_stamp f (apply_incident_lifecycle_transition prev s t r) \<noteq> None"
proof -
  define r2 where "r2 = stamp_first s t (if s \<in> set acknowledging \<and> inc_acknowledged_at r = None
    then r\<lparr>inc_acknowledged_at := Some t\<rparr> else r)"
  define r3 where "r3 = (if prev \<in> {Some ''resolved'', Some ''closed''}
    \<and> s \<in> {''open'', ''investigating'', ''reopened'', ''recurring''} then r2\<lparr>inc_reopened_at := Some t\<rparr> else r2)"
  define r4 where "r4 = (if s = ''reopened'' then r3\<lparr>inc_reopened_at := Some t\<rparr> else r3)"
  have "get_stamp f r2 \<noteq> None" unfolding r2_def by (rule stamp_first_set[OF assms])
  then have "get_stamp f r3 \<noteq> None" unfolding r3_def by (rule get_stamp_if_reopened)
  then have "get_stamp f r4 \<noteq> None" unfolding r4_def by (rule get_stamp_if_reopened)
  moreover have "apply_incident_lifecycle_transition prev s t r
      = (if s = ''recurring'' then r4\<lparr>inc_recurrence_count := inc_recurrence_count r4 + 1\<rparr> else r4)"
    by (simp only: apply_incident_lifecycle_transition_def Let_def r2_def r3_def r4_def)
  ultimately show ?thesis by simp
qed

lemma transition_stamped: "stamped (apply_incident_lifecycle_transition prev (inc_status r) t r)"
  unfolding stamped_def transition_simps using transition_acknowledged transition_stamp by blast

text \<open>Stamps are set once; only the reopening moves with every reopening.\<close>

lemma transition_keeps_stamp:
  assumes "f \<in> {''triaged_at'', ''mitigated_at'', ''resolved_at'', ''closed_at''}" and "get_stamp f r = Some t0"
  shows "get_stamp f (apply_incident_lifecycle_transition prev s t r) = Some t0"
  unfolding apply_incident_lifecycle_transition_def Let_def
  by (simp add: get_stamp_reopened_other[OF assms(1)] stamp_first_keeps[OF assms(1)] assms(2))

text \<open>C22: Only an administrator, the owner or the reporter of an incident changes it: when the user has no role named
  \<open>admin\<close> and is neither, any call of the handlers for events, updates and deletion leaves the state as it was and
  answers an error.\<close>

theorem only_editors_change_incidents:
  assumes "\<forall>role\<in>set (user_roles user). role_name role \<noteq> ''admin''"
    and "\<forall>r\<in>set (ist_incidents st). inc_id r = i \<longrightarrow>
      inc_owner_user_id r \<noteq> Some (user_id user) \<and> inc_reporter_user_id r \<noteq> Some (user_id user)"
  shows "fst (create_incident_event now user i p st) = st \<and> fst (update_incident env now user i u st) = st
    \<and> fst (delete_incident user i st) = st
    \<and> isl (snd (create_incident_event now user i p st)) \<and> isl (snd (update_incident env now user i u st))
    \<and> isl (snd (delete_incident user i st))"
proof (cases "List.find (\<lambda>r. inc_id r = i) (ist_incidents st)")
  case None
  then show ?thesis
    by (auto simp: create_incident_event_def update_incident_def delete_incident_def get_incident_or_404_def http_def)
next
  case (Some r)
  then have r: "r \<in> set (ist_incidents st)" "inc_id r = i" by (auto simp: find_Some_iff)
  have "\<not> can_edit_incident user r"
    using assms r by (auto simp: can_edit_incident_def incident_admin_def list_ex_iff)
  with Some show ?thesis
    by (auto simp: create_incident_event_def update_incident_def delete_incident_def get_incident_or_404_def http_def)
qed

text \<open>Recording an event of an incident never succeeds: every request that is accepted stores the event and the new
  status and then fails on a name the module does not import.\<close>

theorem event_recorded_but_fails:
  assumes "get_incident_or_404 st i = Inr r" and "can_edit_incident user r"
    and "ev_event_type p \<noteq> []" and "length (ev_event_type p) \<le> 60" and "title_ok (ev_title p)"
    and "inc_status (apply_event_updates now p r) \<in> set incident_statuses"
  shows "snd (create_incident_event now user i p st) = Inl (NameError ''serialize_incident_event_out'')
    \<and> length (ist_events (fst (create_incident_event now user i p st))) = length (ist_events st) + 1"
  using assms by (simp add: create_incident_event_def record_incident_event_def put_incident_def Let_def)

lemma get_put_incident:
  "get_incident_or_404 st (inc_id r') = Inr r \<Longrightarrow> get_incident_or_404 (put_incident r' st) (inc_id r') = Inr r'"
proof -
  have "List.find (\<lambda>k. inc_id k = inc_id r') rs = Some r \<Longrightarrow>
      List.find (\<lambda>k. inc_id k = inc_id r') (map (\<lambda>k. if inc_id k = inc_id r' then r' else k) rs) = Some r'" for rs
    by (induction rs) (auto split: if_splits)
  then show "get_incident_or_404 st (inc_id r') = Inr r \<Longrightarrow> ?thesis"
    by (auto simp: get_incident_or_404_def put_incident_def http_def split: option.splits)
qed

lemma record_event_incidents [simp]:
  "ist_incidents (record_incident_event i et t a d sf s ev st) = ist_incidents st"
  "ist_next_incident (record_incident_event i et t a d sf s ev st) = ist_next_incident st"
  "get_incident_or_404 (record_incident_event i et t a d sf s ev st) j = get_incident_or_404 st j"
  by (simp_all add: record_incident_event_def get_incident_or_404_def)

lemma record_update_events_incidents [simp]:
  "ist_incidents (record_update_events user u r r' st) = ist_incidents st"
  "ist_next_incident (record_update_events user u r r' st) = ist_next_incident st"
  "get_incident_or_404 (record_update_events user u r r' st) j = get_incident_or_404 st j"
  by (simp_all add: record_update_events_def Let_def split: option.split)

text \<open>A body with nothing in it.\<close>

definition no_changes :: incident_update where
  "no_changes = \<lparr>
     iu_title = None, iu_description = None, iu_entity_type = None, iu_table_fqn = None,
     iu_airflow_dag_id = None, iu_detected_at = None, iu_last_seen_at = None, iu_acknowledged_at = None,
     iu_triaged_at = None, iu_mitigated_at = None, iu_resolved_at = None, iu_closed_at = None,
     iu_reopened_at = None, iu_sla_due_at = None, iu_status = None, iu_severity = None, iu_owner_user_id = None,
     iu_reporter_user_id = None, iu_source_type = None, iu_source_ref_id = None, iu_evidence = None,
     iu_root_cause = None, iu_impact_summary = None, iu_mitigation_summary = None, iu_postmortem_summary = None,
     iu_details = [], iu_recurrence_count = None, iu_occurrences = None\<rparr>"

lemma apply_null_name:
  "apply_incident_update now (build_incident_update_map (no_changes\<lparr>iu_table_fqn := Some None\<rparr>)) r = r\<lparr>inc_table_fqn := None\<rparr>"
  by (simp add: apply_incident_update_def build_incident_update_map_def no_changes_def set_incident_fields_def strip_text_def
      status_changed_def evidence_sent_def upd_def upd_nn_def dict_update_def)

text \<open>The check that an incident of a table names its table is passed by an explicit null, since the check falls back
  to the stored name and the change is then applied: afterwards the incident of the table names none.\<close>

theorem null_name_accepted:
  assumes "get_incident_or_404 st i = Inr r" and "can_edit_incident user r"
    and "inc_entity_type r = ''table''" and "inc_table_fqn r = Some fqn" and "py_strip fqn \<noteq> []"
  shows "\<exists>r'. get_incident_or_404 (fst (update_incident env now user i (no_changes\<lparr>iu_table_fqn := Some None\<rparr>) st)) i = Inr r'
    \<and> inc_entity_type r' = ''table'' \<and> inc_table_fqn r' = None"
proof -
  define u where "u = no_changes\<lparr>iu_table_fqn := Some None\<rparr>"
  define r' where "r' = r\<lparr>inc_table_fqn := None, inc_updated_at := now\<rparr>"
  have ok: "incident_update_ok u" "\<not> null_column (build_incident_update_map u) r"
    by (simp_all add: u_def no_changes_def incident_update_ok_def sent_ok_def sent_def upd_def null_column_def
        build_incident_update_map_def)
  have checks: "validate_incident_entity (sent (iu_entity_type u)) (sent (iu_table_fqn u)) (sent (iu_airflow_dag_id u)) (Some r)
      = Inr ()"
    "validate_incident_user_refs st (sent (iu_reporter_user_id (build_incident_update_map u)))
      (sent (iu_owner_user_id (build_incident_update_map u))) = Inr ()"
    using assms by (simp_all add: u_def no_changes_def sent_def upd_def build_incident_update_map_def
        validate_incident_entity_def validate_incident_user_refs_def)
  have "touched now r (apply_incident_update now (build_incident_update_map u) r) = r'"
    using assms(4) by (auto simp: u_def apply_null_name touched_def r'_def dest: arg_cong[where f = inc_table_fqn])
  then have "fst (update_incident env now user i u st)
      = record_update_events user (build_incident_update_map u) r r' (put_incident r' st)"
    using ok checks assms(1,2) by (simp add: update_incident_def Let_def)
  moreover have "inc_id r' = i" using get_incidentD[OF assms(1)] by (simp add: r'_def)
  ultimately have "get_incident_or_404 (fst (update_incident env now user i u st)) i = Inr r'"
    using get_put_incident[of st r' r] assms(1) by simp
  then show ?thesis using assms(3) by (auto simp: u_def r'_def)
qed

definition move_to :: "string \<Rightarrow> incident_event_in" where
  "move_to s = \<lparr>ev_event_type = ''status_change'', ev_title = ''Status'', ev_detail = None, ev_status_from = None,
     ev_status_to = Some s, ev_evidence = PNone, ev_root_cause = None, ev_impact_summary = None,
     ev_mitigation_summary = None, ev_postmortem_summary = None\<rparr>"

text \<open>An incident that is resolved, reopened and resolved again keeps the moment of its first resolution, which then
  lies before the reopening.\<close>

theorem first_resolution_kept:
  assumes "inc_resolved_at r = None"
  shows "let again = apply_event_updates t3 (move_to ''resolved'')
           (apply_event_updates t2 (move_to ''reopened'') (apply_event_updates t1 (move_to ''resolved'') r))
    in inc_status again = ''resolved'' \<and> inc_resolved_at again = Some t1 \<and> inc_reopened_at again = Some t2"
  using assms
  by (simp add: Let_def apply_event_updates_def move_to_def upd_def strip_text_def apply_incident_lifecycle_transition_def
      stamp_first_def stamp_field_def get_stamp_def set_stamp_def acknowledging_def)

section \<open>Witnesses\<close>

definition demo_incident :: incident_row where
  "demo_incident =
     \<lparr>inc_id = 4, inc_title = ''late'', inc_description = None, inc_entity_type = ''table'',
      inc_table_fqn = Some ''s.t'', inc_airflow_dag_id = None, inc_detected_at = 0, inc_last_seen_at = None,
      inc_acknowledged_at = None, inc_triaged_at = None, inc_mitigated_at = None, inc_resolved_at = None,
      inc_closed_at = None, inc_reopened_at = None, inc_sla_due_at = None, inc_status = ''open'',
      inc_severity = ''sev2'', inc_owner_user_id = Some 1, inc_reporter_user_id = None,
      inc_source_type = Some ''dq_profile'', inc_source_ref_id = None, inc_evidence = PNone,
      inc_root_cause = None, inc_impact_summary = None, inc_mitigation_summary = None,
      inc_postmortem_summary = None, inc_details = [], inc_recurrence_count = 0,
      inc_occurrences = 1, inc_updated_at = 0\<rparr>"

definition demo_incidents :: "incident_row list \<Rightarrow> incident_store" where
  "demo_incidents rs = \<lparr>ist_incidents = rs, ist_next_incident = 5, ist_events = [], ist_next_event = 1, ist_user_ids = [1, 2]\<rparr>"

definition demo_incident_env :: incident_env where
  "demo_incident_env = \<lparr>ienv_rules = None, ienv_profiles = [], ienv_iso = (\<lambda>_. ''now'')\<rparr>"

lemma demo_get_incident: "get_incident_or_404 (demo_incidents [demo_incident]) 4 = Inr demo_incident"
  by (simp add: get_incident_or_404_def demo_incidents_def demo_incident_def)

lemma only_editors_change_incidents_witness:
  "fst (delete_incident (plain_user\<lparr>user_id := 2\<rparr>) 4 (demo_incidents [demo_incident])) = demo_incidents [demo_incident]"
proof -
  let ?u = "plain_user\<lparr>user_id := 2\<rparr>"
  have "\<forall>role\<in>set (user_roles ?u). role_name role \<noteq> ''admin''" by (simp add: plain_user_def)
  moreover have "\<forall>r\<in>set (ist_incidents (demo_incidents [demo_incident])). inc_id r = 4 \<longrightarrow>
      inc_owner_user_id r \<noteq> Some (user_id ?u) \<and> inc_reporter_user_id r \<noteq> Some (user_id ?u)"
    by (simp add: demo_incidents_def demo_incident_def)
  ultimately show ?thesis using only_editors_change_incidents by blast
qed

lemma event_recorded_but_fails_witness:
  "snd (create_incident_event 7 (plain_user\<lparr>user_id := 1\<rparr>) 4 (move_to ''resolved'') (demo_incidents [demo_incident]))
     = Inl (NameError ''serialize_incident_event_out'')"
  by (rule conjunct1, rule event_recorded_but_fails[OF demo_get_incident])
    (simp_all add: can_edit_incident_def move_to_def title_ok_def apply_event_updates_def Let_def incident_statuses_def
      demo_incident_def)

lemma null_name_accepted_witness:
  "\<exists>r'. get_incident_or_404 (fst (update_incident demo_incident_env 7 (plain_user\<lparr>user_id := 1\<rparr>) 4
       (no_changes\<lparr>iu_table_fqn := Some None\<rparr>) (demo_incidents [demo_incident]))) 4 = Inr r'
    \<and> inc_entity_type r' = ''table'' \<and> inc_table_fqn r' = None"
  by (rule null_name_accepted[OF demo_get_incident, of _ "''s.t''"])
    (simp_all add: can_edit_incident_def demo_incident_def, code_simp)

lemma first_resolution_kept_witness:
  "inc_resolved_at (apply_event_updates 9 (move_to ''resolved'') (apply_event_updates 8 (move_to ''reopened'')
     (apply_event_updates 7 (move_to ''resolved'') demo_incident))) = Some 7"
  using first_resolution_kept[of demo_incident 9 8 7] by (simp add: demo_incident_def Let_def)

end
