(* ===== verification/DqIncidents.thy ===== *)
theory DqIncidents
  imports Incidents
begin

text \<open>
  The incidents that data quality opens: \<open>features/data_quality/incident_signals.py\<close>, called at the end of every
  profiling, and \<open>upsert_incident_for_dq_rule\<close> of \<open>features/data_quality/rules.py\<close>, called for every violated rule.
  The notification that follows an incident runs under a handler that ignores every exception and is left out.
\<close>

section \<open>Rows\<close>

record profiled_table =
  pt_id :: int
  pt_name :: string
  pt_sensitivity_level :: "string option"
  pt_has_personal_data :: bool
  pt_has_sensitive_personal_data :: bool
  pt_criticality :: "string option"

record table_metric =
  tm_id :: int
  tm_table_id :: int
  tm_dq_score :: "rat option"
  tm_failed_rules :: "int option"
  tm_duplicates_count :: "int option"

record profile_run =
  pr_id :: int
  pr_table_id :: int
  pr_status :: string
  pr_created_at :: instant

record dq_tables =
  dqt_metrics :: "table_metric list"
  dqt_runs :: "profile_run list"

record suggestion =
  sg_key :: string
  sg_mode :: string
  sg_title :: string
  sg_detail :: string
  sg_severity :: string
  sg_severity_label :: string
  sg_trigger_code :: string

section \<open>Triggers\<close>

text \<open>\<open>str(round(x, 1))\<close>.\<close>

definition tenth_text :: "rat \<Rightarrow> string" where
  "tenth_text x = (let n = py_round (x * 10) in
     (if n < 0 then ''-'' else '''') @ int_str (\<bar>n\<bar> div 10) @ ''.'' @ int_str (\<bar>n\<bar> mod 10))"

definition or_zero :: "rat option \<Rightarrow> rat" where
  "or_zero v = (case v of None \<Rightarrow> 0 | Some x \<Rightarrow> x)"

definition severity_from_score :: "rat \<Rightarrow> int \<Rightarrow> bool \<Rightarrow> string" where
  "severity_from_score dq_score failed_rules sensitive =
     (if dq_score < 55 \<or> failed_rules \<ge> 3 \<or> sensitive \<and> dq_score < 70 then ''sev1''
      else if dq_score < 70 \<or> failed_rules \<ge> 1 then ''sev2''
      else ''sev3'')"

definition severity_label :: "string \<Rightarrow> string" where
  "severity_label s = (if s = ''sev1'' then ''Critico'' else if s = ''sev2'' then ''Alto'' else if s = ''sev3'' then ''Medio'' else ''Baixo'')"

definition make_suggestion :: "string \<Rightarrow> string \<Rightarrow> string \<Rightarrow> string \<Rightarrow> string \<Rightarrow> string \<Rightarrow> suggestion" where
  "make_suggestion key mode title detail severity code =
     \<lparr>sg_key = key, sg_mode = mode, sg_title = title, sg_detail = detail, sg_severity = severity,
      sg_severity_label = severity_label severity, sg_trigger_code = code\<rparr>"

definition score_suggestion :: "rat \<Rightarrow> suggestion list" where
  "score_suggestion dq_score =
     (if dq_score < 60 then
        [make_suggestion ''dq_score_critical'' ''automatic'' ''Score de DQ critico''
           (''O score caiu para '' @ tenth_text dq_score @ '' pontos, abaixo do limiar critico.'') ''sev1'' ''dq_score_below_60'']
      else if dq_score < 70 then
        [make_suggestion ''dq_score_warning'' ''suggested'' ''Score de DQ abaixo do esperado''
           (''O score atual e '' @ tenth_text dq_score @ '' pontos e merece avaliacao operacional.'') ''sev2'' ''dq_score_below_70'']
      else [])"

definition rules_suggestion :: "int \<Rightarrow> suggestion list" where
  "rules_suggestion failed_rules =
     (if failed_rules \<ge> 3 then
        [make_suggestion ''failed_rules_critical'' ''automatic'' ''Falhas graves e recorrentes em regras''
           (''Foram registradas '' @ int_str failed_rules @ '' falhas de regra no ultimo profiling.'') ''sev1'' ''failed_rules_high'']
      else if failed_rules > 0 then
        [make_suggestion ''failed_rules_warning'' ''suggested'' ''Falhas de regra detectadas''
           (''O ativo apresentou '' @ int_str failed_rules @ '' regra(s) com falha no ultimo ciclo.'') ''sev2'' ''failed_rules_present'']
      else [])"

definition drop_suggestion :: "rat option \<Rightarrow> suggestion list" where
  "drop_suggestion fall =
     (case fall of None \<Rightarrow> []
      | Some d \<Rightarrow>
          if d \<ge> 20 then
            [make_suggestion ''abrupt_drop'' ''automatic'' ''Queda abrupta de score''
               (''O score caiu '' @ tenth_text d @ '' pontos em relacao ao run anterior.'') ''sev1'' ''dq_abrupt_drop'']
          else if d \<ge> 10 then
            [make_suggestion ''moderate_drop'' ''suggested'' ''Queda relevante de qualidade''
               (''O score caiu '' @ tenth_text d @ '' pontos em relacao ao run anterior.'') ''sev2'' ''dq_relevant_drop'']
          else [])"

definition trigger_suggestions :: "rat \<Rightarrow> int \<Rightarrow> int \<Rightarrow> rat option \<Rightarrow> bool \<Rightarrow> suggestion list" where
  "trigger_suggestions dq_score failed_rules duplicates_count previous_score sensitive =
     score_suggestion dq_score
     @ rules_suggestion failed_rules
     @ drop_suggestion (map_option (\<lambda>p. p - dq_score) previous_score)
     @ (if sensitive \<and> dq_score < 70 then
          [make_suggestion ''sensitive_asset'' ''automatic'' ''Ativo sensivel com falha relevante''
             ''O ativo possui sensibilidade elevada e precisa de tratamento imediato quando a qualidade degrada.''
             ''sev1'' ''sensitive_asset_dq_issue'']
        else [])
     @ (if duplicates_count > 0 \<and> dq_score < 85 then
          [make_suggestion ''duplicates_detected'' ''suggested'' ''Duplicidade detectada com impacto potencial''
             (''Foram identificados '' @ int_str duplicates_count @ '' registros duplicados no recorte atual.'')
             ''sev3'' ''duplicates_detected'']
        else [])"

definition recent_failed_run_count :: "dq_tables \<Rightarrow> int \<Rightarrow> instant \<Rightarrow> int" where
  "recent_failed_run_count dq table_id now =
     int (length (filter (\<lambda>r. pr_table_id r = table_id \<and> pr_status r = ''failed'' \<and> pr_created_at r \<ge> now - 30 * one_day)
       (dqt_runs dq)))"

definition sensitive_table :: "profiled_table \<Rightarrow> bool" where
  "sensitive_table t = (str_true (pt_sensitivity_level t) \<or> pt_has_personal_data t \<or> pt_has_sensitive_personal_data t)"

definition recurrent_suggestion :: "profiled_table \<Rightarrow> int \<Rightarrow> suggestion list" where
  "recurrent_suggestion t failed_runs =
     (if norm_token (pt_criticality t) \<in> {''high'', ''critical''} \<and> failed_runs \<ge> 2 then
        [make_suggestion ''recurring_dq_failure_critical'' ''automatic'' ''Falha DQ recorrente em ativo critico''
           (''Foram identificadas '' @ int_str failed_runs @ '' falhas de DQ recentes em um ativo critico.'')
           ''sev1'' ''dq_recurrent_failure_critical'']
      else [])"

definition table_suggestions :: "dq_tables \<Rightarrow> instant \<Rightarrow> profiled_table \<Rightarrow> table_metric \<Rightarrow> rat option \<Rightarrow> suggestion list" where
  "table_suggestions dq now t m previous_score =
     trigger_suggestions (or_zero (tm_dq_score m)) (or_int (tm_failed_rules m) 0) (or_int (tm_duplicates_count m) 0)
       previous_score (sensitive_table t)
     @ recurrent_suggestion t (recent_failed_run_count dq (pt_id t) now)"

section \<open>The incident of a profiling\<close>

definition open_statuses :: "string list" where
  "open_statuses = [''open'', ''investigating'']"

definition latest_incident :: "(incident_row \<Rightarrow> bool) \<Rightarrow> incident_store \<Rightarrow> incident_row option" where
  "latest_incident P st =
     first_by (\<lambda>r. Desc (inc_updated_at r)) (filter (\<lambda>r. P r \<and> inc_status r \<in> set open_statuses) (ist_incidents st))"

definition profile_incident_of :: "string \<Rightarrow> incident_row \<Rightarrow> bool" where
  "profile_incident_of fqn r =
     (inc_entity_type r = ''table'' \<and> inc_table_fqn r = Some fqn \<and> inc_source_type r = Some ''dq_profile'')"

definition profile_evidence ::
  "incident_env \<Rightarrow> instant \<Rightarrow> profiled_table \<Rightarrow> int \<Rightarrow> table_metric \<Rightarrow> string list \<Rightarrow> rat option \<Rightarrow> py_value" where
  "profile_evidence env now t run m codes previous_score = PDict
     [(''origin'', PStr ''dq''), (''origin_mode'', PStr ''automatic''), (''table_id'', PInt (pt_id t)),
      (''dq_run_id'', PInt run), (''dq_table_metric_id'', PInt (tm_id m)),
      (''dq_score'', PFloat (or_zero (tm_dq_score m))),
      (''failed_rules'', PInt (or_int (tm_failed_rules m) 0)),
      (''duplicates_count'', PInt (or_int (tm_duplicates_count m) 0)),
      (''previous_dq_score'', case previous_score of None \<Rightarrow> PNone | Some p \<Rightarrow> PFloat p),
      (''trigger_codes'', PList (map PStr codes)), (''evaluated_at'', PStr (ienv_iso env now))]"

text \<open>A row as an \<open>Incident(...)\<close> call with the columns of data quality leaves it.\<close>

definition dq_incident ::
  "instant \<Rightarrow> string \<Rightarrow> string \<Rightarrow> string \<Rightarrow> string \<Rightarrow> int option \<Rightarrow> py_value \<Rightarrow> string \<Rightarrow> int \<Rightarrow> py_value \<Rightarrow> incident_row" where
  "dq_incident now title description fqn severity reporter tags source_type source_ref evidence =
     \<lparr>inc_id = 0, inc_title = title, inc_description = Some description, inc_entity_type = ''table'',
      inc_table_fqn = Some fqn, inc_airflow_dag_id = None, inc_detected_at = now, inc_last_seen_at = Some now,
      inc_acknowledged_at = None, inc_triaged_at = None, inc_mitigated_at = None, inc_resolved_at = None,
      inc_closed_at = None, inc_reopened_at = None, inc_sla_due_at = None, inc_status = ''open'',
      inc_severity = severity, inc_owner_user_id = None, inc_reporter_user_id = reporter,
      inc_source_type = Some source_type, inc_source_ref_id = Some source_ref, inc_evidence = evidence,
      inc_root_cause = None, inc_impact_summary = None, inc_mitigation_summary = None,
      inc_postmortem_summary = None, inc_details = [(''tags'', tags)], inc_recurrence_count = 0,
      inc_occurrences = 1, inc_updated_at = now\<rparr>"

definition upsert_incident_for_dq_profile ::
  "incident_env \<Rightarrow> instant \<Rightarrow> profiled_table \<Rightarrow> string \<Rightarrow> int \<Rightarrow> table_metric \<Rightarrow> int option \<Rightarrow> string list \<Rightarrow> rat option
     \<Rightarrow> incident_store \<Rightarrow> incident_store" where
  "upsert_incident_for_dq_profile env now t fqn run m reporter codes previous_score st =
     (let score = or_zero (tm_dq_score m);
          severity = severity_from_score score (or_int (tm_failed_rules m) 0) (sensitive_table t);
          description = ''Data Quality do ativo '' @ fqn @ '' exige tratamento operacional. Score atual: '' @ tenth_text score @ ''.'';
          evidence = profile_evidence env now t run m codes previous_score
      in case latest_incident (profile_incident_of fqn) st of
           Some r \<Rightarrow>
             put_incident (r\<lparr>inc_last_seen_at := Some now, inc_description := Some description, inc_severity := severity,
               inc_evidence := evidence, inc_occurrences := inc_occurrences r + 1, inc_updated_at := now\<rparr>) st
         | None \<Rightarrow>
             add_incident (dq_incident now (''DQ critico em '' @ pt_name t) description fqn severity reporter
               (PList [PStr ''dq'', PStr ''automatic'']) ''dq_profile'' (pt_id t) evidence) st)"

definition previous_metric :: "dq_tables \<Rightarrow> table_metric \<Rightarrow> table_metric option" where
  "previous_metric dq m =
     first_by (\<lambda>k. Desc (tm_id k)) (filter (\<lambda>k. tm_table_id k = tm_table_id m \<and> tm_id k \<noteq> tm_id m) (dqt_metrics dq))"

definition handle_profiling_incident_signals ::
  "incident_env \<Rightarrow> dq_tables \<Rightarrow> instant \<Rightarrow> profiled_table \<Rightarrow> string \<Rightarrow> int \<Rightarrow> table_metric \<Rightarrow> int option
     \<Rightarrow> incident_store \<Rightarrow> incident_store" where
  "handle_profiling_incident_signals env dq now t schema run m reporter st =
     (let previous_score = Option.bind (previous_metric dq m) tm_dq_score;
          automatic = filter (\<lambda>s. sg_mode s = ''automatic'') (table_suggestions dq now t m previous_score)
      in if automatic = [] then st
         else upsert_incident_for_dq_profile env now t (schema @ ''.'' @ pt_name t) run m reporter
                (map sg_trigger_code automatic) previous_score st)"

section \<open>What the asset page shows\<close>

record dq_signals =
  dqs_table_id :: int
  dqs_generated_incident_id :: "int option"
  dqs_generated_mode :: "string option"
  dqs_open_incidents :: int
  dqs_suggestions :: "suggestion list"
  dqs_existing_incident_id :: "int option"

definition evaluate_table_dq_incident_signals ::
  "dq_tables \<Rightarrow> instant \<Rightarrow> (profiled_table \<times> string) option \<Rightarrow> incident_store \<Rightarrow> dq_signals res" where
  "evaluate_table_dq_incident_signals dq now found st =
     (case found of
        None \<Rightarrow> Inl (ValueError ''Table not found'')
      | Some (t, schema) \<Rightarrow>
          (case sort_key (\<lambda>k. Desc (tm_id k)) (filter (\<lambda>k. tm_table_id k = pt_id t) (dqt_metrics dq)) of
             [] \<Rightarrow> Inr \<lparr>dqs_table_id = pt_id t, dqs_generated_incident_id = None, dqs_generated_mode = None,
                      dqs_open_incidents = 0, dqs_suggestions = [], dqs_existing_incident_id = None\<rparr>
           | m # older \<Rightarrow>
               let previous_score = (case older of [] \<Rightarrow> None | p # _ \<Rightarrow> tm_dq_score p);
                   existing = latest_incident (\<lambda>r. inc_entity_type r = ''table''
                                \<and> inc_table_fqn r = Some (schema @ ''.'' @ pt_name t)) st;
                   generated = (case existing of None \<Rightarrow> False | Some r \<Rightarrow> inc_source_type r = Some ''dq_profile'')
               in Inr \<lparr>dqs_table_id = pt_id t,
                       dqs_generated_incident_id = (if generated then map_option inc_id existing else None),
                       dqs_generated_mode = (if generated then Some ''automatic'' else None),
                       dqs_open_incidents = (if existing = None then 0 else 1),
                       dqs_suggestions = table_suggestions dq now t m previous_score,
                       dqs_existing_incident_id = map_option inc_id existing\<rparr>))"

section \<open>The incident of a violated rule\<close>

record violated_rule =
  vr_id :: int
  vr_name :: string
  vr_table_fqn :: string
  vr_rule_type :: string
  vr_severity :: string
  vr_definition :: "(string \<times> py_value) list"

definition dimension_from_rule_type :: "string \<Rightarrow> string" where
  "dimension_from_rule_type rule_type =
     (let n = py_lower (py_strip rule_type) in
      if n = ''nullability'' then ''completude'' else if n = ''column_validation'' then ''validade''
      else if n = ''domain'' then ''validade'' else if n = ''uniqueness'' then ''unicidade''
      else if n = ''freshness'' then ''tempestividade'' else if n = ''column_comparison'' then ''consistencia''
      else if n = ''reconciliation'' then ''acuracia'' else ''validade'')"

definition severity_to_incident :: "string \<Rightarrow> string" where
  "severity_to_incident v =
     (let n = py_strip (py_lower v) in
      if n = ''critical'' then ''sev1'' else if n = ''high'' then ''sev2'' else if n = ''medium'' then ''sev3'' else ''sev4'')"

text \<open>The texts of a rule definition; it holds strings under these keys.\<close>

definition definition_text :: "violated_rule \<Rightarrow> string \<Rightarrow> string" where
  "definition_text rule k = (case dict_get (vr_definition rule) k of PStr s \<Rightarrow> py_strip s | _ \<Rightarrow> '''')"

definition rule_dimension :: "violated_rule \<Rightarrow> string" where
  "rule_dimension rule =
     or_else (definition_text rule ''dimension'')
       (dimension_from_rule_type (if vr_rule_type rule \<noteq> [] then py_strip (vr_rule_type rule) else definition_text rule ''type''))"

definition masked_preview_rows ::
  "profiled_table option \<Rightarrow> (string \<times> classification_map) list \<Rightarrow> py_value list \<Rightarrow> py_value list" where
  "masked_preview_rows t classes rows =
     concat (map (\<lambda>row. case row of
         PDict d \<Rightarrow> [PDict (mask_row_by_classification False (Option.bind t pt_sensitivity_level)
                     (case t of None \<Rightarrow> False | Some t \<Rightarrow> pt_has_personal_data t)
                     (case t of None \<Rightarrow> False | Some t \<Rightarrow> pt_has_sensitive_personal_data t)
                     (if t = None then [] else classes) d)]
       | _ \<Rightarrow> []) rows)"

definition rule_evidence ::
  "incident_env \<Rightarrow> instant \<Rightarrow> violated_rule \<Rightarrow> profiled_table option \<Rightarrow> int \<Rightarrow> py_value list \<Rightarrow> int option \<Rightarrow> py_value" where
  "rule_evidence env now rule t violations rows run = PDict
     [(''origin'', PStr ''dq''), (''origin_mode'', PStr ''automatic''), (''dq_rule_id'', PInt (vr_id rule)),
      (''table_id'', case t of None \<Rightarrow> PNone | Some t \<Rightarrow> PInt (pt_id t)),
      (''quality_dimension'', PStr (rule_dimension rule)),
      (''template_key'', if definition_text rule ''template_key'' = [] then PNone else PStr (definition_text rule ''template_key'')),
      (''violations_count'', PInt violations), (''sample_rows'', PList rows),
      (''dq_rule_run_id'', case run of None \<Rightarrow> PNone | Some i \<Rightarrow> PInt i),
      (''executed_at'', PStr (ienv_iso env now))]"

text \<open>\<open>ready\<close>: the table of incidents has the columns that the operation writes.\<close>

definition upsert_incident_for_dq_rule ::
  "incident_env \<Rightarrow> bool \<Rightarrow> instant \<Rightarrow> violated_rule \<Rightarrow> profiled_table option \<Rightarrow> (string \<times> classification_map) list
     \<Rightarrow> int \<Rightarrow> py_value list \<Rightarrow> int option \<Rightarrow> int option \<Rightarrow> incident_store \<Rightarrow> incident_store" where
  "upsert_incident_for_dq_rule env ready now rule t classes violations preview_rows run reporter st =
     (if \<not> ready then st
      else
        let evidence = rule_evidence env now rule t violations (masked_preview_rows t classes preview_rows) run;
            description = ''Regra '' @ [CHR 0x27] @ vr_name rule @ [CHR 0x27] @ '' violada em '' @ ienv_iso env now @ '' com ''
              @ int_str violations @ '' violacoes (run #'' @ (case run of None \<Rightarrow> ''None'' | Some i \<Rightarrow> int_str i)
              @ ''). Dimensao: '' @ rule_dimension rule @ ''.''
        in case latest_incident (\<lambda>r. inc_source_type r = Some ''dq_rule'' \<and> inc_source_ref_id r = Some (vr_id rule)) st of
             Some r \<Rightarrow>
               put_incident (r\<lparr>inc_last_seen_at := Some now, inc_description := Some description,
                 inc_evidence := evidence, inc_occurrences := inc_occurrences r + 1, inc_updated_at := now\<rparr>) st
           | None \<Rightarrow>
               add_incident (dq_incident now (''DQ Rule Violada: '' @ vr_name rule) description (vr_table_fqn rule)
                 (severity_to_incident (vr_severity rule)) reporter (PList [PStr ''dq'']) ''dq_rule'' (vr_id rule) evidence) st)"

section \<open>When a profiling opens an incident\<close>

lemma automatic_modes [simp]: "sg_mode (make_suggestion k mode t d s c) = mode"
  by (simp add: make_suggestion_def)

definition automatic_only :: "suggestion list \<Rightarrow> suggestion list" where
  "automatic_only ss = filter (\<lambda>s. sg_mode s = ''automatic'') ss"

lemma automatic_only_simps [simp]:
  "automatic_only [] = []"
  "automatic_only (xs @ ys) = automatic_only xs @ automatic_only ys"
  "(automatic_only [make_suggestion k mode t d s c] = []) = (mode \<noteq> ''automatic'')"
  by (simp_all add: automatic_only_def)

lemma automatic_if [simp]:
  "(automatic_only (if b then xs else ys) = []) = (if b then automatic_only xs = [] else automatic_only ys = [])"
  by simp

lemmas automatic_part = automatic_only_simps(3)

lemma automatic_score: "automatic_only (score_suggestion d) = [] \<longleftrightarrow> \<not> d < 60"
  unfolding score_suggestion_def automatic_if automatic_part by simp

lemma automatic_rules: "automatic_only (rules_suggestion n) = [] \<longleftrightarrow> \<not> n \<ge> 3"
  unfolding rules_suggestion_def automatic_if automatic_part by simp

lemma automatic_drop: "automatic_only (drop_suggestion fall) = [] \<longleftrightarrow> (case fall of None \<Rightarrow> True | Some d \<Rightarrow> \<not> d \<ge> 20)"
proof (cases fall)
  case (Some d)
  show ?thesis unfolding drop_suggestion_def Some option.case automatic_if automatic_part by simp
qed (simp add: drop_suggestion_def)

lemma automatic_recurrent:
  "automatic_only (recurrent_suggestion t n) = [] \<longleftrightarrow> \<not> (norm_token (pt_criticality t) \<in> {''high'', ''critical''} \<and> n \<ge> 2)"
  unfolding recurrent_suggestion_def automatic_if automatic_part by simp

text \<open>A profiling is turned into an incident exactly when the score is below 60, three rules failed, the score fell by
  20 points, a sensitive table scores below 70, or a critical table failed twice within 30 days.\<close>

theorem profiling_triggers_iff:
  "filter (\<lambda>s. sg_mode s = ''automatic'') (table_suggestions dq now t m previous_score) \<noteq> [] \<longleftrightarrow>
     or_zero (tm_dq_score m) < 60
     \<or> or_int (tm_failed_rules m) 0 \<ge> 3
     \<or> (case previous_score of None \<Rightarrow> False | Some p \<Rightarrow> p - or_zero (tm_dq_score m) \<ge> 20)
     \<or> sensitive_table t \<and> or_zero (tm_dq_score m) < 70
     \<or> norm_token (pt_criticality t) \<in> {''high'', ''critical''} \<and> recent_failed_run_count dq (pt_id t) now \<ge> 2"
  unfolding automatic_only_def [symmetric] table_suggestions_def trigger_suggestions_def automatic_only_simps(2)
    append_is_Nil_conv automatic_score automatic_rules automatic_drop automatic_recurrent automatic_if automatic_part
  by (auto split: option.splits)

text \<open>The open incidents of a table that come from its profilings.\<close>

definition open_profile_incidents :: "string \<Rightarrow> incident_store \<Rightarrow> incident_row list" where
  "open_profile_incidents fqn st =
     filter (\<lambda>r. profile_incident_of fqn r \<and> inc_status r \<in> set open_statuses) (ist_incidents st)"

lemma dq_incident_simps [simp]:
  "inc_status (dq_incident now ti de fqn sev rep tags src ref ev) = ''open''"
  "inc_severity (dq_incident now ti de fqn sev rep tags src ref ev) = sev"
  "inc_entity_type (dq_incident now ti de fqn sev rep tags src ref ev) = ''table''"
  "inc_table_fqn (dq_incident now ti de fqn sev rep tags src ref ev) = Some fqn"
  "inc_source_type (dq_incident now ti de fqn sev rep tags src ref ev) = Some src"
  "inc_occurrences (dq_incident now ti de fqn sev rep tags src ref ev) = 1"
  by (simp_all add: dq_incident_def)

lemma upsert_profile_new:
  assumes "latest_incident (profile_incident_of fqn) st = None"
  shows "\<exists>title text tags ref ev. upsert_incident_for_dq_profile env now t fqn run m reporter codes prev st =
    add_incident (dq_incident now title text fqn (severity_from_score (or_zero (tm_dq_score m))
      (or_int (tm_failed_rules m) 0) (sensitive_table t)) reporter tags ''dq_profile'' ref ev) st"
  unfolding upsert_incident_for_dq_profile_def Let_def assms option.case by (intro exI) (rule refl)

lemma upsert_profile_old:
  assumes "latest_incident (profile_incident_of fqn) st = Some r"
  shows "\<exists>text ev. upsert_incident_for_dq_profile env now t fqn run m reporter codes prev st =
    put_incident (r\<lparr>inc_last_seen_at := Some now, inc_description := text,
      inc_severity := severity_from_score (or_zero (tm_dq_score m)) (or_int (tm_failed_rules m) 0) (sensitive_table t),
      inc_evidence := ev, inc_occurrences := inc_occurrences r + 1, inc_updated_at := now\<rparr>) st"
  unfolding upsert_incident_for_dq_profile_def Let_def assms option.case by (intro exI) (rule refl)

lemma signal_is_upsert:
  assumes "filter (\<lambda>s. sg_mode s = ''automatic'')
      (table_suggestions dq now t m (Option.bind (previous_metric dq m) tm_dq_score)) \<noteq> []"
  shows "\<exists>codes prev. handle_profiling_incident_signals env dq now t schema run m reporter st =
    upsert_incident_for_dq_profile env now t (schema @ ''.'' @ pt_name t) run m reporter codes prev st"
  using assms unfolding handle_profiling_incident_signals_def Let_def by (auto simp only: if_False)

lemma upsert_profile_opens:
  assumes "open_profile_incidents fqn st = []"
  shows "\<exists>r. ist_incidents (upsert_incident_for_dq_profile env now t fqn run m reporter codes prev st) = ist_incidents st @ [r]
    \<and> profile_incident_of fqn r \<and> inc_status r = ''open'' \<and> inc_occurrences r = 1"
proof -
  have "latest_incident (profile_incident_of fqn) st = None"
    using assms by (simp add: latest_incident_def open_profile_incidents_def)
  then obtain ti tx tags src ev where
    "upsert_incident_for_dq_profile env now t fqn run m reporter codes prev st = add_incident (dq_incident now ti tx fqn
        (severity_from_score (or_zero (tm_dq_score m)) (or_int (tm_failed_rules m) 0) (sensitive_table t))
        reporter tags ''dq_profile'' src ev) st"
    using upsert_profile_new by blast
  then show ?thesis by (simp add: add_incident_def profile_incident_of_def dq_incident_def)
qed

lemma upsert_profile_refreshes:
  assumes "distinct (map inc_id (ist_incidents st))" and "open_profile_incidents fqn st \<noteq> []"
  shows "\<exists>r r'. r \<in> set (open_profile_incidents fqn st) \<and> inc_id r' = inc_id r
    \<and> ist_incidents (upsert_incident_for_dq_profile env now t fqn run m reporter codes prev st)
        = map (\<lambda>k. if k = r then r' else k) (ist_incidents st)
    \<and> inc_status r' = inc_status r \<and> inc_occurrences r' = inc_occurrences r + 1 \<and> inc_last_seen_at r' = Some now"
proof -
  let ?st' = "upsert_incident_for_dq_profile env now t fqn run m reporter codes prev st"
  obtain r where r: "latest_incident (profile_incident_of fqn) st = Some r"
    using assms(2) by (cases "latest_incident (profile_incident_of fqn) st") (simp_all add: latest_incident_def open_profile_incidents_def)
  then have mem: "r \<in> set (open_profile_incidents fqn st)"
    unfolding latest_incident_def open_profile_incidents_def by (rule first_by_in)
  then have inj: "inc_id k = inc_id r \<longleftrightarrow> k = r" if "k \<in> set (ist_incidents st)" for k
    using assms(1) that by (auto simp: open_profile_incidents_def distinct_map dest: inj_onD)
  obtain tx ev where old: "?st' = put_incident (r\<lparr>inc_last_seen_at := Some now, inc_description := tx,
      inc_severity := severity_from_score (or_zero (tm_dq_score m)) (or_int (tm_failed_rules m) 0) (sensitive_table t),
      inc_evidence := ev, inc_occurrences := inc_occurrences r + 1, inc_updated_at := now\<rparr>) st"
    using upsert_profile_old[OF r] by blast
  then obtain r' where r': "inc_id r' = inc_id r" "inc_status r' = inc_status r" "inc_occurrences r' = inc_occurrences r + 1"
      "inc_last_seen_at r' = Some now" and up: "?st' = put_incident r' st"
    by (rule that [rotated 4]) simp_all
  have "ist_incidents ?st' = map (\<lambda>k. if k = r then r' else k) (ist_incidents st)"
    unfolding up by (auto simp: put_incident_def r'(1) inj)
  with mem r' show ?thesis by blast
qed

text \<open>A profiling that triggers refreshes the open incident of its table when there is one, adding no row, and opens
  one otherwise; in either case the occurrence is counted and no other incident changes.\<close>

theorem profiling_refreshes_or_opens:
  assumes "distinct (map inc_id (ist_incidents st))"
    and "filter (\<lambda>s. sg_mode s = ''automatic'')
      (table_suggestions dq now t m (Option.bind (previous_metric dq m) tm_dq_score)) \<noteq> []"
  shows "let fqn = schema @ ''.'' @ pt_name t; st' = handle_profiling_incident_signals env dq now t schema run m reporter st
    in if open_profile_incidents fqn st = [] then
      \<exists>r. ist_incidents st' = ist_incidents st @ [r] \<and> profile_incident_of fqn r \<and> inc_status r = ''open'' \<and> inc_occurrences r = 1
    else \<exists>r r'. r \<in> set (open_profile_incidents fqn st) \<and> inc_id r' = inc_id r
      \<and> ist_incidents st' = map (\<lambda>k. if k = r then r' else k) (ist_incidents st)
      \<and> inc_status r' = inc_status r \<and> inc_occurrences r' = inc_occurrences r + 1 \<and> inc_last_seen_at r' = Some now"
proof -
  obtain codes prev where up: "handle_profiling_incident_signals env dq now t schema run m reporter st =
      upsert_incident_for_dq_profile env now t (schema @ ''.'' @ pt_name t) run m reporter codes prev st"
    using signal_is_upsert[OF assms(2)] by blast
  show ?thesis
  proof (cases "open_profile_incidents (schema @ ''.'' @ pt_name t) st = []")
    case True
    show ?thesis unfolding Let_def up if_P[OF True] by (rule upsert_profile_opens[OF True])
  next
    case False
    show ?thesis unfolding Let_def up if_not_P[OF False] by (rule upsert_profile_refreshes[OF assms(1) False])
  qed
qed

text \<open>An incident that was mitigated or reopened, or is recurring, still counts as active but is not found by the next
  profiling, which opens a second one for the same table.\<close>

theorem reopened_incident_duplicated:
  assumes "r \<in> set (ist_incidents st)" and "profile_incident_of (schema @ ''.'' @ pt_name t) r"
    and "inc_status r \<in> {''mitigated'', ''reopened'', ''recurring''}"
    and "open_profile_incidents (schema @ ''.'' @ pt_name t) st = []"
    and "filter (\<lambda>s. sg_mode s = ''automatic'')
      (table_suggestions dq now t m (Option.bind (previous_metric dq m) tm_dq_score)) \<noteq> []"
  shows "let active = (\<lambda>st. filter (\<lambda>r. profile_incident_of (schema @ ''.'' @ pt_name t) r
        \<and> inc_status r \<notin> {''resolved'', ''closed''}) (ist_incidents st))
    in r \<in> set (active st)
      \<and> length (active (handle_profiling_incident_signals env dq now t schema run m reporter st)) = length (active st) + 1"
proof -
  obtain codes prev where up: "handle_profiling_incident_signals env dq now t schema run m reporter st =
      upsert_incident_for_dq_profile env now t (schema @ ''.'' @ pt_name t) run m reporter codes prev st"
    using signal_is_upsert[OF assms(5)] by blast
  obtain r2 where "ist_incidents (handle_profiling_incident_signals env dq now t schema run m reporter st) = ist_incidents st @ [r2]"
      "profile_incident_of (schema @ ''.'' @ pt_name t) r2" "inc_status r2 = ''open''"
    unfolding up using upsert_profile_opens[OF assms(4)] by blast
  then show ?thesis using assms(1-3) by auto
qed

section \<open>Histories\<close>

datatype incident_op =
    Create_incident instant user_row incident_in
  | Record_event instant user_row int incident_event_in
  | Change_incident instant user_row int incident_update
  | Delete_incident user_row int
  | Profiled dq_tables instant profiled_table string int table_metric "int option"
  | Violated bool instant violated_rule "profiled_table option" "(string \<times> classification_map) list" int "py_value list"
      "int option" "int option"

fun incident_step :: "incident_env \<Rightarrow> incident_store \<Rightarrow> incident_op \<Rightarrow> incident_store" where
  "incident_step env st (Create_incident now user p) = fst (create_incident env now user p st)"
| "incident_step env st (Record_event now user i p) = fst (create_incident_event now user i p st)"
| "incident_step env st (Change_incident now user i u) = fst (update_incident env now user i u st)"
| "incident_step env st (Delete_incident user i) = fst (delete_incident user i st)"
| "incident_step env st (Profiled dq now t schema run m reporter) =
     handle_profiling_incident_signals env dq now t schema run m reporter st"
| "incident_step env st (Violated ready now rule t classes n rows run reporter) =
     upsert_incident_for_dq_rule env ready now rule t classes n rows run reporter st"

definition row_ok :: "incident_row \<Rightarrow> bool" where
  "row_ok r \<longleftrightarrow> inc_status r \<in> set incident_statuses \<and> inc_severity r \<in> set incident_severities
     \<and> inc_entity_type r \<in> set incident_entity_types"

definition incidents_ok :: "incident_store \<Rightarrow> bool" where
  "incidents_ok st \<longleftrightarrow> distinct (map inc_id (ist_incidents st))
     \<and> (\<forall>r\<in>set (ist_incidents st). row_ok r \<and> inc_id r < ist_next_incident st)
     \<and> distinct (map ie_id (ist_events st))
     \<and> (\<forall>e\<in>set (ist_events st). ie_id e < ist_next_event st \<and> ie_incident_id e \<in> inc_id ` set (ist_incidents st))"

lemma incidents_ok_add: "incidents_ok st \<Longrightarrow> row_ok r \<Longrightarrow> incidents_ok (add_incident r st)"
  by (fastforce simp: incidents_ok_def add_incident_def row_ok_def)

lemma put_incident_ids [simp]: "map inc_id (ist_incidents (put_incident r st)) = map inc_id (ist_incidents st)"
  by (auto simp: put_incident_def)

lemma put_incident_id_set [simp]: "inc_id ` set (ist_incidents (put_incident r st)) = inc_id ` set (ist_incidents st)"
  by (metis put_incident_ids set_map)

lemma incidents_ok_put:
  assumes "incidents_ok st" and "row_ok r"
  shows "incidents_ok (put_incident r st)"
proof -
  show ?thesis using assms unfolding incidents_ok_def put_incident_ids put_incident_id_set
    by (auto simp: put_incident_def)
qed

lemma incidents_ok_event:
  "incidents_ok st \<Longrightarrow> i \<in> inc_id ` set (ist_incidents st) \<Longrightarrow> incidents_ok (record_incident_event i et ti a d sf s ev st)"
  by (fastforce simp: incidents_ok_def record_incident_event_def)


lemma row_ok_transition [simp]: "row_ok (apply_incident_lifecycle_transition prev s t r) = row_ok r"
  by (simp add: row_ok_def)

lemma row_ok_touched [simp]: "row_ok (touched now r r') = row_ok r'"
  by (simp add: row_ok_def touched_def)

lemma row_ok_seen_now [simp]: "row_ok (seen_now now r) = row_ok r"
  by (simp add: row_ok_def seen_now_def)

lemma inc_id_touched [simp]: "inc_id r' = inc_id r \<Longrightarrow> inc_id (touched now r r') = inc_id r"
  by (simp add: touched_def)

lemma upd_nn_cases: "upd_nn new old = (case sent new of None \<Rightarrow> old | Some v \<Rightarrow> v)"
  by (cases new) (auto simp: upd_nn_def sent_def upd_def split: option.splits)

lemma row_ok_set_incident_fields:
  assumes "incident_update_ok p" and "row_ok r"
  shows "row_ok (set_incident_fields (build_incident_update_map p) r)"
  using assms
  by (auto simp: row_ok_def set_incident_fields_def build_incident_update_map_def incident_update_ok_def sent_ok_def upd_nn_cases
      split: option.splits)

lemma row_ok_update: "incident_update_ok p \<Longrightarrow> row_ok r \<Longrightarrow> row_ok (apply_incident_update now (build_incident_update_map p) r)"
  by (simp add: apply_incident_update_def Let_def row_ok_set_incident_fields)

lemma inc_id_seen_now [simp]: "inc_id (seen_now now r) = inc_id r"
  by (simp add: seen_now_def)

lemma inc_id_set_fields [simp]: "inc_id (set_incident_fields u r) = inc_id r"
  by (simp add: set_incident_fields_def)

lemma inc_id_update [simp]: "inc_id (apply_incident_update now u r) = inc_id r"
  by (simp add: apply_incident_update_def Let_def)

lemma event_updates_row [simp]:
  "inc_id (apply_event_updates now p r) = inc_id r"
  "inc_severity (apply_event_updates now p r) = inc_severity r"
  "inc_entity_type (apply_event_updates now p r) = inc_entity_type r"
  by (simp_all add: apply_event_updates_def Let_def)

lemma row_ok_event_updates:
  "row_ok r \<Longrightarrow> inc_status (apply_event_updates now p r) \<in> set incident_statuses \<Longrightarrow> row_ok (apply_event_updates now p r)"
  by (simp add: row_ok_def)

lemma row_ok_created: "incident_in_ok p \<Longrightarrow> row_ok (create_incident_model p reporter now)"
  by (simp add: create_incident_model_def Let_def) (simp add: row_ok_def incident_in_ok_def)

lemma severity_from_score_ok: "severity_from_score d n s \<in> set incident_severities"
  by (simp add: severity_from_score_def incident_severities_def)

lemma severity_to_incident_ok: "severity_to_incident v \<in> set incident_severities"
  by (simp add: severity_to_incident_def incident_severities_def Let_def)

lemma row_ok_dq: "sev \<in> set incident_severities \<Longrightarrow> row_ok (dq_incident now ti tx fqn sev rep tags src src_id ev)"
  by (simp add: row_ok_def incident_statuses_def incident_entity_types_def)

lemma row_ok_refreshed:
  "row_ok r \<Longrightarrow> sev \<in> set incident_severities \<Longrightarrow>
     row_ok (r\<lparr>inc_last_seen_at := a, inc_description := b, inc_severity := sev, inc_evidence := c, inc_occurrences := n,
       inc_updated_at := u\<rparr>)"
  "row_ok r \<Longrightarrow> row_ok (r\<lparr>inc_last_seen_at := a, inc_description := b, inc_evidence := c, inc_occurrences := n, inc_updated_at := u\<rparr>)"
  by (simp_all add: row_ok_def)

text \<open>Every operation keeps the invariant.\<close>

lemma incidents_ok_row: "incidents_ok st \<Longrightarrow> get_incident_or_404 st i = Inr r \<Longrightarrow> row_ok r \<and> i \<in> inc_id ` set (ist_incidents st)"
  by (auto simp: incidents_ok_def dest!: get_incidentD)

lemma latest_incident_in: "latest_incident P st = Some r \<Longrightarrow> r \<in> set (ist_incidents st)"
  unfolding latest_incident_def using first_by_in by fastforce

lemma create_ok:
  assumes "incidents_ok st"
  shows "incidents_ok (fst (create_incident env now user p st))"
proof -
  have "incidents_ok (record_incident_event (ist_next_incident st) et ti user d sf s ev
      (add_incident (create_incident_model p reporter now) st))" if "incident_in_ok p" for et ti d sf s ev reporter
    by (rule incidents_ok_event[OF incidents_ok_add[OF assms row_ok_created[OF that]]]) (simp add: add_incident_def)
  then show ?thesis using assms by (simp add: create_incident_def Let_def split: sum.split)
qed

lemma event_ok:
  assumes "incidents_ok st"
  shows "incidents_ok (fst (create_incident_event now user i p st))"
proof (cases "get_incident_or_404 st i")
  case (Inr r)
  have row: "row_ok r" "i \<in> inc_id ` set (ist_incidents st)" using incidents_ok_row[OF assms Inr] by simp_all
  have "incidents_ok (record_incident_event i et ti user d sf s ev (put_incident (touched now r (apply_event_updates now p r)) st))"
    if "inc_status (apply_event_updates now p r) \<in> set incident_statuses" for et ti d sf s ev
    by (rule incidents_ok_event[OF incidents_ok_put[OF assms]]) (simp_all add: row that row_ok_event_updates)
  then show ?thesis using assms Inr by (simp add: create_incident_event_def Let_def)
qed (use assms in \<open>simp add: create_incident_event_def\<close>)

lemma update_events_ok:
  assumes "incidents_ok st" and "inc_id r \<in> inc_id ` set (ist_incidents st)"
  shows "incidents_ok (record_update_events user u r r' st)"
  using assms by (simp add: record_update_events_def Let_def incidents_ok_event split: option.split)

lemma update_ok:
  assumes "incidents_ok st"
  shows "incidents_ok (fst (update_incident env now user i p st))"
proof (cases "get_incident_or_404 st i")
  case (Inr r)
  have row: "row_ok r" "inc_id r \<in> inc_id ` set (ist_incidents st)"
    using incidents_ok_row[OF assms Inr] get_incidentD[OF Inr] by simp_all
  let ?u = "build_incident_update_map p"
  let ?r = "touched now r (apply_incident_update now ?u r)"
  have "incidents_ok (record_update_events user ?u r ?r (put_incident ?r st))" if "incident_update_ok p"
    by (rule update_events_ok[OF incidents_ok_put[OF assms]]) (simp_all add: row that row_ok_update)
  then show ?thesis using assms Inr by (simp add: update_incident_def Let_def split: sum.split)
qed (use assms in \<open>simp add: update_incident_def\<close>)

lemma delete_ok: "incidents_ok st \<Longrightarrow> incidents_ok (fst (delete_incident user i st))"
  by (auto simp: delete_incident_def incidents_ok_def distinct_map_filter image_iff split: sum.split)

lemma profile_upsert_ok:
  assumes "incidents_ok st"
  shows "incidents_ok (upsert_incident_for_dq_profile env now t fqn run m reporter codes prev st)"
proof (cases "latest_incident (profile_incident_of fqn) st")
  case None
  show ?thesis using upsert_profile_new[OF None, of env now t run m reporter codes prev]
    by (elim exE) (simp add: incidents_ok_add[OF assms] row_ok_dq severity_from_score_ok)
next
  case (Some r)
  have "row_ok r" using assms latest_incident_in[OF Some] by (simp add: incidents_ok_def)
  then show ?thesis using upsert_profile_old[OF Some, of env now t run m reporter codes prev]
    by (elim exE) (simp add: incidents_ok_put[OF assms] row_ok_refreshed severity_from_score_ok)
qed

lemma rule_upsert_ok:
  assumes "incidents_ok st"
  shows "incidents_ok (upsert_incident_for_dq_rule env ready now rule t classes n rows run reporter st)"
proof -
  let ?P = "\<lambda>r. inc_source_type r = Some ''dq_rule'' \<and> inc_source_ref_id r = Some (vr_id rule)"
  have "row_ok r" if "latest_incident ?P st = Some r" for r
    using assms latest_incident_in[OF that] by (simp add: incidents_ok_def)
  then show ?thesis
    unfolding upsert_incident_for_dq_rule_def Let_def
    by (cases "latest_incident ?P st")
      (simp_all only: option.case if_split assms incidents_ok_add[OF assms row_ok_dq[OF severity_to_incident_ok]]
        incidents_ok_put[OF assms row_ok_refreshed(2)] simp_thms)
qed

lemma incident_step_ok: "incidents_ok st \<Longrightarrow> incidents_ok (incident_step env st oper)"
  by (cases oper) (simp_all add: create_ok event_ok update_ok delete_ok profile_upsert_ok rule_upsert_ok
      handle_profiling_incident_signals_def Let_def)

interpretation incidents: invariant_machine "incident_step env" incidents_ok for env
  by unfold_locales (rule incident_step_ok)

text \<open>C21: After any history of requests, profilings and violated rules the incidents and their events have distinct
  numbers, every incident has a known status, severity and kind of entity, and every event belongs to an incident that exists.\<close>

theorem incidents_ok_history: "incidents_ok st \<Longrightarrow> incidents_ok (foldl (incident_step env) st es)"
  by (rule incidents.inv_run)

section \<open>Stamps of every incident\<close>

text \<open>A body that does not clear a stamp.\<close>

definition keeps_stamps :: "incident_update \<Rightarrow> bool" where
  "keeps_stamps u = (iu_acknowledged_at u \<noteq> Some None \<and> iu_triaged_at u \<noteq> Some None \<and> iu_mitigated_at u \<noteq> Some None
     \<and> iu_resolved_at u \<noteq> Some None \<and> iu_closed_at u \<noteq> Some None \<and> iu_reopened_at u \<noteq> Some None)"

fun tidy :: "incident_op \<Rightarrow> bool" where
  "tidy (Change_incident now user i u) = keeps_stamps u"
| "tidy _ = True"

definition all_stamped :: "incident_store \<Rightarrow> bool" where
  "all_stamped st = (\<forall>r\<in>set (ist_incidents st). stamped r)"

lemma upd_not_none: "new \<noteq> Some None \<Longrightarrow> old \<noteq> None \<Longrightarrow> upd new old \<noteq> None"
  by (cases new) (auto simp: upd_def)

lemma set_fields_stamps [simp]:
  "inc_acknowledged_at (set_incident_fields u r) = upd (iu_acknowledged_at u) (inc_acknowledged_at r)"
  "inc_triaged_at (set_incident_fields u r) = upd (iu_triaged_at u) (inc_triaged_at r)"
  "inc_mitigated_at (set_incident_fields u r) = upd (iu_mitigated_at u) (inc_mitigated_at r)"
  "inc_resolved_at (set_incident_fields u r) = upd (iu_resolved_at u) (inc_resolved_at r)"
  "inc_closed_at (set_incident_fields u r) = upd (iu_closed_at u) (inc_closed_at r)"
  "inc_reopened_at (set_incident_fields u r) = upd (iu_reopened_at u) (inc_reopened_at r)"
  "inc_status (set_incident_fields u r) = upd_nn (iu_status u) (inc_status r)"
  by (simp_all add: set_incident_fields_def)

lemma get_stamp_set_fields:
  assumes "keeps_stamps u" and "get_stamp f r \<noteq> None"
  shows "get_stamp f (set_incident_fields u r) \<noteq> None"
proof -
  have "iu_triaged_at u \<noteq> Some None" "iu_mitigated_at u \<noteq> Some None" "iu_resolved_at u \<noteq> Some None"
    "iu_closed_at u \<noteq> Some None" "iu_reopened_at u \<noteq> Some None"
    using assms(1) by (simp_all add: keeps_stamps_def)
  note keep = this [THEN upd_not_none]
  show ?thesis using assms(2) keep unfolding get_stamp_def set_fields_stamps by (simp split: if_splits)
qed

lemma acknowledged_set_fields:
  "keeps_stamps u \<Longrightarrow> inc_acknowledged_at r \<noteq> None \<Longrightarrow> inc_acknowledged_at (set_incident_fields u r) \<noteq> None"
  unfolding set_fields_stamps by (rule upd_not_none) (simp_all add: keeps_stamps_def)

lemma stamped_cong:
  "stamped r \<Longrightarrow> inc_status r' = inc_status r \<Longrightarrow> (inc_acknowledged_at r \<noteq> None \<Longrightarrow> inc_acknowledged_at r' \<noteq> None)
     \<Longrightarrow> (\<And>f. get_stamp f r \<noteq> None \<Longrightarrow> get_stamp f r' \<noteq> None) \<Longrightarrow> stamped r'"
  unfolding stamped_def by metis

lemma stamped_seen_now [simp]: "stamped (seen_now now r) = stamped r"
  by (simp add: stamped_def seen_now_def)

lemma stamped_touched: "stamped r' \<Longrightarrow> stamped (touched now r r')"
  by (cases "r' = r") (auto simp: touched_def elim: stamped_cong)

lemma status_unchanged: "\<not> status_changed u r \<Longrightarrow> upd_nn (iu_status u) (inc_status r) = inc_status r"
  by (auto simp: status_changed_def upd_nn_def split: option.splits)

lemma stamped_update:
  assumes "keeps_stamps u" and "stamped r"
  shows "stamped (apply_incident_update now u r)"
proof (cases "status_changed u r")
  case True
  then show ?thesis unfolding apply_incident_update_def Let_def if_P[OF True] if_distrib[of stamped] stamped_seen_now
    using transition_stamped[of "Some (inc_status r)" "set_incident_fields u r" now] by simp
next
  case False
  have "stamped (set_incident_fields u r)"
    by (rule stamped_cong[OF assms(2)])
      (simp_all add: status_unchanged[OF False] get_stamp_set_fields[OF assms(1)] acknowledged_set_fields[OF assms(1)]
        del: set_fields_stamps(1-6))
  then show ?thesis unfolding apply_incident_update_def Let_def if_not_P[OF False] if_distrib[of stamped] stamped_seen_now by simp
qed

lemma keeps_stamps_map [simp]: "keeps_stamps (build_incident_update_map u) = keeps_stamps u"
  by (simp add: keeps_stamps_def build_incident_update_map_def)

lemma get_stamp_other_updates [simp]:
  "get_stamp f (r\<lparr>inc_root_cause := a\<rparr>) = get_stamp f r" "get_stamp f (r\<lparr>inc_impact_summary := b\<rparr>) = get_stamp f r"
  "get_stamp f (r\<lparr>inc_mitigation_summary := c\<rparr>) = get_stamp f r" "get_stamp f (r\<lparr>inc_postmortem_summary := d\<rparr>) = get_stamp f r"
  "get_stamp f (r\<lparr>inc_evidence := e\<rparr>) = get_stamp f r" "get_stamp f (r\<lparr>inc_description := g\<rparr>) = get_stamp f r"
  "get_stamp f (r\<lparr>inc_severity := sev\<rparr>) = get_stamp f r" "get_stamp f (r\<lparr>inc_occurrences := n\<rparr>) = get_stamp f r"
  "get_stamp f (r\<lparr>inc_id := i\<rparr>) = get_stamp f r"
  by (simp_all add: get_stamp_def)

lemma stamped_event_updates:
  assumes "stamped r"
  shows "stamped (apply_event_updates now p r)"
proof -
  let ?s = "or_empty (ev_status_to p)"
  have moved: "stamped (apply_incident_lifecycle_transition (Some (inc_status r)) ?s now (r\<lparr>inc_status := ?s\<rparr>))"
    using transition_stamped[of _ "r\<lparr>inc_status := ?s\<rparr>"] by simp
  have "stamped (if ?s = [] then r
      else (apply_incident_lifecycle_transition (Some (inc_status r)) ?s now (r\<lparr>inc_status := ?s\<rparr>))\<lparr>inc_last_seen_at := Some now\<rparr>)"
    using assms by (cases "?s = []") (auto intro: stamped_cong[OF moved])
  then show ?thesis unfolding apply_event_updates_def Let_def by (rule stamped_cong) simp_all
qed

lemma all_stamped_add: "all_stamped st \<Longrightarrow> stamped r \<Longrightarrow> all_stamped (add_incident r st)"
  by (auto simp: all_stamped_def add_incident_def intro: stamped_cong)

lemma all_stamped_put: "all_stamped st \<Longrightarrow> stamped r \<Longrightarrow> all_stamped (put_incident r st)"
  by (auto simp: all_stamped_def put_incident_def)

lemma all_stamped_events [simp]:
  "all_stamped (record_incident_event i et ti a d sf s ev st) = all_stamped st"
  "all_stamped (record_update_events user u r r' st) = all_stamped st"
  by (simp_all add: all_stamped_def)

lemma all_stamped_row: "all_stamped st \<Longrightarrow> get_incident_or_404 st i = Inr r \<Longrightarrow> stamped r"
  by (auto simp: all_stamped_def dest!: get_incidentD)

lemma transition_stampedI: "inc_status r = s \<Longrightarrow> stamped (apply_incident_lifecycle_transition prev s t r)"
  using transition_stamped by blast

lemma stamped_created: "stamped (create_incident_model p reporter now)"
  unfolding create_incident_model_def Let_def by (rule transition_stampedI) simp

lemma stamped_dq: "stamped (dq_incident now ti tx fqn sev rep tags src src_id ev)"
  by (simp add: stamped_def acknowledging_def)

lemma stamped_refreshed:
  "stamped r \<Longrightarrow> stamped (r\<lparr>inc_last_seen_at := a, inc_description := b, inc_severity := sev, inc_evidence := c,
     inc_occurrences := n, inc_updated_at := u\<rparr>)"
  "stamped r \<Longrightarrow> stamped (r\<lparr>inc_last_seen_at := a, inc_description := b, inc_evidence := c, inc_occurrences := n,
     inc_updated_at := u\<rparr>)"
  by (auto elim: stamped_cong)

lemma profile_upsert_stamped:
  assumes "all_stamped st"
  shows "all_stamped (upsert_incident_for_dq_profile env now t fqn run m reporter codes prev st)"
proof (cases "latest_incident (profile_incident_of fqn) st")
  case None
  show ?thesis using upsert_profile_new[OF None, of env now t run m reporter codes prev]
    by (elim exE) (simp add: all_stamped_add[OF assms] stamped_dq)
next
  case (Some r)
  have "stamped r" using assms latest_incident_in[OF Some] by (simp add: all_stamped_def)
  then show ?thesis using upsert_profile_old[OF Some, of env now t run m reporter codes prev]
    by (elim exE) (simp add: all_stamped_put[OF assms] stamped_refreshed)
qed

lemma rule_upsert_stamped:
  assumes "all_stamped st"
  shows "all_stamped (upsert_incident_for_dq_rule env ready now rule t classes n rows run reporter st)"
proof -
  let ?P = "\<lambda>r. inc_source_type r = Some ''dq_rule'' \<and> inc_source_ref_id r = Some (vr_id rule)"
  have "stamped r" if "latest_incident ?P st = Some r" for r
    using assms latest_incident_in[OF that] by (simp add: all_stamped_def)
  then show ?thesis
    unfolding upsert_incident_for_dq_rule_def Let_def
    by (cases "latest_incident ?P st")
      (simp_all only: option.case if_split assms all_stamped_add[OF assms stamped_dq]
        all_stamped_put[OF assms stamped_refreshed(2)] simp_thms)
qed

lemma update_stamped:
  assumes "all_stamped st" and "keeps_stamps p"
  shows "all_stamped (fst (update_incident env now user i p st))"
proof (cases "get_incident_or_404 st i")
  case (Inr r)
  have "stamped (apply_incident_update now (build_incident_update_map p) r)"
    by (rule stamped_update) (simp_all add: assms(2) all_stamped_row[OF assms(1) Inr])
  then show ?thesis using assms(1) Inr
    by (simp add: update_incident_def Let_def all_stamped_put stamped_touched split: sum.split)
qed (use assms in \<open>simp add: update_incident_def\<close>)

lemma incident_step_stamped: "all_stamped st \<Longrightarrow> tidy oper \<Longrightarrow> all_stamped (incident_step env st oper)"
proof (cases oper)
  case (Record_event now user i p)
  then show "all_stamped st \<Longrightarrow> ?thesis"
    by (simp add: create_incident_event_def Let_def all_stamped_put stamped_touched stamped_event_updates all_stamped_row split: sum.split)
next
  case (Delete_incident user i)
  then show "all_stamped st \<Longrightarrow> ?thesis" by (simp add: delete_incident_def all_stamped_def split: sum.split)
next
  case (Create_incident now user p)
  then show "all_stamped st \<Longrightarrow> ?thesis"
    by (simp add: create_incident_def Let_def all_stamped_add stamped_created split: sum.split)
qed (simp_all add: update_stamped profile_upsert_stamped rule_upsert_stamped handle_profiling_incident_signals_def Let_def)

text \<open>As long as no request clears a stamp, every incident that has left the state open carries the moment it was
  acknowledged and the stamp of its status, whichever handler or worker moved it there.\<close>

theorem stamped_history:
  assumes "all_stamped st" and "list_all tidy es"
  shows "all_stamped (foldl (incident_step env) st es)"
  using assms by (induction es arbitrary: st) (simp_all add: incident_step_stamped)

section \<open>Witnesses\<close>

definition demo_profiled :: profiled_table where
  "demo_profiled = \<lparr>pt_id = 3, pt_name = ''t'', pt_sensitivity_level = None, pt_has_personal_data = False,
     pt_has_sensitive_personal_data = False, pt_criticality = None\<rparr>"

definition demo_metric :: table_metric where
  "demo_metric = \<lparr>tm_id = 2, tm_table_id = 3, tm_dq_score = Some 40, tm_failed_rules = None, tm_duplicates_count = None\<rparr>"

definition demo_dq :: dq_tables where
  "demo_dq = \<lparr>dqt_metrics = [demo_metric], dqt_runs = []\<rparr>"

lemma demo_triggers:
  "filter (\<lambda>s. sg_mode s = ''automatic'')
     (table_suggestions demo_dq 0 demo_profiled demo_metric (Option.bind (previous_metric demo_dq demo_metric) tm_dq_score)) \<noteq> []"
proof -
  have "automatic_only (score_suggestion 40) \<noteq> []" unfolding automatic_score by simp
  then show ?thesis
    unfolding automatic_only_def [symmetric] table_suggestions_def trigger_suggestions_def automatic_only_simps(2)
    by (simp add: demo_metric_def or_zero_def del: automatic_only_simps)
qed

lemma profiling_refreshes_or_opens_witness:
  "\<exists>r. ist_incidents (handle_profiling_incident_signals demo_incident_env demo_dq 0 demo_profiled ''s'' 1 demo_metric None
     (demo_incidents [])) = [r] \<and> inc_occurrences r = 1"
  using profiling_refreshes_or_opens[OF _ demo_triggers, where st = "demo_incidents []" and env = demo_incident_env and schema = "''s''"
      and run = 1 and reporter = None]
  by (auto simp: Let_def open_profile_incidents_def demo_incidents_def)

lemma reopened_incident_duplicated_witness:
  "length (filter (\<lambda>r. profile_incident_of ''s.t'' r \<and> inc_status r \<notin> {''resolved'', ''closed''})
     (ist_incidents (handle_profiling_incident_signals demo_incident_env demo_dq 0 demo_profiled ''s'' 1 demo_metric None
       (demo_incidents [demo_incident\<lparr>inc_status := ''reopened''\<rparr>])))) = 2"
proof -
  let ?st = "demo_incidents [demo_incident\<lparr>inc_status := ''reopened''\<rparr>]"
  have "demo_incident\<lparr>inc_status := ''reopened''\<rparr> \<in> set (ist_incidents ?st)" by (simp add: demo_incidents_def)
  moreover have "profile_incident_of (''s'' @ ''.'' @ pt_name demo_profiled) (demo_incident\<lparr>inc_status := ''reopened''\<rparr>)"
    by (simp add: profile_incident_of_def demo_incident_def demo_profiled_def)
  moreover have "open_profile_incidents (''s'' @ ''.'' @ pt_name demo_profiled) ?st = []"
    by (simp add: open_profile_incidents_def demo_incidents_def open_statuses_def)
  ultimately show ?thesis
    using reopened_incident_duplicated[OF _ _ _ _ demo_triggers, where r = "demo_incident\<lparr>inc_status := ''reopened''\<rparr>"
        and st = ?st and schema = "''s''" and env = demo_incident_env and run = 1 and reporter = None]
    by (simp add: Let_def demo_incidents_def demo_incident_def demo_profiled_def profile_incident_of_def)
qed

definition demo_history :: "incident_op list" where
  "demo_history = [Profiled demo_dq 0 demo_profiled ''s'' 1 demo_metric None,
     Record_event 7 (plain_user\<lparr>user_id := 1\<rparr>) 4 (move_to ''resolved'')]"

lemma incidents_ok_history_witness:
  "incidents_ok (foldl (incident_step demo_incident_env) (demo_incidents [demo_incident]) demo_history)"
  by (rule incidents_ok_history)
    (simp add: incidents_ok_def demo_incidents_def row_ok_def demo_incident_def incident_statuses_def incident_severities_def
      incident_entity_types_def)

lemma stamped_history_witness:
  "all_stamped (foldl (incident_step demo_incident_env) (demo_incidents [demo_incident]) demo_history)"
  by (rule stamped_history)
    (simp_all add: all_stamped_def demo_incidents_def stamped_def demo_incident_def acknowledging_def demo_history_def)

end
