(* ===== verification/Contracts.thy ===== *)
theory Contracts
  imports Models
begin

text \<open>
  Data contracts of tables: \<open>features/contracts/service.py\<close> and the routes of \<open>api/contracts.py\<close>.

  A contract lists the columns a table must have; validating it compares them with the columns the last scan found and
  stores the verdict, in a row of its own and on the contract.  The lineage of a table, which the summary of impact
  carries along, is a parameter; the duration of a validation, its free texts (description, notes, the compatibility
  rules) and the widths of columns are left out.
\<close>

section \<open>Rows\<close>

record contract_column =
  cc_column_name :: string
  cc_data_type :: "string option"
  cc_is_nullable :: "bool option"
  cc_is_primary_key :: "bool option"
  cc_is_required :: "bool option"
  cc_ordinal_position :: "int option"

record data_contract =
  dc_id :: int
  dc_table_id :: int
  dc_version :: int
  dc_status :: string
  dc_owner_user_id :: "int option"
  dc_steward_user_id :: "int option"
  dc_freshness_hours :: "int option"
  dc_min_row_count :: "int option"
  dc_max_row_count :: "int option"
  dc_published_at :: "instant option"
  dc_columns :: "contract_column list"
  dc_last_validation_status :: "string option"
  dc_last_validation_at :: "instant option"
  dc_last_validation_issues :: "int option"

record scanned_column =
  sc_table_id :: int
  sc_name :: string
  sc_data_type :: string
  sc_is_primary_key :: bool
  sc_is_nullable :: bool

text \<open>The dictionaries of an issue, by their type.\<close>

datatype contract_issue =
    Missing_column string
  | Type_mismatch string string string
  | Required_nullable string
  | Nullable_mismatch string
  | Primary_key_mismatch string

record schema_change =
  ch_column_name :: string
  ch_kind :: string
  ch_breaking :: bool
  ch_detail :: string

record schema_analysis =
  an_expected_columns :: nat
  an_actual_columns :: nat
  an_issues :: "contract_issue list"
  an_changes :: "schema_change list"
  an_breaking :: nat
  an_warning :: nat
  an_schema_state :: string
  an_schema_label :: string

record contract_validation =
  cv_id :: int
  cv_contract_id :: int
  cv_table_id :: int
  cv_status :: string
  cv_checked_at :: instant
  cv_issues :: "contract_issue list"
  cv_schema_state :: string
  cv_created_by_user_id :: "int option"

record contract_store =
  cs_table_ids :: "int list"
  cs_scanned :: "scanned_column list"
  cs_contracts :: "data_contract list"
  cs_next_contract :: int
  cs_validations :: "contract_validation list"
  cs_next_validation :: int

section \<open>Comparing a contract with a table\<close>

definition normalize_column_name :: "string \<Rightarrow> string" where
  "normalize_column_name v = py_lower (py_strip v)"

definition dict_by :: "('a \<Rightarrow> 'k) \<Rightarrow> 'a list \<Rightarrow> ('k \<times> 'a) list" where
  "dict_by key xs = fold (\<lambda>x. dict_set (key x) x) xs []"

definition expected_columns_map :: "contract_column list \<Rightarrow> (string \<times> contract_column) list" where
  "expected_columns_map cols =
     dict_by (\<lambda>c. normalize_column_name (cc_column_name c)) (filter (\<lambda>c. cc_column_name c \<noteq> []) cols)"

definition actual_columns_map :: "scanned_column list \<Rightarrow> (string \<times> scanned_column) list" where
  "actual_columns_map cols = dict_by (\<lambda>c. normalize_column_name (sc_name c)) (filter (\<lambda>c. sc_name c \<noteq> []) cols)"

definition type_matches :: "string option \<Rightarrow> string option \<Rightarrow> bool" where
  "type_matches expected actual =
     (if or_empty expected = [] \<or> or_empty actual = [] then True
      else contains_str (py_lower (py_strip (or_empty expected))) (py_lower (py_strip (or_empty actual))))"

definition breaking_change :: "string \<Rightarrow> string \<Rightarrow> string \<Rightarrow> schema_change" where
  "breaking_change name kind detail = \<lparr>ch_column_name = name, ch_kind = kind, ch_breaking = True, ch_detail = detail\<rparr>"

text \<open>Each issue is recorded together with its change; what one expected column contributes to the two lists.\<close>

definition compare_column :: "contract_column \<Rightarrow> scanned_column option \<Rightarrow> (contract_issue \<times> schema_change) list" where
  "compare_column e found =
     (let name = cc_column_name e; wanted = or_empty (cc_data_type e) in
      case found of
        None \<Rightarrow> [(Missing_column name, breaking_change name ''schema_removal'' ''Coluna esperada ausente'')]
      | Some a \<Rightarrow>
          (if wanted \<noteq> [] \<and> \<not> type_matches (cc_data_type e) (Some (sc_data_type a))
           then [(Type_mismatch name wanted (sc_data_type a), breaking_change name ''type_change''
                    (''Tipo esperado '' @ wanted @ '' vs atual '' @ sc_data_type a))] else [])
          @ (if cc_is_required e = Some True \<and> sc_is_nullable a
             then [(Required_nullable name, breaking_change name ''nullability_change'' ''Coluna obrigatoria ficou nullable'')]
             else [])
          @ (if cc_is_nullable e = Some False \<and> sc_is_nullable a
             then [(Nullable_mismatch name, breaking_change name ''nullability_change''
                      ''Coluna esperada nao-null agora aceita nulos'')] else [])
          @ (if cc_is_primary_key e = Some True \<and> \<not> sc_is_primary_key a
             then [(Primary_key_mismatch name, breaking_change name ''primary_key_change''
                      ''Coluna esperada como chave primaria deixou de ser'')] else []))"

definition added_columns :: "(string \<times> contract_column) list \<Rightarrow> (string \<times> scanned_column) list \<Rightarrow> schema_change list" where
  "added_columns expected actual =
     map (\<lambda>(_, a). \<lparr>ch_column_name = sc_name a, ch_kind = ''schema_addition'', ch_breaking = False,
                    ch_detail = ''Coluna adicionada no schema atual''\<rparr>)
       (filter (\<lambda>(n, _). map_of expected n = None) actual)"

definition contract_schema_analysis :: "contract_column list \<Rightarrow> scanned_column list \<Rightarrow> schema_analysis" where
  "contract_schema_analysis contract_columns columns =
     (let expected = expected_columns_map contract_columns;
          actual = actual_columns_map columns;
          found = concat (map (\<lambda>(n, e). compare_column e (map_of actual n)) expected);
          changes = map snd found @ added_columns expected actual;
          breaking = length (filter ch_breaking changes);
          warning = length (filter (\<lambda>c. \<not> ch_breaking c) changes)
      in \<lparr>an_expected_columns = length expected, an_actual_columns = length actual,
          an_issues = map fst found, an_changes = changes, an_breaking = breaking, an_warning = warning,
          an_schema_state = (if breaking \<noteq> 0 then ''breaking'' else if warning \<noteq> 0 then ''warning'' else ''compatible''),
          an_schema_label = (if breaking \<noteq> 0 then ''Quebra de contrato'' else if warning \<noteq> 0 then ''Atencao ao contrato''
            else ''Compativel'')\<rparr>)"

section \<open>Operations\<close>

definition contracts_of :: "int \<Rightarrow> contract_store \<Rightarrow> data_contract list" where
  "contracts_of table_id st = filter (\<lambda>c. dc_table_id c = table_id) (cs_contracts st)"

definition list_contract_versions :: "int \<Rightarrow> contract_store \<Rightarrow> data_contract list" where
  "list_contract_versions table_id st = sort_key (\<lambda>c. Desc (dc_version c)) (contracts_of table_id st)"

definition get_current_contract :: "int \<Rightarrow> contract_store \<Rightarrow> data_contract option" where
  "get_current_contract table_id st =
     first_by (\<lambda>c. (Desc (dc_status c = ''published''), Desc (dc_version c))) (contracts_of table_id st)"

record contract_summary_out =
  su_contract_id :: "int option"
  su_version :: "int option"
  su_status :: "string option"
  su_published_at :: "instant option"
  su_last_validation_status :: "string option"
  su_last_validation_at :: "instant option"
  su_last_validation_issues :: "int option"

definition contract_summary :: "int \<Rightarrow> contract_store \<Rightarrow> contract_summary_out" where
  "contract_summary table_id st =
     (case get_current_contract table_id st of
        None \<Rightarrow> \<lparr>su_contract_id = None, su_version = None, su_status = None, su_published_at = None,
                 su_last_validation_status = None, su_last_validation_at = None, su_last_validation_issues = None\<rparr>
      | Some c \<Rightarrow> \<lparr>su_contract_id = Some (dc_id c), su_version = Some (dc_version c), su_status = Some (dc_status c),
                   su_published_at = dc_published_at c, su_last_validation_status = dc_last_validation_status c,
                   su_last_validation_at = dc_last_validation_at c, su_last_validation_issues = dc_last_validation_issues c\<rparr>)"

record contract_in =
  ci_status :: string
  ci_owner_user_id :: "int option"
  ci_steward_user_id :: "int option"
  ci_freshness_hours :: "int option"
  ci_min_row_count :: "int option"
  ci_max_row_count :: "int option"
  ci_columns :: "contract_column list"

definition contract_column_of :: "contract_column \<Rightarrow> contract_column" where
  "contract_column_of c = c\<lparr>cc_column_name := py_strip (cc_column_name c),
     cc_data_type := (if or_empty (cc_data_type c) = [] then None else map_option py_strip (cc_data_type c))\<rparr>"

text \<open>The data base refuses an unknown table, and two columns of one name in a contract.\<close>

definition create_contract :: "instant \<Rightarrow> int \<Rightarrow> contract_in \<Rightarrow> contract_store \<Rightarrow> (contract_store \<times> data_contract) res" where
  "create_contract now table_id payload st =
     (let current = fold (\<lambda>c m. max (dc_version c) m) (contracts_of table_id st) 0;
          status = (if ci_status payload = [] then ''draft'' else ci_status payload);
          columns = map contract_column_of (ci_columns payload);
          c = \<lparr>dc_id = cs_next_contract st, dc_table_id = table_id, dc_version = current + 1, dc_status = status,
               dc_owner_user_id = ci_owner_user_id payload, dc_steward_user_id = ci_steward_user_id payload,
               dc_freshness_hours = ci_freshness_hours payload, dc_min_row_count = ci_min_row_count payload,
               dc_max_row_count = ci_max_row_count payload,
               dc_published_at = (if status = ''published'' then Some now else None), dc_columns = columns,
               dc_last_validation_status = None, dc_last_validation_at = None, dc_last_validation_issues = None\<rparr>
      in if table_id \<notin> set (cs_table_ids st) then Inl (IntegrityError ''data_contracts_table_id_fkey'')
         else if \<not> distinct (map cc_column_name columns) then Inl (IntegrityError ''uq_data_contract_column'')
         else Inr (st\<lparr>cs_contracts := cs_contracts st @ [c], cs_next_contract := cs_next_contract st + 1\<rparr>, c))"

definition columns_of :: "int \<Rightarrow> contract_store \<Rightarrow> scanned_column list" where
  "columns_of table_id st = filter (\<lambda>c. sc_table_id c = table_id) (cs_scanned st)"

definition judged :: "string \<Rightarrow> instant \<Rightarrow> int \<Rightarrow> data_contract \<Rightarrow> data_contract" where
  "judged status now n k = k\<lparr>dc_last_validation_status := Some status, dc_last_validation_at := Some now,
     dc_last_validation_issues := Some n\<rparr>"

definition validation_of :: "instant \<Rightarrow> int \<Rightarrow> int option \<Rightarrow> data_contract \<Rightarrow> schema_analysis \<Rightarrow> contract_validation" where
  "validation_of now i user c a =
     \<lparr>cv_id = i, cv_contract_id = dc_id c, cv_table_id = dc_table_id c,
      cv_status = (if an_issues a = [] then ''passed'' else ''failed''), cv_checked_at = now, cv_issues = an_issues a,
      cv_schema_state = an_schema_state a, cv_created_by_user_id = user\<rparr>"

definition validate_contract :: "instant \<Rightarrow> int \<Rightarrow> int option \<Rightarrow> contract_store \<Rightarrow> (contract_store \<times> contract_validation) res" where
  "validate_contract now contract_id user st =
     (case List.find (\<lambda>c. dc_id c = contract_id) (cs_contracts st) of
        None \<Rightarrow> Inl (ValueError ''Contract not found'')
      | Some c \<Rightarrow>
          if dc_table_id c \<notin> set (cs_table_ids st) then Inl (ValueError ''Table not found'')
          else
            let a = contract_schema_analysis (dc_columns c) (columns_of (dc_table_id c) st);
                v = validation_of now (cs_next_validation st) user c a
            in Inr (st\<lparr>cs_validations := cs_validations st @ [v], cs_next_validation := cs_next_validation st + 1,
                      cs_contracts := map (\<lambda>k. if dc_id k = dc_id c
                        then judged (cv_status v) now (int (length (an_issues a))) k else k) (cs_contracts st)\<rparr>, v))"

record 'l contract_impact =
  im_contract_id :: "int option"
  im_contract_version :: "int option"
  im_contract_status :: "string option"
  im_validation_status :: "string option"
  im_schema_state :: string
  im_schema_label :: string
  im_expected_columns :: nat
  im_actual_columns :: nat
  im_breaking :: nat
  im_warning :: nat
  im_changes :: "schema_change list"
  im_lineage :: 'l
  im_recommendation :: string

definition contract_impact_summary :: "(int \<Rightarrow> 'l) \<Rightarrow> int \<Rightarrow> contract_store \<Rightarrow> 'l contract_impact res" where
  "contract_impact_summary lineage table_id st =
     (if table_id \<notin> set (cs_table_ids st) then Inl (ValueError ''Table not found'')
      else
        let columns = columns_of table_id st in
        case get_current_contract table_id st of
          None \<Rightarrow> Inr \<lparr>im_contract_id = None, im_contract_version = None, im_contract_status = None,
                     im_validation_status = None, im_schema_state = ''no_contract'', im_schema_label = ''Sem contrato'',
                     im_expected_columns = 0, im_actual_columns = length columns, im_breaking = 0, im_warning = 0,
                     im_changes = [], im_lineage = lineage table_id,
                     im_recommendation = ''Publicar um contrato antes de validar mudancas de schema.''\<rparr>
        | Some c \<Rightarrow>
            let a = contract_schema_analysis (dc_columns c) columns in
            Inr \<lparr>im_contract_id = Some (dc_id c), im_contract_version = Some (dc_version c),
                 im_contract_status = Some (dc_status c), im_validation_status = dc_last_validation_status c,
                 im_schema_state = an_schema_state a, im_schema_label = an_schema_label a,
                 im_expected_columns = an_expected_columns a, im_actual_columns = an_actual_columns a,
                 im_breaking = an_breaking a, im_warning = an_warning a, im_changes = an_changes a,
                 im_lineage = lineage table_id,
                 im_recommendation = (if an_breaking a \<noteq> 0
                   then ''Abrir incidente ou aprovar a mudanca antes de seguir com o deploy''
                   else ''Acompanhar o contrato e os consumidores downstream'')\<rparr>)"

record validation_view =
  vw_contract_id :: int
  vw_version :: int
  vw_status :: string
  vw_validation_status :: string
  vw_validation_at :: instant
  vw_issues :: int

text \<open>For every table its validations of the latest moment, the last of which is shown.\<close>

definition latest_contract_validation_map :: "int list \<Rightarrow> contract_store \<Rightarrow> (int \<times> validation_view) list" where
  "latest_contract_validation_map table_ids st =
     (let candidates = filter (\<lambda>v. cv_table_id v \<in> set table_ids) (cs_validations st);
          latest = filter (\<lambda>v. \<forall>w\<in>set candidates. cv_table_id w = cv_table_id v \<longrightarrow> cv_checked_at w \<le> cv_checked_at v)
                     candidates
      in fold (\<lambda>v m. case List.find (\<lambda>c. dc_id c = cv_contract_id v) (cs_contracts st) of
                 None \<Rightarrow> m
               | Some c \<Rightarrow> dict_set (cv_table_id v)
                   \<lparr>vw_contract_id = dc_id c, vw_version = dc_version c, vw_status = dc_status c,
                    vw_validation_status = cv_status v, vw_validation_at = cv_checked_at v,
                    vw_issues = (case dc_last_validation_issues c of None \<Rightarrow> 0 | Some n \<Rightarrow> n)\<rparr> m) latest [])"

section \<open>What a contract promises\<close>

text \<open>The contract read without dictionaries: every named column is there and is as it was promised.\<close>

definition keeps_promise :: "contract_column \<Rightarrow> scanned_column \<Rightarrow> bool" where
  "keeps_promise e a \<longleftrightarrow>
     type_matches (cc_data_type e) (Some (sc_data_type a))
     \<and> (cc_is_required e = Some True \<or> cc_is_nullable e = Some False \<longrightarrow> \<not> sc_is_nullable a)
     \<and> (cc_is_primary_key e = Some True \<longrightarrow> sc_is_primary_key a)"

definition honours :: "contract_column list \<Rightarrow> scanned_column list \<Rightarrow> bool" where
  "honours cols actual \<longleftrightarrow>
     (\<forall>e\<in>set cols. cc_column_name e \<noteq> [] \<longrightarrow>
       (\<exists>a\<in>set actual. sc_name a \<noteq> [] \<and> normalize_column_name (sc_name a) = normalize_column_name (cc_column_name e)
          \<and> keeps_promise e a))"

lemma validation_of_simps [simp]:
  "cv_contract_id (validation_of now i user c a) = dc_id c" "cv_checked_at (validation_of now i user c a) = now"
  "cv_issues (validation_of now i user c a) = an_issues a" "cv_schema_state (validation_of now i user c a) = an_schema_state a"
  "(cv_status (validation_of now i user c a) = ''passed'') = (an_issues a = [])"
  "(cv_status (validation_of now i user c a) = ''failed'') = (an_issues a \<noteq> [])"
  by (simp_all add: validation_of_def)

lemma dict_set_new: "k \<notin> fst ` set d \<Longrightarrow> dict_set k v d = d @ [(k, v)]"
  by (induction k v d rule: dict_set.induct) auto

lemma fold_dict_set_new:
  "distinct (map key xs) \<Longrightarrow> key ` set xs \<inter> fst ` set d = {} \<Longrightarrow>
     fold (\<lambda>x. dict_set (key x) x) xs d = d @ map (\<lambda>x. (key x, x)) xs"
  by (induction xs arbitrary: d) (auto simp: dict_set_new)

lemma dict_by_distinct: "distinct (map key xs) \<Longrightarrow> dict_by key xs = map (\<lambda>x. (key x, x)) xs"
  by (simp add: dict_by_def fold_dict_set_new)

lemma map_of_keyed: "distinct (map key xs) \<Longrightarrow> map_of (map (\<lambda>x. (key x, x)) xs) k = Some a \<longleftrightarrow> a \<in> set xs \<and> key a = k"
  by (induction xs) (auto simp: image_iff)

lemma map_of_keyed_None: "map_of (map (\<lambda>x. (key x, x)) xs) k = None \<longleftrightarrow> k \<notin> key ` set xs"
  by (auto simp: map_of_eq_None_iff image_iff)

lemma compare_column_Nil: "compare_column e found = [] \<longleftrightarrow> (\<exists>a. found = Some a \<and> keeps_promise e a)"
  by (cases found) (auto simp: compare_column_def Let_def keeps_promise_def type_matches_def)

lemma compare_column_breaking: "(i, c) \<in> set (compare_column e found) \<Longrightarrow> ch_breaking c"
  by (cases found) (auto simp: compare_column_def Let_def breaking_change_def split: if_splits)

text \<open>Every issue is one breaking change and the additions are the warnings.\<close>

lemma analysis_counts:
  "an_breaking (contract_schema_analysis cols actual) = length (an_issues (contract_schema_analysis cols actual))"
  "an_warning (contract_schema_analysis cols actual)
     = length (added_columns (expected_columns_map cols) (actual_columns_map actual))"
proof -
  let ?found = "concat (map (\<lambda>(n, e). compare_column e (map_of (actual_columns_map actual) n)) (expected_columns_map cols))"
  let ?added = "added_columns (expected_columns_map cols) (actual_columns_map actual)"
  have breaking: "\<forall>c\<in>set (map snd ?found). ch_breaking c"
    by (auto dest: compare_column_breaking)
  have added: "\<forall>c\<in>set ?added. \<not> ch_breaking c"
    by (auto simp: added_columns_def)
  have "filter ch_breaking (map snd ?found) = map snd ?found" "filter (\<lambda>c. \<not> ch_breaking c) (map snd ?found) = []"
    using breaking by (simp_all only: filter_id_conv filter_empty_conv simp_thms)
  moreover have "filter ch_breaking ?added = []" "filter (\<lambda>c. \<not> ch_breaking c) ?added = ?added"
    using added by (simp_all only: filter_id_conv filter_empty_conv simp_thms)
  ultimately show "an_breaking (contract_schema_analysis cols actual) = length (an_issues (contract_schema_analysis cols actual))"
    "an_warning (contract_schema_analysis cols actual) = length ?added"
    unfolding contract_schema_analysis_def Let_def by (simp_all del: filter_map)
qed

lemma analysis_state:
  "an_schema_state (contract_schema_analysis cols actual) = ''breaking''
     \<longleftrightarrow> an_issues (contract_schema_analysis cols actual) \<noteq> []"
proof -
  have "an_schema_state (contract_schema_analysis cols actual) = ''breaking'' \<longleftrightarrow> an_breaking (contract_schema_analysis cols actual) \<noteq> 0"
    unfolding contract_schema_analysis_def Let_def by simp
  then show ?thesis by (simp add: analysis_counts)
qed

lemma no_issues_iff:
  assumes "distinct (map (normalize_column_name \<circ> cc_column_name) (filter (\<lambda>c. cc_column_name c \<noteq> []) cols))"
    and "distinct (map (normalize_column_name \<circ> sc_name) (filter (\<lambda>c. sc_name c \<noteq> []) actual))"
  shows "an_issues (contract_schema_analysis cols actual) = [] \<longleftrightarrow> honours cols actual"
proof -
  have maps: "expected_columns_map cols
      = map (\<lambda>e. (normalize_column_name (cc_column_name e), e)) (filter (\<lambda>c. cc_column_name c \<noteq> []) cols)"
    "actual_columns_map actual
      = map (\<lambda>a. (normalize_column_name (sc_name a), a)) (filter (\<lambda>c. sc_name c \<noteq> []) actual)"
    using assms by (simp_all add: expected_columns_map_def actual_columns_map_def dict_by_distinct comp_def)
  have found: "map_of (actual_columns_map actual) k = Some a
      \<longleftrightarrow> a \<in> set actual \<and> sc_name a \<noteq> [] \<and> normalize_column_name (sc_name a) = k" for k a
    unfolding maps(2) using assms(2) by (subst map_of_keyed) (auto simp: comp_def)
  have "an_issues (contract_schema_analysis cols actual) = []
      \<longleftrightarrow> (\<forall>(n, e)\<in>set (expected_columns_map cols). compare_column e (map_of (actual_columns_map actual) n) = [])"
    unfolding contract_schema_analysis_def Let_def by auto
  also have "\<dots> \<longleftrightarrow> honours cols actual"
    unfolding compare_column_Nil found honours_def by (fastforce simp: maps(1))
  finally show ?thesis .
qed

text \<open>C23: A validation passes exactly when the scanned columns keep what the contract promises, provided that no two
  columns of either side have the same name up to case and blanks; and the schema counts as broken exactly when it fails.\<close>

theorem contract_passes_iff:
  assumes "validate_contract now i user st = Inr (st', v)"
    and "List.find (\<lambda>c. dc_id c = i) (cs_contracts st) = Some c"
    and "distinct (map (normalize_column_name \<circ> cc_column_name) (filter (\<lambda>c. cc_column_name c \<noteq> []) (dc_columns c)))"
    and "distinct (map (normalize_column_name \<circ> sc_name) (filter (\<lambda>c. sc_name c \<noteq> []) (columns_of (dc_table_id c) st)))"
  shows "(cv_status v = ''passed'' \<longleftrightarrow> honours (dc_columns c) (columns_of (dc_table_id c) st))
    \<and> (cv_schema_state v = ''breaking'' \<longleftrightarrow> cv_status v = ''failed'')"
  using assms(1,2) no_issues_iff[OF assms(3,4)]
  by (auto simp: validate_contract_def Let_def analysis_state split: if_splits)

text \<open>A contract that promises a column of type int is kept by a column of any type whose name contains int, an
  interval or a point for instance.\<close>

theorem int_contract_keeps_interval:
  assumes "normalize_column_name (sc_name a) = normalize_column_name (cc_column_name e)" and "cc_data_type e = Some ''int''"
    and "sc_data_type a \<in> {''bigint'', ''interval'', ''point''}" and "cc_column_name e \<noteq> []" and "sc_name a \<noteq> []"
    and "\<not> sc_is_nullable a" and "sc_is_primary_key a"
  shows "an_issues (contract_schema_analysis [e] [a]) = [] \<and> an_schema_state (contract_schema_analysis [e] [a]) = ''compatible''"
proof -
  have "type_matches (Some ''int'') (Some (sc_data_type a))"
    using assms(3) by (elim insertE emptyE) (simp_all only:, code_simp+)
  then have kept: "an_issues (contract_schema_analysis [e] [a]) = []"
    using assms by (simp add: no_issues_iff honours_def keeps_promise_def)
  moreover have "added_columns (expected_columns_map [e]) (actual_columns_map [a]) = []"
    using assms(1,4,5) by (simp add: added_columns_def expected_columns_map_def actual_columns_map_def dict_by_def)
  ultimately show ?thesis
    using analysis_counts[of "[e]" "[a]"] unfolding contract_schema_analysis_def Let_def by simp
qed

section \<open>Histories\<close>

datatype contract_op =
    New_contract instant int contract_in
  | Validate_contract instant int "int option"
  | Scanned int "scanned_column list"

definition kept :: "contract_store \<Rightarrow> (contract_store \<times> 'a) res \<Rightarrow> contract_store" where
  "kept st r = (case r of Inl _ \<Rightarrow> st | Inr (st', _) \<Rightarrow> st')"

text \<open>A scan of a table replaces what is known of its columns.\<close>

fun contract_step :: "contract_store \<Rightarrow> contract_op \<Rightarrow> contract_store" where
  "contract_step st (New_contract now t p) = kept st (create_contract now t p st)"
| "contract_step st (Validate_contract now i user) = kept st (validate_contract now i user st)"
| "contract_step st (Scanned t cols) = st\<lparr>cs_scanned := filter (\<lambda>c. sc_table_id c \<noteq> t) (cs_scanned st) @ cols\<rparr>"

definition validations_of :: "int \<Rightarrow> contract_store \<Rightarrow> contract_validation list" where
  "validations_of i st = filter (\<lambda>v. cv_contract_id v = i) (cs_validations st)"

text \<open>The verdict a contract carries is that of its last validation.\<close>

definition verdict_current :: "contract_store \<Rightarrow> data_contract \<Rightarrow> bool" where
  "verdict_current st c \<longleftrightarrow>
     (if validations_of (dc_id c) st = []
      then dc_last_validation_status c = None \<and> dc_last_validation_at c = None \<and> dc_last_validation_issues c = None
      else let v = last (validations_of (dc_id c) st) in
        dc_last_validation_status c = Some (cv_status v) \<and> dc_last_validation_at c = Some (cv_checked_at v)
        \<and> dc_last_validation_issues c = Some (int (length (cv_issues v))))"

definition contracts_ok :: "contract_store \<Rightarrow> bool" where
  "contracts_ok st \<longleftrightarrow>
     distinct (map dc_id (cs_contracts st))
     \<and> (\<forall>c\<in>set (cs_contracts st). dc_id c < cs_next_contract st
          \<and> (dc_published_at c \<noteq> None \<longleftrightarrow> dc_status c = ''published'')
          \<and> distinct (map cc_column_name (dc_columns c)) \<and> verdict_current st c)
     \<and> (\<forall>v\<in>set (cs_validations st). cv_contract_id v < cs_next_contract st)
     \<and> (\<forall>t. map dc_version (contracts_of t st) = [1..int (length (contracts_of t st))])"

lemma fold_max_versions: "fold (\<lambda>c m. max (f c) m) xs a = Max (insert a (f ` set xs))"
proof (induction xs arbitrary: a)
  case (Cons x xs)
  then show ?case by (cases "xs = []") (simp_all add: max.assoc max.commute)
qed simp

lemma next_version:
  assumes "map dc_version (contracts_of t st) = [1..int (length (contracts_of t st))]"
  shows "fold (\<lambda>c m. max (dc_version c) m) (contracts_of t st) 0 = int (length (contracts_of t st))"
proof -
  have "dc_version ` set (contracts_of t st) = {1..int (length (contracts_of t st))}"
    using arg_cong[OF assms, of set] by simp
  then show ?thesis unfolding fold_max_versions
    by (intro Max_eqI) auto
qed

lemma create_contract_InrE:
  assumes "create_contract now t p st = Inr (st', c)"
  obtains "st' = st\<lparr>cs_contracts := cs_contracts st @ [c], cs_next_contract := cs_next_contract st + 1\<rparr>"
    "dc_id c = cs_next_contract st" "dc_table_id c = t"
    "dc_version c = fold (\<lambda>c m. max (dc_version c) m) (contracts_of t st) 0 + 1"
    "dc_published_at c \<noteq> None \<longleftrightarrow> dc_status c = ''published''" "distinct (map cc_column_name (dc_columns c))"
    "dc_last_validation_status c = None" "dc_last_validation_at c = None" "dc_last_validation_issues c = None"
  using assms by (auto simp: create_contract_def Let_def split: if_splits)

lemma create_contract_ok:
  assumes ok: "contracts_ok st" and new: "create_contract now t p st = Inr (st', c)"
  shows "contracts_ok st'"
proof -
  from new obtain st': "st' = st\<lparr>cs_contracts := cs_contracts st @ [c], cs_next_contract := cs_next_contract st + 1\<rparr>"
    and c: "dc_id c = cs_next_contract st" "dc_table_id c = t"
      "dc_version c = fold (\<lambda>c m. max (dc_version c) m) (contracts_of t st) 0 + 1"
      "dc_published_at c \<noteq> None \<longleftrightarrow> dc_status c = ''published''" "distinct (map cc_column_name (dc_columns c))"
      "dc_last_validation_status c = None" "dc_last_validation_at c = None" "dc_last_validation_issues c = None"
    by (rule create_contract_InrE)
  have versions: "map dc_version (contracts_of t st) = [1..int (length (contracts_of t st))]"
    using ok by (simp add: contracts_ok_def)
  have "validations_of (dc_id c) st = []"
    using ok by (auto simp: contracts_ok_def c(1) validations_of_def filter_empty_conv)
  then have "verdict_current st' c" by (simp add: verdict_current_def validations_of_def st' c)
  moreover have "verdict_current st' k = verdict_current st k" for k
    by (simp add: verdict_current_def validations_of_def st')
  moreover have "map dc_version (contracts_of u st') = [1..int (length (contracts_of u st'))]" for u
  proof (cases "u = t")
    case True
    have "contracts_of t st' = contracts_of t st @ [c]" by (simp add: contracts_of_def st' c)
    moreover have "dc_version c = int (length (contracts_of t st)) + 1" using c(3) next_version[OF versions] by simp
    ultimately show ?thesis using versions True by (simp add: upto_rec2 add.commute)
  next
    case False
    then have "contracts_of u st' = contracts_of u st" by (simp add: contracts_of_def st' c)
    with ok show ?thesis by (simp add: contracts_ok_def)
  qed
  ultimately show ?thesis using ok c by (fastforce simp: contracts_ok_def st')
qed

lemma validate_contract_InrE:
  assumes "validate_contract now i user st = Inr (st', v)"
  obtains c where "c \<in> set (cs_contracts st)" "dc_id c = i" "cv_contract_id v = i" "cv_checked_at v = now"
    "st' = st\<lparr>cs_validations := cs_validations st @ [v], cs_next_validation := cs_next_validation st + 1,
      cs_contracts := map (\<lambda>k. if dc_id k = i then judged (cv_status v) now (int (length (cv_issues v))) k else k) (cs_contracts st)\<rparr>"
proof -
  from assms obtain c where c: "List.find (\<lambda>c. dc_id c = i) (cs_contracts st) = Some c"
    by (auto simp: validate_contract_def split: option.splits)
  then have "c \<in> set (cs_contracts st)" "dc_id c = i" by (auto simp: find_Some_iff)
  then show thesis using assms c by (intro that) (auto simp: validate_contract_def Let_def split: if_splits)
qed

lemma judged_simps [simp]:
  "dc_id (judged s n i k) = dc_id k" "dc_version (judged s n i k) = dc_version k" "dc_table_id (judged s n i k) = dc_table_id k"
  "dc_status (judged s n i k) = dc_status k" "dc_published_at (judged s n i k) = dc_published_at k"
  "dc_columns (judged s n i k) = dc_columns k" "dc_last_validation_status (judged s n i k) = Some s"
  "dc_last_validation_at (judged s n i k) = Some n" "dc_last_validation_issues (judged s n i k) = Some i"
  by (simp_all add: judged_def)

lemma validate_contract_ok:
  assumes ok: "contracts_ok st" and new: "validate_contract now i user st = Inr (st', v)"
  shows "contracts_ok st'"
proof -
  let ?judge = "\<lambda>k. if dc_id k = i then judged (cv_status v) now (int (length (cv_issues v))) k else k"
  from new obtain c where c: "c \<in> set (cs_contracts st)" "dc_id c = i" and v: "cv_contract_id v = i" "cv_checked_at v = now"
    and st': "st' = st\<lparr>cs_validations := cs_validations st @ [v], cs_next_validation := cs_next_validation st + 1,
      cs_contracts := map ?judge (cs_contracts st)\<rparr>"
    by (rule validate_contract_InrE)
  have "validations_of j st' = validations_of j st @ (if j = i then [v] else [])" for j
    by (simp add: validations_of_def st' v)
  then have "verdict_current st' (?judge k)" if "verdict_current st k" for k
    using that v(2) by (auto simp: verdict_current_def)
  moreover have "map dc_version (contracts_of t st') = map dc_version (contracts_of t st)" for t
  proof -
    have "contracts_of t st' = map ?judge (contracts_of t st)"
      unfolding contracts_of_def st' by (simp add: filter_map comp_def if_distrib [of dc_table_id] cong: if_cong)
    then show ?thesis by (simp add: if_distrib [of dc_version] cong: if_cong)
  qed
  moreover from this have "length (contracts_of t st') = length (contracts_of t st)" for t
    by (metis length_map)
  moreover have "map dc_id (cs_contracts st') = map dc_id (cs_contracts st)"
    by (simp add: st' if_distrib [of dc_id] cong: if_cong)
  moreover have "i < cs_next_contract st" using ok c by (auto simp: contracts_ok_def)
  moreover have "dc_id (?judge k) = dc_id k \<and> dc_status (?judge k) = dc_status k
      \<and> dc_published_at (?judge k) = dc_published_at k \<and> dc_columns (?judge k) = dc_columns k" for k
    by simp
  moreover have "cs_contracts st' = map ?judge (cs_contracts st)" "cs_next_contract st' = cs_next_contract st"
    "cs_validations st' = cs_validations st @ [v]"
    by (simp_all add: st')
  ultimately show ?thesis using ok v(1) unfolding contracts_ok_def by (simp only: set_map ball_simps set_append) simp
qed

lemma scanned_frame [simp]:
  "validations_of i (st\<lparr>cs_scanned := cols\<rparr>) = validations_of i st" "contracts_of t (st\<lparr>cs_scanned := cols\<rparr>) = contracts_of t st"
  "verdict_current (st\<lparr>cs_scanned := cols\<rparr>) c = verdict_current st c"
  by (simp_all add: validations_of_def contracts_of_def verdict_current_def)

lemma contract_step_ok: "contracts_ok st \<Longrightarrow> contracts_ok (contract_step st oper)"
proof (cases oper)
  case (Scanned t cols)
  then show "contracts_ok st \<Longrightarrow> ?thesis"
    by (simp add: contracts_ok_def)
next
  case (New_contract now t p)
  then show "contracts_ok st \<Longrightarrow> ?thesis"
    by (cases "create_contract now t p st") (auto simp: kept_def create_contract_ok)
next
  case (Validate_contract now i user)
  then show "contracts_ok st \<Longrightarrow> ?thesis"
    by (cases "validate_contract now i user st") (auto simp: kept_def validate_contract_ok)
qed

interpretation contracts: invariant_machine contract_step contracts_ok
  by unfold_locales (rule contract_step_ok)

text \<open>C24: After any history of new contracts, validations and scans the versions of a table are numbered from one without
  gaps, exactly the published contracts have a date of publication, and a contract carries the verdict of its last
  validation.\<close>

theorem contracts_ok_history: "contracts_ok st \<Longrightarrow> contracts_ok (foldl contract_step st es)"
  by (rule contracts.inv_run)

text \<open>The current contract of a table is its newest published version, and its newest version as long as none is
  published; a table with contracts has one.\<close>

theorem current_is_newest_published:
  assumes "c \<in> set (cs_contracts st)" and "dc_table_id c = t"
  shows "\<exists>k\<in>set (contracts_of t st). get_current_contract t st = Some k
    \<and> (if list_ex (\<lambda>c. dc_status c = ''published'') (contracts_of t st)
       then dc_status k = ''published''
         \<and> list_all (\<lambda>c. dc_status c = ''published'' \<longrightarrow> dc_version c \<le> dc_version k) (contracts_of t st)
       else list_all (\<lambda>c. dc_version c \<le> dc_version k) (contracts_of t st))"
proof -
  let ?key = "\<lambda>c. (Desc (dc_status c = ''published''), Desc (dc_version c))"
  have "contracts_of t st \<noteq> []" using assms by (auto simp: contracts_of_def filter_empty_conv)
  then obtain k where k: "first_by ?key (contracts_of t st) = Some k"
    by (cases "first_by ?key (contracts_of t st)") simp_all
  have least: "?key k \<le> ?key c" if "c \<in> set (contracts_of t st)" for c
    by (rule first_by_least[OF k that])
  show ?thesis
    using first_by_in[OF k] k least by (fastforce simp: get_current_contract_def list_ex_iff list_all_iff less_eq_prod_def)
qed

section \<open>Witnesses\<close>

definition demo_expected :: contract_column where
  "demo_expected = \<lparr>cc_column_name = ''Id'', cc_data_type = Some ''int'', cc_is_nullable = None, cc_is_primary_key = Some True,
     cc_is_required = Some True, cc_ordinal_position = None\<rparr>"

definition demo_scanned :: scanned_column where
  "demo_scanned = \<lparr>sc_table_id = 1, sc_name = ''id'', sc_data_type = ''interval'', sc_is_primary_key = True, sc_is_nullable = False\<rparr>"

definition demo_contract_in :: "string \<Rightarrow> contract_in" where
  "demo_contract_in status = \<lparr>ci_status = status, ci_owner_user_id = None, ci_steward_user_id = None, ci_freshness_hours = Some 4,
     ci_min_row_count = None, ci_max_row_count = None, ci_columns = [demo_expected]\<rparr>"

definition demo_contracts :: contract_store where
  "demo_contracts = \<lparr>cs_table_ids = [1], cs_scanned = [demo_scanned], cs_contracts = [], cs_next_contract = 1,
     cs_validations = [], cs_next_validation = 1\<rparr>"

definition demo_contract_ops :: "contract_op list" where
  "demo_contract_ops = [New_contract 10 1 (demo_contract_in ''published''), New_contract 20 1 (demo_contract_in []),
     Validate_contract 30 1 None]"

definition demo_contract_store :: contract_store where
  "demo_contract_store = foldl contract_step demo_contracts demo_contract_ops"

lemma contracts_ok_history_witness: "contracts_ok demo_contract_store"
  unfolding demo_contract_store_def
  by (rule contracts_ok_history) (simp add: contracts_ok_def demo_contracts_def contracts_of_def)

lemma demo_created_contracts: "map dc_version (cs_contracts demo_contract_store) = [1, 2]
    \<and> map dc_status (cs_contracts demo_contract_store) = [''published'', ''draft'']
    \<and> map dc_table_id (cs_contracts demo_contract_store) = [1, 1]"
  by code_simp

lemma current_is_newest_published_witness:
  "\<exists>k\<in>set (contracts_of 1 demo_contract_store). get_current_contract 1 demo_contract_store = Some k"
proof -
  obtain c where "c \<in> set (cs_contracts demo_contract_store)" "dc_table_id c = 1"
    using demo_created_contracts by (cases "cs_contracts demo_contract_store") auto
  from current_is_newest_published[OF this] show ?thesis by blast
qed

lemma demo_same_name: "normalize_column_name (sc_name demo_scanned) = normalize_column_name (cc_column_name demo_expected)"
  by code_simp

lemma int_contract_keeps_interval_witness: "an_issues (contract_schema_analysis [demo_expected] [demo_scanned]) = []"
  by (rule conjunct1, rule int_contract_keeps_interval)
    (simp_all only: demo_same_name, simp_all add: demo_expected_def demo_scanned_def)

definition demo_published :: data_contract where
  "demo_published = \<lparr>dc_id = 1, dc_table_id = 1, dc_version = 1, dc_status = ''published'', dc_owner_user_id = None,
     dc_steward_user_id = None, dc_freshness_hours = None, dc_min_row_count = None, dc_max_row_count = None,
     dc_published_at = Some 10, dc_columns = [demo_expected], dc_last_validation_status = None,
     dc_last_validation_at = None, dc_last_validation_issues = None\<rparr>"

lemma contract_passes_iff_witness:
  "\<exists>st' v. validate_contract 30 1 None (demo_contracts\<lparr>cs_contracts := [demo_published]\<rparr>) = Inr (st', v)
     \<and> (cv_status v = ''passed'' \<longleftrightarrow> honours [demo_expected] [demo_scanned])"
proof -
  let ?st = "demo_contracts\<lparr>cs_contracts := [demo_published]\<rparr>"
  have found: "List.find (\<lambda>c. dc_id c = 1) (cs_contracts ?st) = Some demo_published"
    by (simp add: demo_published_def)
  have "dc_table_id demo_published \<in> set (cs_table_ids ?st)" by (simp add: demo_published_def demo_contracts_def)
  with found have "\<exists>st' v. validate_contract 30 1 None ?st = Inr (st', v)"
    unfolding validate_contract_def found option.case Let_def by simp
  then obtain st' v where v: "validate_contract 30 1 None ?st = Inr (st', v)" by blast
  have "dc_columns demo_published = [demo_expected]" "columns_of (dc_table_id demo_published) ?st = [demo_scanned]"
    by (simp_all add: demo_published_def columns_of_def demo_contracts_def demo_scanned_def)
  with contract_passes_iff[OF v found] v show ?thesis by auto
qed

end
