(* ===== verification/Floats.thy ===== *)
theory Floats
  imports Prelude "HOL-Library.Log_Nat"
begin

text \<open>
  Floating point numbers of the code: the rationals that fit in 53 bits, and the rounding of every operation to the
  nearest of them, ties to even.  The numbers that the modelled code computes with lie far from the ends of the range,
  so the exponent has no bounds here.
\<close>

section \<open>Rounding to 53 bits\<close>

text \<open>The exponent \<open>e\<close> with \<open>2\<^bsup>e\<^esup> \<le> x < 2\<^bsup>e+1\<^esup>\<close>, for positive \<open>x\<close>.\<close>

definition binade :: "rat \<Rightarrow> int" where
  "binade x = (let (n, d) = quotient_of x; e = bitlen n - bitlen d in if x < 2 powi e then e - 1 else e)"

definition fl :: "rat \<Rightarrow> rat" where
  "fl x = (if x = 0 then 0 else let u = 2 powi (binade \<bar>x\<bar> - 52) in of_int (py_round (x / u)) * u)"

lemma py_round_mono: "x \<le> y \<Longrightarrow> py_round x \<le> py_round y"
proof (cases "\<lfloor>x\<rfloor> = \<lfloor>y\<rfloor>")
  case True
  then show "x \<le> y \<Longrightarrow> ?thesis" by (auto simp: py_round_def Let_def)
next
  case False
  assume "x \<le> y"
  then have "\<lfloor>x\<rfloor> + 1 \<le> \<lfloor>y\<rfloor>" using False floor_mono[of x y] by linarith
  then show ?thesis using py_round_bounds[of x] py_round_bounds[of y] by linarith
qed

lemma bitlen_powi:
  assumes "0 < (n::int)"
  shows "2 powi (bitlen n - 1) \<le> (of_int n :: rat)" and "(of_int n :: rat) < 2 powi bitlen n"
proof -
  have b: "2 ^ nat (bitlen n - 1) \<le> n" "n < 2 ^ nat (bitlen n)" and pos: "0 < bitlen n"
    using bitlen_bounds[OF assms] bitlen_nonneg[of n] bitlen_eq_zero_iff[of n] assms by auto
  have "(of_int (2 ^ nat (bitlen n - 1)) :: rat) \<le> of_int n" "(of_int n :: rat) < of_int (2 ^ nat (bitlen n))"
    using b by (simp_all only: of_int_le_iff of_int_less_iff)
  then show "2 powi (bitlen n - 1) \<le> (of_int n :: rat)" "(of_int n :: rat) < 2 powi bitlen n"
    using pos by (simp_all add: power_int_def)
qed

lemma binade:
  assumes "0 < x"
  shows "2 powi binade x \<le> x" and "x < 2 powi (binade x + 1)"
proof -
  obtain n d where q: "quotient_of x = (n, d)" by (cases "quotient_of x")
  have d: "0 < d" using quotient_of_denom_pos[OF q] .
  have x: "x = of_int n / of_int d" using quotient_of_div[OF q] .
  then have n: "0 < n" using assms d by (simp add: zero_less_divide_iff)
  define e where "e = bitlen n - bitlen d"
  have "x < 2 powi bitlen n / of_int d"
    unfolding x using bitlen_powi(2)[OF n] d by (simp add: divide_strict_right_mono)
  also have "\<dots> \<le> 2 powi bitlen n / 2 powi (bitlen d - 1)"
    using bitlen_powi(1)[OF d] d by (intro divide_left_mono) simp_all
  also have "\<dots> = 2 powi (e + 1)" by (simp add: e_def power_int_diff [symmetric] algebra_simps)
  finally have upper: "x < 2 powi (e + 1)" .
  have "2 powi (e - 1) = 2 powi (bitlen n - 1) / (2 powi bitlen d :: rat)"
    by (simp add: e_def power_int_diff [symmetric] algebra_simps)
  also have "\<dots> \<le> of_int n / 2 powi bitlen d"
    using bitlen_powi(1)[OF n] by (intro divide_right_mono) simp_all
  also have "\<dots> \<le> x"
    unfolding x using bitlen_powi(2)[OF d] d n by (intro divide_left_mono) simp_all
  finally have lower: "2 powi (e - 1) \<le> x" .
  have "binade x = (if x < 2 powi e then e - 1 else e)" by (simp add: binade_def q e_def)
  then show "2 powi binade x \<le> x" "x < 2 powi (binade x + 1)" using lower upper by (auto split: if_splits)
qed

lemma binade_mono:
  assumes "0 < x" and "x \<le> y"
  shows "binade x \<le> binade y"
proof (rule ccontr)
  assume "\<not> binade x \<le> binade y"
  then have "binade y + 1 \<le> binade x" by simp
  then have "(2::rat) powi (binade y + 1) \<le> 2 powi binade x" by (rule power_int_increasing) simp
  then show False using binade(2)[of y] binade(1)[of x] assms by linarith
qed

lemma fl_pos: "0 < x \<Longrightarrow> fl x = of_int (py_round (x / 2 powi (binade x - 52))) * 2 powi (binade x - 52)"
  by (simp add: fl_def Let_def)

lemma binade_split:
  "(2::rat) powi binade x = 2 ^ 52 * 2 powi (binade x - 52)" "(2::rat) powi (binade x + 1) = 2 ^ 53 * 2 powi (binade x - 52)"
  using power_int_add[of "2::rat" 52 "binade x - 52"] power_int_add[of "2::rat" 53 "binade x - 52"]
  by (simp_all add: algebra_simps)

lemma scaled_bounds:
  assumes "0 < x"
  shows "2 ^ 52 \<le> x / 2 powi (binade x - 52)" and "x / 2 powi (binade x - 52) < 2 ^ 53"
proof -
  show "2 ^ 52 \<le> x / 2 powi (binade x - 52)" "x / 2 powi (binade x - 52) < 2 ^ 53"
    using binade[OF assms, unfolded binade_split] by (simp_all add: pos_le_divide_eq pos_divide_less_eq)
qed

text \<open>Rounding keeps the order, and the whole numbers of 53 bits.\<close>

lemma fl_binade:
  assumes "0 < x"
  shows "2 powi binade x \<le> fl x" and "fl x \<le> 2 powi (binade x + 1)"
proof -
  let ?u = "2 powi (binade x - 52) :: rat"
  have "of_int (2 ^ 52) \<le> x / ?u" "x / ?u \<le> of_int (2 ^ 53)" using scaled_bounds[OF assms] by simp_all
  from py_round_ge[OF this(1)] py_round_le[OF this(2)]
  have "(2 ^ 52 :: rat) \<le> of_int (py_round (x / ?u))" "of_int (py_round (x / ?u)) \<le> (2 ^ 53 :: rat)"
    by (metis of_int_le_iff of_int_numeral of_int_power)+
  then have "2 ^ 52 * ?u \<le> fl x" "fl x \<le> 2 ^ 53 * ?u"
    unfolding fl_pos[OF assms] by (intro mult_right_mono, simp, simp)+
  then show "2 powi binade x \<le> fl x" "fl x \<le> 2 powi (binade x + 1)"
    by (simp_all only: binade_split)
qed

lemma fl_zero [simp]: "fl 0 = 0"
  by (simp add: fl_def)

lemma fl_nonneg:
  assumes "0 \<le> x"
  shows "0 \<le> fl x"
proof (cases "x = 0")
  case False
  have "(0::rat) \<le> 2 powi binade x" by (rule zero_le_power_int) simp
  also have "\<dots> \<le> fl x" using False assms by (intro fl_binade) simp
  finally show ?thesis .
qed simp

lemma fl_mono:
  assumes "0 \<le> x" and "x \<le> y"
  shows "fl x \<le> fl y"
proof (cases "x = 0")
  case True
  then show ?thesis using fl_nonneg[of y] assms by simp
next
  case False
  then have x: "0 < x" and y: "0 < y" using assms by simp_all
  show ?thesis
  proof (cases "binade x = binade y")
    case True
    have "x / 2 powi (binade y - 52) \<le> y / 2 powi (binade y - 52)" using assms(2) by (intro divide_right_mono) simp_all
    then have "py_round (x / 2 powi (binade y - 52)) \<le> py_round (y / 2 powi (binade y - 52))" by (rule py_round_mono)
    then show ?thesis unfolding fl_pos[OF x] fl_pos[OF y] True by (intro mult_right_mono) simp_all
  next
    case False
    then have "binade x + 1 \<le> binade y" using binade_mono[OF x assms(2)] by simp
    then have "(2::rat) powi (binade x + 1) \<le> 2 powi binade y" by (rule power_int_increasing) simp
    then show ?thesis using fl_binade(2)[OF x] fl_binade(1)[OF y] by linarith
  qed
qed

lemma fl_of_int:
  assumes "0 \<le> n" and "n < 2 ^ 53"
  shows "fl (of_int n) = of_int n"
proof (cases "n = 0")
  case False
  then have n: "0 < (of_int n :: rat)" using assms by simp
  have "binade (of_int n) < 53"
  proof (rule ccontr)
    assume "\<not> binade (of_int n) < 53"
    then have "(2::rat) powi 53 \<le> 2 powi binade (of_int n)" by (intro power_int_increasing) simp_all
    with binade(1)[OF n] have "(of_int (2 ^ 53) :: rat) \<le> of_int n" by simp
    with assms(2) show False by (simp only: of_int_le_iff)
  qed
  then have "0 \<le> 52 - binade (of_int n)" by simp
  then obtain k where k: "52 - binade (of_int n) = int k" by (rule nonneg_int_cases)
  then have unit: "(2::rat) powi (binade (of_int n) - 52) = inverse (2 ^ k)"
    by (simp add: power_int_minus flip: k) (metis k minus_diff_eq power_int_minus power_int_of_nat)
  have "(of_int n :: rat) / 2 powi (binade (of_int n) - 52) = of_int (n * 2 ^ k)"
    unfolding unit by (simp add: divide_inverse)
  then show ?thesis unfolding fl_pos[OF n] by (simp only: py_round_of_int) (simp add: unit)
qed simp

lemma fl_ge: "0 \<le> n \<Longrightarrow> n < 2 ^ 53 \<Longrightarrow> of_int n \<le> x \<Longrightarrow> of_int n \<le> fl x"
  using fl_mono[of "of_int n" x] by (simp add: fl_of_int)

lemma fl_le: "0 \<le> n \<Longrightarrow> n < 2 ^ 53 \<Longrightarrow> 0 \<le> x \<Longrightarrow> x \<le> of_int n \<Longrightarrow> fl x \<le> of_int n"
  using fl_mono[of x "of_int n"] by (simp add: fl_of_int)

end
