(* ===== verification/Scoring.thy ===== *)
theory Scoring
  imports Certification Floats
begin

text \<open>
  Scores of a table: governance (\<open>features/governance/scoring.py\<close>, \<open>score_config.py\<close>, \<open>rules.py\<close>), trust
  (\<open>trust_score.py\<close>), risk (\<open>risk.py\<close>) and priority (\<open>features/dashboard/executive_scoring.py\<close>), computed from the
  profile of a table (\<open>TableProfile\<close> of \<open>features/dashboard/support.py\<close>).

  A factor keeps its key, points and status; its label and the sentence that explains it to a reader are left out.
  Floating point operations are rounded (theory \<open>Floats\<close>); instants are aware.
\<close>

section \<open>Profiles\<close>

record scored_table =
  st_owner_defined :: bool
  st_description_complete :: bool
  st_dictionary_complete :: bool
  st_classification_defined :: bool
  st_tags_count :: int
  st_terms_count :: int
  st_total_columns :: int
  st_documented_columns :: int
  st_certification_status :: "string option"
  st_certification_criticality :: "string option"
  st_certification_decided_at :: "instant option"
  st_certification_review_at :: "instant option"
  st_certification_expires_at :: "instant option"
  st_review_recent :: bool
  st_dq_score :: "rat option"
  st_freshness_seconds :: "int option"
  st_open_incidents :: int
  st_critical_open_incidents :: int
  st_active_dq_violation :: bool
  st_data_owner_id :: "int option"
  st_domain_name :: "string option"
  st_sensitivity_level :: "string option"
  st_has_personal_data :: bool
  st_has_sensitive_personal_data :: bool
  st_owner_reviewed_at :: "instant option"
  st_privacy_reviewed_at :: "instant option"
  st_search_clicks_30d :: int
  st_active_dq_rules_count :: int
  st_recent_dq_failure_runs_30d :: int
  st_sla_defined :: bool

text \<open>\<open>int(round((a / b) * 100))\<close>.\<close>

definition rounded_percent :: "int \<Rightarrow> int \<Rightarrow> int" where
  "rounded_percent a b = py_round (fl (fl (of_int a / of_int b) * 100))"

definition count_true :: "bool list \<Rightarrow> int" where
  "count_true bs = int (length (filter id bs))"

definition profile_readiness_score :: "scored_table \<Rightarrow> int" where
  "profile_readiness_score t =
     rounded_percent (count_true
       [st_owner_defined t, st_description_complete t,
        st_total_columns t > 0 \<and> rounded_percent (st_documented_columns t) (st_total_columns t) \<ge> 80,
        st_tags_count t > 0, st_terms_count t > 0,
        (case st_dq_score t of None \<Rightarrow> False | Some d \<Rightarrow> d \<ge> 90),
        st_critical_open_incidents t = 0, st_review_recent t]) 8"

definition eligible_for_certification :: "scored_table \<Rightarrow> bool" where
  "eligible_for_certification t = (profile_readiness_score t \<ge> 50)"

text \<open>The attributes of a profile that the certification status is derived from.\<close>

definition as_cert_table :: "scored_table \<Rightarrow> cert_table" where
  "as_cert_table t =
     \<lparr>ct_id = 0, ct_schema_name = [], ct_name = [], ct_description_manual = None, ct_description_source = None,
      ct_columns = [], ct_data_owner_id = st_data_owner_id t, ct_owner = None, ct_has_personal_data = st_has_personal_data t,
      ct_has_sensitive_personal_data = st_has_sensitive_personal_data t, ct_privacy_reviewed_at = st_privacy_reviewed_at t,
      ct_legal_basis = None, ct_privacy_purpose = None, ct_updated_at = None, ct_status = st_certification_status t,
      ct_criticality = st_certification_criticality t, ct_badges = None, ct_notes = None, ct_submitted_by = None,
      ct_submitted_at = None, ct_decided_by = None, ct_decided_at = st_certification_decided_at t,
      ct_review_at = st_certification_review_at t, ct_expires_at = st_certification_expires_at t\<rparr>"

definition resolve_certification_status_for_profile :: "instant \<Rightarrow> scored_table \<Rightarrow> string" where
  "resolve_certification_status_for_profile now t =
     resolve_certification_status (as_cert_table t) now
       \<lparr>sg_readiness = profile_readiness_score t,
        sg_dq = \<lparr>dv_active = st_active_dq_violation t, dv_count = 0, dv_rule_names = []\<rparr>,
        sg_incidents = nat (st_critical_open_incidents t), sg_operational = False\<rparr>"

section \<open>Reviews that are due\<close>

record governance_settings =
  gs_owner_review_interval_days :: int
  gs_privacy_review_interval_days :: int
  gs_sensitive_privacy_review_interval_days :: int
  gs_certification_review_interval_days :: int
  gs_score_weights :: "(string \<times> py_value) list option"
  gs_domain_adjustments :: "(string \<times> int) list"
  gs_criticality_adjustments :: "(string \<times> int) list"
  gs_high_usage_click_threshold :: int

definition older_than :: "int \<Rightarrow> instant \<Rightarrow> instant option \<Rightarrow> bool" where
  "older_than days now stamp = (case stamp of None \<Rightarrow> True | Some t \<Rightarrow> t < now - days * one_day)"

definition owner_review_due :: "governance_settings \<Rightarrow> instant \<Rightarrow> scored_table \<Rightarrow> bool" where
  "owner_review_due gs now t =
     ((st_owner_defined t \<or> (case st_data_owner_id t of None \<Rightarrow> False | Some i \<Rightarrow> i \<noteq> 0))
      \<and> older_than (gs_owner_review_interval_days gs) now (st_owner_reviewed_at t))"

definition sensitive_context :: "scored_table \<Rightarrow> bool" where
  "sensitive_context t = (str_true (st_sensitivity_level t) \<or> st_has_personal_data t \<or> st_has_sensitive_personal_data t)"

definition privacy_review_due :: "governance_settings \<Rightarrow> instant \<Rightarrow> scored_table \<Rightarrow> bool" where
  "privacy_review_due gs now t =
     ((sensitive_context t \<or> or_empty (st_certification_status t) = ''certified'')
      \<and> older_than (if sensitive_context t then gs_sensitive_privacy_review_interval_days gs
                    else gs_privacy_review_interval_days gs) now (st_privacy_reviewed_at t))"

definition certification_review_due :: "governance_settings \<Rightarrow> instant \<Rightarrow> scored_table \<Rightarrow> bool" where
  "certification_review_due gs now t =
     (norm_token (st_certification_status t) \<in> {''certified'', ''revalidation_pending'', ''expired''}
      \<and> (past_due now (st_certification_expires_at t) \<or> past_due now (st_certification_review_at t)
         \<or> older_than (gs_certification_review_interval_days gs) now (st_certification_decided_at t)))"

definition review_due_label :: "bool \<Rightarrow> bool \<Rightarrow> bool \<Rightarrow> string option" where
  "review_due_label owner_due privacy_due certification_due =
     (let labels = (if owner_due then [''owner''] else []) @ (if privacy_due then [''privacidade''] else [])
        @ (if certification_due then [''certificacao''] else [])
      in if labels = [] then None else Some (join_with '', '' labels))"

section \<open>Weights\<close>

definition DEFAULT_GOVERNANCE_SCORE_WEIGHTS :: "(string \<times> int) list" where
  "DEFAULT_GOVERNANCE_SCORE_WEIGHTS =
     [(''owner_defined'', 10), (''table_description_complete'', 10), (''column_description_complete'', 12),
      (''tags_applied'', 8), (''glossary_terms'', 8), (''dq_score'', 15), (''certification'', 10),
      (''incident_health'', 10), (''owner_review'', 7), (''privacy_review'', 5), (''certification_review'', 5)]"

text \<open>The weight a key gets; \<open>int(value)\<close> may raise.\<close>

definition normalized_weight :: "(string \<times> py_value) list \<Rightarrow> string \<times> int \<Rightarrow> (string \<times> int) res" where
  "normalized_weight raw kv =
     (case dict_get raw (fst kv) of
        PNone \<Rightarrow> Inr kv
      | v \<Rightarrow> res_bind (py_int v) (\<lambda>i. Inr (fst kv, max i 0)))"

definition normalize_governance_score_weights :: "(string \<times> py_value) list option \<Rightarrow> (string \<times> int) list res" where
  "normalize_governance_score_weights raw =
     (case raw of
        None \<Rightarrow> Inr DEFAULT_GOVERNANCE_SCORE_WEIGHTS
      | Some d \<Rightarrow>
          if d = [] then Inr DEFAULT_GOVERNANCE_SCORE_WEIGHTS
          else res_bind (res_map (normalized_weight d) DEFAULT_GOVERNANCE_SCORE_WEIGHTS) (\<lambda>normalized.
            if sum_list (map snd normalized) \<noteq> 100 then Inr DEFAULT_GOVERNANCE_SCORE_WEIGHTS else Inr normalized))"

text \<open>An adjustment whose points are no number is dropped.\<close>

definition normalize_trust_score_adjustments :: "(string \<times> py_value) list \<Rightarrow> (string \<times> int) list" where
  "normalize_trust_score_adjustments raw =
     fold (\<lambda>(k, v) m.
       let key = py_lower (py_strip k) in
       if key = [] then m else (case py_int v of Inl _ \<Rightarrow> m | Inr i \<Rightarrow> dict_set key i m)) raw []"

section \<open>Governance score\<close>

record score_factor =
  sf_key :: string
  sf_points :: int
  sf_max_points :: int
  sf_status :: string

definition factor :: "string \<Rightarrow> int \<Rightarrow> int \<Rightarrow> score_factor" where
  "factor key max_points points =
     (let normalized = max 0 (min points max_points) in
      \<lparr>sf_key = key, sf_points = normalized, sf_max_points = max_points,
       sf_status = (if normalized \<ge> max_points then ''met'' else if normalized > 0 then ''partial'' else ''missing'')\<rparr>)"

definition scaled_points :: "int \<Rightarrow> rat \<Rightarrow> int" where
  "scaled_points weight ratio = py_round (fl (of_int (max weight 0) * max (min ratio 1) 0))"

definition governance_score_label :: "int \<Rightarrow> string \<times> string" where
  "governance_score_label score =
     (if score \<ge> 85 then (''Forte'', ''success'') else if score \<ge> 70 then (''Boa'', ''accent'')
      else if score \<ge> 50 then (''Em evolucao'', ''warning'') else (''Critica'', ''danger''))"

record governance_inputs =
  gi_owner_defined :: bool
  gi_table_description_complete :: bool
  gi_column_description_complete :: bool
  gi_tags_count :: int
  gi_terms_count :: int
  gi_dq_score :: "rat option"
  gi_certification_status :: string
  gi_eligible_for_certification :: bool
  gi_open_incidents :: int
  gi_critical_open_incidents :: int
  gi_owner_review_current :: bool
  gi_privacy_review_current :: bool
  gi_certification_review_current :: bool

record governance_score =
  gv_score :: int
  gv_max_score :: int
  gv_label :: string
  gv_tone :: string
  gv_completed_factors :: nat
  gv_partial_factors :: nat
  gv_total_factors :: nat
  gv_factors :: "score_factor list"

definition dq_points :: "int \<Rightarrow> rat option \<Rightarrow> int" where
  "dq_points w dq =
     (case dq of None \<Rightarrow> 0
      | Some d \<Rightarrow> if d \<ge> 90 then w else if d \<ge> 70 then scaled_points w (fl (8 / 15)) else 0)"

definition certification_points :: "int \<Rightarrow> string \<Rightarrow> bool \<Rightarrow> int" where
  "certification_points w status eligible =
     (if status = ''certified'' then w
      else if status \<in> {''in_review'', ''revalidation_pending''} \<or> eligible then scaled_points w (fl (6 / 10))
      else 0)"

definition incident_points :: "int \<Rightarrow> int \<Rightarrow> int \<Rightarrow> int" where
  "incident_points w critical open' =
     (if critical > 0 then 0 else if open' > 0 then scaled_points w (fl (6 / 10)) else w)"

definition governance_factors :: "(string \<Rightarrow> int) \<Rightarrow> governance_inputs \<Rightarrow> score_factor list" where
  "governance_factors w g =
     (let whole = (\<lambda>key b. factor key (w key) (if b then w key else 0)) in
      [whole ''owner_defined'' (gi_owner_defined g),
       whole ''table_description_complete'' (gi_table_description_complete g),
       whole ''column_description_complete'' (gi_column_description_complete g),
       whole ''tags_applied'' (gi_tags_count g > 0),
       whole ''glossary_terms'' (gi_terms_count g > 0),
       factor ''dq_score'' (w ''dq_score'') (dq_points (w ''dq_score'') (gi_dq_score g)),
       factor ''certification'' (w ''certification'')
         (certification_points (w ''certification'') (gi_certification_status g) (gi_eligible_for_certification g)),
       factor ''incident_health'' (w ''incident_health'')
         (incident_points (w ''incident_health'') (gi_critical_open_incidents g) (gi_open_incidents g)),
       whole ''owner_review'' (gi_owner_review_current g),
       whole ''privacy_review'' (gi_privacy_review_current g),
       whole ''certification_review'' (gi_certification_review_current g)])"

definition score_of_factors :: "score_factor list \<Rightarrow> governance_score" where
  "score_of_factors factors =
     (let score = sum_list (map sf_points factors) in
      \<lparr>gv_score = score, gv_max_score = sum_list (map sf_max_points factors),
       gv_label = fst (governance_score_label score), gv_tone = snd (governance_score_label score),
       gv_completed_factors = length (filter (\<lambda>f. sf_status f = ''met'') factors),
       gv_partial_factors = length (filter (\<lambda>f. sf_status f = ''partial'') factors),
       gv_total_factors = length factors, gv_factors = factors\<rparr>)"

definition build_governance_score :: "(string \<times> py_value) list option \<Rightarrow> governance_inputs \<Rightarrow> governance_score res" where
  "build_governance_score weights g =
     res_bind (normalize_governance_score_weights weights) (\<lambda>effective.
       Inr (score_of_factors (governance_factors (\<lambda>k. the (map_of effective k)) g)))"

definition profile_inputs :: "governance_settings \<Rightarrow> instant \<Rightarrow> scored_table \<Rightarrow> governance_inputs" where
  "profile_inputs gs now t =
     \<lparr>gi_owner_defined = st_owner_defined t, gi_table_description_complete = st_description_complete t,
      gi_column_description_complete = st_dictionary_complete t, gi_tags_count = st_tags_count t,
      gi_terms_count = st_terms_count t, gi_dq_score = st_dq_score t,
      gi_certification_status = resolve_certification_status_for_profile now t,
      gi_eligible_for_certification = eligible_for_certification t, gi_open_incidents = st_open_incidents t,
      gi_critical_open_incidents = st_critical_open_incidents t,
      gi_owner_review_current = (\<not> owner_review_due gs now t),
      gi_privacy_review_current = (\<not> privacy_review_due gs now t),
      gi_certification_review_current = (\<not> certification_review_due gs now t)\<rparr>"

definition build_governance_score_for_profile :: "governance_settings \<Rightarrow> instant \<Rightarrow> scored_table \<Rightarrow> governance_score res" where
  "build_governance_score_for_profile gs now t = build_governance_score (gs_score_weights gs) (profile_inputs gs now t)"

section \<open>Trust score\<close>

definition clamp :: "int \<Rightarrow> int" where
  "clamp v = max 0 (min 100 v)"

definition trust_score_label :: "int \<Rightarrow> string \<times> string" where
  "trust_score_label score =
     (if score \<ge> 85 then (''Muito confiavel'', ''success'') else if score \<ge> 70 then (''Confiavel'', ''accent'')
      else if score \<ge> 50 then (''Em atencao'', ''warning'') else (''Baixa confianca'', ''danger''))"

text \<open>An adjustment: its scope, the value it is for and its points.\<close>

definition adjustment :: "string \<Rightarrow> string \<Rightarrow> (string \<times> int) list \<Rightarrow> (string \<times> string \<times> int) list" where
  "adjustment scope key table =
     (case map_of table key of
        None \<Rightarrow> []
      | Some delta \<Rightarrow> if key = [] \<or> delta = 0 then [] else [(scope, key, delta)])"

definition trust_adjustments :: "governance_settings \<Rightarrow> scored_table \<Rightarrow> (string \<times> string \<times> int) list" where
  "trust_adjustments gs t =
     adjustment ''domain'' (norm_token (st_domain_name t)) (gs_domain_adjustments gs)
     @ adjustment ''criticality'' (norm_token (st_certification_criticality t)) (gs_criticality_adjustments gs)"

text \<open>One check: it lowers the score and is recorded.\<close>

definition charge :: "bool \<Rightarrow> string \<Rightarrow> int \<Rightarrow> int \<times> (string \<times> int) list \<Rightarrow> int \<times> (string \<times> int) list" where
  "charge b key points s = (if b then (fst s - points, snd s @ [(key, points)]) else s)"

definition dq_charge :: "rat option \<Rightarrow> int \<times> (string \<times> int) list \<Rightarrow> int \<times> (string \<times> int) list" where
  "dq_charge dq =
     (case dq of None \<Rightarrow> charge True ''no_dq'' 10
      | Some d \<Rightarrow> if d \<ge> 90 then id else if d \<ge> 70 then charge True ''dq_degraded'' 4 else charge True ''dq_low'' 14)"

definition freshness_charge :: "int option \<Rightarrow> int \<times> (string \<times> int) list \<Rightarrow> int \<times> (string \<times> int) list" where
  "freshness_charge seconds' =
     (case seconds' of None \<Rightarrow> charge True ''no_freshness'' 4
      | Some s \<Rightarrow> if s > 72 * 3600 then charge True ''stale_pipeline'' 8
                  else charge (s > 24 * 3600) ''freshness_warn'' 4)"

definition operational_charges :: "int \<Rightarrow> scored_table \<Rightarrow> (int \<times> (string \<times> int) list \<Rightarrow> int \<times> (string \<times> int) list) list" where
  "operational_charges high_usage t =
     [charge (\<not> st_owner_defined t) ''no_owner'' 12,
      charge (\<not> st_classification_defined t) ''no_classification'' 8,
      charge (\<not> st_description_complete t) ''no_description'' 6,
      charge (\<not> st_dictionary_complete t) ''no_dictionary'' 8,
      charge (\<not> st_sla_defined t) ''no_sla'' 6,
      charge (st_tags_count t \<le> 0) ''no_tags'' 4,
      charge (st_terms_count t \<le> 0) ''no_terms'' 4,
      dq_charge (st_dq_score t),
      charge (st_active_dq_violation t) ''active_dq_violation'' 14,
      (if st_critical_open_incidents t > 0 then charge True ''critical_incident'' 16
       else charge (st_open_incidents t > 0) ''open_incidents'' 8),
      (if st_recent_dq_failure_runs_30d t \<ge> 2 then charge True ''recurrent_dq_failure'' 10
       else charge (st_recent_dq_failure_runs_30d t = 1) ''recent_dq_failure'' 5),
      freshness_charge (st_freshness_seconds t),
      charge (st_search_clicks_30d t \<ge> high_usage \<and> \<not> st_classification_defined t) ''high_usage_no_classification'' 6,
      charge (st_search_clicks_30d t \<ge> high_usage \<and> \<not> st_dictionary_complete t) ''high_usage_no_dictionary'' 6,
      charge (norm_token (st_certification_criticality t) \<in> {''high'', ''critical''} \<and> st_active_dq_rules_count t \<le> 0)
        ''critical_without_dq'' 8]"

definition operational_component :: "int \<Rightarrow> scored_table \<Rightarrow> int \<times> (string \<times> int) list" where
  "operational_component high_usage t =
     (let (score, penalties) = fold (\<lambda>c s. c s) (operational_charges high_usage t) (100, []) in (clamp score, penalties))"

record trust_score_evaluation =
  te_score :: int
  te_label :: string
  te_tone :: string
  te_operational_score :: int
  te_readiness_score :: int
  te_governance_score :: int
  te_base_score :: int
  te_penalties :: "(string \<times> int) list"
  te_adjustments :: "(string \<times> string \<times> int) list"

text \<open>\<open>int(round(readiness * 0.35 + governance * 0.25 + operational * 0.40))\<close>.\<close>

definition trust_base :: "int \<Rightarrow> int \<Rightarrow> int \<Rightarrow> int" where
  "trust_base ready governance operational =
     py_round (fl (fl (fl (of_int ready * fl (35 / 100)) + fl (of_int governance * fl (25 / 100)))
                   + fl (of_int operational * fl (40 / 100))))"

definition build_trust_score ::
  "int \<Rightarrow> int \<Rightarrow> int \<Rightarrow> (string \<times> int) list \<Rightarrow> (string \<times> string \<times> int) list \<Rightarrow> trust_score_evaluation" where
  "build_trust_score ready governance operational penalties adjustments =
     (let base = trust_base ready governance operational;
          score = clamp (base + sum_list (map (snd \<circ> snd) adjustments))
      in \<lparr>te_score = score, te_label = fst (trust_score_label score), te_tone = snd (trust_score_label score),
          te_operational_score = operational, te_readiness_score = ready, te_governance_score = governance,
          te_base_score = base, te_penalties = penalties, te_adjustments = adjustments\<rparr>)"

definition high_usage_threshold :: "governance_settings \<Rightarrow> int" where
  "high_usage_threshold gs = (let n = gs_high_usage_click_threshold gs in max (if n = 0 then 20 else n) 1)"

definition build_trust_score_for_profile :: "governance_settings \<Rightarrow> instant \<Rightarrow> scored_table \<Rightarrow> trust_score_evaluation res" where
  "build_trust_score_for_profile gs now t =
     res_bind (build_governance_score_for_profile gs now t) (\<lambda>governance.
       let (operational, penalties) = operational_component (high_usage_threshold gs) t
       in Inr (build_trust_score (profile_readiness_score t) (gv_score governance) operational penalties (trust_adjustments gs t)))"

section \<open>Risk\<close>

definition risk_level :: "int \<Rightarrow> string" where
  "risk_level score = (if score \<ge> 75 then ''critical'' else if score \<ge> 50 then ''high''
     else if score \<ge> 25 then ''moderate'' else ''low'')"

definition risk_label :: "int \<Rightarrow> string" where
  "risk_label score = (let l = risk_level score in
     if l = ''low'' then ''Baixo'' else if l = ''moderate'' then ''Moderado'' else if l = ''high'' then ''Alto'' else ''Critico'')"

definition risk_tone :: "int \<Rightarrow> string" where
  "risk_tone score = (let l = risk_level score in
     if l = ''low'' then ''neutral'' else if l = ''moderate'' then ''warning'' else if l = ''high'' then ''accent'' else ''danger'')"

definition risk_points :: "scored_table \<Rightarrow> string \<Rightarrow> string \<Rightarrow> int \<Rightarrow> string option \<Rightarrow> int" where
  "risk_points t severity origin trust_score sla_status =
     max 0 (min 100 (100 - max trust_score 0))
     + (if sla_status = Some ''overdue'' then 18 else if sla_status = Some ''due_soon'' then 10 else 0)
     + (if severity = ''critical'' then 18 else if severity = ''high'' then 12 else if severity = ''medium'' then 6 else 0)
     + (if origin \<in> {''incidents'', ''quality'', ''operations''} then 8 else 0)
     + (if st_critical_open_incidents t > 0 then 12 else if st_open_incidents t > 0 then 6 else 0)
     + (if \<not> st_owner_defined t then 8 else 0)
     + (if \<not> st_classification_defined t then 4 + (if st_search_clicks_30d t \<ge> 20 then 4 else 0) else 0)
     + (if \<not> st_dictionary_complete t \<and> st_search_clicks_30d t \<ge> 20 then 6 else 0)
     + (if \<not> st_sla_defined t then 6 else 0)
     + (if st_active_dq_violation t then 10 else 0)"

definition risk_components :: "scored_table \<Rightarrow> string \<Rightarrow> string \<Rightarrow> int \<Rightarrow> string option \<Rightarrow> string list" where
  "risk_components t severity origin trust_score sla_status =
     (let add = (\<lambda>b s. if b then [s] else []) in
      [''Trust '' @ (if trust_score < 0 then ''-'' @ int_str (- trust_score) else int_str trust_score)]
      @ (if sla_status = Some ''overdue'' then [''SLA fora do prazo'']
         else add (sla_status = Some ''due_soon'') ''SLA proximo do vencimento'')
      @ (if severity = ''critical'' then [''Severidade critica''] else add (severity = ''high'') ''Severidade alta'')
      @ (if origin = ''incidents'' then [''Origem Incidentes''] else if origin = ''quality'' then [''Origem Qualidade'']
         else add (origin = ''operations'') ''Origem Operacao'')
      @ (if st_critical_open_incidents t > 0 then [''Incidente critico aberto'']
         else add (st_open_incidents t > 0) ''Incidentes abertos'')
      @ add (\<not> st_owner_defined t) ''Owner ausente''
      @ (if \<not> st_classification_defined t
         then [''Classificacao ausente''] @ add (st_search_clicks_30d t \<ge> 20) ''Sem classificacao com alto uso'' else [])
      @ add (\<not> st_dictionary_complete t \<and> st_search_clicks_30d t \<ge> 20) ''Sem dicionario com alto uso''
      @ add (\<not> st_sla_defined t) ''SLA ausente''
      @ add (st_active_dq_violation t) ''Violacao ativa de DQ'')"

record risk_payload =
  rp_risk_score :: int
  rp_risk_label :: string
  rp_risk_tone :: string
  rp_risk_components :: "string list"

definition build_risk_payload :: "scored_table \<Rightarrow> string \<Rightarrow> string \<Rightarrow> int \<Rightarrow> string option \<Rightarrow> risk_payload" where
  "build_risk_payload t severity origin trust_score sla_status =
     (let score = max 0 (min 100 (risk_points t severity origin trust_score sla_status)) in
      \<lparr>rp_risk_score = score, rp_risk_label = risk_label score, rp_risk_tone = risk_tone score,
       rp_risk_components = risk_components t severity origin trust_score sla_status\<rparr>)"

section \<open>Priority\<close>

definition has_sensitive_governance_risk :: "scored_table \<Rightarrow> bool" where
  "has_sensitive_governance_risk t =
     (or_empty (st_sensitivity_level t) \<in> {''confidential'', ''restricted'', ''personal_data''}
      \<and> (\<not> st_owner_defined t \<or> \<not> st_dictionary_complete t \<or> st_tags_count t \<le> 0 \<or> \<not> st_review_recent t))"

text \<open>Key, points and whether it applies.\<close>

definition build_score_factors :: "instant \<Rightarrow> scored_table \<Rightarrow> int \<Rightarrow> int \<Rightarrow> (string \<times> int \<times> bool) list" where
  "build_score_factors now t recent_incidents recent_occurrences =
     [(''critical_incident'', 35, st_critical_open_incidents t > 0),
      (''low_dq'', 25, (case st_dq_score t of None \<Rightarrow> False | Some d \<Rightarrow> d < 70)),
      (''missing_owner'', 20, \<not> st_owner_defined t),
      (''missing_dictionary'', 15, \<not> st_dictionary_complete t),
      (''eligible_not_certified'', 10,
        eligible_for_certification t \<and> resolve_certification_status_for_profile now t \<noteq> ''certified''),
      (''sensitive_governance_gap'', 10, has_sensitive_governance_risk t),
      (''recurring_incidents'', 5, recent_incidents \<ge> 2 \<or> recent_occurrences \<ge> 3)]"

definition compute_priority_score :: "instant \<Rightarrow> scored_table \<Rightarrow> int \<Rightarrow> int \<Rightarrow> int" where
  "compute_priority_score now t recent_incidents recent_occurrences =
     max 0 (min 100 (sum_list (map (fst \<circ> snd) (filter (snd \<circ> snd)
       (build_score_factors now t recent_incidents recent_occurrences)))))"

definition impact_score :: "int \<Rightarrow> int \<Rightarrow> int \<Rightarrow> int \<Rightarrow> rat" where
  "impact_score dashboards users upstream downstream =
     (let dashboard_factor = fl (of_int (min (max dashboards 0) 20) * fl (35 / 1000));
          user_factor = fl (of_int (min (max users 0) 50) * fl (1 / 100));
          lineage_factor = fl (of_int (min (max upstream 0 + max downstream 0) 30) * fl (12 / 1000))
      in min (fl (22 / 10)) (fl (fl (fl (1 + dashboard_factor) + user_factor) + lineage_factor)))"

definition freshness_factor :: "rat option \<Rightarrow> rat" where
  "freshness_factor s = (case s of None \<Rightarrow> 1
     | Some s \<Rightarrow> if s \<ge> 86400 then fl (125 / 100) else if s \<ge> 21600 then fl (112 / 100) else 1)"

definition dq_factor :: "rat option \<Rightarrow> rat" where
  "dq_factor d = (case d of None \<Rightarrow> fl (108 / 100)
     | Some d \<Rightarrow> if d < 70 then fl (125 / 100) else if d < 90 then fl (11 / 10) else 1)"

definition compute_final_priority_score :: "rat \<Rightarrow> int \<Rightarrow> int \<Rightarrow> int \<Rightarrow> int \<Rightarrow> rat option \<Rightarrow> rat option \<Rightarrow> int" where
  "compute_final_priority_score risk dashboards users upstream downstream freshness dq =
     (let priority = fl (fl (fl (max risk 0 * impact_score dashboards users upstream downstream) * freshness_factor freshness)
                         * dq_factor dq)
      in max 0 (min 100 (py_round priority)))"

definition compute_profile_priority_score :: "scored_table \<Rightarrow> rat \<Rightarrow> int \<Rightarrow> int option \<Rightarrow> int \<Rightarrow> int \<Rightarrow> int" where
  "compute_profile_priority_score t risk dashboards users upstream downstream =
     compute_final_priority_score risk dashboards (case users of None \<Rightarrow> st_search_clicks_30d t | Some u \<Rightarrow> u) upstream downstream
       (map_option of_int (st_freshness_seconds t)) (st_dq_score t)"

definition recommended_actions :: "instant \<Rightarrow> scored_table \<Rightarrow> int \<Rightarrow> string list" where
  "recommended_actions now t recent_incidents =
     (let add = (\<lambda>b s. if b then [s] else []) in
      add (\<not> st_owner_defined t) ''Definir owner responsavel pelo ativo''
      @ add (\<not> st_dictionary_complete t) ''Completar o dicionario de dados das colunas''
      @ add (st_tags_count t \<le> 0) ''Aplicar tags relevantes para facilitar descoberta e gestao''
      @ (case st_dq_score t of None \<Rightarrow> [''Executar ou revisar monitoramento de Data Quality'']
         | Some d \<Rightarrow> add (d < 70) ''Corrigir regras e causas-raiz da nota baixa de Data Quality'')
      @ add (st_open_incidents t > 0) ''Tratar incidentes em aberto vinculados ao ativo''
      @ add (eligible_for_certification t \<and> resolve_certification_status_for_profile now t \<noteq> ''certified'')
          ''Revisar certificacao do ativo''
      @ add (has_sensitive_governance_risk t) ''Revisar privacidade, sensibilidade e controles de acesso''
      @ add (recent_incidents \<ge> 2) ''Investigar reincidencia operacional e reforcar monitoracao''
      @ add (\<not> st_review_recent t) ''Atualizar revisao de governanca do ativo'')"

section \<open>Trust and priority in floating point\<close>

lemmas fl_nonnegs = fl_nonneg mult_nonneg_nonneg add_nonneg_nonneg

lemma trust_base_mono:
  assumes "0 \<le> r" "r \<le> r'" "0 \<le> g" "g \<le> g'" "0 \<le> k" "k \<le> k'"
  shows "trust_base r g k \<le> trust_base r' g' k'"
  unfolding trust_base_def
  by (intro py_round_mono fl_mono add_mono mult_right_mono fl_nonnegs) (use assms in simp_all)

lemma trust_base_ends: "trust_base 0 0 0 = 0" "trust_base 100 100 100 = 100"
  by code_simp+

lemma trust_base_bounds:
  assumes "0 \<le> r" "r \<le> 100" "0 \<le> g" "g \<le> 100" "0 \<le> k" "k \<le> 100"
  shows "0 \<le> trust_base r g k" "trust_base r g k \<le> 100"
  using trust_base_mono[of 0 r 0 g 0 k] trust_base_mono[of r 100 g 100 k 100] assms by (simp_all add: trust_base_ends)

text \<open>The trust score of a table lies between 0 and 100 and never falls when its readiness, its governance score or
  its operational score rises, in spite of the rounding of every floating point operation; without adjustments it is the
  rounded mean itself.\<close>

theorem trust_score_monotone:
  assumes "0 \<le> r" "r \<le> r'" "r' \<le> 100" "0 \<le> g" "g \<le> g'" "g' \<le> 100" "0 \<le> k" "k \<le> k'" "k' \<le> 100"
  shows "0 \<le> te_score (build_trust_score r g k ps adj)
    \<and> te_score (build_trust_score r g k ps adj) \<le> te_score (build_trust_score r' g' k' ps' adj)
    \<and> te_score (build_trust_score r' g' k' ps' adj) \<le> 100
    \<and> te_score (build_trust_score r g k ps []) = trust_base r g k"
  using trust_base_mono[of r r' g g' k k'] trust_base_bounds[of r g k] assms
  by (simp add: build_trust_score_def Let_def clamp_def)

lemma impact_at_least_one: "1 \<le> impact_score d u up dn"
proof -
  have one: "1 \<le> fl (x + y)" if "1 \<le> x" "0 \<le> y" for x y
    using fl_ge[of 1 "x + y"] that by simp
  have parts: "0 \<le> fl (of_int (min (max d 0) 20) * fl (35 / 1000))" "0 \<le> fl (of_int (min (max u 0) 50) * fl (1 / 100))"
    "0 \<le> fl (of_int (min (max up 0 + max dn 0) 30) * fl (12 / 1000))"
    by (intro fl_nonnegs; simp)+
  have "1 \<le> fl (22 / 10)" using fl_ge[of 1 "22 / 10"] by simp
  then show ?thesis unfolding impact_score_def Let_def by (intro min.boundedI one parts) simp_all
qed

lemma factors_at_least_one: "1 \<le> freshness_factor f" "1 \<le> dq_factor q"
proof -
  have "1 \<le> fl c" if "1 \<le> c" for c using fl_ge[of 1 c] that by simp
  then show "1 \<le> freshness_factor f" "1 \<le> dq_factor q"
    by (simp_all add: freshness_factor_def dq_factor_def split: option.split)
qed

definition raw_priority :: "rat \<Rightarrow> rat \<Rightarrow> rat \<Rightarrow> rat \<Rightarrow> rat" where
  "raw_priority r i f q = fl (fl (fl (r * i) * f) * q)"

lemma raw_priority_mono:
  assumes "0 \<le> r" "r \<le> r'" "1 \<le> i" "1 \<le> f" "1 \<le> q"
  shows "raw_priority r i f q \<le> raw_priority r' i f q"
  unfolding raw_priority_def
  by (intro fl_mono mult_right_mono fl_nonnegs) (use assms in simp_all)

lemma raw_priority_ge:
  assumes "0 \<le> n" "n < 2 ^ 53" "of_int n \<le> r" "1 \<le> i" "1 \<le> f" "1 \<le> q"
  shows "of_int n \<le> raw_priority r i f q"
proof -
  have step: "of_int n \<le> fl (x * c)" if "of_int n \<le> x" "1 \<le> c" for x c
  proof (rule fl_ge[OF assms(1,2)])
    have "0 \<le> x" using that(1) assms(1) by (meson of_int_0_le_iff order.trans)
    then have "x * 1 \<le> x * c" using that(2) by (intro mult_left_mono)
    with that(1) show "of_int n \<le> x * c" by simp
  qed
  show ?thesis unfolding raw_priority_def by (intro step assms)
qed

text \<open>The final priority of a table lies between 0 and 100, never falls when its risk rises, and its use, its age and
  its quality only ever raise it: it is at least every whole number that its risk reaches, up to 100.\<close>

theorem priority_at_least_risk:
  assumes "0 \<le> r" and "r \<le> r'" and "0 \<le> n" and "n \<le> 100" and "of_int n \<le> r"
  shows "n \<le> compute_final_priority_score r d u up dn f q
    \<and> compute_final_priority_score r d u up dn f q \<le> compute_final_priority_score r' d u up dn f q
    \<and> compute_final_priority_score r' d u up dn f q \<le> 100"
proof -
  let ?p = "\<lambda>r. raw_priority r (impact_score d u up dn) (freshness_factor f) (dq_factor q)"
  have score: "compute_final_priority_score x d u up dn f q = max 0 (min 100 (py_round (?p x)))" if "0 \<le> x" for x
    using that by (simp add: compute_final_priority_score_def raw_priority_def Let_def max_absorb1)
  have "of_int n \<le> ?p r" using assms by (intro raw_priority_ge impact_at_least_one factors_at_least_one) simp_all
  then have "n \<le> py_round (?p r)" by (rule py_round_ge)
  moreover have "py_round (?p r) \<le> py_round (?p r')"
    by (intro py_round_mono raw_priority_mono impact_at_least_one factors_at_least_one assms)
  ultimately show ?thesis using assms by (simp add: score)
qed

section \<open>The operational score\<close>

definition balanced :: "int \<times> (string \<times> int) list \<Rightarrow> bool" where
  "balanced s \<longleftrightarrow> fst s + sum_list (map snd (snd s)) = 100 \<and> 0 \<le> sum_list (map snd (snd s))"

lemma charge_balanced: "balanced s \<Longrightarrow> 0 \<le> n \<Longrightarrow> balanced (charge b k n s)"
  by (simp add: balanced_def charge_def)

lemma charges_balanced: "c \<in> set (operational_charges h t) \<Longrightarrow> balanced s \<Longrightarrow> balanced (c s)"
  by (auto simp: operational_charges_def dq_charge_def freshness_charge_def charge_balanced split: option.splits)

lemma fold_balanced: "(\<And>c s. c \<in> set cs \<Longrightarrow> balanced s \<Longrightarrow> balanced (c s)) \<Longrightarrow> balanced s \<Longrightarrow> balanced (fold (\<lambda>c s. c s) cs s)"
  by (induction cs arbitrary: s) simp_all

text \<open>The operational score of a table is what the listed penalties leave of 100, never below 0.\<close>

theorem operational_score_is_penalties:
  "fst (operational_component h t) = max 0 (100 - sum_list (map snd (snd (operational_component h t))))
   \<and> fst (operational_component h t) \<le> 100"
proof -
  let ?r = "fold (\<lambda>c s. c s) (operational_charges h t) (100, [])"
  have "balanced ?r" by (rule fold_balanced, erule (1) charges_balanced) (simp add: balanced_def)
  then have r: "fst ?r = 100 - sum_list (map snd (snd ?r))" "0 \<le> sum_list (map snd (snd ?r))"
    by (simp_all only: balanced_def) linarith
  have "operational_component h t = (clamp (fst ?r), snd ?r)" by (simp add: operational_component_def split: prod.split)
  then show ?thesis by (simp only: fst_conv snd_conv r(1)) (use r(2) in \<open>simp add: clamp_def\<close>)
qed

section \<open>The governance score\<close>

lemma normalized_weight_Inr:
  "normalized_weight raw kv = Inr p \<Longrightarrow> fst p = fst kv \<and> (0 \<le> snd kv \<longrightarrow> 0 \<le> snd p)"
  by (cases "dict_get raw (fst kv)") (auto simp: normalized_weight_def res_bind_Inr_iff split: option.splits)

lemma default_weights_ok:
  "distinct (map fst DEFAULT_GOVERNANCE_SCORE_WEIGHTS)" "sum_list (map snd DEFAULT_GOVERNANCE_SCORE_WEIGHTS) = 100"
  "kv \<in> set DEFAULT_GOVERNANCE_SCORE_WEIGHTS \<Longrightarrow> 0 \<le> snd kv"
  by (auto simp: DEFAULT_GOVERNANCE_SCORE_WEIGHTS_def)

text \<open>Weights that the score uses: one for every key, none negative, 100 in all.\<close>

definition weights_ok :: "(string \<times> int) list \<Rightarrow> bool" where
  "weights_ok ws \<longleftrightarrow> map fst ws = map fst DEFAULT_GOVERNANCE_SCORE_WEIGHTS \<and> sum_list (map snd ws) = 100 \<and> (\<forall>kv\<in>set ws. 0 \<le> snd kv)"

lemma res_map_weights:
  "res_map (normalized_weight raw) ws = Inr vs \<Longrightarrow> \<forall>kv\<in>set ws. 0 \<le> snd kv
     \<Longrightarrow> map fst vs = map fst ws \<and> (\<forall>kv\<in>set vs. 0 \<le> snd kv)"
proof (induction ws arbitrary: vs)
  case (Cons w ws)
  then obtain v us where v: "normalized_weight raw w = Inr v" and us: "res_map (normalized_weight raw) ws = Inr us" and vs: "vs = v # us"
    by (auto simp: res_bind_Inr_iff)
  show ?case unfolding vs using Cons.IH[OF us] normalized_weight_Inr[OF v] Cons.prems(2) by simp
qed simp

lemma normalized_weights_ok:
  assumes "normalize_governance_score_weights raw = Inr ws"
  shows "weights_ok ws"
proof (cases "ws = DEFAULT_GOVERNANCE_SCORE_WEIGHTS")
  case True
  then show ?thesis using default_weights_ok by (auto simp: weights_ok_def)
next
  case False
  then obtain raw' where "res_map (normalized_weight raw') DEFAULT_GOVERNANCE_SCORE_WEIGHTS = Inr ws" "sum_list (map snd ws) = 100"
    using assms by (auto simp: normalize_governance_score_weights_def res_bind_Inr_iff split: option.splits if_splits)
  then show ?thesis using res_map_weights default_weights_ok(3) unfolding weights_ok_def by blast
qed

lemma factor_simps [simp]:
  "sf_key (factor k m p) = k" "sf_max_points (factor k m p) = m" "sf_points (factor k m p) = max 0 (min p m)"
  "(sf_status (factor k m p) = ''met'') = (m \<le> max 0 (min p m))"
  by (auto simp: factor_def Let_def)

lemma governance_factors_shape:
  "\<exists>ps. governance_factors w g = map2 (\<lambda>k p. factor k (w k) p) (map fst DEFAULT_GOVERNANCE_SCORE_WEIGHTS) ps
     \<and> length ps = length DEFAULT_GOVERNANCE_SCORE_WEIGHTS"
  unfolding governance_factors_def Let_def DEFAULT_GOVERNANCE_SCORE_WEIGHTS_def
  by (rule exI[of _ "[_, _, _, _, _, _, _, _, _, _, _]"]) simp

lemma sum_points_bounds:
  fixes fs :: "score_factor list"
  assumes "\<forall>f\<in>set fs. 0 \<le> sf_points f \<and> sf_points f \<le> sf_max_points f"
  shows "0 \<le> sum_list (map sf_points fs)" "sum_list (map sf_points fs) \<le> sum_list (map sf_max_points fs)"
    "sum_list (map sf_points fs) = sum_list (map sf_max_points fs) \<longleftrightarrow> (\<forall>f\<in>set fs. sf_points f = sf_max_points f)"
  using assms by (induction fs) auto

lemma length_filter_all: "length (filter P xs) = length xs \<longleftrightarrow> (\<forall>x\<in>set xs. P x)"
proof (induction xs)
  case (Cons x xs)
  moreover have "length (filter P xs) \<noteq> Suc (length xs)" using length_filter_le[of P xs] by linarith
  ultimately show ?case by simp
qed simp

lemma weights_nonneg: "weights_ok ws \<Longrightarrow> k \<in> fst ` set DEFAULT_GOVERNANCE_SCORE_WEIGHTS \<Longrightarrow> 0 \<le> the (map_of ws k)"
proof -
  assume ok: "weights_ok ws" and "k \<in> fst ` set DEFAULT_GOVERNANCE_SCORE_WEIGHTS"
  then have "k \<in> fst ` set ws" unfolding weights_ok_def by (metis set_map)
  then obtain v where "map_of ws k = Some v" by (metis map_of_eq_None_iff not_None_eq)
  then have "(k, v) \<in> set ws" by (rule map_of_SomeD)
  with ok \<open>map_of ws k = Some v\<close> show ?thesis by (auto simp: weights_ok_def)
qed

lemma max_points_sum:
  assumes "weights_ok ws"
  shows "sum_list (map sf_max_points (governance_factors (\<lambda>k. the (map_of ws k)) g)) = 100"
proof -
  have keys: "map fst ws = map fst DEFAULT_GOVERNANCE_SCORE_WEIGHTS" using assms by (simp add: weights_ok_def)
  then have "distinct (map fst ws)" using default_weights_ok(1) by simp
  then have "map (\<lambda>k. the (map_of ws k)) (map fst ws) = map snd ws" by (auto simp: comp_def map_eq_conv) 
  moreover have "map sf_max_points (governance_factors w g) = map w (map fst DEFAULT_GOVERNANCE_SCORE_WEIGHTS)" for w
    by (simp add: governance_factors_def Let_def DEFAULT_GOVERNANCE_SCORE_WEIGHTS_def)
  ultimately show ?thesis using assms keys by (simp add: weights_ok_def)
qed

lemma governance_factor_bounds:
  assumes "weights_ok ws" and "f \<in> set (governance_factors (\<lambda>k. the (map_of ws k)) g)"
  shows "0 \<le> sf_points f \<and> sf_points f \<le> sf_max_points f \<and> (sf_status f = ''met'' \<longleftrightarrow> sf_points f = sf_max_points f)"
proof -
  have "0 \<le> the (map_of ws k)" if "k \<in> fst ` set DEFAULT_GOVERNANCE_SCORE_WEIGHTS" for k
    by (rule weights_nonneg[OF assms(1) that])
  moreover obtain k p where "f = factor k (the (map_of ws k)) p" "k \<in> fst ` set DEFAULT_GOVERNANCE_SCORE_WEIGHTS"
    using assms(2) governance_factors_shape[of "\<lambda>k. the (map_of ws k)" g] by (force simp: set_zip in_set_conv_nth)
  ultimately have "0 \<le> the (map_of ws k)" "f = factor k (the (map_of ws k)) p" by simp_all
  then show ?thesis by (auto simp: max_def min_def)
qed

text \<open>C25: Whatever weights are configured, a governance score lies between 0 and its maximum, which is always 100, and
  reaches it exactly when every factor is met.\<close>

theorem governance_score_bounds:
  assumes "build_governance_score weights g = Inr s"
  shows "0 \<le> gv_score s \<and> gv_score s \<le> gv_max_score s \<and> gv_max_score s = 100
    \<and> (gv_score s = 100 \<longleftrightarrow> gv_completed_factors s = gv_total_factors s)"
proof -
  obtain ws where ws: "normalize_governance_score_weights weights = Inr ws"
    using assms by (auto simp: build_governance_score_def res_bind_Inr_iff)
  have ok: "weights_ok ws" by (rule normalized_weights_ok[OF ws])
  let ?fs = "governance_factors (\<lambda>k. the (map_of ws k)) g"
  have bounds: "\<forall>f\<in>set ?fs. 0 \<le> sf_points f \<and> sf_points f \<le> sf_max_points f"
    using governance_factor_bounds[OF ok] by blast
  have "length (filter (\<lambda>f. sf_status f = ''met'') ?fs) = length ?fs \<longleftrightarrow> (\<forall>f\<in>set ?fs. sf_status f = ''met'')"
    by (rule length_filter_all)
  also have "\<dots> \<longleftrightarrow> (\<forall>f\<in>set ?fs. sf_points f = sf_max_points f)" using governance_factor_bounds[OF ok] by blast
  finally have met: "length (filter (\<lambda>f. sf_status f = ''met'') ?fs) = length ?fs
      \<longleftrightarrow> (\<forall>f\<in>set ?fs. sf_points f = sf_max_points f)" .
  have s: "s = score_of_factors ?fs" using assms ws by (simp add: build_governance_score_def)
  have "gv_score s = sum_list (map sf_points ?fs)" "gv_max_score s = sum_list (map sf_max_points ?fs)"
    "gv_completed_factors s = length (filter (\<lambda>f. sf_status f = ''met'') ?fs)" "gv_total_factors s = length ?fs"
    unfolding s score_of_factors_def Let_def by simp_all
  note s = this
  show ?thesis unfolding s met using sum_points_bounds[OF bounds] max_points_sum[OF ok, of g] by simp
qed

definition unmanaged :: "scored_table \<Rightarrow> bool" where
  "unmanaged t \<longleftrightarrow> \<not> st_owner_defined t \<and> st_data_owner_id t = None \<and> \<not> st_description_complete t \<and> \<not> st_dictionary_complete t
     \<and> st_tags_count t \<le> 0 \<and> st_terms_count t \<le> 0 \<and> st_total_columns t = 0 \<and> st_dq_score t = None \<and> \<not> st_review_recent t
     \<and> st_certification_status t = None \<and> st_certification_expires_at t = None \<and> \<not> sensitive_context t
     \<and> st_open_incidents t = 0 \<and> st_critical_open_incidents t = 0"

text \<open>A table that nobody owns, describes, tags or checks has 27 points: the review of an owner it does not have, of
  its privacy and of a certification it never had all count as up to date.\<close>

theorem unmanaged_reviews_current:
  assumes "unmanaged t" and "gs_score_weights gs = None"
  shows "\<exists>s. build_governance_score_for_profile gs now t = Inr s \<and> gv_score s = 27
    \<and> map sf_status (filter (\<lambda>f. sf_key f \<in> {''owner_review'', ''privacy_review'', ''certification_review''}) (gv_factors s))
        = [''met'', ''met'', ''met'']"
proof -
  have ready: "profile_readiness_score t = 12"
  proof -
    have "count_true
       [st_owner_defined t, st_description_complete t,
        st_total_columns t > 0 \<and> rounded_percent (st_documented_columns t) (st_total_columns t) \<ge> 80,
        st_tags_count t > 0, st_terms_count t > 0,
        (case st_dq_score t of None \<Rightarrow> False | Some d \<Rightarrow> d \<ge> 90),
        st_critical_open_incidents t = 0, st_review_recent t] = 1"
      using assms(1) by (simp add: unmanaged_def count_true_def)
    moreover have "rounded_percent 1 8 = 12" by code_simp
    ultimately show ?thesis by (simp only: profile_readiness_score_def)
  qed
  have "normalized_workflow_status None = ''not_eligible''" by code_simp
  then have status: "resolve_certification_status_for_profile now t = ''not_eligible''"
    using assms(1) by (simp add: resolve_certification_status_for_profile_def resolve_certification_status_def Let_def ready
        as_cert_table_def unmanaged_def past_due_def)
  have "profile_inputs gs now t = \<lparr>gi_owner_defined = False, gi_table_description_complete = False,
      gi_column_description_complete = False, gi_tags_count = st_tags_count t, gi_terms_count = st_terms_count t,
      gi_dq_score = None, gi_certification_status = ''not_eligible'', gi_eligible_for_certification = False,
      gi_open_incidents = 0, gi_critical_open_incidents = 0, gi_owner_review_current = True,
      gi_privacy_review_current = True, gi_certification_review_current = True\<rparr>"
    using assms(1) by (simp add: profile_inputs_def status unmanaged_def eligible_for_certification_def ready
        owner_review_due_def privacy_review_due_def certification_review_due_def)
  then show ?thesis using assms
    by (simp add: build_governance_score_for_profile_def build_governance_score_def normalize_governance_score_weights_def
        score_of_factors_def governance_factors_def DEFAULT_GOVERNANCE_SCORE_WEIGHTS_def unmanaged_def Let_def
        dq_points_def certification_points_def incident_points_def factor_def)
qed

section \<open>Witnesses\<close>

definition demo_scored :: scored_table where
  "demo_scored =
     \<lparr>st_owner_defined = False, st_description_complete = False, st_dictionary_complete = False,
      st_classification_defined = False, st_tags_count = 0, st_terms_count = 0, st_total_columns = 0,
      st_documented_columns = 0, st_certification_status = None, st_certification_criticality = None,
      st_certification_decided_at = None, st_certification_review_at = None, st_certification_expires_at = None,
      st_review_recent = False, st_dq_score = None, st_freshness_seconds = None, st_open_incidents = 0,
      st_critical_open_incidents = 0, st_active_dq_violation = False, st_data_owner_id = None, st_domain_name = None,
      st_sensitivity_level = None, st_has_personal_data = False, st_has_sensitive_personal_data = False,
      st_owner_reviewed_at = None, st_privacy_reviewed_at = None, st_search_clicks_30d = 0, st_active_dq_rules_count = 0,
      st_recent_dq_failure_runs_30d = 0, st_sla_defined = False\<rparr>"

definition demo_governance_settings :: governance_settings where
  "demo_governance_settings =
     \<lparr>gs_owner_review_interval_days = 90, gs_privacy_review_interval_days = 180,
      gs_sensitive_privacy_review_interval_days = 90, gs_certification_review_interval_days = 180, gs_score_weights = None,
      gs_domain_adjustments = [], gs_criticality_adjustments = [], gs_high_usage_click_threshold = 20\<rparr>"

lemma unmanaged_reviews_current_witness:
  "\<exists>s. build_governance_score_for_profile demo_governance_settings 0 demo_scored = Inr s \<and> gv_score s = 27"
proof -
  have "unmanaged demo_scored" by (simp add: unmanaged_def demo_scored_def sensitive_context_def str_true_def)
  from unmanaged_reviews_current[OF this, of demo_governance_settings 0] show ?thesis
    by (auto simp: demo_governance_settings_def)
qed

lemma governance_score_bounds_witness:
  "\<exists>s. build_governance_score None (profile_inputs demo_governance_settings 0 demo_scored) = Inr s \<and> gv_score s \<le> 100"
proof -
  obtain s where s: "build_governance_score None (profile_inputs demo_governance_settings 0 demo_scored) = Inr s"
    by (simp add: build_governance_score_def normalize_governance_score_weights_def)
  with governance_score_bounds[OF s] show ?thesis by auto
qed

lemma trust_score_monotone_witness: "te_score (build_trust_score 70 41 99 [] []) \<le> te_score (build_trust_score 73 41 99 [] [])"
  using trust_score_monotone[of 70 73 41 41 99 99 "[]" "[]" "[]"] by simp

lemma priority_at_least_risk_witness: "70 \<le> compute_final_priority_score 70 3 4 1 2 (Some 90000) None"
  using priority_at_least_risk[of 70 70 70 3 4 1 2 "Some 90000" None] by simp

end
