(* ===== verification/Stewardship.thy ===== *)
theory Stewardship
  imports Guard Certification "HOL-Library.List_Lexorder"
begin

text \<open>
  Stewardship requests: \<open>features/stewardship/workflow.py\<close> and the routes of \<open>api/stewardship.py\<close>.  A request proposes a
  change to a table; an approver decides, and an approval applies the change (\<open>features/catalog/metadata_actions.py\<close>,
  \<open>features/catalog/taxonomy_actions.py\<close>, \<open>features/governance/queries.py\<close>).

  The value that a table had when a request was made is kept for display only and is left out, as are the audit rows, the
  notifications, which ignore every exception, and the tags derived from a changed table.  The display name of a user is
  the name, or the address (\<open>full_name\<close> is not in the rows).
\<close>

section \<open>Rows\<close>

record steward_table =
  sw_cert :: cert_table
  sw_owner_email :: "string option"
  sw_owner_reviewed_by_user_id :: "int option"
  sw_owner_reviewed_at :: "instant option"
  sw_privacy_reviewed_by_user_id :: "int option"
  sw_domain_name :: "string option"
  sw_term_ids :: "int list"

definition sw_id :: "steward_table \<Rightarrow> int" where
  "sw_id t = ct_id (sw_cert t)"

record steward_owner_row =
  do_id :: int
  do_name :: string
  do_email :: string
  do_area :: "string option"

datatype proposed_value =
    Proposed_description string
  | Proposed_owner int
  | Proposed_terms "int list"
  | Proposed_review
  | Proposed_certification

record steward_request =
  sr_id :: int
  sr_table_id :: "int option"
  sr_request_type :: string
  sr_status :: string
  sr_request_origin :: string
  sr_requested_by_user_id :: "int option"
  sr_approver_user_id :: "int option"
  sr_decided_by_user_id :: "int option"
  sr_requester_comment :: "string option"
  sr_decision_comment :: "string option"
  sr_proposed :: proposed_value
  sr_approver_source :: string
  sr_assignment_rule :: string
  sr_suggested_approver_user_id :: "int option"
  sr_created_at :: instant
  sr_updated_at :: instant
  sr_decided_at :: "instant option"

record steward_event =
  se_request_id :: int
  se_event_type :: string
  se_actor_user_id :: "int option"
  se_comment :: "string option"

record steward_store =
  ss_tables :: "steward_table list"
  ss_owners :: "steward_owner_row list"
  ss_users :: "user_row list"
  ss_term_ids :: "int list"
  ss_requests :: "steward_request list"
  ss_next_request :: int
  ss_events :: "steward_event list"

record assignment_rule =
  ar_key :: string
  ar_request_type :: string
  ar_domain_name :: "string option"
  ar_owner_area :: "string option"
  ar_approver_user_id :: int
  ar_priority :: int
  ar_is_active :: bool

text \<open>What the operations read besides: the assignment rules and the service level of the settings, the rows that the
  certification of a table depends on, and its operational signal.\<close>

record steward_env =
  sv_rules :: "assignment_rule list"
  sv_certification_sla_days :: int
  sv_db :: cert_db
  sv_operational :: bool

definition REQUEST_TYPES :: "string list" where
  "REQUEST_TYPES = [''table_description'', ''owner_assignment'', ''glossary_terms'', ''certification_review'',
     ''owner_review'', ''privacy_review'']"

definition find_steward_table :: "steward_store \<Rightarrow> int \<Rightarrow> steward_table option" where
  "find_steward_table st i = List.find (\<lambda>t. sw_id t = i) (ss_tables st)"

definition find_owner :: "steward_store \<Rightarrow> int \<Rightarrow> steward_owner_row option" where
  "find_owner st i = List.find (\<lambda>o'. do_id o' = i) (ss_owners st)"

definition find_user :: "steward_store \<Rightarrow> int \<Rightarrow> user_row option" where
  "find_user st i = List.find (\<lambda>u. user_id u = i) (ss_users st)"

definition find_request :: "steward_store \<Rightarrow> int \<Rightarrow> steward_request option" where
  "find_request st i = List.find (\<lambda>r. sr_id r = i) (ss_requests st)"

definition put_steward_table :: "steward_table \<Rightarrow> steward_store \<Rightarrow> steward_store" where
  "put_steward_table t st = st\<lparr>ss_tables := map (\<lambda>k. if sw_id k = sw_id t then t else k) (ss_tables st)\<rparr>"

definition put_steward_request :: "steward_request \<Rightarrow> steward_store \<Rightarrow> steward_store" where
  "put_steward_request r st = st\<lparr>ss_requests := map (\<lambda>k. if sr_id k = sr_id r then r else k) (ss_requests st)\<rparr>"

definition normalize_comment :: "string option \<Rightarrow> string option" where
  "normalize_comment v = or_none (py_strip (or_empty v))"

definition display_name :: "user_row \<Rightarrow> string" where
  "display_name u = or_else (or_empty (user_name u)) (user_email u)"

section \<open>Who is asked to approve\<close>

definition table_owner :: "steward_store \<Rightarrow> steward_table \<Rightarrow> steward_owner_row option" where
  "table_owner st t = Option.bind (ct_data_owner_id (sw_cert t)) (find_owner st)"

definition rule_applies :: "string \<Rightarrow> string \<Rightarrow> string \<Rightarrow> assignment_rule \<Rightarrow> bool" where
  "rule_applies request_type domain area r =
     (let rule_type = or_else (py_lower (py_strip (or_else (ar_request_type r) ''any''))) ''any'';
          rule_domain = py_strip (or_empty (ar_domain_name r));
          rule_area = py_strip (or_empty (ar_owner_area r))
      in ar_is_active r \<and> rule_type \<in> {''any'', request_type}
         \<and> (rule_domain = [] \<or> py_lower rule_domain = domain)
         \<and> (rule_area = [] \<or> py_lower rule_area = area))"

definition specificity :: "assignment_rule \<Rightarrow> int" where
  "specificity r =
     (if or_else (py_lower (py_strip (or_else (ar_request_type r) ''any''))) ''any'' \<noteq> ''any'' then 4 else 0)
     + (if py_strip (or_empty (ar_domain_name r)) \<noteq> [] then 2 else 0)
     + (if py_strip (or_empty (ar_owner_area r)) \<noteq> [] then 1 else 0)"

definition rule_priority :: "assignment_rule \<Rightarrow> int" where
  "rule_priority r = (if ar_priority r = 0 then 100 else ar_priority r)"

text \<open>Texts compare by their code points.\<close>

definition code_points :: "string \<Rightarrow> nat list" where
  "code_points s = map of_char s"

definition active_user :: "steward_store \<Rightarrow> int option \<Rightarrow> user_row option" where
  "active_user st i = (case Option.bind i (find_user st) of
     None \<Rightarrow> None | Some u \<Rightarrow> if user_is_active u then Some u else None)"

definition match_assignment_rule ::
  "steward_env \<Rightarrow> steward_store \<Rightarrow> steward_table \<Rightarrow> string \<Rightarrow> user_row option \<times> string" where
  "match_assignment_rule env st t request_type =
     (let domain = norm_token (sw_domain_name t);
          area = norm_token (Option.bind (table_owner st t) do_area);
          candidates = sort_key (\<lambda>r. (rule_priority r, - specificity r, code_points (ar_key r)))
            (filter (rule_applies request_type domain area) (sv_rules env));
          usable = filter (\<lambda>r. active_user st (Some (ar_approver_user_id r)) \<noteq> None) candidates
      in case usable of
           [] \<Rightarrow> (None, ''unassigned'')
         | r # _ \<Rightarrow>
             (active_user st (Some (ar_approver_user_id r)),
              if str_true (ar_domain_name r) \<and> str_true (ar_owner_area r) then ''domain_area_rule''
              else if str_true (ar_domain_name r) then ''domain_rule'' else ''area_rule''))"

definition recent_same_type :: "steward_store \<Rightarrow> steward_table \<Rightarrow> string \<Rightarrow> steward_request option" where
  "recent_same_type st t request_type =
     first_by (\<lambda>r. (Desc (sr_updated_at r), Desc (sr_id r)))
       (filter (\<lambda>r. sr_table_id r = Some (sw_id t) \<and> sr_request_type r = request_type
          \<and> sr_status r \<in> {''pending'', ''approved''}) (ss_requests st))"

definition match_user_by_email :: "steward_store \<Rightarrow> string option \<Rightarrow> user_row option" where
  "match_user_by_email st email =
     (let normalized = norm_token email in
      if normalized = [] then None
      else List.find (\<lambda>u. user_is_active u \<and> user_email u = normalized) (ss_users st))"

definition active_approver_candidates :: "steward_store \<Rightarrow> user_row list" where
  "active_approver_candidates st =
     filter (\<lambda>u. user_is_active u
       \<and> list_ex (\<lambda>r. role_name r \<in> {''admin'', ''stewardship'', ''data_owner''}) (user_roles u)) (ss_users st)"

definition approver_pending_load :: "steward_store \<Rightarrow> int \<Rightarrow> nat" where
  "approver_pending_load st i =
     length (filter (\<lambda>r. sr_status r = ''pending'' \<and> sr_approver_user_id r = Some i) (ss_requests st))"

definition or_user :: "user_row option \<times> string \<Rightarrow> user_row option \<times> string \<Rightarrow> user_row option \<times> string" where
  "or_user a b = (if fst a \<noteq> None then a else b)"

definition suggest_approver_for_request ::
  "steward_env \<Rightarrow> steward_store \<Rightarrow> steward_table \<Rightarrow> string \<Rightarrow> user_row option \<times> string" where
  "suggest_approver_for_request env st t request_type =
     (let recent = recent_same_type st t request_type;
          owner = match_user_by_email st (map_option do_email (table_owner st t))
      in or_user (match_assignment_rule env st t request_type)
        (or_user (active_user st (Option.bind recent sr_approver_user_id), ''previous_same_type'')
        (or_user (active_user st (Option.bind recent sr_decided_by_user_id), ''previous_same_type'')
        (or_user (if request_type \<in> {''table_description'', ''glossary_terms'', ''owner_review''} then owner else None,
                  ''table_owner_email'')
        (or_user (if request_type = ''privacy_review'' then active_user st (sw_privacy_reviewed_by_user_id t) else None,
                  ''privacy_reviewer'')
        (or_user (if request_type = ''certification_review'' then active_user st (ct_decided_by (sw_cert t)) else None,
                  ''certification_history'')
        (or_user (if request_type = ''certification_review'' then active_user st (ct_submitted_by (sw_cert t)) else None,
                  ''certification_history'')
        (or_user (if request_type = ''certification_review'' then owner else None, ''table_owner_email'')
          (case first_by (\<lambda>u. (approver_pending_load st (user_id u), code_points (py_lower (display_name u)), user_id u))
                 (active_approver_candidates st) of
             None \<Rightarrow> (None, ''unassigned'')
           | Some u \<Rightarrow> (Some u, ''least_loaded_editor''))))))))))"

section \<open>Service level\<close>

definition request_sla_days :: "steward_env option \<Rightarrow> string \<Rightarrow> int" where
  "request_sla_days env request_type =
     (case env of
        Some x \<Rightarrow> if request_type = ''certification_review'' then max (sv_certification_sla_days x) 1
                  else if request_type = ''owner_assignment'' then 5
                  else if request_type \<in> {''owner_review'', ''privacy_review''} then 3 else 7
      | None \<Rightarrow> if request_type = ''owner_assignment'' then 5
                else if request_type \<in> {''owner_review'', ''privacy_review''} then 3 else 7)"

record sla_payload =
  sl_aging_days :: int
  sl_sla_days :: int
  sl_due_at :: instant
  sl_status :: string

definition sla_payload_of :: "steward_env option \<Rightarrow> instant \<Rightarrow> string \<Rightarrow> instant \<Rightarrow> sla_payload" where
  "sla_payload_of env now request_type created =
     (let days = request_sla_days env request_type;
          due = created + days * one_day
      in \<lparr>sl_aging_days = max ((now - created) div one_day) 0, sl_sla_days = days, sl_due_at = due,
          sl_status = (if due < now then ''overdue'' else if due - now \<le> 2 * one_day then ''due_soon'' else ''within_sla'')\<rparr>)"

section \<open>Creating a request\<close>

record steward_in =
  si_table_id :: int
  si_request_type :: string
  si_description_manual :: "string option"
  si_data_owner_id :: "int option"
  si_term_ids :: "int list option"
  si_requester_comment :: "string option"
  si_approver_user_id :: "int option"
  si_request_origin :: "string option"

definition at_least_one :: "int option \<Rightarrow> bool" where
  "at_least_one v = (case v of None \<Rightarrow> True | Some i \<Rightarrow> i \<ge> 1)"

definition steward_in_ok :: "steward_in \<Rightarrow> bool" where
  "steward_in_ok p =
     (si_table_id p \<ge> 1 \<and> at_least_one (si_data_owner_id p) \<and> at_least_one (si_approver_user_id p)
      \<and> \<not> (py_strip (si_request_type p) = ''table_description'' \<and> py_strip (or_empty (si_description_manual p)) = [])
      \<and> \<not> (py_strip (si_request_type p) = ''owner_assignment'' \<and> si_data_owner_id p = None)
      \<and> \<not> (py_strip (si_request_type p) = ''glossary_terms'' \<and> si_term_ids p = None))"

definition sorted_ids :: "int list \<Rightarrow> int list" where
  "sorted_ids xs = sort (remdups xs)"

definition steward_db :: "steward_env \<Rightarrow> steward_store \<Rightarrow> cert_db" where
  "steward_db env st = (sv_db env)\<lparr>cd_term_count :=
     (\<lambda>i. case find_steward_table st i of None \<Rightarrow> 0 | Some t \<Rightarrow> length (sw_term_ids t))\<rparr>"

definition request_payload :: "steward_env \<Rightarrow> instant \<Rightarrow> steward_store \<Rightarrow> steward_table \<Rightarrow> steward_in \<Rightarrow> proposed_value res" where
  "request_payload env now st t p =
     (let request_type = py_strip (si_request_type p) in
      if request_type \<notin> set REQUEST_TYPES then http 422 ''Unsupported stewardship request type''
      else if request_type = ''table_description'' then
        (let d = py_strip (or_empty (si_description_manual p)) in
         if ct_description_manual (sw_cert t) = Some d then http 422 ''Description is already up to date''
         else Inr (Proposed_description d))
      else if request_type = ''owner_assignment'' then
        (case Option.bind (si_data_owner_id p) (find_owner st) of
           None \<Rightarrow> http 422 ''Data owner not found''
         | Some o' \<Rightarrow> if ct_data_owner_id (sw_cert t) = Some (do_id o')
                      then http 422 ''Owner is already assigned to this asset''
                      else Inr (Proposed_owner (do_id o')))
      else if request_type = ''certification_review'' then
        (if ev_status (certification_summary (steward_db env st) now (sv_operational env) (sw_cert t)) = ''in_review''
         then http 422 ''Certification review is already in progress'' else Inr Proposed_certification)
      else if request_type \<in> {''owner_review'', ''privacy_review''} then Inr Proposed_review
      else
        (let requested = sorted_ids (case si_term_ids p of None \<Rightarrow> [] | Some xs \<Rightarrow> xs) in
         if list_ex (\<lambda>i. i \<notin> set (ss_term_ids st)) requested then http 422 ''Unknown term_ids''
         else if sort (sw_term_ids t) = requested then http 422 ''Glossary terms are already up to date''
         else Inr (Proposed_terms requested)))"

definition add_steward_event :: "int \<Rightarrow> string \<Rightarrow> int option \<Rightarrow> string option \<Rightarrow> steward_store \<Rightarrow> steward_store" where
  "add_steward_event i event_type actor comment st =
     st\<lparr>ss_events := ss_events st @ [\<lparr>se_request_id = i, se_event_type = event_type, se_actor_user_id = actor, se_comment = comment\<rparr>]\<rparr>"

definition create_stewardship_request ::
  "steward_env \<Rightarrow> instant \<Rightarrow> user_row \<Rightarrow> steward_in \<Rightarrow> steward_store \<Rightarrow> (steward_store \<times> steward_request) res" where
  "create_stewardship_request env now user p st =
     (let request_type = py_strip (si_request_type p) in
      case find_steward_table st (si_table_id p) of
        None \<Rightarrow> http 404 ''Table not found''
      | Some t \<Rightarrow>
          if list_ex (\<lambda>r. sr_table_id r = Some (si_table_id p) \<and> sr_request_type r = request_type \<and> sr_status r = ''pending'')
               (ss_requests st)
          then http 409 ''There is already a pending request of this type for this asset''
          else res_bind (request_payload env now st t p) (\<lambda>proposed.
            let (suggested, rule) = suggest_approver_for_request env st t request_type;
                approver = (if si_approver_user_id p \<noteq> None then si_approver_user_id p else map_option user_id suggested);
                r = \<lparr>sr_id = ss_next_request st, sr_table_id = Some (sw_id t), sr_request_type = request_type,
                     sr_status = ''pending'',
                     sr_request_origin = or_else (py_strip (or_else (or_empty (si_request_origin p)) ''manual'')) ''manual'',
                     sr_requested_by_user_id = Some (user_id user), sr_approver_user_id = approver,
                     sr_decided_by_user_id = None, sr_requester_comment = normalize_comment (si_requester_comment p),
                     sr_decision_comment = None, sr_proposed = proposed,
                     sr_approver_source = (if si_approver_user_id p \<noteq> None then ''manual''
                       else if suggested \<noteq> None then ''suggested'' else ''unassigned''),
                     sr_assignment_rule = (if si_approver_user_id p \<noteq> None then ''manual'' else rule),
                     sr_suggested_approver_user_id = map_option user_id suggested,
                     sr_created_at = now, sr_updated_at = now, sr_decided_at = None\<rparr>
            in if approver \<noteq> None \<and> Option.bind approver (find_user st) = None
               then Inl (IntegrityError ''stewardship_requests_approver_user_id_fkey'')
               else Inr (add_steward_event (sr_id r) ''created'' (Some (user_id user)) (sr_requester_comment r)
                      (st\<lparr>ss_requests := ss_requests st @ [r], ss_next_request := ss_next_request st + 1\<rparr>), r)))"

section \<open>Deciding a request\<close>

text \<open>\<open>patch_table_with_audit\<close> with the two attributes a request can change; a new owner counts as reviewed.\<close>

definition shown_owner :: "steward_table \<Rightarrow> (int option \<times> string \<times> string option) option" where
  "shown_owner t =
     (let c = sw_cert t in
      if ct_data_owner_id c = None \<and> or_empty (ct_owner c) = [] \<and> or_empty (sw_owner_email t) = [] then None
      else Some (ct_data_owner_id c, or_else (or_empty (ct_owner c)) (or_else (or_empty (sw_owner_email t)) ''Sem owner''),
                 sw_owner_email t))"

text \<open>The flush of a changed row: an \<open>UPDATE\<close>, which also sets \<open>updated_at\<close> (\<open>onupdate\<close> of \<open>TimestampMixin\<close>), is sent
  only when a column has got another value; the terms are rows of a table of their own.  The clock of the data base
  is read as that of the request.\<close>

definition flush_table :: "instant \<Rightarrow> steward_table \<Rightarrow> steward_table \<Rightarrow> steward_table" where
  "flush_table now t t' =
     (if t'\<lparr>sw_term_ids := sw_term_ids t\<rparr> = t then t'
      else t'\<lparr>sw_cert := (sw_cert t')\<lparr>ct_updated_at := Some now\<rparr>\<rparr>)"

definition patch_description :: "instant \<Rightarrow> string \<Rightarrow> steward_table \<Rightarrow> steward_table" where
  "patch_description now d t =
     flush_table now t (t\<lparr>sw_cert := (sw_cert t)\<lparr>ct_description_manual := Some d\<rparr>\<rparr>)"

definition patch_owner :: "instant \<Rightarrow> int \<Rightarrow> steward_owner_row \<Rightarrow> steward_table \<Rightarrow> steward_table" where
  "patch_owner now actor o' t =
     (let t' = t\<lparr>sw_cert := (sw_cert t)\<lparr>ct_data_owner_id := Some (do_id o'), ct_owner := Some (do_name o')\<rparr>,
                sw_owner_email := Some (do_email o')\<rparr>
      in flush_table now t
           (if shown_owner t' \<noteq> shown_owner t
            then t'\<lparr>sw_owner_reviewed_by_user_id := Some actor, sw_owner_reviewed_at := Some now\<rparr> else t'))"

definition submit_certification :: "steward_env \<Rightarrow> instant \<Rightarrow> int \<Rightarrow> steward_request \<Rightarrow> steward_store \<Rightarrow> steward_table \<Rightarrow> steward_table res" where
  "submit_certification env now actor r st t =
     (let c = sw_cert t;
          notes = (if normalize_comment (sr_requester_comment r) \<noteq> None then normalize_comment (sr_requester_comment r) else ct_notes c);
          patch = \<lparr>cp_status = ''in_review'', cp_criticality = ct_criticality c,
                   cp_badges = (case ct_badges c of None \<Rightarrow> None | Some bs \<Rightarrow> if bs = [] then None else Some bs),
                   cp_notes = notes, cp_review_at = map_option Aware (ct_review_at c),
                   cp_expires_at = map_option Aware (ct_expires_at c)\<rparr>
      in res_bind (validate_certification_patch (steward_db env st) now c patch) (\<lambda>_.
           Inr (flush_table now t
             (t\<lparr>sw_cert := c\<lparr>ct_status := Some ''in_review'', ct_notes := notes, ct_submitted_by := Some actor,
                 ct_submitted_at := Some now, ct_decided_by := None, ct_decided_at := None\<rparr>\<rparr>))))"

definition mark_reviewed :: "instant \<Rightarrow> int \<Rightarrow> string \<Rightarrow> steward_table \<Rightarrow> steward_table" where
  "mark_reviewed now actor request_type t =
     flush_table now t
       (if request_type = ''owner_review''
        then t\<lparr>sw_owner_reviewed_by_user_id := Some actor, sw_owner_reviewed_at := Some now\<rparr>
        else t\<lparr>sw_privacy_reviewed_by_user_id := Some actor,
               sw_cert := (sw_cert t)\<lparr>ct_privacy_reviewed_at := Some now\<rparr>\<rparr>)"

definition apply_steward_request ::
  "steward_env \<Rightarrow> instant \<Rightarrow> int \<Rightarrow> steward_request \<Rightarrow> steward_store \<Rightarrow> steward_store res" where
  "apply_steward_request env now actor r st =
     (case sr_table_id r of
        None \<Rightarrow> http 409 ''This stewardship request is no longer linked to an active table''
      | Some i \<Rightarrow>
          (case find_steward_table st i of
             None \<Rightarrow> http 404 ''Table not found''
           | Some t \<Rightarrow>
               (case sr_proposed r of
                  Proposed_description d \<Rightarrow> Inr (put_steward_table (patch_description now d t) st)
                | Proposed_owner i \<Rightarrow>
                    (case find_owner st i of
                       None \<Rightarrow> http 422 ''Data owner not found''
                     | Some o' \<Rightarrow> Inr (put_steward_table (patch_owner now actor o' t) st))
                | Proposed_terms ids \<Rightarrow>
                    if list_ex (\<lambda>i. i \<notin> set (ss_term_ids st)) ids then http 400 ''Unknown term_ids''
                    else Inr (put_steward_table (t\<lparr>sw_term_ids :=
                      filter (\<lambda>i. i \<in> set ids) (sw_term_ids t) @ filter (\<lambda>i. i \<notin> set (sw_term_ids t)) (sorted_ids ids)\<rparr>) st)
                | Proposed_review \<Rightarrow>
                    Inr (put_steward_table (mark_reviewed now actor (sr_request_type r) t) st)
                | Proposed_certification \<Rightarrow>
                    res_bind (submit_certification env now actor r st t) (\<lambda>t'. Inr (put_steward_table t' st)))))"

definition decided_request :: "instant \<Rightarrow> int \<Rightarrow> string \<Rightarrow> string option \<Rightarrow> steward_request \<Rightarrow> steward_request" where
  "decided_request now actor decision comment r =
     r\<lparr>sr_status := decision, sr_decided_by_user_id := Some actor, sr_decision_comment := comment,
       sr_decided_at := Some now, sr_updated_at := now,
       sr_approver_user_id := (if sr_approver_user_id r = None then Some actor else sr_approver_user_id r)\<rparr>"

definition assigned_to_other :: "user_row \<Rightarrow> steward_request \<Rightarrow> bool" where
  "assigned_to_other actor r =
     (case sr_approver_user_id r of None \<Rightarrow> False | Some i \<Rightarrow> i \<noteq> 0 \<and> i \<noteq> user_id actor)"

definition decide_stewardship_request ::
  "steward_env \<Rightarrow> instant \<Rightarrow> user_row \<Rightarrow> int \<Rightarrow> string \<Rightarrow> string option \<Rightarrow> steward_store \<Rightarrow> steward_store res" where
  "decide_stewardship_request env now actor i decision comment st =
     (case find_request st i of
        None \<Rightarrow> http 404 ''Stewardship request not found''
      | Some r \<Rightarrow>
          if sr_status r \<noteq> ''pending'' then http 409 ''Only pending requests can be decided''
          else if assigned_to_other actor r \<and> \<not> list_ex (\<lambda>r. role_name r = ''admin'') (user_roles actor)
          then http 403 ''This request is assigned to another approver''
          else
            let c = normalize_comment comment in
            if decision = ''rejected'' \<and> c = None then http 422 ''Informe uma justificativa para rejeitar a solicitacao.''
            else res_bind (if decision = ''approved'' then apply_steward_request env now (user_id actor) r st else Inr st)
              (\<lambda>st'. Inr (add_steward_event i decision (Some (user_id actor)) c
                 (put_steward_request (decided_request now (user_id actor) decision c r) st'))))"

section \<open>Routes\<close>

definition create_request :: "steward_env \<Rightarrow> instant \<Rightarrow> user_row \<Rightarrow> steward_in \<Rightarrow> steward_store \<Rightarrow> (steward_store \<times> steward_request) res" where
  "create_request env now user p st =
     res_bind (require_roles [''admin'', ''stewardship'', ''data_owner''] user) (\<lambda>_.
       if \<not> steward_in_ok p then http 422 ''invalid body'' else create_stewardship_request env now user p st)"

definition approve_request :: "steward_env \<Rightarrow> instant \<Rightarrow> user_row \<Rightarrow> int \<Rightarrow> string option \<Rightarrow> steward_store \<Rightarrow> steward_store res" where
  "approve_request env now user i comment st =
     res_bind (require_permission ''stewardship:approve'' user) (\<lambda>_.
       decide_stewardship_request env now user i ''approved'' comment st)"

definition reject_request :: "steward_env \<Rightarrow> instant \<Rightarrow> user_row \<Rightarrow> int \<Rightarrow> string option \<Rightarrow> steward_store \<Rightarrow> steward_store res" where
  "reject_request env now user i comment st =
     res_bind (require_permission ''stewardship:reject'' user) (\<lambda>_.
       decide_stewardship_request env now user i ''rejected'' comment st)"

definition cancel_request :: "steward_env \<Rightarrow> instant \<Rightarrow> user_row \<Rightarrow> int \<Rightarrow> string option \<Rightarrow> steward_store \<Rightarrow> steward_store res" where
  "cancel_request env now user i comment st =
     res_bind (require_roles [''admin'', ''stewardship'', ''data_owner''] user) (\<lambda>_.
       decide_stewardship_request env now user i ''cancelled'' comment st)"

section \<open>Who decides\<close>

lemma find_requestD: "find_request st i = Some r \<Longrightarrow> r \<in> set (ss_requests st) \<and> sr_id r = i"
  by (auto simp: find_request_def find_Some_iff)

lemma find_tableD: "find_steward_table st i = Some t \<Longrightarrow> t \<in> set (ss_tables st) \<and> sw_id t = i"
  by (auto simp: find_steward_table_def find_Some_iff)

lemma decide_InrE:
  assumes "decide_stewardship_request env now actor i decision comment st = Inr st'"
  obtains r st1 where "find_request st i = Some r" "sr_status r = ''pending''"
    "\<not> assigned_to_other actor r \<or> list_ex (\<lambda>r. role_name r = ''admin'') (user_roles actor)"
    "decision = ''rejected'' \<Longrightarrow> normalize_comment comment \<noteq> None"
    "(if decision = ''approved'' then apply_steward_request env now (user_id actor) r st else Inr st) = Inr st1"
    "st' = add_steward_event i decision (Some (user_id actor)) (normalize_comment comment)
       (put_steward_request (decided_request now (user_id actor) decision (normalize_comment comment) r) st1)"
  using assms
  by (auto simp: decide_stewardship_request_def Let_def http_def res_bind_Inr_iff split: option.splits if_splits)

text \<open>What an approval makes of a table, column by column: the named columns get the proposed values, the others
  keep theirs, and \<open>updated_at\<close> is the time of the approval when a column has changed.\<close>

definition unstamped :: "steward_table \<Rightarrow> steward_table" where
  "unstamped t = t\<lparr>sw_cert := (sw_cert t)\<lparr>ct_updated_at := None\<rparr>, sw_term_ids := []\<rparr>"

definition realises ::
  "steward_store \<Rightarrow> instant \<Rightarrow> int \<Rightarrow> steward_request \<Rightarrow> steward_table \<Rightarrow> steward_table \<Rightarrow> bool" where
  "realises st now actor r t t' \<longleftrightarrow>
     (let c = sw_cert t; c' = sw_cert t' in
      (case sr_proposed r of
        Proposed_description d \<Rightarrow> ct_description_manual c' = Some d
          \<and> t' = t\<lparr>sw_cert := c\<lparr>ct_description_manual := ct_description_manual c', ct_updated_at := ct_updated_at c'\<rparr>\<rparr>
      | Proposed_owner i \<Rightarrow> ct_data_owner_id c' = Some i
          \<and> (\<exists>o'\<in>set (ss_owners st). do_id o' = i \<and> ct_owner c' = Some (do_name o') \<and> sw_owner_email t' = Some (do_email o'))
          \<and> t' = t\<lparr>sw_cert := c\<lparr>ct_data_owner_id := ct_data_owner_id c', ct_owner := ct_owner c',
                               ct_updated_at := ct_updated_at c'\<rparr>,
                  sw_owner_email := sw_owner_email t', sw_owner_reviewed_by_user_id := sw_owner_reviewed_by_user_id t',
                  sw_owner_reviewed_at := sw_owner_reviewed_at t'\<rparr>
      | Proposed_terms ids \<Rightarrow> set (sw_term_ids t') = set ids \<and> t' = t\<lparr>sw_term_ids := sw_term_ids t'\<rparr>
      | Proposed_review \<Rightarrow>
          (if sr_request_type r = ''owner_review''
           then sw_owner_reviewed_by_user_id t' = Some actor \<and> sw_owner_reviewed_at t' = Some now
             \<and> t' = t\<lparr>sw_cert := c\<lparr>ct_updated_at := ct_updated_at c'\<rparr>,
                     sw_owner_reviewed_by_user_id := Some actor, sw_owner_reviewed_at := Some now\<rparr>
           else sw_privacy_reviewed_by_user_id t' = Some actor \<and> ct_privacy_reviewed_at c' = Some now
             \<and> t' = t\<lparr>sw_cert := c\<lparr>ct_privacy_reviewed_at := Some now, ct_updated_at := ct_updated_at c'\<rparr>,
                     sw_privacy_reviewed_by_user_id := Some actor\<rparr>)
      | Proposed_certification \<Rightarrow> ct_status c' = Some ''in_review''
          \<and> ct_submitted_by c' = Some actor \<and> ct_submitted_at c' = Some now
          \<and> ct_decided_by c' = None \<and> ct_decided_at c' = None
          \<and> ct_notes c' = (if normalize_comment (sr_requester_comment r) = None then ct_notes c
                          else normalize_comment (sr_requester_comment r))
          \<and> t' = t\<lparr>sw_cert := c\<lparr>ct_status := ct_status c', ct_notes := ct_notes c', ct_submitted_by := ct_submitted_by c',
                  ct_submitted_at := ct_submitted_at c', ct_decided_by := None, ct_decided_at := None,
                  ct_updated_at := ct_updated_at c'\<rparr>\<rparr>)
      \<and> ct_updated_at c' = (if unstamped t' = unstamped t then ct_updated_at c else Some now))"

lemma unstamped_terms [simp]: "unstamped (t\<lparr>sw_term_ids := ids\<rparr>) = unstamped t"
  by (simp add: unstamped_def)

lemma flush_table_simps [simp]:
  "sw_id (flush_table now t t') = sw_id t'" "sw_term_ids (flush_table now t t') = sw_term_ids t'"
  "ct_status (sw_cert (flush_table now t t')) = ct_status (sw_cert t')"
  by (simp_all add: flush_table_def sw_id_def)

lemma unstamped_eq:
  assumes "ct_updated_at (sw_cert t') = ct_updated_at (sw_cert t)"
  shows "t'\<lparr>sw_term_ids := sw_term_ids t\<rparr> = t \<longleftrightarrow> unstamped t' = unstamped t"
  using assms
  by (cases t, cases t', cases "sw_cert t", cases "sw_cert t'") (simp add: unstamped_def, blast?)

lemma flush_cases:
  assumes "ct_updated_at (sw_cert t') = ct_updated_at (sw_cert t)"
  obtains s where "flush_table now t t' = t'\<lparr>sw_cert := (sw_cert t')\<lparr>ct_updated_at := s\<rparr>\<rparr>"
    and "s = (if unstamped (flush_table now t t') = unstamped t then ct_updated_at (sw_cert t) else Some now)"
proof -
  have u: "unstamped (flush_table now t t') = unstamped t'" by (simp add: flush_table_def unstamped_def)
  show thesis
  proof (cases "unstamped t' = unstamped t")
    case True
    then show thesis using assms u unstamped_eq [OF assms]
      by (intro that [of "ct_updated_at (sw_cert t)"]) (simp_all add: flush_table_def flip: assms)
  next
    case False
    then show thesis using u unstamped_eq [OF assms]
      by (intro that [of "Some now"]) (simp_all add: flush_table_def)
  qed
qed

lemma patch_description_realises:
  assumes "sr_proposed r = Proposed_description d"
  shows "realises st now a r t (patch_description now d t)"
proof -
  let ?t = "t\<lparr>sw_cert := (sw_cert t)\<lparr>ct_description_manual := Some d\<rparr>\<rparr>"
  have u: "ct_updated_at (sw_cert ?t) = ct_updated_at (sw_cert t)" by simp
  obtain s where s: "flush_table now t ?t = ?t\<lparr>sw_cert := (sw_cert ?t)\<lparr>ct_updated_at := s\<rparr>\<rparr>"
    "s = (if unstamped (flush_table now t ?t) = unstamped t then ct_updated_at (sw_cert t) else Some now)"
    by (rule flush_cases [OF u])
  show ?thesis
    unfolding realises_def patch_description_def Let_def s(2) [symmetric] using assms by (simp add: s(1))
qed

lemma patch_owner_realises:
  assumes "sr_proposed r = Proposed_owner (do_id o')" and "o' \<in> set (ss_owners st)"
  shows "realises st now a r t (patch_owner now a o' t)"
proof -
  let ?p = "t\<lparr>sw_cert := (sw_cert t)\<lparr>ct_data_owner_id := Some (do_id o'), ct_owner := Some (do_name o')\<rparr>,
      sw_owner_email := Some (do_email o')\<rparr>"
  obtain by' at' where rev: "(if shown_owner ?p \<noteq> shown_owner t
      then ?p\<lparr>sw_owner_reviewed_by_user_id := Some a, sw_owner_reviewed_at := Some now\<rparr> else ?p)
      = ?p\<lparr>sw_owner_reviewed_by_user_id := by', sw_owner_reviewed_at := at'\<rparr>"
    by (rule that [of "if shown_owner ?p \<noteq> shown_owner t then Some now else sw_owner_reviewed_at ?p"
          "if shown_owner ?p \<noteq> shown_owner t then Some a else sw_owner_reviewed_by_user_id ?p"]) simp
  let ?t = "?p\<lparr>sw_owner_reviewed_by_user_id := by', sw_owner_reviewed_at := at'\<rparr>"
  have u: "ct_updated_at (sw_cert ?t) = ct_updated_at (sw_cert t)" by simp
  obtain s where s: "flush_table now t ?t = ?t\<lparr>sw_cert := (sw_cert ?t)\<lparr>ct_updated_at := s\<rparr>\<rparr>"
    "s = (if unstamped (flush_table now t ?t) = unstamped t then ct_updated_at (sw_cert t) else Some now)"
    by (rule flush_cases [OF u])
  show ?thesis
    unfolding realises_def patch_owner_def Let_def rev s(2) [symmetric] using assms by (auto simp add: s(1))
qed

lemma mark_reviewed_realises:
  assumes "sr_proposed r = Proposed_review"
  shows "realises st now a r t (mark_reviewed now a (sr_request_type r) t)"
proof (cases "sr_request_type r = ''owner_review''")
  case True
  let ?t = "t\<lparr>sw_owner_reviewed_by_user_id := Some a, sw_owner_reviewed_at := Some now\<rparr>"
  have u: "ct_updated_at (sw_cert ?t) = ct_updated_at (sw_cert t)" by simp
  obtain s where s: "flush_table now t ?t = ?t\<lparr>sw_cert := (sw_cert ?t)\<lparr>ct_updated_at := s\<rparr>\<rparr>"
    "s = (if unstamped (flush_table now t ?t) = unstamped t then ct_updated_at (sw_cert t) else Some now)"
    by (rule flush_cases [OF u])
  have m: "mark_reviewed now a (sr_request_type r) t = flush_table now t ?t" using True by (simp add: mark_reviewed_def)
  show ?thesis
    unfolding realises_def m Let_def s(2) [symmetric] using assms True by (simp add: s(1))
next
  case False
  let ?t = "t\<lparr>sw_privacy_reviewed_by_user_id := Some a,
      sw_cert := (sw_cert t)\<lparr>ct_privacy_reviewed_at := Some now\<rparr>\<rparr>"
  have u: "ct_updated_at (sw_cert ?t) = ct_updated_at (sw_cert t)" by simp
  obtain s where s: "flush_table now t ?t = ?t\<lparr>sw_cert := (sw_cert ?t)\<lparr>ct_updated_at := s\<rparr>\<rparr>"
    "s = (if unstamped (flush_table now t ?t) = unstamped t then ct_updated_at (sw_cert t) else Some now)"
    by (rule flush_cases [OF u])
  have m: "mark_reviewed now a (sr_request_type r) t = flush_table now t ?t" using False by (simp add: mark_reviewed_def)
  show ?thesis
    unfolding realises_def m Let_def s(2) [symmetric] using assms False by (simp add: s(1))
qed

lemma submit_certification_realises:
  assumes "submit_certification env now a r st t = Inr t'" and "sr_proposed r = Proposed_certification"
  shows "realises st now a r t t' \<and> sw_id t' = sw_id t"
proof -
  let ?c = "sw_cert t"
  define n where "n = (if normalize_comment (sr_requester_comment r) \<noteq> None
    then normalize_comment (sr_requester_comment r) else ct_notes ?c)"
  let ?t = "t\<lparr>sw_cert := ?c\<lparr>ct_status := Some ''in_review'', ct_notes := n, ct_submitted_by := Some a,
      ct_submitted_at := Some now, ct_decided_by := None, ct_decided_at := None\<rparr>\<rparr>"
  have t': "t' = flush_table now t ?t"
    using assms(1) unfolding n_def by (simp only: submit_certification_def Let_def res_bind_Inr_iff sum.inject) blast
  have u: "ct_updated_at (sw_cert ?t) = ct_updated_at (sw_cert t)" by simp
  obtain s where s: "flush_table now t ?t = ?t\<lparr>sw_cert := (sw_cert ?t)\<lparr>ct_updated_at := s\<rparr>\<rparr>"
    "s = (if unstamped (flush_table now t ?t) = unstamped t then ct_updated_at (sw_cert t) else Some now)"
    by (rule flush_cases [OF u])
  have "realises st now a r t t'"
    unfolding realises_def t' Let_def s(2) [symmetric] using assms(2) by (simp add: s(1)) (simp add: n_def)
  then show ?thesis by (simp add: t') (simp add: sw_id_def)
qed

lemma patched_id [simp]:
  "sw_id (patch_description now d t) = sw_id t" "sw_id (patch_owner now a o' t) = sw_id t"
  "sw_id (mark_reviewed now a ty t) = sw_id t"
  by (simp_all add: patch_description_def patch_owner_def mark_reviewed_def sw_id_def Let_def flush_table_def)

lemma applied_table:
  assumes "apply_steward_request env now a r st = Inr st'"
  shows "\<exists>i t t'. sr_table_id r = Some i \<and> find_steward_table st i = Some t \<and> sw_id t' = i \<and> st' = put_steward_table t' st
    \<and> realises st now a r t t'"
proof -
  obtain i t where it: "sr_table_id r = Some i" "find_steward_table st i = Some t"
    using assms by (auto simp: apply_steward_request_def http_def split: option.splits)
  have id: "sw_id t = i" using find_tableD[OF it(2)] by simp
  have "\<exists>t'. sw_id t' = i \<and> st' = put_steward_table t' st \<and> realises st now a r t t'"
  proof (cases "sr_proposed r")
    case (Proposed_description d)
    then show ?thesis using assms it id patch_description_realises[OF Proposed_description]
      by (intro exI[of _ "patch_description now d t"]) (simp add: apply_steward_request_def)
  next
    case (Proposed_owner j)
    then obtain o' where o': "find_owner st j = Some o'" "st' = put_steward_table (patch_owner now a o' t) st"
      using assms it by (auto simp: apply_steward_request_def http_def split: option.splits)
    then have "o' \<in> set (ss_owners st)" "do_id o' = j" by (auto simp: find_owner_def find_Some_iff)
    then show ?thesis using Proposed_owner o'(2) id patch_owner_realises[of r o' st now a t]
      by (intro exI[of _ "patch_owner now a o' t"]) simp
  next
    case (Proposed_terms ids)
    let ?t = "t\<lparr>sw_term_ids := filter (\<lambda>i. i \<in> set ids) (sw_term_ids t) @ filter (\<lambda>i. i \<notin> set (sw_term_ids t)) (sorted_ids ids)\<rparr>"
    have "st' = put_steward_table ?t st"
      using assms it Proposed_terms by (simp add: apply_steward_request_def http_def split: if_splits)
    then show ?thesis using Proposed_terms id
      by (intro exI[of _ ?t]) (auto simp: realises_def sorted_ids_def sw_id_def Let_def)
  next
    case Proposed_review
    then show ?thesis using assms it id mark_reviewed_realises[OF Proposed_review]
      by (intro exI[of _ "mark_reviewed now a (sr_request_type r) t"]) (simp add: apply_steward_request_def)
  next
    case Proposed_certification
    then obtain t' where "submit_certification env now a r st t = Inr t'" "st' = put_steward_table t' st"
      using assms it by (auto simp: apply_steward_request_def res_bind_Inr_iff)
    then show ?thesis using id submit_certification_realises[OF _ Proposed_certification] by blast
  qed
  with it show ?thesis by blast
qed

lemma put_table_frame [simp]:
  "ss_requests (put_steward_table t st) = ss_requests st" "ss_events (put_steward_table t st) = ss_events st"
  "ss_next_request (put_steward_table t st) = ss_next_request st" "find_request (put_steward_table t st) i = find_request st i"
  by (simp_all add: put_steward_table_def find_request_def)

lemma add_event_frame [simp]:
  "ss_requests (add_steward_event i e a c st) = ss_requests st" "ss_tables (add_steward_event i e a c st) = ss_tables st"
  "ss_next_request (add_steward_event i e a c st) = ss_next_request st"
  "find_request (add_steward_event i e a c st) j = find_request st j"
  by (simp_all add: add_steward_event_def find_request_def)

lemma put_request_frame [simp]:
  "ss_tables (put_steward_request r st) = ss_tables st" "ss_events (put_steward_request r st) = ss_events st"
  "ss_next_request (put_steward_request r st) = ss_next_request st"
  by (simp_all add: put_steward_request_def)

lemma applied_frame:
  "(if b then apply_steward_request env now a r st else Inr st) = Inr st1 \<Longrightarrow> ss_requests st1 = ss_requests st
     \<and> ss_events st1 = ss_events st \<and> ss_next_request st1 = ss_next_request st \<and> find_request st1 i = find_request st i"
  by (auto split: if_splits dest!: applied_table)

lemma find_put_request:
  assumes "find_request st i = Some r" and "sr_id r' = i"
  shows "find_request (put_steward_request r' st) i = Some r'"
proof -
  have "List.find (\<lambda>k. sr_id k = i) rs = Some r \<Longrightarrow>
      List.find (\<lambda>k. sr_id k = i) (map (\<lambda>k. if sr_id k = sr_id r' then r' else k) rs) = Some r'" for rs
    using assms(2) by (induction rs) (auto split: if_splits)
  then show ?thesis using assms(1) by (simp add: find_request_def put_steward_request_def)
qed

lemma decided_request_simps [simp]:
  "sr_id (decided_request now a d c r) = sr_id r" "sr_status (decided_request now a d c r) = d"
  "sr_decided_by_user_id (decided_request now a d c r) = Some a" "sr_decision_comment (decided_request now a d c r) = c"
  "sr_decided_at (decided_request now a d c r) = Some now" "sr_table_id (decided_request now a d c r) = sr_table_id r"
  "sr_request_type (decided_request now a d c r) = sr_request_type r"
  by (simp_all add: decided_request_def)

text \<open>C27: A request is decided only while it is pending, only by the approver it is assigned to or by an administrator
  unless it is assigned to nobody, and a rejection carries a justification; any other attempt leaves everything as it was.\<close>

theorem only_approver_decides:
  assumes "decide_stewardship_request env now actor i decision comment st = Inr st'"
  shows "\<exists>r r'. find_request st i = Some r \<and> sr_status r = ''pending''
    \<and> (list_ex (\<lambda>r. role_name r = ''admin'') (user_roles actor) \<or> sr_approver_user_id r \<in> {None, Some 0, Some (user_id actor)})
    \<and> find_request st' i = Some r' \<and> sr_status r' = decision \<and> sr_decided_by_user_id r' = Some (user_id actor)
    \<and> (if decision = ''rejected'' then sr_decision_comment r' \<noteq> None else True)"
proof -
  from assms obtain r st1 where r: "find_request st i = Some r" "sr_status r = ''pending''"
    "\<not> assigned_to_other actor r \<or> list_ex (\<lambda>r. role_name r = ''admin'') (user_roles actor)"
    "decision = ''rejected'' \<Longrightarrow> normalize_comment comment \<noteq> None"
    and st1: "(if decision = ''approved'' then apply_steward_request env now (user_id actor) r st else Inr st) = Inr st1"
    and st': "st' = add_steward_event i decision (Some (user_id actor)) (normalize_comment comment)
       (put_steward_request (decided_request now (user_id actor) decision (normalize_comment comment) r) st1)"
    by (rule decide_InrE) blast
  have "sr_id r = i" using find_requestD[OF r(1)] by simp
  then have "find_request st' i = Some (decided_request now (user_id actor) decision (normalize_comment comment) r)"
    using applied_frame[OF st1, of i] r(1) by (simp add: st' find_put_request)
  moreover have "list_ex (\<lambda>r. role_name r = ''admin'') (user_roles actor)
      \<or> sr_approver_user_id r \<in> {None, Some 0, Some (user_id actor)}"
    using r(3) by (auto simp: assigned_to_other_def split: option.splits)
  ultimately show ?thesis using r(1,2,4) by simp
qed

text \<open>The person who made a request cannot withdraw it once somebody else has been asked to approve it, which happens
  automatically; only an administrator or that approver can.\<close>

theorem requester_cannot_cancel:
  assumes "find_request st i = Some r" and "sr_status r = ''pending''" and "sr_requested_by_user_id r = Some (user_id user)"
    and "sr_approver_user_id r = Some a" and "a \<noteq> 0" and "a \<noteq> user_id user"
    and "\<not> list_ex (\<lambda>r. role_name r = ''admin'') (user_roles user)"
  shows "isl (cancel_request env now user i comment st)"
proof -
  have "isl (decide_stewardship_request env now user i ''cancelled'' comment st)"
    using assms by (simp add: decide_stewardship_request_def assigned_to_other_def http_def)
  then show ?thesis
    by (cases "require_roles [''admin'', ''stewardship'', ''data_owner''] user") (simp_all add: cancel_request_def)
qed

section \<open>Who is suggested\<close>

lemma active_userD: "active_user st i = Some u \<Longrightarrow> u \<in> set (ss_users st) \<and> user_is_active u"
  by (auto simp: active_user_def find_user_def find_Some_iff bind_eq_Some_conv split: option.splits if_splits)

definition known_active :: "steward_store \<Rightarrow> user_row option \<times> string \<Rightarrow> bool" where
  "known_active st a \<longleftrightarrow> (case fst a of None \<Rightarrow> True | Some u \<Rightarrow> u \<in> set (ss_users st) \<and> user_is_active u)"

lemma known_active_or: "known_active st a \<Longrightarrow> known_active st b \<Longrightarrow> known_active st (or_user a b)"
  by (simp add: or_user_def)

lemma known_active_user: "known_active st (active_user st i, rule)"
  by (auto simp: known_active_def dest: active_userD split: option.splits)

lemma known_active_email: "known_active st (match_user_by_email st e, rule)"
  by (auto simp: known_active_def match_user_by_email_def Let_def find_Some_iff split: option.splits)

lemma known_active_if: "known_active st (a, rule) \<Longrightarrow> known_active st (if c then a else None, rule)"
  by (simp add: known_active_def)

lemma known_active_rule: "known_active st (match_assignment_rule env st t rt)"
  by (auto simp: match_assignment_rule_def Let_def known_active_def dest: active_userD split: list.splits option.splits)

lemma known_active_candidate:
  "known_active st (case first_by k (active_approver_candidates st) of None \<Rightarrow> (None, a) | Some u \<Rightarrow> (Some u, b))"
  by (auto simp: known_active_def active_approver_candidates_def dest!: first_by_in split: option.splits)

text \<open>Whoever is suggested to approve a request is an active user of the platform; somebody is suggested whenever
  there is an active administrator, steward or data owner.\<close>

theorem suggested_approver_active:
  "(case fst (suggest_approver_for_request env st t rt) of None \<Rightarrow> active_approver_candidates st = []
    | Some u \<Rightarrow> u \<in> set (ss_users st) \<and> user_is_active u)"
proof -
  have "known_active st (suggest_approver_for_request env st t rt)"
    unfolding suggest_approver_for_request_def Let_def
    by (intro known_active_or known_active_rule known_active_user known_active_if known_active_email known_active_candidate)
  moreover have "fst (suggest_approver_for_request env st t rt) = None \<Longrightarrow> active_approver_candidates st = []"
    by (simp add: suggest_approver_for_request_def Let_def or_user_def split: if_splits option.splits)
  ultimately show ?thesis by (auto simp: known_active_def split: option.splits)
qed

section \<open>What an approval does\<close>


section \<open>Histories\<close>

text \<open>A deleted table leaves its requests behind without a table; a deleted user disappears from them.\<close>

definition unlinked :: "int \<Rightarrow> steward_request \<Rightarrow> steward_request" where
  "unlinked i r = r\<lparr>sr_table_id := (if sr_table_id r = Some i then None else sr_table_id r)\<rparr>"

definition without :: "int \<Rightarrow> int option \<Rightarrow> int option" where
  "without i v = (if v = Some i then None else v)"

definition forgotten :: "int \<Rightarrow> steward_request \<Rightarrow> steward_request" where
  "forgotten i r = r\<lparr>sr_requested_by_user_id := without i (sr_requested_by_user_id r),
     sr_approver_user_id := without i (sr_approver_user_id r), sr_decided_by_user_id := without i (sr_decided_by_user_id r)\<rparr>"

datatype steward_op =
    Ask steward_env instant user_row steward_in
  | Approve steward_env instant user_row int "string option"
  | Reject steward_env instant user_row int "string option"
  | Withdraw steward_env instant user_row int "string option"
  | Table_deleted int
  | User_deleted int
  | Catalog_changed "steward_table list" "steward_owner_row list" "user_row list" "int list"

definition steward_step :: "steward_store \<Rightarrow> steward_op \<Rightarrow> steward_store" where
  "steward_step st oper =
     (case oper of
        Ask env now user p \<Rightarrow> or_same st (map_sum id fst (create_request env now user p st))
      | Approve env now user i comment \<Rightarrow> or_same st (approve_request env now user i comment st)
      | Reject env now user i comment \<Rightarrow> or_same st (reject_request env now user i comment st)
      | Withdraw env now user i comment \<Rightarrow> or_same st (cancel_request env now user i comment st)
      | Table_deleted i \<Rightarrow> st\<lparr>ss_tables := filter (\<lambda>t. sw_id t \<noteq> i) (ss_tables st), ss_requests := map (unlinked i) (ss_requests st)\<rparr>
      | User_deleted i \<Rightarrow> st\<lparr>ss_users := filter (\<lambda>u. user_id u \<noteq> i) (ss_users st), ss_requests := map (forgotten i) (ss_requests st),
          ss_events := map (\<lambda>e. e\<lparr>se_actor_user_id := without i (se_actor_user_id e)\<rparr>) (ss_events st)\<rparr>
      | Catalog_changed ts os us ids \<Rightarrow> st\<lparr>ss_tables := ts, ss_owners := os, ss_users := us, ss_term_ids := ids\<rparr>)"

definition request_ok :: "steward_request \<Rightarrow> bool" where
  "request_ok r \<longleftrightarrow> sr_status r \<in> {''pending'', ''approved'', ''rejected'', ''cancelled''}
     \<and> (sr_status r = ''pending'' \<longleftrightarrow> sr_decided_at r = None)
     \<and> (sr_status r = ''rejected'' \<longrightarrow> sr_decision_comment r \<noteq> None)
     \<and> sr_request_type r \<in> set REQUEST_TYPES"

definition events_of :: "steward_store \<Rightarrow> int \<Rightarrow> string list" where
  "events_of st i = map se_event_type (filter (\<lambda>e. se_request_id e = i) (ss_events st))"

definition same_question :: "steward_request \<Rightarrow> steward_request \<Rightarrow> bool" where
  "same_question r k \<longleftrightarrow> sr_status r = ''pending'' \<and> sr_status k = ''pending'' \<and> sr_table_id r \<noteq> None
     \<and> sr_table_id r = sr_table_id k \<and> sr_request_type r = sr_request_type k"

text \<open>The events of a request are its life: it was created and, unless it still waits, decided once.\<close>

definition steward_ok :: "steward_store \<Rightarrow> bool" where
  "steward_ok st \<longleftrightarrow> distinct (map sr_id (ss_requests st))
     \<and> (\<forall>e\<in>set (ss_events st). se_request_id e < ss_next_request st)
     \<and> (\<forall>r\<in>set (ss_requests st). sr_id r < ss_next_request st \<and> request_ok r
          \<and> events_of st (sr_id r) = ''created'' # (if sr_status r = ''pending'' then [] else [sr_status r])
          \<and> (\<forall>k\<in>set (ss_requests st). same_question r k \<longrightarrow> sr_id k = sr_id r))"

lemma steward_ok_frame: "ss_requests st' = ss_requests st \<Longrightarrow> ss_events st' = ss_events st \<Longrightarrow>
    ss_next_request st' = ss_next_request st \<Longrightarrow> steward_ok st \<Longrightarrow> steward_ok st'"
  by (simp add: steward_ok_def events_of_def)

lemma steward_okI:
  assumes "distinct (map sr_id (ss_requests st))" and "\<And>e. e \<in> set (ss_events st) \<Longrightarrow> se_request_id e < ss_next_request st"
    and "\<And>r. r \<in> set (ss_requests st) \<Longrightarrow> sr_id r < ss_next_request st" and "\<And>r. r \<in> set (ss_requests st) \<Longrightarrow> request_ok r"
    and "\<And>r. r \<in> set (ss_requests st) \<Longrightarrow>
      events_of st (sr_id r) = ''created'' # (if sr_status r = ''pending'' then [] else [sr_status r])"
    and "\<And>r k. r \<in> set (ss_requests st) \<Longrightarrow> k \<in> set (ss_requests st) \<Longrightarrow> same_question r k \<Longrightarrow> sr_id k = sr_id r"
  shows "steward_ok st"
  using assms by (simp add: steward_ok_def)

lemma steward_okD:
  assumes "steward_ok st"
  shows "distinct (map sr_id (ss_requests st))" and "e \<in> set (ss_events st) \<Longrightarrow> se_request_id e < ss_next_request st"
    and "r \<in> set (ss_requests st) \<Longrightarrow> sr_id r < ss_next_request st" and "r \<in> set (ss_requests st) \<Longrightarrow> request_ok r"
    and "r \<in> set (ss_requests st) \<Longrightarrow>
      events_of st (sr_id r) = ''created'' # (if sr_status r = ''pending'' then [] else [sr_status r])"
    and "r \<in> set (ss_requests st) \<Longrightarrow> k \<in> set (ss_requests st) \<Longrightarrow> same_question r k \<Longrightarrow> sr_id k = sr_id r"
  using assms by (simp_all add: steward_ok_def)

text \<open>A change that leaves the identity, the question and the decision of every request leaves the invariant.\<close>

lemma steward_ok_map:
  assumes "steward_ok st" and "ss_requests st' = map f (ss_requests st)" and "ss_next_request st' = ss_next_request st"
    and "\<And>i. events_of st' i = events_of st i" and "\<And>e. e \<in> set (ss_events st') \<Longrightarrow> se_request_id e < ss_next_request st"
    and f: "\<And>r. sr_id (f r) = sr_id r \<and> sr_status (f r) = sr_status r \<and> sr_decided_at (f r) = sr_decided_at r
      \<and> sr_decision_comment (f r) = sr_decision_comment r \<and> sr_request_type (f r) = sr_request_type r"
    and "\<And>r k. same_question (f r) (f k) \<Longrightarrow> same_question r k"
  shows "steward_ok st'"
proof -
  have "sr_id \<circ> f = sr_id" and "\<And>r. request_ok (f r) = request_ok r" using f by (auto simp: request_ok_def)
  then show ?thesis using assms by (auto simp: steward_ok_def)
qed

lemma create_Inr:
  assumes "create_stewardship_request env now user p st = Inr (st', r)"
  shows "st' = add_steward_event (sr_id r) ''created'' (Some (user_id user)) (sr_requester_comment r)
      (st\<lparr>ss_requests := ss_requests st @ [r], ss_next_request := ss_next_request st + 1\<rparr>)
    \<and> sr_id r = ss_next_request st \<and> sr_status r = ''pending'' \<and> sr_decided_at r = None
    \<and> sr_table_id r = Some (si_table_id p) \<and> sr_request_type r \<in> set REQUEST_TYPES
    \<and> (\<forall>k\<in>set (ss_requests st). \<not> same_question r k)"
proof -
  let ?ty = "py_strip (si_request_type p)"
  obtain t where t: "find_steward_table st (si_table_id p) = Some t"
    using assms by (auto simp: create_stewardship_request_def Let_def http_def split: option.splits)
  then have id: "sw_id t = si_table_id p" using find_tableD by blast
  from assms t obtain proposed where fresh: "\<not> list_ex (\<lambda>r. sr_table_id r = Some (si_table_id p) \<and> sr_request_type r = ?ty
        \<and> sr_status r = ''pending'') (ss_requests st)" and pay: "request_payload env now st t p = Inr proposed"
    by (auto simp: create_stewardship_request_def Let_def http_def res_bind_Inr_iff split: if_splits)
  have "?ty \<in> set REQUEST_TYPES" using pay by (auto simp: request_payload_def Let_def http_def split: if_splits)
  moreover have "st' = add_steward_event (sr_id r) ''created'' (Some (user_id user)) (sr_requester_comment r)
      (st\<lparr>ss_requests := ss_requests st @ [r], ss_next_request := ss_next_request st + 1\<rparr>)
    \<and> sr_id r = ss_next_request st \<and> sr_status r = ''pending'' \<and> sr_decided_at r = None
    \<and> sr_table_id r = Some (sw_id t) \<and> sr_request_type r = ?ty"
    using assms t fresh pay by (auto simp: create_stewardship_request_def Let_def split: prod.splits if_splits)
  ultimately show ?thesis using fresh id by (auto simp: same_question_def list_ex_iff)
qed

lemma create_steward_ok:
  assumes ok: "steward_ok st" and c: "create_stewardship_request env now user p st = Inr (st', r)"
  shows "steward_ok st'"
proof -
  note n = create_Inr[OF c]
  have none: "events_of st (ss_next_request st) = []" using ok by (auto simp: steward_ok_def events_of_def filter_empty_conv)
  have ev: "events_of st' i = events_of st i @ (if i = ss_next_request st then [''created''] else [])" for i
    using n by (simp add: events_of_def add_steward_event_def)
  have ids: "sr_id k \<noteq> ss_next_request st" if "k \<in> set (ss_requests st)" for k using ok that by (fastforce simp: steward_ok_def)
  have rows: "ss_requests st' = ss_requests st @ [r]" "ss_next_request st' = ss_next_request st + 1"
    using n by (auto simp: add_steward_event_def)
  have rok: "request_ok r" using n by (simp add: request_ok_def)
  have new: "sr_id r = ss_next_request st" "sr_status r = ''pending''" "\<forall>k\<in>set (ss_requests st). \<not> same_question r k"
    using n by simp_all
  show ?thesis
  proof (rule steward_okI)
    have "ss_next_request st \<notin> sr_id ` set (ss_requests st)" and "sr_id r = ss_next_request st" using ids n by force+
    then show "distinct (map sr_id (ss_requests st'))" using steward_okD(1)[OF ok] by (simp add: rows)
    show "se_request_id e < ss_next_request st'" if "e \<in> set (ss_events st')" for e
      using that n steward_okD(2)[OF ok, of e] by (auto simp: add_steward_event_def)
    show "sr_id k < ss_next_request st'" if "k \<in> set (ss_requests st')" for k
      using that new steward_okD(3)[OF ok, of k] by (auto simp: rows)
    show "request_ok k" if "k \<in> set (ss_requests st')" for k
      using that rok steward_okD(4)[OF ok, of k] by (auto simp: rows)
    show "events_of st' (sr_id k) = ''created'' # (if sr_status k = ''pending'' then [] else [sr_status k])"
      if "k \<in> set (ss_requests st')" for k
      using that new none ids steward_okD(5)[OF ok, of k] by (auto simp: rows ev)
    show "sr_id k = sr_id k'" if "k' \<in> set (ss_requests st')" "k \<in> set (ss_requests st')" "same_question k' k" for k k'
      using that new steward_okD(6)[OF ok, of k' k] by (auto simp: rows same_question_def)
  qed
qed

lemma decide_steward_ok:
  assumes ok: "steward_ok st" and d: "decide_stewardship_request env now actor i decision comment st = Inr st'"
    and decision: "decision \<in> {''approved'', ''rejected'', ''cancelled''}"
  shows "steward_ok st'"
proof -
  from d obtain r st1 where r: "find_request st i = Some r" "sr_status r = ''pending''"
    "decision = ''rejected'' \<Longrightarrow> normalize_comment comment \<noteq> None"
    and st1: "(if decision = ''approved'' then apply_steward_request env now (user_id actor) r st else Inr st) = Inr st1"
    and st': "st' = add_steward_event i decision (Some (user_id actor)) (normalize_comment comment)
       (put_steward_request (decided_request now (user_id actor) decision (normalize_comment comment) r) st1)"
    by (rule decide_InrE) blast
  let ?r = "decided_request now (user_id actor) decision (normalize_comment comment) r"
  have i: "sr_id r = i" "r \<in> set (ss_requests st)" using find_requestD[OF r(1)] by auto
  have frame: "ss_requests st1 = ss_requests st" "ss_events st1 = ss_events st" "ss_next_request st1 = ss_next_request st"
    using applied_frame[OF st1] by auto
  have rows: "ss_requests st' = map (\<lambda>k. if sr_id k = i then ?r else k) (ss_requests st)"
    by (simp add: st' add_steward_event_def put_steward_request_def frame i)
  have ev: "events_of st' j = events_of st j @ (if j = i then [decision] else [])" for j
    by (simp add: st' events_of_def add_steward_event_def put_steward_request_def frame)
  have same: "k = r" if "k \<in> set (ss_requests st)" "sr_id k = i" for k
    using steward_okD(1)[OF ok] i that by (auto simp: distinct_map inj_on_def)
  have rok: "request_ok ?r" using decision r(3) steward_okD(4)[OF ok i(2)] by (auto simp: request_ok_def)
  have next_id: "ss_next_request st' = ss_next_request st"
    by (simp add: st' add_steward_event_def put_steward_request_def frame)
  show ?thesis
  proof (rule steward_okI)
    have "sr_id \<circ> (\<lambda>k. if sr_id k = i then ?r else k) = sr_id" using i by auto
    then show "distinct (map sr_id (ss_requests st'))" using steward_okD(1)[OF ok] by (simp add: rows)
    show "se_request_id e < ss_next_request st'" if "e \<in> set (ss_events st')" for e
      using that steward_okD(2)[OF ok, of e] steward_okD(3)[OF ok i(2)] i(1)
      by (auto simp: st' add_steward_event_def put_steward_request_def frame)
    show "sr_id k < ss_next_request st'" if "k \<in> set (ss_requests st')" for k
      using that steward_okD(3)[OF ok] i by (auto simp: rows next_id)
    show "request_ok k" if "k \<in> set (ss_requests st')" for k
      using that rok steward_okD(4)[OF ok] by (auto simp: rows)
    show "events_of st' (sr_id k) = ''created'' # (if sr_status k = ''pending'' then [] else [sr_status k])"
      if "k \<in> set (ss_requests st')" for k
      using that steward_okD(5)[OF ok] steward_okD(5)[OF ok i(2)] i r(2) decision by (auto simp: rows ev)
    show "sr_id k = sr_id k'" if "k' \<in> set (ss_requests st')" "k \<in> set (ss_requests st')" "same_question k' k" for k k'
    proof -
      have "\<not> same_question ?r j" "\<not> same_question j ?r" for j using decision by (auto simp: same_question_def)
      then show ?thesis using that steward_okD(6)[OF ok] by (auto simp: rows split: if_splits)
    qed
  qed
qed

lemma steward_step_ok: "steward_ok st \<Longrightarrow> steward_ok (steward_step st oper)"
proof (induction oper)
  case (Ask env now user p)
  then show ?case
    by (cases "create_request env now user p st")
      (auto simp: steward_step_def create_request_def res_bind_Inr_iff http_def dest: create_steward_ok split: if_splits)
next
  case (Table_deleted i)
  show ?case unfolding steward_step_def steward_op.case
    by (rule steward_ok_map[OF Table_deleted, where f = "unlinked i"])
      (auto simp: unlinked_def same_question_def events_of_def steward_okD(2)[OF Table_deleted] split: if_splits)
next
  case (User_deleted i)
  show ?case unfolding steward_step_def steward_op.case
    by (rule steward_ok_map[OF User_deleted, where f = "forgotten i"])
      (auto simp: forgotten_def same_question_def events_of_def filter_map o_def steward_okD(2)[OF User_deleted])
next
  case (Approve env now user i comment)
  then show ?case
    by (cases "approve_request env now user i comment st")
      (auto simp: steward_step_def approve_request_def res_bind_Inr_iff dest: decide_steward_ok)
next
  case (Reject env now user i comment)
  then show ?case
    by (cases "reject_request env now user i comment st")
      (auto simp: steward_step_def reject_request_def res_bind_Inr_iff dest: decide_steward_ok)
next
  case (Withdraw env now user i comment)
  then show ?case
    by (cases "cancel_request env now user i comment st")
      (auto simp: steward_step_def cancel_request_def res_bind_Inr_iff dest: decide_steward_ok)
next
  case (Catalog_changed ts os us ids)
  then show ?case by (auto simp: steward_step_def intro: steward_ok_frame[of _ st])
qed

interpretation steward: invariant_machine steward_step steward_ok
  by unfold_locales (rule steward_step_ok)

text \<open>After any history of requests, decisions and deletions a table waits for at most one decision of each kind, and a
  request is created once and decided at most once, a rejection always with its reason.\<close>

theorem steward_ok_history: "steward_ok st \<Longrightarrow> steward_ok (foldl steward_step st es)"
  by (rule steward.inv_run)

text \<open>A request for certification is approved only when the table passes every gate of the certification checklist;
  the checklist is the one of the certification form.\<close>

theorem approved_review_passes_gates:
  assumes "approve_request env now user i comment st = Inr st'"
    and "find_request st i = Some r" and "sr_proposed r = Proposed_certification" and "sr_table_id r = Some j"
  shows "\<exists>t. find_steward_table st j = Some t \<and> missing_certification_gates (certification_gates (steward_db env st) now (sw_cert t)) = []"
proof -
  have "decide_stewardship_request env now user i ''approved'' comment st = Inr st'"
    using assms(1) by (auto simp: approve_request_def res_bind_Inr_iff)
  then obtain st1 where "apply_steward_request env now (user_id user) r st = Inr st1"
    using assms(2) by (auto elim!: decide_InrE)
  then obtain t t' where t: "find_steward_table st j = Some t" "submit_certification env now (user_id user) r st t = Inr t'"
    using assms(3,4) by (auto simp: apply_steward_request_def http_def res_bind_Inr_iff split: option.splits)
  then obtain p x where v: "validate_certification_patch (steward_db env st) now (sw_cert t) p = Inr x" "cp_status p = ''in_review''"
    by (auto simp: submit_certification_def Let_def res_bind_Inr_iff)
  have "missing_certification_gates (certification_gates (steward_db env st) now (sw_cert t)) = []"
    using validated_patch[OF v(1)] v(2) by simp
  then show ?thesis using t(1) by blast
qed

section \<open>Concrete instances\<close>

definition demo_steward_table :: steward_table where
  "demo_steward_table = \<lparr>sw_cert = demo_cert_table, sw_owner_email = None, sw_owner_reviewed_by_user_id = None,
     sw_owner_reviewed_at = None, sw_privacy_reviewed_by_user_id = None, sw_domain_name = None, sw_term_ids = [3]\<rparr>"

definition demo_user :: "int \<Rightarrow> string \<Rightarrow> user_row" where
  "demo_user i r = (user_with_role r)\<lparr>user_id := i,
     user_roles := [\<lparr>role_name = r, role_permissions = [''stewardship:approve'']\<rparr>]\<rparr>"

definition demo_steward_env :: steward_env where
  "demo_steward_env = \<lparr>sv_rules = [], sv_certification_sla_days = 7, sv_db = cx_db demo_cert_env, sv_operational = False\<rparr>"

definition demo_steward :: steward_store where
  "demo_steward = \<lparr>ss_tables = [demo_steward_table], ss_owners = [], ss_users = [demo_user 1 ''data_owner'', demo_user 2 ''admin''],
     ss_term_ids = [3, 4], ss_requests = [], ss_next_request = 1, ss_events = []\<rparr>"

definition demo_question :: "string \<Rightarrow> steward_in" where
  "demo_question ty = \<lparr>si_table_id = 1, si_request_type = ty, si_description_manual = Some ''orders'', si_data_owner_id = None,
     si_term_ids = Some [4], si_requester_comment = Some ''please'', si_approver_user_id = Some 2, si_request_origin = None\<rparr>"

definition demo_asked :: "string \<Rightarrow> steward_store" where
  "demo_asked ty = steward_step demo_steward (Ask demo_steward_env 5 (demo_user 1 ''data_owner'') (demo_question ty))"

lemma demo_steward_ok: "steward_ok demo_steward"
  by (simp add: steward_ok_def demo_steward_def)

theorem steward_ok_history_witness: "steward_ok (demo_asked ''glossary_terms'')"
  using steward_ok_history[OF demo_steward_ok, where es = "[Ask demo_steward_env 5 (demo_user 1 ''data_owner'') (demo_question ''glossary_terms'')]"]
  by (simp add: demo_asked_def)

abbreviation terms_approved :: "steward_store res" where
  "terms_approved \<equiv> decide_stewardship_request demo_steward_env 6 (demo_user 2 ''admin'') 1 ''approved'' None (demo_asked ''glossary_terms'')"

lemma demo_terms: "\<not> isl terms_approved"
  by code_simp

lemma terms_approved: "\<exists>st'. terms_approved = Inr st'"
  using sum.exhaust_sel[of terms_approved] by (metis (no_types) isl_def demo_terms)

theorem only_approver_decides_witness:
  "\<exists>r. find_request (demo_asked ''glossary_terms'') 1 = Some r \<and> sr_status r = ''pending''"
proof -
  obtain st' where st': "terms_approved = Inr st'" using terms_approved by blast
  from only_approver_decides[OF st'] show ?thesis by blast
qed



lemma demo_review_asked:
  "find_request (demo_asked ''certification_review'') 1 = Some (last (ss_requests (demo_asked ''certification_review'')))"
  "sr_proposed (last (ss_requests (demo_asked ''certification_review''))) = Proposed_certification"
  "sr_table_id (last (ss_requests (demo_asked ''certification_review''))) = Some 1"
  "sr_status (last (ss_requests (demo_asked ''certification_review''))) = ''pending''"
  "sr_requested_by_user_id (last (ss_requests (demo_asked ''certification_review''))) = Some 1"
  "sr_approver_user_id (last (ss_requests (demo_asked ''certification_review''))) = Some 2"
  by code_simp+

lemma demo_review_approved:
  "\<not> isl (approve_request demo_steward_env 6 (demo_user 2 ''admin'') 1 None (demo_asked ''certification_review''))"
  by code_simp

theorem approved_review_passes_gates_witness:
  "\<exists>t. find_steward_table (demo_asked ''certification_review'') 1 = Some t
    \<and> missing_certification_gates (certification_gates (steward_db demo_steward_env (demo_asked ''certification_review'')) 6 (sw_cert t)) = []"
proof -
  obtain st' where "approve_request demo_steward_env 6 (demo_user 2 ''admin'') 1 None (demo_asked ''certification_review'') = Inr st'"
    using demo_review_approved by (metis isl_def sum.exhaust_sel)
  from approved_review_passes_gates[OF this demo_review_asked(1,2,3)] show ?thesis .
qed

theorem requester_cannot_cancel_witness:
  "isl (cancel_request demo_steward_env 6 (demo_user 1 ''data_owner'') 1 None (demo_asked ''certification_review''))"
  by (rule requester_cannot_cancel[OF demo_review_asked(1,4) _ demo_review_asked(6)])
    (simp_all add: demo_review_asked demo_user_def)

end
