(* ===== verification/Lineage.thy ===== *)
theory Lineage
  imports AccessControl Guard
begin

text \<open>
  Lineage: the assets and relations of \<open>features/lineage/persistence.py\<close>, their versions
  (\<open>features/lineage/versioning.py\<close>), the relations that a synchronisation writes
  (\<open>features/lineage/openlineage_persistence.py\<close>), the specification of a table
  (\<open>features/lineage/spec_actions.py\<close>) and the routes on top of them.

  A query that may find several rows and takes one without an order takes the first of the store.  The aliases of an asset
  and the audit rows are left out.
\<close>

section \<open>Names\<close>

definition is_alnum :: "char \<Rightarrow> bool" where
  "is_alnum c = (let n = (of_char c :: nat) in
     48 \<le> n \<and> n \<le> 57 \<or> 65 \<le> n \<and> n \<le> 90 \<or> 97 \<le> n \<and> n \<le> 122 \<or> n \<in> {170, 178, 179, 181, 185, 186, 188, 189, 190}
     \<or> 192 \<le> n \<and> n \<noteq> 215 \<and> n \<noteq> 247)"

definition strip_of :: "(char \<Rightarrow> bool) \<Rightarrow> string \<Rightarrow> string" where
  "strip_of P s = rev (dropWhile P (rev (dropWhile P s)))"

definition normalize_slug :: "string option \<Rightarrow> string" where
  "normalize_slug v = strip_of (\<lambda>c. c = CHR ''_'') (map (\<lambda>c. if is_alnum c then c else CHR ''_'') (norm_token v))"

definition KNOWN_DATABASE_ENGINES :: "(string \<times> string) list" where
  "KNOWN_DATABASE_ENGINES =
     [(''postgres'', ''postgres''), (''postgresql'', ''postgres''), (''mysql'', ''mysql''), (''mariadb'', ''mariadb''),
      (''sqlserver'', ''sqlserver''), (''sql_server'', ''sqlserver''), (''mssql'', ''sqlserver''), (''oracle'', ''oracle''),
      (''snowflake'', ''snowflake''), (''bigquery'', ''bigquery''), (''redshift'', ''redshift''),
      (''databricks'', ''databricks''), (''sqlite'', ''sqlite'')]"

definition normalize_database_engine :: "string option \<Rightarrow> string option" where
  "normalize_database_engine v =
     (let normalized = norm_token v in if normalized = [] then None else map_of KNOWN_DATABASE_ENGINES normalized)"

fun before_mark :: "string \<Rightarrow> string \<Rightarrow> string option" where
  "before_mark p [] = (if p = [] then Some [] else None)"
| "before_mark p (c # cs) = (if starts_with p (c # cs) then Some [] else map_option ((#) c) (before_mark p cs))"

definition infer_engine_from_namespace :: "string option \<Rightarrow> string option" where
  "infer_engine_from_namespace ns =
     (case before_mark ''://'' (norm_token ns) of None \<Rightarrow> None | Some scheme \<Rightarrow> normalize_database_engine (Some scheme))"

definition in_layer :: "string \<Rightarrow> string \<Rightarrow> bool" where
  "in_layer raw layer \<longleftrightarrow> raw = layer \<or> starts_with (layer @ ''_'') raw \<or> ends_with (''_'' @ layer) raw
     \<or> contains_str (''.'' @ layer @ ''.'') raw"

definition first_layer :: "string list \<Rightarrow> string list \<Rightarrow> string option" where
  "first_layer layers candidates =
     map_option snd (List.find (\<lambda>(raw, layer). in_layer raw layer) (List.product (map py_lower candidates) layers))"

definition layer_from_names :: "string \<Rightarrow> string option \<Rightarrow> string option \<Rightarrow> string" where
  "layer_from_names asset_type schema_name object_name =
     (case first_layer [''bronze'', ''silver'', ''gold'', ''mart'', ''dashboard'', ''source'']
             [or_empty schema_name, or_empty object_name] of
        Some layer \<Rightarrow> layer
      | None \<Rightarrow> if asset_type = ''dashboard'' then ''dashboard'' else if asset_type = ''source'' then ''source'' else ''definir'')"

definition slug_key :: "string option list \<Rightarrow> string option \<Rightarrow> string" where
  "slug_key parts asset_name =
     or_else (or_else (join_with '':'' (filter (\<lambda>p. p \<noteq> []) (map normalize_slug parts))) (normalize_slug asset_name)) ''lineage_asset''"

definition build_asset_key ::
  "string option \<Rightarrow> string option \<Rightarrow> string option \<Rightarrow> string option \<Rightarrow> string option \<Rightarrow> string option \<Rightarrow> int option \<Rightarrow> string" where
  "build_asset_key asset_type layer system_name schema_name object_name asset_name catalog_table_id =
     (case catalog_table_id of
        Some i \<Rightarrow> ''catalog_table:'' @ int_str i
      | None \<Rightarrow> slug_key [asset_type, layer, system_name, schema_name, object_name, asset_name] asset_name)"

definition normalized_relation_origin :: "string option \<Rightarrow> string" where
  "normalized_relation_origin m =
     (let v = py_lower (or_else (or_empty m) ''manual'')
      in if v \<in> {''manual'', ''spreadsheet''} then ''manual'' else if v = ''automatic'' then ''automatic'' else ''merged'')"

definition confidence_tier :: "int \<Rightarrow> bool \<Rightarrow> string" where
  "confidence_tier score is_verified =
     (if is_verified \<and> score \<ge> 80 then ''strong'' else if score \<ge> 90 then ''strong''
      else if score \<ge> 70 then ''moderate'' else ''weak'')"

section \<open>Rows\<close>

text \<open>A table with what \<open>table_context\<close> joins to it.\<close>

record lineage_table =
  lt_row :: table_row
  lt_name :: string
  lt_type :: string
  lt_schema_name :: string
  lt_datasource_id :: int
  lt_datasource_name :: string
  lt_description_manual :: "string option"
  lt_description_source :: "string option"

record lineage_asset =
  la_id :: int
  la_lineage_source_id :: "int option"
  la_catalog_table_id :: "int option"
  la_datasource_id :: "int option"
  la_asset_key :: string
  la_asset_name :: string
  la_asset_type :: string
  la_layer :: string
  la_schema_name :: "string option"
  la_object_name :: "string option"
  la_system_name :: "string option"
  la_description :: "string option"
  la_asset_origin :: string
  la_external_node_id :: "string option"
  la_external_namespace :: "string option"
  la_external_name :: "string option"
  la_external_type :: "string option"
  la_is_active :: bool

record lineage_relation =
  lr_id :: int
  lr_lineage_source_id :: "int option"
  lr_lineage_job_id :: "int option"
  lr_source_asset_id :: int
  lr_target_asset_id :: int
  lr_relation_type :: string
  lr_process_name :: "string option"
  lr_process_type :: "string option"
  lr_dashboard_name :: "string option"
  lr_notes :: "string option"
  lr_evidence :: "string option"
  lr_discovery_method :: string
  lr_confidence_score :: int
  lr_version :: int
  lr_is_verified :: bool
  lr_last_seen_at :: "instant option"
  lr_external_edge_key :: "string option"
  lr_is_active :: bool
  lr_created_by_user_id :: "int option"
  lr_updated_by_user_id :: "int option"
  lr_updated_at :: instant

text \<open>The dictionary that a version stores of a relation; a missing \<open>lineage_relation_id\<close> is \<open>None\<close>.\<close>

record relation_state =
  rs_lineage_relation_id :: "int option"
  rs_source_asset_id :: int
  rs_target_asset_id :: int
  rs_relation_type :: string
  rs_process_name :: "string option"
  rs_process_type :: "string option"
  rs_dashboard_name :: "string option"
  rs_notes :: "string option"
  rs_evidence :: "string option"
  rs_discovery_method :: string
  rs_confidence_score :: int
  rs_is_verified :: bool
  rs_external_edge_key :: "string option"
  rs_is_active :: bool
  rs_created_by_user_id :: "int option"
  rs_updated_by_user_id :: "int option"

record relation_version =
  rv_relation_id :: int
  rv_number :: int
  rv_state :: relation_state
  rv_recorded_by_user_id :: "int option"

record lineage_store =
  ls_tables :: "lineage_table list"
  ls_assets :: "lineage_asset list"
  ls_next_asset :: int
  ls_relations :: "lineage_relation list"
  ls_next_relation :: int
  ls_versions :: "relation_version list"

definition lt_id :: "lineage_table \<Rightarrow> int" where
  "lt_id t = table_pk (lt_row t)"

definition find_lineage_table :: "lineage_store \<Rightarrow> int \<Rightarrow> lineage_table option" where
  "find_lineage_table st i = List.find (\<lambda>t. lt_id t = i) (ls_tables st)"

definition find_asset :: "lineage_store \<Rightarrow> int \<Rightarrow> lineage_asset option" where
  "find_asset st i = List.find (\<lambda>a. la_id a = i) (ls_assets st)"

definition asset_of_table :: "lineage_store \<Rightarrow> int \<Rightarrow> lineage_asset option" where
  "asset_of_table st i = List.find (\<lambda>a. la_catalog_table_id a = Some i) (ls_assets st)"

definition find_relation :: "lineage_store \<Rightarrow> int \<Rightarrow> lineage_relation option" where
  "find_relation st i = List.find (\<lambda>r. lr_id r = i) (ls_relations st)"

definition put_relation :: "lineage_relation \<Rightarrow> lineage_store \<Rightarrow> lineage_store" where
  "put_relation r st = st\<lparr>ls_relations := map (\<lambda>k. if lr_id k = lr_id r then r else k) (ls_relations st)\<rparr>"

text \<open>The unique constraints of the asset table.\<close>

definition clashes :: "lineage_asset \<Rightarrow> lineage_asset \<Rightarrow> bool" where
  "clashes a k \<longleftrightarrow> la_id k \<noteq> la_id a \<and> (la_asset_key k = la_asset_key a
     \<or> la_catalog_table_id a \<noteq> None \<and> la_catalog_table_id k = la_catalog_table_id a)"

definition put_asset :: "lineage_asset \<Rightarrow> lineage_store \<Rightarrow> lineage_store res" where
  "put_asset a st =
     (if list_ex (clashes a) (ls_assets st) then Inl (IntegrityError ''uq_lineage_assets'')
      else Inr (st\<lparr>ls_assets := map (\<lambda>k. if la_id k = la_id a then a else k) (ls_assets st)\<rparr>))"

definition add_asset :: "lineage_asset \<Rightarrow> lineage_store \<Rightarrow> lineage_store res" where
  "add_asset a st =
     (if list_ex (clashes a) (ls_assets st) then Inl (IntegrityError ''uq_lineage_assets'')
      else Inr (st\<lparr>ls_assets := ls_assets st @ [a], ls_next_asset := ls_next_asset st + 1\<rparr>))"

section \<open>Assets\<close>

definition shown_schema :: "lineage_table \<Rightarrow> string option" where
  "shown_schema t = (if lt_schema_name t = ''default'' then None else Some (lt_schema_name t))"

definition asset_display_name :: "lineage_table \<Rightarrow> string" where
  "asset_display_name t = (if lt_schema_name t = ''default'' then lt_name t else lt_schema_name t @ ''.'' @ lt_name t)"

definition table_asset_type :: "lineage_table \<Rightarrow> string" where
  "table_asset_type t = (if lt_type t = ''view'' then ''view'' else ''table'')"

definition layer_from_table :: "lineage_table \<Rightarrow> string" where
  "layer_from_table t =
     (case first_layer [''bronze'', ''silver'', ''gold'', ''mart''] [lt_schema_name t, lt_name t] of
        Some layer \<Rightarrow> layer | None \<Rightarrow> if lt_type t = ''table'' then ''gold'' else ''mart'')"

definition or_opt :: "string option \<Rightarrow> string option \<Rightarrow> string option" where
  "or_opt a b = (if str_true a then a else b)"

definition relinked_asset :: "lineage_table \<Rightarrow> lineage_asset \<Rightarrow> lineage_asset" where
  "relinked_asset t a = a\<lparr>la_catalog_table_id := Some (lt_id t), la_asset_key := ''catalog_table:'' @ int_str (lt_id t),
     la_asset_name := asset_display_name t, la_layer := layer_from_table t, la_system_name := Some (lt_datasource_name t),
     la_description := or_opt (lt_description_manual t) (lt_description_source t), la_is_active := True\<rparr>"

definition new_table_asset :: "int \<Rightarrow> lineage_table \<Rightarrow> lineage_asset" where
  "new_table_asset i t = \<lparr>la_id = i, la_lineage_source_id = None, la_catalog_table_id = Some (lt_id t),
     la_datasource_id = Some (lt_datasource_id t),
     la_asset_key = build_asset_key (Some (table_asset_type t)) (Some (layer_from_table t)) (Some (lt_datasource_name t))
       (shown_schema t) (Some (lt_name t)) (Some (asset_display_name t)) (Some (lt_id t)),
     la_asset_name = asset_display_name t, la_asset_type = table_asset_type t, la_layer = layer_from_table t,
     la_schema_name = shown_schema t, la_object_name = Some (lt_name t), la_system_name = Some (lt_datasource_name t),
     la_description = or_opt (lt_description_manual t) (lt_description_source t), la_asset_origin = ''manual'',
     la_external_node_id = None, la_external_namespace = None, la_external_name = None, la_external_type = None,
     la_is_active = True\<rparr>"

definition same_object :: "lineage_table \<Rightarrow> lineage_asset \<Rightarrow> bool" where
  "same_object t a \<longleftrightarrow> la_datasource_id a = Some (lt_datasource_id t) \<and> la_schema_name a = shown_schema t
     \<and> la_object_name a = Some (lt_name t) \<and> la_asset_type a = table_asset_type t"

definition get_or_create_asset_for_table :: "int \<Rightarrow> lineage_store \<Rightarrow> (lineage_store \<times> lineage_asset) res" where
  "get_or_create_asset_for_table i st =
     (case asset_of_table st i of
        Some a \<Rightarrow> Inr (st, a)
      | None \<Rightarrow>
          (case find_lineage_table st i of
             None \<Rightarrow> http 404 ''Table not found''
           | Some t \<Rightarrow>
               (case List.find (same_object t) (ls_assets st) of
                  Some a \<Rightarrow> res_bind (put_asset (relinked_asset t a) st) (\<lambda>st'. Inr (st', relinked_asset t a))
                | None \<Rightarrow>
                    (let a = new_table_asset (ls_next_asset st) t in
                     res_bind (add_asset a st) (\<lambda>st'. Inr (st', a))))))"

record asset_in =
  ai_asset_key :: "string option"
  ai_catalog_table_id :: "int option"
  ai_asset_name :: string
  ai_asset_type :: string
  ai_layer :: string
  ai_schema_name :: "string option"
  ai_object_name :: "string option"
  ai_system_name :: "string option"
  ai_description :: "string option"
  ai_datasource_id :: "int option"

definition create_asset :: "asset_in \<Rightarrow> lineage_store \<Rightarrow> (lineage_store \<times> lineage_asset) res" where
  "create_asset p st =
     (case ai_catalog_table_id p of
        Some i \<Rightarrow> get_or_create_asset_for_table i st
      | None \<Rightarrow>
          (let key = or_else (or_empty (ai_asset_key p))
                 (build_asset_key (Some (ai_asset_type p)) (Some (ai_layer p)) (ai_system_name p) (ai_schema_name p)
                    (ai_object_name p) (Some (ai_asset_name p)) None)
           in case List.find (\<lambda>a. la_asset_key a = key) (ls_assets st) of
                Some a \<Rightarrow> Inr (st, a)
              | None \<Rightarrow>
                  (let a = \<lparr>la_id = ls_next_asset st, la_lineage_source_id = None, la_catalog_table_id = None,
                       la_datasource_id = ai_datasource_id p, la_asset_key = key, la_asset_name = ai_asset_name p,
                       la_asset_type = ai_asset_type p, la_layer = ai_layer p, la_schema_name = ai_schema_name p,
                       la_object_name = ai_object_name p, la_system_name = ai_system_name p,
                       la_description = ai_description p, la_asset_origin = ''manual'', la_external_node_id = None,
                       la_external_namespace = None, la_external_name = None, la_external_type = None, la_is_active = True\<rparr>
                   in res_bind (add_asset a st) (\<lambda>st'. Inr (st', a)))))"

text \<open>The body of a change to an asset: a field that is not given stays; a null is refused by a column that has a value
  always.\<close>

record asset_patch =
  ap_asset_name :: "string option option"
  ap_asset_type :: "string option option"
  ap_layer :: "string option option"
  ap_schema_name :: "string option option"
  ap_object_name :: "string option option"
  ap_system_name :: "string option option"
  ap_description :: "string option option"
  ap_datasource_id :: "int option option"
  ap_is_active :: "bool option option"

definition given :: "'a option \<Rightarrow> 'a \<Rightarrow> 'a" where
  "given v old = (case v of None \<Rightarrow> old | Some x \<Rightarrow> x)"

definition given_nn :: "'a option option \<Rightarrow> 'a \<Rightarrow> 'a" where
  "given_nn v old = (case v of Some (Some x) \<Rightarrow> x | _ \<Rightarrow> old)"

definition update_asset :: "asset_patch \<Rightarrow> lineage_asset \<Rightarrow> lineage_store \<Rightarrow> (lineage_store \<times> lineage_asset) res" where
  "update_asset p a st =
     (if ap_asset_name p = Some None \<or> ap_asset_type p = Some None \<or> ap_layer p = Some None \<or> ap_is_active p = Some None
      then Inl (IntegrityError ''lineage_assets'')
      else
        let a1 = a\<lparr>la_asset_name := given_nn (ap_asset_name p) (la_asset_name a),
                la_asset_type := given_nn (ap_asset_type p) (la_asset_type a), la_layer := given_nn (ap_layer p) (la_layer a),
                la_schema_name := given (ap_schema_name p) (la_schema_name a),
                la_object_name := given (ap_object_name p) (la_object_name a),
                la_system_name := given (ap_system_name p) (la_system_name a),
                la_description := given (ap_description p) (la_description a),
                la_datasource_id := given (ap_datasource_id p) (la_datasource_id a),
                la_is_active := given_nn (ap_is_active p) (la_is_active a)\<rparr>;
            a2 = (if la_catalog_table_id a1 \<in> {None, Some 0}
                  then a1\<lparr>la_asset_key := build_asset_key (Some (la_asset_type a1)) (Some (la_layer a1)) (la_system_name a1)
                    (la_schema_name a1) (la_object_name a1) (Some (la_asset_name a1)) None\<rparr>
                  else a1)
        in res_bind (put_asset a2 st) (\<lambda>st'. Inr (st', a2)))"

section \<open>Versions\<close>

definition material_relation_state :: "lineage_relation \<Rightarrow> relation_state" where
  "material_relation_state r = \<lparr>rs_lineage_relation_id = Some (lr_id r), rs_source_asset_id = lr_source_asset_id r,
     rs_target_asset_id = lr_target_asset_id r, rs_relation_type = lr_relation_type r, rs_process_name = lr_process_name r,
     rs_process_type = lr_process_type r, rs_dashboard_name = lr_dashboard_name r, rs_notes = lr_notes r,
     rs_evidence = lr_evidence r, rs_discovery_method = lr_discovery_method r, rs_confidence_score = lr_confidence_score r,
     rs_is_verified = lr_is_verified r, rs_external_edge_key = lr_external_edge_key r, rs_is_active = lr_is_active r,
     rs_created_by_user_id = lr_created_by_user_id r, rs_updated_by_user_id = lr_updated_by_user_id r\<rparr>"

definition version_numbers :: "lineage_store \<Rightarrow> int \<Rightarrow> int list" where
  "version_numbers st i = map rv_number (filter (\<lambda>v. rv_relation_id v = i) (ls_versions st))"

definition next_relation_version :: "lineage_store \<Rightarrow> int \<Rightarrow> int" where
  "next_relation_version st i = (case version_numbers st i of [] \<Rightarrow> 0 | n # ns \<Rightarrow> fold max ns n) + 1"

definition record_relation_version ::
  "instant \<Rightarrow> int option \<Rightarrow> bool \<Rightarrow> relation_state option \<Rightarrow> lineage_relation \<Rightarrow> lineage_store \<Rightarrow> lineage_store" where
  "record_relation_version now actor force previous r st =
     (let current = material_relation_state r in
      if force \<or> previous = None \<or> previous \<noteq> Some current then
        let n = next_relation_version st (lr_id r);
            v = \<lparr>rv_relation_id = lr_id r, rv_number = n, rv_state = current, rv_recorded_by_user_id = actor\<rparr>
        in (put_relation (r\<lparr>lr_version := n, lr_last_seen_at := Some now, lr_updated_at := now\<rparr>) st)\<lparr>ls_versions := ls_versions st @ [v]\<rparr>
      else put_relation (r\<lparr>lr_last_seen_at := Some now, lr_updated_at := now\<rparr>) st)"

section \<open>Relations\<close>

record asset_reference =
  ar_asset_id :: "int option"
  ar_catalog_table_id :: "int option"
  ar_asset :: "asset_in option"

definition resolve_asset_ref :: "asset_reference \<Rightarrow> string \<Rightarrow> lineage_store \<Rightarrow> (lineage_store \<times> lineage_asset) res" where
  "resolve_asset_ref p side st =
     (case ar_asset_id p of
        Some i \<Rightarrow> (case find_asset st i of None \<Rightarrow> http 404 (side @ '' asset not found'') | Some a \<Rightarrow> Inr (st, a))
      | None \<Rightarrow>
          (case ar_catalog_table_id p of
             Some i \<Rightarrow> get_or_create_asset_for_table i st
           | None \<Rightarrow> (case ar_asset p of Some a \<Rightarrow> create_asset a st | None \<Rightarrow> http 422 (side @ '' asset is required''))))"

definition identical :: "int \<Rightarrow> int \<Rightarrow> string \<Rightarrow> string option \<Rightarrow> string option \<Rightarrow> string option \<Rightarrow> lineage_relation \<Rightarrow> bool" where
  "identical source target relation_type process_name process_type dashboard_name r \<longleftrightarrow>
     lr_source_asset_id r = source \<and> lr_target_asset_id r = target \<and> lr_relation_type r = relation_type
     \<and> lr_process_name r = process_name \<and> lr_process_type r = process_type \<and> lr_dashboard_name r = dashboard_name
     \<and> lr_is_active r"

definition ensure_no_duplicate_relation ::
  "int \<Rightarrow> int \<Rightarrow> string \<Rightarrow> string option \<Rightarrow> string option \<Rightarrow> string option \<Rightarrow> int option \<Rightarrow> lineage_store \<Rightarrow> unit res" where
  "ensure_no_duplicate_relation source target relation_type process_name process_type dashboard_name exclude_id st =
     (if list_ex (\<lambda>r. identical source target relation_type process_name process_type dashboard_name r \<and> Some (lr_id r) \<noteq> exclude_id)
           (ls_relations st)
      then http 409 ''An identical lineage relation already exists'' else Inr ())"

record relation_in =
  ri_source :: asset_reference
  ri_target :: asset_reference
  ri_relation_type :: string
  ri_process_name :: "string option"
  ri_process_type :: "string option"
  ri_dashboard_name :: "string option"
  ri_notes :: "string option"
  ri_evidence :: "string option"
  ri_discovery_method :: string
  ri_confidence_score :: int
  ri_is_verified :: "bool option"

definition resolve_ends ::
  "asset_reference \<Rightarrow> asset_reference \<Rightarrow> lineage_store \<Rightarrow> (lineage_store \<times> lineage_asset \<times> lineage_asset) res" where
  "resolve_ends p q st =
     res_bind (resolve_asset_ref p ''Source'' st) (\<lambda>(st1, a). res_bind (resolve_asset_ref q ''Target'' st1) (\<lambda>(st2, b).
       if la_id a = la_id b then http 422 ''Source and target must be different'' else Inr (st2, a, b)))"

definition create_relation :: "instant \<Rightarrow> int option \<Rightarrow> relation_in \<Rightarrow> lineage_store \<Rightarrow> (lineage_store \<times> int) res" where
  "create_relation now actor p st =
     res_bind (resolve_ends (ri_source p) (ri_target p) st) (\<lambda>(st2, a, b).
     res_bind (ensure_no_duplicate_relation (la_id a) (la_id b) (ri_relation_type p) (ri_process_name p) (ri_process_type p)
         (ri_dashboard_name p) None st2) (\<lambda>_.
       let r = \<lparr>lr_id = ls_next_relation st2, lr_lineage_source_id = None, lr_lineage_job_id = None,
             lr_source_asset_id = la_id a, lr_target_asset_id = la_id b, lr_relation_type = ri_relation_type p,
             lr_process_name = ri_process_name p, lr_process_type = ri_process_type p, lr_dashboard_name = ri_dashboard_name p,
             lr_notes = ri_notes p, lr_evidence = ri_evidence p, lr_discovery_method = ri_discovery_method p,
             lr_confidence_score = ri_confidence_score p, lr_version = 1,
             lr_is_verified = (case ri_is_verified p of Some v \<Rightarrow> v | None \<Rightarrow> ri_discovery_method p \<in> {''manual'', ''spreadsheet''}),
             lr_last_seen_at = None, lr_external_edge_key = None, lr_is_active = True, lr_created_by_user_id = actor,
             lr_updated_by_user_id = actor, lr_updated_at = now\<rparr>;
           st3 = st2\<lparr>ls_relations := ls_relations st2 @ [r], ls_next_relation := ls_next_relation st2 + 1\<rparr>
       in Inr (record_relation_version now actor True None r st3, lr_id r)))"

record relation_patch =
  rp_source :: "asset_reference option"
  rp_target :: "asset_reference option"
  rp_relation_type :: "string option"
  rp_process_name :: "string option"
  rp_process_type :: "string option"
  rp_dashboard_name :: "string option"
  rp_notes :: "string option"
  rp_evidence :: "string option"
  rp_confidence_score :: "int option"
  rp_is_verified :: "bool option"
  rp_is_active :: "bool option"

definition reference_to :: "int \<Rightarrow> asset_reference" where
  "reference_to i = \<lparr>ar_asset_id = Some i, ar_catalog_table_id = None, ar_asset = None\<rparr>"

definition or_given :: "'a option \<Rightarrow> 'a option \<Rightarrow> 'a option" where
  "or_given v old = (case v of None \<Rightarrow> old | Some x \<Rightarrow> Some x)"

definition update_relation :: "instant \<Rightarrow> int option \<Rightarrow> relation_patch \<Rightarrow> lineage_relation \<Rightarrow> lineage_store \<Rightarrow> lineage_store res" where
  "update_relation now actor p r st =
     res_bind (resolve_ends (given (rp_source p) (reference_to (lr_source_asset_id r)))
         (given (rp_target p) (reference_to (lr_target_asset_id r))) st) (\<lambda>(st2, a, b).
       let relation_type = or_else (or_empty (rp_relation_type p)) (lr_relation_type r);
           process_name = or_given (rp_process_name p) (lr_process_name r);
           process_type = or_given (rp_process_type p) (lr_process_type r);
           dashboard_name = or_given (rp_dashboard_name p) (lr_dashboard_name r)
       in res_bind (ensure_no_duplicate_relation (la_id a) (la_id b) relation_type process_name process_type dashboard_name
            (Some (lr_id r)) st2) (\<lambda>_.
          let r' = r\<lparr>lr_source_asset_id := la_id a, lr_target_asset_id := la_id b, lr_relation_type := relation_type,
                lr_process_name := process_name, lr_process_type := process_type, lr_dashboard_name := dashboard_name,
                lr_notes := or_given (rp_notes p) (lr_notes r), lr_evidence := or_given (rp_evidence p) (lr_evidence r),
                lr_confidence_score := given (rp_confidence_score p) (lr_confidence_score r),
                lr_is_verified := given (rp_is_verified p) (lr_is_verified r),
                lr_is_active := given (rp_is_active p) (lr_is_active r), lr_updated_by_user_id := actor, lr_updated_at := now\<rparr>
          in Inr (record_relation_version now actor True None r' (put_relation r' st2))))"

definition deactivated :: "instant \<Rightarrow> int option \<Rightarrow> lineage_relation \<Rightarrow> lineage_relation" where
  "deactivated now actor r = r\<lparr>lr_is_active := False, lr_updated_by_user_id := actor, lr_updated_at := now\<rparr>"

definition deactivate_relation :: "instant \<Rightarrow> int option \<Rightarrow> lineage_relation \<Rightarrow> lineage_store \<Rightarrow> lineage_store" where
  "deactivate_relation now actor r st = put_relation (deactivated now actor r) st"

section \<open>Relations of a synchronisation\<close>

record sync_in =
  si_source_id :: int
  si_source_asset :: int
  si_target_asset :: int
  si_relation_type :: string
  si_process_name :: "string option"
  si_process_type :: "string option"
  si_discovery_method :: string
  si_notes :: "string option"
  si_job_id :: "int option"
  si_edge_key :: "string option"

text \<open>The dictionary that \<open>upsert_relation\<close> keeps of a relation before it changes it.\<close>

definition sync_previous_state :: "lineage_relation \<Rightarrow> relation_state" where
  "sync_previous_state r = (material_relation_state r)\<lparr>rs_lineage_relation_id := None\<rparr>"

definition merged_method :: "string \<Rightarrow> string \<Rightarrow> bool" where
  "merged_method current incoming \<longleftrightarrow> current = ''merged'' \<or> {current, incoming} = {''manual'', ''automatic''}
     \<or> {current, incoming} = {''spreadsheet'', ''automatic''}"

definition relation_for_sync :: "sync_in \<Rightarrow> lineage_store \<Rightarrow> lineage_relation option" where
  "relation_for_sync p st =
     (case (if str_true (si_edge_key p) then List.find (\<lambda>r. lr_external_edge_key r = si_edge_key p) (ls_relations st) else None) of
        Some r \<Rightarrow> Some r
      | None \<Rightarrow> List.find (\<lambda>r. lr_source_asset_id r = si_source_asset p \<and> lr_target_asset_id r = si_target_asset p
          \<and> lr_relation_type r = si_relation_type p \<and> lr_is_active r) (ls_relations st))"

definition synced_relation :: "instant \<Rightarrow> sync_in \<Rightarrow> lineage_relation \<Rightarrow> lineage_relation" where
  "synced_relation now p r = r\<lparr>lr_source_asset_id := si_source_asset p, lr_target_asset_id := si_target_asset p,
     lr_process_name := or_opt (si_process_name p) (lr_process_name r),
     lr_process_type := or_opt (si_process_type p) (lr_process_type r), lr_notes := or_opt (si_notes p) (lr_notes r),
     lr_evidence := or_opt (si_notes p) (or_opt (lr_evidence r) (or_opt (si_edge_key p) (Some (si_discovery_method p)))),
     lr_lineage_source_id := Some (si_source_id p), lr_lineage_job_id := or_given (si_job_id p) (lr_lineage_job_id r),
     lr_external_edge_key := or_opt (si_edge_key p) (lr_external_edge_key r), lr_is_active := True,
     lr_last_seen_at := Some now, lr_updated_at := now\<rparr>"

definition upsert_relation :: "instant \<Rightarrow> sync_in \<Rightarrow> lineage_store \<Rightarrow> lineage_store" where
  "upsert_relation now p st =
     (case relation_for_sync p st of
        None \<Rightarrow>
          (let r = synced_relation now p \<lparr>lr_id = ls_next_relation st, lr_lineage_source_id = None, lr_lineage_job_id = None,
                 lr_source_asset_id = si_source_asset p, lr_target_asset_id = si_target_asset p,
                 lr_relation_type = si_relation_type p, lr_process_name = None, lr_process_type = None, lr_dashboard_name = None,
                 lr_notes = None, lr_evidence = None, lr_discovery_method = si_discovery_method p, lr_confidence_score = 100,
                 lr_version = 1, lr_is_verified = False, lr_last_seen_at = None, lr_external_edge_key = None, lr_is_active = True,
                 lr_created_by_user_id = None, lr_updated_by_user_id = None, lr_updated_at = now\<rparr>
           in record_relation_version now None True None r
                (st\<lparr>ls_relations := ls_relations st @ [r], ls_next_relation := ls_next_relation st + 1\<rparr>))
      | Some r \<Rightarrow>
          (let current = py_lower (or_else (lr_discovery_method r) ''manual''); incoming = py_lower (si_discovery_method p);
               r' = synced_relation now p
                 (r\<lparr>lr_discovery_method := (if merged_method current incoming then ''merged'' else incoming)\<rparr>)
           in record_relation_version now None False (Some (sync_previous_state r)) r' (put_relation r' st)))"

section \<open>Visibility\<close>

text \<open>\<open>features/lineage/visibility.py\<close>; \<open>None\<close> stands for every table.  The memo of the session is left out.\<close>

definition visible_lineage_table_id_set :: "rule_table option \<Rightarrow> lineage_store \<Rightarrow> user_row option \<Rightarrow> int list option" where
  "visible_lineage_table_id_set rules st user =
     (if user = None then None
      else if is_admin_role (user_role_names user) then None
      else Some (visible_table_ids rules user (map lt_row (ls_tables st))))"

definition end_visible :: "lineage_store \<Rightarrow> int list \<Rightarrow> int \<Rightarrow> bool" where
  "end_visible st ids i =
     (case Option.bind (find_asset st i) la_catalog_table_id of None \<Rightarrow> False | Some t \<Rightarrow> t \<noteq> 0 \<and> t \<in> set ids)"

definition visible_lineage_asset_ids :: "rule_table option \<Rightarrow> lineage_store \<Rightarrow> user_row option \<Rightarrow> int list option" where
  "visible_lineage_asset_ids rules st user =
     (case visible_lineage_table_id_set rules st user of
        None \<Rightarrow> None
      | Some ids \<Rightarrow>
          if ids = [] then Some []
          else Some (concat (map (\<lambda>r. [lr_source_asset_id r, lr_target_asset_id r])
                 (filter (\<lambda>r. lr_is_active r \<and> end_visible st ids (lr_source_asset_id r) \<and> end_visible st ids (lr_target_asset_id r))
                   (ls_relations st)))
               @ map la_id (filter (\<lambda>a. \<exists>t\<in>set ids. la_catalog_table_id a = Some t) (ls_assets st))))"

definition relation_visible_to_user :: "rule_table option \<Rightarrow> lineage_store \<Rightarrow> user_row option \<Rightarrow> lineage_relation \<Rightarrow> bool" where
  "relation_visible_to_user rules st user r =
     (case visible_lineage_table_id_set rules st user of
        None \<Rightarrow> True
      | Some ids \<Rightarrow> end_visible st ids (lr_source_asset_id r) \<and> end_visible st ids (lr_target_asset_id r))"

definition asset_visible_to_user :: "rule_table option \<Rightarrow> lineage_store \<Rightarrow> user_row option \<Rightarrow> lineage_asset \<Rightarrow> bool" where
  "asset_visible_to_user rules st user a =
     (case visible_lineage_table_id_set rules st user of
        None \<Rightarrow> True
      | Some ids \<Rightarrow>
          (case la_catalog_table_id a of
             Some t \<Rightarrow> t \<in> set ids
           | None \<Rightarrow> (case visible_lineage_asset_ids rules st user of None \<Rightarrow> True | Some as \<Rightarrow> la_id a \<in> set as)))"

definition get_asset_or_404 :: "rule_table option \<Rightarrow> int \<Rightarrow> user_row option \<Rightarrow> lineage_store \<Rightarrow> lineage_asset res" where
  "get_asset_or_404 rules i user st =
     (case find_asset st i of
        None \<Rightarrow> http 404 ''Lineage asset not found''
      | Some a \<Rightarrow> if user \<noteq> None \<and> \<not> asset_visible_to_user rules st user a then http 404 ''Lineage asset not found'' else Inr a)"

text \<open>What \<open>get_table_summary\<close> raises: the table has to be visible when it has an asset, and to exist when it has none.\<close>

definition table_summary_check :: "rule_table option \<Rightarrow> int \<Rightarrow> user_row option \<Rightarrow> lineage_store \<Rightarrow> unit res" where
  "table_summary_check rules i user st =
     (case asset_of_table st i of
        Some a \<Rightarrow> if user \<noteq> None \<and> \<not> asset_visible_to_user rules st user a then http 404 ''Lineage asset not found'' else Inr ()
      | None \<Rightarrow> if find_lineage_table st i = None then http 404 ''Table not found'' else Inr ())"

section \<open>The specification of a table\<close>

record upstream_in =
  ui_name :: "string option"
  ui_object :: "string option"
  ui_database :: "string option"
  ui_schema_name :: "string option"
  ui_datasource_id :: "int option"

record downstream_in =
  di_type :: string
  di_name :: string

record spec_in =
  sp_upstreams :: "upstream_in list"
  sp_process_name :: string
  sp_process_type :: string
  sp_downstreams :: "downstream_in list"
  sp_notes :: "string option"

definition upstream_asset :: "upstream_in \<Rightarrow> asset_in" where
  "upstream_asset u = \<lparr>ai_asset_key = None, ai_catalog_table_id = None,
     ai_asset_name = or_else (or_empty (ui_name u)) (or_else (or_empty (ui_object u)) ''Source''), ai_asset_type = ''table'',
     ai_layer = ''silver'', ai_schema_name = ui_schema_name u, ai_object_name = ui_object u, ai_system_name = ui_database u,
     ai_description = None, ai_datasource_id = ui_datasource_id u\<rparr>"

definition downstream_asset :: "downstream_in \<Rightarrow> asset_in" where
  "downstream_asset d = \<lparr>ai_asset_key = None, ai_catalog_table_id = None, ai_asset_name = di_name d,
     ai_asset_type = (if di_type d = ''dashboard'' then ''dashboard'' else ''table''),
     ai_layer = (if di_type d = ''dashboard'' then ''dashboard'' else ''gold''), ai_schema_name = None,
     ai_object_name = Some (di_name d), ai_system_name = Some ''BI'', ai_description = None, ai_datasource_id = None\<rparr>"

definition spec_relation :: "spec_in \<Rightarrow> int \<Rightarrow> int \<Rightarrow> string \<Rightarrow> string option \<Rightarrow> relation_in" where
  "spec_relation p source target relation_type dashboard = \<lparr>ri_source = reference_to source, ri_target = reference_to target,
     ri_relation_type = relation_type, ri_process_name = Some (sp_process_name p), ri_process_type = Some (sp_process_type p),
     ri_dashboard_name = dashboard, ri_notes = sp_notes p, ri_evidence = None, ri_discovery_method = ''manual'',
     ri_confidence_score = 100, ri_is_verified = None\<rparr>"

definition add_upstream :: "instant \<Rightarrow> int \<Rightarrow> spec_in \<Rightarrow> int \<Rightarrow> upstream_in \<Rightarrow> lineage_store \<Rightarrow> lineage_store res" where
  "add_upstream now actor p i u st =
     res_bind (create_asset (upstream_asset u) st) (\<lambda>(st1, a).
     res_bind (create_relation now (Some actor) (spec_relation p (la_id a) i ''transformation'' None) st1) (\<lambda>(st2, _). Inr st2))"

definition add_downstream :: "instant \<Rightarrow> int \<Rightarrow> spec_in \<Rightarrow> int \<Rightarrow> downstream_in \<Rightarrow> lineage_store \<Rightarrow> lineage_store res" where
  "add_downstream now actor p i d st =
     res_bind (create_asset (downstream_asset d) st) (\<lambda>(st1, a).
     let board = la_asset_type a \<in> {''dashboard'', ''question''} in
     res_bind (create_relation now (Some actor)
       (spec_relation p i (la_id a) (if board then ''consumption'' else ''load'') (if board then Some (di_name d) else None)) st1)
       (\<lambda>(st2, _). Inr st2))"

fun res_fold :: "('a \<Rightarrow> 's \<Rightarrow> 's res) \<Rightarrow> 'a list \<Rightarrow> 's \<Rightarrow> 's res" where
  "res_fold f [] s = Inr s"
| "res_fold f (x # xs) s = res_bind (f x s) (res_fold f xs)"

definition touches :: "int \<Rightarrow> lineage_relation \<Rightarrow> bool" where
  "touches i r \<longleftrightarrow> lr_is_active r \<and> (lr_source_asset_id r = i \<or> lr_target_asset_id r = i)"

definition write_spec :: "instant \<Rightarrow> int \<Rightarrow> int \<Rightarrow> spec_in \<Rightarrow> lineage_store \<Rightarrow> lineage_store res" where
  "write_spec now actor table_id p st =
     res_bind (get_or_create_asset_for_table table_id st) (\<lambda>(st1, a).
       let st2 = st1\<lparr>ls_relations :=
             map (\<lambda>r. if touches (la_id a) r then deactivated now (Some actor) r else r) (ls_relations st1)\<rparr>
       in res_bind (res_fold (add_upstream now actor p (la_id a)) (sp_upstreams p) st2)
            (res_fold (add_downstream now actor p (la_id a)) (sp_downstreams p)))"

text \<open>The specification is committed before it is read back for the reply; so the store changes even when the reply is an
  error.\<close>

definition upsert_lineage_spec ::
  "rule_table option \<Rightarrow> instant \<Rightarrow> user_row \<Rightarrow> int \<Rightarrow> spec_in \<Rightarrow> lineage_store \<Rightarrow> lineage_store \<times> unit res" where
  "upsert_lineage_spec rules now user table_id p st =
     (case write_spec now (user_id user) table_id p st of
        Inl e \<Rightarrow> (st, Inl e)
      | Inr st' \<Rightarrow> (st', table_summary_check rules table_id (Some user) st'))"

section \<open>Routes\<close>

definition put_lineage_spec ::
  "rule_table option \<Rightarrow> instant \<Rightarrow> user_row \<Rightarrow> int \<Rightarrow> spec_in \<Rightarrow> lineage_store \<Rightarrow> lineage_store \<times> unit res" where
  "put_lineage_spec rules now user table_id p st =
     (case require_roles [''admin'', ''editor''] user of
        Inl e \<Rightarrow> (st, Inl e) | Inr _ \<Rightarrow> upsert_lineage_spec rules now user table_id p st)"

definition create_lineage_asset :: "user_row \<Rightarrow> asset_in \<Rightarrow> lineage_store \<Rightarrow> (lineage_store \<times> lineage_asset) res" where
  "create_lineage_asset user p st = res_bind (require_roles [''admin'', ''editor''] user) (\<lambda>_. create_asset p st)"

definition create_asset_from_table :: "user_row \<Rightarrow> int \<Rightarrow> lineage_store \<Rightarrow> (lineage_store \<times> lineage_asset) res" where
  "create_asset_from_table user i st =
     res_bind (require_roles [''admin'', ''editor''] user) (\<lambda>_. get_or_create_asset_for_table i st)"

definition patch_asset :: "rule_table option \<Rightarrow> user_row \<Rightarrow> int \<Rightarrow> asset_patch \<Rightarrow> lineage_store \<Rightarrow> (lineage_store \<times> lineage_asset) res" where
  "patch_asset rules user i p st =
     res_bind (require_roles [''admin'', ''editor''] user) (\<lambda>_.
     res_bind (get_asset_or_404 rules i (Some user) st) (\<lambda>a. update_asset p a st))"

definition manual_lineage_disabled :: "'a res" where
  "manual_lineage_disabled = http 410 ''Linhagem manual foi descontinuada.''"

definition create_manual_relation :: "user_row \<Rightarrow> relation_in \<Rightarrow> lineage_store \<Rightarrow> lineage_store res" where
  "create_manual_relation user p st = res_bind (require_roles [''admin'', ''editor''] user) (\<lambda>_. manual_lineage_disabled)"

section \<open>What every operation keeps\<close>

definition asset_ids :: "lineage_store \<Rightarrow> int set" where
  "asset_ids st = la_id ` set (ls_assets st)"

definition assets_ok :: "lineage_store \<Rightarrow> bool" where
  "assets_ok st \<longleftrightarrow> distinct (map la_id (ls_assets st)) \<and> (\<forall>a\<in>set (ls_assets st). la_id a < ls_next_asset st)
     \<and> distinct (map la_asset_key (ls_assets st))
     \<and> distinct (filter (\<lambda>c. c \<noteq> None) (map la_catalog_table_id (ls_assets st)))"

text \<open>The versions of a relation are numbered from one; the last number is in the row, except for a row \<open>x\<close> whose version
  is about to be recorded.\<close>

definition relation_ok :: "int option \<Rightarrow> lineage_store \<Rightarrow> lineage_relation \<Rightarrow> bool" where
  "relation_ok x st r \<longleftrightarrow> lr_id r < ls_next_relation st \<and> lr_source_asset_id r \<in> asset_ids st \<and> lr_target_asset_id r \<in> asset_ids st
     \<and> (\<exists>n\<ge>0. version_numbers st (lr_id r) = [1..n] \<and> (x = Some (lr_id r) \<or> lr_version r = n))"

definition relations_ok :: "int option \<Rightarrow> lineage_store \<Rightarrow> bool" where
  "relations_ok x st \<longleftrightarrow> distinct (map lr_id (ls_relations st)) \<and> (\<forall>r\<in>set (ls_relations st). relation_ok x st r)
     \<and> (\<forall>v\<in>set (ls_versions st). rv_relation_id v < ls_next_relation st)"

definition lineage_ok :: "lineage_store \<Rightarrow> bool" where
  "lineage_ok st \<longleftrightarrow> assets_ok st \<and> relations_ok None st"

text \<open>What an operation on assets does to the rest of the store.\<close>

definition assets_grow :: "lineage_store \<Rightarrow> lineage_store \<Rightarrow> bool" where
  "assets_grow st st' \<longleftrightarrow> ls_relations st' = ls_relations st \<and> ls_next_relation st' = ls_next_relation st
     \<and> ls_versions st' = ls_versions st \<and> asset_ids st \<subseteq> asset_ids st' \<and> ls_tables st' = ls_tables st \<and> assets_ok st'"

lemma assets_grow_refl: "assets_ok st \<Longrightarrow> assets_grow st st"
  by (simp add: assets_grow_def)

lemma assets_grow_trans: "assets_grow st st1 \<Longrightarrow> assets_grow st1 st2 \<Longrightarrow> assets_grow st st2"
  by (auto simp: assets_grow_def)

lemma assets_grow_ok: "assets_grow st st' \<Longrightarrow> assets_ok st'"
  by (simp add: assets_grow_def)

lemma assets_grow_relations: "assets_grow st st' \<Longrightarrow> relations_ok x st \<Longrightarrow> relations_ok x st'"
  by (auto simp: assets_grow_def relations_ok_def relation_ok_def version_numbers_def)

lemma find_assetD: "find_asset st i = Some a \<Longrightarrow> a \<in> set (ls_assets st) \<and> la_id a = i"
  by (auto simp: find_asset_def find_Some_iff)

lemma asset_of_tableD: "asset_of_table st i = Some a \<Longrightarrow> a \<in> set (ls_assets st) \<and> la_catalog_table_id a = Some i"
  by (auto simp: asset_of_table_def find_Some_iff)

lemma in_asset_ids: "a \<in> set (ls_assets st) \<Longrightarrow> la_id a \<in> asset_ids st"
  by (simp add: asset_ids_def)

text \<open>A list of rows in which no other row has a value keeps that value once.\<close>

lemma replace_absent: "\<forall>k\<in>set xs. f k \<noteq> f a \<Longrightarrow> map (\<lambda>k. if f k = f a then a else k) xs = xs"
  by (induction xs) auto

lemma distinct_filter_replace:
  assumes "distinct (map f xs)" and "distinct (filter P (map g xs))"
    and "\<And>k. k \<in> set xs \<Longrightarrow> f k \<noteq> f a \<Longrightarrow> P (g a) \<Longrightarrow> g k \<noteq> g a"
  shows "distinct (filter P (map g (map (\<lambda>k. if f k = f a then a else k) xs)))"
  using assms
proof (induction xs)
  case (Cons x xs)
  show ?case
  proof (cases "f x = f a")
    case True
    have "f x \<notin> f ` set xs" using Cons.prems(1) by simp
    then have others: "\<forall>k\<in>set xs. f k \<noteq> f a" using True by (metis image_eqI)
    then have "map (\<lambda>k. if f k = f a then a else k) xs = xs" by (rule replace_absent)
    moreover have "g a \<notin> g ` set xs" if "P (g a)"
    proof
      assume "g a \<in> g ` set xs"
      then obtain k where "k \<in> set xs" "g a = g k" by auto
      then show False using Cons.prems(3)[of k] others that by simp
    qed
    moreover have "distinct (filter P (map g xs))" using Cons.prems(2) by (simp split: if_splits)
    ultimately show ?thesis using True by (simp add: Cons.prems)
  next
    case False
    have "distinct (filter P (map g (map (\<lambda>k. if f k = f a then a else k) xs)))"
      using Cons.prems by (intro Cons.IH) (auto split: if_splits)
    moreover have "g x \<notin> (\<lambda>k. g (if f k = f a then a else k)) ` set xs" if "P (g x)"
    proof
      assume "g x \<in> (\<lambda>k. g (if f k = f a then a else k)) ` set xs"
      then obtain k where k: "k \<in> set xs" "g x = g (if f k = f a then a else k)" by auto
      show False
      proof (cases "f k = f a")
        case True
        then show ?thesis using Cons.prems(3)[of x] False k that by simp
      next
        case other: False
        then show ?thesis using Cons.prems(2) k that by (auto simp: image_iff)
      qed
    qed
    ultimately show ?thesis using False by simp
  qed
qed simp

lemma distinct_map_replace:
  assumes "distinct (map f xs)" and "distinct (map g xs)" and "\<And>k. k \<in> set xs \<Longrightarrow> f k \<noteq> f a \<Longrightarrow> g k \<noteq> g a"
  shows "distinct (map g (map (\<lambda>k. if f k = f a then a else k) xs))"
  using distinct_filter_replace[of f xs "\<lambda>_. True" g a] assms by simp

lemma put_asset_grow:
  assumes ok: "assets_ok st" and p: "put_asset a st = Inr st'" and a: "la_id a \<in> asset_ids st"
  shows "assets_grow st st' \<and> la_id a \<in> asset_ids st'"
proof -
  let ?put = "\<lambda>k. if la_id k = la_id a then a else k"
  have st': "st' = st\<lparr>ls_assets := map ?put (ls_assets st)\<rparr>" and free: "\<And>k. k \<in> set (ls_assets st) \<Longrightarrow> \<not> clashes a k"
    using p by (auto simp: put_asset_def list_ex_iff split: if_splits)
  have ids: "la_id \<circ> ?put = la_id" by auto
  have "la_id ` ?put ` set (ls_assets st) = la_id ` set (ls_assets st)" using ids by (simp only: image_comp)
  then have "asset_ids st' = asset_ids st" by (simp add: asset_ids_def st')
  moreover have "distinct (map la_asset_key (map ?put (ls_assets st)))"
    using ok free by (intro distinct_map_replace) (auto simp: assets_ok_def clashes_def)
  moreover have "distinct (filter (\<lambda>c. c \<noteq> None) (map la_catalog_table_id (map ?put (ls_assets st))))"
    using ok free by (intro distinct_filter_replace) (auto simp: assets_ok_def clashes_def)
  moreover have "distinct (map la_id (map ?put (ls_assets st)))" using ok ids by (simp add: assets_ok_def)
  moreover have "\<forall>k\<in>set (map ?put (ls_assets st)). la_id k < ls_next_asset st"
    using ok a by (auto simp: assets_ok_def asset_ids_def)
  ultimately show ?thesis using a by (simp add: assets_grow_def assets_ok_def st')
qed

lemma add_asset_grow:
  assumes ok: "assets_ok st" and p: "add_asset a st = Inr st'" and a: "la_id a = ls_next_asset st"
  shows "assets_grow st st' \<and> la_id a \<in> asset_ids st'"
proof -
  have st': "st' = st\<lparr>ls_assets := ls_assets st @ [a], ls_next_asset := ls_next_asset st + 1\<rparr>"
    and free: "\<And>k. k \<in> set (ls_assets st) \<Longrightarrow> \<not> clashes a k"
    using p by (auto simp: add_asset_def list_ex_iff split: if_splits)
  have ids: "la_id k \<noteq> la_id a" if "k \<in> set (ls_assets st)" for k using ok that a by (fastforce simp: assets_ok_def)
  have fresh: "la_asset_key a \<notin> la_asset_key ` set (ls_assets st)"
    "la_catalog_table_id a \<noteq> None \<Longrightarrow> la_catalog_table_id a \<notin> la_catalog_table_id ` set (ls_assets st)"
    "la_id a \<notin> la_id ` set (ls_assets st)"
    using free ids by (force simp: clashes_def)+
  have "assets_ok st'" using ok fresh a by (auto simp: assets_ok_def st')
  then show ?thesis by (auto simp: assets_grow_def st' asset_ids_def)
qed

lemma get_or_create_grow:
  assumes ok: "assets_ok st" and g: "get_or_create_asset_for_table i st = Inr (st', a)"
  shows "assets_grow st st' \<and> la_id a \<in> asset_ids st'"
proof (cases "asset_of_table st i")
  case (Some k)
  then show ?thesis using g assets_grow_refl[OF ok] asset_of_tableD[OF Some]
    by (simp add: get_or_create_asset_for_table_def in_asset_ids)
next
  case None
  with g obtain t where t: "find_lineage_table st i = Some t"
    by (auto simp: get_or_create_asset_for_table_def http_def split: option.splits)
  show ?thesis
  proof (cases "List.find (same_object t) (ls_assets st)")
    case None': None
    with g None t have "add_asset a st = Inr st'" "la_id a = ls_next_asset st"
      by (auto simp: get_or_create_asset_for_table_def res_bind_Inr_iff Let_def new_table_asset_def)
    then show ?thesis using add_asset_grow[OF ok] by blast
  next
    case (Some k)
    with g None t have "put_asset a st = Inr st'" and a: "a = relinked_asset t k"
      by (auto simp: get_or_create_asset_for_table_def res_bind_Inr_iff)
    moreover have "la_id a \<in> asset_ids st" using Some a by (auto simp: find_Some_iff relinked_asset_def intro: in_asset_ids)
    ultimately show ?thesis using put_asset_grow[OF ok] by blast
  qed
qed

lemma create_asset_grow:
  assumes ok: "assets_ok st" and c: "create_asset p st = Inr (st', a)"
  shows "assets_grow st st' \<and> la_id a \<in> asset_ids st'"
proof (cases "ai_catalog_table_id p")
  case (Some i)
  then show ?thesis using c get_or_create_grow[OF ok] by (simp add: create_asset_def)
next
  case None
  then show ?thesis using c assets_grow_refl[OF ok] add_asset_grow[OF ok, of a st']
    by (auto simp: create_asset_def Let_def res_bind_Inr_iff find_Some_iff intro: in_asset_ids split: option.splits)
qed

lemma update_asset_grow:
  assumes ok: "assets_ok st" and u: "update_asset p k st = Inr (st', a)" and k: "la_id k \<in> asset_ids st"
  shows "assets_grow st st' \<and> la_id a \<in> asset_ids st'"
proof -
  have "put_asset a st = Inr st'" "la_id a = la_id k"
    using u by (auto simp: update_asset_def Let_def res_bind_Inr_iff split: if_splits)
  then show ?thesis using put_asset_grow[OF ok] k by metis
qed

lemma resolve_asset_grow:
  assumes ok: "assets_ok st" and r: "resolve_asset_ref p side st = Inr (st', a)"
  shows "assets_grow st st' \<and> la_id a \<in> asset_ids st'"
proof (cases "ar_asset_id p")
  case (Some i)
  then show ?thesis using r assets_grow_refl[OF ok] find_assetD[of st i a]
    by (auto simp: resolve_asset_ref_def http_def intro: in_asset_ids split: option.splits)
next
  case None
  then show ?thesis using r get_or_create_grow[OF ok] create_asset_grow[OF ok]
    by (auto simp: resolve_asset_ref_def http_def split: option.splits)
qed

lemma resolve_ends_grow:
  assumes ok: "assets_ok st" and r: "resolve_ends p q st = Inr (st', a, b)"
  shows "assets_grow st st' \<and> la_id a \<in> asset_ids st' \<and> la_id b \<in> asset_ids st' \<and> la_id a \<noteq> la_id b"
proof -
  from r obtain st1 where 1: "resolve_asset_ref p ''Source'' st = Inr (st1, a)" "resolve_asset_ref q ''Target'' st1 = Inr (st', b)"
    "la_id a \<noteq> la_id b"
    by (auto simp: resolve_ends_def res_bind_Inr_iff http_def split: if_splits)
  have g1: "assets_grow st st1" "la_id a \<in> asset_ids st1" using resolve_asset_grow[OF ok 1(1)] by auto
  have g2: "assets_grow st1 st'" "la_id b \<in> asset_ids st'" using resolve_asset_grow[OF assets_grow_ok[OF g1(1)] 1(2)] by auto
  show ?thesis using assets_grow_trans[OF g1(1) g2(1)] g1(2) g2 1(3) by (auto simp: assets_grow_def)
qed

lemma next_version_upto: "version_numbers st i = [1..n] \<Longrightarrow> n \<ge> 0 \<Longrightarrow> next_relation_version st i = n + 1"
proof -
  assume v: "version_numbers st i = [1..n]" and n: "n \<ge> 0"
  have "fold max [2..m] 1 = (m::int)" if "m \<ge> 1" for m
    using that by (induction m rule: int_ge_induct) (simp_all add: upto_rec2)
  then show ?thesis using v n upto_rec1[of 1 n] by (cases "n = 0") (auto simp: next_relation_version_def)
qed

lemma relations_ok_weaken: "relations_ok None st \<Longrightarrow> relations_ok x st"
  by (auto simp: relations_ok_def relation_ok_def)

lemma put_relation_frame [simp]:
  "ls_assets (put_relation r st) = ls_assets st" "asset_ids (put_relation r st) = asset_ids st"
  "ls_next_relation (put_relation r st) = ls_next_relation st" "ls_next_asset (put_relation r st) = ls_next_asset st"
  "ls_versions (put_relation r st) = ls_versions st" "version_numbers (put_relation r st) i = version_numbers st i"
  "ls_tables (put_relation r st) = ls_tables st"
  by (simp_all add: put_relation_def asset_ids_def version_numbers_def)

lemma map_lr_id_put: "map lr_id (ls_relations (put_relation r st)) = map lr_id (ls_relations st)"
  by (simp add: put_relation_def)

text \<open>A row replaced by one that still fits its versions, or whose version is about to be recorded.\<close>

lemma put_relation_ok:
  assumes "relations_ok x st" and "k \<in> set (ls_relations st)" and "lr_id r = lr_id k"
    and "lr_source_asset_id r \<in> asset_ids st" and "lr_target_asset_id r \<in> asset_ids st"
    and "x = Some (lr_id k) \<or> lr_version r = lr_version k"
  shows "relations_ok x (put_relation r st)"
proof -
  have k: "relation_ok x st k" using assms(1,2) by (simp add: relations_ok_def)
  then have "relation_ok x (put_relation r st) r" using assms(3-6) by (auto simp: relation_ok_def)
  moreover have "relation_ok x (put_relation r st) j" if "j \<in> set (ls_relations st)" for j
    using assms(1) that by (auto simp: relations_ok_def relation_ok_def)
  ultimately show ?thesis using assms(1) unfolding relations_ok_def map_lr_id_put
    by (auto simp: put_relation_def)
qed

text \<open>Recording a version of a row closes the gap that the row may have left.\<close>

lemma record_version_ok:
  assumes ok: "relations_ok (Some (lr_id r)) st" and k: "k \<in> set (ls_relations st)" "lr_id r = lr_id k"
    and ends: "lr_source_asset_id r \<in> asset_ids st" "lr_target_asset_id r \<in> asset_ids st"
    and quiet: "\<not> force \<Longrightarrow> previous = Some (material_relation_state r) \<Longrightarrow> version_numbers st (lr_id r) = [1..lr_version r] \<and> lr_version r \<ge> 0"
  shows "relations_ok None (record_relation_version now actor force previous r st)"
proof -
  obtain n where n: "n \<ge> 0" "version_numbers st (lr_id r) = [1..n]"
    using ok k by (auto simp: relations_ok_def relation_ok_def)
  have other: "relation_ok None st j" if "j \<in> set (ls_relations st)" "lr_id j \<noteq> lr_id r" for j
    using ok that by (auto simp: relations_ok_def relation_ok_def)
  show ?thesis
  proof (cases "force \<or> previous \<noteq> Some (material_relation_state r)")
    case True
    let ?r = "r\<lparr>lr_version := n + 1, lr_last_seen_at := Some now, lr_updated_at := now\<rparr>"
    define st' where "st' = record_relation_version now actor force previous r st"
    have st': "st' = (put_relation ?r st)\<lparr>ls_versions := ls_versions st @ [\<lparr>rv_relation_id = lr_id r, rv_number = n + 1,
        rv_state = material_relation_state r, rv_recorded_by_user_id = actor\<rparr>]\<rparr>"
      using True next_version_upto[OF n(2,1)] by (auto simp: st'_def record_relation_version_def Let_def)
    have vs: "version_numbers st' j = version_numbers st j @ (if j = lr_id r then [n + 1] else [])" for j
      by (simp add: st' version_numbers_def)
    have fr: "asset_ids st' = asset_ids st" "ls_next_relation st' = ls_next_relation st"
      by (simp_all add: st' asset_ids_def put_relation_def)
    have "[1..n + 1] = [1..n] @ [n + 1]" using n(1) by (simp add: upto_rec2)
    then have "relation_ok None st' ?r" using n k ends ok
      by (auto simp: relation_ok_def relations_ok_def vs fr intro!: exI[of _ "n + 1"])
    moreover have "relation_ok None st' j" if "j \<in> set (ls_relations st)" "lr_id j \<noteq> lr_id r" for j
      using other[OF that] that by (auto simp: relation_ok_def vs fr)
    moreover have "map lr_id (ls_relations st') = map lr_id (ls_relations st)" by (simp add: st' map_lr_id_put)
    moreover have "lr_id r < ls_next_relation st" using ok k by (auto simp: relations_ok_def relation_ok_def)
    ultimately have rows: "relation_ok None st' ?r" "distinct (map lr_id (ls_relations st'))"
      "\<And>j. j \<in> set (ls_relations st) \<Longrightarrow> lr_id j \<noteq> lr_id r \<Longrightarrow> relation_ok None st' j" "lr_id r < ls_next_relation st'"
      using ok by (auto simp: relations_ok_def fr)
    have "\<forall>j\<in>set (ls_relations st'). relation_ok None st' j"
    proof
      fix j assume "j \<in> set (ls_relations st')"
      then have "j = ?r \<or> j \<in> set (ls_relations st) \<and> lr_id j \<noteq> lr_id r" by (auto simp: st' put_relation_def)
      then show "relation_ok None st' j" using rows(1,3) by blast
    qed
    moreover have "\<forall>v\<in>set (ls_versions st'). rv_relation_id v < ls_next_relation st'"
      using ok rows(4) by (auto simp: st' relations_ok_def)
    ultimately have "relations_ok None st'" using rows(2) by (simp add: relations_ok_def)
    then show ?thesis by (simp add: st'_def)
  next
    case False
    let ?r = "r\<lparr>lr_last_seen_at := Some now, lr_updated_at := now\<rparr>"
    have st': "record_relation_version now actor force previous r st = put_relation ?r st"
      using False by (simp add: record_relation_version_def)
    have "relation_ok None (put_relation ?r st) ?r" using quiet False k ends ok by (auto simp: relation_ok_def relations_ok_def)
    moreover have "relation_ok None (put_relation ?r st) j" if "j \<in> set (ls_relations st)" "lr_id j \<noteq> lr_id r" for j
      using other[OF that] by (simp add: relation_ok_def)
    ultimately show ?thesis using ok unfolding st' relations_ok_def map_lr_id_put by (auto simp: put_relation_def)
  qed
qed

text \<open>A new row gets its first version.\<close>

lemma new_relation_ok:
  assumes ok: "relations_ok None st" and i: "lr_id r = ls_next_relation st"
    and ends: "lr_source_asset_id r \<in> asset_ids st" "lr_target_asset_id r \<in> asset_ids st"
  shows "relations_ok None (record_relation_version now actor True previous r
    (st\<lparr>ls_relations := ls_relations st @ [r], ls_next_relation := ls_next_relation st + 1\<rparr>))"
proof -
  let ?st = "st\<lparr>ls_relations := ls_relations st @ [r], ls_next_relation := ls_next_relation st + 1\<rparr>"
  have none: "version_numbers st (lr_id r) = []" using ok i by (auto simp: relations_ok_def version_numbers_def filter_empty_conv)
  have frame: "asset_ids ?st = asset_ids st" "version_numbers ?st j = version_numbers st j" for j
    by (simp_all add: asset_ids_def version_numbers_def)
  have "relation_ok (Some (lr_id r)) ?st r"
    using ends none i by (auto simp: relation_ok_def frame intro!: exI[of _ "0::int"])
  moreover have "relation_ok (Some (lr_id r)) ?st k" "lr_id k \<noteq> lr_id r" if "k \<in> set (ls_relations st)" for k
    using ok that i by (fastforce simp: relation_ok_def relations_ok_def frame)+
  moreover have "lr_id r \<notin> lr_id ` set (ls_relations st)" using calculation(3) by (metis imageE)
  ultimately have "relations_ok (Some (lr_id r)) ?st" using ok by (auto simp: relations_ok_def)
  then show ?thesis using ends by (intro record_version_ok) (auto simp: frame)
qed

lemma lineage_grow: "assets_grow st st' \<Longrightarrow> lineage_ok st \<Longrightarrow> lineage_ok st'"
  using assets_grow_relations[of st st' None] by (auto simp: lineage_ok_def assets_grow_def)

lemma record_version_assets [simp]:
  "ls_assets (record_relation_version now actor force previous r st) = ls_assets st"
  "ls_next_asset (record_relation_version now actor force previous r st) = ls_next_asset st"
  "ls_tables (record_relation_version now actor force previous r st) = ls_tables st"
  by (simp_all add: record_relation_version_def Let_def)

lemma assets_ok_cong: "ls_assets st' = ls_assets st \<Longrightarrow> ls_next_asset st' = ls_next_asset st \<Longrightarrow> assets_ok st' = assets_ok st"
  by (simp add: assets_ok_def)

lemma create_relation_ok:
  assumes ok: "lineage_ok st" and c: "create_relation now actor p st = Inr (st', i)"
  shows "lineage_ok st' \<and> asset_ids st \<subseteq> asset_ids st'"
proof -
  from c obtain st2 a b where e: "resolve_ends (ri_source p) (ri_target p) st = Inr (st2, a, b)"
    and st': "\<exists>r. st' = record_relation_version now actor True None r
        (st2\<lparr>ls_relations := ls_relations st2 @ [r], ls_next_relation := ls_next_relation st2 + 1\<rparr>)
      \<and> lr_id r = ls_next_relation st2 \<and> lr_source_asset_id r = la_id a \<and> lr_target_asset_id r = la_id b"
    by (fastforce simp: create_relation_def Let_def res_bind_Inr_iff)
  have g: "assets_grow st st2" "la_id a \<in> asset_ids st2" "la_id b \<in> asset_ids st2"
    using resolve_ends_grow[OF _ e] ok by (auto simp: lineage_ok_def)
  have ok2: "lineage_ok st2" using lineage_grow[OF g(1) ok] .
  have "ls_assets st' = ls_assets st2" "ls_next_asset st' = ls_next_asset st2" using st' by auto
  then have "assets_ok st'" "asset_ids st' = asset_ids st2" using ok2 by (simp_all add: assets_ok_def lineage_ok_def asset_ids_def)
  moreover have "relations_ok None st'" using st' new_relation_ok ok2 g(2,3) by (auto simp: lineage_ok_def)
  ultimately show ?thesis using g(1) by (auto simp: lineage_ok_def assets_grow_def)
qed

lemma find_relationD: "find_relation st i = Some r \<Longrightarrow> r \<in> set (ls_relations st) \<and> lr_id r = i"
  by (auto simp: find_relation_def find_Some_iff)

lemma update_relation_ok:
  assumes ok: "lineage_ok st" and r: "r \<in> set (ls_relations st)" and u: "update_relation now actor p r st = Inr st'"
  shows "lineage_ok st'"
proof -
  from u obtain st2 a b where
    e: "resolve_ends (given (rp_source p) (reference_to (lr_source_asset_id r)))
      (given (rp_target p) (reference_to (lr_target_asset_id r))) st = Inr (st2, a, b)"
    and st': "\<exists>r'. st' = record_relation_version now actor True None r' (put_relation r' st2)
      \<and> lr_id r' = lr_id r \<and> lr_source_asset_id r' = la_id a \<and> lr_target_asset_id r' = la_id b"
    by (fastforce simp: update_relation_def Let_def res_bind_Inr_iff)
  then obtain r' where r': "st' = record_relation_version now actor True None r' (put_relation r' st2)" "lr_id r' = lr_id r"
    "lr_source_asset_id r' = la_id a" "lr_target_asset_id r' = la_id b" by blast
  have g: "assets_grow st st2" "la_id a \<in> asset_ids st2" "la_id b \<in> asset_ids st2"
    using resolve_ends_grow[OF _ e] ok by (auto simp: lineage_ok_def)
  have ok2: "lineage_ok st2" using lineage_grow[OF g(1) ok] .
  have r2: "r \<in> set (ls_relations st2)" using r g(1) by (simp add: assets_grow_def)
  have "relations_ok (Some (lr_id r')) (put_relation r' st2)"
    using ok2 r2 r' g by (intro put_relation_ok[where k = r]) (auto simp: lineage_ok_def intro: relations_ok_weaken)
  moreover have "r' \<in> set (ls_relations (put_relation r' st2))" using r2 r'(2) by (force simp: put_relation_def)
  ultimately have "relations_ok None st'" using g r' unfolding r'(1) by (intro record_version_ok[where k = r']) auto
  moreover have "assets_ok st'" using ok2 by (simp add: r'(1) lineage_ok_def assets_ok_def)
  ultimately show ?thesis by (simp add: lineage_ok_def)
qed

lemma deactivate_map_ok:
  assumes "lineage_ok st"
  shows "lineage_ok (st\<lparr>ls_relations := map (\<lambda>r. if P r then deactivated now actor r else r) (ls_relations st)\<rparr>)"
proof -
  let ?f = "\<lambda>r. if P r then deactivated now actor r else r"
  let ?st = "st\<lparr>ls_relations := map ?f (ls_relations st)\<rparr>"
  have "lr_id \<circ> ?f = lr_id" by (auto simp: deactivated_def)
  moreover have "relation_ok None ?st (?f r) = relation_ok None st r" for r
    by (simp add: relation_ok_def deactivated_def version_numbers_def asset_ids_def)
  moreover have "\<forall>j\<in>set (ls_relations ?st). relation_ok None ?st j"
  proof
    fix j assume "j \<in> set (ls_relations ?st)"
    then obtain r where "r \<in> set (ls_relations st)" "j = ?f r" by auto
    then show "relation_ok None ?st j" using assms calculation(2) by (simp add: lineage_ok_def relations_ok_def)
  qed
  ultimately have "relations_ok None ?st" using assms by (simp add: lineage_ok_def relations_ok_def)
  then show ?thesis using assms by (simp add: lineage_ok_def assets_ok_def)
qed

lemma deactivate_relation_ok:
  assumes "lineage_ok st" and "r \<in> set (ls_relations st)"
  shows "lineage_ok (deactivate_relation now actor r st)"
proof -
  have "relations_ok None (put_relation (deactivated now actor r) st)"
    using assms by (intro put_relation_ok[where k = r]) (auto simp: lineage_ok_def deactivated_def relations_ok_def relation_ok_def)
  then show ?thesis using assms(1) by (simp add: deactivate_relation_def lineage_ok_def assets_ok_def)
qed

lemma res_fold_invariant:
  assumes "\<And>x s s'. P s \<Longrightarrow> f x s = Inr s' \<Longrightarrow> P s'" and "P s" and "res_fold f xs s = Inr s'"
  shows "P s'"
  using assms(2,3) by (induction xs arbitrary: s) (auto simp: res_bind_Inr_iff intro: assms(1))

lemma created_asset_ok: "lineage_ok st \<Longrightarrow> create_asset p st = Inr (st', a) \<Longrightarrow> lineage_ok st'"
  using create_asset_grow[of st p st' a] lineage_grow[of st st'] by (simp add: lineage_ok_def)

lemma linked_asset_ok:
  assumes ok: "lineage_ok st"
    and l: "res_bind (create_asset q st) (\<lambda>(st1, a). res_bind (create_relation now actor (f a) st1) (\<lambda>(st2, _). Inr st2)) = Inr st'"
  shows "lineage_ok st'"
proof -
  from l obtain st1 a where 1: "create_asset q st = Inr (st1, a)"
    and 2: "res_bind (create_relation now actor (f a) st1) (\<lambda>(st2, _). Inr st2) = Inr st'"
    by (auto simp: res_bind_Inr_iff)
  from 2 obtain i where "create_relation now actor (f a) st1 = Inr (st', i)" by (auto simp: res_bind_Inr_iff)
  then show ?thesis using create_relation_ok[OF created_asset_ok[OF ok 1]] by blast
qed

lemma add_upstream_ok: "lineage_ok st \<Longrightarrow> add_upstream now actor p i u st = Inr st' \<Longrightarrow> lineage_ok st'"
  unfolding add_upstream_def by (rule linked_asset_ok)

lemma add_downstream_ok: "lineage_ok st \<Longrightarrow> add_downstream now actor p i d st = Inr st' \<Longrightarrow> lineage_ok st'"
  unfolding add_downstream_def Let_def by (rule linked_asset_ok)

lemma write_spec_ok:
  assumes ok: "lineage_ok st" and w: "write_spec now actor i p st = Inr st'"
  shows "lineage_ok st'"
proof -
  from w obtain st1 a st3 where g: "get_or_create_asset_for_table i st = Inr (st1, a)"
    and up: "res_fold (add_upstream now actor p (la_id a)) (sp_upstreams p) (st1\<lparr>ls_relations :=
        map (\<lambda>r. if touches (la_id a) r then deactivated now (Some actor) r else r) (ls_relations st1)\<rparr>) = Inr st3"
    and down: "res_fold (add_downstream now actor p (la_id a)) (sp_downstreams p) st3 = Inr st'"
    by (auto simp: write_spec_def Let_def res_bind_Inr_iff)
  have "lineage_ok st1" using lineage_grow[OF _ ok] get_or_create_grow[OF _ g] ok by (simp add: lineage_ok_def)
  from deactivate_map_ok[OF this] have "lineage_ok st3"
    by (rule res_fold_invariant[where P = lineage_ok, rotated, OF _ up]) (rule add_upstream_ok)
  then show ?thesis by (rule res_fold_invariant[where P = lineage_ok, rotated, OF _ down]) (rule add_downstream_ok)
qed

lemma upsert_relation_ok:
  assumes ok: "lineage_ok st" and ends: "si_source_asset p \<in> asset_ids st" "si_target_asset p \<in> asset_ids st"
  shows "lineage_ok (upsert_relation now p st)"
proof -
  have synced: "lr_id (synced_relation now p r) = lr_id r" "lr_source_asset_id (synced_relation now p r) = si_source_asset p"
    "lr_target_asset_id (synced_relation now p r) = si_target_asset p" "lr_version (synced_relation now p r) = lr_version r" for r
    by (simp_all add: synced_relation_def)
  have "relations_ok None (upsert_relation now p st)"
  proof (cases "relation_for_sync p st")
    case None
    then show ?thesis using ok ends by (simp add: upsert_relation_def Let_def lineage_ok_def new_relation_ok synced)
  next
    case (Some r)
    then have r: "r \<in> set (ls_relations st)"
      by (auto simp: relation_for_sync_def find_Some_iff split: option.splits if_splits)
    define r' where "r' = synced_relation now p (r\<lparr>lr_discovery_method :=
      (if merged_method (py_lower (or_else (lr_discovery_method r) ''manual'')) (py_lower (si_discovery_method p))
       then ''merged'' else py_lower (si_discovery_method p))\<rparr>)"
    have r': "lr_id r' = lr_id r" "lr_source_asset_id r' \<in> asset_ids st" "lr_target_asset_id r' \<in> asset_ids st"
      "lr_version r' = lr_version r" using ends by (simp_all add: r'_def synced)
    have "relations_ok None (put_relation r' st)" using ok r r' by (intro put_relation_ok) (auto simp: lineage_ok_def)
    moreover have "r' \<in> set (ls_relations (put_relation r' st))" using r r'(1) by (force simp: put_relation_def)
    moreover have "version_numbers st (lr_id r') = [1..lr_version r'] \<and> lr_version r' \<ge> 0"
      using ok r r'(1,4) by (auto simp: lineage_ok_def relations_ok_def relation_ok_def)
    moreover have "upsert_relation now p st = record_relation_version now None False (Some (sync_previous_state r)) r' (put_relation r' st)"
      using Some by (simp add: upsert_relation_def Let_def r'_def)
    ultimately show ?thesis using r'(2,3) by (simp add: record_version_ok[where k = r'] relations_ok_weaken)
  qed
  moreover have "assets_ok (upsert_relation now p st)"
    using ok by (auto simp: upsert_relation_def Let_def lineage_ok_def assets_ok_def split: option.splits)
  ultimately show ?thesis by (simp add: lineage_ok_def)
qed

section \<open>Histories\<close>

datatype lineage_op =
    New_asset user_row asset_in
  | Asset_for_table user_row int
  | Change_asset "rule_table option" user_row int asset_patch
  | Put_spec "rule_table option" instant user_row int spec_in
  | Synchronise instant sync_in
  | New_relation instant "int option" relation_in
  | Change_relation instant "int option" int relation_patch
  | Drop_relation instant "int option" int
  | Table_gone int
  | Catalog_now "lineage_table list"

text \<open>A synchronisation names two assets of the store; a deleted table leaves its asset behind.\<close>

definition lineage_step :: "lineage_store \<Rightarrow> lineage_op \<Rightarrow> lineage_store" where
  "lineage_step st oper =
     (case oper of
        New_asset user p \<Rightarrow> or_same st (map_sum id fst (create_lineage_asset user p st))
      | Asset_for_table user i \<Rightarrow> or_same st (map_sum id fst (create_asset_from_table user i st))
      | Change_asset rules user i p \<Rightarrow> or_same st (map_sum id fst (patch_asset rules user i p st))
      | Put_spec rules now user i p \<Rightarrow> fst (put_lineage_spec rules now user i p st)
      | Synchronise now p \<Rightarrow>
          if find_asset st (si_source_asset p) \<noteq> None \<and> find_asset st (si_target_asset p) \<noteq> None then upsert_relation now p st else st
      | New_relation now actor p \<Rightarrow> or_same st (map_sum id fst (create_relation now actor p st))
      | Change_relation now actor i p \<Rightarrow>
          (case find_relation st i of None \<Rightarrow> st | Some r \<Rightarrow> or_same st (update_relation now actor p r st))
      | Drop_relation now actor i \<Rightarrow> (case find_relation st i of None \<Rightarrow> st | Some r \<Rightarrow> deactivate_relation now actor r st)
      | Table_gone i \<Rightarrow> st\<lparr>ls_tables := filter (\<lambda>t. lt_id t \<noteq> i) (ls_tables st),
          ls_assets := map (\<lambda>a. a\<lparr>la_catalog_table_id := (if la_catalog_table_id a = Some i then None else la_catalog_table_id a)\<rparr>)
            (ls_assets st)\<rparr>
      | Catalog_now ts \<Rightarrow> st\<lparr>ls_tables := ts\<rparr>)"

lemma find_asset_ids: "find_asset st i \<noteq> None \<Longrightarrow> i \<in> asset_ids st"
  using find_assetD in_asset_ids by fastforce

lemma distinct_cleared: "distinct (filter (\<lambda>c. c \<noteq> None) cs) \<Longrightarrow>
    distinct (filter (\<lambda>c. c \<noteq> None) (map (\<lambda>c. if c = Some i then None else c) cs))"
  by (induction cs) (auto split: if_splits)

lemma table_gone_ok:
  assumes "lineage_ok st"
  shows "lineage_ok (lineage_step st (Table_gone i))"
proof -
  let ?clear = "\<lambda>a. a\<lparr>la_catalog_table_id := (if la_catalog_table_id a = Some i then None else la_catalog_table_id a)\<rparr>"
  let ?st = "lineage_step st (Table_gone i)"
  have st: "ls_assets ?st = map ?clear (ls_assets st)" "ls_next_asset ?st = ls_next_asset st"
    "ls_relations ?st = ls_relations st" "ls_next_relation ?st = ls_next_relation st" "ls_versions ?st = ls_versions st"
    by (simp_all add: lineage_step_def)
  have ids: "asset_ids ?st = asset_ids st" by (simp add: asset_ids_def st(1) image_image)
  have "map la_catalog_table_id (ls_assets ?st)
      = map (\<lambda>c. if c = Some i then None else c) (map la_catalog_table_id (ls_assets st))" by (simp add: st(1))
  note cleared = this
  have "distinct (filter (\<lambda>c. c \<noteq> None) (map la_catalog_table_id (ls_assets st)))"
    using assms by (simp only: lineage_ok_def assets_ok_def)
  from distinct_cleared[OF this] have "distinct (filter (\<lambda>c. c \<noteq> None) (map la_catalog_table_id (ls_assets ?st)))"
    unfolding cleared .
  moreover have "map la_id (map ?clear (ls_assets st)) = map la_id (ls_assets st)"
    "map la_asset_key (map ?clear (ls_assets st)) = map la_asset_key (ls_assets st)" by simp_all
  ultimately have "assets_ok ?st" using assms unfolding lineage_ok_def assets_ok_def st(2) by (auto simp: st(1) o_def)
  moreover have "relations_ok None ?st"
    using assms by (simp add: lineage_ok_def relations_ok_def relation_ok_def version_numbers_def st(3-5) ids)
  ultimately show ?thesis by (simp add: lineage_ok_def)
qed

lemma lineage_step_ok: "lineage_ok st \<Longrightarrow> lineage_ok (lineage_step st oper)"
proof (induction oper)
  case (New_asset user p)
  then show ?case using created_asset_ok
    by (cases "create_lineage_asset user p st") (auto simp: lineage_step_def create_lineage_asset_def res_bind_Inr_iff)
next
  case (Asset_for_table user i)
  then show ?case using get_or_create_grow[of st i] lineage_grow[of st]
    by (cases "create_asset_from_table user i st")
      (auto simp: lineage_step_def create_asset_from_table_def res_bind_Inr_iff lineage_ok_def)
next
  case (Change_asset rules user i p)
  show ?case
  proof (cases "patch_asset rules user i p st")
    case (Inr r)
    then obtain k st' a where "get_asset_or_404 rules i (Some user) st = Inr k" "update_asset p k st = Inr (st', a)" "r = (st', a)"
      by (cases r) (auto simp: patch_asset_def res_bind_Inr_iff)
    moreover have "la_id k \<in> asset_ids st"
      using calculation(1) find_assetD by (fastforce simp: get_asset_or_404_def http_def intro: in_asset_ids split: option.splits if_splits)
    ultimately show ?thesis using Change_asset update_asset_grow[of st p k st' a] lineage_grow[of st st'] Inr
      by (simp add: lineage_step_def lineage_ok_def)
  qed (simp add: lineage_step_def Change_asset)
next
  case (Put_spec rules now user i p)
  then show ?case using write_spec_ok
    by (auto simp: lineage_step_def put_lineage_spec_def upsert_lineage_spec_def split: sum.splits)
next
  case (Synchronise now p)
  then show ?case by (auto simp: lineage_step_def intro!: upsert_relation_ok find_asset_ids)
next
  case (New_relation now actor p)
  then show ?case using create_relation_ok by (cases "create_relation now actor p st") (auto simp: lineage_step_def)
next
  case (Change_relation now actor i p)
  then show ?case using update_relation_ok find_relationD
    by (fastforce simp: lineage_step_def or_same_def split: option.splits sum.splits)
next
  case (Drop_relation now actor i)
  then show ?case using deactivate_relation_ok find_relationD by (fastforce simp: lineage_step_def split: option.splits)
next
  case (Table_gone i)
  then show ?case by (rule table_gone_ok)
next
  case (Catalog_now ts)
  then show ?case
    by (simp add: lineage_step_def lineage_ok_def assets_ok_def relations_ok_def relation_ok_def version_numbers_def asset_ids_def)
qed

interpretation lineage: invariant_machine lineage_step lineage_ok
  by unfold_locales (rule lineage_step_ok)

text \<open>C28: In every history of lineage operations, specifications and synchronisations assets have distinct numbers and keys
  and stand for distinct tables, relations connect assets that exist, and the versions of a relation are numbered from one
  without gaps up to the number in its row.\<close>

theorem lineage_ok_history: "lineage_ok st \<Longrightarrow> lineage_ok (foldl lineage_step st es)"
  by (rule lineage.inv_run)

section \<open>Properties\<close>

text \<open>A synchronisation records a version of a relation every time, also when nothing changed: the state it compares
  with lacks the number of the relation.\<close>

theorem every_sync_versions: "\<exists>v. ls_versions (upsert_relation now p st) = ls_versions st @ [v]"
  by (simp add: upsert_relation_def record_relation_version_def Let_def material_relation_state_def sync_previous_state_def
      split: option.splits)

definition last_version :: "lineage_store \<Rightarrow> int \<Rightarrow> relation_version option" where
  "last_version st i =
     (case filter (\<lambda>v. rv_relation_id v = i) (ls_versions st) of [] \<Rightarrow> None | v # vs \<Rightarrow> Some (last (v # vs)))"

lemma find_put_relation:
  assumes "k \<in> set (ls_relations st)" and "lr_id r = lr_id k"
  shows "find_relation (put_relation r st) (lr_id r) = Some r"
proof -
  have "k \<in> set rs \<Longrightarrow> List.find (\<lambda>j. lr_id j = lr_id r) (map (\<lambda>j. if lr_id j = lr_id r then r else j) rs) = Some r" for rs
    using assms(2) by (induction rs) auto
  then show ?thesis using assms(1) by (simp add: find_relation_def put_relation_def)
qed

lemma recorded_state:
  assumes "k \<in> set (ls_relations st)" and "lr_id r = lr_id k"
  shows "\<exists>r' v. find_relation (record_relation_version now actor True previous r st) (lr_id r) = Some r'
    \<and> last_version (record_relation_version now actor True previous r st) (lr_id r) = Some v
    \<and> rv_state v = material_relation_state r' \<and> rv_number v = lr_version r' \<and> rv_recorded_by_user_id v = actor"
proof -
  let ?n = "next_relation_version st (lr_id r)"
  let ?r = "r\<lparr>lr_version := ?n, lr_last_seen_at := Some now, lr_updated_at := now\<rparr>"
  let ?v = "\<lparr>rv_relation_id = lr_id r, rv_number = ?n, rv_state = material_relation_state r, rv_recorded_by_user_id = actor\<rparr>"
  have st': "record_relation_version now actor True previous r st = (put_relation ?r st)\<lparr>ls_versions := ls_versions st @ [?v]\<rparr>"
    by (simp add: record_relation_version_def Let_def)
  have "find_relation ((put_relation ?r st)\<lparr>ls_versions := vs\<rparr>) (lr_id r) = Some ?r" for vs
    using find_put_relation[OF assms(1), of ?r] assms(2) by (simp add: find_relation_def)
  moreover have "last_version ((put_relation ?r st)\<lparr>ls_versions := ls_versions st @ [?v]\<rparr>) (lr_id r) = Some ?v"
    by (cases "filter (\<lambda>v. rv_relation_id v = lr_id r) (ls_versions st)") (simp_all add: last_version_def)
  moreover have "material_relation_state ?r = material_relation_state r" by (simp add: material_relation_state_def)
  ultimately show ?thesis unfolding st' by auto
qed

text \<open>After a relation was created or changed its newest version is what the row says and who wrote it.\<close>

theorem version_is_state:
  assumes "create_relation now actor p st = Inr (st', i)
    \<or> (r \<in> set (ls_relations st) \<and> i = lr_id r \<and> update_relation now actor q r st = Inr st' \<and> lineage_ok st)"
  shows "\<exists>r' v. find_relation st' i = Some r' \<and> last_version st' i = Some v \<and> rv_state v = material_relation_state r'
    \<and> rv_number v = lr_version r' \<and> rv_recorded_by_user_id v = actor"
  using assms
proof
  assume "create_relation now actor p st = Inr (st', i)"
  then obtain st3 k where "st' = record_relation_version now actor True None k st3" "i = lr_id k" "k \<in> set (ls_relations st3)"
    by (fastforce simp: create_relation_def Let_def res_bind_Inr_iff)
  then show ?thesis using recorded_state[of k st3 k] by blast
next
  assume u: "r \<in> set (ls_relations st) \<and> i = lr_id r \<and> update_relation now actor q r st = Inr st' \<and> lineage_ok st"
  then obtain st2 a b where e: "resolve_ends (given (rp_source q) (reference_to (lr_source_asset_id r)))
      (given (rp_target q) (reference_to (lr_target_asset_id r))) st = Inr (st2, a, b)"
    and st': "\<exists>r'. st' = record_relation_version now actor True None r' (put_relation r' st2) \<and> lr_id r' = lr_id r"
    by (fastforce simp: update_relation_def Let_def res_bind_Inr_iff)
  then obtain r' where r': "st' = record_relation_version now actor True None r' (put_relation r' st2)" "lr_id r' = lr_id r" by blast
  have "r \<in> set (ls_relations st2)" using resolve_ends_grow[OF _ e] u by (auto simp: assets_grow_def lineage_ok_def)
  then have "r' \<in> set (ls_relations (put_relation r' st2))" using r'(2) by (force simp: put_relation_def)
  moreover have "i = lr_id r'" using u r'(2) by simp
  ultimately show ?thesis unfolding r'(1) by (simp only: recorded_state)
qed

text \<open>A relation that is deactivated has no version that says so: its newest version still shows it active.\<close>

theorem deactivation_unversioned:
  assumes "r \<in> set (ls_relations st)" and "lr_is_active r"
    and "last_version st (lr_id r) = Some v" and "rv_state v = material_relation_state r"
  shows "\<exists>r'. find_relation (deactivate_relation now actor r st) (lr_id r) = Some r' \<and> \<not> lr_is_active r'
    \<and> last_version (deactivate_relation now actor r st) (lr_id r) = Some v \<and> rs_is_active (rv_state v)"
proof -
  have "find_relation (deactivate_relation now actor r st) (lr_id r) = Some (deactivated now actor r)"
    using find_put_relation[OF assms(1), of "deactivated now actor r"] by (simp add: deactivate_relation_def deactivated_def)
  then show ?thesis using assms
    by (simp add: deactivated_def deactivate_relation_def last_version_def material_relation_state_def)
qed

text \<open>Two tables of the same schema and name in two databases of one source share an asset: preparing the second one
  takes the asset, with all its relations, away from the first.\<close>

theorem asset_taken_over:
  assumes ok: "lineage_ok st" and a: "asset_of_table st i = Some a" and t: "find_lineage_table st j = Some t"
    and new: "asset_of_table st j = None" and same: "List.find (same_object t) (ls_assets st) = Some a"
    and g: "get_or_create_asset_for_table j st = Inr (st', b)"
  shows "la_id b = la_id a \<and> la_catalog_table_id b = Some j \<and> asset_of_table st' i = None"
proof -
  have j: "lt_id t = j" using t by (auto simp: find_lineage_table_def find_Some_iff)
  have p: "put_asset (relinked_asset t a) st = Inr st'" and b: "b = relinked_asset t a"
    using g new t same by (auto simp: get_or_create_asset_for_table_def res_bind_Inr_iff)
  have ai: "a \<in> set (ls_assets st)" "la_catalog_table_id a = Some i" using asset_of_tableD[OF a] by auto
  have ij: "i \<noteq> j" using a new by auto
  have st': "ls_assets st' = map (\<lambda>k. if la_id k = la_id a then b else k) (ls_assets st)"
    using p b by (auto simp: put_asset_def relinked_asset_def split: if_splits)
  have only: "k = a" if "k \<in> set (ls_assets st)" "la_catalog_table_id k = Some i" for k
  proof -
    have "distinct (filter (\<lambda>c. c \<noteq> None) (map la_catalog_table_id (ls_assets st)))"
      using ok by (simp only: lineage_ok_def assets_ok_def)
    moreover have "k \<in> set xs \<Longrightarrow> a \<in> set xs \<Longrightarrow> distinct (filter (\<lambda>c. c \<noteq> None) (map la_catalog_table_id xs)) \<Longrightarrow> k = a" for xs
      using that(2) ai(2) by (induction xs) (auto simp: image_iff split: if_splits)
    ultimately show ?thesis using that(1) ai(1) by blast
  qed
  have "asset_of_table st' i = None"
    using only ij b j by (auto simp: asset_of_table_def find_None_iff st' relinked_asset_def split: if_splits)
  then show ?thesis using b j by (simp add: relinked_asset_def)
qed

text \<open>The specification of a table is replaced before the request asks whether the table may be seen: an editor who
  cannot see a table gets the answer 404, and all its relations are deactivated.\<close>

theorem hidden_table_spec_written:
  assumes a: "asset_of_table st i = Some a" and hidden: "\<not> asset_visible_to_user rules st (Some u) a"
    and role: "require_roles [''admin'', ''editor''] u = Inr u" and empty: "sp_upstreams p = []" "sp_downstreams p = []"
  shows "isl (snd (put_lineage_spec rules now u i p st))
    \<and> ls_relations (fst (put_lineage_spec rules now u i p st))
      = map (\<lambda>r. if touches (la_id a) r then deactivated now (Some (user_id u)) r else r) (ls_relations st)"
proof -
  let ?st = "st\<lparr>ls_relations := map (\<lambda>r. if touches (la_id a) r then deactivated now (Some (user_id u)) r else r) (ls_relations st)\<rparr>"
  have w: "write_spec now (user_id u) i p st = Inr ?st"
    using a empty by (simp add: write_spec_def get_or_create_asset_for_table_def)
  have i: "la_catalog_table_id a = Some i" using asset_of_tableD[OF a] by simp
  have "asset_visible_to_user rules ?st (Some u) a = asset_visible_to_user rules st (Some u) a"
    by (simp add: asset_visible_to_user_def visible_lineage_table_id_set_def i)
  then have "isl (table_summary_check rules i (Some u) ?st)"
    using a hidden by (simp add: table_summary_check_def asset_of_table_def http_def)
  then show ?thesis using role w by (simp add: put_lineage_spec_def upsert_lineage_spec_def)
qed

text \<open>C29: To a user who is no administrator exactly the assets of visible tables are visible, in every state of the
  invariant.  An asset without a table, such as a dashboard, is visible to none of them, whatever it is related to: the
  active relations, which are all read to find out, add only the assets of visible tables.\<close>

theorem asset_visible_iff:
  assumes "lineage_ok st" and "a \<in> set (ls_assets st)" and "\<not> is_admin_role (user_role_names (Some u))"
  shows "asset_visible_to_user rules st (Some u) a
    \<longleftrightarrow> (\<exists>t. la_catalog_table_id a = Some t \<and> t \<in> set (visible_table_ids rules (Some u) (map lt_row (ls_tables st))))"
proof (cases "la_catalog_table_id a")
  case (Some t)
  then show ?thesis using assms(3) by (simp add: asset_visible_to_user_def visible_lineage_table_id_set_def)
next
  case None
  have "find_asset st i = Some k \<Longrightarrow> i = la_id a \<Longrightarrow> k = a" for i k
    using find_assetD[of st i k] assms(1,2) by (auto simp: lineage_ok_def assets_ok_def distinct_map inj_on_def)
  then have "\<not> end_visible st ids (la_id a)" for ids using None by (auto simp: end_visible_def split: option.splits bind_splits)
  then have "\<not> end_visible st ids i" if "la_id a = i" for ids i using that by simp
  moreover have "la_id a \<noteq> la_id k" if "k \<in> set (ls_assets st)" "la_catalog_table_id k = Some t" for k t
    using assms(1,2) that None by (auto simp: lineage_ok_def assets_ok_def distinct_map inj_on_def)
  ultimately have "la_id a \<notin> set (the (visible_lineage_asset_ids rules st (Some u)))"
    using assms(3) by (auto simp: visible_lineage_asset_ids_def visible_lineage_table_id_set_def)
  then show ?thesis using None assms(3)
    by (auto simp: asset_visible_to_user_def visible_lineage_asset_ids_def visible_lineage_table_id_set_def split: if_splits)
qed

section \<open>Concrete instances\<close>

definition demo_lineage_table :: "int \<Rightarrow> lineage_table" where
  "demo_lineage_table i = \<lparr>lt_row = plain_table\<lparr>table_pk := i\<rparr>, lt_name = ''users'', lt_type = ''table'', lt_schema_name = ''public'',
     lt_datasource_id = 1, lt_datasource_name = ''crm'', lt_description_manual = None, lt_description_source = None\<rparr>"

definition demo_board :: asset_in where
  "demo_board = \<lparr>ai_asset_key = None, ai_catalog_table_id = None, ai_asset_name = ''Sales 2024'', ai_asset_type = ''dashboard'',
     ai_layer = ''dashboard'', ai_schema_name = None, ai_object_name = None, ai_system_name = Some ''BI'',
     ai_description = None, ai_datasource_id = None\<rparr>"

definition demo_lineage :: lineage_store where
  "demo_lineage = \<lparr>ls_tables = [demo_lineage_table 1, demo_lineage_table 2], ls_assets = [], ls_next_asset = 1,
     ls_relations = [], ls_next_relation = 1, ls_versions = []\<rparr>"

definition demo_relation :: relation_in where
  "demo_relation = \<lparr>ri_source = \<lparr>ar_asset_id = None, ar_catalog_table_id = Some 1, ar_asset = None\<rparr>,
     ri_target = \<lparr>ar_asset_id = None, ar_catalog_table_id = None, ar_asset = Some demo_board\<rparr>, ri_relation_type = ''consumption'',
     ri_process_name = None, ri_process_type = None, ri_dashboard_name = None, ri_notes = None, ri_evidence = None,
     ri_discovery_method = ''manual'', ri_confidence_score = 100, ri_is_verified = None\<rparr>"

definition demo_row :: lineage_relation where
  "demo_row = \<lparr>lr_id = 1, lr_lineage_source_id = None, lr_lineage_job_id = None, lr_source_asset_id = 1, lr_target_asset_id = 2,
     lr_relation_type = ''consumption'', lr_process_name = None, lr_process_type = None, lr_dashboard_name = None, lr_notes = None,
     lr_evidence = None, lr_discovery_method = ''manual'', lr_confidence_score = 100, lr_version = 1, lr_is_verified = True,
     lr_last_seen_at = Some 5, lr_external_edge_key = None, lr_is_active = True, lr_created_by_user_id = Some 7,
     lr_updated_by_user_id = Some 7, lr_updated_at = 5\<rparr>"

definition demo_asset :: lineage_asset where
  "demo_asset = \<lparr>la_id = 1, la_lineage_source_id = None, la_catalog_table_id = Some 1, la_datasource_id = Some 1,
     la_asset_key = ''catalog_table:1'', la_asset_name = ''public.users'', la_asset_type = ''table'', la_layer = ''gold'',
     la_schema_name = Some ''public'', la_object_name = Some ''users'', la_system_name = Some ''crm'', la_description = None,
     la_asset_origin = ''manual'', la_external_node_id = None, la_external_namespace = None, la_external_name = None,
     la_external_type = None, la_is_active = True\<rparr>"

text \<open>What \<open>demo_relation\<close> makes of \<open>demo_lineage\<close>.\<close>

definition demo_linked :: lineage_store where
  "demo_linked = demo_lineage\<lparr>
     ls_assets := [demo_asset, demo_asset\<lparr>la_id := 2, la_catalog_table_id := None, la_datasource_id := None,
       la_asset_key := ''dashboard:dashboard:bi:sales_2024'', la_asset_name := ''Sales 2024'', la_asset_type := ''dashboard'',
       la_layer := ''dashboard'', la_schema_name := None, la_object_name := None, la_system_name := Some ''BI''\<rparr>],
     ls_next_asset := 3, ls_relations := [demo_row], ls_next_relation := 2,
     ls_versions := [\<lparr>rv_relation_id = 1, rv_number = 1, rv_state = material_relation_state demo_row, rv_recorded_by_user_id = Some 7\<rparr>]\<rparr>"

lemma demo_linked_step: "lineage_step demo_lineage (New_relation 5 (Some 7) demo_relation) = demo_linked"
  by code_simp

definition demo_spec :: spec_in where
  "demo_spec = \<lparr>sp_upstreams = [], sp_process_name = ''p'', sp_process_type = ''manual'', sp_downstreams = [], sp_notes = None\<rparr>"

lemma demo_lineage_ok: "lineage_ok demo_lineage"
  by (simp add: lineage_ok_def assets_ok_def relations_ok_def demo_lineage_def)

theorem lineage_ok_history_witness: "lineage_ok demo_linked"
  using lineage_ok_history[OF demo_lineage_ok, where es = "[New_relation 5 (Some 7) demo_relation]"] by (simp add: demo_linked_step)

lemma demo_linked_ok: "lineage_ok demo_linked"
  unfolding demo_linked_step[symmetric] by (rule lineage_step_ok[OF demo_lineage_ok])

lemma demo_relation_created: "\<exists>st'. create_relation 5 (Some 7) demo_relation demo_lineage = Inr (st', 1)"
proof -
  have "map_sum id snd (create_relation 5 (Some 7) demo_relation demo_lineage) = Inr 1" by code_simp
  then show ?thesis by (cases "create_relation 5 (Some 7) demo_relation demo_lineage") auto
qed

theorem version_is_state_witness:
  "\<exists>st' r v. create_relation 5 (Some 7) demo_relation demo_lineage = Inr (st', 1) \<and> find_relation st' 1 = Some r
    \<and> last_version st' 1 = Some v \<and> rv_state v = material_relation_state r"
proof -
  obtain st' where st': "create_relation 5 (Some 7) demo_relation demo_lineage = Inr (st', 1)" using demo_relation_created by blast
  from version_is_state[OF disjI1, OF st'] show ?thesis using st' by blast
qed

theorem deactivation_unversioned_witness:
  "\<exists>r. find_relation (deactivate_relation 6 None demo_row demo_linked) 1 = Some r \<and> \<not> lr_is_active r"
proof -
  have "demo_row \<in> set (ls_relations demo_linked)" "lr_is_active demo_row" "lr_id demo_row = 1"
    "last_version demo_linked (lr_id demo_row) = Some (hd (ls_versions demo_linked))"
    "rv_state (hd (ls_versions demo_linked)) = material_relation_state demo_row"
    by (simp_all add: demo_linked_def demo_row_def last_version_def)
  from deactivation_unversioned[OF this(1,2,4,5), of 6 None] this(3) show ?thesis by auto
qed

lemma demo_takeover:
  "asset_of_table demo_linked 1 = Some demo_asset" "find_lineage_table demo_linked 2 = Some (demo_lineage_table 2)"
  "asset_of_table demo_linked 2 = None" "List.find (same_object (demo_lineage_table 2)) (ls_assets demo_linked) = Some demo_asset"
  "\<not> isl (get_or_create_asset_for_table 2 demo_linked)"
  by code_simp+

theorem asset_taken_over_witness:
  "\<exists>st' b. get_or_create_asset_for_table 2 demo_linked = Inr (st', b) \<and> asset_of_table st' 1 = None"
proof -
  obtain st' b where g: "get_or_create_asset_for_table 2 demo_linked = Inr (st', b)"
    using demo_takeover(5) by (metis isl_def sum.exhaust_sel surj_pair)
  from asset_taken_over[OF demo_linked_ok demo_takeover(1-4) g] g show ?thesis by blast
qed

definition barred_editor :: user_row where
  "barred_editor = user_with_grants [table_grant 1 ''deny'']"

lemma demo_barred:
  "\<not> asset_visible_to_user None demo_linked (Some barred_editor) demo_asset"
  "\<not> isl (require_roles [''admin'', ''editor''] barred_editor)" "\<not> is_admin_role (user_role_names (Some barred_editor))"
  by code_simp+

lemma demo_barred_role: "require_roles [''admin'', ''editor''] barred_editor = Inr barred_editor"
  using demo_barred(2) by (auto simp: require_roles_def http_def Let_def split: if_splits)

theorem hidden_table_spec_written_witness:
  "isl (snd (put_lineage_spec None 6 barred_editor 1 demo_spec demo_linked))
    \<and> ls_relations (fst (put_lineage_spec None 6 barred_editor 1 demo_spec demo_linked))
      = map (\<lambda>r. if touches 1 r then deactivated 6 (Some (user_id barred_editor)) r else r) (ls_relations demo_linked)"
  using hidden_table_spec_written[OF demo_takeover(1) demo_barred(1) demo_barred_role, where p = demo_spec and now = 6]
  by (simp add: demo_spec_def demo_asset_def)

theorem asset_visible_iff_witness:
  "1 \<notin> set (visible_table_ids None (Some barred_editor) (map lt_row (ls_tables demo_linked)))"
proof -
  have "la_catalog_table_id demo_asset = Some 1" "demo_asset \<in> set (ls_assets demo_linked)"
    by (simp_all add: demo_asset_def demo_linked_def)
  with asset_visible_iff[OF demo_linked_ok _ demo_barred(3)] demo_barred(1) show ?thesis by auto
qed

end
