(* ===== verification/LineageGraph.thy ===== *)
theory LineageGraph
  imports Lineage "HOL-Library.While_Combinator"
begin

text \<open>
  What is read from the lineage: the summary and the graph of an asset (\<open>features/lineage/graph_summary.py\<close>), the tables
  that feed a table or depend on it (\<open>features/metabase/service.py\<close>).

  The relationships \<open>source_asset\<close> and \<open>target_asset\<close> of a relation are looked up in the store, which has them
  (\<open>lineage_ok\<close>); the runs of the jobs are left out.
\<close>

section \<open>Relations around an asset\<close>

definition near_end :: "bool \<Rightarrow> lineage_relation \<Rightarrow> int" where
  "near_end up r = (if up then lr_target_asset_id r else lr_source_asset_id r)"

definition far_end :: "bool \<Rightarrow> lineage_relation \<Rightarrow> int" where
  "far_end up r = (if up then lr_source_asset_id r else lr_target_asset_id r)"

definition newest_first :: "lineage_relation list \<Rightarrow> lineage_relation list" where
  "newest_first = sort_key (\<lambda>r. (Desc (lr_updated_at r), Desc (lr_id r)))"

record trail =
  tr_frontier :: "int list"
  tr_visited :: "int list"
  tr_relations :: "lineage_relation list"
  tr_assets :: "int list"
  tr_total :: nat

definition seen_by :: "rule_table option \<Rightarrow> lineage_store \<Rightarrow> user_row option \<Rightarrow> lineage_relation \<Rightarrow> bool" where
  "seen_by rules st user r = (user = None \<or> relation_visible_to_user rules st user r)"

definition trail_hop :: "bool \<Rightarrow> lineage_relation \<Rightarrow> trail \<Rightarrow> trail" where
  "trail_hop up r t =
     t\<lparr>tr_total := tr_total t + 1,
       tr_relations := (if lr_id r \<in> set (map lr_id (tr_relations t)) then tr_relations t else tr_relations t @ [r]),
       tr_assets := (if far_end up r \<in> set (tr_assets t) then tr_assets t else tr_assets t @ [far_end up r]),
       tr_frontier := (if far_end up r \<in> set (tr_visited t) \<or> far_end up r \<in> set (tr_frontier t) then tr_frontier t
         else tr_frontier t @ [far_end up r])\<rparr>"

definition trail_level :: "rule_table option \<Rightarrow> lineage_store \<Rightarrow> user_row option \<Rightarrow> bool \<Rightarrow> trail \<Rightarrow> trail" where
  "trail_level rules st user up t =
     (if tr_frontier t = [] then t
      else
        let rels = filter (seen_by rules st user)
              (newest_first (filter (\<lambda>r. lr_is_active r \<and> near_end up r \<in> set (tr_frontier t)) (ls_relations st)));
            t' = fold (trail_hop up) rels (t\<lparr>tr_frontier := []\<rparr>)
        in t'\<lparr>tr_visited := tr_visited t' @ tr_frontier t'\<rparr>)"

definition collect_relation_trail ::
  "rule_table option \<Rightarrow> lineage_store \<Rightarrow> user_row option \<Rightarrow> bool \<Rightarrow> nat \<Rightarrow> int \<Rightarrow> trail" where
  "collect_relation_trail rules st user up max_depth i =
     (trail_level rules st user up ^^ max_depth)
       \<lparr>tr_frontier = [i], tr_visited = [i], tr_relations = [], tr_assets = [], tr_total = 0\<rparr>"

text \<open>With depth one the code asks for the neighbours alone, at most \<open>max_relations\<close> of them before it asks which are
  visible, and then counts also the others.\<close>

definition direct_relations ::
  "rule_table option \<Rightarrow> lineage_store \<Rightarrow> user_row option \<Rightarrow> bool \<Rightarrow> nat option \<Rightarrow> int \<Rightarrow> lineage_relation list \<times> nat option" where
  "direct_relations rules st user up limit i =
     (let rels = sort_key (\<lambda>r. Desc (lr_updated_at r)) (filter (\<lambda>r. lr_is_active r \<and> near_end up r = i) (ls_relations st))
      in case limit of
           None \<Rightarrow> (filter (seen_by rules st user) rels, None)
         | Some n \<Rightarrow> (filter (seen_by rules st user) (take n rels), Some (length rels)))"

definition side_relations ::
  "rule_table option \<Rightarrow> lineage_store \<Rightarrow> user_row option \<Rightarrow> bool \<Rightarrow> nat option \<Rightarrow> nat \<Rightarrow> int \<Rightarrow> lineage_relation list \<times> nat option" where
  "side_relations rules st user up limit max_depth i =
     (if max_depth > 1
      then (let t = collect_relation_trail rules st user up max_depth i in (tr_relations t, Some (length (tr_assets t))))
      else direct_relations rules st user up limit i)"

section \<open>Labels of the graph\<close>

record lineage_job =
  lj_id :: int
  lj_namespace :: string
  lj_display_name :: string
  lj_job_type :: "string option"

definition canonical_lineage_asset_key :: "lineage_asset \<Rightarrow> string" where
  "canonical_lineage_asset_key a =
     (case la_catalog_table_id a of
        Some i \<Rightarrow> ''catalog_table:'' @ int_str i
      | None \<Rightarrow>
          if str_true (la_schema_name a) \<and> str_true (la_object_name a)
          then normalize_slug (Some (la_asset_type a)) @ '':'' @ normalize_slug (Some (la_layer a)) @ '':''
            @ normalize_slug (la_schema_name a) @ '':'' @ normalize_slug (la_object_name a)
          else if la_asset_name a \<noteq> []
          then normalize_slug (Some (la_asset_type a)) @ '':'' @ normalize_slug (Some (la_layer a)) @ '':''
            @ normalize_slug (Some (la_asset_name a))
          else ''asset:'' @ (if la_id a \<noteq> 0 then int_str (la_id a) else la_asset_key a))"

definition asset_node_kind :: "lineage_asset \<Rightarrow> bool \<Rightarrow> bool \<Rightarrow> string" where
  "asset_node_kind a up is_current =
     (if is_current then ''current''
      else if la_asset_type a \<in> {''dashboard'', ''question''} \<or> la_layer a = ''dashboard'' then ''dashboard''
      else if up \<or> la_asset_type a \<in> {''source'', ''api''} \<or> la_layer a = ''source'' then ''source'' else ''target'')"

definition supported_engine :: "string option \<Rightarrow> string option" where
  "supported_engine v = (case v of None \<Rightarrow> None | Some e \<Rightarrow> if e \<in> snd ` set KNOWN_DATABASE_ENGINES then Some e else None)"

definition first_some :: "'a option list \<Rightarrow> 'a option" where
  "first_some xs = (case List.find (\<lambda>x. x \<noteq> None) xs of None \<Rightarrow> None | Some x \<Rightarrow> x)"

text \<open>\<open>engines\<close> are the lower-cased types of the sources.\<close>

definition database_engine_for_asset :: "(int \<times> string) list \<Rightarrow> lineage_asset \<Rightarrow> string option" where
  "database_engine_for_asset engines a =
     (case (case la_datasource_id a of None \<Rightarrow> None | Some i \<Rightarrow> if i = 0 then None else map_of engines i) of
        Some v \<Rightarrow> supported_engine (normalize_database_engine (Some v))
      | None \<Rightarrow> first_some [supported_engine (infer_engine_from_namespace (la_external_namespace a)),
          supported_engine (normalize_database_engine (la_external_type a)),
          supported_engine (normalize_database_engine (la_system_name a))])"

definition source_type_for_asset :: "lineage_asset \<Rightarrow> string option" where
  "source_type_for_asset a =
     (let ns = py_lower (or_empty (la_external_namespace a));
          ext = py_lower (or_empty (la_external_type a));
          system = py_lower (or_empty (la_system_name a));
          name = py_lower (or_empty (la_external_name a))
      in if starts_with ''s3://'' ns then Some ''s3''
         else if starts_with ''http://'' ns \<or> starts_with ''https://'' ns then Some ''api''
         else if starts_with ''file://'' ns then Some ''file''
         else if ext \<in> {''api'', ''file'', ''s3''} then Some ext
         else if la_asset_type a = ''source'' then
           (if contains_str ''s3'' system then Some ''s3'' else if contains_str ''api'' system then Some ''api''
            else if contains_str ''file'' system then Some ''file''
            else if starts_with ''s3://'' name then Some ''s3''
            else if starts_with ''http://'' name \<or> starts_with ''https://'' name then Some ''api'' else Some ''source'')
         else None)"

section \<open>The graph\<close>

record graph_node =
  gn_label :: string
  gn_kind :: string
  gn_asset_id :: "int option"
  gn_catalog_table_id :: "int option"
  gn_node_type :: string
  gn_asset_type :: string
  gn_layer :: "string option"
  gn_subtitle :: "string option"
  gn_database_engine :: "string option"
  gn_source_type :: "string option"
  gn_process_type :: "string option"
  gn_origin :: string

record graph_edge =
  ge_source :: string
  ge_target :: string
  ge_relation_type :: string
  ge_confidence_score :: int
  ge_confidence_tier :: string
  ge_is_verified :: bool
  ge_version :: int
  ge_evidence :: "string option"

text \<open>Nodes and edges by their names, in the order in which they were added.\<close>

record lineage_graph =
  lg_nodes :: "(string \<times> graph_node) list"
  lg_edges :: "(string \<times> graph_edge) list"

fun setdefault :: "'k \<Rightarrow> 'v \<Rightarrow> ('k \<times> 'v) list \<Rightarrow> ('k \<times> 'v) list" where
  "setdefault k v d = (if map_of d k = None then d @ [(k, v)] else d)"

definition upsert_asset_node ::
  "(int \<times> string) list \<Rightarrow> string \<Rightarrow> bool \<Rightarrow> bool \<Rightarrow> string \<Rightarrow> lineage_asset \<Rightarrow> lineage_graph \<Rightarrow> lineage_graph" where
  "upsert_asset_node engines lineage_origin up is_current origin a g =
     (let node_id = canonical_lineage_asset_key a;
          origin_value = (if is_current then lineage_origin else origin)
      in case map_of (lg_nodes g) node_id of
           Some n \<Rightarrow> if gn_origin n \<noteq> origin_value then g\<lparr>lg_nodes := dict_set node_id (n\<lparr>gn_origin := ''merged''\<rparr>) (lg_nodes g)\<rparr> else g
         | None \<Rightarrow> g\<lparr>lg_nodes := lg_nodes g @ [(node_id,
             \<lparr>gn_label = la_asset_name a, gn_kind = asset_node_kind a up is_current,
              gn_asset_id = (if la_id a = 0 then None else Some (la_id a)), gn_catalog_table_id = la_catalog_table_id a,
              gn_node_type = la_asset_type a, gn_asset_type = la_asset_type a, gn_layer = Some (la_layer a),
              gn_subtitle = or_opt (la_system_name a) (la_schema_name a),
              gn_database_engine = database_engine_for_asset engines a, gn_source_type = source_type_for_asset a,
              gn_process_type = None, gn_origin = origin_value\<rparr>)]\<rparr>)"

definition job_of :: "lineage_job list \<Rightarrow> lineage_relation \<Rightarrow> lineage_job option" where
  "job_of jobs r = Option.bind (lr_lineage_job_id r) (\<lambda>i. List.find (\<lambda>j. lj_id j = i) jobs)"

text \<open>The type of a process node reads \<open>relation.lineage_job.job_type\<close> when the relation has no type of its own.\<close>

definition process_node_type :: "lineage_job list \<Rightarrow> lineage_relation \<Rightarrow> string res" where
  "process_node_type jobs r =
     (if str_true (lr_process_type r) then Inr (py_lower (or_empty (lr_process_type r)))
      else case job_of jobs r of
             None \<Rightarrow> Inl (AttributeError ''job_type'')
           | Some j \<Rightarrow> Inr (py_lower (or_else (or_empty (lj_job_type j)) ''airflow'')))"

definition process_node_id :: "lineage_relation \<Rightarrow> string" where
  "process_node_id r = ''process-'' @ int_str (lr_id r)"

definition has_process :: "lineage_job list \<Rightarrow> lineage_relation \<Rightarrow> bool" where
  "has_process jobs r \<longleftrightarrow> job_of jobs r \<noteq> None \<or> str_true (lr_process_name r) \<or> str_true (lr_process_type r)"

definition upsert_process_node :: "lineage_job list \<Rightarrow> lineage_relation \<Rightarrow> lineage_graph \<Rightarrow> lineage_graph res" where
  "upsert_process_node jobs r g =
     res_bind (process_node_type jobs r) (\<lambda>ty.
       let job = job_of jobs r in
       Inr (g\<lparr>lg_nodes := setdefault (process_node_id r)
         \<lparr>gn_label = (case job of Some j \<Rightarrow> lj_display_name j | None \<Rightarrow> or_else (or_empty (lr_process_name r)) ''Process''),
          gn_kind = ''process'', gn_asset_id = None, gn_catalog_table_id = None,
          gn_node_type = (if job \<noteq> None then ''job'' else ''process''), gn_asset_type = (if job \<noteq> None then ''job'' else ''source''),
          gn_layer = (if job \<noteq> None then Some ''mart'' else None),
          gn_subtitle = (case job of Some j \<Rightarrow> Some (lj_namespace j) | None \<Rightarrow> lr_process_type r),
          gn_database_engine = None, gn_source_type = None, gn_process_type = Some ty,
          gn_origin = normalized_relation_origin (Some (lr_discovery_method r))\<rparr> (lg_nodes g)\<rparr>))"

definition upsert_edge :: "string \<Rightarrow> string \<Rightarrow> string \<Rightarrow> lineage_relation \<Rightarrow> lineage_graph \<Rightarrow> lineage_graph" where
  "upsert_edge edge_id source target r g =
     g\<lparr>lg_edges := setdefault edge_id
       \<lparr>ge_source = source, ge_target = target, ge_relation_type = lr_relation_type r, ge_confidence_score = lr_confidence_score r,
        ge_confidence_tier = confidence_tier (lr_confidence_score r) (lr_is_verified r), ge_is_verified = lr_is_verified r,
        ge_version = (if lr_version r = 0 then 1 else lr_version r), ge_evidence = lr_evidence r\<rparr> (lg_edges g)\<rparr>"

definition add_relation ::
  "(int \<times> string) list \<Rightarrow> lineage_job list \<Rightarrow> lineage_store \<Rightarrow> string \<Rightarrow> bool \<Rightarrow> lineage_relation \<Rightarrow> lineage_graph \<Rightarrow> lineage_graph res" where
  "add_relation engines jobs st current up r g =
     (case find_asset st (far_end up r) of
        None \<Rightarrow> Inr g
      | Some a \<Rightarrow>
          (let other = canonical_lineage_asset_key a;
               g1 = upsert_asset_node engines [] up False (normalized_relation_origin (Some (lr_discovery_method r))) a g;
               p = process_node_id r; n = int_str (lr_id r)
           in if has_process jobs r then
                res_bind (upsert_process_node jobs r g1) (\<lambda>g2. Inr
                  (if up then upsert_edge (''edge-up-'' @ n @ ''-process-current'') p current r
                     (upsert_edge (''edge-up-'' @ n @ ''-source-process'') other p r g2)
                   else upsert_edge (''edge-down-'' @ n @ ''-process-target'') p other r
                     (upsert_edge (''edge-down-'' @ n @ ''-current-process'') current p r g2)))
              else Inr (if up then upsert_edge (''edge-up-'' @ n) other current r g1
                        else upsert_edge (''edge-down-'' @ n) current other r g1)))"

section \<open>The summary of an asset\<close>

record asset_summary =
  su_asset :: lineage_asset
  su_upstream :: "lineage_asset list"
  su_downstream :: "lineage_asset list"
  su_processes :: "((string \<times> string option \<times> string) \<times> nat) list"
  su_dashboards :: "lineage_asset list"
  su_origin :: string
  su_notes :: "string list"
  su_upstream_count :: nat
  su_downstream_count :: nat
  su_impact_level :: string
  su_graph :: lineage_graph
  su_truncated :: bool

fun dedupe_by :: "('a \<Rightarrow> 'k) \<Rightarrow> 'k list \<Rightarrow> 'a list \<Rightarrow> 'a list" where
  "dedupe_by key seen [] = []"
| "dedupe_by key seen (x # xs) = (if key x \<in> set seen then dedupe_by key seen xs else x # dedupe_by key (key x # seen) xs)"

definition active_ends :: "lineage_store \<Rightarrow> bool \<Rightarrow> lineage_relation list \<Rightarrow> lineage_asset list" where
  "active_ends st up rels =
     dedupe_by canonical_lineage_asset_key []
       (filter la_is_active (List.map_filter (\<lambda>r. find_asset st (far_end up r)) rels))"

definition related_processes :: "lineage_relation list \<Rightarrow> ((string \<times> string option \<times> string) \<times> nat) list" where
  "related_processes rels =
     (let keys = map (\<lambda>r. (or_empty (lr_process_name r), lr_process_type r, lr_relation_type r))
            (filter (\<lambda>r. str_true (lr_process_name r)) rels)
      in map (\<lambda>k. (k, count_list keys k)) (from_keys keys))"

definition summary_origin :: "lineage_relation list \<Rightarrow> string" where
  "summary_origin rels =
     (let origins = remdups (map (\<lambda>r. normalized_relation_origin (Some (lr_discovery_method r))) rels)
      in if ''merged'' \<in> set origins \<or> length origins > 1 then ''merged''
         else if ''automatic'' \<in> set origins then ''automatic'' else ''manual'')"

definition impact_level :: "nat \<Rightarrow> nat \<Rightarrow> string" where
  "impact_level dashboards downstream =
     (if dashboards \<ge> 3 \<or> downstream \<ge> 5 then ''high'' else if dashboards \<ge> 1 \<or> downstream \<ge> 2 then ''medium'' else ''low'')"

definition collect_asset_summary ::
  "rule_table option \<Rightarrow> (int \<times> string) list \<Rightarrow> lineage_job list \<Rightarrow> lineage_store \<Rightarrow> user_row option \<Rightarrow> nat option \<Rightarrow> nat
   \<Rightarrow> lineage_asset \<Rightarrow> asset_summary res" where
  "collect_asset_summary rules engines jobs st user limit max_depth a =
     (let (ups, up_total) = side_relations rules st user True limit max_depth (la_id a);
          (downs, down_total) = side_relations rules st user False limit max_depth (la_id a);
          upstream = active_ends st True ups; downstream = active_ends st False downs;
          dashboards = filter (\<lambda>k. la_asset_type k \<in> {''dashboard'', ''question''}) downstream;
          processes = related_processes (ups @ downs);
          origin = summary_origin (ups @ downs);
          up_count = (case up_total of None \<Rightarrow> length upstream | Some n \<Rightarrow> n);
          down_count = (case down_total of None \<Rightarrow> length downstream | Some n \<Rightarrow> n);
          current = canonical_lineage_asset_key a;
          shown = List.map_filter la_datasource_id (a # upstream @ downstream);
          known = filter (\<lambda>(i, _). i \<in> set shown) engines;
          g0 = upsert_asset_node known origin False True [] a \<lparr>lg_nodes = [], lg_edges = []\<rparr>
      in res_bind (res_fold (add_relation known jobs st current True) ups g0) (\<lambda>g1.
         res_bind (res_fold (add_relation known jobs st current False) downs g1) (\<lambda>g2.
           Inr \<lparr>su_asset = a, su_upstream = upstream, su_downstream = downstream, su_processes = processes, su_dashboards = dashboards,
             su_origin = origin, su_notes = filter (\<lambda>n. n \<noteq> []) (map (\<lambda>r. or_empty (lr_notes r)) (ups @ downs)),
             su_upstream_count = up_count, su_downstream_count = down_count,
             su_impact_level = impact_level (length dashboards) (length downstream), su_graph = g2,
             su_truncated = (limit \<noteq> None \<and> ((case up_total of None \<Rightarrow> False | Some n \<Rightarrow> n > length ups)
               \<or> (case down_total of None \<Rightarrow> False | Some n \<Rightarrow> n > length downs)))\<rparr>)))"

definition get_asset_summary ::
  "rule_table option \<Rightarrow> (int \<times> string) list \<Rightarrow> lineage_job list \<Rightarrow> user_row option \<Rightarrow> nat option \<Rightarrow> nat \<Rightarrow> int \<Rightarrow> lineage_store
   \<Rightarrow> asset_summary res" where
  "get_asset_summary rules engines jobs user limit max_depth i st =
     (case find_asset st i of
        None \<Rightarrow> http 404 ''Lineage asset not found''
      | Some a \<Rightarrow>
          if \<not> la_is_active a then http 404 ''Lineage asset not found''
          else if user \<noteq> None \<and> \<not> asset_visible_to_user rules st user a then http 404 ''Lineage asset not found''
          else collect_asset_summary rules engines jobs st user limit max_depth a)"

text \<open>A table without an asset has an empty summary, made from the table.\<close>

definition ephemeral_asset :: "lineage_table \<Rightarrow> lineage_asset" where
  "ephemeral_asset t = (new_table_asset 0 t)\<lparr>la_asset_key := ''catalog_table:'' @ int_str (lt_id t)\<rparr>"

definition unlinked_summary :: "lineage_asset \<Rightarrow> asset_summary" where
  "unlinked_summary a =
     \<lparr>su_asset = a, su_upstream = [], su_downstream = [], su_processes = [], su_dashboards = [], su_origin = ''manual'',
      su_notes = [], su_upstream_count = 0, su_downstream_count = 0, su_impact_level = ''low'',
      su_graph = \<lparr>lg_nodes = [], lg_edges = []\<rparr>, su_truncated = False\<rparr>"

definition get_table_summary ::
  "rule_table option \<Rightarrow> (int \<times> string) list \<Rightarrow> lineage_job list \<Rightarrow> user_row option \<Rightarrow> nat option \<Rightarrow> nat \<Rightarrow> int \<Rightarrow> lineage_store
   \<Rightarrow> asset_summary res" where
  "get_table_summary rules engines jobs user limit max_depth i st =
     (case asset_of_table st i of
        Some a \<Rightarrow>
          if user \<noteq> None \<and> \<not> asset_visible_to_user rules st user a then http 404 ''Lineage asset not found''
          else collect_asset_summary rules engines jobs st user limit max_depth a
      | None \<Rightarrow> (case find_lineage_table st i of
            None \<Rightarrow> http 404 ''Table not found''
          | Some t \<Rightarrow> Inr (unlinked_summary (ephemeral_asset t))))"

definition get_lineage_graph ::
  "rule_table option \<Rightarrow> (int \<times> string) list \<Rightarrow> lineage_job list \<Rightarrow> user_row \<Rightarrow> int option \<Rightarrow> int option \<Rightarrow> nat option \<Rightarrow> nat
   \<Rightarrow> lineage_store \<Rightarrow> asset_summary res" where
  "get_lineage_graph rules engines jobs user asset_id table_id limit max_depth st =
     res_bind (require_roles [''admin'', ''editor'', ''viewer''] user) (\<lambda>_.
       case asset_id of
         Some i \<Rightarrow> get_asset_summary rules engines jobs (Some user) limit max_depth i st
       | None \<Rightarrow> (case table_id of
             Some i \<Rightarrow> get_table_summary rules engines jobs (Some user) limit max_depth i st
           | None \<Rightarrow> http 400 ''asset_id or table_id is required''))"

section \<open>The tables that feed a table\<close>

text \<open>\<open>_collect_upstream_catalog_tables\<close> and \<open>_collect_downstream_catalog_tables\<close>: a queue of assets with their distance, as
  long as it is not empty.\<close>

record walk =
  wk_queue :: "(int \<times> nat) list"
  wk_visited_assets :: "int list"
  wk_visited_tables :: "int list"
  wk_results :: "(int \<times> int \<times> nat) list"

definition walk_edge :: "nat \<Rightarrow> lineage_asset \<Rightarrow> walk \<Rightarrow> walk" where
  "walk_edge hop a w =
     (if la_id a \<in> set (wk_visited_assets w) then w
      else
        let w1 = w\<lparr>wk_visited_assets := la_id a # wk_visited_assets w\<rparr>;
            w2 = (case la_catalog_table_id a of
                    None \<Rightarrow> w1
                  | Some t \<Rightarrow> if t \<in> set (wk_visited_tables w1) then w1
                             else w1\<lparr>wk_visited_tables := t # wk_visited_tables w1,
                               wk_results := wk_results w1 @ [(t, la_id a, hop + 1)]\<rparr>)
        in w2\<lparr>wk_queue := wk_queue w2 @ [(la_id a, hop + 1)]\<rparr>)"

definition next_assets :: "bool \<Rightarrow> lineage_store \<Rightarrow> int \<Rightarrow> lineage_asset list" where
  "next_assets up st i =
     filter la_is_active (List.map_filter (\<lambda>r. find_asset st (far_end up r))
       (newest_first (filter (\<lambda>r. lr_is_active r \<and> near_end up r = i) (ls_relations st))))"

definition walk_step :: "bool \<Rightarrow> lineage_store \<Rightarrow> walk \<Rightarrow> walk" where
  "walk_step up st w =
     (case wk_queue w of
        [] \<Rightarrow> w
      | (i, hop) # rest \<Rightarrow> fold (walk_edge hop) (next_assets up st i) (w\<lparr>wk_queue := rest\<rparr>))"

definition catalog_lineage_asset_for_table :: "int \<Rightarrow> lineage_store \<Rightarrow> lineage_store \<times> int option" where
  "catalog_lineage_asset_for_table i st =
     (case List.find (\<lambda>a. la_catalog_table_id a = Some i \<and> la_is_active a) (ls_assets st) of
        Some a \<Rightarrow> (st, Some (la_id a))
      | None \<Rightarrow> (case get_or_create_asset_for_table i st of Inl _ \<Rightarrow> (st, None) | Inr (st', a) \<Rightarrow> (st', Some (la_id a))))"

definition start_walk :: "int \<Rightarrow> int \<Rightarrow> walk" where
  "start_walk table_id start =
     \<lparr>wk_queue = [(start, 0)], wk_visited_assets = [start], wk_visited_tables = [table_id], wk_results = []\<rparr>"

definition collect_catalog_tables :: "bool \<Rightarrow> int \<Rightarrow> lineage_store \<Rightarrow> (lineage_store \<times> (int \<times> int \<times> nat) list) option" where
  "collect_catalog_tables up table_id st =
     (case catalog_lineage_asset_for_table table_id st of
        (st', None) \<Rightarrow> Some (st', [])
      | (st', Some start) \<Rightarrow>
          (case while_option (\<lambda>w. wk_queue w \<noteq> []) (walk_step up st') (start_walk table_id start) of
             None \<Rightarrow> None | Some w \<Rightarrow> Some (st', wk_results w)))"

section \<open>The walk ends\<close>

lemma in_map_filter: "y \<in> set (List.map_filter f xs) \<longleftrightarrow> (\<exists>x\<in>set xs. f x = Some y)"
  by (induction xs) (auto simp: map_filter_simps split: option.splits)

lemma in_next_assets: "a \<in> set (next_assets up st i) \<Longrightarrow> find_asset st (la_id a) = Some a"
  using find_assetD by (fastforce simp: next_assets_def in_map_filter)

lemma next_assets_ids: "a \<in> set (next_assets up st i) \<Longrightarrow> la_id a \<in> asset_ids st"
  using find_assetD[OF in_next_assets] by (metis in_asset_ids)

text \<open>What remains to do: the assets in the queue, and twice the assets not seen yet.\<close>

definition walk_measure :: "lineage_store \<Rightarrow> walk \<Rightarrow> nat" where
  "walk_measure st w = length (wk_queue w) + 2 * card (asset_ids st - set (wk_visited_assets w))"

lemma walk_edge_measure: "la_id a \<in> asset_ids st \<Longrightarrow> walk_measure st (walk_edge hop a w) \<le> walk_measure st w"
proof -
  assume a: "la_id a \<in> asset_ids st"
  have fin: "finite (asset_ids st)" by (simp add: asset_ids_def)
  show ?thesis
  proof (cases "la_id a \<in> set (wk_visited_assets w)")
    case False
    let ?rest = "asset_ids st - set (wk_visited_assets w)"
    have "asset_ids st - insert (la_id a) (set (wk_visited_assets w)) = ?rest - {la_id a}" by auto
    then have "card (asset_ids st - insert (la_id a) (set (wk_visited_assets w))) + 1 = card ?rest"
      using a False fin card.remove[of ?rest "la_id a"] by simp
    then show ?thesis using False by (simp add: walk_edge_def walk_measure_def Let_def split: option.splits)
  qed (simp add: walk_edge_def)
qed

lemma walk_edges_measure:
  "(\<And>a. a \<in> set as \<Longrightarrow> la_id a \<in> asset_ids st) \<Longrightarrow> walk_measure st (fold (walk_edge hop) as w) \<le> walk_measure st w"
proof (induction as arbitrary: w)
  case (Cons a as)
  then have "walk_measure st (fold (walk_edge hop) as (walk_edge hop a w)) \<le> walk_measure st (walk_edge hop a w)" by simp
  also have "\<dots> \<le> walk_measure st w" using Cons.prems by (intro walk_edge_measure) simp
  finally show ?case by simp
qed simp

lemma walk_step_measure: "wk_queue w \<noteq> [] \<Longrightarrow> walk_measure st (walk_step up st w) < walk_measure st w"
proof -
  assume "wk_queue w \<noteq> []"
  then obtain i hop rest where q: "wk_queue w = (i, hop) # rest" by (cases "wk_queue w") auto
  have "walk_measure st (walk_step up st w) \<le> walk_measure st (w\<lparr>wk_queue := rest\<rparr>)"
    using walk_edges_measure[of "next_assets up st i" st hop "w\<lparr>wk_queue := rest\<rparr>"] next_assets_ids by (simp add: walk_step_def q)
  also have "\<dots> < walk_measure st w" by (simp add: walk_measure_def q)
  finally show ?thesis .
qed

lemma walk_returns: "\<exists>w'. while_option (\<lambda>w. wk_queue w \<noteq> []) (walk_step up st) w = Some w'"
  by (rule measure_while_option_Some[where P = "\<lambda>_. True" and f = "walk_measure st"]) (simp_all add: walk_step_measure)

text \<open>C31: The search for the tables that feed a table, or depend on it, ends, also when the relations form a cycle.\<close>

theorem collect_catalog_tables_returns: "\<exists>r. collect_catalog_tables up i st = Some r"
proof -
  obtain st' start where "catalog_lineage_asset_for_table i st = (st', start)" by fastforce
  then show ?thesis
    using walk_returns[of up st'] by (auto simp: collect_catalog_tables_def split: option.splits) (metis option.distinct(1))
qed

section \<open>What the walk finds\<close>

definition hop_rel :: "bool \<Rightarrow> lineage_store \<Rightarrow> (int \<times> int) set" where
  "hop_rel up st = {(i, j). j \<in> la_id ` set (next_assets up st i)}"

text \<open>The effect of one asset taken from the queue: the assets \<open>new\<close> join the queue, their new tables the result.\<close>

definition walk_effect ::
  "lineage_store \<Rightarrow> nat \<Rightarrow> lineage_asset list \<Rightarrow> walk \<Rightarrow> walk \<Rightarrow> int list \<Rightarrow> (int \<times> int \<times> nat) list \<Rightarrow> bool" where
  "walk_effect st hop as w w' new rs \<longleftrightarrow> wk_queue w' = wk_queue w @ map (\<lambda>i. (i, hop + 1)) new
    \<and> set (wk_visited_assets w') = set (wk_visited_assets w) \<union> set new
    \<and> set new = la_id ` set as - set (wk_visited_assets w)
    \<and> wk_results w' = wk_results w @ rs \<and> set (wk_visited_tables w') = set (wk_visited_tables w) \<union> fst ` set rs
    \<and> (\<forall>(t, i, h)\<in>set rs. h = hop + 1 \<and> i \<in> set new \<and> t \<notin> set (wk_visited_tables w)
        \<and> Option.bind (find_asset st i) la_catalog_table_id = Some t)
    \<and> (\<forall>i\<in>set new. \<forall>t. Option.bind (find_asset st i) la_catalog_table_id = Some t \<longrightarrow> t \<in> set (wk_visited_tables w'))"

lemma walk_edges:
  assumes "\<And>a. a \<in> set as \<Longrightarrow> find_asset st (la_id a) = Some a"
  shows "\<exists>new rs. walk_effect st hop as w (fold (walk_edge hop) as w) new rs"
  using assms
proof (induction as arbitrary: w)
  case Nil
  have "walk_effect st hop [] w (fold (walk_edge hop) [] w) [] []" by (simp add: walk_effect_def)
  then show ?case by blast
next
  case (Cons a as)
  let ?w = "walk_edge hop a w"
  obtain new rs where i: "walk_effect st hop as ?w (fold (walk_edge hop) as ?w) new rs" using Cons by (meson list.set_intros(2))
  show ?case
  proof (cases "la_id a \<in> set (wk_visited_assets w)")
    case True
    then have w: "?w = w" by (simp add: walk_edge_def)
    have "la_id ` set (a # as) - set (wk_visited_assets w) = la_id ` set as - set (wk_visited_assets w)" using True by auto
    then have "walk_effect st hop (a # as) w w' new rs = walk_effect st hop as w w' new rs" for w'
      unfolding walk_effect_def by (simp only:)
    then have "walk_effect st hop (a # as) w (fold (walk_edge hop) (a # as) w) new rs" using i w by simp
    then show ?thesis by blast
  next
    case False
    define r where "r = (case la_catalog_table_id a of None \<Rightarrow> [] | Some t \<Rightarrow>
      if t \<in> set (wk_visited_tables w) then [] else [(t, la_id a, hop + 1)])"
    have w: "wk_queue ?w = wk_queue w @ [(la_id a, hop + 1)]" "set (wk_visited_assets ?w) = insert (la_id a) (set (wk_visited_assets w))"
      "wk_results ?w = wk_results w @ r" "set (wk_visited_tables ?w) = set (wk_visited_tables w) \<union> fst ` set r"
      using False by (cases "la_catalog_table_id a"; simp add: walk_edge_def Let_def r_def)+
    have own: "la_catalog_table_id a = Some t \<Longrightarrow> t \<in> set (wk_visited_tables ?w)" for t
      using False by (auto simp: walk_edge_def Let_def)
    have find: "Option.bind (find_asset st (la_id a)) la_catalog_table_id = la_catalog_table_id a" using Cons.prems by simp
    have r: "\<forall>(t, i, h)\<in>set r. h = hop + 1 \<and> i = la_id a \<and> t \<notin> set (wk_visited_tables w) \<and> la_catalog_table_id a = Some t"
      by (auto simp: r_def split: option.splits if_splits)
    have "set (la_id a # new) = la_id ` set (a # as) - set (wk_visited_assets w)"
      using i False w(2) by (auto simp: walk_effect_def)
    moreover have "\<forall>(t, i, h)\<in>set (r @ rs). h = hop + 1 \<and> i \<in> set (la_id a # new) \<and> t \<notin> set (wk_visited_tables w)
          \<and> Option.bind (find_asset st i) la_catalog_table_id = Some t"
      using r i w(4) find unfolding walk_effect_def by fastforce
    moreover have "\<forall>i\<in>set (la_id a # new). \<forall>t. Option.bind (find_asset st i) la_catalog_table_id = Some t
          \<longrightarrow> t \<in> set (wk_visited_tables (fold (walk_edge hop) (a # as) w))"
    proof (intro ballI allI impI)
      fix j t assume j: "j \<in> set (la_id a # new)" "Option.bind (find_asset st j) la_catalog_table_id = Some t"
      have "set (wk_visited_tables ?w) \<subseteq> set (wk_visited_tables (fold (walk_edge hop) as ?w))"
        using i unfolding walk_effect_def by blast
      moreover have "j \<in> set new \<Longrightarrow> t \<in> set (wk_visited_tables (fold (walk_edge hop) as ?w))"
        using i j(2) unfolding walk_effect_def by blast
      moreover have "j = la_id a \<Longrightarrow> t \<in> set (wk_visited_tables ?w)" using own find j(2) by simp
      ultimately show "t \<in> set (wk_visited_tables (fold (walk_edge hop) (a # as) w))" using j(1) by auto
    qed
    moreover have "wk_queue (fold (walk_edge hop) (a # as) w) = wk_queue w @ map (\<lambda>i. (i, hop + 1)) (la_id a # new)"
      "set (wk_visited_assets (fold (walk_edge hop) (a # as) w)) = set (wk_visited_assets w) \<union> set (la_id a # new)"
      "wk_results (fold (walk_edge hop) (a # as) w) = wk_results w @ r @ rs"
      "set (wk_visited_tables (fold (walk_edge hop) (a # as) w)) = set (wk_visited_tables w) \<union> fst ` set (r @ rs)"
      using i w unfolding walk_effect_def by auto
    ultimately have "walk_effect st hop (a # as) w (fold (walk_edge hop) (a # as) w) (la_id a # new) (r @ rs)"
      unfolding walk_effect_def by blast
    then show ?thesis by blast
  qed
qed

text \<open>\<open>d i\<close> is the distance with which the asset \<open>i\<close> was put into the queue.\<close>

definition walk_inv :: "bool \<Rightarrow> lineage_store \<Rightarrow> int \<Rightarrow> int \<Rightarrow> (int \<Rightarrow> nat) \<Rightarrow> walk \<Rightarrow> bool" where
  "walk_inv up st table_id start d w \<longleftrightarrow> start \<in> set (wk_visited_assets w) \<and> d start = 0
    \<and> (\<forall>v\<in>set (wk_visited_assets w). (start, v) \<in> hop_rel up st ^^ d v)
    \<and> sorted (map snd (wk_queue w)) \<and> (\<forall>(i, h)\<in>set (wk_queue w). i \<in> set (wk_visited_assets w) \<and> h = d i)
    \<and> (\<forall>(i, h)\<in>set (wk_queue w). \<forall>v\<in>set (wk_visited_assets w). d v \<le> h + 1)
    \<and> (\<forall>v\<in>set (wk_visited_assets w). v \<notin> fst ` set (wk_queue w) \<longrightarrow>
        (\<forall>j. (v, j) \<in> hop_rel up st \<longrightarrow> j \<in> set (wk_visited_assets w) \<and> d j \<le> d v + 1))
    \<and> set (wk_visited_tables w) = insert table_id (fst ` set (wk_results w))
    \<and> (\<forall>(t, i, h)\<in>set (wk_results w). i \<in> set (wk_visited_assets w) \<and> h = d i \<and> i \<noteq> start \<and> t \<noteq> table_id
        \<and> Option.bind (find_asset st i) la_catalog_table_id = Some t)
    \<and> (\<forall>v\<in>set (wk_visited_assets w). \<forall>t. v \<noteq> start \<longrightarrow> Option.bind (find_asset st v) la_catalog_table_id = Some t
        \<longrightarrow> t \<in> set (wk_visited_tables w))"

lemma walk_inv_start: "walk_inv up st table_id start (\<lambda>_. 0) (start_walk table_id start)"
  by (simp add: walk_inv_def start_walk_def)

lemma walk_inv_step:
  assumes inv: "walk_inv up st table_id start d w" and q: "wk_queue w = (i, hop) # rest"
  shows "\<exists>d'. walk_inv up st table_id start d' (walk_step up st w)"
proof -
  let ?as = "next_assets up st i" and ?w = "w\<lparr>wk_queue := rest\<rparr>"
  define w' where "w' = fold (walk_edge hop) ?as ?w"
  obtain new rs where e: "walk_effect st hop ?as ?w w' new rs"
    using walk_edges[of ?as st hop ?w] in_next_assets w'_def by blast
  define d' where "d' = (\<lambda>v. if v \<in> set (wk_visited_assets w) then d v else hop + 1)"
  have w: "wk_queue ?w = rest" "wk_visited_assets ?w = wk_visited_assets w" "wk_results ?w = wk_results w"
    "wk_visited_tables ?w = wk_visited_tables w" by simp_all
  have V: "set (wk_visited_assets w') = set (wk_visited_assets w) \<union> set new"
    and new: "set new = la_id ` set ?as - set (wk_visited_assets w)"
    and Q: "wk_queue w' = rest @ map (\<lambda>i. (i, hop + 1)) new"
    and R: "wk_results w' = wk_results w @ rs" and T: "set (wk_visited_tables w') = set (wk_visited_tables w) \<union> fst ` set rs"
    and rs: "\<forall>(t, i, h)\<in>set rs. h = hop + 1 \<and> i \<in> set new \<and> t \<notin> set (wk_visited_tables w)
        \<and> Option.bind (find_asset st i) la_catalog_table_id = Some t"
    and own: "\<forall>i\<in>set new. \<forall>t. Option.bind (find_asset st i) la_catalog_table_id = Some t \<longrightarrow> t \<in> set (wk_visited_tables w')"
    using e unfolding walk_effect_def w by blast+
  have i: "i \<in> set (wk_visited_assets w)" "hop = d i" and top: "\<And>v. v \<in> set (wk_visited_assets w) \<Longrightarrow> d v \<le> hop + 1"
    using inv q by (auto simp: walk_inv_def)
  have d': "\<And>v. v \<in> set (wk_visited_assets w) \<Longrightarrow> d' v = d v" "\<And>v. v \<in> set new \<Longrightarrow> d' v = hop + 1"
    using new by (auto simp: d'_def)
  have start: "start \<in> set (wk_visited_assets w)" "d start = 0" using inv by (auto simp: walk_inv_def)
  have paths: "\<forall>v\<in>set (wk_visited_assets w'). (start, v) \<in> hop_rel up st ^^ d' v"
  proof
    fix v assume "v \<in> set (wk_visited_assets w')"
    then consider "v \<in> set (wk_visited_assets w)" | "v \<in> set new" using V by blast
    then show "(start, v) \<in> hop_rel up st ^^ d' v"
    proof cases
      case 1
      then show ?thesis using inv d'(1) by (simp add: walk_inv_def)
    next
      case 2
      then have "(i, v) \<in> hop_rel up st" using new by (auto simp: hop_rel_def)
      moreover have "(start, i) \<in> hop_rel up st ^^ hop" using inv i by (simp add: walk_inv_def)
      ultimately show ?thesis using d'(2)[OF 2] by auto
    qed
  qed
  have hops: "h \<le> hop + 1" "hop \<le> h" if "(j, h) \<in> set rest" for j h
  proof -
    have "(j, h) \<in> set (wk_queue w)" using q that by simp
    moreover have "\<forall>(j, h)\<in>set (wk_queue w). j \<in> set (wk_visited_assets w) \<and> h = d j" using inv unfolding walk_inv_def by (elim conjE)
    ultimately have "j \<in> set (wk_visited_assets w)" "h = d j" by auto
    then show "h \<le> hop + 1" using top by blast
    have "sorted (map snd (wk_queue w))" using inv unfolding walk_inv_def by (elim conjE)
    then show "hop \<le> h" using q that by force
  qed
  have sorted: "sorted (map snd (wk_queue w'))"
  proof -
    have "sorted (map snd rest)" using inv q by (simp add: walk_inv_def)
    then show ?thesis using hops(1) by (auto simp: Q sorted_append o_def sorted_replicate map_replicate_const)
  qed
  have queue: "\<forall>(j, h)\<in>set (wk_queue w'). j \<in> set (wk_visited_assets w') \<and> h = d' j"
  proof (intro ballI, clarify)
    fix j h assume "(j, h) \<in> set (wk_queue w')"
    then consider "(j, h) \<in> set rest" | "j \<in> set new" "h = hop + 1" by (auto simp: Q)
    then show "j \<in> set (wk_visited_assets w') \<and> h = d' j"
    proof cases
      case 1
      then have "j \<in> set (wk_visited_assets w)" "h = d j" using inv q unfolding walk_inv_def by auto
      then show ?thesis using V d'(1) by simp
    next
      case 2
      then show ?thesis using V d'(2) by simp
    qed
  qed
  have level: "\<forall>(j, h)\<in>set (wk_queue w'). \<forall>v\<in>set (wk_visited_assets w'). d' v \<le> h + 1"
  proof (intro ballI, clarify)
    fix j h v assume jh: "(j, h) \<in> set (wk_queue w')" and v: "v \<in> set (wk_visited_assets w')"
    have "hop \<le> h" using jh hops(2) by (auto simp: Q)
    moreover have "d' v \<le> hop + 1" using v V top d' by auto
    ultimately show "d' v \<le> h + 1" by simp
  qed
  have closed: "\<forall>v\<in>set (wk_visited_assets w'). v \<notin> fst ` set (wk_queue w') \<longrightarrow>
      (\<forall>j. (v, j) \<in> hop_rel up st \<longrightarrow> j \<in> set (wk_visited_assets w') \<and> d' j \<le> d' v + 1)"
  proof (intro ballI impI allI)
    fix v j assume v: "v \<in> set (wk_visited_assets w')" "v \<notin> fst ` set (wk_queue w')" and j: "(v, j) \<in> hop_rel up st"
    have vold: "v \<in> set (wk_visited_assets w)" "v \<notin> fst ` set rest" using v V by (force simp: Q image_iff)+
    show "j \<in> set (wk_visited_assets w') \<and> d' j \<le> d' v + 1"
    proof (cases "v = i")
      case True
      then have "j \<in> la_id ` set ?as" using j by (simp add: hop_rel_def)
      then have "j \<in> set (wk_visited_assets w) \<or> j \<in> set new" using new by blast
      then show ?thesis using V d' top i True by auto
    next
      case False
      then have "v \<notin> fst ` set (wk_queue w)" using vold(2) q by simp
      then have "j \<in> set (wk_visited_assets w) \<and> d j \<le> d v + 1" using inv vold(1) j unfolding walk_inv_def by blast
      then show ?thesis using V d'(1) vold(1) by simp
    qed
  qed
  have tables: "set (wk_visited_tables w') = insert table_id (fst ` set (wk_results w'))"
    using inv by (auto simp: walk_inv_def R T image_Un)
  have results: "\<forall>(t, j, h)\<in>set (wk_results w'). j \<in> set (wk_visited_assets w') \<and> h = d' j \<and> j \<noteq> start \<and> t \<noteq> table_id
      \<and> Option.bind (find_asset st j) la_catalog_table_id = Some t"
  proof (intro ballI, clarify)
    fix t j h assume "(t, j, h) \<in> set (wk_results w')"
    then consider "(t, j, h) \<in> set (wk_results w)" | "(t, j, h) \<in> set rs" by (auto simp: R)
    then show "j \<in> set (wk_visited_assets w') \<and> h = d' j \<and> j \<noteq> start \<and> t \<noteq> table_id
      \<and> Option.bind (find_asset st j) la_catalog_table_id = Some t"
    proof cases
      case 1
      then have "j \<in> set (wk_visited_assets w) \<and> h = d j \<and> j \<noteq> start \<and> t \<noteq> table_id
        \<and> Option.bind (find_asset st j) la_catalog_table_id = Some t" using inv unfolding walk_inv_def by blast
      then show ?thesis using V d'(1) by simp
    next
      case 2
      moreover have "table_id \<in> set (wk_visited_tables w)" using inv by (simp add: walk_inv_def)
      ultimately show ?thesis using rs V d'(2) new start(1) by auto
    qed
  qed
  have complete: "\<forall>v\<in>set (wk_visited_assets w'). \<forall>t. v \<noteq> start \<longrightarrow> Option.bind (find_asset st v) la_catalog_table_id = Some t
      \<longrightarrow> t \<in> set (wk_visited_tables w')"
  proof (intro ballI allI impI)
    fix v t assume v: "v \<in> set (wk_visited_assets w')" "v \<noteq> start" "Option.bind (find_asset st v) la_catalog_table_id = Some t"
    show "t \<in> set (wk_visited_tables w')"
    proof (cases "v \<in> set new")
      case False
      then have "v \<in> set (wk_visited_assets w)" using v(1) V by blast
      then have "t \<in> set (wk_visited_tables w)" using inv v(2,3) unfolding walk_inv_def by blast
      then show ?thesis using T by blast
    qed (use own v(3) in blast)
  qed
  have "walk_inv up st table_id start d' w'"
    unfolding walk_inv_def using paths sorted queue level closed tables results complete start V d'(1) by auto
  then show ?thesis using q by (auto simp: walk_step_def w'_def)
qed

text \<open>At the end every asset on a path is seen, at most as far away as the path is long.\<close>

lemma walk_end:
  assumes w: "while_option (\<lambda>w. wk_queue w \<noteq> []) (walk_step up st) (start_walk table_id start) = Some w"
  shows "\<exists>d. walk_inv up st table_id start d w \<and> wk_queue w = []
    \<and> (\<forall>k v. (start, v) \<in> hop_rel up st ^^ k \<longrightarrow> v \<in> set (wk_visited_assets w) \<and> d v \<le> k)"
proof -
  have "\<exists>d. walk_inv up st table_id start d w"
  proof (rule while_option_rule[OF _ w, where P = "\<lambda>w. \<exists>d. walk_inv up st table_id start d w"])
    fix w assume inv: "\<exists>d. walk_inv up st table_id start d w" and q: "wk_queue w \<noteq> []"
    obtain e rest where e: "wk_queue w = e # rest" using q by (auto simp: neq_Nil_conv)
    obtain i hop where "e = (i, hop)" by (rule prod.exhaust)
    then have e: "wk_queue w = (i, hop) # rest" using e by simp
    obtain d where "walk_inv up st table_id start d w" using inv by (rule exE)
    then show "\<exists>d. walk_inv up st table_id start d (walk_step up st w)" using e by (rule walk_inv_step)
  next
    show "\<exists>d. walk_inv up st table_id start d (start_walk table_id start)"
      by (rule exI[where x = "\<lambda>_. 0"]) (rule walk_inv_start)
  qed
  then obtain d where d: "walk_inv up st table_id start d w" by blast
  have q: "wk_queue w = []" using while_option_stop[OF w] by simp
  have "v \<in> set (wk_visited_assets w) \<and> d v \<le> k" if "(start, v) \<in> hop_rel up st ^^ k" for k v
    using that
  proof (induction k arbitrary: v)
    case 0
    then show ?case using d by (simp add: walk_inv_def)
  next
    case (Suc k)
    then obtain u where u: "(start, u) \<in> hop_rel up st ^^ k" "(u, v) \<in> hop_rel up st" by auto
    then have "u \<in> set (wk_visited_assets w) \<and> d u \<le> k" using Suc.IH by blast
    moreover have "\<forall>u\<in>set (wk_visited_assets w). \<forall>j. (u, j) \<in> hop_rel up st \<longrightarrow> j \<in> set (wk_visited_assets w) \<and> d j \<le> d u + 1"
      using d q by (simp add: walk_inv_def)
    ultimately show ?case using u(2) by fastforce
  qed
  then show ?thesis using d q by blast
qed

text \<open>C30: The search finds exactly the other tables whose asset is reached over active relations and assets, and gives each
  of them its distance, the length of a shortest path.\<close>

theorem collect_finds_reachable:
  assumes c: "collect_catalog_tables up i st = Some (st', rs)" and s: "catalog_lineage_asset_for_table i st = (st', Some start)"
  shows "fst ` set rs = {t. t \<noteq> i \<and> (\<exists>a. a \<noteq> start \<and> (start, a) \<in> (hop_rel up st')\<^sup>*
      \<and> Option.bind (find_asset st' a) la_catalog_table_id = Some t)}
    \<and> list_all (\<lambda>(t, a, h). (start, a) \<in> hop_rel up st' ^^ h \<and> h = (LEAST k. (start, a) \<in> hop_rel up st' ^^ k)) rs"
proof -
  obtain w where w: "while_option (\<lambda>w. wk_queue w \<noteq> []) (walk_step up st') (start_walk i start) = Some w" "rs = wk_results w"
    using c s by (auto simp: collect_catalog_tables_def split: option.splits)
  obtain d where inv: "walk_inv up st' i start d w"
    and all: "\<And>k v. (start, v) \<in> hop_rel up st' ^^ k \<Longrightarrow> v \<in> set (wk_visited_assets w) \<and> d v \<le> k"
    using walk_end[OF w(1)] by blast
  note inv = inv[unfolded walk_inv_def]
  have "\<forall>v\<in>set (wk_visited_assets w). (start, v) \<in> hop_rel up st' ^^ d v" using inv by (elim conjE)
  then have paths: "\<And>v. v \<in> set (wk_visited_assets w) \<Longrightarrow> (start, v) \<in> hop_rel up st' ^^ d v" by (rule bspec)
  have tables: "set (wk_visited_tables w) = insert i (fst ` set rs)" using inv unfolding w(2) by (elim conjE)
  have "\<forall>(t, a, h)\<in>set rs. a \<in> set (wk_visited_assets w) \<and> h = d a \<and> a \<noteq> start \<and> t \<noteq> i
      \<and> Option.bind (find_asset st' a) la_catalog_table_id = Some t" using inv unfolding w(2) by (elim conjE)
  then have found: "\<And>t a h. (t, a, h) \<in> set rs \<Longrightarrow> a \<in> set (wk_visited_assets w) \<and> h = d a \<and> a \<noteq> start \<and> t \<noteq> i
      \<and> Option.bind (find_asset st' a) la_catalog_table_id = Some t" by auto
  have "\<forall>v\<in>set (wk_visited_assets w). \<forall>t. v \<noteq> start \<longrightarrow> Option.bind (find_asset st' v) la_catalog_table_id = Some t
      \<longrightarrow> t \<in> set (wk_visited_tables w)" using inv by (elim conjE)
  then have complete: "\<And>v t. v \<in> set (wk_visited_assets w) \<Longrightarrow> v \<noteq> start
      \<Longrightarrow> Option.bind (find_asset st' v) la_catalog_table_id = Some t \<Longrightarrow> t \<in> set (wk_visited_tables w)" by blast
  have least: "d a = (LEAST k. (start, a) \<in> hop_rel up st' ^^ k)" if "a \<in> set (wk_visited_assets w)" for a
  proof (rule Least_equality[symmetric])
    show "(start, a) \<in> hop_rel up st' ^^ d a" by (rule paths[OF that])
  qed (use all in blast)
  have reached: "v \<in> set (wk_visited_assets w) \<longleftrightarrow> (start, v) \<in> (hop_rel up st')\<^sup>*" for v
  proof
    assume "v \<in> set (wk_visited_assets w)"
    then show "(start, v) \<in> (hop_rel up st')\<^sup>*" using paths by (intro relpow_imp_rtrancl)
  next
    assume "(start, v) \<in> (hop_rel up st')\<^sup>*"
    then obtain k where "(start, v) \<in> hop_rel up st' ^^ k" using rtrancl_imp_relpow by blast
    then show "v \<in> set (wk_visited_assets w)" using all by blast
  qed
  show ?thesis
  proof (intro conjI set_eqI iffI)
    fix t assume "t \<in> fst ` set rs"
    then obtain a h where "(t, a, h) \<in> set rs" by force
    then show "t \<in> {t. t \<noteq> i \<and> (\<exists>a. a \<noteq> start \<and> (start, a) \<in> (hop_rel up st')\<^sup>*
      \<and> Option.bind (find_asset st' a) la_catalog_table_id = Some t)}" using found reached by blast
  next
    fix t assume "t \<in> {t. t \<noteq> i \<and> (\<exists>a. a \<noteq> start \<and> (start, a) \<in> (hop_rel up st')\<^sup>*
      \<and> Option.bind (find_asset st' a) la_catalog_table_id = Some t)}"
    then show "t \<in> fst ` set rs" using complete reached tables by blast
  next
    show "list_all (\<lambda>(t, a, h). (start, a) \<in> hop_rel up st' ^^ h \<and> h = (LEAST k. (start, a) \<in> hop_rel up st' ^^ k)) rs"
      unfolding list_all_iff
    proof (intro ballI, clarify)
      fix t a h assume "(t, a, h) \<in> set rs"
      then have "a \<in> set (wk_visited_assets w)" "h = d a" using found by blast+
      then show "(start, a) \<in> hop_rel up st' ^^ h \<and> h = (LEAST k. (start, a) \<in> hop_rel up st' ^^ k)"
        using paths least by simp
    qed
  qed
qed

section \<open>The graph is closed\<close>

definition graph_ok :: "lineage_graph \<Rightarrow> bool" where
  "graph_ok g \<longleftrightarrow> distinct (map fst (lg_nodes g)) \<and> distinct (map fst (lg_edges g))
     \<and> (\<forall>(_, e)\<in>set (lg_edges g). ge_source e \<in> fst ` set (lg_nodes g) \<and> ge_target e \<in> fst ` set (lg_nodes g))"

definition has_node :: "string \<Rightarrow> lineage_graph \<Rightarrow> bool" where
  "has_node n g \<longleftrightarrow> n \<in> fst ` set (lg_nodes g)"

lemma setdefault_keys: "fst ` set (setdefault k v d) = insert k (fst ` set d)"
  by (auto simp: map_of_eq_None_iff image_iff dest: map_of_SomeD)

lemma setdefault_distinct: "distinct (map fst d) \<Longrightarrow> distinct (map fst (setdefault k v d))"
  by (auto simp: map_of_eq_None_iff)

lemma graph_ok_grow:
  "graph_ok g \<Longrightarrow> distinct (map fst ns) \<Longrightarrow> fst ` set (lg_nodes g) \<subseteq> fst ` set ns \<Longrightarrow> graph_ok (g\<lparr>lg_nodes := ns\<rparr>)"
  unfolding graph_ok_def by (simp add: case_prod_unfold) blast

lemma has_node_set [simp]: "has_node n (g\<lparr>lg_nodes := ns\<rparr>) \<longleftrightarrow> n \<in> fst ` set ns"
  by (simp add: has_node_def)

lemma dict_set_keys: "map fst (dict_set k v d) = (if k \<in> fst ` set d then map fst d else map fst d @ [k])"
  by (induction k v d rule: dict_set.induct) auto

lemma upsert_asset_node_ok:
  assumes ok: "graph_ok g"
  shows "graph_ok (upsert_asset_node engines lo up cur ro a g)
    \<and> fst ` set (lg_nodes (upsert_asset_node engines lo up cur ro a g)) = insert (canonical_lineage_asset_key a) (fst ` set (lg_nodes g))"
proof (cases "map_of (lg_nodes g) (canonical_lineage_asset_key a)")
  case None
  then have new: "canonical_lineage_asset_key a \<notin> fst ` set (lg_nodes g)" by (simp add: map_of_eq_None_iff)
  have "distinct (map fst (lg_nodes g @ [(canonical_lineage_asset_key a, n)]))" for n
    using ok new by (simp add: graph_ok_def)
  from graph_ok_grow[OF ok this] show ?thesis using None by (auto simp: upsert_asset_node_def Let_def)
next
  case (Some n)
  then have key: "canonical_lineage_asset_key a \<in> fst ` set (lg_nodes g)" by (force dest: map_of_SomeD)
  then have "map fst (dict_set (canonical_lineage_asset_key a) n' (lg_nodes g)) = map fst (lg_nodes g)" for n'
    by (simp add: dict_set_keys)
  note same = this this[THEN arg_cong[where f = set], unfolded set_map]
  have "graph_ok (g\<lparr>lg_nodes := dict_set (canonical_lineage_asset_key a) n' (lg_nodes g)\<rparr>)" for n'
    using graph_ok_grow[OF ok] ok same by (simp add: graph_ok_def)
  then show ?thesis using ok key same(2) Some by (auto simp: upsert_asset_node_def Let_def insert_absorb)
qed

lemma upsert_edge_ok: "graph_ok g \<Longrightarrow> has_node s g \<Longrightarrow> has_node t g \<Longrightarrow> graph_ok (upsert_edge i s t r g)"
  using setdefault_distinct[of "lg_edges g"] by (auto simp: graph_ok_def has_node_def upsert_edge_def)

lemma upsert_edge_nodes [simp]: "has_node n (upsert_edge i s t r g) = has_node n g"
  by (simp add: has_node_def upsert_edge_def)

lemma upsert_process_node_ok:
  assumes p: "upsert_process_node jobs r g = Inr g'" and ok: "graph_ok g"
  shows "graph_ok g' \<and> fst ` set (lg_nodes g') = insert (process_node_id r) (fst ` set (lg_nodes g))"
proof -
  obtain n where g': "g' = g\<lparr>lg_nodes := setdefault (process_node_id r) n (lg_nodes g)\<rparr>"
    using p by (auto simp: upsert_process_node_def res_bind_Inr_iff Let_def simp del: setdefault.simps)
  have "distinct (map fst (lg_nodes g))" using ok by (simp add: graph_ok_def)
  from graph_ok_grow[OF ok setdefault_distinct[OF this]] show ?thesis
    unfolding g' by (auto simp: setdefault_keys simp del: setdefault.simps)
qed

lemma add_relation_ok:
  assumes a: "add_relation engines jobs st c up r g = Inr g'" and g: "graph_ok g \<and> has_node c g"
  shows "graph_ok g' \<and> has_node c g'"
proof (cases "find_asset st (far_end up r)")
  case (Some a)
  define g1 where "g1 = upsert_asset_node engines [] up False (normalized_relation_origin (Some (lr_discovery_method r))) a g"
  have g1: "graph_ok g1" "has_node c g1" "has_node (canonical_lineage_asset_key a) g1"
    using upsert_asset_node_ok g unfolding g1_def has_node_def by auto
  show ?thesis
  proof (cases "has_process jobs r")
    case True
    then obtain g2 where p: "upsert_process_node jobs r g1 = Inr g2"
      using assms(1) Some by (auto simp: add_relation_def Let_def g1_def[symmetric] res_bind_Inr_iff)
    have "graph_ok g2" "has_node c g2" "has_node (canonical_lineage_asset_key a) g2" "has_node (process_node_id r) g2"
      using upsert_process_node_ok[OF p g1(1)] g1(2,3) by (auto simp: has_node_def)
    then show ?thesis using assms(1) Some True p
      by (auto simp: add_relation_def Let_def g1_def[symmetric] intro!: upsert_edge_ok)
  qed (use assms(1) Some g1 in \<open>auto simp: add_relation_def Let_def g1_def[symmetric] intro!: upsert_edge_ok\<close>)
qed (use assms in \<open>simp add: add_relation_def\<close>)

lemma collect_graph_ok:
  assumes "collect_asset_summary rules engines jobs st user limit max_depth a = Inr s"
  shows "graph_ok (su_graph s)"
proof -
  let ?c = "canonical_lineage_asset_key a"
  obtain known origin ups downs g1 g2 where
    up: "res_fold (add_relation known jobs st ?c True) ups (upsert_asset_node known origin False True [] a \<lparr>lg_nodes = [], lg_edges = []\<rparr>) = Inr g1"
    and down: "res_fold (add_relation known jobs st ?c False) downs g1 = Inr g2" and s: "su_graph s = g2"
    using assms by (auto simp: collect_asset_summary_def Let_def res_bind_Inr_iff split: prod.splits)
  have "graph_ok \<lparr>lg_nodes = [], lg_edges = []\<rparr>" by (simp add: graph_ok_def)
  from upsert_asset_node_ok[OF this]
  have start: "graph_ok (upsert_asset_node known origin False True [] a \<lparr>lg_nodes = [], lg_edges = []\<rparr>)
    \<and> has_node ?c (upsert_asset_node known origin False True [] a \<lparr>lg_nodes = [], lg_edges = []\<rparr>)" by (simp add: has_node_def)
  have keep: "graph_ok g' \<and> has_node ?c g'"
    if "graph_ok g \<and> has_node ?c g" "add_relation known jobs st ?c up r g = Inr g'" for g up r g'
    using add_relation_ok[OF that(2,1)] .
  have g1: "graph_ok g1 \<and> has_node ?c g1"
    by (rule res_fold_invariant[where P = "\<lambda>g. graph_ok g \<and> has_node ?c g", OF _ start up]) (rule keep)
  have "graph_ok g2 \<and> has_node ?c g2"
    by (rule res_fold_invariant[where P = "\<lambda>g. graph_ok g \<and> has_node ?c g", OF _ g1 down]) (rule keep)
  then show ?thesis using s by simp
qed

text \<open>In the graph of an asset or of a table no node and no edge is shown twice, and every edge joins two nodes of the
  graph.\<close>

theorem graph_closed:
  assumes "get_lineage_graph rules engines jobs user asset_id table_id limit max_depth st = Inr s"
  shows "distinct (map fst (lg_nodes (su_graph s))) \<and> distinct (map fst (lg_edges (su_graph s)))
    \<and> list_all (\<lambda>(_, e). ge_source e \<in> fst ` set (lg_nodes (su_graph s)) \<and> ge_target e \<in> fst ` set (lg_nodes (su_graph s)))
        (lg_edges (su_graph s))"
proof -
  have "graph_ok (su_graph (unlinked_summary a))" for a by (simp add: graph_ok_def unlinked_summary_def)
  then have "graph_ok (su_graph s)"
    using assms collect_graph_ok
    by (auto simp: get_lineage_graph_def get_asset_summary_def get_table_summary_def res_bind_Inr_iff http_def
        split: option.splits if_splits)
  then show ?thesis by (simp add: graph_ok_def list_all_iff)
qed

section \<open>What goes wrong\<close>

lemma res_bind_Inl_iff: "res_bind x f = Inl e \<longleftrightarrow> x = Inl e \<or> (\<exists>y. x = Inr y \<and> f y = Inl e)"
  by (cases x) auto

lemma res_fold_error:
  assumes "\<And>x s e. f x s = Inl e \<Longrightarrow> e = err" and "x \<in> set xs" and "\<And>s. isl (f x s)"
  shows "res_fold f xs s = Inl err"
  using assms(2)
proof (induction xs arbitrary: s)
  case (Cons y ys)
  show ?case
  proof (cases "f y s")
    case (Inr s')
    then have "x \<in> set ys" using Cons.prems assms(3)[of s] by auto
    then show ?thesis using Cons.IH Inr by simp
  qed (use assms(1) in simp)
qed simp

lemma add_relation_error: "add_relation engines jobs st c up r g = Inl e \<Longrightarrow> e = AttributeError ''job_type''"
  by (auto simp: add_relation_def Let_def upsert_process_node_def process_node_type_def res_bind_Inl_iff split: option.splits if_splits)

definition untyped_process :: "lineage_job list \<Rightarrow> lineage_relation \<Rightarrow> bool" where
  "untyped_process jobs r \<longleftrightarrow> job_of jobs r = None \<and> str_true (lr_process_name r) \<and> \<not> str_true (lr_process_type r)"

lemma untyped_process_error:
  "untyped_process jobs r \<Longrightarrow> find_asset st (far_end up r) \<noteq> None \<Longrightarrow> isl (add_relation engines jobs st c up r g)"
  by (auto simp: untyped_process_def add_relation_def Let_def has_process_def upsert_process_node_def process_node_type_def)

text \<open>C32: One active, visible relation whose process has a name, but neither a type nor a job, makes the graph of both of
  its assets fail with an uncaught error.\<close>

theorem untyped_process_crashes:
  assumes a: "find_asset st i = Some a" "la_is_active a" "asset_visible_to_user rules st (Some user) a"
    and role: "require_roles [''admin'', ''editor'', ''viewer''] user = Inr user"
    and r: "r \<in> set (ls_relations st)" "lr_is_active r" "near_end up r = i" "find_asset st (far_end up r) \<noteq> None"
      "relation_visible_to_user rules st (Some user) r"
    and p: "untyped_process jobs r"
  shows "get_lineage_graph rules engines jobs user (Some i) table_id None 1 st = Inl (AttributeError ''job_type'')"
proof -
  have i: "la_id a = i" using find_assetD[OF a(1)] by blast
  have in_side: "r \<in> set (fst (side_relations rules st (Some user) up None 1 i))"
    using r by (simp add: side_relations_def direct_relations_def Let_def seen_by_def)
  have fails: "res_fold (add_relation known jobs st c up) rels g = Inl (AttributeError ''job_type'')"
    if "r \<in> set rels" for known c rels g
    by (rule res_fold_error[OF add_relation_error that]) (use untyped_process_error p r(4) in blast)+
  have "res_bind (res_fold (add_relation known jobs st c True) (fst (side_relations rules st (Some user) True None 1 i)) g)
      (\<lambda>g1. res_bind (res_fold (add_relation known jobs st c False) (fst (side_relations rules st (Some user) False None 1 i)) g1) k)
      = Inl (AttributeError ''job_type'')" for known c g k
  proof (cases up)
    case True
    then show ?thesis using fails[of "fst (side_relations rules st (Some user) True None 1 i)"] in_side by simp
  next
    case False
    have "e = AttributeError ''job_type''" if "res_fold (add_relation known jobs st c True) rels g = Inl e" for e rels
      using that by (induction rels arbitrary: g) (auto simp: res_bind_Inl_iff dest: add_relation_error)
    then show ?thesis
      using False fails[of "fst (side_relations rules st (Some user) False None 1 i)"] in_side
      by (cases "res_fold (add_relation known jobs st c True) (fst (side_relations rules st (Some user) True None 1 i)) g") auto
  qed
  then have "collect_asset_summary rules engines jobs st (Some user) None 1 a = Inl (AttributeError ''job_type'')"
    by (simp add: collect_asset_summary_def i Let_def case_prod_unfold)
  then show ?thesis using a role by (simp add: get_lineage_graph_def get_asset_summary_def)
qed

text \<open>A table that has no asset yet is described to every user: the summary has the name and the description of the
  table, whatever the user may see.\<close>

theorem unlinked_table_shown:
  assumes t: "find_lineage_table st i = Some t" "asset_of_table st i = None"
    and role: "require_roles [''admin'', ''editor'', ''viewer''] user = Inr user"
  shows "\<exists>s. get_lineage_graph rules engines jobs user None (Some i) limit max_depth st = Inr s
    \<and> la_asset_name (su_asset s) = asset_display_name t
    \<and> la_description (su_asset s) = or_opt (lt_description_manual t) (lt_description_source t)"
  using assms by (simp add: get_lineage_graph_def get_table_summary_def unlinked_summary_def ephemeral_asset_def new_table_asset_def)

section \<open>Examples\<close>

definition demo_table_asset :: "int \<Rightarrow> lineage_asset" where
  "demo_table_asset i = demo_asset\<lparr>la_id := i, la_catalog_table_id := Some i\<rparr>"

definition demo_flow :: "int \<Rightarrow> int \<Rightarrow> int \<Rightarrow> lineage_relation" where
  "demo_flow i a b = demo_row\<lparr>lr_id := i, lr_source_asset_id := a, lr_target_asset_id := b\<rparr>"

text \<open>Three tables in a cycle.\<close>

definition demo_cycle :: lineage_store where
  "demo_cycle = demo_linked\<lparr>ls_assets := map demo_table_asset [1, 2, 3], ls_relations := [demo_flow 1 1 2, demo_flow 2 2 3, demo_flow 3 3 1]\<rparr>"

lemma demo_cycle_next:
  "next_assets False demo_cycle 1 = [demo_table_asset 2]" "next_assets False demo_cycle 2 = [demo_table_asset 3]"
  "next_assets False demo_cycle 3 = [demo_table_asset 1]"
  by code_simp+

lemma demo_cycle_start: "catalog_lineage_asset_for_table 1 demo_cycle = (demo_cycle, Some 1)"
  by code_simp

definition demo_walk1 :: walk where
  "demo_walk1 = \<lparr>wk_queue = [(2, 1)], wk_visited_assets = [2, 1], wk_visited_tables = [2, 1], wk_results = [(2, 2, 1)]\<rparr>"

definition demo_walk2 :: walk where
  "demo_walk2 = \<lparr>wk_queue = [(3, 2)], wk_visited_assets = [3, 2, 1], wk_visited_tables = [3, 2, 1], wk_results = [(2, 2, 1), (3, 3, 2)]\<rparr>"

lemma demo_cycle_steps:
  "walk_step False demo_cycle (start_walk 1 1) = demo_walk1" "walk_step False demo_cycle demo_walk1 = demo_walk2"
  "walk_step False demo_cycle demo_walk2 = demo_walk2\<lparr>wk_queue := []\<rparr>"
  "wk_queue (start_walk 1 1) \<noteq> []" "wk_queue demo_walk1 \<noteq> []" "wk_queue demo_walk2 \<noteq> []"
  by (simp_all add: start_walk_def demo_walk1_def demo_walk2_def walk_step_def demo_cycle_next walk_edge_def
      demo_table_asset_def demo_asset_def)

lemma demo_cycle_walk:
  "while_option (\<lambda>w. wk_queue w \<noteq> []) (walk_step False demo_cycle) (start_walk 1 1) = Some (demo_walk2\<lparr>wk_queue := []\<rparr>)"
  by (subst while_option_unfold, simp only: demo_cycle_steps simp_thms if_True,
      subst while_option_unfold, simp only: demo_cycle_steps simp_thms if_True,
      subst while_option_unfold, simp only: demo_cycle_steps simp_thms if_True,
      subst while_option_unfold, simp)

lemma demo_cycle_found: "collect_catalog_tables False 1 demo_cycle = Some (demo_cycle, [(2, 2, 1), (3, 3, 2)])"
  by (simp add: collect_catalog_tables_def demo_cycle_start demo_cycle_walk demo_walk2_def)

theorem collect_finds_reachable_witness:
  "(1, 3) \<in> hop_rel False demo_cycle ^^ 2 \<and> 2 = (LEAST k. (1, 3) \<in> hop_rel False demo_cycle ^^ k)"
  using collect_finds_reachable[OF demo_cycle_found demo_cycle_start, THEN conjunct2]
  unfolding list.pred_inject prod.case by (elim conjE, intro conjI)

definition demo_crash :: lineage_store where
  "demo_crash = demo_cycle\<lparr>ls_relations := [(demo_flow 1 1 2)\<lparr>lr_process_name := Some ''nightly load''\<rparr>]\<rparr>"

definition plain_viewer :: user_row where
  "plain_viewer = user_with_role ''viewer''"

lemma demo_crash_facts:
  "find_asset demo_crash 1 = Some (demo_table_asset 1)" "la_is_active (demo_table_asset 1)"
  "asset_visible_to_user None demo_crash (Some plain_viewer) (demo_table_asset 1)"
  "\<not> isl (require_roles [''admin'', ''editor'', ''viewer''] plain_viewer)"
  "lr_is_active (hd (ls_relations demo_crash))" "near_end False (hd (ls_relations demo_crash)) = 1"
  "find_asset demo_crash (far_end False (hd (ls_relations demo_crash))) \<noteq> None"
  "relation_visible_to_user None demo_crash (Some plain_viewer) (hd (ls_relations demo_crash))"
  "untyped_process [] (hd (ls_relations demo_crash))"
  by code_simp+

lemma demo_crash_role: "require_roles [''admin'', ''editor'', ''viewer''] plain_viewer = Inr plain_viewer"
  using demo_crash_facts(4) by (auto simp: require_roles_def http_def Let_def split: if_splits)

theorem untyped_process_crashes_witness:
  "get_lineage_graph None [] [] plain_viewer (Some 1) None None 1 demo_crash = Inl (AttributeError ''job_type'')"
proof -
  have r: "hd (ls_relations demo_crash) \<in> set (ls_relations demo_crash)" by (simp add: demo_crash_def)
  show ?thesis
    by (rule untyped_process_crashes[OF demo_crash_facts(1-3) demo_crash_role r demo_crash_facts(5-9)])
qed

theorem graph_closed_witness:
  "\<exists>s. get_lineage_graph None [] [] plain_viewer (Some 1) None None 1 demo_cycle = Inr s
    \<and> distinct (map fst (lg_nodes (su_graph s))) \<and> length (lg_edges (su_graph s)) = 1"
proof -
  have "map_sum id (\<lambda>s. length (lg_edges (su_graph s))) (get_lineage_graph None [] [] plain_viewer (Some 1) None None 1 demo_cycle) = Inr 1"
    by code_simp
  then obtain s where "get_lineage_graph None [] [] plain_viewer (Some 1) None None 1 demo_cycle = Inr s"
    "length (lg_edges (su_graph s)) = 1"
    by (cases "get_lineage_graph None [] [] plain_viewer (Some 1) None None 1 demo_cycle") auto
  then show ?thesis using graph_closed by blast
qed

definition hidden_table :: lineage_table where
  "hidden_table = (demo_lineage_table 1)\<lparr>lt_description_manual := Some ''customers and their cards''\<rparr>"

definition demo_unlinked :: lineage_store where
  "demo_unlinked = demo_lineage\<lparr>ls_tables := [hidden_table]\<rparr>"

text \<open>The table may not be read by \<open>barred_editor\<close>.\<close>

theorem unlinked_table_shown_witness:
  "visible_table_ids None (Some barred_editor) (map lt_row (ls_tables demo_unlinked)) = []
    \<and> (\<exists>s. get_lineage_graph None [] [] barred_editor None (Some 1) None 1 demo_unlinked = Inr s
      \<and> la_description (su_asset s) = Some ''customers and their cards'')"
proof -
  have f: "find_lineage_table demo_unlinked 1 = Some hidden_table" "asset_of_table demo_unlinked 1 = None"
    "or_opt (lt_description_manual hidden_table) (lt_description_source hidden_table) = Some ''customers and their cards''"
    "visible_table_ids None (Some barred_editor) (map lt_row (ls_tables demo_unlinked)) = []" by code_simp+
  have "\<not> isl (require_roles [''admin'', ''editor'', ''viewer''] barred_editor)" by code_simp
  then have "require_roles [''admin'', ''editor'', ''viewer''] barred_editor = Inr barred_editor"
    by (auto simp: require_roles_def http_def Let_def split: if_splits)
  from unlinked_table_shown[OF f(1,2) this] show ?thesis using f(3,4) by metis
qed

end
