(* ===== verification/Exports.thy ===== *)
theory Exports
  imports Guard SensitiveData
begin

text \<open>
  What leaves the program as files and pages: \<open>features/export_security.py\<close> (sensitivity, limits, permission, cells) and
  \<open>features/pagination.py\<close>.  Metrics and the audit row are left out.  Parameter: the text of a floating point number.
\<close>

section \<open>Pages\<close>

definition or_num :: "int \<Rightarrow> int \<Rightarrow> int" where
  "or_num v d = (if v = 0 then d else v)"

definition default_page_size :: int where
  "default_page_size = 25"

definition default_max_page_size :: int where
  "default_max_page_size = 500"

definition normalize_page_params :: "int \<Rightarrow> int \<Rightarrow> int \<Rightarrow> int \<Rightarrow> int \<times> int" where
  "normalize_page_params page page_size default_size max_size =
     (let bounded_max = max (or_num max_size default_max_page_size) 1;
          bounded_default = max (min (or_num default_size default_page_size) bounded_max) 1
      in (max (or_num page 1) 1, max (min (or_num page_size bounded_default) bounded_max) 1))"

record 'a page_out =
  pg_page :: int
  pg_page_size :: int
  pg_total :: int
  pg_total_pages :: int
  pg_has_more :: bool
  pg_items :: "'a list"

text \<open>\<open>ceil(total / page_size)\<close> is exact as long as the total is below \<open>2^53\<close>.\<close>

definition paginate_items :: "'a list \<Rightarrow> int \<Rightarrow> int \<Rightarrow> int \<Rightarrow> 'a page_out" where
  "paginate_items items page page_size max_page_size =
     (let (p, size) = normalize_page_params page page_size default_page_size max_page_size;
          total = int (length items); start = (p - 1) * size; stop = start + size
      in \<lparr>pg_page = p, pg_page_size = size, pg_total = total,
          pg_total_pages = (if total > 0 then (total + size - 1) div size else 0),
          pg_has_more = (stop < total), pg_items = take (nat size) (drop (nat start) items)\<rparr>)"

section \<open>Sensitivity, limits and permission\<close>

definition export_limits :: "(string \<times> int) list" where
  "export_limits = [(''low'', 5000), (''medium'', 2500), (''high'', 2000), (''regulatory'', 1000), (''operational_critical'', 2000)]"

definition default_export_limit :: int where
  "default_export_limit = 5000"

definition classify_export_sensitivity :: "string \<Rightarrow> string option \<Rightarrow> string" where
  "classify_export_sensitivity source_module entity_type =
     (let m = norm_token (Some source_module); e = norm_token entity_type; mentions = list_ex (\<lambda>t. contains_str t e)
      in if m \<in> {''audit'', ''privacy_access''} \<or> mentions [''audit'', ''privacy''] then ''regulatory''
         else if m = ''certification'' \<or> contains_str ''certification'' e then ''high''
         else if m \<in> {''platform'', ''ops'', ''governance'', ''owners'', ''io'', ''integrations'', ''dashboard''}
             \<or> mentions [''ownership'', ''governance'', ''ops'', ''platform'', ''bundle'', ''dashboard''] then ''operational_critical''
         else if m \<in> {''datasource'', ''catalog'', ''glossary'', ''tags'', ''lineage''} then ''medium''
         else ''low'')"

definition resolve_export_limit :: "string \<Rightarrow> string option \<Rightarrow> int" where
  "resolve_export_limit source_module entity_type =
     (case map_of export_limits (classify_export_sensitivity source_module entity_type) of
        None \<Rightarrow> default_export_limit | Some l \<Rightarrow> l)"

definition enforce_export_limit :: "'a list \<Rightarrow> int \<Rightarrow> 'a list \<times> bool" where
  "enforce_export_limit rows limit =
     (let bounded = max 1 (min (or_num limit default_export_limit) default_export_limit)
      in if int (length rows) \<le> bounded then (rows, False) else (take (nat bounded) rows, True))"

definition enforce_export_permission :: "user_row \<Rightarrow> string \<Rightarrow> user_row res" where
  "enforce_export_permission user permission_name =
     (if is_admin_role (user_role_names (Some user)) then Inr user
      else if permission_name \<in> set (granted_permissions user) then Inr user
      else http 403 ''Insufficient permission'')"

section \<open>Cells\<close>

definition formula_prefixes :: "char list" where
  "formula_prefixes = [CHR ''='', CHR ''+'', CHR ''-'', CHR ''@'', CHR 9, CHR 13]"

fun neutralize_spreadsheet_formula :: "string \<Rightarrow> string" where
  "neutralize_spreadsheet_formula [] = []"
| "neutralize_spreadsheet_formula (c # s) = (if c \<in> set formula_prefixes then CHR 9 # c # s else c # s)"


definition hex_digit :: "nat \<Rightarrow> char" where
  "hex_digit n = ''0123456789abcdef'' ! n"

text \<open>\<open>json.dumps(value, ensure_ascii=False)\<close>; \<open>ft\<close> is the text of a floating point number.\<close>

definition json_char :: "char \<Rightarrow> string" where
  "json_char c =
     (let n = of_char c :: nat in
      if c = CHR 34 then [CHR 92, CHR 34] else if c = CHR 92 then [CHR 92, CHR 92]
      else if n = 10 then [CHR 92, CHR ''n''] else if n = 13 then [CHR 92, CHR ''r''] else if n = 9 then [CHR 92, CHR ''t'']
      else if n = 8 then [CHR 92, CHR ''b''] else if n = 12 then [CHR 92, CHR ''f'']
      else if n < 32 then [CHR 92, CHR ''u'', CHR ''0'', CHR ''0'', hex_digit (n div 16), hex_digit (n mod 16)]
      else [c])"

definition json_str :: "string \<Rightarrow> string" where
  "json_str s = [CHR 34] @ concat (map json_char s) @ [CHR 34]"

fun json_dumps :: "(rat \<Rightarrow> string) \<Rightarrow> py_value \<Rightarrow> string" where
  "json_dumps ft PNone = ''null''"
| "json_dumps ft (PBool b) = (if b then ''true'' else ''false'')"
| "json_dumps ft (PInt i) = int_str i"
| "json_dumps ft (PFloat x) = ft x"
| "json_dumps ft (PStr s) = json_str s"
| "json_dumps ft (PList xs) = ''['' @ join_with '', '' (map (json_dumps ft) xs) @ '']''"
| "json_dumps ft (PDict d) = ''{'' @ join_with '', '' (map (\<lambda>(k, v). json_str k @ '': '' @ json_dumps ft v) d) @ ''}''"

definition masked_person_fields :: "string list" where
  "masked_person_fields = [''owner'', ''owner_name'', ''owner_email'', ''user_email'', ''actor_email'']"

definition export_field :: "string option \<Rightarrow> string" where
  "export_field field_name = map (\<lambda>c. if c = CHR ''-'' then CHR ''_'' else c) (norm_token field_name)"

definition export_text :: "(rat \<Rightarrow> string) \<Rightarrow> py_value \<Rightarrow> string" where
  "export_text ft v =
     (case v of PNone \<Rightarrow> [] | PBool b \<Rightarrow> (if b then ''True'' else ''False'') | PInt i \<Rightarrow> neutralize_spreadsheet_formula (int_str i)
      | PFloat x \<Rightarrow> neutralize_spreadsheet_formula (ft x) | PStr s \<Rightarrow> neutralize_spreadsheet_formula s
      | w \<Rightarrow> neutralize_spreadsheet_formula (json_dumps ft w))"

definition redact_export_value :: "(rat \<Rightarrow> string) \<Rightarrow> py_value \<Rightarrow> string option \<Rightarrow> string" where
  "redact_export_value ft value field_name =
     (if export_field field_name \<in> set masked_person_fields then ''[masked]''
      else if str_true field_name
      then export_text ft (dict_get (as_dict (Some (redact_sensitive_metadata (PDict [(or_empty field_name, value)])))) (or_empty field_name))
      else export_text ft (redact_sensitive_metadata value))"

definition redact_export_row :: "(rat \<Rightarrow> string) \<Rightarrow> (string \<times> py_value) list \<Rightarrow> string list option \<Rightarrow> (string \<times> string) list" where
  "redact_export_row ft row field_names =
     (case field_names of
        None \<Rightarrow> map (\<lambda>(k, v). (k, redact_export_value ft v (Some k))) row
      | Some allowed \<Rightarrow> map (\<lambda>(k, v). (k, redact_export_value ft v (if k \<in> set allowed then Some k else None))) row)"

section \<open>Properties of pages\<close>

lemma page_params_bounds:
  assumes "normalize_page_params page page_size d m = (p, s)"
  shows "p \<ge> 1" "s \<ge> 1"
  using assms[unfolded normalize_page_params_def Let_def prod.inject] by (metis max.cobounded2)+

lemma page_size_fixed: "snd (normalize_page_params p s d m) = snd (normalize_page_params 1 s d m)"
  unfolding normalize_page_params_def Let_def snd_conv ..

lemma page_number_fixed: "p \<ge> 1 \<Longrightarrow> fst (normalize_page_params p s d m) = p"
  unfolding normalize_page_params_def Let_def fst_conv or_num_def by simp

lemma chunks_join: "n > 0 \<Longrightarrow> concat (map (\<lambda>i. take n (drop (i * n) xs)) [0..<k]) = take (k * n) xs"
proof (induction k)
  case (Suc k)
  have "take (k * n + n) xs = take (k * n) xs @ take n (drop (k * n) xs)" by (rule take_add)
  then show ?case using Suc by (simp add: add.commute[of n])
qed simp

lemma whole_list: "s > 0 \<Longrightarrow> length xs \<le> nat ((int (length xs) + s - 1) div s) * nat s"
proof -
  assume s: "s > 0"
  let ?q = "(int (length xs) + s - 1) div s"
  have "int (length xs) + s - 1 = ?q * s + (int (length xs) + s - 1) mod s" by simp
  moreover have "(int (length xs) + s - 1) mod s < s" using s by simp
  ultimately have "int (length xs) \<le> ?q * s" by linarith
  moreover have "?q \<ge> 0" using s by (simp add: pos_imp_zdiv_nonneg_iff)
  ultimately have "int (length xs) \<le> int (nat ?q * nat s)" using s by simp
  then show ?thesis by (simp only: of_nat_le_iff)
qed

lemma more_pages: "s > 0 \<Longrightarrow> (p * s < n) = (p < (n + s - 1) div s)" for p s n :: int
proof
  assume s: "s > 0" and "p * s < n"
  then have "(p + 1) * s \<le> n + s - 1" by (simp add: distrib_right)
  then have "(p + 1) * s div s \<le> (n + s - 1) div s" using s by (intro zdiv_mono1)
  then show "p < (n + s - 1) div s" using s by simp
next
  assume s: "s > 0" and "p < (n + s - 1) div s"
  then have "(p + 1) * s \<le> (n + s - 1) div s * s" by (intro mult_right_mono) auto
  also have "\<dots> = n + s - 1 - (n + s - 1) mod s" by (simp add: minus_mod_eq_div_mult)
  also have "\<dots> \<le> n + s - 1" using pos_mod_sign[OF s, of "n + s - 1"] by linarith
  finally show "p * s < n" by (simp add: distrib_right)
qed

text \<open>C36: The pages of a list, one after the other, give the list, whatever sizes are asked for, and only the last one has
  nothing after it.\<close>

theorem pages_are_list:
  "concat (map (\<lambda>p. pg_items (paginate_items items p sz m)) [1..pg_total_pages (paginate_items items 1 sz m)]) = items
    \<and> (\<forall>p. pg_has_more (paginate_items items p sz m)
        = (pg_page (paginate_items items p sz m) < pg_total_pages (paginate_items items p sz m)))"
proof -
  define s where "s = snd (normalize_page_params 1 sz default_page_size m)"
  have s: "s > 0" using page_params_bounds(2)[of 1 sz default_page_size m] by (simp add: s_def) (metis prod.collapse zero_less_one_class.zero_less_one order_less_le_trans)
  have size: "snd (normalize_page_params p sz default_page_size m) = s" for p
    unfolding s_def by (rule page_size_fixed)
  define k where "k = pg_total_pages (paginate_items items 1 sz m)"
  have k: "k = (if items = [] then 0 else (int (length items) + s - 1) div s)"
    by (simp add: k_def paginate_items_def case_prod_unfold Let_def size)
  have k0: "k \<ge> 0" using s by (simp add: k pos_imp_zdiv_nonneg_iff)
  have page: "pg_items (paginate_items items (int i + 1) sz m) = take (nat s) (drop (i * nat s) items)" for i
    using s by (simp add: paginate_items_def case_prod_unfold Let_def size page_number_fixed nat_mult_distrib)
  have "map (\<lambda>p. pg_items (paginate_items items p sz m)) [1..k] = map (\<lambda>i. take (nat s) (drop (i * nat s) items)) [0..<nat k]"
  proof -
    have "[1..k] = map (\<lambda>i. int i + 1) [0..<nat k]"
      by (rule nth_equalityI) (auto simp: nth_upto)
    then show ?thesis by (simp add: page)
  qed
  moreover have "take (nat k * nat s) items = items" using whole_list[OF s, of items] by (simp add: k)
  ultimately have "concat (map (\<lambda>p. pg_items (paginate_items items p sz m)) [1..k]) = items"
    using chunks_join[of "nat s" items "nat k"] s by simp
  moreover have "pg_has_more (paginate_items items p sz m)
      = (pg_page (paginate_items items p sz m) < pg_total_pages (paginate_items items p sz m))" for p
  proof -
    obtain q where q: "normalize_page_params p sz default_page_size m = (q, s)" using size[of p] by (metis prod.collapse)
    have "q \<ge> 1" using page_params_bounds(1)[OF q] .
    then have "(q * s < int (length items)) = (q < (if items = [] then 0 else (int (length items) + s - 1) div s))"
      using more_pages[OF s, of q "int (length items)"] s by (auto simp: not_less)
    then show ?thesis by (simp add: paginate_items_def q size case_prod_unfold Let_def left_diff_distrib)
  qed
  ultimately show ?thesis unfolding k_def by blast
qed

section \<open>Properties of exports\<close>








lemma classify_cases: "classify_export_sensitivity m e \<in> fst ` set export_limits"
proof -
  have if_in: "x \<in> S \<Longrightarrow> y \<in> S \<Longrightarrow> (if b then x else y) \<in> S" for b and x y :: string and S by simp
  show ?thesis unfolding classify_export_sensitivity_def Let_def by (intro if_in) (simp_all add: export_limits_def)
qed

lemma regulatory_limit: "norm_token (Some m) \<in> {''audit'', ''privacy_access''} \<Longrightarrow> resolve_export_limit m e = 1000"
proof -
  assume m: "norm_token (Some m) \<in> {''audit'', ''privacy_access''}"
  have "classify_export_sensitivity m e = ''regulatory''"
    unfolding classify_export_sensitivity_def Let_def by (rule if_P) (use m in blast)
  then show ?thesis by (simp add: resolve_export_limit_def export_limits_def)
qed

lemma export_limit_bounds: "resolve_export_limit m e \<in> {1000, 2000, 2500, 5000}"
  using classify_cases[of m e] unfolding resolve_export_limit_def export_limits_def by auto

text \<open>An export has at most the rows that the sensitivity of its module admits, a thousand for the audit trail and
  for privacy, and never more than five thousand; they are the first ones, and it says so when rows were left out.\<close>

theorem exports_bounded:
  assumes "enforce_export_limit rows (resolve_export_limit source_module entity_type) = (out, truncated)"
  shows "int (length out) \<le> resolve_export_limit source_module entity_type \<and> resolve_export_limit source_module entity_type \<le> 5000
    \<and> out = take (length out) rows \<and> truncated = (out \<noteq> rows)
    \<and> (norm_token (Some source_module) \<in> {''audit'', ''privacy_access''} \<longrightarrow> length out \<le> 1000)"
proof -
  define l where "l = resolve_export_limit source_module entity_type"
  have l: "l \<in> {1000, 2000, 2500, 5000}" unfolding l_def by (rule export_limit_bounds)
  then have "max 1 (min (or_num l default_export_limit) default_export_limit) = l"
    by (auto simp: or_num_def default_export_limit_def)
  then have e: "(out, truncated) = (if int (length rows) \<le> l then (rows, False) else (take (nat l) rows, True))"
    using assms by (simp add: enforce_export_limit_def Let_def l_def[symmetric])
  have "l > 0" using l by auto
  then have "int (length out) \<le> l" "out = take (length out) rows" "truncated = (out \<noteq> rows)"
    using e by (auto split: if_splits dest: arg_cong[where f = length])
  moreover have "l \<le> 5000" using l by auto
  moreover have "norm_token (Some source_module) \<in> {''audit'', ''privacy_access''} \<Longrightarrow> length out \<le> 1000"
    using \<open>int (length out) \<le> l\<close> regulatory_limit[of source_module entity_type] unfolding l_def by simp
  ultimately show ?thesis unfolding l_def[symmetric] by blast
qed

text \<open>Audit values of a secret field do not leave the program.\<close>

lemma secret_field_redacted:
  assumes "is_secret_field (Some f)" "f \<noteq> []" "case v of PStr _ \<Rightarrow> True | PInt _ \<Rightarrow> True | PFloat _ \<Rightarrow> True | _ \<Rightarrow> False"
    and "export_field (Some f) \<notin> set masked_person_fields"
  shows "redact_export_value ft v (Some f) = ''[redacted]''"
  using assms
  by (cases v) (simp_all add: redact_export_value_def redact_sensitive_metadata_def dict_get_def as_dict_def export_text_def
      redact_token_def str_true_def formula_prefixes_def)

section \<open>Examples\<close>

theorem exports_bounded_witness: "snd (enforce_export_limit (replicate 1001 ()) (resolve_export_limit ''audit'' (Some ''audit_history'')))"
proof -
  obtain out cut where e: "enforce_export_limit (replicate 1001 ()) (resolve_export_limit ''audit'' (Some ''audit_history'')) = (out, cut)"
    by fastforce
  have "norm_token (Some ''audit'') = ''audit''" by code_simp
  then have "length out \<le> 1000" using exports_bounded[OF e] by simp
  then have "out \<noteq> replicate 1001 ()" by auto
  then show ?thesis using exports_bounded[OF e] e by simp
qed

end
