(* ===== verification/ExportJobs.thy ===== *)
theory ExportJobs
  imports Exports Jobs
begin

text \<open>
  Exports that a worker builds: \<open>features/export_jobs.py\<close>, the routes of \<open>api/exports.py\<close>, and the part of
  \<open>run_platform_job\<close> (\<open>features/platform/jobs.py\<close>) that queues an export.  The queue is the one of \<open>Jobs\<close>.

  The state is the queue, the columns \<open>artifact_*\<close> of each job, the files below the temporary directory, and the users.
  Parameters (\<open>export_env\<close>): the digest of a payload's JSON text, the builders of the files, which texts are dates, the
  text of an exception, the temporary directory, and the files that cannot be deleted.  Every write succeeds; empty
  directories, audit rows and metrics are left out.
\<close>

section \<open>State\<close>

text \<open>A payload as the builders get it: some texts are parsed into dates, kept here as the text with a mark.\<close>

datatype export_value =
    Json py_value
  | Date string

record export_file =
  xf_payload :: string
  xf_filename :: string
  xf_content_type :: string
  xf_row_count :: int
  xf_truncated :: bool
  xf_format :: string

record artifact_row =
  xa_filename :: "string option"
  xa_content_type :: "string option"
  xa_storage_path :: "string option"
  xa_available_at :: "instant option"
  xa_expires_at :: "instant option"
  xa_size_bytes :: "int option"
  xa_download_count :: int
  xa_last_downloaded_at :: "instant option"

definition no_artifact :: artifact_row where
  "no_artifact = \<lparr>xa_filename = None, xa_content_type = None, xa_storage_path = None, xa_available_at = None,
     xa_expires_at = None, xa_size_bytes = None, xa_download_count = 0, xa_last_downloaded_at = None\<rparr>"

record export_store =
  xs_jobs :: job_store
  xs_artifacts :: "int \<Rightarrow> artifact_row"
  xs_files :: "string \<Rightarrow> string option"
  xs_users :: "user_row list"

record export_env =
  xe_jobs :: jobs_env
  xe_digest :: "py_value \<Rightarrow> string"
  xe_build :: "string \<Rightarrow> user_row \<Rightarrow> (string \<times> export_value) list \<Rightarrow> export_file res"
  xe_is_date :: "string \<Rightarrow> bool"
  xe_is_datetime :: "string \<Rightarrow> bool"
  xe_error_text :: "py_error \<Rightarrow> string"
  xe_float_text :: "rat \<Rightarrow> string"
  xe_tmp :: string
  xe_undeletable :: "string set"
  xe_ttl_hours :: int

definition EXPORT_JOB_TYPES :: "string list" where
  "EXPORT_JOB_TYPES = [''privacy_access.csv'', ''privacy_access.events.csv'', ''governance.owners.csv'', ''certification.queue.csv'',
     ''certification.events.csv'', ''audit.history.csv'', ''audit.history.xlsx'', ''admin.access_log_archive.csv'',
     ''admin.access_log_archive.xlsx'', ''admin.audit_log_archive.csv'', ''admin.audit_log_archive.xlsx'']"

section \<open>Enqueueing\<close>

text \<open>\<open>value or {}\<close>.\<close>

definition or_empty_dict :: "py_value option \<Rightarrow> py_value" where
  "or_empty_dict v = (case v of None \<Rightarrow> PDict [] | Some w \<Rightarrow> if py_true w then w else PDict [])"

definition build_export_job_key :: "export_env \<Rightarrow> string \<Rightarrow> py_value option \<Rightarrow> string" where
  "build_export_job_key env jtype payload = ''export:'' @ jtype @ '':'' @ xe_digest env (or_empty_dict payload)"

text \<open>\<open>uuid4().hex\<close> of a random number.\<close>

fun uuid_digits :: "nat \<Rightarrow> nat \<Rightarrow> string" where
  "uuid_digits 0 n = []"
| "uuid_digits (Suc k) n = uuid_digits k (n div 16) @ [hex_digit (n mod 16)]"

definition build_export_public_id :: "nat \<Rightarrow> string" where
  "build_export_public_id r = uuid_digits 32 r"

definition load_export_job_by_public_id :: "export_store \<Rightarrow> string \<Rightarrow> job_row option" where
  "load_export_job_by_public_id st pid = List.find (\<lambda>j. job_artifact_public_id j = Some pid) (js_jobs (xs_jobs st))"

record export_request =
  xq_job_type :: string
  xq_target_name :: "string option"
  xq_user_id :: "int option"
  xq_correlation_id :: "string option"
  xq_payload :: "py_value option"
  xq_context :: "py_value option"

definition export_enqueue_request :: "export_env \<Rightarrow> string \<Rightarrow> export_request \<Rightarrow> enqueue_request" where
  "export_enqueue_request env pid req =
     \<lparr>enq_job_key = Some (build_export_job_key env (xq_job_type req) (xq_payload req)), enq_source = ''export'',
      enq_job_type = xq_job_type req, enq_target_type = Some ''export'', enq_target_id = None,
      enq_target_name = xq_target_name req, enq_trigger_mode = ''manual'', enq_requested_by_user_id = xq_user_id req,
      enq_correlation_id = xq_correlation_id req, enq_payload_json = xq_payload req,
      enq_context_json = Some (PDict (dict_set ''export_public_id'' (PStr pid) (as_dict (xq_context req)))),
      enq_artifact_public_id = Some pid, enq_replace_stalled = False\<rparr>"

text \<open>The public id is unique in the table.\<close>

definition enqueue_export_job ::
  "export_env \<Rightarrow> instant \<Rightarrow> string \<Rightarrow> nat \<Rightarrow> export_request \<Rightarrow> export_store \<Rightarrow> export_store \<times> job_row res" where
  "enqueue_export_job env now uid random req st =
     (let pid = build_export_public_id random in
      case enqueue_integration_job (xe_jobs env) now uid (export_enqueue_request env pid req) (xs_jobs st) of
        (q, Inl e) \<Rightarrow> (st, Inl e)
      | (q, Inr None) \<Rightarrow> (st, http 503 ''Nao foi possivel enfileirar a exportacao.'')
      | (q, Inr (Some j)) \<Rightarrow>
          if load_export_job_by_public_id st pid \<noteq> None then (st, Inl (IntegrityError ''artifact_public_id''))
          else (st\<lparr>xs_jobs := q\<rparr>, Inr j))"

section \<open>Processing\<close>

definition path_name :: "string \<Rightarrow> string" where
  "path_name s = (case filter (\<lambda>p. p \<noteq> [] \<and> p \<noteq> ''.'') (split_on (CHR ''/'') s) of [] \<Rightarrow> [] | p # ps \<Rightarrow> last (p # ps))"

definition build_export_storage_path :: "export_env \<Rightarrow> string \<Rightarrow> string \<Rightarrow> string" where
  "build_export_storage_path env pid filename =
     xe_tmp env @ ''/andromeda_exports/'' @ pid @ ''/'' @ or_else (path_name filename) ''export.bin''"

definition parse_moment :: "(string \<Rightarrow> bool) \<Rightarrow> py_value \<Rightarrow> export_value" where
  "parse_moment ok v = (case v of PStr s \<Rightarrow> if s \<noteq> [] \<and> ok s then Date s else Json v | _ \<Rightarrow> Json v)"

definition export_payload :: "export_env \<Rightarrow> job_row \<Rightarrow> (string \<times> export_value) list" where
  "export_payload env j =
     (let d = as_dict (job_payload_json j); plain = map (\<lambda>(k, v). (k, Json v)) d;
          dated = (\<lambda>ok. dict_set ''date_to'' (parse_moment ok (dict_get d ''date_to''))
            (dict_set ''date_from'' (parse_moment ok (dict_get d ''date_from'')) plain))
      in if job_type j \<in> {''privacy_access.events.csv'', ''certification.events.csv''} then dated (xe_is_date env)
         else if job_type j \<in> {''audit.history.csv'', ''audit.history.xlsx''} then dated (xe_is_datetime env)
         else plain)"

text \<open>What the column \<open>context_json\<close> takes: a date is no JSON value, the commit of such a context raises.\<close>

fun json_of :: "export_value \<Rightarrow> py_value res" where
  "json_of (Json v) = Inr v"
| "json_of (Date s) = Inl (TypeError ''Object of type date is not JSON serializable'')"

definition json_payload :: "(string \<times> export_value) list \<Rightarrow> py_value res" where
  "json_payload d = res_bind (res_map (\<lambda>(k, v). res_bind (json_of v) (\<lambda>w. Inr (k, w))) d) (\<lambda>d'. Inr (PDict d'))"

definition failed_finish :: "string \<Rightarrow> py_value \<Rightarrow> py_value \<Rightarrow> finish_request" where
  "failed_finish err context summary = \<lparr>fin_status = ''failed'', fin_records_processed = None, fin_error = Some err,
     fin_context_json = Some context, fin_result_summary_json = Some summary, fin_progress_pct = Some 100,
     fin_next_expected_run_at = None\<rparr>"

definition finish_job :: "instant \<Rightarrow> finish_request \<Rightarrow> job_row \<Rightarrow> export_store \<Rightarrow> export_store \<times> job_row res" where
  "finish_job now fin j st =
     (case finish_integration_job_record now fin (Some (job_id j)) (xs_jobs st) of
        (q, r) \<Rightarrow> (st\<lparr>xs_jobs := q\<rparr>, res_bind r (\<lambda>x. Inr (case x of None \<Rightarrow> j | Some k \<Rightarrow> k))))"

text \<open>\<open>str(payload.get("export_format") or "")\<close>, for a format that is a text.\<close>

definition export_format :: "(string \<times> py_value) list \<Rightarrow> string" where
  "export_format d = (case dict_get d ''export_format'' of PStr s \<Rightarrow> py_lower (py_strip s) | _ \<Rightarrow> [])"

definition written_artifact :: "export_env \<Rightarrow> instant \<Rightarrow> string \<Rightarrow> export_file \<Rightarrow> artifact_row \<Rightarrow> artifact_row" where
  "written_artifact env now path f a =
     a\<lparr>xa_filename := Some (xf_filename f), xa_content_type := Some (xf_content_type f), xa_storage_path := Some path,
       xa_available_at := Some now, xa_expires_at := Some (now + max (or_num (xe_ttl_hours env) 1) 1 * 3600 * 1000000),
       xa_size_bytes := Some (int (length (xf_payload f)))\<rparr>"

definition export_summary :: "export_env \<Rightarrow> instant \<Rightarrow> export_file \<Rightarrow> artifact_row \<Rightarrow> job_row \<Rightarrow> py_value" where
  "export_summary env now f a j =
     PDict (dict_update (as_dict (job_result_summary_json j))
       [(''export_format'', PStr (xf_format f)), (''filename'', PStr (xf_filename f)), (''row_count'', PInt (xf_row_count f)),
        (''truncated'', PBool (xf_truncated f)), (''artifact_available_at'', PStr (je_iso (xe_jobs env) now)),
        (''artifact_expires_at'', PStr (je_iso (xe_jobs env) (case xa_expires_at a of None \<Rightarrow> 0 | Some t \<Rightarrow> t))),
        (''artifact_size_bytes'', PInt (int (length (xf_payload f))))])"

definition finish_export_job ::
  "export_env \<Rightarrow> instant \<Rightarrow> nat \<Rightarrow> py_value option \<Rightarrow> export_file \<Rightarrow> job_row \<Rightarrow> export_store \<Rightarrow> export_store \<times> job_row res" where
  "finish_export_job env now random context f j st =
     (let pid = or_else (or_empty (job_artifact_public_id j)) (build_export_public_id random);
          path = build_export_storage_path env pid (xf_filename f);
          a = written_artifact env now path f (xs_artifacts st (job_id j));
          st' = st\<lparr>xs_files := (xs_files st)(path \<mapsto> xf_payload f), xs_artifacts := (xs_artifacts st)(job_id j := a)\<rparr>
      in finish_job now \<lparr>fin_status = ''success'', fin_records_processed = Some (xf_row_count f), fin_error = None,
           fin_context_json = (case context of None \<Rightarrow> job_context_json j | Some c \<Rightarrow> Some c),
           fin_result_summary_json = Some (export_summary env now f a j), fin_progress_pct = Some 100,
           fin_next_expected_run_at = None\<rparr> j st')"

definition requesting_user :: "export_store \<Rightarrow> job_row \<Rightarrow> user_row option" where
  "requesting_user st j =
     (case job_requested_by_user_id j of
        None \<Rightarrow> None | Some i \<Rightarrow> if i = 0 then None else List.find (\<lambda>u. user_id u = i) (xs_users st))"

definition store_failure ::
  "instant \<Rightarrow> string \<Rightarrow> (py_value \<Rightarrow> py_value) \<Rightarrow> py_value \<Rightarrow> (string \<times> export_value) list \<Rightarrow> job_row \<Rightarrow> export_store
   \<Rightarrow> export_store \<times> job_row res" where
  "store_failure now err context summary payload j st =
     (case json_payload payload of
        Inl e \<Rightarrow> (st, Inl e)
      | Inr p \<Rightarrow> finish_job now (failed_finish err (context p) summary) j st)"

definition process_export_job ::
  "export_env \<Rightarrow> instant \<Rightarrow> nat \<Rightarrow> job_row \<Rightarrow> export_store \<Rightarrow> export_store \<times> job_row res" where
  "process_export_job env now random j st =
     (let payload = export_payload env j; jt = (''job_type'', PStr (job_type j)) in
      case requesting_user st j of
        None \<Rightarrow> finish_job now (failed_finish ''Usuario solicitante nao encontrado.''
          (PDict [(''error'', PStr ''requested_by_user_not_found'')]) (PDict [(''error'', PStr ''requested_by_user_not_found'')])) j st
      | Some u \<Rightarrow>
          if job_type j \<notin> set EXPORT_JOB_TYPES
          then store_failure now (''Unsupported export job: '' @ job_type j) (\<lambda>p. PDict [jt, (''payload'', p)])
                 (PDict [(''error'', PStr ''unsupported_export_job''), jt]) payload j st
          else (case xe_build env (job_type j) u payload of
                  Inl e \<Rightarrow> (let err = xe_error_text env e in
                    store_failure now err (\<lambda>p. PDict [jt, (''payload'', p), (''error'', PStr err)]) (PDict [(''error'', PStr err), jt]) payload j st)
                | Inr f \<Rightarrow> finish_export_job env now random
                    (Some (PDict (dict_update (as_dict (job_context_json j))
                      [jt, (''export_format'', PStr (or_else (export_format (as_dict (job_payload_json j))) (xf_format f)))]))) f j st))"

text \<open>One turn of the worker of the exports; an exception rolls back what the job did, the claim is committed.\<close>

definition run_export_worker ::
  "export_env \<Rightarrow> (int \<Rightarrow> bool) \<Rightarrow> instant \<Rightarrow> nat \<Rightarrow> export_store \<Rightarrow> export_store \<times> job_row option res" where
  "run_export_worker env locked now random st =
     (case claim_queued_integration_job locked now (Some ''export'') None (xs_jobs st) of
        (q, None) \<Rightarrow> (st\<lparr>xs_jobs := q\<rparr>, Inr None)
      | (q, Some j) \<Rightarrow> (case process_export_job env now random j (st\<lparr>xs_jobs := q\<rparr>) of (st', r) \<Rightarrow> (st', res_bind r (\<lambda>k. Inr (Some k)))))"

section \<open>Routes\<close>

definition is_owner_or_admin :: "user_row \<Rightarrow> int option \<Rightarrow> bool" where
  "is_owner_or_admin user owner \<longleftrightarrow> Some (user_id user) = owner \<or> is_admin_role (user_role_names (Some user))"

definition export_roles :: "string list" where
  "export_roles = [''admin'', ''editor'', ''stewardship'', ''data_owner'', ''viewer'']"

definition export_download_available :: "instant \<Rightarrow> artifact_row \<Rightarrow> bool" where
  "export_download_available now a \<longleftrightarrow> str_true (xa_storage_path a) \<and> (case xa_expires_at a of None \<Rightarrow> False | Some t \<Rightarrow> t > now)"

definition export_job_status :: "instant \<Rightarrow> user_row \<Rightarrow> string \<Rightarrow> export_store \<Rightarrow> (job_row \<times> bool) res" where
  "export_job_status now user pid st =
     res_bind (require_roles export_roles user) (\<lambda>_.
       case load_export_job_by_public_id st pid of
         None \<Rightarrow> http 404 ''Exportacao nao encontrada.''
       | Some j \<Rightarrow>
           if \<not> is_owner_or_admin user (job_requested_by_user_id j) then http 403 ''Voce nao tem permissao para ver esta exportacao.''
           else Inr (j, export_download_available now (xs_artifacts st (job_id j))))"

definition unlink :: "export_env \<Rightarrow> string \<Rightarrow> export_store \<Rightarrow> export_store" where
  "unlink env path st = (if path \<in> xe_undeletable env then st else st\<lparr>xs_files := (xs_files st)(path := None)\<rparr>)"

definition download_export_artifact ::
  "export_env \<Rightarrow> instant \<Rightarrow> user_row \<Rightarrow> string \<Rightarrow> export_store \<Rightarrow> export_store \<times> (string \<times> string \<times> string) res" where
  "download_export_artifact env now user pid st =
     (case require_roles export_roles user of
        Inl e \<Rightarrow> (st, Inl e)
      | Inr _ \<Rightarrow>
          (case load_export_job_by_public_id st pid of
             None \<Rightarrow> (st, http 404 ''Exportacao nao encontrada.'')
           | Some j \<Rightarrow>
               if \<not> is_owner_or_admin user (job_requested_by_user_id j)
               then (st, http 403 ''Voce nao tem permissao para baixar esta exportacao.'')
               else let a = xs_artifacts st (job_id j) in
                 (case (xa_storage_path a, xa_filename a) of
                    (Some path, Some name) \<Rightarrow>
                      if (case xa_expires_at a of None \<Rightarrow> False | Some t \<Rightarrow> t \<le> now)
                      then ((if path \<noteq> [] then unlink env path st else st), http 410 ''O arquivo da exportacao expirou.'')
                      else (case (if path = [] then None else xs_files st path) of
                              None \<Rightarrow> (st, http 404 ''Arquivo da exportacao nao encontrado.'')
                            | Some contents \<Rightarrow>
                                (st\<lparr>xs_artifacts := (xs_artifacts st)(job_id j :=
                                    a\<lparr>xa_download_count := xa_download_count a + 1, xa_last_downloaded_at := Some now\<rparr>)\<rparr>,
                                 Inr (contents, name, or_else (or_empty (xa_content_type a)) ''application/octet-stream'')))
                  | _ \<Rightarrow> (st, http 409 ''A exportacao ainda nao esta pronta para download.''))))"

definition expired_artifact :: "instant \<Rightarrow> artifact_row \<Rightarrow> bool" where
  "expired_artifact now a \<longleftrightarrow> (case xa_expires_at a of None \<Rightarrow> False | Some t \<Rightarrow> t \<le> now) \<and> xa_storage_path a \<noteq> None"

definition cleanup_one :: "export_env \<Rightarrow> string \<Rightarrow> export_store \<times> int \<Rightarrow> export_store \<times> int" where
  "cleanup_one env path = (\<lambda>(st, n).
     if path \<noteq> [] \<and> xs_files st path \<noteq> None \<and> path \<notin> xe_undeletable env then (unlink env path st, n + 1) else (st, n))"

definition cleanup_expired_export_artifacts :: "export_env \<Rightarrow> instant \<Rightarrow> export_store \<Rightarrow> export_store \<times> int" where
  "cleanup_expired_export_artifacts env now st =
     fold (\<lambda>j. cleanup_one env (or_empty (xa_storage_path (xs_artifacts st (job_id j)))))
       (filter (\<lambda>j. expired_artifact now (xs_artifacts st (job_id j))) (js_jobs (xs_jobs st))) (st, 0)"

text \<open>\<open>POST /platform/jobs/run\<close> for a request whose source is \<open>export\<close>.\<close>

record job_run_in =
  jr_job_type :: string
  jr_target_type :: "string option"
  jr_target_id :: "int option"
  jr_target_name :: "string option"
  jr_trigger_mode :: "string option"

definition json_text_opt :: "string option \<Rightarrow> py_value" where
  "json_text_opt v = (case v of None \<Rightarrow> PNone | Some s \<Rightarrow> PStr s)"

definition rerun_payload :: "job_run_in \<Rightarrow> py_value" where
  "rerun_payload p =
     PDict [(''source'', PStr ''export''), (''job_type'', PStr (norm_token (Some (jr_job_type p)))),
       (''target_type'', json_text_opt (or_none (norm_token (jr_target_type p)))),
       (''target_id'', case jr_target_id p of None \<Rightarrow> PNone | Some i \<Rightarrow> PInt i), (''target_name'', json_text_opt (jr_target_name p)),
       (''trigger_mode'', PStr (or_else (norm_token (jr_trigger_mode p)) ''manual''))]"

definition run_platform_export_job ::
  "export_env \<Rightarrow> instant \<Rightarrow> string \<Rightarrow> nat \<Rightarrow> user_row \<Rightarrow> job_run_in \<Rightarrow> export_store \<Rightarrow> export_store \<times> job_row res" where
  "run_platform_export_job env now uid random user p st =
     (let jtype = norm_token (Some (jr_job_type p)) in
      if jtype \<in> set (take 7 EXPORT_JOB_TYPES)
      then enqueue_export_job env now uid random
             \<lparr>xq_job_type = jtype, xq_target_name = jr_target_name p, xq_user_id = Some (user_id user), xq_correlation_id = None,
              xq_payload = Some (rerun_payload p),
              xq_context = Some (PDict [(''source'', PStr ''export''), (''job_type'', PStr jtype),
                (''trigger_mode'', PStr (or_else (norm_token (jr_trigger_mode p)) ''manual''))])\<rparr> st
      else (st, http 422 (''Job nao suportado para source=export job_type='' @ jtype @ ''.'')))"

definition platform_jobs_run ::
  "export_env \<Rightarrow> instant \<Rightarrow> string \<Rightarrow> nat \<Rightarrow> user_row \<Rightarrow> job_run_in \<Rightarrow> export_store \<Rightarrow> export_store \<times> job_row res" where
  "platform_jobs_run env now uid random user p st =
     (case require_roles [''admin'', ''editor'', ''stewardship'', ''data_owner''] user of
        Inl e \<Rightarrow> (st, Inl e)
      | Inr _ \<Rightarrow> run_platform_export_job env now uid random user p st)"

section \<open>Histories\<close>

datatype export_event =
    Ask instant string nat export_request
  | Work "int list" instant nat
  | Fetch instant user_row string
  | Clean instant

fun event_time :: "export_event \<Rightarrow> instant" where
  "event_time (Ask now _ _ _) = now"
| "event_time (Work _ now _) = now"
| "event_time (Fetch now _ _) = now"
| "event_time (Clean now) = now"

fun export_step :: "export_env \<Rightarrow> export_store \<Rightarrow> export_event \<Rightarrow> export_store" where
  "export_step env st (Ask now uid random req) = fst (enqueue_export_job env now uid random req st)"
| "export_step env st (Work locked now random) = fst (run_export_worker env (\<lambda>i. i \<in> set locked) now random st)"
| "export_step env st (Fetch now user pid) = fst (download_export_artifact env now user pid st)"
| "export_step env st (Clean now) = fst (cleanup_expired_export_artifacts env now st)"

definition job_core :: "job_row \<Rightarrow> int \<times> string option \<times> string \<times> int option" where
  "job_core j = (job_id j, job_artifact_public_id j, job_source j, job_requested_by_user_id j)"

definition core_set :: "job_store \<Rightarrow> (int \<times> string option \<times> string \<times> int option) set" where
  "core_set q = job_core ` set (js_jobs q)"

text \<open>A public id names one job, an export has one, and a file belongs to the job below whose public id it lies.\<close>

definition cores_ok :: "(int \<times> string option \<times> string \<times> int option) set \<Rightarrow> bool" where
  "cores_ok C \<longleftrightarrow> (\<forall>i i' pid s s' u u'. (i, Some pid, s, u) \<in> C \<longrightarrow> (i', Some pid, s', u') \<in> C \<longrightarrow> i = i')
     \<and> (\<forall>i pid s u. (i, Some pid, s, u) \<in> C \<longrightarrow> pid \<noteq> [] \<and> CHR ''/'' \<notin> set pid)
     \<and> (\<forall>i u. (i, None, ''export'', u) \<notin> C)"

definition artifact_ok :: "export_env \<Rightarrow> (int \<times> string option \<times> string \<times> int option) set \<Rightarrow> int \<Rightarrow> artifact_row \<Rightarrow> bool" where
  "artifact_ok env C i a \<longleftrightarrow> (\<forall>p. xa_storage_path a = Some p \<longrightarrow> xa_expires_at a \<noteq> None
     \<and> (\<exists>pid s u f. (i, Some pid, s, u) \<in> C \<and> p = build_export_storage_path env pid f))"

definition exports_ok :: "export_env \<Rightarrow> export_store \<Rightarrow> bool" where
  "exports_ok env st \<longleftrightarrow> queue_ok (xs_jobs st) \<and> cores_ok (core_set (xs_jobs st))
     \<and> (\<forall>i. artifact_ok env (core_set (xs_jobs st)) i (xs_artifacts st i))"

lemma hex_no_slash: "CHR ''/'' \<notin> set (uuid_digits k n)"
proof (induction k arbitrary: n)
  case (Suc k)
  have "hex_digit (n mod 16) \<in> set ''0123456789abcdef''"
    unfolding hex_digit_def by (rule nth_mem) simp
  then have "hex_digit (n mod 16) \<noteq> CHR ''/''" by auto
  then show ?case using Suc by simp
qed simp

lemma public_id_shape: "build_export_public_id r \<noteq> []" "CHR ''/'' \<notin> set (build_export_public_id r)"
proof -
  have "(32::nat) = Suc 31" by simp
  then show "build_export_public_id r \<noteq> []" unfolding build_export_public_id_def by (simp only: uuid_digits.simps) simp
  show "CHR ''/'' \<notin> set (build_export_public_id r)" unfolding build_export_public_id_def by (rule hex_no_slash)
qed

lemma storage_path_pid:
  assumes "build_export_storage_path env p f = build_export_storage_path env q g"
    and "CHR ''/'' \<notin> set p" "CHR ''/'' \<notin> set q"
  shows "p = q"
proof -
  have "p @ CHR ''/'' # or_else (path_name f) ''export.bin'' = q @ CHR ''/'' # or_else (path_name g) ''export.bin''"
    using assms(1) by (simp add: build_export_storage_path_def)
  from arg_cong[OF this, of "split_once (CHR ''/'')"] show ?thesis by (simp add: split_once_append assms(2,3))
qed

lemma storage_path_neq: "build_export_storage_path env p f \<noteq> []"
  by (simp add: build_export_storage_path_def)

subsection \<open>What an operation changes\<close>

lemma enqueue_no_replace:
  assumes "\<not> enq_replace_stalled req" "enqueue_integration_job env now uid req q = (q', Inr (Some row))"
  shows "q' = insert_job row q" "row = queued_row env now uid (js_next_id q) req"
  using assms by (cases "active_job q (request_key req)"; simp add: enqueue_integration_job_def Let_def conflict_queued_def split: if_splits)+

lemma enqueue_export_shape:
  assumes "enqueue_export_job env now uid random req st = (st', r)"
  obtains "st' = st" | row where "st' = st\<lparr>xs_jobs := insert_job row (xs_jobs st)\<rparr>" "job_id row = js_next_id (xs_jobs st)"
    "job_status row = ''queued''" "job_artifact_public_id row = Some (build_export_public_id random)" "r = Inr row"
    "load_export_job_by_public_id st (build_export_public_id random) = None" "queue_ok (xs_jobs st) \<Longrightarrow> queue_ok (xs_jobs st')"
proof -
  let ?req = "export_enqueue_request env (build_export_public_id random) req"
  obtain q o' where e: "enqueue_integration_job (xe_jobs env) now uid ?req (xs_jobs st) = (q, o')" by fastforce
  show thesis
  proof (cases "\<exists>row. o' = Inr (Some row) \<and> load_export_job_by_public_id st (build_export_public_id random) = None")
    case False
    then have "st' = st" using assms e by (auto simp: enqueue_export_job_def Let_def split: sum.splits option.splits if_splits)
    then show thesis by (rule that(1))
  next
    case True
    then obtain row where row: "o' = Inr (Some row)" "load_export_job_by_public_id st (build_export_public_id random) = None" by blast
    have q: "q = insert_job row (xs_jobs st)" "row = queued_row (xe_jobs env) now uid (js_next_id (xs_jobs st)) ?req"
      using enqueue_no_replace[of ?req] e row(1) by (simp_all add: export_enqueue_request_def)
    have "st' = st\<lparr>xs_jobs := q\<rparr>" "r = Inr row" using assms e row by (simp_all add: enqueue_export_job_def Let_def)
    moreover have "queue_ok (xs_jobs st) \<Longrightarrow> queue_ok q"
      using queue_ok_enqueue[of "xs_jobs st" "xe_jobs env" now uid ?req] e by simp
    ultimately show thesis using q row(2)
      by (intro that(2)[of row]) (simp_all add: queued_row_def export_enqueue_request_def)
  qed
qed

lemma claim_shape:
  assumes c: "claim_queued_integration_job locked now src jt q = (q', r)"
  obtains "q' = q" "r = None" | j where "j \<in> set (js_jobs q)" "job_status j = ''queued''" "job_filter src jt j"
    "r = Some (claimed_row now j)" "q' = update_job (claimed_row now j) q"
proof (cases "js_table_ready q")
  case True
  let ?js = "filter (\<lambda>j. job_status j = ''queued'' \<and> job_filter src jt j \<and> \<not> locked (job_id j)) (js_jobs q)"
  show thesis
  proof (cases "first_by oldest_key ?js")
    case None
    then have "q' = q" "r = None" using c True by (simp_all add: claim_queued_integration_job_def)
    then show thesis by (rule that(1))
  next
    case (Some j)
    then have "q' = update_job (claimed_row now j) q" "r = Some (claimed_row now j)"
      using c True by (simp_all add: claim_queued_integration_job_def)
    then show thesis using that(2)[of j] first_by_in[OF Some] by simp
  qed
next
  case False
  then have "q' = q" "r = None" using c by (simp_all add: claim_queued_integration_job_def)
  then show thesis by (rule that(1))
qed

lemma core_rows [simp]:
  "job_core (claimed_row now j) = job_core j" "job_core (finished_record_row now fin j) = job_core j"
  "job_status (claimed_row now j) = ''running''" "job_id (claimed_row now j) = job_id j"
  "job_artifact_public_id (claimed_row now j) = job_artifact_public_id j" "job_type (claimed_row now j) = job_type j"
  "job_payload_json (claimed_row now j) = job_payload_json j"
  "job_requested_by_user_id (claimed_row now j) = job_requested_by_user_id j"
  by (simp_all add: job_core_def claimed_row_def finished_record_row_def finished_row_def)

text \<open>The row of a job is left alone, or finished.\<close>

definition finished_in :: "instant \<Rightarrow> int \<Rightarrow> job_store \<Rightarrow> job_store \<Rightarrow> bool" where
  "finished_in now i q q' \<longleftrightarrow> q' = q \<or> (\<exists>fin k. fin_status fin \<in> set ending_statuses \<and> k \<in> set (js_jobs q) \<and> job_id k = i
     \<and> q' = update_job (finished_record_row now fin k) q)"

definition job_outcome :: "instant \<Rightarrow> job_row \<Rightarrow> string \<Rightarrow> export_store \<Rightarrow> export_store \<Rightarrow> job_row res \<Rightarrow> bool" where
  "job_outcome now j status st st' r \<longleftrightarrow> (\<exists>q. st' = st\<lparr>xs_jobs := q\<rparr> \<and> finished_in now (job_id j) (xs_jobs st) q)
     \<and> (\<forall>k. r = Inr k \<longrightarrow> k = j \<or> job_status k = status \<and> k \<in> set (js_jobs (xs_jobs st'))
         \<and> (\<exists>x\<in>set (js_jobs (xs_jobs st)). job_id x = job_id j \<and> job_core k = job_core x))"

lemma unchanged_outcome: "job_outcome now j status st st (Inl e)"
proof -
  have "st = st\<lparr>xs_jobs := xs_jobs st\<rparr>" by simp
  then show ?thesis unfolding job_outcome_def finished_in_def by blast
qed

lemma finish_job_shape:
  assumes f: "finish_job now fin j st = (st', r)" and fin: "fin_status fin \<in> set ending_statuses"
  shows "job_outcome now j (fin_status fin) st st' r"
proof (cases "job_by_id (xs_jobs st) (job_id j)")
  case None
  then have "st' = st\<lparr>xs_jobs := xs_jobs st\<rparr>" "r = Inr j"
    using f by (simp_all add: finish_job_def finish_integration_job_record_def)
  then show ?thesis unfolding job_outcome_def finished_in_def by blast
next
  case (Some k)
  let ?row = "finished_record_row now fin k"
  from Some have k: "k \<in> set (js_jobs (xs_jobs st))" "job_id k = job_id j" by (auto simp: job_by_id_def find_Some_iff)
  have st': "st' = st\<lparr>xs_jobs := update_job ?row (xs_jobs st)\<rparr>"
    and r: "r = res_bind (diagnose_integration_job ?row now 120 24 60 None) (\<lambda>_. Inr ?row)"
    using f Some by (auto simp: finish_job_def finish_integration_job_record_def Let_def)
       (cases "diagnose_integration_job ?row now 120 24 60 None"; simp)
  have "finished_in now (job_id j) (xs_jobs st) (update_job ?row (xs_jobs st))"
    unfolding finished_in_def using fin k by blast
  moreover have "?row \<in> set (js_jobs (update_job ?row (xs_jobs st)))" using k by (force simp: update_job_def)
  moreover have "\<forall>x. r = Inr x \<longrightarrow> x = ?row" using r by (auto simp: res_bind_Inr_iff)
  ultimately have "\<forall>x. r = Inr x \<longrightarrow> job_status x = fin_status fin \<and> x \<in> set (js_jobs (xs_jobs st'))
      \<and> (\<exists>x'\<in>set (js_jobs (xs_jobs st)). job_id x' = job_id j \<and> job_core x = job_core x')"
    and "finished_in now (job_id j) (xs_jobs st) (update_job ?row (xs_jobs st))"
    using k core_rows(2) by (auto simp: st' finished_record_row_fields)
  then show ?thesis unfolding job_outcome_def st' by blast
qed

lemma failed_finish_status [simp]: "fin_status (failed_finish e c s) = ''failed''"
  by (simp add: failed_finish_def)

lemma failed_shape: "finish_job now (failed_finish e c s) j st = (st', r) \<Longrightarrow> job_outcome now j ''failed'' st st' r"
  using finish_job_shape[of now "failed_finish e c s" j st st' r] by (simp add: ending_statuses_def)

lemma store_failure_shape: "store_failure now err context summary payload j st = (st', r) \<Longrightarrow> job_outcome now j ''failed'' st st' r"
  by (cases "json_payload payload") (auto simp: store_failure_def unchanged_outcome dest: failed_shape)

definition with_artifact :: "export_env \<Rightarrow> instant \<Rightarrow> string \<Rightarrow> export_file \<Rightarrow> int \<Rightarrow> export_store \<Rightarrow> export_store" where
  "with_artifact env now pid f i st =
     st\<lparr>xs_files := (xs_files st)(build_export_storage_path env pid (xf_filename f) \<mapsto> xf_payload f),
       xs_artifacts := (xs_artifacts st)(i := written_artifact env now (build_export_storage_path env pid (xf_filename f)) f (xs_artifacts st i))\<rparr>"

lemma with_artifact_jobs [simp]: "xs_jobs (with_artifact env now pid f i st) = xs_jobs st"
  by (simp add: with_artifact_def)

lemma process_built:
  assumes p: "process_export_job env now random j st = (st', r)" and pid: "job_artifact_public_id j = Some pid" "pid \<noteq> []"
    and u: "requesting_user st j = Some u" "job_type j \<in> set EXPORT_JOB_TYPES" "xe_build env (job_type j) u (export_payload env j) = Inr f"
  shows "\<exists>fin. finish_job now fin j (with_artifact env now pid f (job_id j) st) = (st', r) \<and> fin_status fin = ''success''"
proof -
  have "or_else (or_empty (job_artifact_public_id j)) (build_export_public_id random) = pid" using pid by (simp add: or_else_def)
  then show ?thesis using p u by (auto simp: process_export_job_def finish_export_job_def with_artifact_def Let_def)
qed

lemma process_shape:
  assumes p: "process_export_job env now random j st = (st', r)" and pid: "job_artifact_public_id j = Some pid" "pid \<noteq> []"
  obtains "job_outcome now j ''failed'' st st' r"
  | f u where "job_outcome now j ''success'' (with_artifact env now pid f (job_id j) st) st' r"
    "requesting_user st j = Some u" "xe_build env (job_type j) u (export_payload env j) = Inr f"
proof (cases "requesting_user st j")
  case None
  then show thesis using p that(1) failed_shape by (simp add: process_export_job_def Let_def)
next
  case (Some u)
  consider "job_type j \<notin> set EXPORT_JOB_TYPES" | e where "job_type j \<in> set EXPORT_JOB_TYPES" "xe_build env (job_type j) u (export_payload env j) = Inl e"
    | f where "job_type j \<in> set EXPORT_JOB_TYPES" "xe_build env (job_type j) u (export_payload env j) = Inr f"
    by (cases "xe_build env (job_type j) u (export_payload env j)") auto
  then show thesis
  proof cases
    case 1
    then show thesis using p Some that(1) store_failure_shape by (simp add: process_export_job_def Let_def)
  next
    case 2
    then show thesis using p Some that(1) store_failure_shape by (simp add: process_export_job_def Let_def)
  next
    case 3
    obtain fin where "finish_job now fin j (with_artifact env now pid f (job_id j) st) = (st', r)" "fin_status fin = ''success''"
      using process_built[OF p pid Some 3] by blast
    then have "job_outcome now j ''success'' (with_artifact env now pid f (job_id j) st) st' r"
      using finish_job_shape[of now fin j "with_artifact env now pid f (job_id j) st" st' r] by (simp add: ending_statuses_def)
    then show thesis using that(2) Some 3(2) by blast
  qed
qed

subsection \<open>What stays\<close>

lemma core_update:
  "queue_ok q \<Longrightarrow> k \<in> set (js_jobs q) \<Longrightarrow> job_core k' = job_core k \<Longrightarrow> core_set (update_job k' q) = core_set q"
proof -
  assume ok: "queue_ok q" and k: "k \<in> set (js_jobs q)" and c: "job_core k' = job_core k"
  have "job_core (if job_id x = job_id k' then k' else x) = job_core x" if "x \<in> set (js_jobs q)" for x
    using that k c distinct_ids_eq[of "js_jobs q" x k] ok by (auto simp: queue_ok_def job_core_def)
  then have "map job_core (js_jobs (update_job k' q)) = map job_core (js_jobs q)" by (simp add: update_job_def)
  then show ?thesis unfolding core_set_def by (metis set_map)
qed

lemma other_row_stays: "x \<in> set (js_jobs q) \<Longrightarrow> job_id x \<noteq> job_id k' \<Longrightarrow> x \<in> set (js_jobs (update_job k' q))"
  by (force simp: update_job_def)

lemma finished_in_facts:
  assumes "finished_in now i q q'" "queue_ok q"
  shows "queue_ok q'" "core_set q' = core_set q" "x \<in> set (js_jobs q) \<Longrightarrow> job_id x \<noteq> i \<Longrightarrow> x \<in> set (js_jobs q')"
proof -
  consider "q' = q" | fin k where "fin_status fin \<in> set ending_statuses" "k \<in> set (js_jobs q)" "job_id k = i"
    "q' = update_job (finished_record_row now fin k) q" using assms(1) unfolding finished_in_def by blast
  then have "queue_ok q' \<and> core_set q' = core_set q \<and> (x \<in> set (js_jobs q) \<longrightarrow> job_id x \<noteq> i \<longrightarrow> x \<in> set (js_jobs q'))"
  proof cases
    case 2
    then show ?thesis using assms(2) queue_ok_update[OF assms(2) 2(2)] core_update[OF assms(2) 2(2)] other_row_stays
      by (simp add: finished_inactive)
  qed (use assms(2) in simp)
  then show "queue_ok q'" "core_set q' = core_set q" "x \<in> set (js_jobs q) \<Longrightarrow> job_id x \<noteq> i \<Longrightarrow> x \<in> set (js_jobs q')" by blast+
qed

lemma artifact_mono: "artifact_ok env C i a \<Longrightarrow> C \<subseteq> D \<Longrightarrow> artifact_ok env D i a"
  unfolding artifact_ok_def by blast

lemma export_has_pid:
  assumes ok: "exports_ok env st" and j: "j \<in> set (js_jobs (xs_jobs st))" "job_filter (Some ''export'') None j"
  shows "\<exists>pid. job_artifact_public_id j = Some pid \<and> pid \<noteq> []"
proof -
  have "norm_token (Some ''export'') = ''export''" by code_simp
  then have "job_source j = ''export''" using j(2) by (simp add: job_filter_def str_true_def)
  moreover have "job_core j \<in> core_set (xs_jobs st)" using j(1) by (simp add: core_set_def)
  moreover have "cores_ok (core_set (xs_jobs st))" using ok by (simp add: exports_ok_def)
  ultimately show ?thesis unfolding cores_ok_def job_core_def by (metis not_Some_eq)
qed

text \<open>One turn of the worker changes the job that it claims and the file below the public id of that job.\<close>

lemma worker_shape:
  assumes w: "run_export_worker env locked now random st = (st', r)" and ok: "exports_ok env st"
  shows "exports_ok env st' \<and> (st' = st \<or> (\<exists>j pid. j \<in> set (js_jobs (xs_jobs st)) \<and> job_status j = ''queued''
      \<and> job_artifact_public_id j = Some pid
      \<and> (\<forall>x\<in>set (js_jobs (xs_jobs st)). job_id x \<noteq> job_id j \<longrightarrow> x \<in> set (js_jobs (xs_jobs st')))
      \<and> (\<forall>i. i \<noteq> job_id j \<longrightarrow> xs_artifacts st' i = xs_artifacts st i)
      \<and> (\<forall>p. (\<forall>f. p \<noteq> build_export_storage_path env pid f) \<longrightarrow> xs_files st' p = xs_files st p)))"
proof -
  obtain q c where c: "claim_queued_integration_job locked now (Some ''export'') None (xs_jobs st) = (q, c)" by fastforce
  show ?thesis
  proof (cases rule: claim_shape[OF c])
    case 1
    then have "st' = st" using w c by (simp add: run_export_worker_def)
    then show ?thesis using ok by simp
  next
    case (2 j)
    have qok: "queue_ok (xs_jobs st)" and cok: "cores_ok (core_set (xs_jobs st))"
      and aok: "\<And>i. artifact_ok env (core_set (xs_jobs st)) i (xs_artifacts st i)" using ok by (auto simp: exports_ok_def)
    have q: "queue_ok q" "core_set q = core_set (xs_jobs st)"
      using queue_ok_claim[OF qok] c core_update[OF qok 2(1)] 2(5) by (metis fst_conv, simp)
    obtain pid where pid: "job_artifact_public_id j = Some pid" "pid \<noteq> []" using export_has_pid[OF ok 2(1,3)] by blast
    have core: "(job_id j, Some pid, job_source j, job_requested_by_user_id j) \<in> core_set (xs_jobs st)"
      using 2(1) pid(1) by (auto simp: core_set_def job_core_def)
    obtain r' where p: "process_export_job env now random (claimed_row now j) (st\<lparr>xs_jobs := q\<rparr>) = (st', r')"
      using w c 2(4) by (auto simp: run_export_worker_def split: prod.splits)
    obtain f where st': "st' = st\<lparr>xs_jobs := xs_jobs st'\<rparr> \<or> st' = (with_artifact env now pid f (job_id j) st)\<lparr>xs_jobs := xs_jobs st'\<rparr>"
      and fin: "finished_in now (job_id j) q (xs_jobs st')"
    proof (cases rule: process_shape[OF p, simplified core_rows, OF pid])
      case 1
      then show thesis using that by (auto simp: job_outcome_def)
    next
      case (2 f u)
      then show thesis using that[of f] by (auto simp: job_outcome_def with_artifact_def)
    qed
    note facts = finished_in_facts[OF fin q(1)]
    have written: "artifact_ok env (core_set (xs_jobs st)) (job_id j)
        (written_artifact env now (build_export_storage_path env pid (xf_filename f)) f a)" for a
      using core unfolding artifact_ok_def written_artifact_def by auto
    have artifacts: "xs_artifacts st' = xs_artifacts st \<or> xs_artifacts st' = (xs_artifacts st)(job_id j :=
        written_artifact env now (build_export_storage_path env pid (xf_filename f)) f (xs_artifacts st (job_id j)))"
      and files: "xs_files st' = xs_files st
        \<or> xs_files st' = (xs_files st)(build_export_storage_path env pid (xf_filename f) \<mapsto> xf_payload f)"
      using st' by (auto simp: with_artifact_def dest: arg_cong[where f = xs_artifacts] arg_cong[where f = xs_files])
    have "artifact_ok env (core_set (xs_jobs st')) i (xs_artifacts st' i)" for i
      using artifacts aok written facts(2) q(2) by (cases "i = job_id j") auto
    then have "exports_ok env st'" using facts(1,2) q(2) cok by (simp add: exports_ok_def)
    moreover have "x \<in> set (js_jobs (xs_jobs st'))" if "x \<in> set (js_jobs (xs_jobs st))" "job_id x \<noteq> job_id j" for x
      using facts(3) other_row_stays that 2(5) by simp
    moreover have "i \<noteq> job_id j \<Longrightarrow> xs_artifacts st' i = xs_artifacts st i" for i using artifacts by auto
    moreover have "(\<forall>f. p \<noteq> build_export_storage_path env pid f) \<Longrightarrow> xs_files st' p = xs_files st p" for p using files by auto
    ultimately show ?thesis using 2(1,2) pid(1) by blast
  qed
qed

lemma find_export: "load_export_job_by_public_id st pid = Some j \<Longrightarrow> j \<in> set (js_jobs (xs_jobs st)) \<and> job_artifact_public_id j = Some pid"
  by (auto simp: load_export_job_by_public_id_def find_Some_iff)

lemma find_export_None:
  "load_export_job_by_public_id st pid = None \<longleftrightarrow> (\<forall>j\<in>set (js_jobs (xs_jobs st)). job_artifact_public_id j \<noteq> Some pid)"
  by (auto simp: load_export_job_by_public_id_def find_None_iff)

lemma find_export_unique:
  assumes "exports_ok env st" "j \<in> set (js_jobs (xs_jobs st))" "job_artifact_public_id j = Some pid"
  shows "load_export_job_by_public_id st pid = Some j"
proof (cases "load_export_job_by_public_id st pid")
  case None
  then show ?thesis using assms(2,3) by (auto simp: find_export_None)
next
  case (Some k)
  note k = find_export[OF Some]
  have "job_core j \<in> core_set (xs_jobs st)" "job_core k \<in> core_set (xs_jobs st)" using assms(2) k by (auto simp: core_set_def)
  then have "job_id j = job_id k" using assms(1,3) k unfolding exports_ok_def cores_ok_def job_core_def by metis
  then have "j = k" using assms(1,2) k distinct_ids_eq by (fastforce simp: exports_ok_def queue_ok_def)
  then show ?thesis using Some by simp
qed

text \<open>Deleting files of expired exports.\<close>

lemma unlink_frame [simp]:
  "xs_jobs (unlink env p st) = xs_jobs st" "xs_artifacts (unlink env p st) = xs_artifacts st" "xs_users (unlink env p st) = xs_users st"
  by (simp_all add: unlink_def)

lemma unlink_other: "p \<noteq> q \<Longrightarrow> xs_files (unlink env p st) q = xs_files st q"
  by (simp add: unlink_def)

lemma cleanup_frame:
  "xs_jobs (fst (fold (\<lambda>j. cleanup_one env (f j)) js (st, n))) = xs_jobs st
    \<and> xs_artifacts (fst (fold (\<lambda>j. cleanup_one env (f j)) js (st, n))) = xs_artifacts st
    \<and> (q \<notin> f ` set js \<longrightarrow> xs_files (fst (fold (\<lambda>j. cleanup_one env (f j)) js (st, n))) q = xs_files st q)"
proof (induction js arbitrary: st n)
  case (Cons j js)
  obtain st1 n1 where c: "cleanup_one env (f j) (st, n) = (st1, n1)" by fastforce
  then have "xs_jobs st1 = xs_jobs st" "xs_artifacts st1 = xs_artifacts st" "q \<noteq> f j \<Longrightarrow> xs_files st1 q = xs_files st q"
    by (auto simp: cleanup_one_def unlink_other split: if_splits)
  then show ?case using Cons.IH[of st1 n1] c by auto
qed simp

lemma download_shape:
  assumes "download_export_artifact env now user pid st = (st', r)"
  obtains "st' = st"
  | j p where "load_export_job_by_public_id st pid = Some j" "xa_storage_path (xs_artifacts st (job_id j)) = Some p"
      "expired_artifact now (xs_artifacts st (job_id j))" "st' = unlink env p st"
  | j where "load_export_job_by_public_id st pid = Some j"
      "st' = st\<lparr>xs_artifacts := (xs_artifacts st)(job_id j := (xs_artifacts st (job_id j))
        \<lparr>xa_download_count := xa_download_count (xs_artifacts st (job_id j)) + 1, xa_last_downloaded_at := Some now\<rparr>)\<rparr>"
proof (cases "load_export_job_by_public_id st pid")
  case None
  then show thesis using assms that(1) by (auto simp: download_export_artifact_def split: sum.splits)
next
  case (Some j)
  let ?a = "xs_artifacts st (job_id j)"
  show thesis
  proof (cases "st' = st")
    case True
    then show thesis by (rule that(1))
  next
    case False
    then obtain p name where a: "xa_storage_path ?a = Some p" "xa_filename ?a = Some name"
      using assms Some by (auto simp: download_export_artifact_def Let_def split: sum.splits if_splits option.splits)
    show thesis
    proof (cases "case xa_expires_at ?a of None \<Rightarrow> False | Some t \<Rightarrow> t \<le> now")
      case True
      then have "st' = unlink env p st" using False assms Some a
        by (auto simp: download_export_artifact_def Let_def split: sum.splits if_splits)
      then show thesis using that(2)[OF Some a(1)] True a(1) by (simp add: expired_artifact_def)
    next
      case nexp: False
      then show thesis using that(3)[OF Some] False assms Some a
        by (auto simp: download_export_artifact_def Let_def split: sum.splits if_splits option.splits)
    qed
  qed
qed

lemma cores_ok_insert:
  assumes "cores_ok C" "pid \<noteq> []" "CHR ''/'' \<notin> set pid" "\<And>i s u. (i, Some pid, s, u) \<notin> C"
  shows "cores_ok (insert (i, Some pid, s, u) C)"
  using assms unfolding cores_ok_def by (auto; blast)

lemma ask_ok:
  assumes ok: "exports_ok env st" and e: "enqueue_export_job env now uid random req st = (st', r)"
  shows "exports_ok env st'"
proof (cases rule: enqueue_export_shape[OF e])
  case 1
  then show ?thesis using ok by simp
next
  case (2 row)
  let ?pid = "build_export_public_id random" and ?C = "core_set (xs_jobs st)"
  have C: "core_set (xs_jobs st') = insert (job_id row, Some ?pid, job_source row, job_requested_by_user_id row) ?C"
    using 2(1,4) by (simp add: core_set_def insert_job_def job_core_def)
  have "(i, Some ?pid, s, u) \<notin> ?C" for i s u using 2(6) by (auto simp: core_set_def job_core_def find_export_None)
  then have "cores_ok (core_set (xs_jobs st'))"
    unfolding C using ok public_id_shape by (intro cores_ok_insert) (auto simp: exports_ok_def)
  moreover have "artifact_ok env (core_set (xs_jobs st')) i (xs_artifacts st' i)" for i
    using ok 2(1) artifact_mono[of env ?C i "xs_artifacts st i" "core_set (xs_jobs st')"] unfolding C by (auto simp: exports_ok_def)
  ultimately show ?thesis using ok 2(7) by (simp add: exports_ok_def)
qed

lemma fetch_ok:
  assumes ok: "exports_ok env st" and d: "download_export_artifact env now user pid st = (st', r)"
  shows "exports_ok env st'"
proof (cases rule: download_shape[OF d])
  case (3 j)
  have "artifact_ok env (core_set (xs_jobs st)) i (xs_artifacts st' i)" for i
    using ok 3(2) by (auto simp: exports_ok_def artifact_ok_def)
  then show ?thesis using ok 3(2) by (simp add: exports_ok_def)
qed (use ok in \<open>simp_all add: exports_ok_def\<close>)

lemma export_step_ok: "exports_ok env st \<Longrightarrow> exports_ok env (export_step env st ev)"
proof (cases ev)
  case (Ask now uid random req)
  then show "exports_ok env st \<Longrightarrow> ?thesis" using ask_ok by (metis export_step.simps(1) prod.collapse)
next
  case (Work locked now random)
  then show "exports_ok env st \<Longrightarrow> ?thesis" using worker_shape by (metis export_step.simps(2) prod.collapse)
next
  case (Fetch now user pid)
  then show "exports_ok env st \<Longrightarrow> ?thesis" using fetch_ok by (metis export_step.simps(3) prod.collapse)
next
  case (Clean now)
  then show "exports_ok env st \<Longrightarrow> ?thesis"
    by (simp add: exports_ok_def cleanup_expired_export_artifacts_def
        cleanup_frame[of env "\<lambda>j. or_empty (xa_storage_path (xs_artifacts st (job_id j)))" _ st 0, THEN conjunct1]
        cleanup_frame[of env "\<lambda>j. or_empty (xa_storage_path (xs_artifacts st (job_id j)))" _ st 0, THEN conjunct2, THEN conjunct1])
qed

interpretation exports: invariant_machine "export_step env" "exports_ok env" for env
  by unfold_locales (rule export_step_ok)

subsection \<open>A file stays until it expires\<close>

definition served :: "export_env \<Rightarrow> int \<Rightarrow> string \<Rightarrow> int option \<Rightarrow> export_file \<Rightarrow> instant \<Rightarrow> export_store \<Rightarrow> bool" where
  "served env i pid owner f e st \<longleftrightarrow>
     (\<exists>j\<in>set (js_jobs (xs_jobs st)). job_id j = i \<and> job_artifact_public_id j = Some pid \<and> job_status j = ''success''
       \<and> job_requested_by_user_id j = owner)
     \<and> (let a = xs_artifacts st i; p = build_export_storage_path env pid (xf_filename f) in
        xa_storage_path a = Some p \<and> xa_filename a = Some (xf_filename f) \<and> xa_content_type a = Some (xf_content_type f)
        \<and> xa_expires_at a = Some e \<and> xs_files st p = Some (xf_payload f))"

text \<open>The path of another job's file is another path.\<close>

lemma other_path:
  assumes ok: "exports_ok env st" and j: "j \<in> set (js_jobs (xs_jobs st))" "job_artifact_public_id j = Some pid"
    and k: "xa_storage_path (xs_artifacts st k) = Some q" "k \<noteq> job_id j"
  shows "q \<noteq> build_export_storage_path env pid g"
proof
  assume q: "q = build_export_storage_path env pid g"
  let ?C = "core_set (xs_jobs st)"
  have "artifact_ok env ?C k (xs_artifacts st k)" using ok by (simp add: exports_ok_def)
  then obtain pid' s u f where k': "(k, Some pid', s, u) \<in> ?C" "q = build_export_storage_path env pid' f"
    using k(1) unfolding artifact_ok_def by blast
  have j': "(job_id j, Some pid, job_source j, job_requested_by_user_id j) \<in> ?C" using j by (auto simp: core_set_def job_core_def)
  have c: "cores_ok ?C" using ok by (simp add: exports_ok_def)
  have "CHR ''/'' \<notin> set pid" "CHR ''/'' \<notin> set pid'" using c j' k'(1) unfolding cores_ok_def by blast+
  then have "pid = pid'" using storage_path_pid q k'(2) by metis
  then show False using c j' k'(1) k(2) unfolding cores_ok_def by blast
qed

lemma served_step:
  assumes ok: "exports_ok env st" and sv: "served env i pid owner f e st" and t: "event_time ev < e"
  shows "served env i pid owner f e (export_step env st ev)"
proof -
  let ?p = "build_export_storage_path env pid (xf_filename f)"
  obtain j where j: "j \<in> set (js_jobs (xs_jobs st))" "job_id j = i" "job_artifact_public_id j = Some pid" "job_status j = ''success''"
    "job_requested_by_user_id j = owner" using sv by (auto simp: served_def)
  have a: "xa_storage_path (xs_artifacts st i) = Some ?p" "xa_expires_at (xs_artifacts st i) = Some e"
    "xs_files st ?p = Some (xf_payload f)" using sv by (auto simp: served_def Let_def)
  have servedI: "served env i pid owner f e st'"
    if "j \<in> set (js_jobs (xs_jobs st'))" "xs_artifacts st' i = xs_artifacts st i" "xs_files st' ?p = xs_files st ?p" for st'
    using sv that j by (auto simp: served_def Let_def)
  show ?thesis
  proof (cases ev)
    case (Ask now uid random req)
    obtain st' r where r: "enqueue_export_job env now uid random req st = (st', r)" by fastforce
    have "served env i pid owner f e st'"
      by (cases rule: enqueue_export_shape[OF r]) (use j(1) sv in \<open>auto intro!: servedI simp: insert_job_def\<close>)
    then show ?thesis using r Ask by simp
  next
    case (Work locked now random)
    obtain st' r where r: "run_export_worker env (\<lambda>i. i \<in> set locked) now random st = (st', r)" by fastforce
    have "served env i pid owner f e st'"
    proof (cases "st' = st")
      case False
      then obtain k pid2 where k: "k \<in> set (js_jobs (xs_jobs st))" "job_status k = ''queued''" "job_artifact_public_id k = Some pid2"
        and rows: "\<forall>x\<in>set (js_jobs (xs_jobs st)). job_id x \<noteq> job_id k \<longrightarrow> x \<in> set (js_jobs (xs_jobs st'))"
        and arts: "\<forall>i. i \<noteq> job_id k \<longrightarrow> xs_artifacts st' i = xs_artifacts st i"
        and files: "\<forall>p. (\<forall>f. p \<noteq> build_export_storage_path env pid2 f) \<longrightarrow> xs_files st' p = xs_files st p"
        using worker_shape[OF r ok] by blast
      have "job_id k \<noteq> i" using ok k(1,2) j(1,2,4) distinct_ids_eq[of "js_jobs (xs_jobs st)" k j] by (auto simp: exports_ok_def queue_ok_def)
      then have "?p \<noteq> build_export_storage_path env pid2 g" for g using other_path[OF ok k(1,3) a(1)] by simp
      then show ?thesis using servedI[of st'] rows arts files j(1,2) \<open>job_id k \<noteq> i\<close> by simp
    qed (use sv in simp)
    then show ?thesis using r Work by simp
  next
    case (Fetch now user pid')
    obtain st' r where r: "download_export_artifact env now user pid' st = (st', r)" by fastforce
    have "served env i pid owner f e st'"
    proof (cases rule: download_shape[OF r])
      case (2 k q)
      have "job_id k \<noteq> i" using 2(3) a(2) t Fetch by (auto simp: expired_artifact_def)
      then have "q \<noteq> ?p" using other_path[OF ok j(1,3) 2(2)] j(2) by simp
      then show ?thesis using 2(4) j(1) by (intro servedI) (simp_all add: unlink_other)
    next
      case (3 k)
      then show ?thesis using sv by (auto simp: served_def Let_def)
    qed (use sv in simp)
    then show ?thesis using r Fetch by simp
  next
    case (Clean now)
    let ?f = "\<lambda>j. or_empty (xa_storage_path (xs_artifacts st (job_id j)))"
    let ?js = "filter (\<lambda>j. expired_artifact now (xs_artifacts st (job_id j))) (js_jobs (xs_jobs st))"
    have "?p \<notin> ?f ` set ?js"
    proof
      assume "?p \<in> ?f ` set ?js"
      then obtain k where "k \<in> set ?js" "?p = ?f k" by (rule imageE)
      then have k: "expired_artifact now (xs_artifacts st (job_id k))" "?f k = ?p" by simp_all
      then have "xa_storage_path (xs_artifacts st (job_id k)) = Some ?p"
        by (cases "xa_storage_path (xs_artifacts st (job_id k))") (simp_all add: expired_artifact_def)
      moreover have "job_id k \<noteq> i" using k(1) a(2) t Clean by (auto simp: expired_artifact_def)
      ultimately show False using other_path[OF ok j(1,3)] j(2) by metis
    qed
    then have "served env i pid owner f e (fst (cleanup_expired_export_artifacts env now st))"
      using cleanup_frame[of env ?f ?js st 0 ?p] j(1) unfolding cleanup_expired_export_artifacts_def by (intro servedI) simp_all
    then show ?thesis using Clean by simp
  qed
qed

lemma served_history:
  "exports_ok env st \<Longrightarrow> served env i pid owner f e st \<Longrightarrow> list_all (\<lambda>ev. event_time ev < e) es
    \<Longrightarrow> served env i pid owner f e (foldl (export_step env) st es)"
  by (induction es arbitrary: st) (simp_all add: served_step export_step_ok)

lemma served_download:
  assumes ok: "exports_ok env st" and sv: "served env i pid owner f e st" and now: "now < e"
    and user: "require_roles export_roles user = Inr user" "is_owner_or_admin user owner"
  shows "snd (download_export_artifact env now user pid st)
    = Inr (xf_payload f, xf_filename f, or_else (xf_content_type f) ''application/octet-stream'')"
proof -
  obtain j where j: "j \<in> set (js_jobs (xs_jobs st))" "job_id j = i" "job_artifact_public_id j = Some pid"
    "job_requested_by_user_id j = owner" using sv by (auto simp: served_def)
  have "load_export_job_by_public_id st pid = Some j" by (rule find_export_unique[OF ok j(1,3)])
  then show ?thesis using sv now user j(2,4) storage_path_neq[of env pid "xf_filename f"]
    by (simp add: download_export_artifact_def served_def Let_def)
qed

section \<open>Properties\<close>

lemma requesting_user_claimed [simp]: "requesting_user (st\<lparr>xs_jobs := q\<rparr>) (claimed_row now k) = requesting_user st k"
  by (cases "job_requested_by_user_id k") (simp_all add: requesting_user_def claimed_row_def)

lemma successful_work:
  assumes w: "run_export_worker env locked now random st = (st', Inr (Some j))" and ok: "exports_ok env st"
    and j: "job_status j = ''success''" "job_artifact_public_id j = Some pid"
  shows "\<exists>k u f. k \<in> set (js_jobs (xs_jobs st)) \<and> job_artifact_public_id k = Some pid \<and> requesting_user st k = Some u
    \<and> xe_build env (job_type k) u (export_payload env k) = Inr f
    \<and> served env (job_id k) pid (job_requested_by_user_id k) f (now + max (or_num (xe_ttl_hours env) 1) 1 * 3600 * 1000000) st'"
proof -
  obtain q c where c: "claim_queued_integration_job locked now (Some ''export'') None (xs_jobs st) = (q, c)" by fastforce
  show ?thesis
  proof (cases rule: claim_shape[OF c])
    case 1
    then show ?thesis using w c by (simp add: run_export_worker_def)
  next
    case (2 k)
    let ?st = "st\<lparr>xs_jobs := q\<rparr>" and ?k = "claimed_row now k"
    have qok: "queue_ok (xs_jobs st)" using ok by (simp add: exports_ok_def)
    have "queue_ok q" using queue_ok_claim[OF qok] c by (metis fst_conv)
    then have ids: "distinct (map job_id (js_jobs q))" by (simp add: queue_ok_def)
    have kq: "?k \<in> set (js_jobs q)" using 2(1,5) by (force simp: update_job_def)
    have p: "process_export_job env now random ?k ?st = (st', Inr j)"
      using w c 2(4) by (auto simp: run_export_worker_def res_bind_Inr_iff split: prod.splits)
    obtain pid' where pid': "job_artifact_public_id ?k = Some pid'" "pid' \<noteq> []" using export_has_pid[OF ok 2(1,3)] by auto
    show ?thesis
    proof (cases rule: process_shape[OF p pid'])
      case 1
      then show ?thesis using j(1) by (auto simp: job_outcome_def)
    next
      case built: (2 f u)
      then obtain x where jrow: "j \<in> set (js_jobs (xs_jobs st'))" and x: "x \<in> set (js_jobs q)" "job_id x = job_id k" "job_core j = job_core x"
        using j(1) by (auto simp: job_outcome_def with_artifact_def)
      have "x = ?k" using x(1,2) kq ids distinct_ids_eq by fastforce
      then have core: "job_id j = job_id k" "job_artifact_public_id j = Some pid'" "job_requested_by_user_id j = job_requested_by_user_id k"
        using x(3) pid'(1) by (auto simp: job_core_def claimed_row_def)
      then have "pid' = pid" using j(2) by simp
      have st': "xs_artifacts st' = xs_artifacts (with_artifact env now pid f (job_id k) ?st)"
        "xs_files st' = xs_files (with_artifact env now pid f (job_id k) ?st)"
        using built(1) \<open>pid' = pid\<close> by (auto simp: job_outcome_def)
      have "served env (job_id k) pid (job_requested_by_user_id k) f (now + max (or_num (xe_ttl_hours env) 1) 1 * 3600 * 1000000) st'"
        using jrow core j(1) \<open>pid' = pid\<close> by (auto simp: served_def st' with_artifact_def written_artifact_def Let_def)
      moreover have "requesting_user st k = Some u" using built(2) by simp
      moreover have "xe_build env (job_type k) u (export_payload env k) = Inr f"
        using built(3) by (simp only: export_payload_def core_rows)
      ultimately show ?thesis using 2(1) pid'(1) \<open>pid' = pid\<close> by auto
    qed
  qed
qed

text \<open>C33: When the worker has built an export, the user who asked for it, and every administrator, gets exactly the file
  that was built for that user, for as long as it has not expired, whatever is asked for, built, fetched and cleaned up in the
  meantime.\<close>

theorem export_reaches_requester:
  assumes ok: "exports_ok env st" and w: "run_export_worker env locked now random st = (st', Inr (Some j))"
    and j: "job_status j = ''success''" "job_artifact_public_id j = Some pid"
    and es: "list_all (\<lambda>ev. event_time ev < now + max (or_num (xe_ttl_hours env) 1) 1 * 3600 * 1000000) es"
    and t: "t < now + max (or_num (xe_ttl_hours env) 1) 1 * 3600 * 1000000"
  shows "\<exists>k u f. k \<in> set (js_jobs (xs_jobs st)) \<and> job_artifact_public_id k = Some pid \<and> requesting_user st k = Some u
    \<and> xe_build env (job_type k) u (export_payload env k) = Inr f
    \<and> (\<forall>user. require_roles export_roles user = Inr user \<longrightarrow> is_owner_or_admin user (job_requested_by_user_id k)
        \<longrightarrow> snd (download_export_artifact env t user pid (foldl (export_step env) st' es))
          = Inr (xf_payload f, xf_filename f, or_else (xf_content_type f) ''application/octet-stream''))"
proof -
  obtain k u f where k: "k \<in> set (js_jobs (xs_jobs st))" "job_artifact_public_id k = Some pid" "requesting_user st k = Some u"
    "xe_build env (job_type k) u (export_payload env k) = Inr f"
    and sv: "served env (job_id k) pid (job_requested_by_user_id k) f (now + max (or_num (xe_ttl_hours env) 1) 1 * 3600 * 1000000) st'"
    using successful_work[OF w ok j] by blast
  have ok': "exports_ok env st'" using worker_shape[OF w ok] by blast
  have "exports_ok env (foldl (export_step env) st' es)" by (rule exports.inv_run[OF ok'])
  with served_history[OF ok' sv es] have "require_roles export_roles user = Inr user \<Longrightarrow> is_owner_or_admin user (job_requested_by_user_id k)
      \<Longrightarrow> snd (download_export_artifact env t user pid (foldl (export_step env) st' es))
        = Inr (xf_payload f, xf_filename f, or_else (xf_content_type f) ''application/octet-stream'')" for user
    using served_download t by blast
  then show ?thesis using k by blast
qed

text \<open>C34: A file is given out only to a user with a role, who asked for that export or is an administrator, before the
  file expires; and it lies below the public id of the export.\<close>

theorem download_only_own:
  assumes ok: "exports_ok env st" and d: "download_export_artifact env now user pid st = (st', Inr (contents, name, ty))"
  shows "\<exists>j p f. load_export_job_by_public_id st pid = Some j \<and> require_roles export_roles user = Inr user
    \<and> (job_requested_by_user_id j = Some (user_id user) \<or> is_admin_role (user_role_names (Some user)))
    \<and> (\<exists>e. xa_expires_at (xs_artifacts st (job_id j)) = Some e \<and> now < e)
    \<and> p = build_export_storage_path env pid f \<and> xs_files st p = Some contents"
proof -
  obtain j where j: "load_export_job_by_public_id st pid = Some j" using d
    by (cases "load_export_job_by_public_id st pid") (auto simp: download_export_artifact_def http_def split: sum.splits)
  let ?a = "xs_artifacts st (job_id j)"
  have role: "require_roles export_roles user = Inr user" using d
    by (auto simp: download_export_artifact_def require_roles_def Let_def split: sum.splits if_splits)
  have owner: "is_owner_or_admin user (job_requested_by_user_id j)" using d j role
    by (auto simp: download_export_artifact_def http_def split: if_splits)
  obtain p where p: "xa_storage_path ?a = Some p" using d j role owner
    by (cases "xa_storage_path ?a") (simp_all add: download_export_artifact_def http_def Let_def)
  obtain n where n: "xa_filename ?a = Some n" using d j role owner p
    by (cases "xa_filename ?a") (simp_all add: download_export_artifact_def http_def Let_def)
  have "artifact_ok env (core_set (xs_jobs st)) (job_id j) ?a" using ok by (simp add: exports_ok_def)
  then obtain pid' s u f e where core: "(job_id j, Some pid', s, u) \<in> core_set (xs_jobs st)"
    and path: "p = build_export_storage_path env pid' f" and e: "xa_expires_at ?a = Some e"
    using p unfolding artifact_ok_def by blast
  have "pid' = pid"
  proof -
    from core obtain k where k: "k \<in> set (js_jobs (xs_jobs st))" "job_id k = job_id j" "job_artifact_public_id k = Some pid'"
      by (auto simp: core_set_def job_core_def)
    then have "k = j" using find_export[OF j] ok distinct_ids_eq by (fastforce simp: exports_ok_def queue_ok_def)
    then show ?thesis using k(3) find_export[OF j] by simp
  qed
  moreover have "now < e" using d j role owner p n e by (simp add: download_export_artifact_def http_def Let_def split: if_splits)
  moreover have "xs_files st p = Some contents" using d j role owner p n e \<open>now < e\<close>
    by (auto simp: download_export_artifact_def http_def Let_def split: if_splits option.splits)
  ultimately show ?thesis using j role owner path e unfolding is_owner_or_admin_def by metis
qed

lemma job_by_id_in: "queue_ok q \<Longrightarrow> k \<in> set (js_jobs q) \<Longrightarrow> job_by_id q (job_id k) = Some k"
  using find_distinct_key by (fastforce simp: job_by_id_def queue_ok_def)

lemma finish_job_found:
  "job_by_id (xs_jobs st) (job_id j) = Some k
    \<Longrightarrow> fst (finish_job now fin j st) = st\<lparr>xs_jobs := update_job (finished_record_row now fin k) (xs_jobs st)\<rparr>"
  by (simp add: finish_job_def finish_integration_job_record_def Let_def)

definition rerun_request :: "export_env \<Rightarrow> string \<Rightarrow> user_row \<Rightarrow> job_run_in \<Rightarrow> enqueue_request" where
  "rerun_request env pid user p = (let jtype = norm_token (Some (jr_job_type p)) in
     export_enqueue_request env pid
       \<lparr>xq_job_type = jtype, xq_target_name = jr_target_name p, xq_user_id = Some (user_id user), xq_correlation_id = None,
        xq_payload = Some (rerun_payload p),
        xq_context = Some (PDict [(''source'', PStr ''export''), (''job_type'', PStr jtype),
          (''trigger_mode'', PStr (or_else (norm_token (jr_trigger_mode p)) ''manual''))])\<rparr>)"

lemma rerun_accepted:
  assumes ready: "js_table_ready (xs_jobs st)" and idle: "\<forall>j\<in>set (js_jobs (xs_jobs st)). \<not> is_active j"
    and fresh: "load_export_job_by_public_id st (build_export_public_id random) = None"
    and user: "require_roles [''admin'', ''editor'', ''stewardship'', ''data_owner''] user = Inr user"
    and req: "norm_token (Some (jr_job_type p)) = ''audit.history.csv''"
  shows "\<exists>row. row = queued_row (xe_jobs env) now uid (js_next_id (xs_jobs st)) (rerun_request env (build_export_public_id random) user p)
    \<and> platform_jobs_run env now uid random user p st = (st\<lparr>xs_jobs := insert_job row (xs_jobs st)\<rparr>, Inr row)"
proof -
  have jt: "''audit.history.csv'' \<in> set (take 7 EXPORT_JOB_TYPES)" by code_simp
  have none: "active_job (xs_jobs st) key = None" for key using idle by (simp add: active_job_None)
  have "enqueue_integration_job (xe_jobs env) now uid (rerun_request env pid user p) (xs_jobs st)
      = (insert_job (queued_row (xe_jobs env) now uid (js_next_id (xs_jobs st)) (rerun_request env pid user p)) (xs_jobs st),
         Inr (Some (queued_row (xe_jobs env) now uid (js_next_id (xs_jobs st)) (rerun_request env pid user p))))" for pid
    using ready none by (simp add: enqueue_integration_job_def Let_def)
  then show ?thesis using user req jt fresh
    by (simp add: platform_jobs_run_def run_platform_export_job_def enqueue_export_job_def rerun_request_def Let_def)
qed

lemma rerun_row:
  assumes "norm_token (Some (jr_job_type p)) = ''audit.history.csv''"
  shows "job_type (queued_row e now uid i (rerun_request env pid user p)) = ''audit.history.csv''"
    "job_requested_by_user_id (queued_row e now uid i (rerun_request env pid user p)) = Some (user_id user)"
    "job_artifact_public_id (queued_row e now uid i (rerun_request env pid user p)) = Some pid"
    "job_filter (Some ''export'') None (queued_row e now uid i (rerun_request env pid user p))"
proof -
  have "norm_token (Some ''audit.history.csv'') = ''audit.history.csv''" by code_simp
  then show "job_type (queued_row e now uid i (rerun_request env pid user p)) = ''audit.history.csv''"
    "job_requested_by_user_id (queued_row e now uid i (rerun_request env pid user p)) = Some (user_id user)"
    "job_artifact_public_id (queued_row e now uid i (rerun_request env pid user p)) = Some pid"
    "job_filter (Some ''export'') None (queued_row e now uid i (rerun_request env pid user p))"
    using assms by (simp_all add: queued_row_def rerun_request_def export_enqueue_request_def job_filter_def Let_def str_true_def)
qed

lemma rerun_ok:
  assumes ok: "exports_ok env st" and r: "platform_jobs_run env now uid random user p st = (st', Inr row)"
  shows "exports_ok env st'"
  using assms by (auto simp: platform_jobs_run_def run_platform_export_job_def http_def Let_def split: sum.splits if_splits intro: ask_ok)

text \<open>C35: The permission to export is not needed.  Whoever passes the check of roles of \<open>POST /platform/jobs/run\<close> gets the
  audit trail queued as an export, built by the worker and given out, although the routes that export it demand
  \<open>audit:export\<close>.\<close>

theorem audit_exported_without_permission:
  assumes ok: "exports_ok env st" and ready: "js_table_ready (xs_jobs st)"
    and idle: "\<forall>j\<in>set (js_jobs (xs_jobs st)). \<not> is_active j"
    and fresh: "load_export_job_by_public_id st (build_export_public_id random) = None"
    and user: "require_roles [''admin'', ''editor'', ''stewardship'', ''data_owner''] user = Inr user"
      "List.find (\<lambda>u. user_id u = user_id user) (xs_users st) = Some user" "user_id user \<noteq> 0"
    and req: "norm_token (Some (jr_job_type p)) = ''audit.history.csv''"
    and built: "\<And>payload. xe_build env ''audit.history.csv'' user payload = Inr f"
    and t: "t < t1 + max (or_num (xe_ttl_hours env) 1) 1 * 3600 * 1000000"
  shows "snd (download_export_artifact env t user (build_export_public_id random)
      (fst (run_export_worker env (\<lambda>_. False) t1 random1 (fst (platform_jobs_run env t0 uid random user p st)))))
    = Inr (xf_payload f, xf_filename f, or_else (xf_content_type f) ''application/octet-stream'')"
proof -
  let ?pid = "build_export_public_id random" and ?q = "xs_jobs st"
  obtain row where row: "row = queued_row (xe_jobs env) t0 uid (js_next_id ?q) (rerun_request env ?pid user p)"
    and asked: "platform_jobs_run env t0 uid random user p st = (st\<lparr>xs_jobs := insert_job row ?q\<rparr>, Inr row)"
    using rerun_accepted[OF ready idle fresh user(1) req] by blast
  define st1 where "st1 = st\<lparr>xs_jobs := insert_job row ?q\<rparr>"
  have ok1: "exports_ok env st1" using rerun_ok[OF ok asked] by (simp add: st1_def)
  have fields: "job_type row = ''audit.history.csv''" "job_requested_by_user_id row = Some (user_id user)"
    "job_artifact_public_id row = Some ?pid" "job_status row = ''queued''" "job_filter (Some ''export'') None row"
    using rerun_row[OF req] by (simp_all add: row)
  have row1: "row \<in> set (js_jobs (xs_jobs st1))" by (simp add: st1_def insert_job_def)
  let ?k = "claimed_row t1 row"
  have "filter (\<lambda>j. job_status j = ''queued'' \<and> job_filter (Some ''export'') None j \<and> \<not> False) (js_jobs (xs_jobs st1)) = [row]"
    using idle fields(4,5) by (auto simp: st1_def insert_job_def is_active_def active_job_statuses_def filter_empty_conv)
  then have claim: "claim_queued_integration_job (\<lambda>_. False) t1 (Some ''export'') None (xs_jobs st1)
      = (update_job ?k (xs_jobs st1), Some ?k)"
    using ready by (simp add: claim_queued_integration_job_def st1_def insert_job_def first_by_def)
  define st2 where "st2 = st1\<lparr>xs_jobs := update_job ?k (xs_jobs st1)\<rparr>"
  have users: "requesting_user st2 ?k = Some user" using user(2,3) fields(2) by (simp add: requesting_user_def st2_def st1_def)
  have pidne: "?pid \<noteq> []" by (rule public_id_shape)
  have q1: "queue_ok (xs_jobs st1)" using ok1 by (simp add: exports_ok_def)
  have q2: "queue_ok (xs_jobs st2)" using queue_ok_claim[OF q1, of "\<lambda>_. False" t1 "Some ''export''" None] claim by (simp add: st2_def)
  have k2: "?k \<in> set (js_jobs (xs_jobs st2))" using row1 by (force simp: st2_def update_job_def)
  obtain st3 r where p3: "process_export_job env t1 random1 ?k st2 = (st3, r)" by fastforce
  have w: "run_export_worker env (\<lambda>_. False) t1 random1 st1 = (st3, res_bind r (\<lambda>k. Inr (Some k)))"
    using claim p3 by (simp add: run_export_worker_def st2_def)
  have sv: "served env (job_id row) ?pid (Some (user_id user)) f (t1 + max (or_num (xe_ttl_hours env) 1) 1 * 3600 * 1000000) st3"
  proof -
    have types: "job_type ?k \<in> set EXPORT_JOB_TYPES" using fields(1) by (simp add: EXPORT_JOB_TYPES_def)
    have pidk: "job_artifact_public_id ?k = Some ?pid" using fields(3) by simp
    have b: "xe_build env (job_type ?k) user (export_payload env ?k) = Inr f" using built fields(1) by simp
    from process_built[OF p3 pidk pidne users types b] obtain fin
      where fin: "finish_job t1 fin ?k (with_artifact env t1 ?pid f (job_id ?k) st2) = (st3, r)" "fin_status fin = ''success''" by blast
    have "job_by_id (xs_jobs (with_artifact env t1 ?pid f (job_id ?k) st2)) (job_id ?k) = Some ?k"
      using job_by_id_in[OF q2 k2] by (simp add: with_artifact_def)
    from finish_job_found[OF this] fin(1)
    have st3: "st3 = (with_artifact env t1 ?pid f (job_id ?k) st2)\<lparr>xs_jobs := update_job (finished_record_row t1 fin ?k) (xs_jobs st2)\<rparr>"
      by (metis fst_conv with_artifact_jobs)
    have "finished_record_row t1 fin ?k \<in> set (js_jobs (xs_jobs st3))" using k2 by (force simp: st3 update_job_def)
    moreover have "job_core (finished_record_row t1 fin ?k) = job_core row" by simp
    ultimately show ?thesis using fin(2) fields(2,3)
      by (auto simp: served_def st3 with_artifact_def written_artifact_def Let_def job_core_def intro!: bexI[where x = "finished_record_row t1 fin ?k"])
  qed
  have "exports_ok env st3" using worker_shape[OF w ok1] by blast
  moreover have "require_roles export_roles user = Inr user" using user(1)
    by (auto simp: require_roles_def export_roles_def Let_def split: if_splits)
  moreover have "is_owner_or_admin user (Some (user_id user))" by (simp add: is_owner_or_admin_def)
  ultimately have "snd (download_export_artifact env t user ?pid st3)
      = Inr (xf_payload f, xf_filename f, or_else (xf_content_type f) ''application/octet-stream'')"
    using served_download sv t by blast
  then show ?thesis using asked w by (simp add: st1_def)
qed

lemma json_payload_date:
  "(k, Date t) \<in> set d \<Longrightarrow> json_payload d = Inl (TypeError ''Object of type date is not JSON serializable'')"
proof -
  have "(k, Date t) \<in> set d \<Longrightarrow> res_map (\<lambda>(k, v). res_bind (json_of v) (\<lambda>w. Inr (k, w))) d
      = Inl (TypeError ''Object of type date is not JSON serializable'')"
  proof (induction d)
    case (Cons x d)
    obtain k' v where x: "x = (k', v)" by fastforce
    then show ?case using Cons by (cases v) auto
  qed simp
  then show "(k, Date t) \<in> set d \<Longrightarrow> ?thesis" by (simp add: json_payload_def)
qed

text \<open>When the export of events between two dates cannot be built, that cannot be recorded either: the dates are no
  JSON values, the commit raises, and the job stays as it is, running.\<close>

theorem dated_failure_stuck:
  assumes "job_type j \<in> {''privacy_access.events.csv'', ''certification.events.csv''}" and "requesting_user st j = Some u"
    and "dict_get (as_dict (job_payload_json j)) ''date_from'' = PStr s" "s \<noteq> []" "xe_is_date env s"
    and "xe_build env (job_type j) u (export_payload env j) = Inl err"
  shows "\<exists>msg. process_export_job env now random j st = (st, Inl (TypeError msg))"
proof -
  let ?d = "as_dict (job_payload_json j)" and ?e = "TypeError ''Object of type date is not JSON serializable''"
  have "map_of (export_payload env j) ''date_from'' = Some (Date s)"
    using assms(1,3-5) by (auto simp: export_payload_def Let_def map_of_dict_set parse_moment_def)
  then have "(''date_from'', Date s) \<in> set (export_payload env j)" by (rule map_of_SomeD)
  then have "json_payload (export_payload env j) = Inl ?e" by (rule json_payload_date)
  moreover have "job_type j \<in> set EXPORT_JOB_TYPES" using assms(1) by (auto simp: EXPORT_JOB_TYPES_def)
  ultimately show ?thesis using assms(2,6) by (simp add: process_export_job_def store_failure_def Let_def)
qed

section \<open>Examples\<close>

definition demo_file :: export_file where
  "demo_file = \<lparr>xf_payload = ''who;what'', xf_filename = ''audit.csv'', xf_content_type = ''text/csv'', xf_row_count = 1,
     xf_truncated = False, xf_format = ''csv''\<rparr>"

definition demo_export_env :: export_env where
  "demo_export_env = \<lparr>xe_jobs = demo_jobs_env, xe_digest = (\<lambda>_. ''0f''),
     xe_build = (\<lambda>jtype _ _. if jtype = ''audit.history.csv'' then Inr demo_file else Inl (ValueError ''no rows'')),
     xe_is_date = (\<lambda>s. length s = 10), xe_is_datetime = (\<lambda>_. False), xe_error_text = (\<lambda>_. ''no rows''),
     xe_float_text = (\<lambda>_. ''0.0''), xe_tmp = ''/tmp'', xe_undeletable = {}, xe_ttl_hours = 1\<rparr>"

definition demo_editor :: user_row where
  "demo_editor = user_with_role ''editor''"

definition demo_exports :: export_store where
  "demo_exports = \<lparr>xs_jobs = demo_store [], xs_artifacts = (\<lambda>_. no_artifact), xs_files = (\<lambda>_. None), xs_users = [demo_editor]\<rparr>"

definition demo_run :: job_run_in where
  "demo_run = \<lparr>jr_job_type = ''audit.history.csv'', jr_target_type = None, jr_target_id = None, jr_target_name = None,
     jr_trigger_mode = None\<rparr>"

lemma demo_exports_ok: "exports_ok demo_export_env demo_exports"
  by (simp add: exports_ok_def demo_exports_def queue_ok_def demo_store_def core_set_def cores_ok_def artifact_ok_def no_artifact_def)

lemma demo_editor_role:
  "require_roles [''admin'', ''editor'', ''stewardship'', ''data_owner''] demo_editor = Inr demo_editor"
  "require_roles export_roles demo_editor = Inr demo_editor" "user_id demo_editor = 7"
  "\<not> is_admin_role (user_role_names (Some demo_editor))"
  by code_simp+

theorem audit_exported_without_permission_witness:
  "isl (require_permission ''audit:export'' demo_editor)
    \<and> snd (download_export_artifact demo_export_env 9 demo_editor (build_export_public_id 5)
        (fst (run_export_worker demo_export_env (\<lambda>_. False) 8 6 (fst (platform_jobs_run demo_export_env 7 ''u'' 5 demo_editor demo_run demo_exports)))))
      = Inr (''who;what'', ''audit.csv'', ''text/csv'')"
proof -
  have p: "isl (require_permission ''audit:export'' demo_editor)" by code_simp
  have type: "norm_token (Some (jr_job_type demo_run)) = ''audit.history.csv''" by code_simp
  have "snd (download_export_artifact demo_export_env 9 demo_editor (build_export_public_id 5)
        (fst (run_export_worker demo_export_env (\<lambda>_. False) 8 6 (fst (platform_jobs_run demo_export_env 7 ''u'' 5 demo_editor demo_run demo_exports)))))
      = Inr (xf_payload demo_file, xf_filename demo_file, or_else (xf_content_type demo_file) ''application/octet-stream'')"
    by (rule audit_exported_without_permission[OF demo_exports_ok _ _ _ demo_editor_role(1) _ _ type])
      (simp_all add: demo_exports_def demo_store_def load_export_job_by_public_id_def demo_editor_role(3) demo_export_env_def or_num_def)
  then show ?thesis using p by (simp add: demo_file_def or_else_def)
qed

definition demo_asked :: export_store where
  "demo_asked = fst (platform_jobs_run demo_export_env 7 ''u'' 5 demo_editor demo_run demo_exports)"

definition demo_built :: export_store where
  "demo_built = fst (run_export_worker demo_export_env (\<lambda>_. False) 8 6 demo_asked)"

lemma demo_asked_ok: "exports_ok demo_export_env demo_asked"
proof -
  obtain r where r: "platform_jobs_run demo_export_env 7 ''u'' 5 demo_editor demo_run demo_exports = (demo_asked, r)"
    unfolding demo_asked_def by (metis prod.collapse)
  have "map_sum id (\<lambda>_. ()) (snd (platform_jobs_run demo_export_env 7 ''u'' 5 demo_editor demo_run demo_exports)) = Inr ()" by code_simp
  then obtain row where "r = Inr row" unfolding r by (cases r) auto
  then show ?thesis using rerun_ok[OF demo_exports_ok] r by blast
qed

lemma demo_worked:
  "\<exists>j. run_export_worker demo_export_env (\<lambda>_. False) 8 6 demo_asked = (demo_built, Inr (Some j)) \<and> job_status j = ''success''
    \<and> job_artifact_public_id j = Some (build_export_public_id 5)"
proof -
  obtain r where r: "run_export_worker demo_export_env (\<lambda>_. False) 8 6 demo_asked = (demo_built, r)"
    unfolding demo_built_def by (metis prod.collapse)
  have "map_sum id (map_option (\<lambda>j. (job_status j, job_artifact_public_id j)))
      (snd (run_export_worker demo_export_env (\<lambda>_. False) 8 6 demo_asked)) = Inr (Some (''success'', Some (build_export_public_id 5)))"
    by code_simp
  then have "map_sum id (map_option (\<lambda>j. (job_status j, job_artifact_public_id j))) r = Inr (Some (''success'', Some (build_export_public_id 5)))"
    unfolding r by simp
  then show ?thesis using r by (cases r) auto
qed

theorem export_reaches_requester_witness:
  "\<exists>f. \<forall>user. require_roles export_roles user = Inr user \<longrightarrow> is_admin_role (user_role_names (Some user))
    \<longrightarrow> snd (download_export_artifact demo_export_env 9 user (build_export_public_id 5)
        (foldl (export_step demo_export_env) demo_built [Clean 8, Fetch 8 demo_editor ''x'', Work [] 8 3])) = Inr f"
proof -
  obtain j where j: "run_export_worker demo_export_env (\<lambda>_. False) 8 6 demo_asked = (demo_built, Inr (Some j))"
    "job_status j = ''success''" "job_artifact_public_id j = Some (build_export_public_id 5)" using demo_worked by blast
  have "list_all (\<lambda>ev. event_time ev < 8 + max (or_num (xe_ttl_hours demo_export_env) 1) 1 * 3600 * 1000000)
      [Clean 8, Fetch 8 demo_editor ''x'', Work [] 8 3]" "9 < 8 + max (or_num (xe_ttl_hours demo_export_env) 1) 1 * 3600 * 1000000"
    by (simp_all add: demo_export_env_def or_num_def)
  from export_reaches_requester[OF demo_asked_ok j this] show ?thesis unfolding is_owner_or_admin_def by blast
qed

theorem download_only_own_witness:
  "\<exists>j. load_export_job_by_public_id demo_built (build_export_public_id 5) = Some j \<and> job_requested_by_user_id j = Some 7"
proof -
  obtain st' r where r: "download_export_artifact demo_export_env 9 demo_editor (build_export_public_id 5) demo_built = (st', r)" by fastforce
  have "map_sum id fst (snd (download_export_artifact demo_export_env 9 demo_editor (build_export_public_id 5) demo_built)) = Inr ''who;what''"
    by code_simp
  then obtain name ty where "r = Inr (''who;what'', name, ty)" unfolding r by (cases r) auto
  moreover have "exports_ok demo_export_env demo_built" using worker_shape[OF _ demo_asked_ok] demo_worked by blast
  ultimately show ?thesis using download_only_own[of demo_export_env demo_built 9 demo_editor] r demo_editor_role(3,4) by metis
qed

definition demo_dated :: job_row where
  "demo_dated = queued_row demo_jobs_env 7 ''u'' 1 (export_enqueue_request demo_export_env ''a1''
     \<lparr>xq_job_type = ''certification.events.csv'', xq_target_name = None, xq_user_id = Some 7, xq_correlation_id = None,
      xq_payload = Some (PDict [(''date_from'', PStr ''2025-01-01'')]), xq_context = None\<rparr>)"

theorem dated_failure_stuck_witness:
  "\<exists>msg. process_export_job demo_export_env 8 6 demo_dated demo_exports = (demo_exports, Inl (TypeError msg))"
proof -
  have t: "job_type demo_dated = ''certification.events.csv''" by code_simp
  have u: "requesting_user demo_exports demo_dated = Some demo_editor" by code_simp
  have d: "dict_get (as_dict (job_payload_json demo_dated)) ''date_from'' = PStr ''2025-01-01''" by code_simp
  show ?thesis
    by (rule dated_failure_stuck[OF _ u d, where err = "ValueError ''no rows''"]) (simp_all add: t demo_export_env_def)
qed

end
