(* ===== verification/Retention.thy ===== *)
theory Retention
  imports ExportJobs
begin

text \<open>
  What is deleted when: \<open>features/platform/retention.py\<close>, \<open>retention_policy.py\<close>, \<open>maintenance.py\<close>, and
  \<open>purge_persisted_observability_artifacts\<close> of \<open>features/data_quality/observability_store.py\<close>.

  The state has the tables that a cleanup touches.  A row of a table of which only the age matters is a \<open>log_row\<close>, with
  its other columns by name; \<open>lg_created_at\<close> is the column \<open>observed_at\<close> of the row counts.  Files are those of the
  exports and those below the temporary directory, with the time of their last change.
  Parameters (\<open>retention_env\<close>): which step the data base lets fail, before its first statement or at its commit, and
  which files cannot be read.  Rows of the same instant are archived in the order of the table.
\<close>

section \<open>State\<close>

record log_row =
  lg_id :: int
  lg_created_at :: instant
  lg_columns :: "(string \<times> py_value) list"

datatype aged_table =
    UsageEvents | SearchClicks | AccessEvents | RowCounts | CertificationEvents | PrivacyEvents
  | FailureEvents | DomainEvents | Baselines | ObservabilityEvents | EvidenceSamples

record tracked_session = session_row +
  us_last_seen_at :: instant

text \<open>An incident with the time of its closing, or an event of one with its time.  The column of the evidence is SQL
  \<open>NULL\<close> (\<open>None\<close>) or a JSON value; \<open>None\<close> assigned to it is stored as the JSON value \<open>null\<close>, which is not \<open>NULL\<close>.\<close>

record evidence_row =
  ev_id :: int
  ev_at :: "instant option"
  ev_json :: "py_value option"

record temp_file =
  tf_name :: string
  tf_mtime :: instant

record governance_days =
  gd_audit :: "int option"
  gd_audit_archive :: "int option"
  gd_access :: "int option"
  gd_access_archive :: "int option"
  gd_usage :: "int option"
  gd_click :: "int option"

record cleanup_run =
  ru_trigger_source :: string
  ru_status :: string
  ru_started_at :: instant
  ru_finished_at :: "instant option"
  ru_policy :: py_value
  ru_summary :: "(string \<times> py_value) list"
  ru_error :: "string option"

record retention_store =
  rs_audit :: "log_row list"
  rs_audit_archive :: "log_row list"
  rs_next_audit :: int
  rs_access :: "log_row list"
  rs_access_archive :: "log_row list"
  rs_next_access :: int
  rs_tables :: "aged_table \<Rightarrow> log_row list"
  rs_sessions :: "tracked_session list"
  rs_incidents :: "evidence_row list"
  rs_incident_events :: "evidence_row list"
  rs_exports :: export_store
  rs_tmp :: "temp_file list"
  rs_governance :: governance_days
  rs_runs :: "cleanup_run list"

record retention_env =
  re_exports :: export_env
  re_settings :: "string \<Rightarrow> int option"
  re_failure :: "string \<Rightarrow> (bool \<times> py_error) option"
  re_unreadable :: "string set"

section \<open>The policy\<close>

record retention_policy =
  rp_audit_log_retention_days :: int
  rp_audit_log_archive_retention_days :: int
  rp_access_log_retention_days :: int
  rp_access_log_archive_retention_days :: int
  rp_platform_usage_event_retention_days :: int
  rp_search_result_click_retention_days :: int
  rp_user_session_retention_days :: int
  rp_user_access_event_retention_days :: int
  rp_audit_event_retention_days :: int
  rp_export_file_ttl_hours :: int
  rp_dq_sample_retention_days :: int
  rp_profiling_sample_retention_days :: int
  rp_incident_evidence_retention_days :: int
  rp_temp_file_ttl_hours :: int
  rp_row_count_snapshot_retention_days :: int
  rp_certification_history_retention_days :: int
  rp_privacy_review_event_retention_days :: int
  rp_system_log_retention_days :: int

definition positive :: "int option \<Rightarrow> int \<Rightarrow> int" where
  "positive value fallback = (case value of None \<Rightarrow> max fallback 1 | Some v \<Rightarrow> max v 1)"

definition coerce_positive :: "int option \<Rightarrow> int \<Rightarrow> int" where
  "coerce_positive value fallback = (case value of None \<Rightarrow> fallback | Some v \<Rightarrow> max v 1)"

definition get_retention_policy_snapshot :: "(string \<Rightarrow> int option) \<Rightarrow> governance_days \<Rightarrow> retention_policy" where
  "get_retention_policy_snapshot settings g =
     (let audit = positive (settings ''audit_event_retention_days'') (coerce_positive (gd_audit g) 730) in
      \<lparr>rp_audit_log_retention_days = audit,
       rp_audit_log_archive_retention_days = coerce_positive (gd_audit_archive g) 2555,
       rp_access_log_retention_days = coerce_positive (gd_access g) 30,
       rp_access_log_archive_retention_days = coerce_positive (gd_access_archive g) 365,
       rp_platform_usage_event_retention_days = coerce_positive (gd_usage g) 180,
       rp_search_result_click_retention_days = coerce_positive (gd_click g) 180,
       rp_user_session_retention_days = positive (settings ''user_session_retention_days'') 365,
       rp_user_access_event_retention_days = positive (settings ''user_access_event_retention_days'') 365,
       rp_audit_event_retention_days = audit,
       rp_export_file_ttl_hours = positive (settings ''export_file_ttl_hours'') 1,
       rp_dq_sample_retention_days = positive (settings ''dq_sample_retention_days'') 90,
       rp_profiling_sample_retention_days = positive (settings ''profiling_sample_retention_days'') 90,
       rp_incident_evidence_retention_days = positive (settings ''incident_evidence_retention_days'') 365,
       rp_temp_file_ttl_hours = positive (settings ''temp_file_ttl_hours'') 24,
       rp_row_count_snapshot_retention_days = positive (settings ''row_count_snapshot_retention_days'') 180,
       rp_certification_history_retention_days = positive (settings ''certification_history_retention_days'') 365,
       rp_privacy_review_event_retention_days = positive (settings ''privacy_review_event_retention_days'') 365,
       rp_system_log_retention_days = positive (settings ''system_log_retention_days'') 365\<rparr>)"

definition policy_dict :: "retention_policy \<Rightarrow> py_value" where
  "policy_dict p = PDict (map (\<lambda>(k, f). (k, PInt (f p)))
     [(''audit_log_retention_days'', rp_audit_log_retention_days),
      (''audit_log_archive_retention_days'', rp_audit_log_archive_retention_days),
      (''access_log_retention_days'', rp_access_log_retention_days),
      (''access_log_archive_retention_days'', rp_access_log_archive_retention_days),
      (''platform_usage_event_retention_days'', rp_platform_usage_event_retention_days),
      (''search_result_click_retention_days'', rp_search_result_click_retention_days),
      (''user_session_retention_days'', rp_user_session_retention_days),
      (''user_access_event_retention_days'', rp_user_access_event_retention_days),
      (''audit_event_retention_days'', rp_audit_event_retention_days),
      (''export_file_ttl_hours'', rp_export_file_ttl_hours),
      (''dq_sample_retention_days'', rp_dq_sample_retention_days),
      (''profiling_sample_retention_days'', rp_profiling_sample_retention_days),
      (''incident_evidence_retention_days'', rp_incident_evidence_retention_days),
      (''temp_file_ttl_hours'', rp_temp_file_ttl_hours),
      (''row_count_snapshot_retention_days'', rp_row_count_snapshot_retention_days),
      (''certification_history_retention_days'', rp_certification_history_retention_days),
      (''privacy_review_event_retention_days'', rp_privacy_review_event_retention_days),
      (''system_log_retention_days'', rp_system_log_retention_days)])"

section \<open>The steps\<close>

text \<open>\<open>now - timedelta(...)\<close> for an interval in microseconds.\<close>

definition minus_delta :: "instant \<Rightarrow> int \<Rightarrow> instant res" where
  "minus_delta now d =
     (if d \<ge> 1000000000 * one_day then Inl (OverflowError ''days; must have magnitude <= 999999999'')
      else if now - d < datetime_min then Inl (OverflowError ''date value out of range'') else Inr (now - d))"

type_synonym step_result = "(retention_store \<times> (string \<times> py_value) list) res"

definition purge_aged :: "instant \<Rightarrow> aged_table \<Rightarrow> retention_store \<Rightarrow> retention_store \<times> int" where
  "purge_aged cutoff t st =
     (let rows = rs_tables st t in
      (st\<lparr>rs_tables := (rs_tables st)(t := filter (\<lambda>r. \<not> lg_created_at r < cutoff) rows)\<rparr>,
       int (length (filter (\<lambda>r. lg_created_at r < cutoff) rows))))"

definition oldest_rows :: "instant \<Rightarrow> log_row list \<Rightarrow> log_row list" where
  "oldest_rows cutoff rows = take 10000 (sort_key lg_created_at (filter (\<lambda>r. lg_created_at r < cutoff) rows))"

definition archive_rows :: "instant \<Rightarrow> log_row list \<Rightarrow> log_row list \<Rightarrow> (log_row list \<times> log_row list \<times> int) res" where
  "archive_rows cutoff rows archive =
     (let moved = oldest_rows cutoff rows; ids = map lg_id moved in
      if moved = [] then Inr (rows, archive, 0)
      else if \<not> distinct (map lg_id archive @ ids) then Inl (IntegrityError ''duplicate key'')
      else Inr (filter (\<lambda>r. lg_id r \<notin> set ids) rows, archive @ moved, int (length moved)))"

definition purge_archive :: "instant \<Rightarrow> log_row list \<Rightarrow> log_row list \<times> int" where
  "purge_archive cutoff rows =
     (filter (\<lambda>r. \<not> lg_created_at r < cutoff) rows, int (length (filter (\<lambda>r. lg_created_at r < cutoff) rows)))"

definition purge_operational_history :: "instant \<Rightarrow> retention_policy \<Rightarrow> retention_store \<Rightarrow> step_result" where
  "purge_operational_history now pol st =
     res_bind (minus_delta now (rp_audit_log_retention_days pol * one_day)) (\<lambda>audit_cutoff.
     res_bind (minus_delta now (rp_audit_log_archive_retention_days pol * one_day)) (\<lambda>audit_archive_cutoff.
     res_bind (minus_delta now (rp_access_log_retention_days pol * one_day)) (\<lambda>access_cutoff.
     res_bind (minus_delta now (rp_access_log_archive_retention_days pol * one_day)) (\<lambda>access_archive_cutoff.
     res_bind (minus_delta now (rp_platform_usage_event_retention_days pol * one_day)) (\<lambda>usage_cutoff.
     res_bind (minus_delta now (rp_search_result_click_retention_days pol * one_day)) (\<lambda>click_cutoff.
     res_bind (archive_rows access_cutoff (rs_access st) (rs_access_archive st)) (\<lambda>(access, access_archive, access_archived).
     res_bind (archive_rows audit_cutoff (rs_audit st) (rs_audit_archive st)) (\<lambda>(audit, audit_archive, audit_archived).
       let (access_archive', access_deleted) = purge_archive access_archive_cutoff access_archive;
           (audit_archive', audit_deleted) = purge_archive audit_archive_cutoff audit_archive;
           (st1, usage_deleted) = purge_aged usage_cutoff UsageEvents
             (st\<lparr>rs_access := access, rs_access_archive := access_archive', rs_audit := audit, rs_audit_archive := audit_archive'\<rparr>);
           (st2, click_deleted) = purge_aged click_cutoff SearchClicks st1
       in Inr (st2, [(''audit_archived'', PInt audit_archived), (''audit_archive_deleted'', PInt audit_deleted),
            (''access_archived'', PInt access_archived), (''access_archive_deleted'', PInt access_deleted),
            (''platform_usage_deleted'', PInt usage_deleted), (''search_click_deleted'', PInt click_deleted)])))))))))"

definition expired_session :: "instant \<Rightarrow> tracked_session \<Rightarrow> bool" where
  "expired_session cutoff s \<longleftrightarrow> sess_ended_at s = None \<and> sess_revoked_at s = None \<and> us_last_seen_at s < cutoff"

definition close_session :: "instant \<Rightarrow> tracked_session \<Rightarrow> tracked_session" where
  "close_session cutoff s =
     (let end_at = (case sess_expires_at s of None \<Rightarrow> cutoff | Some e \<Rightarrow> if e > cutoff then cutoff else e);
          end_at' = (if end_at < sess_started_at s then sess_started_at s else end_at)
      in s\<lparr>sess_ended_at := Some end_at', sess_duration_seconds := Some (max 0 ((end_at' - sess_started_at s) div 1000000)),
           sess_end_reason := Some ''expired''\<rparr>)"

definition close_expired_user_sessions :: "instant \<Rightarrow> retention_policy \<Rightarrow> retention_store \<Rightarrow> step_result" where
  "close_expired_user_sessions now pol st =
     res_bind (minus_delta now (rp_user_session_retention_days pol * one_day)) (\<lambda>cutoff.
       Inr (st\<lparr>rs_sessions := map (\<lambda>s. if expired_session cutoff s then close_session cutoff s else s) (rs_sessions st)\<rparr>,
         [(''user_sessions_closed'', PInt (int (length (filter (expired_session cutoff) (rs_sessions st)))))]))"

definition purge_table :: "aged_table \<Rightarrow> string \<Rightarrow> instant \<Rightarrow> int \<Rightarrow> retention_store \<Rightarrow> step_result" where
  "purge_table t label now days st =
     res_bind (minus_delta now (days * one_day)) (\<lambda>cutoff.
       case purge_aged cutoff t st of (st', n) \<Rightarrow> Inr (st', [(label, PInt n)]))"

definition purge_user_access_events :: "instant \<Rightarrow> retention_policy \<Rightarrow> retention_store \<Rightarrow> step_result" where
  "purge_user_access_events now pol = purge_table AccessEvents ''user_access_events_deleted'' now (rp_user_access_event_retention_days pol)"

definition export_files_step :: "retention_env \<Rightarrow> instant \<Rightarrow> retention_store \<Rightarrow> step_result" where
  "export_files_step env now st =
     (case cleanup_expired_export_artifacts (re_exports env) now (rs_exports st) of
        (xs, n) \<Rightarrow> Inr (st\<lparr>rs_exports := xs\<rparr>, [(''export_files_deleted'', PInt n)]))"

definition setting_or :: "retention_env \<Rightarrow> string \<Rightarrow> int \<Rightarrow> int" where
  "setting_or env name d = (case re_settings env name of None \<Rightarrow> d | Some v \<Rightarrow> or_num v d)"

definition purge_persisted_observability_artifacts :: "retention_env \<Rightarrow> instant \<Rightarrow> int \<Rightarrow> retention_store \<Rightarrow> step_result" where
  "purge_persisted_observability_artifacts env now evidence_days st =
     res_bind (minus_delta now (max (setting_or env ''dq_observability_retention_days'' 180) 30 * one_day)) (\<lambda>baseline_cutoff.
     res_bind (minus_delta now (max (or_num evidence_days (setting_or env ''dq_evidence_sample_retention_days'' 90)) 1 * one_day)) (\<lambda>evidence_cutoff.
       let (st1, baselines) = purge_aged baseline_cutoff Baselines st;
           (st2, events) = purge_aged baseline_cutoff ObservabilityEvents st1;
           (st3, evidence) = purge_aged evidence_cutoff EvidenceSamples st2
       in Inr (st3, [(''dq_observability_baselines_deleted'', PInt baselines), (''dq_observability_events_deleted'', PInt events),
            (''dq_evidence_samples_deleted'', PInt evidence)])))"

definition old_evidence :: "instant \<Rightarrow> evidence_row \<Rightarrow> bool" where
  "old_evidence cutoff r \<longleftrightarrow> ev_json r \<noteq> None \<and> (case ev_at r of None \<Rightarrow> False | Some t \<Rightarrow> t < cutoff)"

definition clear_evidence :: "instant \<Rightarrow> evidence_row list \<Rightarrow> evidence_row list" where
  "clear_evidence cutoff = map (\<lambda>r. if old_evidence cutoff r then r\<lparr>ev_json := Some PNone\<rparr> else r)"

definition purge_incident_evidence :: "instant \<Rightarrow> retention_policy \<Rightarrow> retention_store \<Rightarrow> step_result" where
  "purge_incident_evidence now pol st =
     res_bind (minus_delta now (rp_incident_evidence_retention_days pol * one_day)) (\<lambda>cutoff.
       Inr (st\<lparr>rs_incidents := clear_evidence cutoff (rs_incidents st),
               rs_incident_events := clear_evidence cutoff (rs_incident_events st)\<rparr>,
         [(''incident_evidence_cleared'', PInt (int (length (filter (old_evidence cutoff) (rs_incidents st))))),
          (''incident_event_evidence_cleared'', PInt (int (length (filter (old_evidence cutoff) (rs_incident_events st)))))]))"

definition purge_row_count_snapshots :: "instant \<Rightarrow> retention_policy \<Rightarrow> retention_store \<Rightarrow> step_result" where
  "purge_row_count_snapshots now pol = purge_table RowCounts ''row_count_snapshots_deleted'' now (rp_row_count_snapshot_retention_days pol)"

definition purge_certification_history :: "instant \<Rightarrow> retention_policy \<Rightarrow> retention_store \<Rightarrow> step_result" where
  "purge_certification_history now pol =
     purge_table CertificationEvents ''certification_history_deleted'' now (rp_certification_history_retention_days pol)"

definition purge_privacy_review_events :: "instant \<Rightarrow> retention_policy \<Rightarrow> retention_store \<Rightarrow> step_result" where
  "purge_privacy_review_events now pol =
     purge_table PrivacyEvents ''privacy_review_events_deleted'' now (rp_privacy_review_event_retention_days pol)"

definition purge_system_logs :: "instant \<Rightarrow> retention_policy \<Rightarrow> retention_store \<Rightarrow> step_result" where
  "purge_system_logs now pol st =
     res_bind (minus_delta now (rp_system_log_retention_days pol * one_day)) (\<lambda>cutoff.
       let (st1, failures) = purge_aged cutoff FailureEvents st; (st2, events) = purge_aged cutoff DomainEvents st1
       in Inr (st2, [(''operational_failure_events_deleted'', PInt failures), (''platform_domain_events_deleted'', PInt events)]))"

text \<open>A file of the pattern is deleted, left because it is young, or counted as an error.\<close>

definition glob_file :: "string \<Rightarrow> string \<Rightarrow> bool" where
  "glob_file prefix name \<longleftrightarrow> starts_with prefix name \<and> ends_with ''.json'' (drop (length prefix) name)"

definition clean_file :: "retention_env \<Rightarrow> instant \<Rightarrow> temp_file \<Rightarrow> temp_file list \<times> int \<times> int \<Rightarrow> temp_file list \<times> int \<times> int" where
  "clean_file env cutoff f = (\<lambda>(files, deleted, errors).
     if tf_name f \<in> re_unreadable env then (files, deleted, errors + 1)
     else if tf_mtime f > cutoff then (files, deleted, errors)
     else if xe_tmp (re_exports env) @ ''/'' @ tf_name f \<in> xe_undeletable (re_exports env) then (files, deleted, errors + 1)
     else (filter (\<lambda>g. tf_name g \<noteq> tf_name f) files, deleted + 1, errors))"

definition clean_prefix :: "retention_env \<Rightarrow> instant \<Rightarrow> string \<Rightarrow> temp_file list \<times> int \<times> int \<Rightarrow> temp_file list \<times> int \<times> int" where
  "clean_prefix env cutoff prefix acc = fold (clean_file env cutoff) (filter (\<lambda>f. glob_file prefix (tf_name f)) (fst acc)) acc"

definition cleanup_stale_profiling_samples :: "retention_env \<Rightarrow> instant \<Rightarrow> retention_policy \<Rightarrow> retention_store \<Rightarrow> step_result" where
  "cleanup_stale_profiling_samples env now pol st =
     res_bind (minus_delta now (rp_profiling_sample_retention_days pol * one_day)) (\<lambda>cutoff.
       case fold (clean_prefix env cutoff) [''profiling-run-''] (rs_tmp st, 0, 0) of (files, deleted, errors) \<Rightarrow>
         Inr (st\<lparr>rs_tmp := files\<rparr>, [(''profiling_samples_deleted'', PInt deleted), (''profiling_sample_errors'', PInt errors)]))"

definition cleanup_stale_temp_files :: "retention_env \<Rightarrow> instant \<Rightarrow> retention_policy \<Rightarrow> retention_store \<Rightarrow> step_result" where
  "cleanup_stale_temp_files env now pol st =
     res_bind (minus_delta now (rp_temp_file_ttl_hours pol * 3600000000)) (\<lambda>cutoff.
       case fold (clean_prefix env cutoff) [''profiling-conn-'', ''rules-conn-'', ''rules-run-''] (rs_tmp st, 0, 0) of
         (files, deleted, errors) \<Rightarrow>
           Inr (st\<lparr>rs_tmp := files\<rparr>, [(''temporary_files_deleted'', PInt deleted), (''temporary_file_errors'', PInt errors)]))"

section \<open>The job\<close>

record cleanup =
  cl_store :: retention_store
  cl_summary :: "(string \<times> py_value) list"
  cl_errors :: "(string \<times> string) list"
  cl_completed :: int
  cl_failed :: int

text \<open>A rollback undoes the statements of a step, not the deletion of files.\<close>

definition rollback :: "retention_store \<Rightarrow> retention_store \<Rightarrow> retention_store" where
  "rollback before after =
     before\<lparr>rs_tmp := rs_tmp after, rs_exports := (rs_exports before)\<lparr>xs_files := xs_files (rs_exports after)\<rparr>\<rparr>"

definition step_summary :: "string \<Rightarrow> (string \<times> py_value) list \<Rightarrow> (string \<times> py_value) list \<Rightarrow> (string \<times> py_value) list" where
  "step_summary name result summary =
     (let s = dict_set name (PDict result) summary in if name = ''operational_history'' then dict_update s result else s)"

definition failed_step :: "retention_env \<Rightarrow> string \<Rightarrow> py_error \<Rightarrow> retention_store \<Rightarrow> (string \<times> py_value) list \<Rightarrow> cleanup \<Rightarrow> cleanup" where
  "failed_step env name e st summary c =
     (let text = xe_error_text (re_exports env) e in
      c\<lparr>cl_store := st, cl_summary := dict_set name (PDict [(''error'', PStr text)]) summary,
        cl_errors := cl_errors c @ [(name, text)], cl_failed := cl_failed c + 1\<rparr>)"

definition execute_step :: "retention_env \<Rightarrow> string \<Rightarrow> (retention_store \<Rightarrow> step_result) \<Rightarrow> cleanup \<Rightarrow> cleanup" where
  "execute_step env name step c =
     (let st = cl_store c in
      case re_failure env name of
        Some (False, e) \<Rightarrow> failed_step env name e st (cl_summary c) c
      | failure \<Rightarrow> (case step st of
            Inl e \<Rightarrow> failed_step env name e st (cl_summary c) c
          | Inr (st', result) \<Rightarrow> (let summary = step_summary name result (cl_summary c) in
              case failure of
                Some (_, e) \<Rightarrow> failed_step env name e (rollback st st') summary c
              | None \<Rightarrow> c\<lparr>cl_store := st', cl_summary := summary, cl_completed := cl_completed c + 1\<rparr>)))"

definition file_errors :: "string \<Rightarrow> string \<Rightarrow> cleanup \<Rightarrow> int" where
  "file_errors name key c = (case dict_get (as_dict (Some (dict_get (cl_summary c) name))) key of PInt n \<Rightarrow> n | _ \<Rightarrow> 0)"

definition file_warning :: "string \<Rightarrow> string \<Rightarrow> string \<Rightarrow> cleanup \<Rightarrow> cleanup" where
  "file_warning name key what c =
     (let n = file_errors name key c in
      if n > 0 then c\<lparr>cl_errors := cl_errors c @ [(name, int_str n @ what)]\<rparr> else c)"

definition retention_steps :: "retention_env \<Rightarrow> instant \<Rightarrow> retention_policy \<Rightarrow> (string \<times> (retention_store \<Rightarrow> step_result)) list" where
  "retention_steps env now pol =
     [(''operational_history'', purge_operational_history now pol),
      (''user_sessions'', close_expired_user_sessions now pol),
      (''user_access_events'', purge_user_access_events now pol),
      (''export_files'', export_files_step env now),
      (''dq_samples'', purge_persisted_observability_artifacts env now (rp_dq_sample_retention_days pol)),
      (''incident_evidence'', purge_incident_evidence now pol),
      (''row_count_snapshots'', purge_row_count_snapshots now pol),
      (''certification_history'', purge_certification_history now pol),
      (''privacy_review_events'', purge_privacy_review_events now pol),
      (''system_logs'', purge_system_logs now pol),
      (''profiling_samples'', cleanup_stale_profiling_samples env now pol),
      (''temporary_files'', cleanup_stale_temp_files env now pol)]"

definition perform_step :: "retention_env \<Rightarrow> string \<times> (retention_store \<Rightarrow> step_result) \<Rightarrow> cleanup \<Rightarrow> cleanup" where
  "perform_step env s c =
     (let c' = execute_step env (fst s) (snd s) c in
      if fst s = ''profiling_samples''
      then file_warning ''profiling_samples'' ''profiling_sample_errors'' '' profiling samples could not be removed'' c'
      else if fst s = ''temporary_files''
      then file_warning ''temporary_files'' ''temporary_file_errors'' '' temporary files could not be removed'' c'
      else c')"

definition final_status :: "cleanup \<Rightarrow> string" where
  "final_status c = (if cl_errors c = [] then ''success'' else if cl_failed c = 12 then ''failed'' else ''partial'')"

definition final_summary :: "retention_env \<Rightarrow> instant \<Rightarrow> cleanup \<Rightarrow> (string \<times> py_value) list" where
  "final_summary env now c =
     (let n = int (length (cl_errors c)) in
      dict_update (cl_summary c)
        [(''errors'', PList (map (\<lambda>(s, e). PDict [(''step'', PStr s), (''error'', PStr e)]) (cl_errors c))),
         (''steps_total'', PInt 12), (''steps_completed'', PInt (cl_completed c)), (''steps_failed'', PInt (cl_failed c)),
         (''finished_at'', PStr (je_iso (xe_jobs (re_exports env)) now)),
         (''warnings_count'', PInt (if n > cl_failed c then n - cl_failed c else 0)), (''status'', PStr (final_status c))])"

definition started_run :: "instant \<Rightarrow> string \<Rightarrow> retention_policy \<Rightarrow> cleanup_run" where
  "started_run now trigger pol = \<lparr>ru_trigger_source = trigger, ru_status = ''running'', ru_started_at = now,
     ru_finished_at = None, ru_policy = policy_dict pol, ru_summary = [], ru_error = None\<rparr>"

definition started_summary :: "retention_env \<Rightarrow> instant \<Rightarrow> string \<Rightarrow> retention_policy \<Rightarrow> (string \<times> py_value) list" where
  "started_summary env now trigger pol =
     [(''job_name'', PStr ''retention_cleanup_job''), (''trigger_source'', PStr trigger),
      (''started_at'', PStr (je_iso (xe_jobs (re_exports env)) now)), (''retention_policy'', policy_dict pol)]"

definition finished_run :: "retention_env \<Rightarrow> instant \<Rightarrow> cleanup \<Rightarrow> cleanup_run \<Rightarrow> cleanup_run" where
  "finished_run env now c run =
     run\<lparr>ru_status := final_status c, ru_finished_at := Some now, ru_summary := final_summary env now c,
       ru_error := (if cl_errors c = [] then None
         else Some (take 2000 (join_with ''; '' (map (\<lambda>(s, e). s @ '': '' @ e) (cl_errors c)))))\<rparr>"

definition run_retention_cleanup_job :: "retention_env \<Rightarrow> instant \<Rightarrow> string \<Rightarrow> retention_store \<Rightarrow> retention_store \<times> (string \<times> py_value) list" where
  "run_retention_cleanup_job env now trigger st =
     (let pol = get_retention_policy_snapshot (re_settings env) (rs_governance st);
          run = started_run now trigger pol;
          c = fold (perform_step env) (retention_steps env now pol)
            \<lparr>cl_store = st\<lparr>rs_runs := rs_runs st @ [run]\<rparr>, cl_summary = started_summary env now trigger pol,
             cl_errors = [], cl_completed = 0, cl_failed = 0\<rparr>
      in ((cl_store c)\<lparr>rs_runs := butlast (rs_runs (cl_store c)) @ [finished_run env now c run]\<rparr>, final_summary env now c))"

section \<open>What a run reports and what it changes\<close>

text \<open>The steps that the summary of a run names under \<open>errors\<close>.\<close>

definition reported_steps :: "(string \<times> py_value) list \<Rightarrow> string list" where
  "reported_steps summary =
     (case dict_get summary ''errors'' of
        PList es \<Rightarrow> map (\<lambda>e. case dict_get (as_dict (Some e)) ''step'' of PStr s \<Rightarrow> s | _ \<Rightarrow> []) es
      | _ \<Rightarrow> [])"

lemma reported_final: "reported_steps (final_summary env now c) = map fst (cl_errors c)"
proof -
  have "dict_get (final_summary env now c) ''errors''
      = PList (map (\<lambda>(s, e). PDict [(''step'', PStr s), (''error'', PStr e)]) (cl_errors c))"
    by (simp add: final_summary_def Let_def dict_get_def map_of_dict_update map_add_def)
  moreover have "dict_get (as_dict (Some (PDict [(''step'', PStr s), (''error'', PStr e)]))) ''step'' = PStr s" for s e
    by (simp add: dict_get_def as_dict_def)
  ultimately show ?thesis by (auto simp: reported_steps_def comp_def case_prod_beta)
qed

definition failed_names :: "cleanup \<Rightarrow> string set" where
  "failed_names c = set (map fst (cl_errors c))"

text \<open>A part of the data base, which a rollback restores.\<close>

definition restored :: "(retention_store \<Rightarrow> 'a) \<Rightarrow> bool" where
  "restored f \<longleftrightarrow> (\<forall>a b. f (rollback a b) = f a)"

definition leaves :: "(retention_store \<Rightarrow> 'a) \<Rightarrow> string \<times> (retention_store \<Rightarrow> step_result) \<Rightarrow> bool" where
  "leaves f s \<longleftrightarrow> (\<forall>st st' r. snd s st = Inr (st', r) \<longrightarrow> f st' = f st)"

definition turns :: "(retention_store \<Rightarrow> 'a) \<Rightarrow> ('a \<Rightarrow> 'a) \<Rightarrow> string \<times> (retention_store \<Rightarrow> step_result) \<Rightarrow> bool" where
  "turns f g s \<longleftrightarrow> (\<forall>st st' r. snd s st = Inr (st', r) \<longrightarrow> f st' = g (f st))"

lemma execute_cases:
  obtains (failed) e st' sm where "execute_step env n step c = failed_step env n e st' sm c"
      "st' = cl_store c \<or> (\<exists>b. st' = rollback (cl_store c) b)"
    | (passed) st' r where "step (cl_store c) = Inr (st', r)"
      "execute_step env n step c = c\<lparr>cl_store := st', cl_summary := step_summary n r (cl_summary c), cl_completed := cl_completed c + 1\<rparr>"
proof -
  obtain a where a: "step (cl_store c) = Inl a \<or> (\<exists>st' r. step (cl_store c) = Inr (st', r))"
    by (metis sum.exhaust surj_pair)
  consider "re_failure env n = None" | e where "re_failure env n = Some (False, e)" | e where "re_failure env n = Some (True, e)"
    by (metis (full_types) option.exhaust surj_pair)
  then show thesis
  proof cases
    case 1
    then show ?thesis using a by (auto simp: execute_step_def Let_def intro: failed passed)
  next
    case (2 e)
    then show ?thesis by (intro failed) (auto simp: execute_step_def Let_def)
  next
    case (3 e)
    then show ?thesis using a by (auto simp: execute_step_def Let_def intro: failed)
  qed
qed

lemma warning_fields [simp]:
  "cl_store (file_warning n k w c) = cl_store c" "cl_completed (file_warning n k w c) = cl_completed c"
  "cl_failed (file_warning n k w c) = cl_failed c"
  "failed_names (file_warning n k w c) \<subseteq> insert n (failed_names c)"
  by (auto simp: file_warning_def failed_names_def Let_def)

definition warned :: "string \<Rightarrow> bool" where
  "warned n \<longleftrightarrow> n = ''profiling_samples'' \<or> n = ''temporary_files''"

lemma perform_store [simp]: "cl_store (perform_step env s c) = cl_store (execute_step env (fst s) (snd s) c)"
  by (simp add: perform_step_def Let_def)

lemma perform_errors:
  "failed_names (execute_step env (fst s) (snd s) c) \<subseteq> failed_names (perform_step env s c)"
  "failed_names (perform_step env s c) \<subseteq>
     (if warned (fst s) then insert (fst s) else id) (failed_names (execute_step env (fst s) (snd s) c))"
  by (auto simp: perform_step_def Let_def file_warning_def failed_names_def warned_def)

lemma execute_errors:
  "failed_names (execute_step env n step c) \<subseteq> insert n (failed_names c)"
  "failed_names c \<subseteq> failed_names (execute_step env n step c)"
proof -
  show "failed_names (execute_step env n step c) \<subseteq> insert n (failed_names c)"
    by (cases rule: execute_cases[of env n step c]) (auto simp: failed_names_def failed_step_def Let_def)
  show "failed_names c \<subseteq> failed_names (execute_step env n step c)"
    by (cases rule: execute_cases[of env n step c]) (auto simp: failed_names_def failed_step_def Let_def)
qed

lemma step_leaves:
  assumes "restored f" "leaves f s"
  shows "f (cl_store (perform_step env s c)) = f (cl_store c)"
  using assms by (cases rule: execute_cases[of env "fst s" "snd s" c]) (auto simp: failed_step_def Let_def restored_def leaves_def)

lemma steps_leave:
  assumes "restored f" "\<forall>s\<in>set ss. leaves f s"
  shows "f (cl_store (fold (perform_step env) ss c)) = f (cl_store c)"
  using assms(2)
proof (induction ss arbitrary: c)
  case (Cons s ss)
  then show ?case using step_leaves[OF assms(1), of s] by simp
qed simp

lemma steps_errors:
  assumes "n \<notin> set (map fst ss)"
  shows "n \<in> failed_names (fold (perform_step env) ss c) \<longleftrightarrow> n \<in> failed_names c"
  using assms
proof (induction ss arbitrary: c)
  case (Cons s ss)
  have "n \<in> failed_names (perform_step env s c) \<longleftrightarrow> n \<in> failed_names c"
    using Cons.prems perform_errors[where s=s and c=c and env=env] execute_errors[where env=env and n="fst s" and step="snd s" and c=c]
    by (auto split: if_splits)
  then show ?case using Cons by simp
qed simp

lemma step_turns:
  assumes f: "restored f" "turns f g s" and s: "\<not> warned (fst s)" "fst s \<notin> failed_names c"
  shows "f (cl_store (perform_step env s c))
    = (if fst s \<in> failed_names (perform_step env s c) then f (cl_store c) else g (f (cl_store c)))"
proof -
  have same: "perform_step env s c = execute_step env (fst s) (snd s) c"
    using s(1) by (simp add: perform_step_def Let_def warned_def)
  show ?thesis unfolding same
    using f s(2) by (cases rule: execute_cases[of env "fst s" "snd s" c])
      (auto simp: failed_names_def failed_step_def Let_def restored_def turns_def)
qed

text \<open>The one step that changes a part changes it, or is reported and leaves it as it was.\<close>

lemma steps_turn:
  assumes ss: "ss = pre @ s # post" "fst s \<notin> set (map fst (pre @ post))" "\<not> warned (fst s)"
    and f: "restored f" "turns f g s" "\<forall>s\<in>set (pre @ post). leaves f s" and c: "cl_errors c = []"
  shows "f (cl_store (fold (perform_step env) ss c))
    = (if fst s \<in> failed_names (fold (perform_step env) ss c) then f (cl_store c) else g (f (cl_store c)))"
proof -
  let ?c = "fold (perform_step env) pre c"
  have pre: "f (cl_store ?c) = f (cl_store c)" using steps_leave[OF f(1)] f(3) by simp
  have e: "fst s \<notin> failed_names ?c" using steps_errors[of "fst s" pre env c] ss(2) c by (simp add: failed_names_def)
  have "fst s \<in> failed_names (fold (perform_step env) ss c)
      \<longleftrightarrow> fst s \<in> failed_names (perform_step env s ?c)"
    using steps_errors[of "fst s" post] ss(1,2) by simp
  moreover have "f (cl_store (fold (perform_step env) ss c)) = f (cl_store (perform_step env s ?c))"
    using steps_leave[OF f(1), of post] f(3) ss(1) by simp
  ultimately show ?thesis using step_turns[OF f(1,2) ss(3) e, of env] pre by simp
qed

section \<open>The aged tables\<close>

primrec table_step :: "aged_table \<Rightarrow> string" where
  "table_step UsageEvents = ''operational_history''"
| "table_step SearchClicks = ''operational_history''"
| "table_step AccessEvents = ''user_access_events''"
| "table_step RowCounts = ''row_count_snapshots''"
| "table_step CertificationEvents = ''certification_history''"
| "table_step PrivacyEvents = ''privacy_review_events''"
| "table_step FailureEvents = ''system_logs''"
| "table_step DomainEvents = ''system_logs''"
| "table_step Baselines = ''dq_samples''"
| "table_step ObservabilityEvents = ''dq_samples''"
| "table_step EvidenceSamples = ''dq_samples''"

definition baseline_days :: "retention_env \<Rightarrow> int" where
  "baseline_days env = max (setting_or env ''dq_observability_retention_days'' 180) 30"

primrec table_days :: "retention_env \<Rightarrow> retention_policy \<Rightarrow> aged_table \<Rightarrow> int" where
  "table_days env pol UsageEvents = rp_platform_usage_event_retention_days pol"
| "table_days env pol SearchClicks = rp_search_result_click_retention_days pol"
| "table_days env pol AccessEvents = rp_user_access_event_retention_days pol"
| "table_days env pol RowCounts = rp_row_count_snapshot_retention_days pol"
| "table_days env pol CertificationEvents = rp_certification_history_retention_days pol"
| "table_days env pol PrivacyEvents = rp_privacy_review_event_retention_days pol"
| "table_days env pol FailureEvents = rp_system_log_retention_days pol"
| "table_days env pol DomainEvents = rp_system_log_retention_days pol"
| "table_days env pol Baselines = baseline_days env"
| "table_days env pol ObservabilityEvents = baseline_days env"
| "table_days env pol EvidenceSamples =
     max (or_num (rp_dq_sample_retention_days pol) (setting_or env ''dq_evidence_sample_retention_days'' 90)) 1"

definition recent :: "instant \<Rightarrow> int \<Rightarrow> log_row list \<Rightarrow> log_row list" where
  "recent now days = filter (\<lambda>r. now - days * one_day \<le> lg_created_at r)"

lemma minus_delta_Inr: "minus_delta now d = Inr c \<Longrightarrow> c = now - d"
  by (simp add: minus_delta_def split: if_splits)

lemma purge_aged_tables:
  "rs_tables (fst (purge_aged (now - d * one_day) t st)) = (rs_tables st)(t := recent now d (rs_tables st t))"
  by (simp add: purge_aged_def recent_def Let_def not_less)

lemma purge_aged_others [simp]:
  "rs_audit (fst (purge_aged c t st)) = rs_audit st" "rs_audit_archive (fst (purge_aged c t st)) = rs_audit_archive st"
  "rs_access (fst (purge_aged c t st)) = rs_access st" "rs_access_archive (fst (purge_aged c t st)) = rs_access_archive st"
  "rs_next_audit (fst (purge_aged c t st)) = rs_next_audit st" "rs_next_access (fst (purge_aged c t st)) = rs_next_access st"
  "rs_sessions (fst (purge_aged c t st)) = rs_sessions st" "rs_exports (fst (purge_aged c t st)) = rs_exports st"
  "rs_governance (fst (purge_aged c t st)) = rs_governance st" "rs_runs (fst (purge_aged c t st)) = rs_runs st"
  by (simp_all add: purge_aged_def Let_def)

lemmas step_defs = purge_operational_history_def close_expired_user_sessions_def purge_user_access_events_def export_files_step_def
  purge_persisted_observability_artifacts_def purge_incident_evidence_def purge_row_count_snapshots_def
  purge_certification_history_def purge_privacy_review_events_def purge_system_logs_def cleanup_stale_profiling_samples_def
  cleanup_stale_temp_files_def purge_table_def

lemmas step_simps = step_defs res_bind_Inr_iff Let_def case_prod_beta

lemma tables_step:
  "purge_operational_history now pol st = Inr (st', r) \<Longrightarrow> rs_tables st' = (rs_tables st)
     (UsageEvents := recent now (rp_platform_usage_event_retention_days pol) (rs_tables st UsageEvents),
      SearchClicks := recent now (rp_search_result_click_retention_days pol) (rs_tables st SearchClicks))"
  "close_expired_user_sessions now pol st = Inr (st', r) \<Longrightarrow> rs_tables st' = rs_tables st"
  "purge_user_access_events now pol st = Inr (st', r) \<Longrightarrow> rs_tables st' = (rs_tables st)
     (AccessEvents := recent now (rp_user_access_event_retention_days pol) (rs_tables st AccessEvents))"
  "export_files_step env now st = Inr (st', r) \<Longrightarrow> rs_tables st' = rs_tables st"
  "purge_persisted_observability_artifacts env now days st = Inr (st', r) \<Longrightarrow> rs_tables st' = (rs_tables st)
     (Baselines := recent now (baseline_days env) (rs_tables st Baselines),
      ObservabilityEvents := recent now (baseline_days env) (rs_tables st ObservabilityEvents),
      EvidenceSamples := recent now (max (or_num days (setting_or env ''dq_evidence_sample_retention_days'' 90)) 1)
        (rs_tables st EvidenceSamples))"
  "purge_incident_evidence now pol st = Inr (st', r) \<Longrightarrow> rs_tables st' = rs_tables st"
  "purge_row_count_snapshots now pol st = Inr (st', r) \<Longrightarrow> rs_tables st' = (rs_tables st)
     (RowCounts := recent now (rp_row_count_snapshot_retention_days pol) (rs_tables st RowCounts))"
  "purge_certification_history now pol st = Inr (st', r) \<Longrightarrow> rs_tables st' = (rs_tables st)
     (CertificationEvents := recent now (rp_certification_history_retention_days pol) (rs_tables st CertificationEvents))"
  "purge_privacy_review_events now pol st = Inr (st', r) \<Longrightarrow> rs_tables st' = (rs_tables st)
     (PrivacyEvents := recent now (rp_privacy_review_event_retention_days pol) (rs_tables st PrivacyEvents))"
  "purge_system_logs now pol st = Inr (st', r) \<Longrightarrow> rs_tables st' = (rs_tables st)
     (FailureEvents := recent now (rp_system_log_retention_days pol) (rs_tables st FailureEvents),
      DomainEvents := recent now (rp_system_log_retention_days pol) (rs_tables st DomainEvents))"
  "cleanup_stale_profiling_samples env now pol st = Inr (st', r) \<Longrightarrow> rs_tables st' = rs_tables st"
  "cleanup_stale_temp_files env now pol st = Inr (st', r) \<Longrightarrow> rs_tables st' = rs_tables st"
  by (auto simp: step_simps purge_aged_tables baseline_days_def dest!: minus_delta_Inr)

text \<open>Only the first step touches the logs.\<close>

lemma logs_step:
  assumes "s \<in> set (tl (retention_steps env now pol))" and "snd s st = Inr (st', r)"
  shows "rs_audit st' = rs_audit st" "rs_audit_archive st' = rs_audit_archive st" "rs_next_audit st' = rs_next_audit st"
    "rs_access st' = rs_access st" "rs_access_archive st' = rs_access_archive st" "rs_next_access st' = rs_next_access st"
  using assms by (auto simp: retention_steps_def step_simps)

lemma kept_by_steps:
  assumes "s \<in> set (retention_steps env now pol)" and "snd s st = Inr (st', r)"
  shows "rs_governance st' = rs_governance st" "rs_runs st' = rs_runs st"
    "rs_next_audit st' = rs_next_audit st" "rs_next_access st' = rs_next_access st"
  using assms by (auto simp: retention_steps_def step_simps)

definition run_state :: "retention_env \<Rightarrow> instant \<Rightarrow> string \<Rightarrow> retention_store \<Rightarrow> cleanup" where
  "run_state env now trigger st =
     (let pol = get_retention_policy_snapshot (re_settings env) (rs_governance st) in
      fold (perform_step env) (retention_steps env now pol)
        \<lparr>cl_store = st\<lparr>rs_runs := rs_runs st @ [started_run now trigger pol]\<rparr>,
         cl_summary = started_summary env now trigger pol, cl_errors = [], cl_completed = 0, cl_failed = 0\<rparr>)"

lemma run_parts:
  "rs_tables (fst (run_retention_cleanup_job env now trigger st)) = rs_tables (cl_store (run_state env now trigger st))"
  "rs_audit (fst (run_retention_cleanup_job env now trigger st)) = rs_audit (cl_store (run_state env now trigger st))"
  "rs_audit_archive (fst (run_retention_cleanup_job env now trigger st)) = rs_audit_archive (cl_store (run_state env now trigger st))"
  "rs_access (fst (run_retention_cleanup_job env now trigger st)) = rs_access (cl_store (run_state env now trigger st))"
  "rs_access_archive (fst (run_retention_cleanup_job env now trigger st)) = rs_access_archive (cl_store (run_state env now trigger st))"
  "rs_next_audit (fst (run_retention_cleanup_job env now trigger st)) = rs_next_audit (cl_store (run_state env now trigger st))"
  "rs_next_access (fst (run_retention_cleanup_job env now trigger st)) = rs_next_access (cl_store (run_state env now trigger st))"
  "rs_governance (fst (run_retention_cleanup_job env now trigger st)) = rs_governance (cl_store (run_state env now trigger st))"
  "rs_sessions (fst (run_retention_cleanup_job env now trigger st)) = rs_sessions (cl_store (run_state env now trigger st))"
  "rs_exports (fst (run_retention_cleanup_job env now trigger st)) = rs_exports (cl_store (run_state env now trigger st))"
  "set (reported_steps (snd (run_retention_cleanup_job env now trigger st))) = failed_names (run_state env now trigger st)"
  by (simp_all add: run_retention_cleanup_job_def run_state_def Let_def reported_final failed_names_def)

lemma step_names: "distinct (map fst (retention_steps env now pol))"
  by (simp add: retention_steps_def)

text \<open>A part that one step changes, by the name of the step.\<close>

lemma run_turns:
  assumes n: "n \<in> set (map fst (retention_steps env now pol))" "\<not> warned n" and f: "restored f"
    and steps: "\<And>s. s \<in> set (retention_steps env now pol) \<Longrightarrow> if fst s = n then turns f g s else leaves f s"
    and pol: "pol = get_retention_policy_snapshot (re_settings env) (rs_governance st)"
    and start: "\<And>runs. f (st\<lparr>rs_runs := runs\<rparr>) = f st"
  shows "f (cl_store (run_state env now trigger st))
    = (if n \<in> failed_names (run_state env now trigger st) then f st else g (f st))"
proof -
  let ?ss = "retention_steps env now pol"
  from n(1) obtain s where s: "s \<in> set ?ss" "fst s = n" by auto
  then obtain pre post where ss: "?ss = pre @ s # post" by (meson split_list)
  have other: "fst s \<notin> set (map fst (pre @ post))" using step_names[of env now pol] unfolding ss by auto
  have "leaves f s'" if "s' \<in> set (pre @ post)" for s'
  proof -
    have "fst s' \<in> set (map fst (pre @ post))" using that by (metis image_eqI list.set_map)
    then have "fst s' \<noteq> n" using other s(2) by metis
    moreover have "s' \<in> set ?ss" using that unfolding ss by auto
    ultimately show ?thesis using steps[of s'] by simp
  qed
  moreover have "turns f g s" using steps[OF s(1)] s(2) by simp
  ultimately show ?thesis
    unfolding run_state_def Let_def pol[symmetric]
    using steps_turn[OF ss other, where f=f and g=g and env=env] f n(2) s(2) start by simp
qed

lemma run_leaves:
  assumes f: "restored f" and steps: "\<And>s. s \<in> set (retention_steps env now pol) \<Longrightarrow> leaves f s"
    and pol: "pol = get_retention_policy_snapshot (re_settings env) (rs_governance st)"
    and start: "\<And>runs. f (st\<lparr>rs_runs := runs\<rparr>) = f st"
  shows "f (cl_store (run_state env now trigger st)) = f st"
  unfolding run_state_def Let_def pol[symmetric]
  using steps_leave[OF f, of "retention_steps env now pol" env] steps start by simp

lemma steps_tables:
  assumes "s \<in> set (retention_steps env now pol)"
  shows "if fst s = table_step t then turns (\<lambda>st. rs_tables st t) (recent now (table_days env pol t)) s
    else leaves (\<lambda>st. rs_tables st t) s"
  using assms by (cases t) (auto simp: retention_steps_def turns_def leaves_def dest!: tables_step)

text \<open>C39: A cleanup deletes from every table exactly the rows that are older than its policy allows, unless it reports the
  step of that table as failed: then the table is as it was, whatever the other steps did.\<close>

theorem cleanup_effect:
  "rs_tables (fst (run_retention_cleanup_job env now trigger st)) t
     = (if table_step t \<in> set (reported_steps (snd (run_retention_cleanup_job env now trigger st))) then rs_tables st t
        else recent now (table_days env (get_retention_policy_snapshot (re_settings env) (rs_governance st)) t) (rs_tables st t))"
proof -
  have "table_step t \<in> set (map fst (retention_steps env now pol))" "\<not> warned (table_step t)" for pol
    by (cases t; simp add: retention_steps_def warned_def)+
  then show ?thesis
    unfolding run_parts by (intro run_turns steps_tables refl) (simp_all add: restored_def rollback_def)
qed

section \<open>The logs and their archives\<close>

definition log_ok :: "int \<Rightarrow> log_row list \<Rightarrow> log_row list \<Rightarrow> bool" where
  "log_ok next rows archive \<longleftrightarrow> distinct (map lg_id (rows @ archive)) \<and> (\<forall>r\<in>set (rows @ archive). lg_id r < next)"

lemma oldest_subset: "set (oldest_rows cutoff rows) \<subseteq> {r \<in> set rows. lg_created_at r < cutoff}"
  unfolding oldest_rows_def using set_take_subset[of 10000 "sort_key lg_created_at (filter (\<lambda>r. lg_created_at r < cutoff) rows)"]
  by auto

lemma distinct_sort_key: "distinct (map h xs) \<Longrightarrow> distinct (map h (sort_key k xs))"
  by (simp add: distinct_map)

lemma oldest_distinct:
  assumes "distinct (map lg_id rows)"
  shows "distinct (map lg_id (oldest_rows cutoff rows))"
proof -
  have "distinct (map lg_id (sort_key lg_created_at (filter (\<lambda>r. lg_created_at r < cutoff) rows)))"
    using assms by (intro distinct_sort_key) (simp add: distinct_map_filter)
  then show ?thesis unfolding oldest_rows_def by (metis distinct_take take_map)
qed

lemma archive_rows_ok:
  assumes ok: "log_ok next rows archive"
  shows "archive_rows cutoff rows archive
      = Inr (filter (\<lambda>r. r \<notin> set (oldest_rows cutoff rows)) rows, archive @ oldest_rows cutoff rows, int (length (oldest_rows cutoff rows)))"
proof -
  let ?m = "oldest_rows cutoff rows"
  have sub: "set ?m \<subseteq> set rows" using oldest_subset[of cutoff rows] by auto
  have inj: "inj_on lg_id (set rows)" using ok by (simp add: log_ok_def distinct_map)
  have "distinct (map lg_id archive @ map lg_id ?m)"
    using ok oldest_distinct[of rows cutoff] sub by (auto simp: log_ok_def)
  moreover have "(lg_id r \<notin> set (map lg_id ?m)) = (r \<notin> set ?m)" if "r \<in> set rows" for r
    using inj_on_image_mem_iff[OF inj that sub] by simp
  then have "filter (\<lambda>r. lg_id r \<notin> set (map lg_id ?m)) rows = filter (\<lambda>r. r \<notin> set ?m) rows" by (rule filter_cong[OF refl])
  ultimately show ?thesis by (auto simp: archive_rows_def Let_def)
qed

lemma archived_ok:
  assumes ok: "log_ok next rows archive" and r: "archive_rows cutoff rows archive = Inr (rows', archive', k)"
  shows "log_ok next rows' (recent now days archive')" "set (rows' @ archive') = set (rows @ archive)"
proof -
  let ?m = "oldest_rows cutoff rows"
  have eq: "rows' = filter (\<lambda>r. r \<notin> set ?m) rows" "archive' = archive @ ?m"
    using r archive_rows_ok[OF ok, of cutoff] by simp_all
  have sub: "set ?m \<subseteq> set rows" using oldest_subset[of cutoff rows] by auto
  then show "set (rows' @ archive') = set (rows @ archive)" unfolding eq by auto
  have inj: "inj_on lg_id (set rows)" and d: "distinct (map lg_id rows)" using ok by (simp_all add: log_ok_def distinct_map)
  let ?R = "lg_id ` set rows" and ?A = "lg_id ` set archive" and ?M = "lg_id ` set ?m" and ?K = "lg_id ` set rows'"
  have 1: "?K \<inter> ?M = {}" using inj sub unfolding eq by (force dest: inj_onD)
  have 2: "?R \<inter> ?A = {}" using ok by (auto simp: log_ok_def)
  have 3: "?K \<subseteq> ?R" "?M \<subseteq> ?R" using sub by (auto simp: eq)
  have sets: "K \<inter> (A \<union> M) = {} \<and> A \<inter> M = {}" if "K \<inter> M = {}" "R \<inter> A = {}" "K \<subseteq> R" "M \<subseteq> R"
    for K A M R :: "int set" using that by blast
  have disjoint: "?K \<inter> (?A \<union> ?M) = {}" "?A \<inter> ?M = {}" using sets[OF 1 2 3] by simp_all
  have "distinct (map lg_id rows')" "distinct (map lg_id archive)"
    using ok unfolding eq by (simp_all add: log_ok_def distinct_map_filter)
  then have "distinct (map lg_id (rows' @ archive'))"
    using oldest_distinct[OF d, of cutoff] disjoint by (simp add: eq(2) image_Un)
  then have "distinct (map lg_id (rows' @ recent now days archive'))"
    by (auto simp: recent_def distinct_map_filter)
  then show "log_ok next rows' (recent now days archive')"
    using ok sub unfolding log_ok_def eq by (auto simp: recent_def)
qed

text \<open>What a cleanup does to a log and its archive.\<close>

definition cleaned_log :: "instant \<Rightarrow> int \<Rightarrow> int \<Rightarrow> log_row list \<times> log_row list \<Rightarrow> log_row list \<times> log_row list" where
  "cleaned_log now days archive_days p =
     (case archive_rows (now - days * one_day) (fst p) (snd p) of
        Inl e \<Rightarrow> p | Inr (rows, archive, k) \<Rightarrow> (rows, recent now archive_days archive))"

lemma purge_archive_recent: "fst (purge_archive (now - d * one_day) rows) = recent now d rows"
  by (simp add: purge_archive_def recent_def not_less)

lemma history_logs:
  assumes "purge_operational_history now pol st = Inr (st', r)"
  shows "(rs_audit st', rs_audit_archive st')
      = cleaned_log now (rp_audit_log_retention_days pol) (rp_audit_log_archive_retention_days pol) (rs_audit st, rs_audit_archive st)"
    "(rs_access st', rs_access_archive st')
      = cleaned_log now (rp_access_log_retention_days pol) (rp_access_log_archive_retention_days pol) (rs_access st, rs_access_archive st)"
  using assms
  by (auto simp: purge_operational_history_def res_bind_Inr_iff Let_def case_prod_beta cleaned_log_def purge_archive_recent
    dest!: minus_delta_Inr)

lemma steps_logs:
  assumes s: "s \<in> set (retention_steps env now pol)"
  shows "if fst s = ''operational_history''
      then turns (\<lambda>st. (rs_audit st, rs_audit_archive st)) (cleaned_log now (rp_audit_log_retention_days pol) (rp_audit_log_archive_retention_days pol)) s
      else leaves (\<lambda>st. (rs_audit st, rs_audit_archive st)) s"
    "if fst s = ''operational_history''
      then turns (\<lambda>st. (rs_access st, rs_access_archive st)) (cleaned_log now (rp_access_log_retention_days pol) (rp_access_log_archive_retention_days pol)) s
      else leaves (\<lambda>st. (rs_access st, rs_access_archive st)) s"
proof -
  have "retention_steps env now pol = (''operational_history'', purge_operational_history now pol) # tl (retention_steps env now pol)"
    by (simp add: retention_steps_def)
  then have other: "s \<in> set (tl (retention_steps env now pol))" if "fst s \<noteq> ''operational_history''"
    using s that by (metis fst_conv set_ConsD)
  have "map_of (retention_steps env now pol) (fst s) = Some (snd s)"
    using map_of_is_SomeI[OF step_names[of env now pol], of "fst s" "snd s"] s by simp
  moreover have "map_of (retention_steps env now pol) ''operational_history'' = Some (purge_operational_history now pol)"
    by (simp add: retention_steps_def)
  ultimately have own: "snd s = purge_operational_history now pol" if "fst s = ''operational_history''" using that by simp
  show "if fst s = ''operational_history''
      then turns (\<lambda>st. (rs_audit st, rs_audit_archive st)) (cleaned_log now (rp_audit_log_retention_days pol) (rp_audit_log_archive_retention_days pol)) s
      else leaves (\<lambda>st. (rs_audit st, rs_audit_archive st)) s"
  proof (cases "fst s = ''operational_history''")
    case True
    then show ?thesis using own history_logs(1) by (auto simp: turns_def)
  next
    case False
    then show ?thesis using logs_step[OF other] by (auto simp: leaves_def)
  qed
  show "if fst s = ''operational_history''
      then turns (\<lambda>st. (rs_access st, rs_access_archive st)) (cleaned_log now (rp_access_log_retention_days pol) (rp_access_log_archive_retention_days pol)) s
      else leaves (\<lambda>st. (rs_access st, rs_access_archive st)) s"
  proof (cases "fst s = ''operational_history''")
    case True
    then show ?thesis using own history_logs(2) by (auto simp: turns_def)
  next
    case False
    then show ?thesis using logs_step[OF other] by (auto simp: leaves_def)
  qed
qed

lemma restored_logs:
  "restored (\<lambda>st. (rs_audit st, rs_audit_archive st))" "restored (\<lambda>st. (rs_access st, rs_access_archive st))"
  "restored rs_next_audit" "restored rs_next_access" "restored rs_governance"
  by (simp_all add: restored_def rollback_def)

lemma run_logs:
  fixes env now trigger st
  defines "pol \<equiv> get_retention_policy_snapshot (re_settings env) (rs_governance st)"
    and "st' \<equiv> fst (run_retention_cleanup_job env now trigger st)"
    and "failed \<equiv> ''operational_history'' \<in> set (reported_steps (snd (run_retention_cleanup_job env now trigger st)))"
  shows "(rs_audit st', rs_audit_archive st') = (if failed then (rs_audit st, rs_audit_archive st)
      else cleaned_log now (rp_audit_log_retention_days pol) (rp_audit_log_archive_retention_days pol) (rs_audit st, rs_audit_archive st))"
    "(rs_access st', rs_access_archive st') = (if failed then (rs_access st, rs_access_archive st)
      else cleaned_log now (rp_access_log_retention_days pol) (rp_access_log_archive_retention_days pol) (rs_access st, rs_access_archive st))"
    "rs_next_audit st' = rs_next_audit st" "rs_next_access st' = rs_next_access st" "rs_governance st' = rs_governance st"
proof -
  have n: "''operational_history'' \<in> set (map fst (retention_steps env now pol))" "\<not> warned ''operational_history''"
    by (simp_all add: retention_steps_def warned_def)
  have p: "pol = get_retention_policy_snapshot (re_settings env) (rs_governance st)" by (simp add: pol_def)
  show "(rs_audit st', rs_audit_archive st') = (if failed then (rs_audit st, rs_audit_archive st)
      else cleaned_log now (rp_audit_log_retention_days pol) (rp_audit_log_archive_retention_days pol) (rs_audit st, rs_audit_archive st))"
    unfolding st'_def failed_def run_parts by (rule run_turns[OF n restored_logs(1) steps_logs(1) p]) simp_all
  show "(rs_access st', rs_access_archive st') = (if failed then (rs_access st, rs_access_archive st)
      else cleaned_log now (rp_access_log_retention_days pol) (rp_access_log_archive_retention_days pol) (rs_access st, rs_access_archive st))"
    unfolding st'_def failed_def run_parts by (rule run_turns[OF n restored_logs(2) steps_logs(2) p]) simp_all
  show "rs_next_audit st' = rs_next_audit st" unfolding st'_def run_parts
    by (rule run_leaves[OF restored_logs(3) _ p]) (auto simp: leaves_def dest: kept_by_steps)
  show "rs_next_access st' = rs_next_access st" unfolding st'_def run_parts
    by (rule run_leaves[OF restored_logs(4) _ p]) (auto simp: leaves_def dest: kept_by_steps)
  show "rs_governance st' = rs_governance st" unfolding st'_def run_parts
    by (rule run_leaves[OF restored_logs(5) _ p]) (auto simp: leaves_def dest: kept_by_steps)
qed

lemma cleaned_log_ok:
  assumes "log_ok next rows archive"
  shows "log_ok next (fst (cleaned_log now d ad (rows, archive))) (snd (cleaned_log now d ad (rows, archive)))"
    "r \<in> set (rows @ archive) \<Longrightarrow> now - ad * one_day \<le> lg_created_at r
      \<Longrightarrow> r \<in> set (fst (cleaned_log now d ad (rows, archive)) @ snd (cleaned_log now d ad (rows, archive)))"
proof -
  let ?c = "now - d * one_day"
  obtain rows' archive' k where r: "archive_rows ?c rows archive = Inr (rows', archive', k)"
    using archive_rows_ok[OF assms] by blast
  have eq: "cleaned_log now d ad (rows, archive) = (rows', recent now ad archive')" using r by (simp add: cleaned_log_def)
  show "log_ok next (fst (cleaned_log now d ad (rows, archive))) (snd (cleaned_log now d ad (rows, archive)))"
    using archived_ok(1)[OF assms r] by (simp add: eq)
  show "r \<in> set (fst (cleaned_log now d ad (rows, archive)) @ snd (cleaned_log now d ad (rows, archive)))"
    if "r \<in> set (rows @ archive)" "now - ad * one_day \<le> lg_created_at r"
  proof -
    have "r \<in> set (rows' @ archive')" using that(1) archived_ok(2)[OF assms r] by metis
    then show ?thesis using that(2) by (auto simp: eq recent_def)
  qed
qed

lemma log_ok_write:
  assumes ok: "log_ok next rows archive" and r: "lg_id r = next"
  shows "log_ok (next + 1) (rows @ [r]) archive"
proof -
  have "lg_id k \<noteq> next \<and> lg_id k < next + 1" if "k \<in> set (rows @ archive)" for k
    using ok that unfolding log_ok_def by (metis less_irrefl zle_add1_eq_le order_less_imp_le)
  then show ?thesis using ok r by (auto simp: log_ok_def image_iff)
qed

lemma log_choice:
  assumes ok: "log_ok next rows archive"
    and d: "\<exists>d. (rows', archive') \<in> {(rows, archive), cleaned_log now d ad (rows, archive)}"
  shows "log_ok next rows' archive'"
    "r \<in> set (rows @ archive) \<Longrightarrow> now - ad * one_day \<le> lg_created_at r \<Longrightarrow> r \<in> set (rows' @ archive')"
proof -
  from d obtain d where c: "(rows', archive') = (rows, archive) \<or> (rows', archive') = cleaned_log now d ad (rows, archive)" by blast
  show "log_ok next rows' archive'" using c ok cleaned_log_ok(1)[OF ok, of now d ad] by (metis fst_conv snd_conv)
  show "r \<in> set (rows' @ archive')" if "r \<in> set (rows @ archive)" "now - ad * one_day \<le> lg_created_at r"
    using c that cleaned_log_ok(2)[OF ok that, of d] by (metis fst_conv snd_conv)
qed

section \<open>Histories\<close>

datatype retention_event =
    WriteAudit instant "(string \<times> py_value) list"
  | WriteAccess instant "(string \<times> py_value) list"
  | SetGovernance governance_days
  | Cleanup "string \<Rightarrow> (bool \<times> py_error) option" instant string

fun retention_step :: "retention_env \<Rightarrow> retention_store \<Rightarrow> retention_event \<Rightarrow> retention_store" where
  "retention_step env st (WriteAudit now columns) =
     st\<lparr>rs_audit := rs_audit st @ [\<lparr>lg_id = rs_next_audit st, lg_created_at = now, lg_columns = columns\<rparr>],
        rs_next_audit := rs_next_audit st + 1\<rparr>"
| "retention_step env st (WriteAccess now columns) =
     st\<lparr>rs_access := rs_access st @ [\<lparr>lg_id = rs_next_access st, lg_created_at = now, lg_columns = columns\<rparr>],
        rs_next_access := rs_next_access st + 1\<rparr>"
| "retention_step env st (SetGovernance g) = st\<lparr>rs_governance := g\<rparr>"
| "retention_step env st (Cleanup failure now trigger) =
     fst (run_retention_cleanup_job (env\<lparr>re_failure := failure\<rparr>) now trigger st)"

text \<open>No archive is kept for less than \<open>D\<close> days and no cleanup runs after \<open>T\<close>.\<close>

fun spares :: "(governance_days \<Rightarrow> int) \<Rightarrow> int \<Rightarrow> instant \<Rightarrow> retention_event \<Rightarrow> bool" where
  "spares days D T (SetGovernance g) \<longleftrightarrow> D \<le> days g"
| "spares days D T (Cleanup failure now trigger) \<longleftrightarrow> now \<le> T"
| "spares days D T _ \<longleftrightarrow> True"

definition audit_archive_days :: "governance_days \<Rightarrow> int" where
  "audit_archive_days g = coerce_positive (gd_audit_archive g) 2555"

definition access_archive_days :: "governance_days \<Rightarrow> int" where
  "access_archive_days g = coerce_positive (gd_access_archive g) 365"

definition audit_ok :: "int \<Rightarrow> retention_store \<Rightarrow> bool" where
  "audit_ok D st \<longleftrightarrow> log_ok (rs_next_audit st) (rs_audit st) (rs_audit_archive st) \<and> D \<le> audit_archive_days (rs_governance st)"

definition access_ok :: "int \<Rightarrow> retention_store \<Rightarrow> bool" where
  "access_ok D st \<longleftrightarrow> log_ok (rs_next_access st) (rs_access st) (rs_access_archive st) \<and> D \<le> access_archive_days (rs_governance st)"

definition audit_entries :: "retention_store \<Rightarrow> log_row list" where
  "audit_entries st = rs_audit st @ rs_audit_archive st"

definition access_entries :: "retention_store \<Rightarrow> log_row list" where
  "access_entries st = rs_access st @ rs_access_archive st"

lemma distinct_map_neq: "distinct (map f (xs @ y # ys)) \<Longrightarrow> \<forall>x\<in>set (xs @ ys). f x \<noteq> f y"
  by (auto simp: image_iff)

text \<open>A log with an archive, as its readers rely on it: what is younger than the archive keeps stays, whatever happens.\<close>

locale archived_log =
  fixes step :: "'s \<Rightarrow> 'e \<Rightarrow> 's"
    and inv :: "'s \<Rightarrow> bool"
    and allowed :: "'e \<Rightarrow> bool"
    and entries :: "'s \<Rightarrow> log_row list"
    and since :: instant
  assumes inv_step: "inv s \<Longrightarrow> allowed e \<Longrightarrow> inv (step s e)"
    and kept_step: "inv s \<Longrightarrow> allowed e \<Longrightarrow> r \<in> set (entries s) \<Longrightarrow> since \<le> lg_created_at r \<Longrightarrow> r \<in> set (entries (step s e))"
    and ids: "inv s \<Longrightarrow> distinct (map lg_id (entries s))"
begin

lemma inv_run: "inv s \<Longrightarrow> list_all allowed es \<Longrightarrow> inv (foldl step s es)"
  by (induction es arbitrary: s) (auto intro: inv_step)

lemma kept_run:
  "inv s \<Longrightarrow> list_all allowed es \<Longrightarrow> r \<in> set (entries s) \<Longrightarrow> since \<le> lg_created_at r \<Longrightarrow> r \<in> set (entries (foldl step s es))"
  by (induction es arbitrary: s) (auto intro: inv_step kept_step)

text \<open>Exactly one row has the key of a kept row.\<close>

lemma kept_once:
  assumes "inv s" "list_all allowed es" "r \<in> set (entries s)" "since \<le> lg_created_at r"
  shows "filter (\<lambda>k. lg_id k = lg_id r) (entries (foldl step s es)) = [r]"
proof -
  have r: "r \<in> set (entries (foldl step s es))" using assms by (rule kept_run)
  have d: "distinct (map lg_id (entries (foldl step s es)))" using assms(1,2) by (intro ids inv_run)
  from r obtain xs ys where es: "entries (foldl step s es) = xs @ r # ys" by (meson split_list)
  then have "\<forall>k\<in>set (xs @ ys). lg_id k \<noteq> lg_id r" using d by (metis distinct_map_neq)
  then show ?thesis using es by (auto simp: filter_empty_conv)
qed

end

lemma cleanup_logs:
  fixes env failure now trigger st
  defines "st' \<equiv> fst (run_retention_cleanup_job (env\<lparr>re_failure := failure\<rparr>) now trigger st)"
  shows "\<exists>d. (rs_audit st', rs_audit_archive st') \<in> {(rs_audit st, rs_audit_archive st),
      cleaned_log now d (audit_archive_days (rs_governance st)) (rs_audit st, rs_audit_archive st)}"
    "\<exists>d. (rs_access st', rs_access_archive st') \<in> {(rs_access st, rs_access_archive st),
      cleaned_log now d (access_archive_days (rs_governance st)) (rs_access st, rs_access_archive st)}"
  unfolding st'_def
  by (auto simp: run_logs audit_archive_days_def access_archive_days_def get_retention_policy_snapshot_def Let_def)

interpretation audit: archived_log "retention_step env" "audit_ok D" "spares audit_archive_days D T" audit_entries "T - D * one_day"
  for env D T
proof
  show "audit_ok D (retention_step env s e)" if "audit_ok D s" "spares audit_archive_days D T e" for s e
    using that
  proof (cases e)
    case (Cleanup failure now trigger)
    then show ?thesis using that(1) log_choice(1)[OF _ cleanup_logs(1)]
      by (simp add: audit_ok_def run_logs)
  qed (auto simp: audit_ok_def log_ok_write)
next
  show "r \<in> set (audit_entries (retention_step env s e))"
    if "audit_ok D s" "spares audit_archive_days D T e" "r \<in> set (audit_entries s)" "T - D * one_day \<le> lg_created_at r" for s e r
    using that
  proof (cases e)
    case (Cleanup failure now trigger)
    have "D * one_day \<le> audit_archive_days (rs_governance s) * one_day" using that(1) by (simp add: audit_ok_def one_day_def)
    then have "now - audit_archive_days (rs_governance s) * one_day \<le> lg_created_at r" using that(2,4) Cleanup by simp
    with that(1,3) Cleanup show ?thesis unfolding audit_ok_def audit_entries_def
      using log_choice(2)[OF _ cleanup_logs(1)] by (metis retention_step.simps(4))
  qed (auto simp: audit_entries_def)
next
  show "distinct (map lg_id (audit_entries s))" if "audit_ok D s" for s
    using that by (simp add: audit_ok_def log_ok_def audit_entries_def)
qed

interpretation access: archived_log "retention_step env" "access_ok D" "spares access_archive_days D T" access_entries "T - D * one_day"
  for env D T
proof
  show "access_ok D (retention_step env s e)" if "access_ok D s" "spares access_archive_days D T e" for s e
    using that
  proof (cases e)
    case (Cleanup failure now trigger)
    then show ?thesis using that(1) log_choice(1)[OF _ cleanup_logs(2)]
      by (simp add: access_ok_def run_logs)
  qed (auto simp: access_ok_def log_ok_write)
next
  show "r \<in> set (access_entries (retention_step env s e))"
    if "access_ok D s" "spares access_archive_days D T e" "r \<in> set (access_entries s)" "T - D * one_day \<le> lg_created_at r" for s e r
    using that
  proof (cases e)
    case (Cleanup failure now trigger)
    have "D * one_day \<le> access_archive_days (rs_governance s) * one_day" using that(1) by (simp add: access_ok_def one_day_def)
    then have "now - access_archive_days (rs_governance s) * one_day \<le> lg_created_at r" using that(2,4) Cleanup by simp
    with that(1,3) Cleanup show ?thesis unfolding access_ok_def access_entries_def
      using log_choice(2)[OF _ cleanup_logs(2)] by (metis retention_step.simps(4))
  qed (auto simp: access_entries_def)
next
  show "distinct (map lg_id (access_entries s))" if "access_ok D s" for s
    using that by (simp add: access_ok_def log_ok_def access_entries_def)
qed

section \<open>Properties of a cleanup\<close>

text \<open>C38: Whatever cleanups run, and whichever of their steps fail, an entry of the audit trail stays, unaltered and exactly
  once, in the log or in its archive for as many days as the archive is kept.\<close>

theorem audit_trail_kept:
  assumes "log_ok (rs_next_audit st) (rs_audit st) (rs_audit_archive st)" "D \<le> audit_archive_days (rs_governance st)"
    and "list_all (spares audit_archive_days D T) es"
    and "r \<in> set (rs_audit st @ rs_audit_archive st)" "T - D * one_day \<le> lg_created_at r"
  shows "filter (\<lambda>k. lg_id k = lg_id r) (audit_entries (foldl (retention_step env) st es)) = [r]"
  using assms by (intro audit.kept_once) (simp_all add: audit_ok_def audit_entries_def)

theorem access_trail_kept:
  assumes "log_ok (rs_next_access st) (rs_access st) (rs_access_archive st)" "D \<le> access_archive_days (rs_governance st)"
    and "list_all (spares access_archive_days D T) es"
    and "r \<in> set (rs_access st @ rs_access_archive st)" "T - D * one_day \<le> lg_created_at r"
  shows "filter (\<lambda>k. lg_id k = lg_id r) (access_entries (foldl (retention_step env) st es)) = [r]"
  using assms by (intro access.kept_once) (simp_all add: access_ok_def access_entries_def)

text \<open>The oldest rows are archived first, ten thousand of them in a run.\<close>

definition old_rows :: "instant \<Rightarrow> log_row list \<Rightarrow> log_row list" where
  "old_rows cutoff = filter (\<lambda>r. lg_created_at r < cutoff)"

lemma archived_oldest:
  assumes ok: "log_ok next rows archive"
    and kept: "kept = filter (\<lambda>r. r \<notin> set (oldest_rows cutoff rows)) rows"
  shows "length (old_rows cutoff kept) = length (old_rows cutoff rows) - 10000"
    "r \<in> set (old_rows cutoff kept) \<Longrightarrow> m \<in> set (oldest_rows cutoff rows) \<Longrightarrow> lg_created_at m \<le> lg_created_at r"
proof -
  define sorted_old where "sorted_old = sort_key lg_created_at (old_rows cutoff rows)"
  have m: "oldest_rows cutoff rows = take 10000 sorted_old" by (simp add: oldest_rows_def sorted_old_def old_rows_def)
  have "distinct rows" using ok by (simp add: log_ok_def distinct_map)
  then have d: "distinct (old_rows cutoff rows)" "distinct sorted_old" by (simp_all add: old_rows_def sorted_old_def)
  have "set (take 10000 sorted_old) \<inter> set (drop 10000 sorted_old) = {}" using d(2) by (simp add: set_take_disj_set_drop_if_distinct)
  moreover have "set sorted_old = set (take 10000 sorted_old) \<union> set (drop 10000 sorted_old)" by (metis append_take_drop_id set_append)
  moreover have "set (old_rows cutoff kept) = set sorted_old - set (take 10000 sorted_old)"
    by (auto simp: kept m old_rows_def sorted_old_def)
  ultimately have rest: "set (old_rows cutoff kept) = set (drop 10000 sorted_old)" by blast
  have "distinct (old_rows cutoff kept)" using \<open>distinct rows\<close> by (simp add: kept old_rows_def)
  then have "length (old_rows cutoff kept) = length (drop 10000 sorted_old)"
    using rest d(2) by (metis distinct_card distinct_drop)
  then show "length (old_rows cutoff kept) = length (old_rows cutoff rows) - 10000" by (simp add: sorted_old_def)
  have "sorted (map lg_created_at (take 10000 sorted_old @ drop 10000 sorted_old))" by (simp add: sorted_old_def)
  then have "lg_created_at m \<le> lg_created_at r" if "r \<in> set (drop 10000 sorted_old)" "m \<in> set (take 10000 sorted_old)" for m r
    using that by (simp only: map_append sorted_append set_map) blast
  then show "lg_created_at m \<le> lg_created_at r" if "r \<in> set (old_rows cutoff kept)" "m \<in> set (oldest_rows cutoff rows)"
    using that rest m by simp
qed

text \<open>C40: A cleanup that does not report its first step as failed moves the oldest entries that are due from the audit log
  to the archive, ten thousand of them if there are as many: the entries that are not due stay in the log, none of those
  left is older than one that went, and the archive has afterwards exactly the entries that it had and those that left the
  log, without the ones that are older than the policy of the archive.\<close>

theorem audit_backlog_shrinks:
  assumes "log_ok (rs_next_audit st) (rs_audit st) (rs_audit_archive st)"
    and "run_retention_cleanup_job env now trigger st = (st', summary)" "''operational_history'' \<notin> set (reported_steps summary)"
    and "pol = get_retention_policy_snapshot (re_settings env) (rs_governance st)"
    and "cutoff = now - rp_audit_log_retention_days pol * one_day"
  shows "length (old_rows cutoff (rs_audit st')) = length (old_rows cutoff (rs_audit st)) - 10000
    \<and> (\<forall>r\<in>set (old_rows cutoff (rs_audit st')). \<forall>m\<in>set (rs_audit st) - set (rs_audit st'). lg_created_at m \<le> lg_created_at r)
    \<and> filter (\<lambda>r. cutoff \<le> lg_created_at r) (rs_audit st') = filter (\<lambda>r. cutoff \<le> lg_created_at r) (rs_audit st)
    \<and> set (rs_audit st') \<subseteq> set (rs_audit st)
    \<and> set (rs_audit_archive st') = {r \<in> set (rs_audit_archive st) \<union> (set (rs_audit st) - set (rs_audit st')).
        now - rp_audit_log_archive_retention_days pol * one_day \<le> lg_created_at r}"
proof -
  have "(rs_audit st', rs_audit_archive st') = cleaned_log now (rp_audit_log_retention_days pol)
      (rp_audit_log_archive_retention_days pol) (rs_audit st, rs_audit_archive st)"
    using run_logs(1)[of env now trigger st] assms(2-4) by simp
  then have eq: "rs_audit st' = filter (\<lambda>r. r \<notin> set (oldest_rows cutoff (rs_audit st))) (rs_audit st)"
    "rs_audit_archive st' = recent now (rp_audit_log_archive_retention_days pol) (rs_audit_archive st @ oldest_rows cutoff (rs_audit st))"
    using archive_rows_ok[OF assms(1), of cutoff] assms(5) by (simp_all add: cleaned_log_def)
  have due: "r \<in> set (rs_audit st) \<and> lg_created_at r < cutoff" if "r \<in> set (oldest_rows cutoff (rs_audit st))" for r
    using that by (auto simp: oldest_rows_def dest: in_set_takeD)
  then have gone: "set (rs_audit st) - set (rs_audit st') = set (oldest_rows cutoff (rs_audit st))"
    unfolding eq(1) by auto
  have "filter (\<lambda>r. cutoff \<le> lg_created_at r) (rs_audit st') = filter (\<lambda>r. cutoff \<le> lg_created_at r) (rs_audit st)"
    unfolding eq(1) filter_filter by (rule filter_cong) (use due in force)+
  moreover have "set (rs_audit st') \<subseteq> set (rs_audit st)" unfolding eq(1) by auto
  moreover have "set (rs_audit_archive st') = {r \<in> set (rs_audit_archive st) \<union> (set (rs_audit st) - set (rs_audit st')).
        now - rp_audit_log_archive_retention_days pol * one_day \<le> lg_created_at r}"
    unfolding gone eq(2) by (auto simp: recent_def)
  ultimately show ?thesis using archived_oldest[OF assms(1) eq(1)] gone by blast
qed

definition closing :: "retention_env \<Rightarrow> instant \<Rightarrow> retention_policy \<Rightarrow> tracked_session list \<Rightarrow> tracked_session list" where
  "closing env now pol = map (\<lambda>s. if expired_session (now - rp_user_session_retention_days pol * one_day) s
     then close_session (now - rp_user_session_retention_days pol * one_day) s else s)"

lemma steps_sessions:
  assumes "s \<in> set (retention_steps env now pol)"
  shows "if fst s = ''user_sessions'' then turns rs_sessions (closing env now pol) s else leaves rs_sessions s"
  using assms by (auto simp: retention_steps_def turns_def leaves_def closing_def step_simps dest!: minus_delta_Inr)

lemma close_session_facts:
  "sess_ended_at (close_session c s) = Some (max (sess_started_at s) (case sess_expires_at s of None \<Rightarrow> c | Some e \<Rightarrow> min e c))"
  "session_live t (Some (session_row.truncate (close_session c s))) = session_live t (Some (session_row.truncate s))"
  by (auto simp: close_session_def session_live_def session_row.defs Let_def split: option.splits)

text \<open>A cleanup closes exactly the open sessions that have not been seen for as long as the policy says, if its step
  works; a closed session ends between its start and the age limit, and it is as good for a request as it was before.\<close>

theorem sessions_closed:
  assumes "run_retention_cleanup_job env now trigger st = (st', summary)"
    and "cutoff = now - rp_user_session_retention_days (get_retention_policy_snapshot (re_settings env) (rs_governance st)) * one_day"
  shows "list_all2 (\<lambda>s s'.
      (if ''user_sessions'' \<in> set (reported_steps summary) \<or> \<not> expired_session cutoff s then s' = s
       else \<exists>e. sess_ended_at s' = Some e \<and> sess_started_at s \<le> e \<and> e \<le> max (sess_started_at s) cutoff)
      \<and> (\<forall>t. session_live t (Some (session_row.truncate s')) = session_live t (Some (session_row.truncate s))))
    (rs_sessions st) (rs_sessions st')"
proof -
  let ?pol = "get_retention_policy_snapshot (re_settings env) (rs_governance st)"
  have n: "''user_sessions'' \<in> set (map fst (retention_steps env now ?pol))" "\<not> warned ''user_sessions''" "restored rs_sessions"
    by (simp_all add: retention_steps_def warned_def restored_def rollback_def)
  have "rs_sessions st' = (if ''user_sessions'' \<in> set (reported_steps summary) then rs_sessions st else closing env now ?pol (rs_sessions st))"
    using run_turns[where f=rs_sessions and g="closing env now ?pol" and st=st and trigger=trigger, OF n steps_sessions refl] run_parts(9,11)[of env now trigger st] assms(1) by simp
  then show ?thesis
    using assms(2) close_session_facts
    by (auto simp: closing_def list_all2_conv_all_nth max_def split: option.splits)
qed

text \<open>Evidence that was cleared is cleared again, and counted again, by every later run.\<close>

lemma evidence_cleared_again:
  assumes "old_evidence cutoff r" "cutoff \<le> cutoff'"
  shows "filter (old_evidence cutoff') (clear_evidence cutoff [r]) = [r\<lparr>ev_json := Some PNone\<rparr>]"
  using assms by (auto simp: clear_evidence_def old_evidence_def split: option.splits)

text \<open>The number of days that the administrators set for the audit log has no effect.\<close>

lemma governance_audit_days_ignored:
  "re_settings env ''audit_event_retention_days'' = Some d
    \<Longrightarrow> rp_audit_log_retention_days (get_retention_policy_snapshot (re_settings env) g) = max d 1"
  by (simp add: get_retention_policy_snapshot_def positive_def Let_def)

section \<open>An example\<close>

definition demo_day :: "int \<Rightarrow> instant" where
  "demo_day n = 1700000000000000 + n * one_day"

definition demo_retention_env :: retention_env where
  "demo_retention_env = \<lparr>re_exports = demo_export_env, re_settings = (\<lambda>n. if n = ''audit_event_retention_days'' then Some 730 else None),
     re_failure = (\<lambda>_. None), re_unreadable = {}\<rparr>"

definition demo_entry :: "int \<Rightarrow> instant \<Rightarrow> log_row" where
  "demo_entry i t = \<lparr>lg_id = i, lg_created_at = t, lg_columns = [(''action'', PStr ''update'')]\<rparr>"

definition demo_session :: "string \<Rightarrow> instant \<Rightarrow> tracked_session" where
  "demo_session jti seen = \<lparr>sess_user_id = 1, sess_jti = jti, sess_started_at = demo_day 0, sess_expires_at = Some (demo_day 1000),
     sess_ended_at = None, sess_end_reason = None, sess_duration_seconds = None, sess_revoked_at = None, sess_mfa_used = False,
     us_last_seen_at = seen\<rparr>"

definition demo_retention :: retention_store where
  "demo_retention = \<lparr>rs_audit = [demo_entry 1 (demo_day 0), demo_entry 2 (demo_day 790)], rs_audit_archive = [], rs_next_audit = 3,
     rs_access = [demo_entry 1 (demo_day 0)], rs_access_archive = [], rs_next_access = 2, rs_tables = (\<lambda>_. [demo_entry 1 (demo_day 0)]),
     rs_sessions = [demo_session ''a'' (demo_day 1), demo_session ''b'' (demo_day 700)], rs_incidents = [], rs_incident_events = [],
     rs_exports = demo_exports, rs_tmp = [], rs_governance = \<lparr>gd_audit = Some 30, gd_audit_archive = None, gd_access = None,
       gd_access_archive = None, gd_usage = None, gd_click = None\<rparr>, rs_runs = []\<rparr>"

definition demo_events :: "retention_event list" where
  "demo_events = [Cleanup (\<lambda>_. None) (demo_day 800) ''scheduler'', WriteAudit (demo_day 801) [],
     Cleanup (\<lambda>n. if n = ''user_sessions'' then Some (True, RuntimeError ''lost'') else None) (demo_day 900) ''manual'']"

lemmas demo_defs = demo_retention_def demo_retention_env_def demo_entry_def demo_day_def demo_events_def demo_session_def one_day_def

lemma demo_log_ok: "log_ok (rs_next_audit demo_retention) (rs_audit demo_retention) (rs_audit_archive demo_retention)"
  by (simp add: demo_defs log_ok_def)

theorem audit_trail_kept_witness:
  "filter (\<lambda>k. lg_id k = 1) (audit_entries (foldl (retention_step demo_retention_env) demo_retention demo_events)) = [demo_entry 1 (demo_day 0)]"
  using audit_trail_kept[OF demo_log_ok, of 2000 "demo_day 900" demo_events "demo_entry 1 (demo_day 0)" demo_retention_env]
  by (simp add: demo_defs audit_archive_days_def coerce_positive_def)

lemma demo_reported:
  "reported_steps (snd (run_retention_cleanup_job demo_retention_env (demo_day 800) ''scheduler'' demo_retention)) = []"
  by code_simp

theorem audit_backlog_shrinks_witness:
  "length (old_rows (demo_day 70) (rs_audit (fst (run_retention_cleanup_job demo_retention_env (demo_day 800) ''scheduler'' demo_retention)))) = 0"
proof -
  have c: "demo_day 70 = demo_day 800 - rp_audit_log_retention_days
      (get_retention_policy_snapshot (re_settings demo_retention_env) (rs_governance demo_retention)) * one_day"
    by (simp add: demo_defs get_retention_policy_snapshot_def positive_def Let_def)
  have r: "''operational_history'' \<notin> set (reported_steps (snd (run_retention_cleanup_job demo_retention_env (demo_day 800) ''scheduler'' demo_retention)))"
    by (simp add: demo_reported)
  have "length (old_rows (demo_day 70) (rs_audit demo_retention)) = 1" by (simp add: old_rows_def demo_defs)
  with audit_backlog_shrinks[OF demo_log_ok prod.collapse[symmetric] r refl c] show ?thesis by simp
qed

theorem sessions_closed_witness:
  "list_all2 (\<lambda>s s'. if expired_session (demo_day 435) s then sess_ended_at s' \<noteq> None else s' = s)
     (rs_sessions demo_retention) (rs_sessions (fst (run_retention_cleanup_job demo_retention_env (demo_day 800) ''scheduler'' demo_retention)))
   \<and> expired_session (demo_day 435) (demo_session ''a'' (demo_day 1))"
proof
  have "demo_day 435 = demo_day 800 - rp_user_session_retention_days
      (get_retention_policy_snapshot (re_settings demo_retention_env) (rs_governance demo_retention)) * one_day"
    by (simp add: demo_defs get_retention_policy_snapshot_def positive_def Let_def)
  from sessions_closed[OF prod.collapse[symmetric] this, of "''scheduler''"]
  show "list_all2 (\<lambda>s s'. if expired_session (demo_day 435) s then sess_ended_at s' \<noteq> None else s' = s)
     (rs_sessions demo_retention) (rs_sessions (fst (run_retention_cleanup_job demo_retention_env (demo_day 800) ''scheduler'' demo_retention)))"
    by (rule list_all2_mono) (auto simp: demo_reported split: if_splits)
  show "expired_session (demo_day 435) (demo_session ''a'' (demo_day 1))"
    by (simp add: expired_session_def demo_defs)
qed

end
