(* ===== verification/Spec2Isabelle.thy ===== *)
theory Spec2Isabelle
  imports Auth AccessControl ExternalApi Certification ChangeRequests Scheduler DqIncidents Contracts Scoring Stewardship LineageGraph Retention
begin

text \<open>
  \<^bold>\<open>t2c-data-backend\<close>, the backend of a data catalog (\<open>src/src/t2c_data/\<close>): accounts and access to metadata,
  external API keys, certification and change requests of tables, the queue of integration jobs and the schedulers
  that fill it, the redaction of what is logged, exported and shown, incidents, data contracts, scores, the decisions
  of stewards, the lineage of tables, exports and their files, and what is deleted when.

  \<^bold>\<open>Parts of the program and the theories that model them.\<close>

    \<^item> \<open>Prelude\<close>: results with errors (\<open>py_error + 'a\<close>), Python strings (Latin-1 texts), \<open>int()\<close>, \<open>round()\<close>,
      dictionaries in insertion order, \<open>order_by\<close> with nulls last and descending keys, and the locales
      \<open>invariant_machine\<close> (an invariant that every event keeps holds after every history) and \<open>frozen_rows\<close>.
    \<^item> \<open>Models\<close>: rows of \<open>models/auth.py\<close>, \<open>models/catalog.py\<close>, JSON values, instants.
    \<^item> \<open>Rbac\<close> (\<open>core/rbac.py\<close>), \<open>Guard\<close> (\<open>core/deps.py\<close>), \<open>Totp\<close> (\<open>core/security.py\<close>,
      \<open>features/auth/password_policy.py\<close>), \<open>Auth\<close> (\<open>api/auth.py\<close>, \<open>api/me.py\<close>, \<open>api/admin_routes/users.py\<close>,
      \<open>services/user_activity_tracker.py\<close>): accounts, sessions, login with a second factor, the guard of every request.
      \<open>Auth.login\<close> issues the token that \<open>Guard.get_current_user\<close> checks.
    \<^item> \<open>Visibility\<close> (\<open>features/platform/visibility.py\<close>), \<open>Privacy\<close> (\<open>features/privacy_access/policy.py\<close>),
      \<open>AccessControl\<close> (\<open>features/access_control\<close>): who sees a table.  The three decisions are combined by
      \<open>AccessControl.can_view_table\<close> as the code combines them.
    \<^item> \<open>Regexp\<close>, \<open>Redaction\<close> (\<open>core/redaction.py\<close>), \<open>SensitiveData\<close> (\<open>features/platform/sensitive_data.py\<close>,
      payload masks of \<open>features/platform/visibility.py\<close>): what is kept of secrets and personal data.
    \<^item> \<open>JobDiagnostics\<close>, \<open>Jobs\<close> (\<open>features/platform/job_diagnostics.py\<close>, \<open>jobs.py\<close>): the queue.
    \<^item> \<open>Calendar\<close>, \<open>Schedule\<close> (\<open>features/data_quality/schedule_utils.py\<close>), \<open>Scheduler\<close>
      (\<open>features/datasource/schedules.py\<close>, \<open>scheduler.py\<close>, \<open>features/scanner/application.py\<close>,
      \<open>features/data_quality/scheduler.py\<close>): recurring schedules and the cycles that put due work into the queue.
    \<^item> \<open>IpRules\<close>, \<open>ApiScopes\<close>, \<open>ApiKeys\<close> (\<open>features/platform/api_keys.py\<close>, \<open>api/platform.py\<close>), \<open>ExternalApi\<close>
      (\<open>core/external_auth.py\<close>, \<open>core/rate_limit.py\<close>): keys of the external API and the requests made with them.
    \<^item> \<open>Certification\<close> (\<open>features/certification/api_support.py\<close>, \<open>api/certification.py\<close>) and \<open>ChangeRequests\<close>
      (\<open>features/governance/change_management.py\<close>): the life cycles of a table's certification and of requests to
      change metadata.
    \<^item> \<open>Incidents\<close> (\<open>features/incidents\<close>, \<open>api/incidents.py\<close>) and \<open>DqIncidents\<close>
      (\<open>features/data_quality/incidents.py\<close>): incidents, their events, and those that a profiling or a violated rule
      opens or refreshes.
    \<^item> \<open>Contracts\<close> (\<open>features/data_contracts/service.py\<close>): versions of the contract of a table and their validation.
    \<^item> \<open>Floats\<close> (numbers of 53 bits, rounded to even), \<open>Scoring\<close> (\<open>features/governance/scoring.py\<close>, the trust and
      priority scores): the computations in the order and with the roundings of the code.
    \<^item> \<open>Stewardship\<close> (\<open>features/stewardship/workflow.py\<close>, \<open>api/stewardship.py\<close>): requests and decisions about a
      table, on top of \<open>Certification\<close> and \<open>Models\<close>.
    \<^item> \<open>Lineage\<close> (\<open>features/lineage/persistence.py\<close>, \<open>versioning.py\<close>, \<open>openlineage_persistence.py\<close>,
      \<open>spec_actions.py\<close>, \<open>visibility.py\<close>) and \<open>LineageGraph\<close> (\<open>graph_summary.py\<close>, \<open>table_summary.py\<close>, the
      search of \<open>features/metabase/service.py\<close>): assets, relations, their versions, and what is read from them.
    \<^item> \<open>Exports\<close> (\<open>features/export_security.py\<close>, \<open>features/pagination.py\<close>): pages, limits and permissions of an
      export, and what is written into its cells, on top of \<open>SensitiveData\<close> and \<open>Guard\<close>.
    \<^item> \<open>ExportJobs\<close> (\<open>features/export_jobs.py\<close>, \<open>api/exports.py\<close>, the exports of \<open>POST /platform/jobs/run\<close>): an export
      from the request over the queue of \<open>Jobs\<close> and the worker to the file, its download and its expiry.
    \<^item> \<open>Retention\<close> (\<open>features/platform/retention.py\<close>, \<open>retention_policy.py\<close>, \<open>maintenance.py\<close>): the cleanup job, its steps
      that fail alone, the archives of the audit and access logs, and the files it deletes.

  \<^bold>\<open>State and operations.\<close>  A table of the data base is a list of records in the order of its primary key, a component's
  state a record of such lists with the next keys; an operation takes the state and returns it updated, or an error
  (\<open>HTTPException\<close> with status and detail, or the exception Python raises).  An operation that raises before its
  commit leaves the state as it was.  A handler reads the clock once; instants are microseconds since the epoch in
  UTC, floating point numbers rationals, rounded as the machine rounds in \<open>Scoring\<close>.  Details of errors and other Portuguese texts are written without accents.

  \<^bold>\<open>Lemmas.\<close>  Each component has the facts of its operations (one branch each), an invariant with one preservation
  lemma per operation and its interpretation of \<open>invariant_machine\<close> (\<open>Auth.auth\<close>, \<open>Auth.counter\<close>, \<open>Jobs.queue\<close>,
  \<open>ApiKeys.keys\<close>, \<open>Scheduler.scans\<close>, \<open>Lineage.lineage\<close>, \<open>ExportJobs.exports\<close> and others), of \<open>frozen_rows\<close>
  (\<open>ChangeRequests.requests\<close>) or of \<open>archived_log\<close> (\<open>Retention.audit\<close>, \<open>Retention.access\<close>), and the properties, named C1 to C40, with a witness for each that has a hypothesis;
  further theorems carry no number.  \<open>Schedule\<close> relates the computed next run to an abstract calendar,
  \<open>ChangeRequests\<close> the stored events to an abstract life cycle, \<open>LineageGraph\<close> the search to the reachable assets,
  \<open>AccessControl\<close> the decision on a table to an account of it over the raw rows of users, grants and rules.

  \<^bold>\<open>Bounds.\<close>  No definition uses fuel.  The loops of the sources end by a measure: \<open>Schedule.advance_past\<close> by the
  distance to the reference, \<open>Regexp.star_out\<close> by the length of the text; \<open>Schedule.search_months\<close> is the source's
  loop of 15 months, and a lemma shows that 15 are enough.  The queue of \<open>LineageGraph.collect_catalog_tables\<close> is a
  \<open>while_option\<close> that is shown to return, by the assets not seen yet.

  \<^bold>\<open>Parameters.\<close>  Code outside the sources: password hashing and the keyed digest, random texts, the time zone
  data base, the texts of instants in job payloads, the next expected run of a job, correlation ids, whether the
  gateway of data quality runs accepts a rule, the digest and the builders of export files with the texts of their
  errors, the temporary directory, and which step of a cleanup the data base lets fail and which files cannot be read
  or deleted.  PyJWT is a parameter too: the claims of a token are those of \<open>Auth.create_access_token\<close>, their
  signature is not modelled, and verification gives the claims of a token or nothing at each instant;
  \<open>Auth.login_authenticates\<close> assumes that it does so from \<open>iat\<close> until \<open>exp\<close>.  Named hypotheses state what the code
  relies on.

  \<^bold>\<open>Not modelled.\<close>  Connectors, Spark and the client of Metabase (processes and services outside the sources); dashboards, search,
  assistant, timeline and the read models of integrations (aggregating queries and texts); notifications and mail;
  workbooks and file formats; start of the process, sessions of the data base, logs and metrics; the schemas, except
  the bodies that modelled operations read.  The manifest lists every part with its reason.
\<close>

end
